(* ===== verification/Prelude.thy ===== *)
theory Prelude
  imports Main "HOL-Library.Multiset"
begin

text \<open>
  Shared vocabulary of the development: results that may be an exception, the loops and the
  transaction shape the services are written with, and tables of rows with a primary key.

  A service of the program either raises or returns. Its model is a value of a sum type,
  \<open>Inl e\<close> for the exception and \<open>Inr\<close> for the value (with the new database state where the
  service writes). \<open>try_then\<close> sequences two such steps: the first exception ends the run,
  which is what an uncaught \<open>raise\<close> does.
\<close>

section \<open>Results\<close>

named_theorems ok_iff \<open>when a composed step returns normally\<close>

definition try_then :: "'e + 'a \<Rightarrow> ('a \<Rightarrow> 'e + 'b) \<Rightarrow> 'e + 'b" where
  "try_then m f = (case m of Inl e \<Rightarrow> Inl e | Inr x \<Rightarrow> f x)"

definition require :: "bool \<Rightarrow> 'e \<Rightarrow> 'e + unit" where
  "require b e = (if b then Inr () else Inl e)"

definition of_option :: "'e \<Rightarrow> 'a option \<Rightarrow> 'e + 'a" where
  "of_option e x = (case x of None \<Rightarrow> Inl e | Some y \<Rightarrow> Inr y)"

lemma try_then_simps [simp]:
  "try_then (Inl e) f = Inl e"
  "try_then (Inr x) f = f x"
  by (simp_all add: try_then_def)

lemma require_simps [simp]:
  "require True e = Inr ()"
  "require False e = Inl e"
  by (simp_all add: require_def)

lemma of_option_simps [simp]:
  "of_option e None = Inl e"
  "of_option e (Some x) = Inr x"
  by (simp_all add: of_option_def)

lemma try_then_cong [fundef_cong]:
  "m = m' \<Longrightarrow> (\<And>x. m' = Inr x \<Longrightarrow> f x = f' x) \<Longrightarrow> try_then m f = try_then m' f'"
  by (cases m') auto

lemma try_then_Inr [ok_iff]: "try_then m f = Inr y \<longleftrightarrow> (\<exists>x. m = Inr x \<and> f x = Inr y)"
  by (cases m) auto

lemma try_then_Inl:
  "try_then m f = Inl e \<longleftrightarrow> m = Inl e \<or> (\<exists>x. m = Inr x \<and> f x = Inl e)"
  by (cases m) auto

lemma require_Inr [ok_iff]: "require b e = Inr u \<longleftrightarrow> b"
  by (simp add: require_def)

lemma require_Inl: "require b e = Inl e' \<longleftrightarrow> \<not> b \<and> e' = e"
  by (auto simp: require_def)

lemma of_option_Inr [ok_iff]: "of_option e x = Inr y \<longleftrightarrow> x = Some y"
  by (cases x) auto

lemma of_option_Inl: "of_option e x = Inl e' \<longleftrightarrow> x = None \<and> e' = e"
  by (cases x) auto

lemma if_Inl_Inr [ok_iff]: "(if b then Inl e else r) = Inr y \<longleftrightarrow> \<not> b \<and> r = Inr y"
  by simp

lemma split_Inr [ok_iff]: "(case p of (a, b) \<Rightarrow> f a b) = Inr y \<longleftrightarrow> f (fst p) (snd p) = Inr y"
  by (cases p) simp

lemmas err_iff = try_then_Inl require_Inl of_option_Inl

section \<open>Outcomes\<close>

text \<open>
  \<open>yields P E m\<close>: the step \<open>m\<close> either returns a value with \<open>P\<close> or raises an exception with
  \<open>E\<close>. The equations compute it through the constructs the services are written with; the
  collection \<open>wp\<close> holds, for each primitive, what to show of the states it can lead to.
\<close>

definition yields :: "('a \<Rightarrow> bool) \<Rightarrow> ('e \<Rightarrow> bool) \<Rightarrow> 'e + 'a \<Rightarrow> bool" where
  "yields P E m = (case m of Inl e \<Rightarrow> E e | Inr x \<Rightarrow> P x)"

named_theorems wp \<open>conditions under which a step has the wanted outcome\<close>

lemma yields_simps [simp]:
  "yields P E (Inl e) = E e"
  "yields P E (Inr x) = P x"
  "yields P E (try_then m f) = yields (\<lambda>x. yields P E (f x)) E m"
  "yields Q E (require b e) = (if b then Q () else E e)"
  "yields P E (of_option e o') = (case o' of None \<Rightarrow> E e | Some x \<Rightarrow> P x)"
  by (auto simp: yields_def try_then_def split: sum.splits option.splits)

lemma yields_if [simp]:
  "yields P E (if b then m else m') \<longleftrightarrow> (b \<longrightarrow> yields P E m) \<and> (\<not> b \<longrightarrow> yields P E m')"
  by simp

lemma yields_prod [simp]:
  "yields P E (case p of (a, b) \<Rightarrow> f a b) = yields P E (f (fst p) (snd p))"
  by (cases p) simp

lemma yields_mono:
  assumes "yields P E m" and "\<And>x. P x \<Longrightarrow> Q x" and "\<And>e. E e \<Longrightarrow> F e"
  shows "yields Q F m"
  using assms by (cases m) auto

lemma yields_Inr: "yields P E m \<Longrightarrow> m = Inr x \<Longrightarrow> P x"
  by simp

lemma yields_Inl: "yields P E m \<Longrightarrow> m = Inl e \<Longrightarrow> E e"
  by simp

lemma yieldsI: "(\<And>x. m = Inr x \<Longrightarrow> P x) \<Longrightarrow> (\<And>e. m = Inl e \<Longrightarrow> E e) \<Longrightarrow> yields P E m"
  by (cases m) auto

lemma yields_conj: "yields P E m \<Longrightarrow> yields Q F m \<Longrightarrow> yields (\<lambda>x. P x \<and> Q x) (\<lambda>e. E e \<and> F e) m"
  by (cases m) auto

section \<open>Loops\<close>

text \<open>A \<open>for\<close> loop over a list whose body updates the state or raises.\<close>

fun for_each :: "('x \<Rightarrow> 's \<Rightarrow> 'e + 's) \<Rightarrow> 'x list \<Rightarrow> 's \<Rightarrow> 'e + 's" where
  "for_each f [] s = Inr s"
| "for_each f (x # xs) s = try_then (f x s) (for_each f xs)"

text \<open>A loop that only checks, or that builds a list.\<close>

fun collect :: "('x \<Rightarrow> 'e + 'y) \<Rightarrow> 'x list \<Rightarrow> 'e + 'y list" where
  "collect f [] = Inr []"
| "collect f (x # xs) =
     try_then (f x) (\<lambda>y. try_then (collect f xs) (\<lambda>ys. Inr (y # ys)))"

lemma for_each_inv:
  assumes "for_each f xs s = Inr t" and "I s"
    and "\<And>x u v. x \<in> set xs \<Longrightarrow> I u \<Longrightarrow> f x u = Inr v \<Longrightarrow> I v"
  shows "I t"
  using assms
proof (induction xs arbitrary: s)
  case Nil
  then show ?case by simp
next
  case (Cons x xs)
  from Cons.prems(1) obtain u where u: "f x s = Inr u" "for_each f xs u = Inr t"
    by (auto simp: ok_iff)
  have "I u" using Cons.prems(2,3) u(1) by auto
  then show ?case using Cons.IH [OF u(2)] Cons.prems(3) by auto
qed

text \<open>The errors a loop can raise are those its body raises while the invariant holds.\<close>

lemma for_each_Inl:
  assumes "for_each f xs s = Inl e" and "I s"
    and "\<And>x u v. x \<in> set xs \<Longrightarrow> I u \<Longrightarrow> f x u = Inr v \<Longrightarrow> I v"
  shows "\<exists>x \<in> set xs. \<exists>u. I u \<and> f x u = Inl e"
  using assms
proof (induction xs arbitrary: s)
  case Nil
  then show ?case by simp
next
  case (Cons x xs)
  show ?case
  proof (cases "f x s")
    case (Inl e')
    with Cons.prems show ?thesis by auto
  next
    case (Inr u)
    with Cons.prems have "for_each f xs u = Inl e" and "I u" by auto
    then show ?thesis using Cons.IH Cons.prems(3) by (metis list.set_intros(2))
  qed
qed

text \<open>A relation between the states before and after that every step keeps, and that chains.\<close>

lemma for_each_rel:
  assumes "for_each f xs s = Inr t" and "\<And>u. R u u"
    and "\<And>u v w. R u v \<Longrightarrow> R v w \<Longrightarrow> R u w"
    and "\<And>x u v. x \<in> set xs \<Longrightarrow> f x u = Inr v \<Longrightarrow> R u v"
  shows "R s t"
proof -
  have "R s t" if "for_each f xs s = Inr t" "R s s"
    using that(1,2) by (rule for_each_inv [where I = "R s"]) (blast intro: assms(3,4))
  then show ?thesis using assms(1,2) by blast
qed

lemma for_each_yields:
  assumes "I s" and "\<And>x u. x \<in> set xs \<Longrightarrow> I u \<Longrightarrow> yields I E (f x u)"
  shows "yields I E (for_each f xs s)"
  using assms
proof (induction xs arbitrary: s)
  case (Cons x xs)
  have "yields I E (f x s)" using Cons.prems by auto
  then show ?case by (auto elim!: yields_mono intro!: Cons.IH Cons.prems(2))
qed simp

text \<open>A measure every iteration changes by a known amount.\<close>

lemma for_each_sum:
  fixes m :: "'s \<Rightarrow> int"
  assumes "for_each f xs s = Inr t" and "I s"
    and "\<And>x u v. x \<in> set xs \<Longrightarrow> I u \<Longrightarrow> f x u = Inr v \<Longrightarrow> I v \<and> m v = m u + d x"
  shows "m t = m s + sum_list (map d xs)"
  using assms
proof (induction xs arbitrary: s)
  case (Cons x xs)
  from Cons.prems(1) obtain u where u: "f x s = Inr u" "for_each f xs u = Inr t"
    by (auto simp: ok_iff)
  have "I u" "m u = m s + d x" using Cons.prems(3) [OF _ Cons.prems(2) u(1)] by auto
  moreover have "m t = m u + sum_list (map d xs)"
    using u(2) \<open>I u\<close> by (rule Cons.IH) (use Cons.prems(3) in auto)
  ultimately show ?case by simp
qed simp

lemma sum_list_single:
  "distinct xs \<Longrightarrow> sum_list (map (\<lambda>x. if x = a then f x else 0) xs) = (if a \<in> set xs then f a else (0::int))"
  by (induction xs) auto

lemma for_each_append:
  "for_each f (xs @ ys) s = try_then (for_each f xs s) (for_each f ys)"
proof (induction xs arbitrary: s)
  case (Cons x xs)
  then show ?case by (cases "f x s") auto
qed simp

text \<open>
  A loop over distinct keys whose body reads and writes only what belongs to its key: each
  key is processed in the state it had before the loop, and keeps the result.
\<close>

definition touches_only :: "('x \<Rightarrow> 's \<Rightarrow> 'v) \<Rightarrow> ('x \<Rightarrow> 's \<Rightarrow> 'e + 's) \<Rightarrow> bool" where
  "touches_only look f \<longleftrightarrow> (\<forall>x y u v. f x u = Inr v \<longrightarrow> y \<noteq> x \<longrightarrow> look y v = look y u)"

lemma touches_onlyI:
  "(\<And>x y u v. f x u = Inr v \<Longrightarrow> y \<noteq> x \<Longrightarrow> look y v = look y u) \<Longrightarrow> touches_only look f"
  by (simp add: touches_only_def)

lemma touches_onlyD: "touches_only look f \<Longrightarrow> f x u = Inr v \<Longrightarrow> y \<noteq> x \<Longrightarrow> look y v = look y u"
  by (simp add: touches_only_def)

lemma for_each_distinct_yields:
  assumes "distinct xs" and "I s"
    and "\<And>x u. x \<in> set xs \<Longrightarrow> I u \<Longrightarrow> look x u = look x s \<Longrightarrow> yields I E (f x u)"
    and "touches_only look f"
  shows "yields I E (for_each f xs s)"
  using assms(1-3)
proof (induction xs arbitrary: s)
  case (Cons x xs)
  have fx: "yields I E (f x s)" using Cons.prems by auto
  show ?case
  proof (cases "f x s")
    case (Inr u)
    have "yields I E (for_each f xs u)"
    proof (rule Cons.IH)
      fix y w
      assume y: "y \<in> set xs" and w: "I w" "look y w = look y u"
      have "look y u = look y s" using Cons.prems(1) y by (intro touches_onlyD [OF assms(4) Inr]) auto
      with Cons.prems(3) [of y w] y w show "yields I E (f y w)" by simp
    qed (use Cons.prems fx Inr in auto)
    with Inr show ?thesis by simp
  qed (use fx in simp)
qed simp

lemma for_each_distinct_frame:
  assumes "for_each f xs s = Inr t" and "y \<notin> set xs"
    and "touches_only look f"
  shows "look y t = look y s"
proof (rule for_each_inv [OF assms(1), where I = "\<lambda>u. look y u = look y s"])
  fix x u v
  assume "x \<in> set xs" "look y u = look y s" "f x u = Inr v"
  moreover have "y \<noteq> x" using \<open>x \<in> set xs\<close> assms(2) by blast
  ultimately show "look y v = look y s" using touches_onlyD [OF assms(3), of x u v y] by simp
qed simp

lemma for_each_distinct_Inr:
  assumes "for_each f xs s = Inr t" and "distinct xs" and "x \<in> set xs"
    and "touches_only look f"
  shows "\<exists>u v. look x u = look x s \<and> f x u = Inr v \<and> look x t = look x v"
  using assms(1-3)
proof (induction xs arbitrary: s)
  case Nil
  then show ?case by simp
next
  case (Cons a xs)
  then obtain u where u: "f a s = Inr u" "for_each f xs u = Inr t"
    by (auto simp: ok_iff)
  show ?case
  proof (cases "x = a")
    case True
    have "look x t = look x u"
      using u(2) by (rule for_each_distinct_frame) (use True Cons.prems(2) assms(4) in auto)
    then show ?thesis using u(1) True by blast
  next
    case False
    with Cons.prems have "x \<in> set xs" "distinct xs" by auto
    from Cons.IH [OF u(2) this(2,1)] show ?thesis
      using touches_onlyD [OF assms(4) u(1) False] by simp
  qed
qed

lemma collect_Inr: "collect f xs = Inr ys \<Longrightarrow> list_all2 (\<lambda>x y. f x = Inr y) xs ys"
  by (induction xs arbitrary: ys) (auto simp: ok_iff)

lemma collect_mem: "collect f xs = Inr ys \<Longrightarrow> x \<in> set xs \<Longrightarrow> \<exists>y. f x = Inr y"
  by (induction xs arbitrary: ys) (auto simp: ok_iff)

lemma collect_length: "collect f xs = Inr ys \<Longrightarrow> length ys = length xs"
  by (auto dest!: collect_Inr list_all2_lengthD)

section \<open>Tables of rows with a primary key\<close>

text \<open>
  A database table is the list of its rows, in primary key order as they were inserted. The
  ORM's \<open>get(pk=...)\<close>, \<open>save()\<close> and \<open>create()\<close> are the three operations below; a query
  (\<open>filter\<close>, \<open>count\<close>, \<open>exists\<close>) is a list operation on the rows.
\<close>

definition row_get :: "('r \<Rightarrow> nat) \<Rightarrow> nat \<Rightarrow> 'r list \<Rightarrow> 'r option" where
  "row_get key i rows = find (\<lambda>r. key r = i) rows"

definition row_put :: "('r \<Rightarrow> nat) \<Rightarrow> 'r \<Rightarrow> 'r list \<Rightarrow> 'r list" where
  "row_put key r rows = map (\<lambda>x. if key x = key r then r else x) rows"

definition fresh_key :: "('r \<Rightarrow> nat) \<Rightarrow> 'r list \<Rightarrow> nat" where
  "fresh_key key rows = Suc (foldr max (map key rows) 0)"

definition unique_keys :: "('r \<Rightarrow> nat) \<Rightarrow> 'r list \<Rightarrow> bool" where
  "unique_keys key rows = distinct (map key rows)"

lemma row_get_Nil [simp]: "row_get key i [] = None"
  by (simp add: row_get_def)

lemma row_get_Cons: "row_get key i (r # rows) = (if key r = i then Some r else row_get key i rows)"
  by (simp add: row_get_def)

lemma row_get_SomeD: "row_get key i rows = Some r \<Longrightarrow> r \<in> set rows \<and> key r = i"
  by (induction rows) (auto simp: row_get_Cons split: if_splits)

lemma row_get_self [simp]: "row_get key i rows = Some r \<Longrightarrow> row_get key (key r) rows = Some r"
  using row_get_SomeD by fastforce

lemma row_get_None: "row_get key i rows = None \<longleftrightarrow> i \<notin> key ` set rows"
  by (induction rows) (auto simp: row_get_Cons)

lemma row_get_unique:
  "unique_keys key rows \<Longrightarrow> r \<in> set rows \<Longrightarrow> row_get key (key r) rows = Some r"
  by (induction rows) (auto simp: row_get_Cons unique_keys_def)

lemma map_key_row_put [simp]: "map key (row_put key r rows) = map key rows"
  by (simp add: row_put_def)

lemma unique_keys_row_put [simp]: "unique_keys key (row_put key r rows) = unique_keys key rows"
  by (simp add: unique_keys_def)

lemma row_get_row_put:
  "row_get key i (row_put key r rows) =
     (if i = key r then map_option (\<lambda>_. r) (row_get key i rows) else row_get key i rows)"
  by (induction rows) (auto simp: row_get_Cons row_put_def)

lemma set_row_put_subset: "set (row_put key r rows) \<subseteq> insert r (set rows)"
  by (auto simp: row_put_def)

lemma set_row_putD: "x \<in> set (row_put key r rows) \<Longrightarrow> x = r \<or> x \<in> set rows \<and> key x \<noteq> key r"
  by (auto simp: row_put_def)

lemma length_row_put [simp]: "length (row_put key r rows) = length rows"
  by (simp add: row_put_def)

lemma row_put_absent: "row_get key (key r) rows = None \<Longrightarrow> row_put key r rows = rows"
  by (induction rows) (auto simp: row_get_Cons row_put_def split: if_splits)

lemma fresh_key_greater: "r \<in> set rows \<Longrightarrow> key r < fresh_key key rows"
proof (induction rows)
  case (Cons a rows)
  then show ?case by (auto simp: fresh_key_def less_Suc_eq_le max_def)
qed simp

lemma row_get_fresh [simp]: "row_get key (fresh_key key rows) rows = None"
proof (rule ccontr)
  assume "row_get key (fresh_key key rows) rows \<noteq> None"
  then obtain r where "r \<in> set rows" "key r = fresh_key key rows"
    by (auto dest: row_get_SomeD)
  then show False using fresh_key_greater [of r rows key] by simp
qed

lemma row_get_append:
  "row_get key i (rows @ rows') =
     (case row_get key i rows of None \<Rightarrow> row_get key i rows' | Some r \<Rightarrow> Some r)"
  by (induction rows) (auto simp: row_get_Cons)

lemma unique_keys_snoc:
  "unique_keys key (rows @ [r]) \<longleftrightarrow> unique_keys key rows \<and> key r \<notin> key ` set rows"
  by (auto simp: unique_keys_def)

lemma unique_keys_fresh:
  assumes "key r = fresh_key key rows"
  shows "unique_keys key (rows @ [r]) = unique_keys key rows"
proof -
  have "key r \<notin> key ` set rows"
    unfolding assms by (rule row_get_None [THEN iffD1, OF row_get_fresh])
  then show ?thesis by (simp add: unique_keys_snoc)
qed

text \<open>The sum of a column over the rows changes by the changed row's difference.\<close>

lemma sum_list_row_put:
  fixes f :: "'r \<Rightarrow> int"
  assumes "unique_keys key rows" and "row_get key (key r) rows = Some old"
  shows "sum_list (map f (row_put key r rows)) = sum_list (map f rows) - f old + f r"
  using assms
proof (induction rows)
  case (Cons a rows)
  show ?case
  proof (cases "key a = key r")
    case True
    with Cons.prems have "old = a" by (simp add: row_get_Cons)
    moreover have "row_put key r rows = rows"
      using Cons.prems True by (intro row_put_absent) (auto simp: row_get_None unique_keys_def)
    ultimately show ?thesis using True by (simp add: row_put_def)
  next
    case False
    with Cons show ?thesis by (simp add: row_get_Cons row_put_def unique_keys_def)
  qed
qed simp

lemma row_put_map:
  "unique_keys key rows \<Longrightarrow> x \<in> set rows \<Longrightarrow> key r = key x \<Longrightarrow>
    row_put key r rows = map (\<lambda>y. if y = x then r else y) rows"
  by (auto simp: row_put_def unique_keys_def distinct_map inj_on_def)

text \<open>
  A loop over distinct rows of a table whose body rewrites the row it is given, as it was before
  the loop: the table ends with exactly those rows rewritten.
\<close>

lemma for_each_rows:
  assumes "for_each f xs s = Inr t" and "distinct xs" and "unique_keys key (tab s)"
    and "set xs \<subseteq> set (tab s)" and "\<And>x. x \<in> set xs \<Longrightarrow> key (g x) = key x"
    and "\<And>x u v. x \<in> set xs \<Longrightarrow> x \<in> set (tab u) \<Longrightarrow> unique_keys key (tab u) \<Longrightarrow> f x u = Inr v \<Longrightarrow>
      tab v = row_put key (g x) (tab u) \<or> g x = x \<and> tab v = tab u"
  shows "tab t = map (\<lambda>r. if r \<in> set xs then g r else r) (tab s)"
  using assms
proof (induction xs arbitrary: s)
  case (Cons x xs)
  from Cons.prems(1) obtain u where u: "f x s = Inr u" "for_each f xs u = Inr t"
    by (auto simp: ok_iff)
  have key: "key (g x) = key x" and x: "x \<in> set (tab s)" "x \<notin> set xs"
    using Cons.prems(2,4,5) by auto
  have tab: "tab u = map (\<lambda>y. if y = x then g x else y) (tab s)"
    using Cons.prems(6) [OF _ x(1) Cons.prems(3) u(1)] row_put_map [OF Cons.prems(3) x(1) key]
    by (auto intro!: map_idI [symmetric])
  have "map key (tab u) = map key (tab s)" using key by (simp add: tab)
  then have uniq: "unique_keys key (tab u)" using Cons.prems(3) by (simp add: unique_keys_def)
  have "set xs \<subseteq> set (tab u)"
  proof
    fix y
    assume "y \<in> set xs"
    with x(2) Cons.prems(4) have "y \<noteq> x" "y \<in> set (tab s)" by auto
    then show "y \<in> set (tab u)" by (force simp: tab)
  qed
  from Cons.IH [OF u(2) _ uniq this] Cons.prems(2,5,6)
  have t: "tab t = map (\<lambda>r. if r \<in> set xs then g r else r) (tab u)" by auto
  have "g x \<notin> set xs"
  proof
    assume "g x \<in> set xs"
    with Cons.prems(4) have "g x \<in> set (tab s)" by auto
    with x key Cons.prems(3) have "g x = x" by (auto simp: unique_keys_def distinct_map inj_on_def)
    with \<open>g x \<in> set xs\<close> x(2) show False by simp
  qed
  with x(2) show ?case by (auto simp: t tab)
qed simp

section \<open>Interfaces\<close>

text \<open>
  The interface a workflow relies on when it keeps its rows in a store: what a read returns
  after a write of the same row and of another one, and that a write changes nothing else.
\<close>

locale row_store =
  fixes get :: "nat \<Rightarrow> 's \<Rightarrow> 'r option"
    and put :: "'r \<Rightarrow> 's \<Rightarrow> 's"
    and key :: "'r \<Rightarrow> nat"
  assumes get_put: "get i (put r s) =
      (if i = key r then map_option (\<lambda>_. r) (get i s) else get i s)"
    and get_key: "get i s = Some r \<Longrightarrow> key r = i"
begin

lemma get_put_same: "get (key r) s = Some old \<Longrightarrow> get (key r) (put r s) = Some r"
  by (simp add: get_put)

lemma get_put_other: "i \<noteq> key r \<Longrightarrow> get i (put r s) = get i s"
  by (simp add: get_put)

lemma get_put_defined: "get i (put r s) = None \<longleftrightarrow> get i s = None"
  by (simp add: get_put)

lemma get_put_commute:
  "key r \<noteq> key r' \<Longrightarrow> get i (put r (put r' s)) = get i (put r' (put r s))"
  by (simp add: get_put)

lemma get_put_inv:
  assumes "\<And>i r. get i s = Some r \<Longrightarrow> P r" and "P r" and "get i (put r s) = Some q"
  shows "P q"
  using assms by (auto simp: get_put split: if_splits)

end

text \<open>
  The interface of a guarded state machine: an operation of the machine either raises, in
  which case its transaction is rolled back and the state is the one before, or it returns a
  new state. If every operation that returns keeps the invariant, then so does every run, in
  whatever order callers interleave whole transactions.
\<close>

definition attempt :: "('op \<Rightarrow> 's \<Rightarrow> 'e + 's) \<Rightarrow> 'op \<Rightarrow> 's \<Rightarrow> 's" where
  "attempt step c s = (case step c s of Inl _ \<Rightarrow> s | Inr t \<Rightarrow> t)"

locale guarded_machine =
  fixes step :: "'op \<Rightarrow> 's \<Rightarrow> 'e + 's"
    and inv :: "'s \<Rightarrow> bool"
  assumes step_inv: "inv s \<Longrightarrow> step c s = Inr t \<Longrightarrow> inv t"
begin

lemma attempt_inv: "inv s \<Longrightarrow> inv (attempt step c s)"
  by (auto simp: attempt_def intro: step_inv split: sum.split)

lemma run_inv: "inv s \<Longrightarrow> inv (fold (attempt step) cs s)"
  by (induction cs arbitrary: s) (auto intro: attempt_inv)

end

text \<open>A machine in which, besides, a relation between states is kept by every step and chains.\<close>

locale tracked_machine = guarded_machine step inv
  for step :: "'op \<Rightarrow> 's \<Rightarrow> 'e + 's" and inv :: "'s \<Rightarrow> bool" +
  fixes rel :: "'s \<Rightarrow> 's \<Rightarrow> bool"
  assumes rel_refl: "rel s s"
    and rel_trans: "rel s t \<Longrightarrow> rel t u \<Longrightarrow> rel s u"
    and step_rel: "inv s \<Longrightarrow> step c s = Inr t \<Longrightarrow> rel s t"
begin

lemma attempt_rel: "inv s \<Longrightarrow> rel s (attempt step c s)"
  by (auto simp: attempt_def intro: step_rel rel_refl split: sum.split)

lemma run_rel: "inv s \<Longrightarrow> rel s (fold (attempt step) cs s)"
proof (induction cs arbitrary: s)
  case Nil
  show ?case by (simp add: rel_refl)
next
  case (Cons c cs)
  have "rel s (attempt step c s)" using Cons.prems by (rule attempt_rel)
  moreover have "rel (attempt step c s) (fold (attempt step) cs (attempt step c s))"
    using Cons.prems by (intro Cons.IH attempt_inv)
  ultimately show ?case by (simp add: rel_trans)
qed

end

end
