(* ===== verification/Lending_Db.thy ===== *)
theory Lending_Db
  imports Prelude
begin

text \<open>
  The rows and the database state the lending services work on: inventory products and unit
  assets (\<open>inventory/models.py\<close>), boxes and QR codes (\<open>boxes/models.py\<close>), hardware requests
  with their items, asset links, loans, return events and accountability records
  (\<open>hardware_requests/\<close>), evidence photos (\<open>evidence/models.py\<close>), and the
  append-only ledgers the services write (audit log, inventory adjustments, notifications).

  A Python exception class is a constructor of \<open>exn\<close>; messages are not modelled. Primary keys
  are naturals, quantities are integers (Python's, checked against the column when a row is
  saved), instants are integers in seconds, and a nullable foreign key is an option. The columns
  \<open>created_at\<close> and \<open>updated_at\<close> are stamped by the ORM; they are left out where no service
  reads them.
\<close>

section \<open>Exceptions\<close>

datatype exn =
    RuntimeError | KeyError | ValueError | DoesNotExist | Http404
  | IntegrityError | DataError
  | InsufficientStock | TrackingModeChangeRefused
  | InvalidTransition | RequesterBlocked | RequestValidationError
  | AnonymousRequestIdempotencyConflict | AnonymousRequestOutstandingLimit
  | ReturnValidationError | BoxValidationError | BoxUnavailable | EvidenceNotUploaded
  | ValidationError | PermissionDenied | PiiWriteFenced | FinalizationInProgress
  | EvidenceObjectValidationError string
  | StorageUnavailable | BookingInvalidTransition | BookingConflict
  | MemberPresenceRequired | BookerNamesRequiresAvailability
  | PaymentsUnavailable | PaymentConflict "nat list" | PaymentRailConflict | NotFound | DatabaseError
  | EventInvalidTransition | CapacityConflict | RegistrationClosed | RegistrationRejected
  | DuplicateRegistration string | DuplicateCheckInOperation | FeedbackIneligible | FeedbackConflict
  | CertificateStorageUnavailable | StationSecretUnavailable | TypeError
  | ServiceInvalidTransition | ServiceMachineUnavailable | ServiceInsufficientStock | ServiceConsumptionInvalid
  | DecimalInvalidOperation

section \<open>Choices of the models\<close>

datatype tracking_mode = QUANTITY | INDIVIDUAL

datatype asset_status = AVAILABLE | RESERVED | ISSUED | DAMAGED | LOST | RETIRED | MAINTENANCE

datatype request_status =
    Draft | PendingApproval | Rejected | Accepted | Cancelled | Issued
  | PartiallyReturned | Returned | ClosedWithIssue

datatype link_outcome = LinkIssued | LinkReturned | LinkDamaged | LinkLost

datatype issue_type = IssueDamaged | IssueMissing

datatype qr_target = TargetBox | TargetProduct | TargetAsset

datatype scan_context = ScanIssue | ScanReturn

datatype evidence_type = EvidenceIssue | EvidenceReturn

datatype finalization_status = FinalizationPending | FinalizationPromoting | FinalizationDone

datatype loan_source = PublicSelfCheckout | AdminDirect

datatype disposition = RejectNeedsFix | RejectRemove

datatype asset_outcome = OutcomeIsReturned | OutcomeIsDamaged | OutcomeIsMissing

datatype report_outcome = NoIssue | OutcomeDamaged | OutcomeMissing | OutcomeNeedsFix

section \<open>Rows\<close>

record product =
  p_id :: nat
  p_makerspace :: nat
  p_box :: "nat option"
  p_category :: "nat option"
  p_name :: string
  p_description :: string
  p_storage_location :: string
  p_tracking_mode :: tracking_mode
  p_total :: int
  p_available :: int
  p_reserved :: int
  p_issued :: int
  p_damaged :: int
  p_lost :: int
  p_needs_fix :: int
  p_is_public :: bool
  p_self_checkout :: bool
  p_is_archived :: bool

record asset =
  a_id :: nat
  a_makerspace :: nat
  a_product :: nat
  a_box :: "nat option"
  a_tag :: string
  a_status :: asset_status
  a_self_checkout :: bool

record box =
  b_id :: nat
  b_makerspace :: nat
  b_parent :: "nat option"
  b_code :: string
  b_label :: string
  b_is_active :: bool

record qr_code =
  q_id :: nat
  q_makerspace :: nat
  q_payload :: string
  q_target_type :: qr_target
  q_target_id :: nat
  q_active :: bool

record box_scan =
  bs_makerspace :: nat
  bs_box :: nat
  bs_request :: nat
  bs_actor :: nat
  bs_context :: scan_context

record qr_scan =
  qs_makerspace :: nat
  qs_qr :: nat
  qs_request :: nat
  qs_actor :: nat
  qs_context :: scan_context

record evidence_photo =
  e_id :: nat
  e_makerspace :: nat
  e_type :: evidence_type
  e_object_key :: string
  e_uploaded_by :: nat

record requester_snapshot =
  s_username :: string
  s_name :: string
  s_email :: string
  s_phone :: string
  s_contact_verified :: bool
  s_checkin_identity :: "nat option"
  s_checkin_purpose :: string
  s_checkin_project_name :: string

record hardware_request =
  r_id :: nat
  r_makerspace :: nat
  r_requester :: nat
  r_contact :: requester_snapshot
  r_checkin_verified_at :: "int option"
  r_idempotency_key :: string
  r_payload_fingerprint :: string
  r_status :: request_status
  r_requested_for :: string
  r_rejection_reason :: string
  r_cancellation_reason :: string
  r_accepted_by :: "nat option"
  r_accepted_at :: "int option"
  r_assigned_box :: "nat option"
  r_issued_by :: "nat option"
  r_issued_at :: "int option"
  r_return_due_at :: "int option"
  r_reminder_sent_at :: "int option"
  r_issue_evidence :: "nat option"
  r_issue_remark :: string
  r_closed_by :: "nat option"
  r_closed_at :: "int option"

record request_item =
  i_id :: nat
  i_request :: nat
  i_product :: nat
  i_requested :: int
  i_accepted :: int
  i_issued :: int
  i_returned :: int
  i_damaged :: int
  i_missing :: int
  i_needs_fix :: int

record asset_link =
  l_id :: nat
  l_item :: nat
  l_asset :: nat
  l_outcome :: link_outcome
  l_returned_at :: "int option"
  l_return_event :: "nat option"

record return_event =
  v_id :: nat
  v_request :: nat
  v_makerspace :: nat
  v_box :: "nat option"
  v_evidence :: nat
  v_remark :: string
  v_actor :: nat

record accountability =
  c_requester :: nat
  c_request :: nat
  c_item :: nat
  c_makerspace :: nat
  c_issue_type :: issue_type
  c_description :: string
  c_evidence :: "nat option"
  c_quantity :: int
  c_created_by :: nat

record tool_loan =
  t_id :: nat
  t_makerspace :: nat
  t_qr_code :: "nat option"
  t_container :: "nat option"
  t_request :: nat
  t_requester :: nat
  t_target_type :: string
  t_target_id :: nat
  t_asset_ids :: "nat list"
  t_qr_ids :: "nat list"
  t_checked_out :: bool
  t_source :: loan_source
  t_target_label :: string
  t_due_at :: "int option"
  t_returned_at :: "int option"
  t_return_evidence :: "nat option"
  t_return_notes :: string

record problem_report =
  g_id :: nat
  g_makerspace :: nat
  g_loan :: nat
  g_request :: nat
  g_requester :: nat
  g_note :: string
  g_outcome :: "report_outcome option"
  g_triage_note :: string
  g_resolved_at :: "int option"
  g_resolved_by :: "nat option"

record adjustment =
  j_makerspace :: nat
  j_product :: "nat option"
  j_asset :: "nat option"
  j_stocktake :: "nat option"
  j_transfer :: "nat option"
  j_delta_available :: int
  j_delta_damaged :: int
  j_delta_lost :: int
  j_reason :: string
  j_created_by :: "nat option"

record finalization =
  f_evidence :: nat
  f_status :: finalization_status
  f_claim_token :: "nat option"
  f_size :: "int option"
  f_content_type :: string
  f_quota_charged :: bool
  f_updated_at :: int

text \<open>The bucket's object under a key: its size and the image type its bytes decode to.\<close>

record stored_object =
  o_size :: int
  o_mime :: string

text \<open>
  \<open>m_storage_override\<close> is the entry \<open>"storage"\<close> of \<open>resource_limit_overrides\<close>: absent,
  \<open>null\<close>, or a number.
\<close>

record makerspace =
  m_id :: nat
  m_default_loan_days :: int
  m_storage_used :: int
  m_storage_override :: "int option option"

record user =
  w_id :: nat
  w_is_active :: bool
  w_access_active :: bool
  w_must_change_password :: bool
  w_is_dump_stub :: bool

text \<open>What an audit row's \<open>meta\<close> can hold here.\<close>

datatype meta_value = MInt int | MStr string | MNone | MBool bool | MInts "(nat \<times> int) list" | MIds "nat list"

record audit_entry =
  u_actor :: "nat option"
  u_action :: string
  u_makerspace :: nat
  u_target :: "string \<times> nat"
  u_meta :: "(string \<times> meta_value) list"

section \<open>The database\<close>

text \<open>
  \<open>in_atomic\<close> is Django's \<open>connection.in_atomic_block\<close>; \<open>now\<close> is \<open>timezone.now()\<close>, constant
  during one transaction. \<open>expiring\<close> holds the evidence ids with a retention state row.
\<close>

record db =
  in_atomic :: bool
  now :: int
  users :: "user list"
  makerspaces :: "makerspace list"
  products :: "product list"
  assets :: "asset list"
  boxes :: "box list"
  qr_codes :: "qr_code list"
  evidence :: "evidence_photo list"
  finalizations :: "finalization list"
  bucket_objects :: "(string \<times> stored_object) list"
  expiring :: "nat list"
  requests :: "hardware_request list"
  items :: "request_item list"
  links :: "asset_link list"
  loans :: "tool_loan list"
  reports :: "problem_report list"
  return_events :: "return_event list"
  accountabilities :: "accountability list"
  box_scans :: "box_scan list"
  qr_scans :: "qr_scan list"
  adjustments :: "adjustment list"
  audit_log :: "audit_entry list"
  outbox :: "(string \<times> nat) list"

definition empty_db :: db where
  "empty_db = \<lparr>in_atomic = False, now = 0, users = [], makerspaces = [],
     products = [], assets = [],
     boxes = [], qr_codes = [], evidence = [], finalizations = [],
     bucket_objects = [], expiring = [],
     requests = [], items = [], links = [], loans = [], reports = [], return_events = [],
     accountabilities = [], box_scans = [], qr_scans = [], adjustments = [],
     audit_log = [], outbox = []\<rparr>"

text \<open>
  What the services read from outside the database: settings, the authority and module checks
  of other packages (\<open>rbac.can\<close>, \<open>module_enabled\<close>, the PII write fence), whether the object
  store answers, the fresh claim token, and what other transactions commit while a worker
  sleeps between two polls.
\<close>

record env =
  actor_can :: "nat \<Rightarrow> string \<Rightarrow> nat \<Rightarrow> bool"
  write_fenced :: "nat \<Rightarrow> bool"
  module_enabled :: "nat \<Rightarrow> string \<Rightarrow> bool"
  anonymous_limit :: int
  evidence_max_bytes :: int
  evidence_mimes :: "string list"
  url_ttl :: int
  presign_put :: bool
  self_host :: bool
  managed_storage_limit :: "int option"
  database_uuid :: "string option"
  store_up :: bool
  new_token :: nat
  sleeps :: "(db \<Rightarrow> db) list"

section \<open>Transactions and the append-only ledgers\<close>

text \<open>
  \<open>transaction.atomic()\<close>: the block runs with the atomic flag set; an exception leaves the
  caller with its own state (the rollback), a normal end restores the outer flag.
\<close>

definition atomic :: "(db \<Rightarrow> exn + db) \<Rightarrow> db \<Rightarrow> exn + db" where
  "atomic f s = try_then (f (s\<lparr>in_atomic := True\<rparr>)) (\<lambda>t. Inr (t\<lparr>in_atomic := in_atomic s\<rparr>))"

definition atomic_ret :: "(db \<Rightarrow> exn + ('a \<times> db)) \<Rightarrow> db \<Rightarrow> exn + ('a \<times> db)" where
  "atomic_ret f s =
     try_then (f (s\<lparr>in_atomic := True\<rparr>)) (\<lambda>(x, t). Inr (x, t\<lparr>in_atomic := in_atomic s\<rparr>))"

lemma yields_atomic [simp]:
  "yields P E (atomic f s) =
     yields (\<lambda>t. P (t\<lparr>in_atomic := in_atomic s\<rparr>)) E (f (s\<lparr>in_atomic := True\<rparr>))"
  "yields Q E (atomic_ret g s) =
     yields (\<lambda>(x, t). Q (x, t\<lparr>in_atomic := in_atomic s\<rparr>)) E (g (s\<lparr>in_atomic := True\<rparr>))"
  by (simp_all add: atomic_def atomic_ret_def case_prod_unfold)

lemma atomic_Inr: "atomic f s = Inr t \<longleftrightarrow>
    (\<exists>u. f (s\<lparr>in_atomic := True\<rparr>) = Inr u \<and> t = u\<lparr>in_atomic := in_atomic s\<rparr>)"
  by (auto simp: atomic_def ok_iff)

lemma atomic_Inl: "atomic f s = Inl e \<longleftrightarrow> f (s\<lparr>in_atomic := True\<rparr>) = Inl e"
  by (auto simp: atomic_def err_iff)

definition audit_record ::
  "nat option \<Rightarrow> string \<Rightarrow> nat \<Rightarrow> string \<times> nat \<Rightarrow> (string \<times> meta_value) list \<Rightarrow> db \<Rightarrow> db" where
  "audit_record actor action ms target meta s =
     s\<lparr>audit_log := audit_log s @
        [\<lparr>u_actor = actor, u_action = action, u_makerspace = ms, u_target = target,
          u_meta = meta\<rparr>]\<rparr>"

text \<open>A notification is queued for its subject; delivery is outside the model.\<close>

definition notify :: "string \<Rightarrow> nat \<Rightarrow> db \<Rightarrow> db" where
  "notify event subject s = s\<lparr>outbox := outbox s @ [(event, subject)]\<rparr>"

section \<open>Saving a product\<close>

definition bucket_sum :: "product \<Rightarrow> int" where
  "bucket_sum p = p_available p + p_reserved p + p_issued p + p_damaged p + p_lost p + p_needs_fix p"

text \<open>
  Postgres refuses an \<open>integer\<close> out of range (\<open>DataError\<close>) and a row that breaks one of the
  eight \<open>CHECK\<close> constraints of \<open>InventoryProduct.Meta\<close> (\<open>IntegrityError\<close>).
\<close>

definition int32_max :: int where "int32_max = 2147483647"

definition product_in_range :: "product \<Rightarrow> bool" where
  "product_in_range p \<longleftrightarrow>
     p_total p \<le> int32_max \<and> p_available p \<le> int32_max \<and> p_reserved p \<le> int32_max \<and>
     p_issued p \<le> int32_max \<and> p_damaged p \<le> int32_max \<and> p_lost p \<le> int32_max \<and>
     p_needs_fix p \<le> int32_max"

definition product_constraints :: "product \<Rightarrow> bool" where
  "product_constraints p \<longleftrightarrow>
     0 \<le> p_total p \<and> 0 \<le> p_available p \<and> 0 \<le> p_reserved p \<and> 0 \<le> p_issued p \<and>
     0 \<le> p_damaged p \<and> 0 \<le> p_lost p \<and> 0 \<le> p_needs_fix p \<and> bucket_sum p \<le> p_total p"

definition save_product :: "product \<Rightarrow> db \<Rightarrow> exn + db" where
  "save_product p s =
     (if \<not> product_in_range p then Inl DataError
      else if \<not> product_constraints p then Inl IntegrityError
      else Inr (s\<lparr>products := row_put p_id p (products s)\<rparr>))"

definition get_product :: "nat \<Rightarrow> db \<Rightarrow> exn + product" where
  "get_product pid s = of_option DoesNotExist (row_get p_id pid (products s))"

definition put_asset :: "asset \<Rightarrow> db \<Rightarrow> db" where
  "put_asset a s = s\<lparr>assets := row_put a_id a (assets s)\<rparr>"

text \<open>
  The quantity columns of \<open>HardwareRequestItem\<close> are positive integer fields, and
  \<open>req_item_qty_positive\<close> asks for at least one requested unit.
\<close>

definition item_in_range :: "request_item \<Rightarrow> bool" where
  "item_in_range i \<longleftrightarrow>
     i_requested i \<le> int32_max \<and> i_accepted i \<le> int32_max \<and> i_issued i \<le> int32_max \<and>
     i_returned i \<le> int32_max \<and> i_damaged i \<le> int32_max \<and> i_missing i \<le> int32_max \<and>
     i_needs_fix i \<le> int32_max"

definition item_constraints :: "request_item \<Rightarrow> bool" where
  "item_constraints i \<longleftrightarrow>
     1 \<le> i_requested i \<and> 0 \<le> i_accepted i \<and> 0 \<le> i_issued i \<and> 0 \<le> i_returned i \<and>
     0 \<le> i_damaged i \<and> 0 \<le> i_missing i \<and> 0 \<le> i_needs_fix i"

definition check_item :: "request_item \<Rightarrow> exn + unit" where
  "check_item i =
     (if \<not> item_in_range i then Inl DataError
      else if \<not> item_constraints i then Inl IntegrityError else Inr ())"

definition save_item :: "request_item \<Rightarrow> db \<Rightarrow> exn + db" where
  "save_item i s =
     try_then (check_item i) (\<lambda>_. Inr (s\<lparr>items := row_put i_id i (items s)\<rparr>))"

definition put_request :: "hardware_request \<Rightarrow> db \<Rightarrow> db" where
  "put_request r s = s\<lparr>requests := row_put r_id r (requests s)\<rparr>"

definition put_link :: "asset_link \<Rightarrow> db \<Rightarrow> db" where
  "put_link l s = s\<lparr>links := row_put l_id l (links s)\<rparr>"

definition put_makerspace :: "makerspace \<Rightarrow> db \<Rightarrow> db" where
  "put_makerspace m s = s\<lparr>makerspaces := row_put m_id m (makerspaces s)\<rparr>"

definition get_makerspace :: "nat \<Rightarrow> db \<Rightarrow> exn + makerspace" where
  "get_makerspace ms s = of_option DoesNotExist (row_get m_id ms (makerspaces s))"

definition put_loan :: "tool_loan \<Rightarrow> db \<Rightarrow> db" where
  "put_loan l s = s\<lparr>loans := row_put t_id l (loans s)\<rparr>"

text \<open>\<open>request.items\<close>: the rows of the request, in primary key order, or by product.\<close>

definition request_items :: "nat \<Rightarrow> db \<Rightarrow> request_item list" where
  "request_items rid s = filter (\<lambda>i. i_request i = rid) (items s)"

definition items_by_product :: "nat \<Rightarrow> db \<Rightarrow> request_item list" where
  "items_by_product rid s = sort_key i_product (request_items rid s)"

section \<open>Well-formed stock\<close>

definition product_ok :: "product \<Rightarrow> bool" where
  "product_ok p \<longleftrightarrow> product_constraints p \<and> product_in_range p"

definition stock_ok :: "db \<Rightarrow> bool" where
  "stock_ok s \<longleftrightarrow> unique_keys p_id (products s) \<and> (\<forall>p \<in> set (products s). product_ok p)"

text \<open>Units of a product that are in its total but in none of its buckets.\<close>

definition slack :: "product \<Rightarrow> int" where
  "slack p = p_total p - bucket_sum p"

definition product_of :: "nat \<Rightarrow> db \<Rightarrow> product option" where
  "product_of pid s = row_get p_id pid (products s)"

end
