(* ===== verification/Availability.thy ===== *)
theory Availability
  imports Lending_Db
begin

text \<open>
  The quantity primitives of the inventory availability module
  (\<open>inventory/availability_quantities.py\<close>, \<open>availability_manual_adjustments.py\<close>,
  \<open>availability_tracking.py\<close>). A product row carries a total and six buckets; every other
  service changes them only through these functions. Each returns the new database state or
  raises; the row a function returns is the row it stored.
\<close>

section \<open>Operations\<close>

definition product_target :: "nat \<Rightarrow> string \<times> nat" where
  "product_target pid = (''inventory.inventoryproduct'', pid)"

definition with_recomputed_total :: "product \<Rightarrow> product" where
  "with_recomputed_total p = p\<lparr>p_total := bucket_sum p\<rparr>"

definition create_adjustment :: "adjustment \<Rightarrow> db \<Rightarrow> db" where
  "create_adjustment j s = s\<lparr>adjustments := adjustments s @ [j]\<rparr>"

definition product_adjustment ::
  "product \<Rightarrow> int \<Rightarrow> int \<Rightarrow> int \<Rightarrow> string \<Rightarrow> nat option \<Rightarrow> adjustment" where
  "product_adjustment p da dd dl reason actor =
     \<lparr>j_makerspace = p_makerspace p, j_product = Some (p_id p), j_asset = None,
      j_stocktake = None, j_transfer = None, j_delta_available = da, j_delta_damaged = dd,
      j_delta_lost = dl, j_reason = reason, j_created_by = actor\<rparr>"

definition adjust_quantities ::
  "nat \<Rightarrow> int \<Rightarrow> int \<Rightarrow> int \<Rightarrow> string \<Rightarrow> nat option \<Rightarrow> db \<Rightarrow> exn + db" where
  "adjust_quantities pid delta_available delta_damaged delta_lost reason actor =
     atomic (\<lambda>s. try_then (get_product pid s) (\<lambda>locked.
       let available = p_available locked + delta_available;
           damaged = p_damaged locked + delta_damaged;
           lost = p_lost locked + delta_lost
       in if available < 0 \<or> damaged < 0 \<or> lost < 0 then Inl InsufficientStock
          else let locked' = with_recomputed_total
                     (locked\<lparr>p_available := available, p_damaged := damaged, p_lost := lost\<rparr>)
               in try_then (save_product locked' s) (\<lambda>s. Inr
                    (audit_record actor ''inventory.quantity_adjusted'' (p_makerspace locked)
                       (product_target pid)
                       [(''delta_available'', MInt delta_available),
                        (''delta_damaged'', MInt delta_damaged),
                        (''delta_lost'', MInt delta_lost), (''reason'', MStr reason)]
                       (create_adjustment (product_adjustment locked delta_available
                          delta_damaged delta_lost reason actor) s)))))"

definition consume_available :: "nat \<Rightarrow> int \<Rightarrow> string \<Rightarrow> nat option \<Rightarrow> db \<Rightarrow> exn + db" where
  "consume_available pid quantity reason actor s =
     (if quantity \<le> 0 then Inl InsufficientStock
      else adjust_quantities pid (- quantity) 0 0 reason actor s)"

definition move_available_to_triage_bucket ::
  "nat \<Rightarrow> int \<Rightarrow> report_outcome \<Rightarrow> string \<Rightarrow> nat option \<Rightarrow> db \<Rightarrow> exn + db" where
  "move_available_to_triage_bucket pid quantity outcome reason actor s =
     (if quantity \<le> 0 then Inl InsufficientStock
      else if outcome = OutcomeDamaged then
        adjust_quantities pid (- quantity) quantity 0 reason actor s
      else if outcome = OutcomeMissing then
        adjust_quantities pid (- quantity) 0 quantity reason actor s
      else if outcome \<noteq> OutcomeNeedsFix then Inl InsufficientStock
      else if \<not> in_atomic s then Inl RuntimeError
      else try_then (get_product pid s) (\<lambda>locked.
        if p_available locked < quantity then Inl InsufficientStock
        else let locked' = with_recomputed_total
                   (locked\<lparr>p_available := p_available locked - quantity,
                           p_needs_fix := p_needs_fix locked + quantity\<rparr>)
             in try_then (save_product locked' s) (\<lambda>s. Inr
                  (audit_record actor ''inventory.quantity_adjusted'' (p_makerspace locked)
                     (product_target pid)
                     [(''delta_available'', MInt (- quantity)), (''delta_damaged'', MInt 0),
                      (''delta_lost'', MInt 0), (''target_bucket'', MStr ''needs_fix''),
                      (''reason'', MStr reason)]
                     (create_adjustment
                        (product_adjustment locked (- quantity) 0 0 reason actor) s)))))"

definition issue_available :: "nat \<Rightarrow> int \<Rightarrow> db \<Rightarrow> exn + db" where
  "issue_available pid quantity s =
     (if \<not> in_atomic s then Inl RuntimeError
      else try_then (get_product pid s) (\<lambda>p.
        if p_available p < quantity then Inl InsufficientStock
        else save_product (p\<lparr>p_available := p_available p - quantity,
                             p_issued := p_issued p + quantity\<rparr>) s))"

definition return_to_available :: "nat \<Rightarrow> int \<Rightarrow> db \<Rightarrow> exn + db" where
  "return_to_available pid quantity s =
     (if \<not> in_atomic s then Inl RuntimeError
      else try_then (get_product pid s) (\<lambda>p.
        if p_issued p < quantity then Inl InsufficientStock
        else save_product (p\<lparr>p_issued := p_issued p - quantity,
                             p_available := p_available p + quantity\<rparr>) s))"

definition transfer_available_quantity :: "nat \<Rightarrow> nat \<Rightarrow> int \<Rightarrow> db \<Rightarrow> exn + db" where
  "transfer_available_quantity source_id destination_id quantity s =
     (if \<not> in_atomic s then Inl RuntimeError
      else if quantity \<le> 0 then Inl InsufficientStock
      else if source_id = destination_id then Inr s
      else try_then (of_option KeyError (product_of source_id s)) (\<lambda>source.
           try_then (of_option KeyError (product_of destination_id s)) (\<lambda>destination.
        if p_available source < quantity \<or> p_total source < quantity then Inl InsufficientStock
        else try_then (save_product
                 (source\<lparr>p_available := p_available source - quantity,
                         p_total := p_total source - quantity\<rparr>) s)
               (save_product
                 (destination\<lparr>p_available := p_available destination + quantity,
                              p_total := p_total destination + quantity\<rparr>)))))"

definition apply_stocktake_delta :: "nat \<Rightarrow> int \<Rightarrow> int \<Rightarrow> int \<Rightarrow> db \<Rightarrow> exn + db" where
  "apply_stocktake_delta pid delta_available delta_damaged delta_lost s =
     (if \<not> in_atomic s then Inl RuntimeError
      else try_then (get_product pid s) (\<lambda>p.
        let p' = p\<lparr>p_available := p_available p + delta_available,
                   p_damaged := p_damaged p + delta_damaged,
                   p_lost := p_lost p + delta_lost\<rparr>
        in if min (p_available p') (min (p_damaged p') (p_lost p')) < 0
           then Inl InsufficientStock
           else save_product (with_recomputed_total p') s))"

definition adjust_manual_quantities ::
  "nat \<Rightarrow> int \<Rightarrow> int \<Rightarrow> int \<Rightarrow> string \<Rightarrow> nat option \<Rightarrow> db \<Rightarrow> exn + db" where
  "adjust_manual_quantities pid delta_available delta_damaged delta_lost reason actor =
     atomic (\<lambda>s. try_then (get_product pid s) (\<lambda>locked.
       if p_tracking_mode locked = INDIVIDUAL then Inl InsufficientStock
       else adjust_quantities pid delta_available delta_damaged delta_lost reason actor s))"

text \<open>
  \<open>_change_blocker\<close>, as a flag: stock in any column, a unit asset, or an item on a request
  that still holds the product.
\<close>

definition item_request_status :: "db \<Rightarrow> request_item \<Rightarrow> request_status option" where
  "item_request_status s i = map_option r_status (row_get r_id (i_request i) (requests s))"

definition change_blocked :: "product \<Rightarrow> db \<Rightarrow> bool" where
  "change_blocked p s \<longleftrightarrow>
     p_total p \<noteq> 0 \<or> p_available p \<noteq> 0 \<or> p_reserved p \<noteq> 0 \<or> p_issued p \<noteq> 0 \<or>
     p_damaged p \<noteq> 0 \<or> p_lost p \<noteq> 0 \<or> p_needs_fix p \<noteq> 0 \<or>
     list_ex (\<lambda>a. a_product a = p_id p) (assets s) \<or>
     list_ex (\<lambda>i. i_product i = p_id p \<and>
       item_request_status s i \<in> {Some Accepted, Some Issued, Some PartiallyReturned}) (items s)"

text \<open>A mode that is not one of \<open>TrackingMode.values\<close> is \<open>None\<close>.\<close>

definition change_tracking_mode :: "nat \<Rightarrow> tracking_mode option \<Rightarrow> db \<Rightarrow> exn + db" where
  "change_tracking_mode pid mode s =
     (if \<not> in_atomic s then Inl RuntimeError
      else try_then (of_option TrackingModeChangeRefused mode) (\<lambda>mode.
           try_then (get_product pid s) (\<lambda>locked.
        if p_tracking_mode locked = mode then Inr s
        else if change_blocked locked s then Inl TrackingModeChangeRefused
        else save_product (locked\<lparr>p_tracking_mode := mode\<rparr>) s)))"

section \<open>Saving and reading product rows\<close>

named_theorems avail_defs \<open>definitions of the availability operations\<close>

lemmas [avail_defs] =
  adjust_quantities_def consume_available_def move_available_to_triage_bucket_def
  issue_available_def return_to_available_def transfer_available_quantity_def
  apply_stocktake_delta_def adjust_manual_quantities_def change_tracking_mode_def

lemma get_product_Inr [ok_iff]: "get_product pid s = Inr p \<longleftrightarrow> product_of pid s = Some p"
  by (simp add: get_product_def product_of_def ok_iff)

lemma get_product_Inl: "get_product pid s = Inl e \<longleftrightarrow> product_of pid s = None \<and> e = DoesNotExist"
  by (auto simp: get_product_def product_of_def of_option_Inl)

lemma product_of_id: "product_of pid s = Some p \<Longrightarrow> p_id p = pid"
  by (auto simp: product_of_def dest: row_get_SomeD)

lemma product_of_mem: "product_of pid s = Some p \<Longrightarrow> p \<in> set (products s)"
  by (auto simp: product_of_def dest: row_get_SomeD)

lemma stock_ok_product: "stock_ok s \<Longrightarrow> product_of pid s = Some p \<Longrightarrow> product_ok p"
  by (auto simp: stock_ok_def dest: product_of_mem)

lemma save_product_Inr:
  "save_product p s = Inr t \<longleftrightarrow> product_ok p \<and> t = s\<lparr>products := row_put p_id p (products s)\<rparr>"
  by (auto simp: save_product_def product_ok_def)

lemma save_product_Inl:
  "save_product p s = Inl e \<longleftrightarrow>
     (\<not> product_in_range p \<and> e = DataError) \<or>
     (product_in_range p \<and> \<not> product_constraints p \<and> e = IntegrityError)"
  by (auto simp: save_product_def)

lemma save_product_stock_ok: "stock_ok s \<Longrightarrow> save_product p s = Inr t \<Longrightarrow> stock_ok t"
  by (auto simp: save_product_Inr stock_ok_def dest!: set_row_putD)

lemma product_of_put:
  "product_of i (s\<lparr>products := row_put p_id p (products s)\<rparr>) =
     (if i = p_id p then map_option (\<lambda>_. p) (product_of i s) else product_of i s)"
  by (simp add: product_of_def row_get_row_put)

text \<open>A total within range bounds every bucket, so a row that keeps its total never overflows.\<close>

lemma product_ok_iff_total:
  "product_ok p \<longleftrightarrow> product_constraints p \<and> p_total p \<le> int32_max"
  by (auto simp: product_ok_def product_in_range_def product_constraints_def bucket_sum_def)

lemma product_okI:
  assumes "0 \<le> p_available p" "0 \<le> p_reserved p" "0 \<le> p_issued p" "0 \<le> p_damaged p"
    "0 \<le> p_lost p" "0 \<le> p_needs_fix p" "bucket_sum p \<le> p_total p" "p_total p \<le> int32_max"
  shows "product_ok p"
  using assms by (auto simp: product_ok_iff_total product_constraints_def bucket_sum_def)

lemma product_okD:
  assumes "product_ok p"
  shows "0 \<le> p_available p" "0 \<le> p_reserved p" "0 \<le> p_issued p" "0 \<le> p_damaged p"
    "0 \<le> p_lost p" "0 \<le> p_needs_fix p" "bucket_sum p \<le> p_total p" "p_total p \<le> int32_max"
    "0 \<le> p_total p"
  using assms by (auto simp: product_ok_iff_total product_constraints_def)

interpretation prod: row_store product_of "\<lambda>p s. s\<lparr>products := row_put p_id p (products s)\<rparr>" p_id
  by unfold_locales (auto simp: product_of_put dest: product_of_id)

end
