(* ===== verification/Availability_Requests.thy ===== *)
theory Availability_Requests
  imports Availability
begin

text \<open>
  The request side of the availability module (\<open>inventory/availability_requests.py\<close>,
  \<open>availability_reservations.py\<close>, \<open>availability_assets.py\<close>): reserving for an accepted
  request, issuing it, returning its items, releasing the reservation of a cancelled one, the
  needs-fix shelf, and the reconciliation of an individually tracked product with its unit rows.
\<close>

section \<open>Reserving\<close>

definition assets_of :: "nat \<Rightarrow> db \<Rightarrow> asset list" where
  "assets_of pid s = filter (\<lambda>a. a_product a = pid) (assets s)"

definition status_count :: "asset_status \<Rightarrow> nat \<Rightarrow> db \<Rightarrow> int" where
  "status_count st pid s = int (length (filter (\<lambda>a. a_status a = st) (assets_of pid s)))"

definition assert_individual_assets_available :: "product \<Rightarrow> int \<Rightarrow> db \<Rightarrow> exn + unit" where
  "assert_individual_assets_available p required_qty s =
     (if p_tracking_mode p \<noteq> INDIVIDUAL \<or> required_qty \<le> 0 then Inr ()
      else let available_assets = status_count AVAILABLE (p_id p) s;
               already_reserved = max (p_reserved p) 0
           in if available_assets < required_qty + already_reserved
              then Inl InsufficientStock else Inr ())"

text \<open>
  \<open>required_by_product\<close>: the accepted quantity per product, over the items that accept
  anything; its keys are visited in increasing order.
\<close>

definition required_quantity :: "request_item list \<Rightarrow> nat \<Rightarrow> int" where
  "required_quantity its pid =
     sum_list (map i_accepted (filter (\<lambda>i. i_product i = pid \<and> 0 < i_accepted i) its))"

definition required_products :: "request_item list \<Rightarrow> nat list" where
  "required_products its =
     sort (remdups (map i_product (filter (\<lambda>i. 0 < i_accepted i) its)))"

definition reserve_product :: "nat \<Rightarrow> int \<Rightarrow> db \<Rightarrow> exn + db" where
  "reserve_product pid quantity s =
     try_then (of_option KeyError (product_of pid s)) (\<lambda>p.
     try_then (assert_individual_assets_available p quantity s) (\<lambda>_.
       if p_available p < quantity then Inl InsufficientStock
       else save_product (p\<lparr>p_available := p_available p - quantity,
                            p_reserved := p_reserved p + quantity\<rparr>) s))"

definition reserve_for_request :: "nat \<Rightarrow> db \<Rightarrow> exn + db" where
  "reserve_for_request rid s =
     (if \<not> in_atomic s then Inl RuntimeError
      else let its = items_by_product rid s
           in for_each (\<lambda>pid. reserve_product pid (required_quantity its pid))
                (required_products its) s)"

section \<open>Issuing\<close>

text \<open>
  \<open>rejects\<close> is the dict of units rejected as broken at handover, keyed by the item: how
  many, and whether they go to the needs-fix shelf or out of the inventory.
\<close>

type_synonym rejects = "(nat \<times> (int \<times> disposition)) list"

definition reject_of :: "rejects \<Rightarrow> nat \<Rightarrow> int \<times> disposition" where
  "reject_of rs iid = (case map_of rs iid of None \<Rightarrow> (0, RejectNeedsFix) | Some r \<Rightarrow> r)"

definition issue_item :: "rejects \<Rightarrow> request_item \<Rightarrow> db \<Rightarrow> exn + db" where
  "issue_item rs i s =
     (let accepted = i_accepted i
      in if accepted \<le> 0 then Inr s
         else let broken = max 0 (fst (reject_of rs (i_id i)));
                  disp = snd (reject_of rs (i_id i))
              in if accepted < broken then Inl InsufficientStock
                 else let issued = accepted - broken
                      in try_then (of_option KeyError (product_of (i_product i) s)) (\<lambda>p.
                           if p_reserved p < accepted then Inl InsufficientStock
                           else let p' = p\<lparr>p_reserved := p_reserved p - accepted,
                                          p_issued := p_issued p + issued\<rparr>;
                                    p'' = (if broken \<noteq> 0 \<and> disp = RejectRemove
                                           then p'\<lparr>p_total := p_total p' - broken\<rparr>
                                           else if broken \<noteq> 0
                                           then p'\<lparr>p_needs_fix := p_needs_fix p' + broken\<rparr>
                                           else p')
                                in try_then (save_product p'' s)
                                     (save_item (i\<lparr>i_issued := issued,
                                        i_needs_fix := (if disp = RejectRemove then 0 else broken)\<rparr>))))"

definition issue_items :: "nat \<Rightarrow> rejects \<Rightarrow> db \<Rightarrow> exn + db" where
  "issue_items rid rs s =
     (if \<not> in_atomic s then Inl RuntimeError
      else for_each (issue_item rs) (items_by_product rid s) s)"

section \<open>The needs-fix shelf\<close>

definition require_quantity_fix_action :: "product \<Rightarrow> exn + unit" where
  "require_quantity_fix_action p = require (p_tracking_mode p \<noteq> INDIVIDUAL) InsufficientStock"

definition repair_from_needs_fix :: "nat \<Rightarrow> int \<Rightarrow> db \<Rightarrow> exn + db" where
  "repair_from_needs_fix pid quantity s =
     (if \<not> in_atomic s then Inl RuntimeError
      else try_then (get_product pid s) (\<lambda>locked.
           try_then (require_quantity_fix_action locked) (\<lambda>_.
        if quantity \<le> 0 \<or> p_needs_fix locked < quantity then Inl InsufficientStock
        else save_product (locked\<lparr>p_needs_fix := p_needs_fix locked - quantity,
                                  p_available := p_available locked + quantity\<rparr>) s)))"

definition move_available_to_needs_fix :: "nat \<Rightarrow> int \<Rightarrow> db \<Rightarrow> exn + db" where
  "move_available_to_needs_fix pid quantity s =
     (if \<not> in_atomic s then Inl RuntimeError
      else try_then (get_product pid s) (\<lambda>locked.
           try_then (require_quantity_fix_action locked) (\<lambda>_.
        if quantity \<le> 0 \<or> p_available locked < quantity then Inl InsufficientStock
        else save_product (locked\<lparr>p_available := p_available locked - quantity,
                                  p_needs_fix := p_needs_fix locked + quantity\<rparr>) s)))"

definition scrap_from_needs_fix :: "nat \<Rightarrow> int \<Rightarrow> db \<Rightarrow> exn + db" where
  "scrap_from_needs_fix pid quantity s =
     (if \<not> in_atomic s then Inl RuntimeError
      else try_then (get_product pid s) (\<lambda>locked.
           try_then (require_quantity_fix_action locked) (\<lambda>_.
        if quantity \<le> 0 \<or> p_needs_fix locked < quantity then Inl InsufficientStock
        else save_product (locked\<lparr>p_needs_fix := p_needs_fix locked - quantity,
                                  p_total := p_total locked - quantity\<rparr>) s)))"

section \<open>Returning\<close>

text \<open>One validated resolution of a return: an item and what happened to its units.\<close>

record resolution =
  x_item :: nat
  x_returned :: int
  x_damaged :: int
  x_missing :: int
  x_assets :: "(nat \<times> asset_outcome) list"

definition item_of :: "nat \<Rightarrow> db \<Rightarrow> request_item option" where
  "item_of iid s = row_get i_id iid (items s)"

definition return_resolution :: "resolution \<Rightarrow> db \<Rightarrow> exn + db" where
  "return_resolution x s =
     (let returned = x_returned x; damaged = x_damaged x; missing = x_missing x;
          quantity = returned + damaged + missing
      in if quantity \<le> 0 then Inr s
         else try_then (of_option DoesNotExist (item_of (x_item x) s)) (\<lambda>i.
              try_then (of_option KeyError (product_of (i_product i) s)) (\<lambda>p.
                if p_issued p < quantity then Inl InsufficientStock
                else try_then (save_product
                       (p\<lparr>p_issued := p_issued p - quantity,
                          p_available := p_available p + returned,
                          p_damaged := p_damaged p + damaged,
                          p_lost := p_lost p + missing\<rparr>) s)
                     (save_item (i\<lparr>i_returned := i_returned i + returned,
                          i_damaged := i_damaged i + damaged,
                          i_missing := i_missing i + missing\<rparr>)))))"

definition return_items_stock :: "resolution list \<Rightarrow> db \<Rightarrow> exn + db" where
  "return_items_stock xs s =
     (if \<not> in_atomic s then Inl RuntimeError else for_each return_resolution xs s)"

section \<open>Releasing the reservation of a cancelled request\<close>

definition item_products :: "nat \<Rightarrow> db \<Rightarrow> nat list" where
  "item_products rid s = sort (remdups (map i_product (request_items rid s)))"

definition accepted_quantity :: "nat \<Rightarrow> nat \<Rightarrow> db \<Rightarrow> int" where
  "accepted_quantity rid pid s =
     sum_list (map i_accepted (filter (\<lambda>i. i_product i = pid) (request_items rid s)))"

text \<open>The items of every accepted request on a product, whatever the request.\<close>

definition accepted_items :: "nat \<Rightarrow> db \<Rightarrow> request_item list" where
  "accepted_items pid s =
     filter (\<lambda>i. i_product i = pid \<and> item_request_status s i = Some Accepted) (items s)"

definition accepted_demand :: "nat \<Rightarrow> db \<Rightarrow> int" where
  "accepted_demand pid s = sum_list (map i_accepted (accepted_items pid s))"

definition foreign_demand :: "nat \<Rightarrow> nat \<Rightarrow> db \<Rightarrow> bool" where
  "foreign_demand ms pid s \<longleftrightarrow>
     list_ex (\<lambda>i. map_option r_makerspace (row_get r_id (i_request i) (requests s)) \<noteq> Some ms)
       (accepted_items pid s)"

definition reservation_attributable :: "hardware_request \<Rightarrow> product \<Rightarrow> db \<Rightarrow> bool" where
  "reservation_attributable r p s \<longleftrightarrow>
     (let demand = accepted_demand (p_id p) s
      in p_makerspace p = r_makerspace r \<and>
         (case p_tracking_mode p of
            QUANTITY \<Rightarrow> assets_of (p_id p) s = []
          | INDIVIDUAL \<Rightarrow> demand \<le> status_count AVAILABLE (p_id p) s \<and>
                         p_available p = status_count AVAILABLE (p_id p) s - demand) \<and>
         p_reserved p = demand + status_count RESERVED (p_id p) s \<and>
         accepted_quantity (r_id r) (p_id p) s \<le> demand)"

definition release_product :: "nat \<Rightarrow> int \<Rightarrow> db \<Rightarrow> exn + db" where
  "release_product pid quantity s =
     try_then (get_product pid s) (\<lambda>p.
       if quantity = 0 then Inr s
       else save_product (p\<lparr>p_reserved := p_reserved p - quantity,
                            p_available := p_available p + quantity\<rparr>) s)"

definition release_request_reservation :: "hardware_request \<Rightarrow> db \<Rightarrow> exn + db" where
  "release_request_reservation r s =
     (if \<not> in_atomic s then Inl RuntimeError
      else if r_status r \<noteq> Accepted then Inl InsufficientStock
      else let pids = item_products (r_id r) s;
               quantity = (\<lambda>pid. accepted_quantity (r_id r) pid s);
               locked = filter (\<lambda>pid. product_of pid s \<noteq> None) pids
           in if length locked \<noteq> length pids \<or> \<not> list_ex (\<lambda>pid. quantity pid \<noteq> 0) pids
              then Inl InsufficientStock
              else if list_ex (\<lambda>pid. foreign_demand (r_makerspace r) pid s) pids
              then Inl InsufficientStock
              else if list_ex (\<lambda>pid. list_ex (\<lambda>a. a_makerspace a \<noteq> r_makerspace r)
                                       (assets_of pid s)) pids
              then Inl InsufficientStock
              else if \<not> list_all (\<lambda>pid. \<forall>p \<in> set_option (product_of pid s).
                                    reservation_attributable r p s) pids
              then Inl InsufficientStock
              else for_each (\<lambda>pid. release_product pid (quantity pid)) pids s)"

section \<open>Individually tracked products\<close>

datatype bucket = BAvailable | BReserved | BIssued | BDamaged | BLost | BNeedsFix

text \<open>\<open>ASSET_QUANTITY_BUCKETS\<close>: a retired unit is in no bucket.\<close>

fun asset_quantity_bucket :: "asset_status \<Rightarrow> bucket option" where
  "asset_quantity_bucket AVAILABLE = Some BAvailable"
| "asset_quantity_bucket RESERVED = Some BReserved"
| "asset_quantity_bucket ISSUED = Some BIssued"
| "asset_quantity_bucket DAMAGED = Some BDamaged"
| "asset_quantity_bucket LOST = Some BLost"
| "asset_quantity_bucket MAINTENANCE = Some BNeedsFix"
| "asset_quantity_bucket RETIRED = None"

fun get_bucket :: "bucket \<Rightarrow> product \<Rightarrow> int" where
  "get_bucket BAvailable p = p_available p"
| "get_bucket BReserved p = p_reserved p"
| "get_bucket BIssued p = p_issued p"
| "get_bucket BDamaged p = p_damaged p"
| "get_bucket BLost p = p_lost p"
| "get_bucket BNeedsFix p = p_needs_fix p"

fun set_bucket :: "bucket \<Rightarrow> int \<Rightarrow> product \<Rightarrow> product" where
  "set_bucket BAvailable n p = p\<lparr>p_available := n\<rparr>"
| "set_bucket BReserved n p = p\<lparr>p_reserved := n\<rparr>"
| "set_bucket BIssued n p = p\<lparr>p_issued := n\<rparr>"
| "set_bucket BDamaged n p = p\<lparr>p_damaged := n\<rparr>"
| "set_bucket BLost n p = p\<lparr>p_lost := n\<rparr>"
| "set_bucket BNeedsFix n p = p\<lparr>p_needs_fix := n\<rparr>"

definition reconciled_row :: "product \<Rightarrow> db \<Rightarrow> exn + product" where
  "reconciled_row p s =
     (let pid = p_id p;
          c_available = status_count AVAILABLE pid s;
          c_reserved = status_count RESERVED pid s;
          c_issued = status_count ISSUED pid s;
          c_damaged = status_count DAMAGED pid s;
          c_lost = status_count LOST pid s;
          c_needs_fix = status_count MAINTENANCE pid s;
          total = c_available + c_reserved + c_issued + c_damaged + c_lost + c_needs_fix;
          unmarked_reserved = max (p_reserved p - c_reserved) 0
      in if c_available < unmarked_reserved then Inl InsufficientStock
         else Inr (p\<lparr>p_available := c_available - unmarked_reserved,
                     p_reserved := c_reserved + unmarked_reserved,
                     p_issued := c_issued, p_damaged := c_damaged, p_lost := c_lost,
                     p_needs_fix := c_needs_fix, p_total := total\<rparr>))"

definition reconcile_individual_product_from_assets :: "nat \<Rightarrow> db \<Rightarrow> exn + db" where
  "reconcile_individual_product_from_assets pid s =
     try_then (get_product pid s) (\<lambda>p.
       if p_tracking_mode p \<noteq> INDIVIDUAL then Inr s
       else try_then (reconciled_row p s) (\<lambda>p'.
              if p' = p then Inr s else save_product p' s))"

definition get_asset :: "nat \<Rightarrow> db \<Rightarrow> exn + asset" where
  "get_asset aid s = of_option DoesNotExist (row_get a_id aid (assets s))"

definition move_asset_status :: "nat \<Rightarrow> asset_status \<Rightarrow> db \<Rightarrow> exn + db" where
  "move_asset_status aid new_status s =
     (if \<not> in_atomic s then Inl RuntimeError
      else try_then (get_asset aid s) (\<lambda>a.
        if a_status a = new_status then Inr s
        else try_then (of_option InsufficientStock (asset_quantity_bucket (a_status a))) (\<lambda>old_bucket.
             try_then (of_option InsufficientStock (asset_quantity_bucket new_status)) (\<lambda>new_bucket.
             try_then (reconcile_individual_product_from_assets (a_product a) s) (\<lambda>s.
             try_then (get_product (a_product a) s) (\<lambda>p.
               let old_value = get_bucket old_bucket p
               in if old_value < 1 then Inl InsufficientStock
                  else let p' = set_bucket old_bucket (old_value - 1) p
                       in try_then (save_product
                            (set_bucket new_bucket (get_bucket new_bucket p' + 1) p') s)
                            (\<lambda>s. Inr (put_asset (a\<lparr>a_status := new_status\<rparr>) s))))))))"

end
