(* ===== verification/Stock_Safety.thy ===== *)
theory Stock_Safety
  imports Availability_Requests "HOL-Library.Sublist"
begin

text \<open>
  What every availability operation promises: a well-formed stock stays well-formed, the
  guards of the operations keep the \<open>CHECK\<close> constraints of the product table from ever
  firing, and the operations that move units between buckets conserve them.
\<close>

section \<open>Well-formed tables\<close>

definition items_ok :: "db \<Rightarrow> bool" where
  "items_ok s \<longleftrightarrow> unique_keys i_id (items s) \<and>
     (\<forall>i \<in> set (items s). item_in_range i \<and> item_constraints i)"

definition tables_ok :: "db \<Rightarrow> bool" where
  "tables_ok s \<longleftrightarrow> stock_ok s \<and> items_ok s"

lemma check_item_Inr [ok_iff]: "check_item i = Inr u \<longleftrightarrow> item_in_range i \<and> item_constraints i"
  by (auto simp: check_item_def)

lemma check_item_Inl:
  "check_item i = Inl e \<longleftrightarrow> (\<not> item_in_range i \<and> e = DataError) \<or>
     (item_in_range i \<and> \<not> item_constraints i \<and> e = IntegrityError)"
  by (auto simp: check_item_def)

lemma save_item_Inr:
  "save_item i s = Inr t \<longleftrightarrow> item_in_range i \<and> item_constraints i \<and>
     t = s\<lparr>items := row_put i_id i (items s)\<rparr>"
  by (auto simp: save_item_def ok_iff)

lemma save_item_Inl: "save_item i s = Inl e \<longleftrightarrow> check_item i = Inl e"
  by (auto simp: save_item_def err_iff)

lemma stock_ok_cong: "products t = products s \<Longrightarrow> stock_ok t = stock_ok s"
  by (simp add: stock_ok_def)

lemma items_ok_cong: "items t = items s \<Longrightarrow> items_ok t = items_ok s"
  by (simp add: items_ok_def)

lemma save_product_tables_ok: "tables_ok s \<Longrightarrow> save_product p s = Inr t \<Longrightarrow> tables_ok t"
  by (auto simp: tables_ok_def save_product_Inr stock_ok_def items_ok_def dest!: set_row_putD)

lemma save_item_tables_ok: "tables_ok s \<Longrightarrow> save_item i s = Inr t \<Longrightarrow> tables_ok t"
  by (auto simp: tables_ok_def save_item_Inr stock_ok_def items_ok_def dest!: set_row_putD)

lemma tables_ok_simps [simp]:
  "tables_ok (create_adjustment j s) = tables_ok s"
  "tables_ok (audit_record actor act ms tgt meta s) = tables_ok s"
  "tables_ok (notify ev i s) = tables_ok s"
  "tables_ok (s\<lparr>in_atomic := b\<rparr>) = tables_ok s"
  "tables_ok (put_asset x s) = tables_ok s"
  by (simp_all add: tables_ok_def create_adjustment_def audit_record_def notify_def put_asset_def
      stock_ok_def items_ok_def)

lemma product_of_simps [simp]:
  "product_of pid (create_adjustment j s) = product_of pid s"
  "product_of pid (audit_record actor act ms tgt meta s) = product_of pid s"
  "product_of pid (notify ev i s) = product_of pid s"
  "product_of pid (s\<lparr>in_atomic := b\<rparr>) = product_of pid s"
  "product_of pid (put_asset x s) = product_of pid s"
  "product_of pid (s\<lparr>items := its\<rparr>) = product_of pid s"
  by (simp_all add: product_of_def create_adjustment_def audit_record_def notify_def put_asset_def)

lemma tables_ok_product: "tables_ok s \<Longrightarrow> product_of pid s = Some p \<Longrightarrow> product_ok p"
  by (auto simp: tables_ok_def intro: stock_ok_product)

section \<open>The operations as one machine\<close>

datatype stock_op =
    AdjustQuantities nat int int int string "nat option"
  | ConsumeAvailable nat int string "nat option"
  | TriageMove nat int report_outcome string "nat option"
  | IssueAvailable nat int
  | ReturnToAvailable nat int
  | TransferAvailable nat nat int
  | StocktakeDelta nat int int int
  | AdjustManual nat int int int string "nat option"
  | ChangeTracking nat "tracking_mode option"
  | ReserveForRequest nat
  | IssueItems nat rejects
  | RepairFromNeedsFix nat int
  | MoveToNeedsFix nat int
  | ScrapFromNeedsFix nat int
  | ReturnItems "resolution list"
  | ReleaseReservation hardware_request
  | ReconcileAssets nat
  | MoveAssetStatus nat asset_status

fun stock_step :: "stock_op \<Rightarrow> db \<Rightarrow> exn + db" where
  "stock_step (AdjustQuantities pid da dd dl reason actor) = adjust_quantities pid da dd dl reason actor"
| "stock_step (ConsumeAvailable pid q reason actor) = consume_available pid q reason actor"
| "stock_step (TriageMove pid q oc reason actor) = move_available_to_triage_bucket pid q oc reason actor"
| "stock_step (IssueAvailable pid q) = issue_available pid q"
| "stock_step (ReturnToAvailable pid q) = return_to_available pid q"
| "stock_step (TransferAvailable src dst q) = transfer_available_quantity src dst q"
| "stock_step (StocktakeDelta pid da dd dl) = apply_stocktake_delta pid da dd dl"
| "stock_step (AdjustManual pid da dd dl reason actor) = adjust_manual_quantities pid da dd dl reason actor"
| "stock_step (ChangeTracking pid mode) = change_tracking_mode pid mode"
| "stock_step (ReserveForRequest rid) = reserve_for_request rid"
| "stock_step (IssueItems rid rs) = issue_items rid rs"
| "stock_step (RepairFromNeedsFix pid q) = repair_from_needs_fix pid q"
| "stock_step (MoveToNeedsFix pid q) = move_available_to_needs_fix pid q"
| "stock_step (ScrapFromNeedsFix pid q) = scrap_from_needs_fix pid q"
| "stock_step (ReturnItems xs) = return_items_stock xs"
| "stock_step (ReleaseReservation r) = release_request_reservation r"
| "stock_step (ReconcileAssets pid) = reconcile_individual_product_from_assets pid"
| "stock_step (MoveAssetStatus aid st) = move_asset_status aid st"

text \<open>
  What the callers guarantee: a quantity handed out or taken back is not negative, and a
  resolution resolves no negative number of units. Nothing is asked of the other operations.
\<close>

definition resolution_nonneg :: "resolution \<Rightarrow> bool" where
  "resolution_nonneg x \<longleftrightarrow> 0 \<le> x_returned x \<and> 0 \<le> x_damaged x \<and> 0 \<le> x_missing x"

fun args_ok :: "stock_op \<Rightarrow> bool" where
  "args_ok (IssueAvailable pid q) = (0 \<le> q)"
| "args_ok (ReturnToAvailable pid q) = (0 \<le> q)"
| "args_ok (ReturnItems xs) = list_all resolution_nonneg xs"
| "args_ok _ = True"

section \<open>Well-formedness is kept, and the constraints never fire\<close>

text \<open>
  A save of a row that meets its \<open>CHECK\<close> constraints can only fail on an integer overflow,
  and leaves well-formed tables.
\<close>

abbreviation no_integrity_error :: "exn \<Rightarrow> bool" where
  "no_integrity_error e \<equiv> e \<noteq> IntegrityError"

lemma save_product_wp [wp]:
  assumes "tables_ok s" and "product_constraints p"
    and "\<And>t. tables_ok t \<Longrightarrow> t = s\<lparr>products := row_put p_id p (products s)\<rparr> \<Longrightarrow> P t" and "E DataError"
  shows "yields P E (save_product p s)"
  using assms by (intro yieldsI)
    (auto simp: save_product_Inl save_product_Inr product_ok_def dest: save_product_tables_ok)

lemma save_item_wp [wp]:
  assumes "tables_ok s" and "item_constraints i"
    and "\<And>t. tables_ok t \<Longrightarrow> t = s\<lparr>items := row_put i_id i (items s)\<rparr> \<Longrightarrow> P t" and "E DataError"
  shows "yields P E (save_item i s)"
proof (intro yieldsI)
  show "P t" if "save_item i s = Inr t" for t
    using that assms(3) [of t] save_item_tables_ok [OF assms(1) that] by (simp add: save_item_Inr)
qed (use assms in \<open>auto simp: save_item_Inl check_item_Inl\<close>)

lemma get_product_wp [wp]:
  assumes "tables_ok s" and "\<And>p. product_of pid s = Some p \<Longrightarrow> product_ok p \<Longrightarrow> p_id p = pid \<Longrightarrow> P p"
    and "E DoesNotExist"
  shows "yields P E (get_product pid s)"
  using assms by (intro yieldsI)
    (auto simp: ok_iff get_product_Inl dest: tables_ok_product product_of_id)

lemmas constraint_defs = product_ok_def product_constraints_def bucket_sum_def with_recomputed_total_def

lemma adjust_quantities_safe:
  "tables_ok s \<Longrightarrow> yields tables_ok no_integrity_error (adjust_quantities pid da dd dl reason actor s)"
  by (auto simp: adjust_quantities_def Let_def constraint_defs intro!: wp)

lemma consume_available_safe:
  "tables_ok s \<Longrightarrow> yields tables_ok no_integrity_error (consume_available pid q reason actor s)"
  by (simp add: consume_available_def adjust_quantities_safe)

lemma triage_move_safe:
  "tables_ok s \<Longrightarrow>
    yields tables_ok no_integrity_error (move_available_to_triage_bucket pid q oc reason actor s)"
  by (auto simp: move_available_to_triage_bucket_def adjust_quantities_safe Let_def constraint_defs
      intro!: wp)

lemma issue_available_safe:
  "tables_ok s \<Longrightarrow> 0 \<le> q \<Longrightarrow> yields tables_ok no_integrity_error (issue_available pid q s)"
  by (auto simp: issue_available_def constraint_defs intro!: wp)

lemma return_to_available_safe:
  "tables_ok s \<Longrightarrow> 0 \<le> q \<Longrightarrow> yields tables_ok no_integrity_error (return_to_available pid q s)"
  by (auto simp: return_to_available_def constraint_defs intro!: wp)

lemma apply_stocktake_delta_safe:
  "tables_ok s \<Longrightarrow> yields tables_ok no_integrity_error (apply_stocktake_delta pid da dd dl s)"
  by (auto simp: apply_stocktake_delta_def Let_def constraint_defs intro!: wp)

lemma adjust_manual_safe:
  "tables_ok s \<Longrightarrow>
    yields tables_ok no_integrity_error (adjust_manual_quantities pid da dd dl reason actor s)"
  by (auto simp: adjust_manual_quantities_def intro!: wp
      intro: yields_mono [OF adjust_quantities_safe])

lemma change_tracking_safe:
  "tables_ok s \<Longrightarrow> yields tables_ok no_integrity_error (change_tracking_mode pid mode s)"
  by (auto simp: change_tracking_mode_def constraint_defs split: option.splits intro!: wp)

lemma needs_fix_safe:
  assumes "tables_ok s"
  shows "yields tables_ok no_integrity_error (repair_from_needs_fix pid q s)"
    and "yields tables_ok no_integrity_error (move_available_to_needs_fix pid q s)"
    and "yields tables_ok no_integrity_error (scrap_from_needs_fix pid q s)"
  using assms by (auto simp: repair_from_needs_fix_def move_available_to_needs_fix_def
      scrap_from_needs_fix_def require_quantity_fix_action_def constraint_defs intro!: wp)

lemma transfer_safe:
  assumes "tables_ok s"
  shows "yields tables_ok no_integrity_error (transfer_available_quantity src dst q s)"
  using assms by (auto simp: transfer_available_quantity_def constraint_defs
      split: option.splits intro!: wp dest!: tables_ok_product [OF assms])

lemma status_count_nonneg [simp]: "0 \<le> status_count st pid s"
  by (simp add: status_count_def)

lemma reserve_product_safe:
  assumes "tables_ok s" and "0 \<le> q"
  shows "yields tables_ok no_integrity_error (reserve_product pid q s)"
  using assms by (auto simp: reserve_product_def assert_individual_assets_available_def Let_def constraint_defs
      split: option.splits intro!: wp dest!: tables_ok_product [OF assms(1)])

lemma required_quantity_nonneg [simp]: "0 \<le> required_quantity its pid"
  by (auto simp: required_quantity_def intro!: sum_list_nonneg)

lemma reserve_for_request_safe:
  "tables_ok s \<Longrightarrow> yields tables_ok no_integrity_error (reserve_for_request rid s)"
  by (auto simp: reserve_for_request_def Let_def intro!: for_each_yields reserve_product_safe)

lemma issue_item_safe:
  assumes "tables_ok s" and "item_constraints i"
  shows "yields tables_ok no_integrity_error (issue_item rs i s)"
  using assms by (auto simp: issue_item_def Let_def constraint_defs item_constraints_def
      split: option.splits intro!: wp dest!: tables_ok_product [OF assms(1)])

lemma set_items_by_product: "set (items_by_product rid s) = {i \<in> set (items s). i_request i = rid}"
  by (auto simp: items_by_product_def request_items_def)

lemma tables_ok_items: "tables_ok s \<Longrightarrow> i \<in> set (items s) \<Longrightarrow> item_constraints i"
  by (simp add: tables_ok_def items_ok_def)

lemma issue_items_safe:
  "tables_ok s \<Longrightarrow> yields tables_ok no_integrity_error (issue_items rid rs s)"
  by (auto simp: issue_items_def set_items_by_product
      intro!: for_each_yields issue_item_safe tables_ok_items)

lemma item_of_mem: "item_of iid s = Some i \<Longrightarrow> i \<in> set (items s) \<and> i_id i = iid"
  by (auto simp: item_of_def dest: row_get_SomeD)

lemma tables_ok_item: "tables_ok s \<Longrightarrow> item_of iid s = Some i \<Longrightarrow> item_constraints i"
  by (auto dest: item_of_mem tables_ok_items)

lemma return_resolution_safe:
  assumes "tables_ok s" and "resolution_nonneg x"
  shows "yields tables_ok no_integrity_error (return_resolution x s)"
  using assms by (auto simp: return_resolution_def Let_def constraint_defs resolution_nonneg_def
      item_constraints_def split: option.splits intro!: wp
      dest!: tables_ok_product [OF assms(1)] tables_ok_item [OF assms(1)])

lemma return_items_safe:
  "tables_ok s \<Longrightarrow> list_all resolution_nonneg xs \<Longrightarrow>
    yields tables_ok no_integrity_error (return_items_stock xs s)"
  by (auto simp: return_items_stock_def list_all_iff
      intro!: for_each_yields return_resolution_safe)

lemma reconcile_safe:
  "tables_ok s \<Longrightarrow>
    yields tables_ok no_integrity_error (reconcile_individual_product_from_assets pid s)"
  by (auto simp: reconcile_individual_product_from_assets_def reconciled_row_def Let_def
      constraint_defs intro!: wp)

lemma get_bucket_set [simp]: "get_bucket b (set_bucket c n p) = (if b = c then n else get_bucket b p)"
  by (cases b; cases c) simp_all

lemma set_bucket_other [simp]:
  "p_total (set_bucket b n p) = p_total p" "p_id (set_bucket b n p) = p_id p"
  by (cases b; simp)+

lemma bucket_sum_set_bucket: "bucket_sum (set_bucket b n p) = bucket_sum p - get_bucket b p + n"
  by (cases b) (simp_all add: bucket_sum_def)

lemma product_constraints_buckets:
  "product_constraints p \<longleftrightarrow> 0 \<le> p_total p \<and> (\<forall>b. 0 \<le> get_bucket b p) \<and> bucket_sum p \<le> p_total p"
  (is "?l = ?r")
proof
  assume ?l
  then have "0 \<le> get_bucket b p" for b by (cases b) (auto simp: product_constraints_def)
  with \<open>?l\<close> show ?r by (auto simp: product_constraints_def)
next
  assume ?r
  then have "0 \<le> p_total p" "bucket_sum p \<le> p_total p" and b: "\<And>b. 0 \<le> get_bucket b p" by auto
  then show ?l
    using b [of BAvailable] b [of BReserved] b [of BIssued] b [of BDamaged] b [of BLost]
      b [of BNeedsFix] by (simp add: product_constraints_def)
qed

lemma move_asset_status_safe:
  assumes "tables_ok s"
  shows "yields tables_ok no_integrity_error (move_asset_status aid st s)"
  using assms by (auto simp: move_asset_status_def Let_def get_asset_def product_ok_def
      product_constraints_buckets bucket_sum_set_bucket split: option.splits intro!: wp
      yields_mono [OF reconcile_safe])

lemma release_product_frame:
  "release_product pid q s = Inr t \<Longrightarrow> pid' \<noteq> pid \<Longrightarrow> product_of pid' t = product_of pid' s"
  by (auto simp: release_product_def ok_iff save_product_Inr product_of_put dest: product_of_id
      split: if_splits)

lemma tables_ok_accepted: "tables_ok s \<Longrightarrow> i \<in> set (items s) \<Longrightarrow> 0 \<le> i_accepted i"
  using tables_ok_items [of s i] by (simp add: item_constraints_def)

lemma accepted_quantity_nonneg [simp]: "tables_ok s \<Longrightarrow> 0 \<le> accepted_quantity rid pid s"
  by (auto simp: accepted_quantity_def request_items_def intro!: sum_list_nonneg tables_ok_accepted)

lemma release_reservation_safe:
  assumes "tables_ok s"
  shows "yields tables_ok no_integrity_error (release_request_reservation r s)"
proof -
  let ?pids = "item_products (r_id r) s" and ?q = "\<lambda>pid. accepted_quantity (r_id r) pid s"
  have "yields tables_ok no_integrity_error (for_each (\<lambda>pid. release_product pid (?q pid)) ?pids s)"
    if att: "\<And>pid p. pid \<in> set ?pids \<Longrightarrow> product_of pid s = Some p \<Longrightarrow> reservation_attributable r p s"
  proof (rule for_each_distinct_yields [where look = product_of])
    show "yields tables_ok no_integrity_error (release_product pid (?q pid) u)"
      if u: "pid \<in> set ?pids" "tables_ok u" "product_of pid u = product_of pid s" for pid u
    proof (cases "product_of pid s")
      case (Some p)
      with att u have "reservation_attributable r p s" by simp
      with Some have "?q pid \<le> p_reserved p"
        using product_of_id [OF Some]
        by (auto simp: reservation_attributable_def Let_def intro: add_increasing2)
      moreover have "product_ok p" using u Some by (auto dest: tables_ok_product)
      ultimately show ?thesis
        using u Some accepted_quantity_nonneg [OF assms, of "r_id r" pid]
        by (auto simp: release_product_def constraint_defs intro!: wp)
    qed (use u in \<open>auto simp: release_product_def get_product_def product_of_def intro!: wp\<close>)
  qed (use assms in \<open>auto simp: item_products_def intro: touches_onlyI release_product_frame\<close>)
  with assms show ?thesis
    by (auto simp: release_request_reservation_def Let_def list_all_iff)
qed

lemma stock_step_safe:
  assumes "tables_ok s" and "args_ok c"
  shows "yields tables_ok no_integrity_error (stock_step c s)"
  using assms
  by (cases c) (auto intro: adjust_quantities_safe consume_available_safe triage_move_safe
      issue_available_safe return_to_available_safe transfer_safe apply_stocktake_delta_safe
      adjust_manual_safe change_tracking_safe reserve_for_request_safe issue_items_safe
      needs_fix_safe return_items_safe release_reservation_safe reconcile_safe
      move_asset_status_safe)

text \<open>The tables stay well-formed whatever the arguments: the database refuses a bad row.\<close>

lemma save_product_keeps [intro]:
  "tables_ok s \<Longrightarrow> (\<And>t. tables_ok t \<Longrightarrow> P t) \<Longrightarrow> yields P (\<lambda>_. True) (save_product p s)"
  by (intro yieldsI) (auto dest: save_product_tables_ok)

lemma save_item_keeps [intro]:
  "tables_ok s \<Longrightarrow> (\<And>t. tables_ok t \<Longrightarrow> P t) \<Longrightarrow> yields P (\<lambda>_. True) (save_item i s)"
  by (intro yieldsI) (auto dest: save_item_tables_ok)

lemma stock_step_keeps: "tables_ok s \<Longrightarrow> yields tables_ok (\<lambda>_. True) (stock_step c s)"
proof (cases "args_ok c")
  case False
  assume s: "tables_ok s"
  from False show ?thesis
  proof (cases c)
    case (ReturnItems xs)
    with s show ?thesis
      by (auto simp: return_items_stock_def return_resolution_def Let_def split: option.splits
          intro!: for_each_yields save_product_keeps save_item_keeps)
  qed (use s in \<open>auto simp: issue_available_def return_to_available_def get_product_def
      split: option.splits\<close>)
qed (auto intro: yields_mono [OF stock_step_safe])

section \<open>What the operations never touch\<close>

text \<open>
  No availability operation creates, removes or re-homes a product, or writes a request, a link,
  a loan, evidence or a return record; the adjustment ledger and the audit log only grow.
\<close>

definition product_identity :: "product \<Rightarrow> nat \<times> nat \<times> string \<times> nat option \<times> bool \<times> bool" where
  "product_identity p =
     (p_id p, p_makerspace p, p_name p, p_box p, p_is_archived p, p_is_public p)"

definition other_tables where
  "other_tables s =
     (in_atomic s, now s, users s, makerspaces s, bucket_objects s, boxes s, qr_codes s, evidence s, finalizations s,
      expiring s, requests s, links s, loans s, reports s, return_events s, accountabilities s,
      box_scans s, qr_scans s, outbox s)"

definition stock_frame :: "db \<Rightarrow> db \<Rightarrow> bool" where
  "stock_frame s t \<longleftrightarrow> map product_identity (products t) = map product_identity (products s) \<and>
     other_tables t = other_tables s \<and> map i_id (items t) = map i_id (items s) \<and>
     map a_id (assets t) = map a_id (assets s) \<and>
     prefix (adjustments s) (adjustments t) \<and> prefix (audit_log s) (audit_log t)"

lemma stock_frame_refl [simp]: "stock_frame s s"
  by (simp add: stock_frame_def)

lemma stock_frame_trans [trans]: "stock_frame s t \<Longrightarrow> stock_frame t u \<Longrightarrow> stock_frame s u"
  by (auto simp: stock_frame_def intro: prefix_order.trans)

lemma stock_frame_ledgers [simp]:
  "stock_frame s t \<Longrightarrow> stock_frame s (create_adjustment j t)"
  "stock_frame s t \<Longrightarrow> stock_frame s (audit_record actor act ms tgt meta t)"
  "stock_frame s t \<Longrightarrow> stock_frame s (put_asset x t)"
  by (auto simp: stock_frame_def create_adjustment_def audit_record_def put_asset_def
      other_tables_def)

lemma map_row_put:
  "unique_keys key rows \<Longrightarrow> row_get key (key r) rows = Some old \<Longrightarrow> f r = f old \<Longrightarrow>
    map f (row_put key r rows) = map f rows"
proof (induction rows)
  case (Cons a rows)
  show ?case
  proof (cases "key a = key r")
    case True
    with Cons.prems have "row_put key r rows = rows"
      by (intro row_put_absent) (auto simp: row_get_None unique_keys_def)
    with True Cons.prems show ?thesis by (simp add: row_put_def row_get_Cons)
  qed (use Cons in \<open>auto simp: row_put_def row_get_Cons unique_keys_def\<close>)
qed simp

text \<open>One step of an operation: rows stay well-formed, and nothing outside the frame changes.\<close>

definition framed :: "db \<Rightarrow> db \<Rightarrow> bool" where
  "framed s t \<longleftrightarrow> tables_ok t \<and> stock_frame s t"

lemma save_product_framed [intro]:
  assumes "framed s u"
    and "map_option product_identity (product_of (p_id p) u) = Some (product_identity p)"
    and "\<And>t. framed s t \<Longrightarrow> t = u\<lparr>products := row_put p_id p (products u)\<rparr> \<Longrightarrow> P t"
  shows "yields P (\<lambda>_. True) (save_product p u)"
proof (intro yieldsI assms(3))
  fix t
  assume t: "save_product p u = Inr t"
  from assms(2) obtain q where q: "product_of (p_id p) u = Some q" "product_identity q = product_identity p"
    by auto
  have "tables_ok t" using t assms(1) by (auto simp: framed_def dest: save_product_tables_ok)
  moreover have "map product_identity (row_put p_id p (products u)) = map product_identity (products u)"
    using assms(1) q by (intro map_row_put [where old = q])
      (simp_all add: framed_def tables_ok_def stock_ok_def product_of_def)
  then have "stock_frame s t"
    using assms(1) t by (simp add: framed_def stock_frame_def save_product_Inr other_tables_def)
  ultimately show "framed s t" by (simp add: framed_def)
  show "t = u\<lparr>products := row_put p_id p (products u)\<rparr>" using t by (simp add: save_product_Inr)
qed simp

lemma save_item_framed [intro]:
  "framed s u \<Longrightarrow> (\<And>t. framed s t \<Longrightarrow> P t) \<Longrightarrow> yields P (\<lambda>_. True) (save_item i u)"
  by (intro yieldsI) (auto simp: framed_def stock_frame_def save_item_Inr other_tables_def
      dest: save_item_tables_ok)

lemma framed_ledgers [simp]:
  "framed s t \<Longrightarrow> framed s (create_adjustment j t)"
  "framed s t \<Longrightarrow> framed s (audit_record actor act ms tgt meta t)"
  "framed s t \<Longrightarrow> framed s (put_asset x t)"
  by (simp_all add: framed_def)

lemma framed_in_atomic:
  "framed (s\<lparr>in_atomic := True\<rparr>) t \<Longrightarrow> framed s (t\<lparr>in_atomic := in_atomic s\<rparr>)"
  by (auto simp: framed_def stock_frame_def other_tables_def)

lemma framed_refl: "tables_ok s \<Longrightarrow> framed s s"
  by (simp add: framed_def)

lemma framed_trans: "framed s t \<Longrightarrow> framed t u \<Longrightarrow> framed s u"
  by (auto simp: framed_def intro: stock_frame_trans)

lemma with_recomputed_total_simps [simp]:
  "p_id (with_recomputed_total p) = p_id p"
  "product_identity (with_recomputed_total p) = product_identity p"
  by (simp_all add: with_recomputed_total_def product_identity_def)

lemma product_identity_simps [simp]:
  "product_identity (p\<lparr>p_available := n\<rparr>) = product_identity p"
  "product_identity (p\<lparr>p_reserved := n\<rparr>) = product_identity p"
  "product_identity (p\<lparr>p_issued := n\<rparr>) = product_identity p"
  "product_identity (p\<lparr>p_damaged := n\<rparr>) = product_identity p"
  "product_identity (p\<lparr>p_lost := n\<rparr>) = product_identity p"
  "product_identity (p\<lparr>p_needs_fix := n\<rparr>) = product_identity p"
  "product_identity (p\<lparr>p_total := n\<rparr>) = product_identity p"
  "product_identity (p\<lparr>p_tracking_mode := m\<rparr>) = product_identity p"
  by (simp_all add: product_identity_def)

lemma product_identity_bucket [simp]: "product_identity (set_bucket b n p) = product_identity p"
  by (cases b) simp_all

lemma product_of_self [simp]: "product_of pid s = Some p \<Longrightarrow> product_of (p_id p) s = Some p"
  by (auto dest: product_of_id)

lemma get_product_framed [intro]:
  "(\<And>p. product_of pid s = Some p \<Longrightarrow> p_id p = pid \<Longrightarrow> P p) \<Longrightarrow> yields P (\<lambda>_. True) (get_product pid s)"
  by (intro yieldsI) (auto simp: ok_iff dest: product_of_id)

text \<open>The same row may be written twice in one operation: the second write finds the first one's.\<close>

lemma adjust_quantities_framed:
  assumes "framed s u"
  shows "yields (framed s) (\<lambda>_. True) (adjust_quantities pid da dd dl reason actor u)"
proof -
  let ?u = "u\<lparr>in_atomic := True\<rparr>"
  have "framed ?u ?u" using assms by (simp add: framed_def)
  then have "yields (framed u) (\<lambda>_. True) (adjust_quantities pid da dd dl reason actor u)"
    by (auto simp: adjust_quantities_def Let_def intro!: get_product_framed save_product_framed
        framed_in_atomic)
  then show ?thesis using assms by (auto elim!: yields_mono intro: framed_trans)
qed

lemma issue_item_framed:
  "framed s u \<Longrightarrow> yields (framed s) (\<lambda>_. True) (issue_item rs i u)"
  by (auto simp: issue_item_def Let_def split: option.splits dest: product_of_id
      intro!: save_product_framed save_item_framed)

lemma return_resolution_framed:
  "framed s u \<Longrightarrow> yields (framed s) (\<lambda>_. True) (return_resolution x u)"
  by (auto simp: return_resolution_def Let_def split: option.splits dest: product_of_id
      intro!: save_product_framed save_item_framed)

lemma assert_assets_framed [intro]:
  "P () \<Longrightarrow> yields P (\<lambda>_. True) (assert_individual_assets_available p q s)"
  by (simp add: assert_individual_assets_available_def Let_def)

lemma reserve_product_framed:
  "framed s u \<Longrightarrow> yields (framed s) (\<lambda>_. True) (reserve_product pid q u)"
  by (auto simp: reserve_product_def split: option.splits
      intro!: save_product_framed assert_assets_framed)

lemma release_product_framed:
  "framed s u \<Longrightarrow> yields (framed s) (\<lambda>_. True) (release_product pid q u)"
  by (auto simp: release_product_def intro!: save_product_framed get_product_framed)

lemma reconcile_framed:
  "framed s u \<Longrightarrow> yields (framed s) (\<lambda>_. True) (reconcile_individual_product_from_assets pid u)"
  by (auto simp: reconcile_individual_product_from_assets_def reconciled_row_def Let_def
      intro!: save_product_framed get_product_framed)

lemma move_asset_status_framed:
  "framed s u \<Longrightarrow> yields (framed s) (\<lambda>_. True) (move_asset_status aid st u)"
  by (auto simp: move_asset_status_def Let_def get_asset_def split: option.splits
      intro!: yields_mono [OF reconcile_framed] save_product_framed get_product_framed)

lemma transfer_framed:
  "framed s u \<Longrightarrow> yields (framed s) (\<lambda>_. True) (transfer_available_quantity src dst q u)"
  by (auto simp: transfer_available_quantity_def product_of_put split: option.splits
      intro!: save_product_framed) (metis product_of_id)+

lemmas loop_framed = reserve_product_framed issue_item_framed return_resolution_framed
  release_product_framed

lemma stock_step_framed:
  assumes "tables_ok s"
  shows "yields (framed s) (\<lambda>_. True) (stock_step c s)"
proof -
  note f = framed_refl [OF assms]
  show ?thesis
  proof (cases c)
    case (TriageMove pid q oc reason actor)
    then show ?thesis using f
      by (auto simp: move_available_to_triage_bucket_def Let_def
          intro!: adjust_quantities_framed get_product_framed save_product_framed)
  next
    case (AdjustManual pid da dd dl reason actor)
    have "framed (s\<lparr>in_atomic := True\<rparr>) (s\<lparr>in_atomic := True\<rparr>)" using assms by (simp add: framed_refl)
    then show ?thesis using AdjustManual
      by (auto simp: adjust_manual_quantities_def intro!: get_product_framed
          yields_mono [OF adjust_quantities_framed] framed_in_atomic)
  qed (use f in \<open>auto simp: consume_available_def issue_available_def return_to_available_def
      apply_stocktake_delta_def change_tracking_mode_def repair_from_needs_fix_def
      move_available_to_needs_fix_def scrap_from_needs_fix_def require_quantity_fix_action_def
      reserve_for_request_def issue_items_def return_items_stock_def
      release_request_reservation_def Let_def split: option.splits
      intro!: adjust_quantities_framed transfer_framed reconcile_framed move_asset_status_framed
        get_product_framed save_product_framed for_each_yields loop_framed\<close>)
qed

interpretation stock: tracked_machine stock_step tables_ok stock_frame
proof unfold_locales
  show "stock_frame s t" if "tables_ok s" "stock_step c s = Inr t" for s t c
    using yields_Inr [OF stock_step_framed [OF that(1)] that(2)] by (simp add: framed_def)
qed (auto intro: stock_frame_trans yields_Inr [OF stock_step_keeps])

end
