(* ===== verification/Stock_Effects.thy ===== *)
theory Stock_Effects
  imports Stock_Safety
begin

text \<open>
  What the availability operations do to the quantities: units are moved, never made or lost,
  by everything but a count correction; a reservation takes exactly what the request accepted
  from each product; and the buckets of an individually tracked product are the counts of its
  unit rows after a reconciliation and after every status change of a unit.
\<close>

section \<open>Units are conserved\<close>

text \<open>
  The slack of a product (units in its total but in no bucket) is what a move between buckets
  cannot change; a removal takes the units from the total and from a bucket alike.
\<close>

definition slack_of :: "nat \<Rightarrow> db \<Rightarrow> int option" where
  "slack_of pid s = map_option slack (product_of pid s)"

definition slack_kept :: "db \<Rightarrow> db \<Rightarrow> bool" where
  "slack_kept s t \<longleftrightarrow> (\<forall>pid. slack_of pid t = slack_of pid s)"

fun conserving :: "stock_op \<Rightarrow> bool" where
  "conserving (AdjustQuantities _ _ _ _ _ _) = False"
| "conserving (ConsumeAvailable _ _ _ _) = False"
| "conserving (TriageMove _ _ _ _ _) = False"
| "conserving (StocktakeDelta _ _ _ _) = False"
| "conserving (AdjustManual _ _ _ _ _ _) = False"
| "conserving (ReconcileAssets _) = False"
| "conserving (MoveAssetStatus _ _) = False"
| "conserving _ = True"

lemma slack_kept_refl [simp]: "slack_kept s s"
  by (simp add: slack_kept_def)

lemma save_product_slack [intro]:
  assumes "slack_kept s u" and "map_option slack (product_of (p_id p) u) = Some (slack p)"
    and "\<And>t. slack_kept s t \<Longrightarrow> t = u\<lparr>products := row_put p_id p (products u)\<rparr> \<Longrightarrow> P t"
  shows "yields P (\<lambda>_. True) (save_product p u)"
proof (intro yieldsI assms(3))
  fix t
  assume "save_product p u = Inr t"
  then show "t = u\<lparr>products := row_put p_id p (products u)\<rparr>" by (simp add: save_product_Inr)
  moreover obtain q where "product_of (p_id p) u = Some q" "slack q = slack p" using assms(2) by auto
  ultimately show "slack_kept s t"
    using assms(1) by (simp add: slack_kept_def slack_of_def product_of_put) (metis option.simps(9))
qed simp

lemma save_item_slack [intro]:
  "slack_kept s u \<Longrightarrow> (\<And>t. slack_kept s t \<Longrightarrow> P t) \<Longrightarrow> yields P (\<lambda>_. True) (save_item i u)"
  by (intro yieldsI) (auto simp: slack_kept_def slack_of_def save_item_Inr)

lemmas slack_defs = slack_def bucket_sum_def

lemma issue_item_slack: "slack_kept s u \<Longrightarrow> yields (slack_kept s) (\<lambda>_. True) (issue_item rs i u)"
  by (auto simp: issue_item_def Let_def slack_defs split: option.splits
      intro!: save_product_slack save_item_slack)

lemma return_resolution_slack:
  "slack_kept s u \<Longrightarrow> yields (slack_kept s) (\<lambda>_. True) (return_resolution x u)"
  by (auto simp: return_resolution_def Let_def slack_defs split: option.splits
      intro!: save_product_slack save_item_slack)

lemma reserve_product_slack:
  "slack_kept s u \<Longrightarrow> yields (slack_kept s) (\<lambda>_. True) (reserve_product pid q u)"
  by (auto simp: reserve_product_def slack_defs split: option.splits
      intro!: save_product_slack assert_assets_framed)

lemma release_product_slack:
  "slack_kept s u \<Longrightarrow> yields (slack_kept s) (\<lambda>_. True) (release_product pid q u)"
  by (auto simp: release_product_def slack_defs intro!: save_product_slack get_product_framed)

lemma transfer_slack: "yields (slack_kept s) (\<lambda>_. True) (transfer_available_quantity src dst q s)"
  by (auto simp: transfer_available_quantity_def product_of_put slack_defs split: option.splits
      intro!: save_product_slack) (metis product_of_id)+

lemma conserving_slack: "conserving c \<Longrightarrow> yields (slack_kept s) (\<lambda>_. True) (stock_step c s)"
  by (cases c) (auto simp: issue_available_def return_to_available_def change_tracking_mode_def
      repair_from_needs_fix_def move_available_to_needs_fix_def scrap_from_needs_fix_def
      require_quantity_fix_action_def reserve_for_request_def issue_items_def
      return_items_stock_def release_request_reservation_def Let_def slack_defs split: option.splits
      intro!: transfer_slack get_product_framed save_product_slack for_each_yields issue_item_slack
        return_resolution_slack reserve_product_slack release_product_slack)

text \<open>A transfer moves units from one product to the other: the two together keep their total.\<close>

definition total_units :: "db \<Rightarrow> int" where
  "total_units s = sum_list (map p_total (products s))"

lemma save_product_units:
  "tables_ok s \<Longrightarrow> product_of (p_id p) s = Some q \<Longrightarrow> save_product p s = Inr t \<Longrightarrow>
    total_units t = total_units s - p_total q + p_total p"
  by (simp add: save_product_Inr total_units_def tables_ok_def stock_ok_def product_of_def
      sum_list_row_put)

lemma transfer_total_units:
  assumes "tables_ok s" and "transfer_available_quantity src dst q s = Inr t"
  shows "total_units t = total_units s"
proof (cases "src = dst")
  case False
  with assms(2) obtain p p' u where
    p: "product_of src s = Some p" "product_of dst s = Some p'"
    and u: "save_product (p\<lparr>p_available := p_available p - q, p_total := p_total p - q\<rparr>) s = Inr u"
    and t: "save_product (p'\<lparr>p_available := p_available p' + q, p_total := p_total p' + q\<rparr>) u = Inr t"
    by (auto simp: transfer_available_quantity_def ok_iff split: if_splits)
  have ids: "p_id p = src" "p_id p' = dst" using p by (simp_all add: product_of_id)
  have "product_of dst u = Some p'"
    using u p ids False by (auto simp: save_product_Inr product_of_put)
  with p ids show ?thesis
    using save_product_units [OF assms(1) _ u] save_product_units [OF save_product_tables_ok [OF assms(1) u] _ t]
    by simp
qed (use assms(2) in \<open>auto simp: transfer_available_quantity_def split: if_splits\<close>)

section \<open>What a reservation takes\<close>

lemma reserve_product_frame:
  "reserve_product pid q s = Inr t \<Longrightarrow> pid' \<noteq> pid \<Longrightarrow> product_of pid' t = product_of pid' s"
  by (auto simp: reserve_product_def ok_iff save_product_Inr product_of_put dest: product_of_id)

text \<open>The row of a product with \<open>q\<close> units moved from the available to the reserved bucket.\<close>

definition reserved_row :: "int \<Rightarrow> product \<Rightarrow> product" where
  "reserved_row q p = p\<lparr>p_available := p_available p - q, p_reserved := p_reserved p + q\<rparr>"

lemma reserved_row_0 [simp]: "reserved_row 0 p = p"
  by (simp add: reserved_row_def)

lemma reserved_row_add: "reserved_row a (reserved_row b p) = reserved_row (a + b) p"
  by (simp add: reserved_row_def)

lemma reserve_product_Inr:
  assumes "reserve_product pid q s = Inr t"
  shows "\<exists>p. product_of pid s = Some p \<and> q \<le> p_available p \<and>
    product_of pid t = Some (reserved_row q p)"
  using assms by (auto simp: reserve_product_def ok_iff save_product_Inr product_of_put
      reserved_row_def dest: product_of_id)

lemma required_quantity_0: "pid \<notin> set (required_products its) \<Longrightarrow> required_quantity its pid = 0"
proof -
  assume "pid \<notin> set (required_products its)"
  then have "filter (\<lambda>i. i_product i = pid \<and> 0 < i_accepted i) its = []"
    by (auto simp: required_products_def filter_empty_conv)
  then show ?thesis by (simp only: required_quantity_def) simp
qed

lemma required_quantity_accepted:
  assumes "tables_ok s"
  shows "required_quantity (items_by_product rid s) pid = accepted_quantity rid pid s"
proof -
  have "sum_list (map i_accepted (filter (\<lambda>i. i_product i = pid \<and> 0 < i_accepted i) its)) =
      sum_list (map i_accepted (filter (\<lambda>i. i_product i = pid) its))"
    if "\<forall>i \<in> set its. 0 \<le> i_accepted i" for its
    using that by (induction its) auto
  moreover have "\<forall>i \<in> set (items_by_product rid s). 0 \<le> i_accepted i"
    using assms by (auto simp: set_items_by_product intro: tables_ok_accepted)
  ultimately have "required_quantity (items_by_product rid s) pid =
      sum_list (map i_accepted (filter (\<lambda>i. i_product i = pid) (items_by_product rid s)))"
    by (simp add: required_quantity_def)
  also have "\<dots> = sum_list (map i_accepted (sort_key i_product (filter (\<lambda>i. i_product i = pid) (request_items rid s))))"
    by (simp add: items_by_product_def filter_sort)
  also have "\<dots> = accepted_quantity rid pid s"
    by (simp add: accepted_quantity_def flip: sum_mset_sum_list)
  finally show ?thesis .
qed

lemma reserve_for_request_effect:
  assumes "tables_ok s" and "reserve_for_request rid s = Inr t"
  shows "product_of pid t =
    map_option (reserved_row (accepted_quantity rid pid s)) (product_of pid s)"
proof -
  let ?its = "items_by_product rid s"
  let ?f = "\<lambda>pid. reserve_product pid (required_quantity ?its pid)"
  have loop: "for_each ?f (required_products ?its) s = Inr t"
    using assms(2) by (auto simp: reserve_for_request_def Let_def split: if_splits)
  have frame: "touches_only product_of ?f"
    by (rule touches_onlyI) (rule reserve_product_frame)
  have q: "accepted_quantity rid pid s = required_quantity ?its pid"
    using assms(1) by (simp add: required_quantity_accepted)
  show ?thesis
  proof (cases "pid \<in> set (required_products ?its)")
    case True
    have "distinct (required_products ?its)" by (simp add: required_products_def)
    from for_each_distinct_Inr [OF loop this True frame]
    obtain u v where uv: "product_of pid u = product_of pid s" "?f pid u = Inr v"
      "product_of pid t = product_of pid v" by blast
    with reserve_product_Inr [OF uv(2)] show ?thesis by (auto simp: q)
  next
    case False
    from for_each_distinct_frame [OF loop this frame]
    have "product_of pid t = product_of pid s" .
    with False show ?thesis by (simp add: q required_quantity_0) (cases "product_of pid s"; simp)
  qed
qed

section \<open>Buckets and unit rows\<close>

text \<open>
  The buckets of an individually tracked product against its unit rows: units reserved for an
  accepted request are still rows with status available, so the two buckets match together.
\<close>

definition matches_assets :: "product \<Rightarrow> db \<Rightarrow> bool" where
  "matches_assets p s \<longleftrightarrow>
     p_available p + p_reserved p = status_count AVAILABLE (p_id p) s + status_count RESERVED (p_id p) s \<and>
     status_count RESERVED (p_id p) s \<le> p_reserved p \<and>
     p_issued p = status_count ISSUED (p_id p) s \<and>
     p_damaged p = status_count DAMAGED (p_id p) s \<and> p_lost p = status_count LOST (p_id p) s \<and>
     p_needs_fix p = status_count MAINTENANCE (p_id p) s \<and> p_total p = bucket_sum p"

lemma status_count_products [simp]: "status_count st pid (s\<lparr>products := ps\<rparr>) = status_count st pid s"
  by (simp add: status_count_def assets_of_def)

lemma matches_assets_products [simp]: "matches_assets p (s\<lparr>products := ps\<rparr>) = matches_assets p s"
  by (simp add: matches_assets_def)

lemma reconciled_row_matches: "reconciled_row p s = Inr p' \<Longrightarrow> matches_assets p' s \<and> p_id p' = p_id p"
  by (auto simp: reconciled_row_def Let_def matches_assets_def bucket_sum_def split: if_splits)

lemma reconciled_row_fixed: "matches_assets p s \<Longrightarrow> p_available p \<ge> 0 \<Longrightarrow> reconciled_row p s = Inr p"
  by (auto simp: reconciled_row_def Let_def matches_assets_def bucket_sum_def)

lemma reconcile_Inr:
  assumes "reconcile_individual_product_from_assets pid s = Inr t"
  shows "\<exists>p. product_of pid t = Some p \<and> t = s\<lparr>products := products t\<rparr> \<and>
    (p_tracking_mode p = INDIVIDUAL \<longrightarrow> matches_assets p t)"
proof -
  from assms obtain p where p: "product_of pid s = Some p"
    by (auto simp: reconcile_individual_product_from_assets_def ok_iff)
  with assms show ?thesis
    by (auto simp: reconcile_individual_product_from_assets_def ok_iff save_product_Inr product_of_put
        split: if_splits dest!: reconciled_row_matches dest: product_of_id)
qed

text \<open>A unit row that changes its status changes two counts by one.\<close>

lemma length_filter_row_put:
  assumes "unique_keys key rows" and "row_get key (key r) rows = Some old"
  shows "int (length (filter P (row_put key r rows))) =
    int (length (filter P rows)) - (if P old then 1 else 0) + (if P r then 1 else 0)"
proof -
  have len: "int (length (filter P xs)) = sum_list (map (\<lambda>x. if P x then 1 else 0) xs)" for xs
    by (induction xs) auto
  show ?thesis unfolding len by (rule sum_list_row_put [OF assms])
qed

lemma status_count_put_asset:
  assumes "unique_keys a_id (assets s)" and "row_get a_id aid (assets s) = Some a"
  shows "status_count st pid (put_asset (a\<lparr>a_status := st'\<rparr>) s) = status_count st pid s
    - (if a_product a = pid \<and> a_status a = st then 1 else 0)
    + (if a_product a = pid \<and> st' = st then 1 else 0)"
proof -
  have "a_id a = aid" using assms(2) by (auto dest: row_get_SomeD)
  with assms show ?thesis
    by (simp add: status_count_def assets_of_def put_asset_def length_filter_row_put)
qed

lemma tracking_mode_set_bucket: "p_tracking_mode (set_bucket b n p) = p_tracking_mode p"
  by (cases b) simp_all

lemma move_asset_status_Inr:
  assumes "row_get a_id aid (assets s) = Some a" and "a_status a \<noteq> st" and "move_asset_status aid st s = Inr t"
  shows "\<exists>ob nb u p. asset_quantity_bucket (a_status a) = Some ob \<and> asset_quantity_bucket st = Some nb \<and>
    product_of (a_product a) u = Some p \<and> u = s\<lparr>products := products u\<rparr> \<and>
    (p_tracking_mode p = INDIVIDUAL \<longrightarrow> matches_assets p u) \<and>
    (let p' = set_bucket ob (get_bucket ob p - 1) p; p'' = set_bucket nb (get_bucket nb p' + 1) p' in
      product_of (a_product a) t = Some p'' \<and>
      t = put_asset (a\<lparr>a_status := st\<rparr>) (u\<lparr>products := row_put p_id p'' (products u)\<rparr>))"
proof -
  from assms obtain ob nb u p where
    b: "asset_quantity_bucket (a_status a) = Some ob" "asset_quantity_bucket st = Some nb"
    and u: "reconcile_individual_product_from_assets (a_product a) s = Inr u"
    and p: "product_of (a_product a) u = Some p"
    and t: "let p' = set_bucket ob (get_bucket ob p - 1) p; p'' = set_bucket nb (get_bucket nb p' + 1) p' in
      t = put_asset (a\<lparr>a_status := st\<rparr>) (u\<lparr>products := row_put p_id p'' (products u)\<rparr>)"
    by (auto simp: move_asset_status_def get_asset_def ok_iff Let_def save_product_Inr)
  moreover have "u = s\<lparr>products := products u\<rparr>" "p_tracking_mode p = INDIVIDUAL \<longrightarrow> matches_assets p u"
    using reconcile_Inr [OF u] p by auto
  moreover have "product_of (a_product a) t = Some (set_bucket nb (get_bucket nb (set_bucket ob (get_bucket ob p - 1) p) + 1)
      (set_bucket ob (get_bucket ob p - 1) p))"
    using t p product_of_id [OF p] by (simp add: Let_def product_of_put)
  ultimately show ?thesis by (auto simp: Let_def)
qed

section \<open>The stock as accounts\<close>

text \<open>
  What the module promises its callers, without rows and tables: the units of a product in a bucket are
  an account, an operation is a list of postings to the accounts, and a posting is refused exactly when
  an account it takes from holds too few units.
\<close>

type_synonym account = "nat \<times> bucket"

datatype posting = Shift account account int | Enter account int

fun post :: "posting \<Rightarrow> (account \<Rightarrow> int) \<Rightarrow> (account \<Rightarrow> int) option" where
  "post (Shift a b q) h =
     (if h a < q then None else let h' = h(a := h a - q) in Some (h'(b := h' b + q)))"
| "post (Enter a q) h = (if h a + q < 0 then None else Some (h(a := h a + q)))"

fun post_all :: "posting list \<Rightarrow> (account \<Rightarrow> int) \<Rightarrow> (account \<Rightarrow> int) option" where
  "post_all [] h = Some h"
| "post_all (x # xs) h = (case post x h of None \<Rightarrow> None | Some h' \<Rightarrow> post_all xs h')"

definition holdings :: "db \<Rightarrow> account \<Rightarrow> int" where
  "holdings s a = (case product_of (fst a) s of None \<Rightarrow> 0 | Some p \<Rightarrow> get_bucket (snd a) p)"

text \<open>An accepted item leaves its reservation: what is handed over, and what was found broken.\<close>

definition issue_postings :: "rejects \<Rightarrow> request_item \<Rightarrow> posting list" where
  "issue_postings rs i =
     (let pid = i_product i; broken = max 0 (fst (reject_of rs (i_id i)))
      in if i_accepted i \<le> 0 then []
         else [Shift (pid, BReserved) (pid, BIssued) (i_accepted i - broken),
               if snd (reject_of rs (i_id i)) = RejectRemove then Enter (pid, BReserved) (- broken)
               else Shift (pid, BReserved) (pid, BNeedsFix) broken])"

definition return_postings :: "db \<Rightarrow> resolution \<Rightarrow> posting list" where
  "return_postings s x =
     (case item_of (x_item x) s of
        None \<Rightarrow> []
      | Some i \<Rightarrow> map (\<lambda>(b, q). Shift (i_product i, BIssued) (i_product i, b) q)
          [(BAvailable, x_returned x), (BDamaged, x_damaged x), (BLost, x_missing x)])"

fun triage_bucket :: "report_outcome \<Rightarrow> bucket option" where
  "triage_bucket OutcomeDamaged = Some BDamaged"
| "triage_bucket OutcomeMissing = Some BLost"
| "triage_bucket OutcomeNeedsFix = Some BNeedsFix"
| "triage_bucket _ = None"

fun postings :: "stock_op \<Rightarrow> db \<Rightarrow> posting list" where
  "postings (AdjustQuantities pid da dd dl _ _) s =
     [Enter (pid, BAvailable) da, Enter (pid, BDamaged) dd, Enter (pid, BLost) dl]"
| "postings (ConsumeAvailable pid q _ _) s = [Enter (pid, BAvailable) (- q)]"
| "postings (TriageMove pid q oc _ _) s =
     (case triage_bucket oc of None \<Rightarrow> [] | Some b \<Rightarrow> [Shift (pid, BAvailable) (pid, b) q])"
| "postings (IssueAvailable pid q) s = [Shift (pid, BAvailable) (pid, BIssued) q]"
| "postings (ReturnToAvailable pid q) s = [Shift (pid, BIssued) (pid, BAvailable) q]"
| "postings (TransferAvailable src dst q) s =
     (if src = dst then [] else [Shift (src, BAvailable) (dst, BAvailable) q])"
| "postings (StocktakeDelta pid da dd dl) s =
     [Enter (pid, BAvailable) da, Enter (pid, BDamaged) dd, Enter (pid, BLost) dl]"
| "postings (AdjustManual pid da dd dl _ _) s =
     [Enter (pid, BAvailable) da, Enter (pid, BDamaged) dd, Enter (pid, BLost) dl]"
| "postings (ReserveForRequest rid) s =
     map (\<lambda>pid. Shift (pid, BAvailable) (pid, BReserved) (accepted_quantity rid pid s))
       (required_products (items_by_product rid s))"
| "postings (IssueItems rid rs) s = concat (map (issue_postings rs) (items_by_product rid s))"
| "postings (RepairFromNeedsFix pid q) s = [Shift (pid, BNeedsFix) (pid, BAvailable) q]"
| "postings (MoveToNeedsFix pid q) s = [Shift (pid, BAvailable) (pid, BNeedsFix) q]"
| "postings (ScrapFromNeedsFix pid q) s = [Enter (pid, BNeedsFix) (- q)]"
| "postings (ReturnItems xs) s = concat (map (return_postings s) xs)"
| "postings (ReleaseReservation r) s =
     map (\<lambda>pid. Shift (pid, BReserved) (pid, BAvailable) (accepted_quantity (r_id r) pid s))
       (item_products (r_id r) s)"
| "postings _ s = []"

text \<open>The two operations that count unit rows instead (\<open>matches_assets\<close> says what they do).\<close>

fun posted :: "stock_op \<Rightarrow> bool" where
  "posted (ReconcileAssets _) = False"
| "posted (MoveAssetStatus _ _) = False"
| "posted _ = True"

text \<open>The product whose total an operation sets to the sum of its buckets.\<close>

fun recounted :: "stock_op \<Rightarrow> nat option" where
  "recounted (AdjustQuantities pid _ _ _ _ _) = Some pid"
| "recounted (ConsumeAvailable pid _ _ _) = Some pid"
| "recounted (TriageMove pid _ _ _ _) = Some pid"
| "recounted (StocktakeDelta pid _ _ _) = Some pid"
| "recounted (AdjustManual pid _ _ _ _ _) = Some pid"
| "recounted _ = None"

text \<open>The postings of a run: those of the operations that were not refused.\<close>

fun run_postings :: "stock_op list \<Rightarrow> db \<Rightarrow> posting list" where
  "run_postings [] s = []"
| "run_postings (c # cs) s =
     (case stock_step c s of Inl _ \<Rightarrow> run_postings cs s | Inr t \<Rightarrow> postings c s @ run_postings cs t)"

text \<open>
  What an operation on one product asks for besides the units: positive quantities, rows that exist,
  a product that is not individually tracked, and a total that fits its column.
\<close>

definition tracked_by_quantity :: "nat \<Rightarrow> db \<Rightarrow> bool" where
  "tracked_by_quantity pid s \<longleftrightarrow> map_option p_tracking_mode (product_of pid s) = Some QUANTITY"

definition has_room :: "nat \<Rightarrow> int \<Rightarrow> db \<Rightarrow> bool" where
  "has_room pid n s \<longleftrightarrow> (case product_of pid s of None \<Rightarrow> False | Some p \<Rightarrow> bucket_sum p + n \<le> int32_max)"

fun asks_only_units :: "stock_op \<Rightarrow> db \<Rightarrow> bool" where
  "asks_only_units (AdjustQuantities pid da dd dl _ _) s = has_room pid (da + dd + dl) s"
| "asks_only_units (ConsumeAvailable pid q _ _) s = (0 < q \<and> product_of pid s \<noteq> None)"
| "asks_only_units (TriageMove pid q oc _ _) s = (0 < q \<and> product_of pid s \<noteq> None \<and> triage_bucket oc \<noteq> None)"
| "asks_only_units (IssueAvailable pid q) s = (0 \<le> q \<and> product_of pid s \<noteq> None)"
| "asks_only_units (ReturnToAvailable pid q) s = (0 \<le> q \<and> product_of pid s \<noteq> None)"
| "asks_only_units (TransferAvailable src dst q) s =
     (0 < q \<and> product_of src s \<noteq> None \<and> (\<exists>p \<in> set_option (product_of dst s). p_total p + q \<le> int32_max))"
| "asks_only_units (StocktakeDelta pid da dd dl) s = has_room pid (da + dd + dl) s"
| "asks_only_units (AdjustManual pid da dd dl _ _) s = (tracked_by_quantity pid s \<and> has_room pid (da + dd + dl) s)"
| "asks_only_units (RepairFromNeedsFix pid q) s = (0 < q \<and> tracked_by_quantity pid s)"
| "asks_only_units (MoveToNeedsFix pid q) s = (0 < q \<and> tracked_by_quantity pid s)"
| "asks_only_units (ScrapFromNeedsFix pid q) s = (0 < q \<and> tracked_by_quantity pid s)"
| "asks_only_units _ s = False"

subsection \<open>One save, one posting\<close>

lemma get_bucket_updates [simp]:
  "get_bucket b (p\<lparr>p_available := n\<rparr>) = (if b = BAvailable then n else get_bucket b p)"
  "get_bucket b (p\<lparr>p_reserved := n\<rparr>) = (if b = BReserved then n else get_bucket b p)"
  "get_bucket b (p\<lparr>p_issued := n\<rparr>) = (if b = BIssued then n else get_bucket b p)"
  "get_bucket b (p\<lparr>p_damaged := n\<rparr>) = (if b = BDamaged then n else get_bucket b p)"
  "get_bucket b (p\<lparr>p_lost := n\<rparr>) = (if b = BLost then n else get_bucket b p)"
  "get_bucket b (p\<lparr>p_needs_fix := n\<rparr>) = (if b = BNeedsFix then n else get_bucket b p)"
  "get_bucket b (p\<lparr>p_total := n\<rparr>) = get_bucket b p"
  "get_bucket b (p\<lparr>p_tracking_mode := m\<rparr>) = get_bucket b p"
  "get_bucket b (with_recomputed_total p) = get_bucket b p"
  by (cases b; simp add: with_recomputed_total_def)+

lemma holdings_row: "product_of pid s = Some p \<Longrightarrow> holdings s (pid, b) = get_bucket b p"
  by (simp add: holdings_def)

lemma holdings_cong: "(\<And>pid. product_of pid t = product_of pid s) \<Longrightarrow> holdings t = holdings s"
  by (simp add: holdings_def fun_eq_iff)

lemma holdings_put:
  "product_of (p_id p) s = Some old \<Longrightarrow> holdings (s\<lparr>products := row_put p_id p (products s)\<rparr>) =
    (\<lambda>a. if fst a = p_id p then get_bucket (snd a) p else holdings s a)"
  by (auto simp: holdings_def product_of_put fun_eq_iff)

lemma holdings_simps [simp]:
  "holdings (create_adjustment j s) = holdings s" "holdings (audit_record actor act ms tgt meta s) = holdings s"
  "holdings (s\<lparr>in_atomic := b\<rparr>) = holdings s" "holdings (s\<lparr>items := its\<rparr>) = holdings s"
  "holdings (s\<lparr>in_atomic := b, products := ps\<rparr>) = holdings (s\<lparr>products := ps\<rparr>)"
  by (simp_all add: holdings_def fun_eq_iff product_of_def create_adjustment_def audit_record_def)

lemma post_all_append:
  "post_all (xs @ ys) h = (case post_all xs h of None \<Rightarrow> None | Some h' \<Rightarrow> post_all ys h')"
  by (induction xs arbitrary: h) (auto split: option.splits)

lemma for_each_posts:
  assumes "for_each f xs s = Inr t" and "I s"
    and "\<And>x u v. x \<in> set xs \<Longrightarrow> I u \<Longrightarrow> f x u = Inr v \<Longrightarrow> I v \<and> post_all (m x) (holdings u) = Some (holdings v)"
  shows "post_all (concat (map m xs)) (holdings s) = Some (holdings t)"
  using assms
proof (induction xs arbitrary: s)
  case (Cons x xs)
  then obtain u where u: "f x s = Inr u" "for_each f xs u = Inr t" by (auto simp: ok_iff)
  with Cons.prems have "I u" "post_all (m x) (holdings s) = Some (holdings u)" by auto
  moreover from Cons.IH [OF u(2) this(1)] Cons.prems(3)
  have "post_all (concat (map m xs)) (holdings u) = Some (holdings t)" by auto
  ultimately show ?case by (simp add: post_all_append)
qed simp


lemma saved_holdings:
  "product_of pid s = Some p \<Longrightarrow> save_product p' s = Inr t \<Longrightarrow> p_id p' = pid \<Longrightarrow>
    holdings t (i, b) = (if i = pid then get_bucket b p' else holdings s (i, b))"
  by (auto simp: save_product_Inr holdings_put)

text \<open>A saved row with units moved from one bucket to another, and one with units entered.\<close>

lemma save_shifts:
  assumes "save_product p' s = Inr t" and "product_of pid s = Some p" and "p_id p' = p_id p" and "a \<noteq> b"
    and "q \<le> get_bucket a p"
    and "\<And>c. get_bucket c p' = (if c = a then get_bucket a p - q else if c = b then get_bucket b p + q else get_bucket c p)"
  shows "post (Shift (pid, a) (pid, b) q) (holdings s) = Some (holdings t)"
  using saved_holdings [OF assms(2,1)] assms(3-6) product_of_id [OF assms(2)] holdings_row [OF assms(2)]
  by (auto simp: Let_def fun_eq_iff)

lemma save_enters:
  assumes "save_product p' s = Inr t" and "product_of pid s = Some p" and "p_id p' = p_id p" and "0 \<le> get_bucket a p + q"
    and "\<And>c. get_bucket c p' = (if c = a then get_bucket a p + q else get_bucket c p)"
  shows "post (Enter (pid, a) q) (holdings s) = Some (holdings t)"
  using saved_holdings [OF assms(2,1)] assms(3-5) product_of_id [OF assms(2)] holdings_row [OF assms(2)]
  by (auto simp: fun_eq_iff)

lemma save_corrects:
  assumes "save_product p' s = Inr t" and "product_of pid s = Some p" and "p_id p' = p_id p"
    and "0 \<le> p_available p + da" "0 \<le> p_damaged p + dd" "0 \<le> p_lost p + dl"
    and "\<And>c. get_bucket c p' = (if c = BAvailable then p_available p + da else if c = BDamaged then p_damaged p + dd
      else if c = BLost then p_lost p + dl else get_bucket c p)"
  shows "post_all [Enter (pid, BAvailable) da, Enter (pid, BDamaged) dd, Enter (pid, BLost) dl] (holdings s) = Some (holdings t)"
  using saved_holdings [OF assms(2,1)] assms(3-7) product_of_id [OF assms(2)] holdings_row [OF assms(2)]
  by (auto simp: fun_eq_iff)

lemma adjust_posts:
  assumes "adjust_quantities pid da dd dl reason actor s = Inr t"
  shows "post_all [Enter (pid, BAvailable) da, Enter (pid, BDamaged) dd, Enter (pid, BLost) dl] (holdings s) = Some (holdings t)"
proof -
  from assms obtain p u where p: "product_of pid s = Some p" "0 \<le> p_available p + da" "0 \<le> p_damaged p + dd" "0 \<le> p_lost p + dl"
    and u: "save_product (with_recomputed_total (p\<lparr>p_available := p_available p + da, p_damaged := p_damaged p + dd,
      p_lost := p_lost p + dl\<rparr>)) (s\<lparr>in_atomic := True\<rparr>) = Inr u" and t: "holdings t = holdings u"
    by (auto simp: adjust_quantities_def atomic_Inr ok_iff Let_def split: if_splits)
  show ?thesis
    using save_corrects [OF u _ _ p(2-4)] p(1) by (simp add: t)
qed

lemma enter_as_shift:
  assumes "distinct [a, b, c]" and "post_all [Enter a (- q), Enter b q, Enter c 0] h = Some h'
    \<or> post_all [Enter a (- q), Enter c 0, Enter b q] h = Some h'"
  shows "post_all [Shift a b q] h = Some h'"
proof -
  have "h(c := h c) = h" for h :: "account \<Rightarrow> int" by simp
  with assms show ?thesis by (simp add: Let_def split: if_splits; force simp: fun_upd_twist)
qed

lemma triage_posts:
  assumes "move_available_to_triage_bucket pid q oc reason actor s = Inr t"
  shows "post_all (postings (TriageMove pid q oc reason actor) s) (holdings s) = Some (holdings t)"
proof -
  from assms consider (d) "oc = OutcomeDamaged" "adjust_quantities pid (- q) q 0 reason actor s = Inr t"
    | (m) "oc = OutcomeMissing" "adjust_quantities pid (- q) 0 q reason actor s = Inr t"
    | (n) p u where "oc = OutcomeNeedsFix" "product_of pid s = Some p" "q \<le> p_available p" "holdings t = holdings u"
      "save_product (with_recomputed_total (p\<lparr>p_available := p_available p - q, p_needs_fix := p_needs_fix p + q\<rparr>)) s = Inr u"
    by (auto simp: move_available_to_triage_bucket_def ok_iff Let_def split: if_splits)
  then show ?thesis
  proof cases
    case d
    show ?thesis using enter_as_shift [OF _ disjI1 [OF adjust_posts [OF d(2)]]] d(1) by simp
  next
    case m
    show ?thesis using enter_as_shift [OF _ disjI2 [OF adjust_posts [OF m(2)]]] m(1) by simp
  next
    case n
    from save_shifts [OF n(5,2), of BAvailable BNeedsFix q] n(1,3,4) show ?thesis by simp
  qed
qed

lemma one_row_posts:
  "issue_available pid q s = Inr t \<Longrightarrow> post (Shift (pid, BAvailable) (pid, BIssued) q) (holdings s) = Some (holdings t)"
  "return_to_available pid q s = Inr t \<Longrightarrow> post (Shift (pid, BIssued) (pid, BAvailable) q) (holdings s) = Some (holdings t)"
  "repair_from_needs_fix pid q s = Inr t \<Longrightarrow> post (Shift (pid, BNeedsFix) (pid, BAvailable) q) (holdings s) = Some (holdings t)"
  "move_available_to_needs_fix pid q s = Inr t \<Longrightarrow> post (Shift (pid, BAvailable) (pid, BNeedsFix) q) (holdings s) = Some (holdings t)"
  "reserve_product pid q s = Inr t \<Longrightarrow> post (Shift (pid, BAvailable) (pid, BReserved) q) (holdings s) = Some (holdings t)"
  unfolding issue_available_def return_to_available_def repair_from_needs_fix_def move_available_to_needs_fix_def
    require_quantity_fix_action_def reserve_product_def if_Inl_Inr try_then_Inr get_product_Inr of_option_Inr
  by (elim conjE exE, erule save_shifts, assumption, simp, simp, simp, simp)+

lemma scrap_posts:
  "scrap_from_needs_fix pid q s = Inr t \<Longrightarrow> post (Enter (pid, BNeedsFix) (- q)) (holdings s) = Some (holdings t)"
  unfolding scrap_from_needs_fix_def if_Inl_Inr try_then_Inr get_product_Inr
  by (elim conjE exE, erule save_enters, assumption, simp_all)

lemma stocktake_posts:
  "apply_stocktake_delta pid da dd dl s = Inr t \<Longrightarrow>
    post_all [Enter (pid, BAvailable) da, Enter (pid, BDamaged) dd, Enter (pid, BLost) dl] (holdings s) = Some (holdings t)"
  unfolding apply_stocktake_delta_def Let_def if_Inl_Inr try_then_Inr get_product_Inr
  by (elim conjE exE, erule save_corrects, assumption, simp_all)

lemma change_tracking_posts: "change_tracking_mode pid mode s = Inr t \<Longrightarrow> holdings t = holdings s"
  by (auto simp: change_tracking_mode_def ok_iff fun_eq_iff saved_holdings holdings_row product_of_id split: if_splits)

lemma transfer_posts:
  assumes "transfer_available_quantity src dst q s = Inr t"
  shows "post_all (postings (TransferAvailable src dst q) s) (holdings s) = Some (holdings t)"
proof (cases "src = dst")
  case False
  with assms obtain p p' u where
    p: "product_of src s = Some p" "product_of dst s = Some p'" and q: "q \<le> p_available p"
    and u: "save_product (p\<lparr>p_available := p_available p - q, p_total := p_total p - q\<rparr>) s = Inr u"
    and t: "save_product (p'\<lparr>p_available := p_available p' + q, p_total := p_total p' + q\<rparr>) u = Inr t"
    by (auto simp: transfer_available_quantity_def ok_iff split: if_splits)
  have ids: "p_id p = src" "p_id p' = dst" using p by (simp_all add: product_of_id)
  have "holdings u = (\<lambda>a. if fst a = src then get_bucket (snd a) (p\<lparr>p_available := p_available p - q\<rparr>) else holdings s a)"
    using u p(1) ids by (auto simp: save_product_Inr holdings_put)
  moreover have "product_of dst u = Some p'" using u p ids False by (auto simp: save_product_Inr product_of_put)
  then have "holdings t = (\<lambda>a. if fst a = dst then get_bucket (snd a) (p'\<lparr>p_available := p_available p' + q\<rparr>) else holdings u a)"
    using t ids by (auto simp: save_product_Inr holdings_put)
  ultimately show ?thesis using False p q by (auto simp: holdings_row Let_def fun_eq_iff)
qed (use assms in \<open>auto simp: transfer_available_quantity_def split: if_splits\<close>)

lemma release_posts:
  assumes "release_product pid q s = Inr t" and "tables_ok s"
  shows "post (Shift (pid, BReserved) (pid, BAvailable) q) (holdings s) = Some (holdings t)"
proof -
  from assms(1) obtain p where p: "product_of pid s = Some p"
    and t: "q = 0 \<and> t = s \<or>
      save_product (p\<lparr>p_reserved := p_reserved p - q, p_available := p_available p + q\<rparr>) s = Inr t"
    by (auto simp: release_product_def ok_iff split: if_splits)
  note row = holdings_row [OF p]
  from t show ?thesis
  proof (elim disjE conjE)
    assume "q = 0" "t = s"
    moreover have "0 \<le> p_reserved p" by (rule product_okD(2) [OF tables_ok_product [OF assms(2) p]])
    moreover have "(holdings s)((pid, BReserved) := p_reserved p) = holdings s" by (simp add: fun_eq_iff row)
    ultimately show ?thesis by (simp add: row)
  next
    assume t: "save_product (p\<lparr>p_reserved := p_reserved p - q, p_available := p_available p + q\<rparr>) s = Inr t"
    then have "q \<le> p_reserved p" by (auto simp: save_product_Inr dest: product_okD(2))
    with save_shifts [OF t p, of BReserved BAvailable q] show ?thesis by simp
  qed
qed

text \<open>An item is issued, or resolved, by one save of its product.\<close>

definition issued_row :: "int \<Rightarrow> disposition \<Rightarrow> int \<Rightarrow> product \<Rightarrow> product" where
  "issued_row broken disp accepted p =
     (let p' = p\<lparr>p_reserved := p_reserved p - accepted, p_issued := p_issued p + (accepted - broken)\<rparr>
      in if broken \<noteq> 0 \<and> disp = RejectRemove then p'\<lparr>p_total := p_total p' - broken\<rparr>
         else if broken \<noteq> 0 then p'\<lparr>p_needs_fix := p_needs_fix p' + broken\<rparr> else p')"

lemma issued_row_fields [simp]:
  "p_id (issued_row broken disp n p) = p_id p"
  "get_bucket c (issued_row broken disp n p) =
     (if c = BReserved then p_reserved p - n else if c = BIssued then p_issued p + (n - broken)
      else if c = BNeedsFix \<and> disp \<noteq> RejectRemove then p_needs_fix p + broken else get_bucket c p)"
  by (simp_all add: issued_row_def Let_def)

lemma issue_item_saved:
  assumes "issue_item rs i s = Inr t" and "0 < i_accepted i" and "broken = max 0 (fst (reject_of rs (i_id i)))"
  obtains p u where "product_of (i_product i) s = Some p" "broken \<le> i_accepted i" "i_accepted i \<le> p_reserved p"
    "save_product (issued_row broken (snd (reject_of rs (i_id i))) (i_accepted i) p) s = Inr u" "holdings t = holdings u"
proof -
  from assms(2) have n: "\<not> i_accepted i \<le> 0" by simp
  from assms(1) obtain p u v where "product_of (i_product i) s = Some p" "\<not> i_accepted i < broken" "\<not> p_reserved p < i_accepted i"
    "save_product (issued_row broken (snd (reject_of rs (i_id i))) (i_accepted i) p) s = Inr u" "save_item v u = Inr t"
    unfolding issue_item_def Let_def issued_row_def assms(3) if_Inl_Inr try_then_Inr of_option_Inr if_not_P [OF n] by blast
  then show ?thesis by (intro that) (auto simp: save_item_Inr)
qed

lemma issue_item_posts:
  assumes "issue_item rs i s = Inr t"
  shows "post_all (issue_postings rs i) (holdings s) = Some (holdings t)"
proof (cases "0 < i_accepted i")
  case True
  define broken where "broken = max 0 (fst (reject_of rs (i_id i)))"
  from assms True broken_def obtain p u where p: "product_of (i_product i) s = Some p"
    and q: "broken \<le> i_accepted i" "i_accepted i \<le> p_reserved p"
    and u: "save_product (issued_row broken (snd (reject_of rs (i_id i))) (i_accepted i) p) s = Inr u" "holdings t = holdings u"
    by (rule issue_item_saved)
  have "0 \<le> broken" by (simp add: broken_def)
  with True q show ?thesis
    using saved_holdings [OF p u(1)] product_of_id [OF p] holdings_row [OF p]
    by (auto simp: issue_postings_def u(2) Let_def fun_eq_iff simp flip: broken_def)
qed (use assms in \<open>simp add: issue_item_def issue_postings_def\<close>)

lemma return_resolution_saved:
  assumes "return_resolution x s = Inr t" and "0 < x_returned x + x_damaged x + x_missing x"
  obtains i p u where "item_of (x_item x) s = Some i" "product_of (i_product i) s = Some p"
    "x_returned x + x_damaged x + x_missing x \<le> p_issued p"
    "save_product (p\<lparr>p_issued := p_issued p - (x_returned x + x_damaged x + x_missing x),
       p_available := p_available p + x_returned x, p_damaged := p_damaged p + x_damaged x,
       p_lost := p_lost p + x_missing x\<rparr>) s = Inr u" "holdings t = holdings u"
proof -
  from assms(2) have n: "\<not> x_returned x + x_damaged x + x_missing x \<le> 0" by simp
  from assms(1) obtain i p u v where "item_of (x_item x) s = Some i" "product_of (i_product i) s = Some p"
    "\<not> p_issued p < x_returned x + x_damaged x + x_missing x"
    "save_product (p\<lparr>p_issued := p_issued p - (x_returned x + x_damaged x + x_missing x),
       p_available := p_available p + x_returned x, p_damaged := p_damaged p + x_damaged x,
       p_lost := p_lost p + x_missing x\<rparr>) s = Inr u" "save_item v u = Inr t"
    unfolding return_resolution_def Let_def if_Inl_Inr try_then_Inr of_option_Inr if_not_P [OF n] by blast
  then show ?thesis by (intro that) (auto simp: save_item_Inr)
qed

lemma holdings_nonneg: "tables_ok s \<Longrightarrow> 0 \<le> holdings s a"
  by (cases "snd a") (auto simp: holdings_def split: option.split dest!: tables_ok_product dest: product_okD)

lemma return_resolution_posts:
  assumes "return_resolution x s = Inr t" and "resolution_nonneg x" and "tables_ok s"
  shows "post_all (return_postings s x) (holdings s) = Some (holdings t)"
proof (cases "0 < x_returned x + x_damaged x + x_missing x")
  case True
  from assms(1) True obtain i p u where i: "item_of (x_item x) s = Some i" and p: "product_of (i_product i) s = Some p"
    and q: "x_returned x + x_damaged x + x_missing x \<le> p_issued p"
    and u: "save_product (p\<lparr>p_issued := p_issued p - (x_returned x + x_damaged x + x_missing x),
       p_available := p_available p + x_returned x, p_damaged := p_damaged p + x_damaged x,
       p_lost := p_lost p + x_missing x\<rparr>) s = Inr u" "holdings t = holdings u"
    by (rule return_resolution_saved)
  show ?thesis
    using saved_holdings [OF p u(1)] product_of_id [OF p] holdings_row [OF p] q assms(2)
    by (auto simp: return_postings_def i u(2) Let_def fun_eq_iff resolution_nonneg_def)
next
  case False
  with assms(1,2) have zero: "x_returned x = 0" "x_damaged x = 0" "x_missing x = 0" "t = s"
    by (auto simp: resolution_nonneg_def return_resolution_def)
  have "\<not> holdings s a < 0" for a using holdings_nonneg [OF assms(3), of a] by simp
  then show ?thesis by (simp add: return_postings_def zero split: option.split)
qed

subsection \<open>The operations post\<close>

lemma reserve_for_request_posts:
  assumes "reserve_for_request rid s = Inr t" and "tables_ok s"
  shows "post_all (postings (ReserveForRequest rid) s) (holdings s) = Some (holdings t)"
proof -
  let ?its = "items_by_product rid s"
  have "for_each (\<lambda>pid. reserve_product pid (required_quantity ?its pid)) (required_products ?its) s = Inr t"
    using assms(1) by (auto simp: reserve_for_request_def Let_def split: if_splits)
  from for_each_posts [OF this, where I = "\<lambda>_. True" and
      m = "\<lambda>pid. [Shift (pid, BAvailable) (pid, BReserved) (required_quantity ?its pid)]"]
  have "post_all (map (\<lambda>pid. Shift (pid, BAvailable) (pid, BReserved) (required_quantity ?its pid)) (required_products ?its))
      (holdings s) = Some (holdings t)"
    using one_row_posts(5) by (simp add: concat_map_singleton del: post.simps)
  then show ?thesis using assms(2) by (simp add: required_quantity_accepted)
qed

lemma issue_items_posts:
  assumes "issue_items rid rs s = Inr t"
  shows "post_all (postings (IssueItems rid rs) s) (holdings s) = Some (holdings t)"
proof -
  have "for_each (issue_item rs) (items_by_product rid s) s = Inr t"
    using assms by (auto simp: issue_items_def split: if_splits)
  from for_each_posts [OF this, where I = "\<lambda>_. True" and m = "issue_postings rs"] show ?thesis
    using issue_item_posts by simp
qed

lemma return_postings_cong:
  "map_option i_product (item_of (x_item x) u) = map_option i_product (item_of (x_item x) s) \<Longrightarrow>
    return_postings u x = return_postings s x"
  by (cases "item_of (x_item x) u"; cases "item_of (x_item x) s") (simp_all add: return_postings_def)

lemma return_resolution_products:
  assumes "return_resolution x s = Inr t"
  shows "map_option i_product (item_of iid t) = map_option i_product (item_of iid s)"
  using assms by (auto simp: return_resolution_def Let_def ok_iff save_product_Inr save_item_Inr item_of_def
      row_get_row_put split: if_splits dest: row_get_SomeD)

lemma return_items_posts:
  assumes "return_items_stock xs s = Inr t" and "list_all resolution_nonneg xs" and "tables_ok s"
  shows "post_all (postings (ReturnItems xs) s) (holdings s) = Some (holdings t)"
proof -
  have loop: "for_each return_resolution xs s = Inr t"
    using assms(1) by (auto simp: return_items_stock_def split: if_splits)
  let ?I = "\<lambda>u. tables_ok u \<and> (\<forall>iid. map_option i_product (item_of iid u) = map_option i_product (item_of iid s))"
  have "?I v \<and> post_all (return_postings s x) (holdings u) = Some (holdings v)"
    if "x \<in> set xs" "?I u" "return_resolution x u = Inr v" for x u v
  proof -
    have x: "resolution_nonneg x" using that(1) assms(2) by (simp add: list_all_iff)
    have "tables_ok v" using yields_Inr [OF return_resolution_safe that(3)] that(2) x by blast
    moreover have "return_postings u x = return_postings s x" using that(2) by (intro return_postings_cong) blast
    moreover have "post_all (return_postings u x) (holdings u) = Some (holdings v)"
      using that(2) by (intro return_resolution_posts [OF that(3) x]) blast
    moreover have "map_option i_product (item_of iid v) = map_option i_product (item_of iid s)" for iid
      using that(2) return_resolution_products [OF that(3), of iid] by metis
    ultimately show ?thesis by metis
  qed
  note step = this
  have "?I s" using assms(3) by simp
  from for_each_posts [where I = ?I and m = "return_postings s", OF loop this step]
  have "post_all (concat (map (return_postings s) xs)) (holdings s) = Some (holdings t)" by assumption
  then show ?thesis by (simp only: postings.simps)
qed

lemma release_reservation_posts:
  assumes "release_request_reservation r s = Inr t" and "tables_ok s"
  shows "post_all (postings (ReleaseReservation r) s) (holdings s) = Some (holdings t)"
proof -
  let ?q = "\<lambda>pid. accepted_quantity (r_id r) pid s"
  have loop: "for_each (\<lambda>pid. release_product pid (?q pid)) (item_products (r_id r) s) s = Inr t"
    using assms(1) unfolding release_request_reservation_def Let_def if_Inl_Inr by blast
  let ?m = "\<lambda>pid. [Shift (pid, BReserved) (pid, BAvailable) (?q pid)]"
  have "tables_ok v \<and> post_all (?m pid) (holdings u) = Some (holdings v)"
    if "tables_ok u" "release_product pid (?q pid) u = Inr v" for pid u v
  proof -
    have "tables_ok v" using that by (auto simp: release_product_def ok_iff dest: save_product_tables_ok split: if_splits)
    with release_posts [OF that(2,1)] show ?thesis by (simp del: post.simps)
  qed
  from for_each_posts [OF loop assms(2) this]
  have "post_all (concat (map ?m (item_products (r_id r) s))) (holdings s) = Some (holdings t)" .
  then show ?thesis by (simp add: concat_map_singleton)
qed

lemma stock_step_posts:
  assumes "stock_step c s = Inr t" and "tables_ok s" and "args_ok c" and "posted c"
  shows "post_all (postings c s) (holdings s) = Some (holdings t)"
proof (cases c)
  case (ConsumeAvailable pid q reason actor)
  with assms(1) have "adjust_quantities pid (- q) 0 0 reason actor s = Inr t"
    by (auto simp: consume_available_def split: if_splits)
  from adjust_posts [OF this] show ?thesis
    by (auto simp: ConsumeAvailable fun_upd_idem split: if_splits)
next
  case (AdjustManual pid da dd dl reason actor)
  with assms(1) obtain u where "adjust_quantities pid da dd dl reason actor (s\<lparr>in_atomic := True\<rparr>) = Inr u" "holdings t = holdings u"
    by (auto simp: adjust_manual_quantities_def atomic_Inr ok_iff split: if_splits)
  from adjust_posts [OF this(1)] this(2) show ?thesis by (simp add: AdjustManual)
next
  case (ChangeTracking pid mode)
  with assms(1) show ?thesis by (simp add: change_tracking_posts)
next
  case (TransferAvailable src dst q)
  with assms(1) show ?thesis using transfer_posts by simp
next
  case (TriageMove pid q oc reason actor)
  with assms(1) show ?thesis using triage_posts by simp
next
  case (ReserveForRequest rid)
  with assms(1,2) show ?thesis using reserve_for_request_posts by simp
next
  case (IssueItems rid rs)
  with assms(1) show ?thesis using issue_items_posts by simp
next
  case (ReturnItems xs)
  with assms show ?thesis using return_items_posts by simp
next
  case (ReleaseReservation r)
  with assms(1,2) show ?thesis using release_reservation_posts by simp
qed (use assms adjust_posts stocktake_posts one_row_posts scrap_posts in \<open>simp_all del: post.simps\<close>)

text \<open>The units a total counts beyond the buckets are kept, or counted off.\<close>

lemma save_recounts:
  assumes "save_product p' s = Inr t" and "product_of pid s = Some p" and "p_id p' = p_id p" and "p_total p' = bucket_sum p'"
  shows "slack_of i t = (if i = pid then Some 0 else slack_of i s)"
  using assms product_of_id [OF assms(2)] by (auto simp: slack_of_def save_product_Inr product_of_put slack_def)

lemma recomputed_total [simp]: "p_total (with_recomputed_total p) = bucket_sum (with_recomputed_total p)"
  by (simp add: with_recomputed_total_def bucket_sum_def)

lemma slack_of_simps [simp]:
  "slack_of pid (create_adjustment j s) = slack_of pid s" "slack_of pid (audit_record actor act ms tgt meta s) = slack_of pid s"
  "slack_of pid (s\<lparr>in_atomic := b\<rparr>) = slack_of pid s"
  by (simp_all add: slack_of_def)

lemma adjust_recounts:
  "adjust_quantities pid da dd dl reason actor s = Inr t \<Longrightarrow> slack_of i t = (if i = pid then Some 0 else slack_of i s)"
  by (auto simp: adjust_quantities_def atomic_Inr ok_iff Let_def save_recounts [where s = "s\<lparr>in_atomic := True\<rparr>"] split: if_splits)

lemma stocktake_recounts:
  "apply_stocktake_delta pid da dd dl s = Inr t \<Longrightarrow> slack_of i t = (if i = pid then Some 0 else slack_of i s)"
  by (auto simp: apply_stocktake_delta_def ok_iff Let_def save_recounts split: if_splits)

lemma triage_recounts:
  assumes "move_available_to_triage_bucket pid q oc reason actor s = Inr t"
  shows "slack_of i t = (if i = pid then Some 0 else slack_of i s)"
  using assms by (auto simp: move_available_to_triage_bucket_def ok_iff Let_def save_recounts adjust_recounts split: if_splits)

lemma stock_step_slack:
  assumes "stock_step c s = Inr t" and "posted c"
  shows "slack_of pid t = (if recounted c = Some pid then Some 0 else slack_of pid s)"
proof (cases "conserving c")
  case True
  then have "recounted c = None" by (cases c) simp_all
  with yields_Inr [OF conserving_slack [OF True, of s] assms(1)] show ?thesis by (simp add: slack_kept_def)
next
  case False
  with assms show ?thesis
    by (cases c) (auto simp: consume_available_def adjust_manual_quantities_def atomic_Inr ok_iff adjust_recounts
        stocktake_recounts triage_recounts split: if_splits)
qed

subsection \<open>Units are all that is asked for\<close>

lemma get_product_row: "product_of pid s = Some p \<Longrightarrow> get_product pid s = Inr p"
  by (simp add: get_product_Inr)

lemmas decide_simps = get_product_row try_then_Inr save_product_Inr Let_def product_ok_iff_total product_constraints_def bucket_sum_def
  with_recomputed_total_def require_quantity_fix_action_def

text \<open>The accounts decide an operation: too few units, and it is refused as such; else it succeeds.\<close>

definition decided :: "(account \<Rightarrow> int) option \<Rightarrow> exn + db \<Rightarrow> bool" where
  "decided h r \<longleftrightarrow> (case h of None \<Rightarrow> r = Inl InsufficientStock | Some _ \<Rightarrow> \<exists>t. r = Inr t)"

lemma decided_if: "decided (if b then None else Some h) r \<longleftrightarrow> (if b then r = Inl InsufficientStock else \<exists>t. r = Inr t)"
  by (simp add: decided_def)

lemma adjust_decided:
  assumes "product_of pid s = Some p" and "tables_ok s" and "bucket_sum p + (da + dd + dl) \<le> int32_max"
  shows "decided (post_all [Enter (pid, BAvailable) da, Enter (pid, BDamaged) dd, Enter (pid, BLost) dl] (holdings s))
    (adjust_quantities pid da dd dl reason actor s)"
proof -
  have p: "product_of pid (s\<lparr>in_atomic := True\<rparr>) = Some p" using assms(1) by simp
  show ?thesis
    using assms(3) product_okD [OF tables_ok_product [OF assms(2,1)]] p
    by (simp add: decided_def adjust_quantities_def atomic_def decide_simps holdings_row [OF assms(1)])
qed

lemma one_row_decided:
  assumes "product_of pid s = Some p" and "tables_ok s" and "in_atomic s"
  shows "0 \<le> q \<Longrightarrow> decided (post (Shift (pid, BAvailable) (pid, BIssued) q) (holdings s)) (issue_available pid q s)"
    and "0 \<le> q \<Longrightarrow> decided (post (Shift (pid, BIssued) (pid, BAvailable) q) (holdings s)) (return_to_available pid q s)"
    and "0 < q \<Longrightarrow> p_tracking_mode p = QUANTITY \<Longrightarrow>
      decided (post (Shift (pid, BNeedsFix) (pid, BAvailable) q) (holdings s)) (repair_from_needs_fix pid q s)"
    and "0 < q \<Longrightarrow> p_tracking_mode p = QUANTITY \<Longrightarrow>
      decided (post (Shift (pid, BAvailable) (pid, BNeedsFix) q) (holdings s)) (move_available_to_needs_fix pid q s)"
    and "0 < q \<Longrightarrow> p_tracking_mode p = QUANTITY \<Longrightarrow>
      decided (post (Enter (pid, BNeedsFix) (- q)) (holdings s)) (scrap_from_needs_fix pid q s)"
    and "bucket_sum p + (da + dd + dl) \<le> int32_max \<Longrightarrow>
      decided (post_all [Enter (pid, BAvailable) da, Enter (pid, BDamaged) dd, Enter (pid, BLost) dl] (holdings s))
        (apply_stocktake_delta pid da dd dl s)"
  using assms(3) product_okD [OF tables_ok_product [OF assms(2,1)]]
  by (auto simp: decided_def decide_simps issue_available_def return_to_available_def repair_from_needs_fix_def
      move_available_to_needs_fix_def scrap_from_needs_fix_def apply_stocktake_delta_def assms(1) holdings_row [OF assms(1)])

lemma transfer_decided:
  assumes "product_of src s = Some p" and "product_of dst s = Some p'" and "tables_ok s" and "in_atomic s"
    and "0 < q" and "src \<noteq> dst" and "p_total p' + q \<le> int32_max"
  shows "decided (post (Shift (src, BAvailable) (dst, BAvailable) q) (holdings s)) (transfer_available_quantity src dst q s)"
proof -
  have le: "p_available p \<le> p_total p"
    using product_okD [OF tables_ok_product [OF assms(3,1)]] by (simp add: bucket_sum_def)
  show ?thesis
    using assms product_okD [OF tables_ok_product [OF assms(3,1)]] product_okD [OF tables_ok_product [OF assms(3,2)]] le
    by (auto simp: decided_def decide_simps transfer_available_quantity_def holdings_row)
qed

lemma triage_decided:
  assumes "product_of pid s = Some p" and "tables_ok s" and "in_atomic s" and "0 < q" and "triage_bucket oc = Some b"
  shows "decided (post (Shift (pid, BAvailable) (pid, b) q) (holdings s)) (move_available_to_triage_bucket pid q oc reason actor s)"
proof (cases "oc = OutcomeNeedsFix")
  case True
  then show ?thesis
    using assms product_okD [OF tables_ok_product [OF assms(2,1)]]
    by (auto simp: decided_def decide_simps move_available_to_triage_bucket_def holdings_row)
next
  case False
  have room: "bucket_sum p \<le> int32_max" using product_okD [OF tables_ok_product [OF assms(2,1)]] by simp
  have "\<not> holdings s a < 0" for a using holdings_nonneg [OF assms(2), of a] by simp
  moreover have "\<not> holdings s a + q < 0" for a using holdings_nonneg [OF assms(2), of a] assms(4) by simp
  ultimately show ?thesis
    using adjust_decided [OF assms(1,2), of "- q" q 0 reason actor] adjust_decided [OF assms(1,2), of "- q" 0 q reason actor]
      assms(4,5) False room
    by (cases oc) (auto simp: move_available_to_triage_bucket_def decided_def split: if_splits)
qed

lemma stock_step_decided:
  assumes "asks_only_units c s" and "tables_ok s" and "in_atomic s"
  shows "decided (post_all (postings c s) (holdings s)) (stock_step c s)"
proof -
  have one: "post_all [x] h = post x h" for x h by (simp split: option.split)
  show ?thesis
  proof (cases c)
    case (AdjustQuantities pid da dd dl reason actor)
    with assms(1) show ?thesis
      by (auto simp: has_room_def intro!: adjust_decided [OF _ assms(2)] simp del: post_all.simps split: option.splits)
  next
    case (ConsumeAvailable pid q reason actor)
    with assms(1) obtain p where p: "product_of pid s = Some p" "0 < q" by auto
    have n: "\<not> holdings s a < 0" for a using holdings_nonneg [OF assms(2), of a] by simp
    have "bucket_sum p \<le> int32_max" using product_okD [OF tables_ok_product [OF assms(2) p(1)]] by simp
    with adjust_decided [OF p(1) assms(2), of "- q" 0 0 reason actor] p(2) n show ?thesis
      by (simp add: ConsumeAvailable consume_available_def decided_def split: if_splits)
  next
    case (TriageMove pid q oc reason actor)
    with assms(1) obtain p b where "product_of pid s = Some p" "0 < q" "triage_bucket oc = Some b" by auto
    with triage_decided [OF _ assms(2,3)] TriageMove show ?thesis by (simp add: one del: post.simps post_all.simps)
  next
    case (TransferAvailable src dst q)
    with assms(1) obtain p p' where "product_of src s = Some p" "product_of dst s = Some p'" "0 < q" "p_total p' + q \<le> int32_max"
      by auto
    note p = this
    show ?thesis
    proof (cases "src = dst")
      case True
      then show ?thesis using p(3) by (simp add: TransferAvailable decided_def transfer_available_quantity_def assms(3))
    next
      case False
      with transfer_decided [OF p(1,2) assms(2,3) p(3) False p(4)] TransferAvailable show ?thesis
        by (simp add: one del: post.simps post_all.simps)
    qed
  next
    case (AdjustManual pid da dd dl reason actor)
    with assms(1) obtain p where p: "product_of pid s = Some p" "p_tracking_mode p = QUANTITY"
      "bucket_sum p + (da + dd + dl) \<le> int32_max"
      by (auto simp: tracked_by_quantity_def has_room_def split: option.splits)
    have "decided (post_all (postings c s) (holdings s)) (adjust_quantities pid da dd dl reason actor (s\<lparr>in_atomic := True\<rparr>))"
      using adjust_decided [of pid "s\<lparr>in_atomic := True\<rparr>" p da dd dl reason actor] p assms(2)
      by (simp add: AdjustManual del: post_all.simps)
    then show ?thesis
      using p by (auto simp: AdjustManual decided_def adjust_manual_quantities_def atomic_def get_product_row
          split: option.splits sum.splits simp del: post_all.simps)
  next
    case (StocktakeDelta pid da dd dl)
    with assms(1) show ?thesis
      by (auto simp: has_room_def intro!: one_row_decided(6) [OF _ assms(2,3)] simp del: post_all.simps split: option.splits)
  qed (use assms(1) in \<open>auto simp: one tracked_by_quantity_def simp del: post.simps post_all.simps
      intro: one_row_decided [OF _ assms(2,3)]\<close>)
qed

section \<open>Properties of the availability module\<close>

text \<open>
  From well-formed tables, with arguments as the services pass them, no operation of the
  availability module ever trips a \<open>CHECK\<close> constraint of the product or request item tables:
  every refusal is one of the module's own errors.
\<close>

lemma availability_never_breaks_constraints:
  assumes "tables_ok s" and "args_ok c"
  shows "stock_step c s \<noteq> Inl IntegrityError"
  using stock_step_safe [OF assms] by (auto simp: yields_def split: sum.splits)

definition sample_product :: product where
  "sample_product = \<lparr>p_id = 1, p_makerspace = 1, p_box = None, p_category = None, p_name = ''saw'',
     p_description = [], p_storage_location = [], p_tracking_mode = QUANTITY, p_total = 10,
     p_available = 6, p_reserved = 2, p_issued = 1, p_damaged = 0, p_lost = 0, p_needs_fix = 1,
     p_is_public = True, p_self_checkout = True, p_is_archived = False\<rparr>"

definition sample_stock :: db where
  "sample_stock = empty_db\<lparr>in_atomic := True, products :=
     [sample_product, sample_product\<lparr>p_id := 2, p_available := 0, p_total := 5\<rparr>]\<rparr>"

lemma sample_stock_ok: "tables_ok sample_stock"
  by (simp add: tables_ok_def stock_ok_def items_ok_def unique_keys_def product_ok_def
      product_constraints_def product_in_range_def bucket_sum_def int32_max_def sample_stock_def
      sample_product_def empty_db_def)

lemma availability_never_breaks_constraints_witness:
  "tables_ok sample_stock \<and> args_ok (IssueAvailable 1 3) \<and>
   stock_step (IssueAvailable 1 3) sample_stock \<noteq> Inl IntegrityError"
  using availability_never_breaks_constraints [OF sample_stock_ok, of "IssueAvailable 1 3"]
    sample_stock_ok by simp

lemma sample_issue: "stock_step (IssueAvailable 1 3) sample_stock = Inr (sample_stock\<lparr>products :=
    [sample_product\<lparr>p_available := 3, p_issued := 4\<rparr>,
     sample_product\<lparr>p_id := 2, p_available := 0, p_total := 5\<rparr>]\<rparr>)"
  by (simp add: sample_stock_def sample_product_def empty_db_def issue_available_def get_product_def
      row_get_Cons row_put_def save_product_def product_in_range_def product_constraints_def
      bucket_sum_def int32_max_def)

text \<open>
  A run of the machine leaves the accounts where its postings put them.
\<close>

lemma run_posts:
  assumes "tables_ok s" and "list_all (\<lambda>c. args_ok c \<and> posted c) cs"
  shows "post_all (run_postings cs s) (holdings s) = Some (holdings (fold (attempt stock_step) cs s))"
  using assms
proof (induction cs arbitrary: s)
  case (Cons c cs)
  show ?case
  proof (cases "stock_step c s")
    case (Inl e)
    with Cons show ?thesis by (simp add: attempt_def)
  next
    case (Inr t)
    have "tables_ok t" using Cons.prems(1) Inr by (rule stock.step_inv)
    with Cons Inr stock_step_posts [OF Inr] show ?thesis by (simp add: attempt_def post_all_append)
  qed
qed simp

text \<open>
  C12. The module refines a plain account book. After every run of its operations but the two
  that count unit rows (count corrections, stocktakes, reservations, hand-outs, returns, releases,
  needs-fix moves and transfers; the refused ones rolled back) each bucket of each product holds exactly what the postings of the operations
  that went through put there. In every state so reached an operation that asks only for units is
  refused as \<open>InsufficientStock\<close> exactly when an account it takes from is too small, and else succeeds with
  exactly its postings made; a product's total follows its buckets, or keeps its surplus over them.
\<close>

theorem availability_refines_accounts:
  assumes "tables_ok s" and "in_atomic s" and "list_all (\<lambda>c. args_ok c \<and> posted c) cs"
    and "u = fold (attempt stock_step) cs s"
  shows "post_all (run_postings cs s) (holdings s) = Some (holdings u) \<and>
    (\<forall>c. asks_only_units c u \<longrightarrow>
      (case post_all (postings c u) (holdings u) of
         None \<Rightarrow> stock_step c u = Inl InsufficientStock
       | Some h \<Rightarrow> \<exists>t. stock_step c u = Inr t \<and> holdings t = h \<and>
           (\<forall>pid. slack_of pid t = (if recounted c = Some pid then Some 0 else slack_of pid u))))"
proof (intro conjI allI impI)
  show "post_all (run_postings cs s) (holdings s) = Some (holdings u)"
    unfolding assms(4) using assms(1,3) by (rule run_posts)
  fix c
  assume c: "asks_only_units c u"
  have u: "tables_ok u" "in_atomic u"
    using stock.run_inv [OF assms(1), of cs] stock.run_rel [OF assms(1), of cs] assms(2)
    by (simp_all add: assms(4) stock_frame_def other_tables_def)
  have c': "args_ok c" "posted c" using c by (cases c; simp)+
  show "case post_all (postings c u) (holdings u) of
         None \<Rightarrow> stock_step c u = Inl InsufficientStock
       | Some h \<Rightarrow> \<exists>t. stock_step c u = Inr t \<and> holdings t = h \<and>
           (\<forall>pid. slack_of pid t = (if recounted c = Some pid then Some 0 else slack_of pid u))"
    using stock_step_decided [OF c u] stock_step_posts [OF _ u(1) c'] stock_step_slack [OF _ c'(2)]
    by (fastforce simp: decided_def split: option.splits)
qed

text \<open>Three saws are handed out, too many are transferred; of the three left, four cannot go to the shelf.\<close>

definition sample_stock_run :: "stock_op list" where
  "sample_stock_run = [IssueAvailable 1 3, TransferAvailable 1 2 9]"

lemma sample_stock_run: "fold (attempt stock_step) sample_stock_run sample_stock =
  sample_stock\<lparr>products := [sample_product\<lparr>p_available := 3, p_issued := 4\<rparr>,
    sample_product\<lparr>p_id := 2, p_available := 0, p_total := 5\<rparr>]\<rparr>"
proof -
  let ?v = "sample_stock\<lparr>products := [sample_product\<lparr>p_available := 3, p_issued := 4\<rparr>,
     sample_product\<lparr>p_id := 2, p_available := 0, p_total := 5\<rparr>]\<rparr>"
  have "attempt stock_step (IssueAvailable 1 3) sample_stock = ?v" by (simp only: attempt_def sample_issue sum.case)
  moreover have "attempt stock_step (TransferAvailable 1 2 9) ?v = ?v"
    by (simp add: attempt_def transfer_available_quantity_def sample_stock_def product_of_def row_get_Cons sample_product_def)
  ultimately show ?thesis by (simp only: sample_stock_run_def fold.simps o_apply id_apply)
qed

theorem availability_refines_accounts_witness:
  "\<exists>u. u = fold (attempt stock_step) sample_stock_run sample_stock \<and> holdings u (1, BIssued) = 4 \<and>
     post_all (run_postings sample_stock_run sample_stock) (holdings sample_stock) = Some (holdings u) \<and>
     stock_step (MoveToNeedsFix 1 4) u = Inl InsufficientStock"
proof -
  define u where "u = fold (attempt stock_step) sample_stock_run sample_stock"
  have "in_atomic sample_stock" by (simp add: sample_stock_def)
  moreover have "list_all (\<lambda>c. args_ok c \<and> posted c) sample_stock_run" by (simp add: sample_stock_run_def)
  ultimately have r: "post_all (run_postings sample_stock_run sample_stock) (holdings sample_stock) = Some (holdings u) \<and>
    (\<forall>c. asks_only_units c u \<longrightarrow>
      (case post_all (postings c u) (holdings u) of
         None \<Rightarrow> stock_step c u = Inl InsufficientStock
       | Some h \<Rightarrow> \<exists>t. stock_step c u = Inr t \<and> holdings t = h \<and>
           (\<forall>pid. slack_of pid t = (if recounted c = Some pid then Some 0 else slack_of pid u))))"
    by (rule availability_refines_accounts [OF sample_stock_ok _ _ u_def])
  have h: "holdings u (1, BAvailable) = 3" "holdings u (1, BIssued) = 4" "tracked_by_quantity 1 u"
    by (simp_all add: u_def sample_stock_run tracked_by_quantity_def holdings_def product_of_def row_get_Cons sample_product_def)
  then have a: "asks_only_units (MoveToNeedsFix 1 4) u" and none: "post_all (postings (MoveToNeedsFix 1 4) u) (holdings u) = None"
    by simp_all
  have "stock_step (MoveToNeedsFix 1 4) u = Inl InsufficientStock"
    using r [THEN conjunct2, rule_format, OF a] unfolding none option.case .
  with r h(2) u_def show ?thesis by (intro exI [of _ u]) (simp only: simp_thms)
qed

text \<open>
  Apart from count corrections, every operation of the availability module only moves units
  of a product between its buckets or takes them out of both the bucket and the total: the units
  a product's total counts beyond its buckets never change.
\<close>

lemma availability_conserves_units:
  assumes "conserving c" and "stock_step c s = Inr t" and "product_of pid s = Some p"
  shows "\<exists>q. product_of pid t = Some q \<and> slack q = slack p"
  using yields_Inr [OF conserving_slack [OF assms(1), of s] assms(2)] assms(3)
  by (auto simp: slack_kept_def slack_of_def dest: spec [where x = pid])

lemma availability_conserves_units_witness:
  "\<exists>q. product_of 1 (sample_stock\<lparr>products :=
    [sample_product\<lparr>p_available := 3, p_issued := 4\<rparr>,
     sample_product\<lparr>p_id := 2, p_available := 0, p_total := 5\<rparr>]\<rparr>) = Some q \<and> slack q = slack sample_product"
  by (rule availability_conserves_units [OF _ sample_issue])
    (simp_all add: sample_stock_def sample_product_def product_of_def row_get_Cons)

text \<open>
  A status change of one unit row of an individually tracked product leaves the product's
  buckets equal to the counts of its unit rows by status, whatever the buckets were before.
\<close>

lemma move_asset_status_matches:
  assumes "unique_keys a_id (assets s)" and a: "row_get a_id aid (assets s) = Some a"
    and "a_status a \<noteq> st" and "move_asset_status aid st s = Inr t"
    and "product_of (a_product a) t = Some p" and "p_tracking_mode p = INDIVIDUAL"
  shows "matches_assets p t"
proof -
  from move_asset_status_Inr [OF a assms(3,4)] obtain ob nb u q where
    b: "asset_quantity_bucket (a_status a) = Some ob" "asset_quantity_bucket st = Some nb"
    and q: "product_of (a_product a) u = Some q" and u: "u = s\<lparr>products := products u\<rparr>"
    and m: "p_tracking_mode q = INDIVIDUAL \<longrightarrow> matches_assets q u"
    and p: "let p' = set_bucket ob (get_bucket ob q - 1) q; p'' = set_bucket nb (get_bucket nb p' + 1) p' in
      p = p'' \<and> t = put_asset (a\<lparr>a_status := st\<rparr>) (u\<lparr>products := row_put p_id p'' (products u)\<rparr>)"
    using assms(5) by (auto simp: Let_def)
  have assets: "assets u = assets s" by (subst u) simp
  have "matches_assets q u" using m p assms(6) by (simp add: Let_def tracking_mode_set_bucket)
  moreover have "status_count x (a_product a) t = status_count x (a_product a) u
      - (if a_status a = x then 1 else 0) + (if st = x then 1 else 0)" for x
    using p assms(1) a assets
    by (simp add: Let_def status_count_put_asset [where aid = aid])
  ultimately show ?thesis
    using b p assms(3) product_of_id [OF q]
    by (cases "a_status a"; cases st) (auto simp: Let_def matches_assets_def bucket_sum_def)
qed

definition sample_units :: db where
  "sample_units = empty_db\<lparr>in_atomic := True,
     products := [sample_product\<lparr>p_tracking_mode := INDIVIDUAL, p_reserved := 0, p_total := 9\<rparr>],
     assets := [\<lparr>a_id = 1, a_makerspace = 1, a_product = 1, a_box = None, a_tag = ''A1'',
        a_status = AVAILABLE, a_self_checkout = False\<rparr>,
       \<lparr>a_id = 2, a_makerspace = 1, a_product = 1, a_box = None, a_tag = ''A2'',
        a_status = MAINTENANCE, a_self_checkout = False\<rparr>]\<rparr>"

lemmas unit_defs = sample_units_def sample_product_def empty_db_def move_asset_status_def get_asset_def
  reconcile_individual_product_from_assets_def reconciled_row_def get_product_def status_count_def
  assets_of_def row_get_Cons row_put_def save_product_def product_in_range_def product_constraints_def
  bucket_sum_def int32_max_def put_asset_def

lemma move_asset_status_matches_witness:
  "\<exists>t p. move_asset_status 1 DAMAGED sample_units = Inr t \<and> product_of 1 t = Some p \<and>
    matches_assets p t \<and> p_damaged p = 1 \<and> p_total p = 2"
proof -
  obtain t p where t: "move_asset_status 1 DAMAGED sample_units = Inr t" "product_of 1 t = Some p"
    "p_tracking_mode p = INDIVIDUAL" "p_damaged p = 1" "p_total p = 2"
    by (simp add: unit_defs Let_def product_of_def)
  have a: "unique_keys a_id (assets sample_units)"
    "row_get a_id 1 (assets sample_units) = Some \<lparr>a_id = 1, a_makerspace = 1, a_product = 1, a_box = None,
       a_tag = ''A1'', a_status = AVAILABLE, a_self_checkout = False\<rparr>"
    by (simp_all add: sample_units_def unique_keys_def row_get_Cons)
  have "matches_assets p t"
    using move_asset_status_matches [OF a _ t(1)] t by simp
  with t show ?thesis by blast
qed

text \<open>
  Reconciling an individually tracked product with its unit rows is idempotent: a second
  reconciliation finds nothing to write.
\<close>

lemma reconcile_idempotent:
  assumes "tables_ok s" and "reconcile_individual_product_from_assets pid s = Inr t"
  shows "reconcile_individual_product_from_assets pid t = Inr t"
proof -
  have "tables_ok t" using assms yields_Inr [OF reconcile_safe] by blast
  moreover obtain p where p: "product_of pid t = Some p" "p_tracking_mode p = INDIVIDUAL \<longrightarrow> matches_assets p t"
    using reconcile_Inr [OF assms(2)] by blast
  ultimately have "0 \<le> p_available p" using tables_ok_product by (auto dest: product_okD(1))
  with p show ?thesis
    by (simp add: reconcile_individual_product_from_assets_def get_product_def product_of_def
        reconciled_row_fixed)
qed

end
