(* ===== verification/Evidence.thy ===== *)
theory Evidence
  imports Lending_Db "HOL-Library.AList"
begin

text \<open>
  Evidence photos: the promotion of a staged upload to its final object
  (\<open>evidence/finalization.py\<close>, \<open>evidence/storage.py\<close>), the retention lock, and the storage
  quota that is charged once per photo (\<open>evidence/quota.py\<close>, \<open>makerspaces/limits_usage.py\<close>,
  \<open>limits_core.py\<close>). The promotion is not one transaction: it commits its claim before it
  talks to the object store and may leave the claim released, so its result carries the state
  also when it raises.
\<close>

section \<open>The object store\<close>

definition staging_key :: "string \<Rightarrow> string" where
  "staging_key final_key = ''staging/'' @ final_key"

definition object_size :: "env \<Rightarrow> string \<Rightarrow> db \<Rightarrow> exn + int option" where
  "object_size env key s =
     (if \<not> store_up env then Inl StorageUnavailable
      else Inr (map_option o_size (map_of (bucket_objects s) key)))"

definition validate_evidence_object :: "env \<Rightarrow> string \<Rightarrow> db \<Rightarrow> exn + (int \<times> string)" where
  "validate_evidence_object env key s =
     try_then (object_size env key s) (\<lambda>found.
     try_then (of_option (EvidenceObjectValidationError ''missing'') found) (\<lambda>n.
       if n = 0 then Inl (EvidenceObjectValidationError ''empty'')
       else if evidence_max_bytes env < n then Inl (EvidenceObjectValidationError ''too_large'')
       else try_then (of_option StorageUnavailable (map_of (bucket_objects s) key)) (\<lambda>ob.
              if o_mime ob \<notin> set (evidence_mimes env)
              then Inl (EvidenceObjectValidationError ''invalid_image'')
              else Inr (n, o_mime ob))))"

definition copy_object :: "env \<Rightarrow> string \<Rightarrow> string \<Rightarrow> db \<Rightarrow> exn + db" where
  "copy_object env src dst s =
     (if \<not> store_up env then Inl StorageUnavailable
      else case map_of (bucket_objects s) src of
        None \<Rightarrow> Inl StorageUnavailable
      | Some ob \<Rightarrow> Inr (s\<lparr>bucket_objects := AList.update dst ob (bucket_objects s)\<rparr>))"

text \<open>A failed delete is logged, not raised.\<close>

definition delete_object :: "env \<Rightarrow> string \<Rightarrow> db \<Rightarrow> db" where
  "delete_object env key s =
     (if store_up env then s\<lparr>bucket_objects := AList.delete key (bucket_objects s)\<rparr> else s)"

section \<open>Claiming, completing and releasing a promotion\<close>

definition get_evidence :: "nat \<Rightarrow> db \<Rightarrow> exn + evidence_photo" where
  "get_evidence eid s = of_option DoesNotExist (row_get e_id eid (evidence s))"

definition finalization_of :: "nat \<Rightarrow> db \<Rightarrow> finalization option" where
  "finalization_of eid s = row_get f_evidence eid (finalizations s)"

definition put_finalization :: "finalization \<Rightarrow> db \<Rightarrow> db" where
  "put_finalization f s =
     s\<lparr>finalizations := row_put f_evidence (f\<lparr>f_updated_at := now s\<rparr>) (finalizations s)\<rparr>"

definition new_finalization :: "nat \<Rightarrow> int \<Rightarrow> finalization" where
  "new_finalization eid time = \<lparr>f_evidence = eid, f_status = FinalizationPending,
     f_claim_token = None, f_size = None, f_content_type = [], f_quota_charged = False,
     f_updated_at = time\<rparr>"

definition get_or_create_finalization :: "nat \<Rightarrow> db \<Rightarrow> finalization \<times> db" where
  "get_or_create_finalization eid s =
     (case finalization_of eid s of
        Some f \<Rightarrow> (f, s)
      | None \<Rightarrow> let f = new_finalization eid (now s)
                in (f, s\<lparr>finalizations := finalizations s @ [f]\<rparr>))"

definition lock_evidence_for_attachment :: "nat \<Rightarrow> bool \<Rightarrow> db \<Rightarrow> exn + bool" where
  "lock_evidence_for_attachment eid photo_already_locked s =
     try_then (if photo_already_locked then Inr () else
                 try_then (get_evidence eid s) (\<lambda>_. Inr ()))
       (\<lambda>_. Inr (eid \<notin> set (expiring s)))"

definition result_of :: "finalization \<Rightarrow> int option \<times> string" where
  "result_of f = (f_size f, f_content_type f)"

definition claim :: "env \<Rightarrow> nat \<Rightarrow> db \<Rightarrow> exn + ((nat option \<times> (int option \<times> string) option) \<times> db)" where
  "claim env eid = atomic_ret (\<lambda>s.
     try_then (get_evidence eid s) (\<lambda>_.
       let (state, s) = get_or_create_finalization eid s
       in try_then (lock_evidence_for_attachment eid True s) (\<lambda>attachable.
            if \<not> attachable then Inl (EvidenceObjectValidationError ''expired'')
            else if f_status state = FinalizationDone
            then Inr ((None, Some (result_of state)), s)
            else if f_status state = FinalizationPromoting \<and>
                    now s - max (url_ttl env) 60 < f_updated_at state
            then Inr ((None, None), s)
            else Inr ((Some (new_token env), None),
                   put_finalization (state\<lparr>f_status := FinalizationPromoting,
                     f_claim_token := Some (new_token env)\<rparr>) s))))"

definition complete :: "nat \<Rightarrow> int \<times> string \<Rightarrow> db \<Rightarrow> exn + ((int option \<times> string) \<times> db)" where
  "complete eid result = atomic_ret (\<lambda>s.
     try_then (get_evidence eid s) (\<lambda>_.
     try_then (of_option DoesNotExist (finalization_of eid s)) (\<lambda>state.
       if f_status state = FinalizationDone then Inr (result_of state, s)
       else Inr ((Some (fst result), snd result),
              put_finalization (state\<lparr>f_status := FinalizationDone, f_claim_token := None,
                f_size := Some (fst result), f_content_type := snd result\<rparr>) s))))"

definition release_claim :: "nat \<Rightarrow> nat \<Rightarrow> db \<Rightarrow> exn + db" where
  "release_claim eid token = atomic (\<lambda>s.
     try_then (get_evidence eid s) (\<lambda>_.
     try_then (of_option DoesNotExist (finalization_of eid s)) (\<lambda>state.
       if f_status state = FinalizationPromoting \<and> f_claim_token state = Some token
       then Inr (put_finalization (state\<lparr>f_status := FinalizationPending,
                   f_claim_token := None\<rparr>) s)
       else Inr s)))"

definition validated_or_none ::
  "env \<Rightarrow> string \<Rightarrow> int \<Rightarrow> db \<Rightarrow> exn + (int \<times> string) option" where
  "validated_or_none env key max_bytes s =
     (case validate_evidence_object env key s of
        Inl e \<Rightarrow> if e = EvidenceObjectValidationError ''missing'' then Inr None else Inl e
      | Inr result \<Rightarrow>
          if \<not> (1 \<le> fst result \<and> fst result \<le> max_bytes)
          then Inl (EvidenceObjectValidationError ''too_large'') else Inr (Some result))"

text \<open>
  The poll loop. Its list argument is what other transactions commit during each sleep; when it
  is used up the deadline has passed.
\<close>

fun recover_or_wait ::
  "env \<Rightarrow> evidence_photo \<Rightarrow> int \<Rightarrow> (db \<Rightarrow> db) list \<Rightarrow> db \<Rightarrow> (exn + (int option \<times> string)) \<times> db" where
  "recover_or_wait env ev max_bytes others s =
     (case finalization_of (e_id ev) s of
        None \<Rightarrow> (Inl DoesNotExist, s)
      | Some state \<Rightarrow>
          if f_status state = FinalizationDone then (Inr (result_of state), s)
          else case validated_or_none env (e_object_key ev) max_bytes s of
            Inl e \<Rightarrow> (Inl e, s)
          | Inr (Some final) \<Rightarrow>
              (case complete (e_id ev) final s of
                 Inl e \<Rightarrow> (Inl e, s) | Inr (r, s') \<Rightarrow> (Inr r, s'))
          | Inr None \<Rightarrow>
              (case others of
                 [] \<Rightarrow> (Inl FinalizationInProgress, s)
               | other # rest \<Rightarrow> recover_or_wait env ev max_bytes rest (other s)))"

declare recover_or_wait.simps [simp del]

text \<open>The body of the claimed promotion: what it returns or raises, and the bucket it leaves.\<close>

definition promote ::
  "env \<Rightarrow> evidence_photo \<Rightarrow> int \<Rightarrow> db \<Rightarrow> (exn + (int \<times> string) option) \<times> db" where
  "promote env ev max_bytes s =
     (let key = e_object_key ev; staged_key = staging_key key
      in case validated_or_none env key max_bytes s of
        Inl e \<Rightarrow> (Inl e, s)
      | Inr (Some existing) \<Rightarrow> (Inr (Some existing), s)
      | Inr None \<Rightarrow>
          (case validated_or_none env staged_key max_bytes s of
             Inl e \<Rightarrow> (Inl e, s)
           | Inr None \<Rightarrow> (Inr None, s)
           | Inr (Some _) \<Rightarrow>
               (case copy_object env staged_key key s of
                  Inl e \<Rightarrow> (Inl e, s)
                | Inr s' \<Rightarrow>
                    (case validated_or_none env key max_bytes s' of
                       Inl (EvidenceObjectValidationError code) \<Rightarrow>
                         (Inl (EvidenceObjectValidationError code), delete_object env key s')
                     | Inl e \<Rightarrow> (Inl e, s')
                     | Inr None \<Rightarrow> (Inl StorageUnavailable, s')
                     | Inr (Some result) \<Rightarrow> (Inr (Some result), s')))))"

text \<open>An exception while releasing the claim replaces the one being handled.\<close>

definition released :: "nat \<Rightarrow> nat \<Rightarrow> exn + 'a \<Rightarrow> db \<Rightarrow> (exn + 'a) \<times> db" where
  "released eid token r s =
     (case release_claim eid token s of Inl e \<Rightarrow> (Inl e, s) | Inr s' \<Rightarrow> (r, s'))"

definition finalize_upload ::
  "env \<Rightarrow> evidence_photo \<Rightarrow> int \<Rightarrow> db \<Rightarrow> (exn + (int option \<times> string) option) \<times> db" where
  "finalize_upload env ev max_bytes s =
     (let staged_key = staging_key (e_object_key ev); drop = delete_object env staged_key
      in case claim env (e_id ev) s of
        Inl e \<Rightarrow> (Inl e, s)
      | Inr ((_, Some completed), s) \<Rightarrow> (Inr (Some completed), drop s)
      | Inr ((None, None), s) \<Rightarrow>
          (case recover_or_wait env ev max_bytes (sleeps env) s of
             (Inl e, s) \<Rightarrow> (Inl e, s)
           | (Inr r, s) \<Rightarrow> (Inr (Some r), drop s))
      | Inr ((Some token, None), s) \<Rightarrow>
          (case promote env ev max_bytes s of
             (Inl e, s) \<Rightarrow> released (e_id ev) token (Inl e) s
           | (Inr None, s) \<Rightarrow> released (e_id ev) token (Inr None) s
           | (Inr (Some result), s) \<Rightarrow>
               (case complete (e_id ev) result (drop s) of
                  Inl e \<Rightarrow> released (e_id ev) token (Inl e) (drop s)
                | Inr (r, s) \<Rightarrow> (Inr (Some r), s))))"

text \<open>\<open>storage.finalize_upload\<close>, the wrapper the workflows call.\<close>

definition storage_finalize_upload ::
  "env \<Rightarrow> evidence_photo \<Rightarrow> int \<Rightarrow> db \<Rightarrow> (exn + (int option \<times> string) option) \<times> db" where
  "storage_finalize_upload env ev max_bytes s =
     (case finalize_upload env ev max_bytes s of
        (Inl e, s) \<Rightarrow> (Inl (if e = FinalizationInProgress then StorageUnavailable else e), s)
      | (Inr r, s) \<Rightarrow> (Inr r, s))"

section \<open>Storage quota\<close>

definition storage_limit :: "env \<Rightarrow> makerspace \<Rightarrow> int option" where
  "storage_limit env m =
     (if self_host env then None
      else case m_storage_override m of
        Some v \<Rightarrow> (if v = None \<or> v = Some (- 1) then None else v)
      | None \<Rightarrow> managed_storage_limit env)"

definition add_storage :: "env \<Rightarrow> makerspace \<Rightarrow> int \<Rightarrow> db \<Rightarrow> exn + (bool \<times> db)" where
  "add_storage env m size_bytes s =
     (if self_host env \<or> size_bytes = 0 then Inr (False, s)
      else case storage_limit env m of
        None \<Rightarrow> Inr (False, s)
      | Some limit \<Rightarrow> atomic_ret (\<lambda>s.
          try_then (get_makerspace (m_id m) s) (\<lambda>locked.
            if limit < m_storage_used locked + size_bytes then Inl ValidationError
            else Inr (True, put_makerspace
                   (locked\<lparr>m_storage_used := m_storage_used locked + size_bytes\<rparr>) s))) s)"

definition free_storage :: "env \<Rightarrow> makerspace \<Rightarrow> int \<Rightarrow> db \<Rightarrow> db" where
  "free_storage env m size_bytes s =
     (if self_host env \<or> size_bytes = 0 then s
      else case row_get m_id (m_id m) (makerspaces s) of
        None \<Rightarrow> s
      | Some row \<Rightarrow>
          put_makerspace (row\<lparr>m_storage_used := max (m_storage_used row - size_bytes) 0\<rparr>) s)"

definition finalized_size_bytes :: "finalization option \<Rightarrow> int" where
  "finalized_size_bytes state =
     (case state of
        None \<Rightarrow> 0
      | Some f \<Rightarrow>
          if f_status f \<noteq> FinalizationDone then 0
          else case f_size f of None \<Rightarrow> 0 | Some n \<Rightarrow> if 0 < n then n else 0)"

definition evidence_target :: "nat \<Rightarrow> string \<times> nat" where
  "evidence_target eid = (''evidence.evidencephoto'', eid)"

definition database_id_meta :: "env \<Rightarrow> meta_value" where
  "database_id_meta env = (case database_uuid env of None \<Rightarrow> MNone | Some u \<Rightarrow> MStr u)"

definition charge_storage_once :: "env \<Rightarrow> evidence_photo \<Rightarrow> int option \<Rightarrow> db \<Rightarrow> exn + db" where
  "charge_storage_once env ev claimed s =
     (if \<not> presign_put env then Inr s
      else atomic (\<lambda>s.
        try_then (of_option DoesNotExist (finalization_of (e_id ev) s)) (\<lambda>state.
          let validated = finalized_size_bytes (Some state)
          in if validated = 0 \<or> claimed \<noteq> Some validated then Inl ValidationError
             else if f_quota_charged state then Inr s
             else try_then (get_makerspace (e_makerspace ev) s) (\<lambda>m.
                  try_then (add_storage env m validated s) (\<lambda>(debited, s).
                    if \<not> debited then Inr s
                    else let s = put_finalization (state\<lparr>f_quota_charged := True\<rparr>) s
                         in Inr (audit_record None ''evidence.storage_charged'' (e_makerspace ev)
                              (evidence_target (e_id ev))
                              [(''version'', MInt 1), (''bytes'', MInt validated),
                               (''journal_version'', MInt (now s)),
                               (''accounting_database_id'', database_id_meta env)] s))))) s)"

definition is_charge_marker :: "env \<Rightarrow> string \<Rightarrow> int \<Rightarrow> finalization \<Rightarrow> evidence_photo \<Rightarrow> audit_entry \<Rightarrow> bool" where
  "is_charge_marker env database_id n state ev u \<longleftrightarrow>
     u_makerspace u = e_makerspace ev \<and> u_target u = evidence_target (e_id ev) \<and>
     u_action u = ''evidence.storage_charged'' \<and>
     map_of (u_meta u) ''version'' = Some (MInt 1) \<and>
     map_of (u_meta u) ''bytes'' = Some (MInt n) \<and>
     map_of (u_meta u) ''journal_version'' = Some (MInt (f_updated_at state)) \<and>
     map_of (u_meta u) ''accounting_database_id'' = Some (MStr database_id)"

definition proven_charge_bytes :: "env \<Rightarrow> evidence_photo \<Rightarrow> finalization option \<Rightarrow> db \<Rightarrow> int" where
  "proven_charge_bytes env ev state s =
     (let n = finalized_size_bytes state
      in case state of
        None \<Rightarrow> 0
      | Some f \<Rightarrow>
          if n = 0 \<or> \<not> f_quota_charged f \<or> f_evidence f \<noteq> e_id ev then 0
          else case database_uuid env of
            None \<Rightarrow> 0
          | Some database_id \<Rightarrow>
              if list_ex (is_charge_marker env database_id n f ev) (audit_log s) then n else 0)"

section \<open>The quota is charged once, and never above the limit\<close>

lemma finalization_of_put:
  "finalization_of eid (put_finalization f s) =
     (if eid = f_evidence f then map_option (\<lambda>_. f\<lparr>f_updated_at := now s\<rparr>) (finalization_of eid s)
      else finalization_of eid s)"
  by (simp add: finalization_of_def put_finalization_def row_get_row_put)

lemma finalization_of_simps [simp]:
  "finalization_of eid (put_makerspace m s) = finalization_of eid s"
  "finalization_of eid (s\<lparr>in_atomic := b\<rparr>) = finalization_of eid s"
  "finalization_of eid (audit_record actor act ms tgt meta s) = finalization_of eid s"
  by (simp_all add: finalization_of_def put_makerspace_def audit_record_def)

lemma finalization_of_id: "finalization_of eid s = Some f \<Longrightarrow> f_evidence f = eid"
  by (auto simp: finalization_of_def dest: row_get_SomeD)

lemma add_storage_wp [wp]:
  assumes "n = 0 \<or> storage_limit env m = None \<Longrightarrow> P (False, s)"
    and "\<And>L r. storage_limit env m = Some L \<Longrightarrow> row_get m_id (m_id m) (makerspaces s) = Some r \<Longrightarrow>
      m_storage_used r + n \<le> L \<Longrightarrow>
      P (True, put_makerspace (r\<lparr>m_storage_used := m_storage_used r + n\<rparr>) s)"
    and "E DoesNotExist" and "E ValidationError"
  shows "yields P E (add_storage env m n s)"
proof -
  have restore: "put_makerspace r (s\<lparr>in_atomic := True\<rparr>)\<lparr>in_atomic := in_atomic s\<rparr> = put_makerspace r s" for r
    by (simp add: put_makerspace_def)
  show ?thesis
    using assms by (auto simp: add_storage_def get_makerspace_def restore storage_limit_def
        split: option.splits)
qed

definition within_quota :: "env \<Rightarrow> db \<Rightarrow> bool" where
  "within_quota env s \<longleftrightarrow>
     (\<forall>m \<in> set (makerspaces s). \<forall>L \<in> set_option (storage_limit env m). m_storage_used m \<le> L)"

lemma storage_limit_used [simp]: "storage_limit env (m\<lparr>m_storage_used := n\<rparr>) = storage_limit env m"
  by (simp add: storage_limit_def)

lemma within_quota_simps [simp]:
  "within_quota env (put_finalization f s) = within_quota env s"
  "within_quota env (s\<lparr>in_atomic := b\<rparr>) = within_quota env s"
  "within_quota env (audit_record actor act ms tgt meta s) = within_quota env s"
  by (simp_all add: within_quota_def put_finalization_def audit_record_def)

lemma within_quota_put:
  "within_quota env s \<Longrightarrow> (\<And>L. storage_limit env m = Some L \<Longrightarrow> m_storage_used m \<le> L) \<Longrightarrow>
    within_quota env (put_makerspace m s)"
  by (auto simp: within_quota_def put_makerspace_def dest!: set_row_putD)

lemma charge_storage_within_quota:
  "within_quota env s \<Longrightarrow> yields (within_quota env) (\<lambda>_. True) (charge_storage_once env ev n s)"
  by (auto simp: charge_storage_once_def get_makerspace_def Let_def split: option.splits
      intro!: wp within_quota_put)

text \<open>
  What a successful charge leaves behind: a charged row, or no debit because the storage of the
  makerspace is unlimited. Charging again then changes nothing.
\<close>

definition settled :: "env \<Rightarrow> evidence_photo \<Rightarrow> int option \<Rightarrow> db \<Rightarrow> bool" where
  "settled env ev claimed s \<longleftrightarrow> (\<exists>f. finalization_of (e_id ev) s = Some f \<and>
     claimed = Some (finalized_size_bytes (Some f)) \<and> 0 < finalized_size_bytes (Some f) \<and>
     (f_quota_charged f \<or> (\<exists>m. row_get m_id (e_makerspace ev) (makerspaces s) = Some m \<and>
        storage_limit env m = None)))"

lemma finalized_size_nonneg: "0 \<le> finalized_size_bytes state"
  by (simp add: finalized_size_bytes_def split: option.split)

lemma finalized_size_put [simp]:
  "finalized_size_bytes (Some (f\<lparr>f_quota_charged := b, f_updated_at := i\<rparr>)) = finalized_size_bytes (Some f)"
  "finalized_size_bytes (Some (f\<lparr>f_quota_charged := b\<rparr>)) = finalized_size_bytes (Some f)"
  by (simp_all add: finalized_size_bytes_def)

lemma storage_limit_self_host: "storage_limit env m = Some L \<Longrightarrow> \<not> self_host env"
  by (auto simp: storage_limit_def)

lemma charge_storage_settles:
  assumes "presign_put env"
  shows "yields (settled env ev claimed) (\<lambda>_. True) (charge_storage_once env ev claimed s)"
proof -
  have pos: "finalized_size_bytes st \<noteq> 0 \<longleftrightarrow> 0 < finalized_size_bytes st" for st
    using finalized_size_nonneg [of st] by linarith
  show ?thesis
    using assms by (auto simp: charge_storage_once_def get_makerspace_def Let_def settled_def pos
        finalization_of_put finalization_of_id split: option.splits intro!: wp)
qed

lemma settled_charge: "settled env ev claimed s \<Longrightarrow> presign_put env \<Longrightarrow>
    charge_storage_once env ev claimed s = Inr s"
  by (auto simp: settled_def charge_storage_once_def atomic_def get_makerspace_def
      add_storage_def Let_def)

lemma charge_storage_once_idem:
  "charge_storage_once env ev claimed s = Inr t \<Longrightarrow> charge_storage_once env ev claimed t = Inr t"
  using settled_charge yields_Inr [OF charge_storage_settles]
  by (cases "presign_put env") (auto simp: charge_storage_once_def)

section \<open>One promotion, one result\<close>

definition promoted :: "nat \<Rightarrow> int option \<times> string \<Rightarrow> db \<Rightarrow> bool" where
  "promoted eid r s \<longleftrightarrow> (\<exists>f. finalization_of eid s = Some f \<and> f_status f = FinalizationDone \<and> result_of f = r)"

lemma finalization_of_bucket [simp]: "finalization_of eid (s\<lparr>bucket_objects := bs\<rparr>) = finalization_of eid s"
  by (simp add: finalization_of_def)

lemma finalization_of_delete [simp]: "finalization_of eid (delete_object env key s) = finalization_of eid s"
  by (simp add: delete_object_def)

lemma promoted_simps [simp]:
  "promoted eid r (s\<lparr>in_atomic := b\<rparr>) = promoted eid r s"
  "promoted eid r (delete_object env key s) = promoted eid r s"
  by (simp_all add: promoted_def)

lemma promoted_put [simp]:
  "finalization_of eid s = Some old \<Longrightarrow> f_evidence f = eid \<Longrightarrow> f_status f = FinalizationDone \<Longrightarrow>
    promoted eid (result_of f) (put_finalization f s)"
  by (simp add: promoted_def finalization_of_put result_of_def)

lemma complete_promotes: "complete eid result s = Inr (r, t) \<Longrightarrow> promoted eid r t"
proof -
  have "yields (\<lambda>(r, t). promoted eid r t) (\<lambda>_. True) (complete eid result s)"
    by (auto simp: complete_def promoted_def finalization_of_put result_of_def get_evidence_def
        dest: finalization_of_id split: option.splits)
  then show "complete eid result s = Inr (r, t) \<Longrightarrow> promoted eid r t" by simp
qed

lemma get_or_create_Some:
  "get_or_create_finalization eid s = (f, t) \<Longrightarrow>
    finalization_of eid t = Some f \<and> evidence t = evidence s \<and> expiring t = expiring s \<and> now t = now s"
  by (auto simp: get_or_create_finalization_def finalization_of_def Let_def row_get_append
      row_get_Cons new_finalization_def split: option.splits)

lemma recover_promotes: "recover_or_wait env ev mb others s = (Inr r, t) \<Longrightarrow> promoted (e_id ev) r t"
proof (induction others arbitrary: s)
  case Nil
  then show ?case
    by (subst (asm) recover_or_wait.simps)
      (auto simp: promoted_def split: option.splits sum.splits prod.splits if_splits
        dest!: complete_promotes)
next
  case (Cons g others)
  then show ?case
    by (subst (asm) recover_or_wait.simps)
      (auto simp: promoted_def split: option.splits sum.splits prod.splits if_splits
        dest!: complete_promotes)
qed

lemma claim_completed: "claim env eid s = Inr ((tok, Some r), t) \<Longrightarrow> promoted eid r t"
  by (auto simp: claim_def atomic_ret_def ok_iff promoted_def get_or_create_finalization_def Let_def
      new_finalization_def lock_evidence_for_attachment_def split: if_splits option.splits)

lemma released_Some: "released eid token (Inl e) s \<noteq> (Inr x, t)" "released eid token (Inr None) s \<noteq> (Inr (Some r), t)"
  by (auto simp: released_def split: sum.splits)

lemma finalize_promotes:
  "finalize_upload env ev mb s = (Inr (Some r), t) \<Longrightarrow> promoted (e_id ev) r t"
  by (auto simp: finalize_upload_def Let_def released_Some split: sum.splits prod.splits option.splits
      dest: claim_completed recover_promotes complete_promotes)

lemma claim_promoted:
  assumes "promoted eid r s" and "row_get e_id eid (evidence s) = Some ev" and "eid \<notin> set (expiring s)"
  shows "claim env eid s = Inr ((None, Some r), s)"
  using assms by (auto simp: claim_def atomic_ret_def promoted_def get_evidence_def
      get_or_create_finalization_def lock_evidence_for_attachment_def finalization_of_def)

lemma finalize_promoted:
  assumes "promoted (e_id ev) r s" and "row_get e_id (e_id ev) (evidence s) = Some ev"
    and "e_id ev \<notin> set (expiring s)"
  shows "finalize_upload env ev mb s = (Inr (Some r), delete_object env (staging_key (e_object_key ev)) s)"
  using claim_promoted [OF assms] by (simp add: finalize_upload_def)

section \<open>Promotions of concurrent workers\<close>

text \<open>
  Every transaction that writes the finalization table, by any worker for any photo, and what other
  services and the object store do to everything else in between, as the steps of one machine. A
  promotion by \<open>finalize_upload\<close> is a run of it, not one step: other workers come in between.
\<close>

datatype evidence_op =
    ClaimPromotion env nat
  | CompletePromotion nat "int \<times> string"
  | ReleasePromotion nat nat
  | ChargePhoto env evidence_photo "int option"
  | WriteElsewhere "db \<Rightarrow> db"

fun evidence_step :: "evidence_op \<Rightarrow> db \<Rightarrow> exn + db" where
  "evidence_step (ClaimPromotion env eid) s = try_then (claim env eid s) (\<lambda>(_, t). Inr t)"
| "evidence_step (CompletePromotion eid result) s = try_then (complete eid result s) (\<lambda>(_, t). Inr t)"
| "evidence_step (ReleasePromotion eid token) s = release_claim eid token s"
| "evidence_step (ChargePhoto env ev claimed) s = charge_storage_once env ev claimed s"
| "evidence_step (WriteElsewhere g) s = Inr ((g s)\<lparr>finalizations := finalizations s\<rparr>)"

definition keeps_promotions :: "db \<Rightarrow> db \<Rightarrow> bool" where
  "keeps_promotions s t \<longleftrightarrow> (\<forall>eid r. promoted eid r s \<longrightarrow> promoted eid r t)"

lemma keeps_promotions_simps [simp]:
  "keeps_promotions s s"
  "keeps_promotions s (t\<lparr>in_atomic := b\<rparr>) = keeps_promotions s t"
  "keeps_promotions s (audit_record actor act ms tgt meta t) = keeps_promotions s t"
  "keeps_promotions (s\<lparr>in_atomic := b\<rparr>) t = keeps_promotions s t"
  by (simp_all add: keeps_promotions_def promoted_def)

text \<open>A write of a row keeps the promotions when it keeps the result of a finished row.\<close>

lemma put_keeps_promotions:
  assumes "finalization_of (f_evidence f) s = Some old"
    and "f_status old = FinalizationDone \<Longrightarrow> f_status f = FinalizationDone \<and> result_of f = result_of old"
  shows "keeps_promotions s (put_finalization f s)"
  using assms by (auto simp: keeps_promotions_def promoted_def finalization_of_put result_of_def)

lemma put_unfinished_keeps:
  assumes "finalization_of eid s = Some old" and "f_status old \<noteq> FinalizationDone" and "f_evidence f = f_evidence old"
  shows "keeps_promotions s (put_finalization f s)"
  using assms finalization_of_id [OF assms(1)] by (intro put_keeps_promotions [of f s old]) simp_all

lemma get_or_create_keeps:
  "get_or_create_finalization eid s = (f, t) \<Longrightarrow> promoted i r s \<Longrightarrow> promoted i r t"
  by (auto simp: get_or_create_finalization_def promoted_def finalization_of_def Let_def row_get_append
      split: option.splits)

lemma claim_keeps_promotions: "yields (\<lambda>(x, t). keeps_promotions s t) (\<lambda>_. True) (claim env eid s)"
proof (cases "get_or_create_finalization eid (s\<lparr>in_atomic := True\<rparr>)")
  case (Pair f u)
  have f: "finalization_of (f_evidence f) u = Some f"
    using get_or_create_Some [OF Pair] by (auto dest: finalization_of_id)
  have u: "keeps_promotions s u"
    using get_or_create_keeps [OF Pair] by (simp add: keeps_promotions_def)
  have "keeps_promotions s (put_finalization g u)"
    if "g = f\<lparr>f_status := FinalizationPromoting, f_claim_token := k\<rparr>" "f_status f \<noteq> FinalizationDone" for g k
    using put_keeps_promotions [of g u f] that f u by (simp add: keeps_promotions_def)
  with u show ?thesis
    by (auto simp: claim_def Pair get_evidence_def lock_evidence_for_attachment_def split: option.splits)
qed

lemma complete_keeps_promotions: "yields (\<lambda>(x, t). keeps_promotions s t) (\<lambda>_. True) (complete eid result s)"
  by (auto simp: complete_def get_evidence_def split: option.splits
      intro!: put_unfinished_keeps [where s = "s\<lparr>in_atomic := True\<rparr>", simplified])

lemma release_keeps_promotions: "yields (keeps_promotions s) (\<lambda>_. True) (release_claim eid token s)"
  by (auto simp: release_claim_def get_evidence_def split: option.splits
      intro!: put_unfinished_keeps [where s = "s\<lparr>in_atomic := True\<rparr>", simplified])

lemma charge_keeps_promotions: "yields (keeps_promotions s) (\<lambda>_. True) (charge_storage_once env ev claimed s)"
proof -
  have "keeps_promotions s (put_finalization (f\<lparr>f_quota_charged := True\<rparr>) (put_makerspace m (s\<lparr>in_atomic := True\<rparr>)))"
    if "finalization_of (e_id ev) s = Some f" for f m
  proof -
    have "f_evidence f = e_id ev" using that by (rule finalization_of_id)
    with that show ?thesis
      by (auto simp: keeps_promotions_def promoted_def finalization_of_put result_of_def)
  qed
  then show ?thesis
    by (auto simp: charge_storage_once_def get_makerspace_def Let_def split: option.splits intro!: wp)
qed

interpretation photos: tracked_machine evidence_step "\<lambda>_. True" keeps_promotions
proof unfold_locales
  show "keeps_promotions s t" if "evidence_step c s = Inr t" for c s t
    using that
  proof (cases c)
    case (WriteElsewhere g)
    with that show ?thesis by (auto simp: keeps_promotions_def promoted_def finalization_of_def)
  qed (use yields_Inr [OF claim_keeps_promotions] yields_Inr [OF complete_keeps_promotions] yields_Inr [OF release_keeps_promotions]
      yields_Inr [OF charge_keeps_promotions] in \<open>force simp: try_then_Inr\<close>)+
qed (auto simp: keeps_promotions_def)

text \<open>
  A worker that waits only for runs of the machine is itself one: whatever its promotion does to
  the database is a sequence of these transactions.
\<close>

definition evidence_reach :: "db \<Rightarrow> db \<Rightarrow> bool" where
  "evidence_reach s t \<longleftrightarrow> (\<exists>cs. t = fold (attempt evidence_step) cs s)"

lemma evidence_reach_refl [simp]: "evidence_reach s s"
  unfolding evidence_reach_def by (rule exI [of _ "[]"]) simp

lemma evidence_reach_trans [trans]: "evidence_reach s t \<Longrightarrow> evidence_reach t u \<Longrightarrow> evidence_reach s u"
  unfolding evidence_reach_def by (metis fold_append comp_apply)

lemma evidence_reach_step: "evidence_step c s = Inr t \<Longrightarrow> evidence_reach s t"
  unfolding evidence_reach_def by (rule exI [of _ "[c]"]) (simp add: attempt_def)

lemma evidence_reach_elsewhere: "finalizations t = finalizations s \<Longrightarrow> evidence_reach s t"
  by (rule evidence_reach_step [of "WriteElsewhere (\<lambda>_. t)"]) simp

lemma evidence_reach_delete [simp]: "evidence_reach s (delete_object env key s)"
  by (rule evidence_reach_elsewhere) (simp add: delete_object_def)

lemma complete_reach: "complete eid n s = Inr (r, t) \<Longrightarrow> evidence_reach s t"
  by (rule evidence_reach_step [of "CompletePromotion eid n"]) simp

lemma recover_reach:
  assumes "\<And>g s. g \<in> set others \<Longrightarrow> evidence_reach s (g s)" and "recover_or_wait env ev mb others s = (x, t)"
  shows "evidence_reach s t"
  using assms
proof (induction others arbitrary: s)
  case Nil
  from Nil(2) show ?case
    by (subst (asm) recover_or_wait.simps)
      (auto split: option.splits sum.splits prod.splits if_splits
        intro: complete_reach)
next
  case (Cons g others)
  have "evidence_reach s t" if "recover_or_wait env ev mb others (g s) = (x, t)"
    using Cons.IH [of "g s"] Cons.prems(1) that evidence_reach_trans [of s "g s" t] by simp
  with Cons.prems(2) show ?case
    by (subst (asm) recover_or_wait.simps)
      (auto split: option.splits sum.splits prod.splits if_splits
        intro: complete_reach)
qed

lemma copy_keeps_table: "copy_object env src dst s = Inr t \<Longrightarrow> finalizations t = finalizations s"
  by (auto simp: copy_object_def split: if_splits option.splits)

lemma promote_table: "promote env ev mb s = (x, t) \<Longrightarrow> finalizations t = finalizations s"
  by (auto simp: promote_def Let_def delete_object_def split: sum.splits option.splits exn.splits if_splits
      dest!: copy_keeps_table)

lemma released_reach: "released eid token x s = (y, t) \<Longrightarrow> evidence_reach s t"
  by (auto simp: released_def split: sum.splits intro: evidence_reach_step [of "ReleasePromotion eid token"])

lemma finalize_is_run:
  assumes "\<And>g s. g \<in> set (sleeps env) \<Longrightarrow> evidence_reach s (g s)" and "finalize_upload env ev mb s = (x, t)"
  shows "evidence_reach s t"
proof (cases "claim env (e_id ev) s")
  case (Inl e)
  with assms(2) show ?thesis by (simp add: finalize_upload_def)
next
  case (Inr c)
  obtain tok found u where c: "c = ((tok, found), u)" by (metis prod.exhaust)
  have u: "evidence_reach s u"
    using Inr c by (intro evidence_reach_step [of "ClaimPromotion env (e_id ev)"]) simp
  have "evidence_reach u t"
  proof (cases "promote env ev mb u")
    case (Pair y v)
    have v: "evidence_reach u v" by (rule evidence_reach_elsewhere [OF promote_table [OF Pair]])
    let ?w = "delete_object env (staging_key (e_object_key ev)) v"
    have w: "evidence_reach u ?w" using v by (rule evidence_reach_trans) simp
    have "evidence_reach u z" if "recover_or_wait env ev mb (sleeps env) u = (y, z)" for y z
      using assms(1) that by (rule recover_reach)
    with assms(2) Inr c Pair v w show ?thesis
      by (auto simp: finalize_upload_def Let_def split: option.splits sum.splits prod.splits
          dest!: released_reach complete_reach intro: evidence_reach_trans)
  qed
  with u show ?thesis by (rule evidence_reach_trans)
qed

text \<open>A promotion under way belongs to one worker until its claim goes stale.\<close>

definition being_promoted :: "nat \<Rightarrow> db \<Rightarrow> bool" where
  "being_promoted eid s \<longleftrightarrow> row_get e_id eid (evidence s) \<noteq> None \<and>
     (\<exists>f. finalization_of eid s = Some f \<and> f_status f = FinalizationPromoting \<and> f_updated_at f = now s)"

lemma being_promoted_put:
  "row_get e_id eid (evidence s) \<noteq> None \<Longrightarrow> finalization_of eid s = Some old \<Longrightarrow> f_evidence f = eid \<Longrightarrow>
    f_status f = FinalizationPromoting \<Longrightarrow> being_promoted eid (put_finalization f s\<lparr>in_atomic := b\<rparr>)"
  by (simp add: being_promoted_def finalization_of_put) (simp add: put_finalization_def)

lemma claim_promoting:
  "yields (\<lambda>((tok, c), t). tok = None \<or> being_promoted eid t) (\<lambda>_. True) (claim env eid s)"
proof (cases "get_or_create_finalization eid (s\<lparr>in_atomic := True\<rparr>)")
  case (Pair f u)
  from get_or_create_Some [OF this] have u: "finalization_of eid u = Some f" "evidence u = evidence s"
    by simp_all
  then show ?thesis
    using finalization_of_id [OF u(1)]
    by (auto simp: claim_def Pair get_evidence_def lock_evidence_for_attachment_def
        intro!: being_promoted_put split: option.splits)
qed

lemma claim_exclusive:
  assumes "claim env eid s = Inr ((Some token, None), t)"
    and "now u < now t + max (url_ttl env') 60" and "finalizations u = finalizations t"
    and "evidence u = evidence t" and "eid \<notin> set (expiring u)"
  shows "claim env' eid u = Inr ((None, None), u)"
proof -
  have "being_promoted eid t" using yields_Inr [OF claim_promoting assms(1)] by simp
  with assms(2-5) show ?thesis
    by (auto simp: being_promoted_def claim_def atomic_ret_def get_evidence_def
        get_or_create_finalization_def lock_evidence_for_attachment_def finalization_of_def)
qed

lemma release_not_owner:
  assumes "release_claim eid token s = Inr t" and "finalization_of eid s = Some f"
    and "f_claim_token f \<noteq> Some token \<or> f_status f \<noteq> FinalizationPromoting"
  shows "t = s"
  using assms by (auto simp: release_claim_def atomic_Inr ok_iff split: if_splits)

section \<open>A charge can be proven\<close>

definition charge_proven :: "env \<Rightarrow> evidence_photo \<Rightarrow> db \<Rightarrow> bool" where
  "charge_proven env ev s \<longleftrightarrow> (\<forall>f. finalization_of (e_id ev) s = Some f \<longrightarrow> f_quota_charged f \<longrightarrow>
     proven_charge_bytes env ev (Some f) s = finalized_size_bytes (Some f))"

lemma charge_leaves_proof:
  assumes "finalization_of (e_id ev) s = Some f" and "\<not> f_quota_charged f" and "database_uuid env \<noteq> None"
  shows "yields (charge_proven env ev) (\<lambda>_. True) (charge_storage_once env ev claimed s)"
proof -
  from assms(3) obtain d where "database_uuid env = Some d" by auto
  moreover have "f_evidence f = e_id ev" using assms(1) by (rule finalization_of_id)
  ultimately show ?thesis
    using assms(1,2)
    by (auto simp: charge_storage_once_def get_makerspace_def Let_def charge_proven_def
        finalization_of_put proven_charge_bytes_def database_id_meta_def is_charge_marker_def
        audit_record_def put_finalization_def put_makerspace_def finalization_of_def row_get_row_put
        split: option.splits intro!: wp)
qed

section \<open>Properties of the evidence module\<close>

text \<open>
  C13. Once a staged upload has been promoted it stays promoted, with that result: after every further
  run of transactions on the finalization table, by any workers for any photos, quota charges of the
  photo included, and whatever other services and the object store did meanwhile, a promotion of
  the photo, if it is not being expired, returns the same size and content type and only deletes the
  staging object.
\<close>

theorem evidence_promoted_once:
  assumes "finalize_upload env ev max_bytes s = (Inr (Some r), t)"
    and "u = fold (attempt evidence_step) cs t"
    and "row_get e_id (e_id ev) (evidence u) = Some ev" and "e_id ev \<notin> set (expiring u)"
  shows "finalize_upload env' ev max_bytes' u =
    (Inr (Some r), delete_object env' (staging_key (e_object_key ev)) u)"
proof (rule finalize_promoted)
  have "keeps_promotions t u" unfolding assms(2) by (rule photos.run_rel) simp
  with finalize_promotes [OF assms(1)] show "promoted (e_id ev) r u"
    unfolding keeps_promotions_def by blast
qed (use assms in auto)

definition sample_env :: env where
  "sample_env = \<lparr>actor_can = (\<lambda>_ _ _. True), write_fenced = (\<lambda>_. False), module_enabled = (\<lambda>_ _. True),
     anonymous_limit = 2, evidence_max_bytes = 100, evidence_mimes = [''png''], url_ttl = 900,
     presign_put = True, self_host = False, managed_storage_limit = Some 50,
     database_uuid = Some ''db'', store_up = True, new_token = 7, sleeps = []\<rparr>"

definition sample_photo :: evidence_photo where
  "sample_photo = \<lparr>e_id = 4, e_makerspace = 1, e_type = EvidenceIssue, e_object_key = ''k'', e_uploaded_by = 9\<rparr>"

definition sample_upload :: db where
  "sample_upload = empty_db\<lparr>now := 1000, evidence := [sample_photo],
     makerspaces := [\<lparr>m_id = 1, m_default_loan_days = 7, m_storage_used = 30, m_storage_override = None\<rparr>],
     bucket_objects := [(''staging/k'', \<lparr>o_size = 12, o_mime = ''png''\<rparr>)]\<rparr>"

lemmas sample_upload_defs = sample_env_def sample_photo_def sample_upload_def empty_db_def

lemmas promotion_defs = finalize_upload_def claim_def complete_def promote_def released_def
  atomic_ret_def get_evidence_def get_or_create_finalization_def lock_evidence_for_attachment_def
  new_finalization_def put_finalization_def result_of_def validated_or_none_def
  validate_evidence_object_def object_size_def copy_object_def delete_object_def staging_key_def
  finalization_of_def

definition sample_uploaded :: db where
  "sample_uploaded = snd (finalize_upload sample_env sample_photo 100 sample_upload)"

lemma sample_uploaded: "sample_uploaded = sample_upload\<lparr>
    finalizations := [\<lparr>f_evidence = 4, f_status = FinalizationDone, f_claim_token = None,
      f_size = Some 12, f_content_type = ''png'', f_quota_charged = False, f_updated_at = 1000\<rparr>],
    bucket_objects := [(''k'', \<lparr>o_size = 12, o_mime = ''png''\<rparr>)]\<rparr>"
  by (simp add: sample_uploaded_def promotion_defs sample_upload_defs row_get_Cons row_put_def Let_def)

lemma sample_finalize:
  "finalize_upload sample_env sample_photo 100 sample_upload = (Inr (Some (Some 12, ''png'')), sample_uploaded)"
  by (simp add: sample_uploaded_def promotion_defs sample_upload_defs row_get_Cons row_put_def Let_def)

text \<open>
  C14. Charging a photo to the storage quota never takes a makerspace above its limit, and
  charging the same photo again changes nothing, however often a workflow is retried.
\<close>

theorem storage_charged_once_within_quota:
  assumes "within_quota env s" and "charge_storage_once env ev claimed s = Inr t"
  shows "within_quota env t \<and> charge_storage_once env ev claimed t = Inr t"
  using yields_Inr [OF charge_storage_within_quota [OF assms(1)] assms(2)]
    charge_storage_once_idem [OF assms(2)] by blast

definition sample_charged :: db where
  "sample_charged = (case charge_storage_once sample_env sample_photo (Some 12) sample_uploaded of
     Inr t \<Rightarrow> t | Inl _ \<Rightarrow> sample_uploaded)"

lemmas charge_defs = charge_storage_once_def atomic_def atomic_ret_def add_storage_def
  get_makerspace_def storage_limit_def put_makerspace_def finalized_size_bytes_def
  finalization_of_def put_finalization_def audit_record_def

lemma sample_charge:
  "charge_storage_once sample_env sample_photo (Some 12) sample_uploaded = Inr sample_charged"
  by (simp add: sample_charged_def sample_uploaded charge_defs sample_upload_defs row_get_Cons
      row_put_def Let_def)

text \<open>
  The photo is charged to the quota, a stale worker tries to complete it with another size, the bucket
  is emptied, and another photo is claimed.
\<close>

definition sample_photo_run :: "evidence_op list" where
  "sample_photo_run = [ChargePhoto sample_env sample_photo (Some 12), CompletePromotion 4 (99, ''jpg''),
     WriteElsewhere (\<lambda>s. s\<lparr>now := 5000, evidence := sample_photo\<lparr>e_id := 5\<rparr> # evidence s, bucket_objects := []\<rparr>),
     ClaimPromotion sample_env 5, ReleasePromotion 4 7]"

lemma sample_photo_run:
  "fold (attempt evidence_step) sample_photo_run sample_uploaded = sample_charged\<lparr>now := 5000,
     evidence := [sample_photo\<lparr>e_id := 5\<rparr>, sample_photo], bucket_objects := [],
     finalizations := finalizations sample_charged @ [(new_finalization 5 5000)
       \<lparr>f_status := FinalizationPromoting, f_claim_token := Some 7\<rparr>]\<rparr>"
proof -
  have c: "complete 4 (99, ''jpg'') sample_charged = Inr ((Some 12, ''png''), sample_charged)"
    by (simp add: sample_charged_def sample_uploaded charge_defs sample_upload_defs promotion_defs row_get_Cons
        row_put_def Let_def)
  let ?u = "sample_charged\<lparr>now := 5000, evidence := [sample_photo\<lparr>e_id := 5\<rparr>, sample_photo], bucket_objects := []\<rparr>"
  have w: "evidence_step (WriteElsewhere (\<lambda>s. s\<lparr>now := 5000, evidence := sample_photo\<lparr>e_id := 5\<rparr> # evidence s,
      bucket_objects := []\<rparr>)) sample_charged = Inr ?u"
    by (simp add: sample_charged_def sample_uploaded charge_defs sample_upload_defs row_get_Cons row_put_def Let_def)
  let ?v = "?u\<lparr>finalizations := finalizations sample_charged @ [(new_finalization 5 5000)
       \<lparr>f_status := FinalizationPromoting, f_claim_token := Some 7\<rparr>]\<rparr>"
  have k: "claim sample_env 5 ?u = Inr ((Some 7, None), ?v)"
    by (simp add: sample_charged_def sample_uploaded charge_defs sample_upload_defs promotion_defs row_get_Cons
        row_put_def Let_def)
  have r: "release_claim 4 7 ?v = Inr ?v"
    by (simp add: release_claim_def sample_charged_def sample_uploaded charge_defs sample_upload_defs promotion_defs
        row_get_Cons row_put_def Let_def)
  show ?thesis by (simp add: sample_photo_run_def attempt_def sample_charge c w [simplified] k r)
qed

theorem evidence_promoted_once_witness:
  "\<exists>u. u = fold (attempt evidence_step) sample_photo_run sample_uploaded \<and> bucket_objects u = [] \<and>
     finalize_upload sample_env sample_photo 5 u =
       (Inr (Some (Some 12, ''png'')), delete_object sample_env (staging_key ''k'') u)"
proof -
  let ?u = "fold (attempt evidence_step) sample_photo_run sample_uploaded"
  have "row_get e_id 4 (evidence ?u) = Some sample_photo" "expiring ?u = []" "bucket_objects ?u = []"
    "e_id sample_photo = 4" "e_object_key sample_photo = ''k''"
    unfolding sample_photo_run
    by (simp_all add: sample_photo_def row_get_Cons sample_charged_def sample_uploaded charge_defs sample_upload_defs
        row_put_def Let_def)
  then show ?thesis
    using evidence_promoted_once [OF sample_finalize refl, of sample_photo_run sample_env 5] by simp
qed

theorem storage_charged_once_within_quota_witness:
  "map m_storage_used (makerspaces sample_charged) = [42] \<and> within_quota sample_env sample_charged \<and>
   charge_storage_once sample_env sample_photo (Some 12) sample_charged = Inr sample_charged"
proof -
  have "within_quota sample_env sample_uploaded"
    by (simp add: within_quota_def sample_uploaded sample_upload_defs storage_limit_def)
  moreover have "map m_storage_used (makerspaces sample_charged) = [42]"
    by (simp add: sample_charged_def sample_uploaded charge_defs sample_upload_defs row_get_Cons
        row_put_def Let_def)
  ultimately show ?thesis using storage_charged_once_within_quota [OF _ sample_charge] by blast
qed

text \<open>
  A charge leaves a proof of itself: a photo whose row became charged is later shown, from
  the audit log and the row alone, to have been debited exactly its finalized size on this
  database.
\<close>

lemma storage_charge_is_proven:
  assumes "charge_storage_once env ev claimed s = Inr t" and "database_uuid env \<noteq> None"
    and "finalization_of (e_id ev) s = Some f" and "\<not> f_quota_charged f"
    and "finalization_of (e_id ev) t = Some g" and "f_quota_charged g"
  shows "proven_charge_bytes env ev (Some g) t = finalized_size_bytes (Some g)"
  using yields_Inr [OF charge_leaves_proof [OF assms(3,4,2)] assms(1)] assms(5,6)
  by (simp add: charge_proven_def)

lemma storage_charge_is_proven_witness:
  "\<exists>g. finalization_of 4 sample_charged = Some g \<and> proven_charge_bytes sample_env sample_photo (Some g) sample_charged = 12"
proof -
  obtain g where g: "finalization_of 4 sample_charged = Some g" "f_quota_charged g"
    "finalized_size_bytes (Some g) = 12"
    by (simp add: sample_charged_def sample_uploaded charge_defs sample_upload_defs row_get_Cons
        row_put_def Let_def)
  moreover have "proven_charge_bytes sample_env sample_photo (Some g) sample_charged =
      finalized_size_bytes (Some g)"
    by (rule storage_charge_is_proven [OF sample_charge])
      (use g in \<open>auto simp: sample_uploaded sample_upload_defs finalization_of_def row_get_Cons\<close>)
  ultimately show ?thesis by auto
qed

end
