(* ===== verification/Text_Ops.thy ===== *)
theory Text_Ops
  imports Main "HOL-Library.Char_ord"
begin

text \<open>
  Python's string operations as far as the services use them. A string is a list of characters
  with code points up to 255: \<open>isspace\<close> and \<open>lower\<close> are those of that range.
\<close>

definition code_of :: "char \<Rightarrow> nat" where
  "code_of c = of_char c"

definition is_space :: "char \<Rightarrow> bool" where
  "is_space c \<longleftrightarrow> (let n = code_of c in
     (9 \<le> n \<and> n \<le> 13) \<or> (28 \<le> n \<and> n \<le> 32) \<or> n = 133 \<or> n = 160)"

definition strip :: "string \<Rightarrow> string" where
  "strip s = rev (dropWhile is_space (rev (dropWhile is_space s)))"

definition is_digit :: "char \<Rightarrow> bool" where
  "is_digit c \<longleftrightarrow> 48 \<le> code_of c \<and> code_of c \<le> 57"

definition is_upper :: "char \<Rightarrow> bool" where
  "is_upper c \<longleftrightarrow> 65 \<le> code_of c \<and> code_of c \<le> 90"

definition is_lower :: "char \<Rightarrow> bool" where
  "is_lower c \<longleftrightarrow> 97 \<le> code_of c \<and> code_of c \<le> 122"

text \<open>The upper case letters beyond ASCII are \<open>192 .. 222\<close> without the multiplication sign.\<close>

definition lower_char :: "char \<Rightarrow> char" where
  "lower_char c = (if is_upper c \<or> 192 \<le> code_of c \<and> code_of c \<le> 222 \<and> code_of c \<noteq> 215
     then char_of (code_of c + 32) else c)"

definition lowercase :: "string \<Rightarrow> string" where
  "lowercase s = map lower_char s"

definition digit_value :: "char \<Rightarrow> int" where
  "digit_value c = int (code_of c) - 48"

definition digits_value :: "string \<Rightarrow> int" where
  "digits_value ds = foldl (\<lambda>n c. 10 * n + digit_value c) 0 ds"

text \<open>\<open>str(n)\<close> of a natural number.\<close>

fun digits_of :: "nat \<Rightarrow> string" where
  "digits_of n = (if n < 10 then [char_of (48 + n)] else digits_of (n div 10) @ [char_of (48 + n mod 10)])"

declare digits_of.simps [simp del]

section \<open>Stripping\<close>

lemma dropWhile_idem: "dropWhile P (dropWhile P xs) = dropWhile P xs"
  by (induction xs) auto

lemma dropWhile_rev_keeps:
  assumes "dropWhile P xs = xs"
  shows "dropWhile P (rev (dropWhile P (rev xs))) = rev (dropWhile P (rev xs))"
proof -
  have "rev (dropWhile P (rev xs)) = take (length (dropWhile P (rev xs))) xs"
    by (metis dropWhile_eq_drop length_drop length_rev rev_drop rev_rev_ident)
  then obtain n where r: "rev (dropWhile P (rev xs)) = take n xs" by blast
  show ?thesis
  proof (cases xs)
    case (Cons x ys)
    have "\<not> P x"
    proof
      assume "P x"
      with assms Cons have "length (dropWhile P ys) = length (x # ys)" by simp
      with length_dropWhile_le [of P ys] show False by simp
    qed
    then show ?thesis unfolding r by (cases n) (simp_all add: Cons)
  qed simp
qed

lemma strip_strip [simp]: "strip (strip s) = strip s"
  by (simp add: strip_def dropWhile_rev_keeps dropWhile_idem)

lemma lower_char_idem: "lower_char (lower_char c) = lower_char c"
proof -
  have "code_of (char_of n) = n mod 256" for n by (simp add: code_of_def)
  then show ?thesis by (auto simp: lower_char_def is_upper_def)
qed

lemma lowercase_idem [simp]: "lowercase (lowercase s) = lowercase s"
  by (simp add: lowercase_def lower_char_idem)

end
