(* ===== verification/Request_Workflow.thy ===== *)
theory Request_Workflow
  imports Stock_Effects Evidence Text_Ops
begin

text \<open>
  The request workflow up to the handover: submitting a request, accepting or rejecting it
  (\<open>hardware_requests/request_workflow.py\<close>) and cancelling an accepted one
  (\<open>cancellation_workflow.py\<close>, with \<open>clear_unissued_assignment\<close> of \<open>handover_workflow.py\<close>).
  Each service is one transaction; a request is named by its primary key, since every service
  re-reads the row under its lock.
\<close>

section \<open>Reading and saving requests\<close>

definition request_of :: "nat \<Rightarrow> db \<Rightarrow> hardware_request option" where
  "request_of rid s = row_get r_id rid (requests s)"

definition locked_request :: "nat \<Rightarrow> db \<Rightarrow> exn + hardware_request" where
  "locked_request rid s = of_option DoesNotExist (request_of rid s)"

definition request_target :: "nat \<Rightarrow> string \<times> nat" where
  "request_target rid = (''hardware_requests.hardwarerequest'', rid)"

text \<open>The unique constraint a row would break, if any.\<close>

definition on_loan :: "hardware_request \<Rightarrow> bool" where
  "on_loan r \<longleftrightarrow> r_status r = Issued \<or> r_status r = PartiallyReturned"

definition request_conflict :: "hardware_request \<Rightarrow> db \<Rightarrow> string option" where
  "request_conflict r s =
     (let others = filter (\<lambda>o'. r_id o' \<noteq> r_id r) (requests s)
      in if r_issue_evidence r \<noteq> None \<and>
            list_ex (\<lambda>o'. r_issue_evidence o' = r_issue_evidence r) others
         then Some ''hardware_requests_hardwarerequest_issue_evidence_id_key''
         else if r_assigned_box r \<noteq> None \<and> on_loan r \<and>
            list_ex (\<lambda>o'. on_loan o' \<and> r_assigned_box o' = r_assigned_box r) others
         then Some ''uniq_active_loan_per_box''
         else if r_idempotency_key r \<noteq> [] \<and>
            list_ex (\<lambda>o'. r_makerspace o' = r_makerspace r \<and>
                         r_idempotency_key o' = r_idempotency_key r) others
         then Some ''uniq_hwreq_anon_idempotency''
         else None)"

definition save_request :: "hardware_request \<Rightarrow> db \<Rightarrow> exn + db" where
  "save_request r s =
     (if request_conflict r s \<noteq> None then Inl IntegrityError else Inr (put_request r s))"

definition create_request :: "hardware_request \<Rightarrow> db \<Rightarrow> exn + db" where
  "create_request r s =
     (if request_conflict r s \<noteq> None then Inl IntegrityError
      else Inr (s\<lparr>requests := requests s @ [r]\<rparr>))"

section \<open>Submitting\<close>

definition anonymous_idempotency_replay ::
  "nat \<Rightarrow> string \<Rightarrow> string \<Rightarrow> db \<Rightarrow> exn + hardware_request option" where
  "anonymous_idempotency_replay ms key_fingerprint payload_fingerprint s =
     (if key_fingerprint = [] then Inl RequestValidationError
      else case find (\<lambda>r. r_makerspace r = ms \<and> r_idempotency_key r = key_fingerprint) (requests s) of
        None \<Rightarrow> Inr None
      | Some existing \<Rightarrow>
          if r_payload_fingerprint existing \<noteq> payload_fingerprint
          then Inl AnonymousRequestIdempotencyConflict else Inr (Some existing))"

definition anonymous_pending :: "nat \<Rightarrow> db \<Rightarrow> hardware_request list" where
  "anonymous_pending ms s =
     filter (\<lambda>r. r_makerspace r = ms \<and> r_status r = PendingApproval \<and> r_idempotency_key r \<noteq> [])
       (requests s)"

definition enforce_anonymous_outstanding_limit :: "env \<Rightarrow> nat \<Rightarrow> db \<Rightarrow> exn + unit" where
  "enforce_anonymous_outstanding_limit env ms s =
     (if anonymous_limit env \<le> int (length (anonymous_pending ms s))
      then Inl AnonymousRequestOutstandingLimit else Inr ())"

definition new_item :: "nat \<Rightarrow> nat \<Rightarrow> nat \<times> int \<Rightarrow> request_item" where
  "new_item iid rid pq = \<lparr>i_id = iid, i_request = rid, i_product = fst pq, i_requested = snd pq,
     i_accepted = 0, i_issued = 0, i_returned = 0, i_damaged = 0, i_missing = 0, i_needs_fix = 0\<rparr>"

definition create_item :: "nat \<Rightarrow> nat \<times> int \<Rightarrow> db \<Rightarrow> exn + db" where
  "create_item rid pq s =
     (let i = new_item (fresh_key i_id (items s)) rid pq
      in try_then (check_item i) (\<lambda>_. Inr (s\<lparr>items := items s @ [i]\<rparr>)))"

definition new_request ::
  "nat \<Rightarrow> nat \<Rightarrow> nat \<Rightarrow> requester_snapshot \<Rightarrow> int option \<Rightarrow> string \<Rightarrow> string \<Rightarrow> string \<Rightarrow> hardware_request" where
  "new_request rid ms requester contact verified_at key payload requested_for =
     \<lparr>r_id = rid, r_makerspace = ms, r_requester = requester, r_contact = contact,
      r_checkin_verified_at = verified_at, r_idempotency_key = key, r_payload_fingerprint = payload,
      r_status = PendingApproval, r_requested_for = requested_for, r_rejection_reason = [],
      r_cancellation_reason = [], r_accepted_by = None, r_accepted_at = None,
      r_assigned_box = None, r_issued_by = None, r_issued_at = None, r_return_due_at = None,
      r_reminder_sent_at = None, r_issue_evidence = None, r_issue_remark = [],
      r_closed_by = None, r_closed_at = None\<rparr>"

definition submit_new_request ::
  "nat \<Rightarrow> (nat \<times> int) list \<Rightarrow> string \<Rightarrow> nat \<Rightarrow> requester_snapshot \<Rightarrow> nat option \<Rightarrow> string \<Rightarrow> string \<Rightarrow>
   db \<Rightarrow> exn + (hardware_request \<times> db)" where
  "submit_new_request ms its requested_for requester contact audit_actor key payload s =
     (let rid = fresh_key r_id (requests s);
          r = new_request rid ms requester contact
                (if s_checkin_identity contact \<noteq> None then Some (now s) else None)
                key payload requested_for
      in try_then (create_request r s) (\<lambda>s.
         try_then (for_each (create_item rid) its s) (\<lambda>s.
         Inr (r, notify ''request_submitted'' rid
           (audit_record audit_actor ''request.submitted'' ms (request_target rid)
              (if s_checkin_identity contact \<noteq> None
               then [(''request_access'', MStr ''checked_in'')] else []) s)))))"

definition submit_request ::
  "env \<Rightarrow> nat \<Rightarrow> (nat \<times> int) list \<Rightarrow> string \<Rightarrow> nat \<Rightarrow> requester_snapshot \<Rightarrow> nat option \<Rightarrow> string \<Rightarrow> string \<Rightarrow>
   db \<Rightarrow> exn + (hardware_request \<times> db)" where
  "submit_request env ms its requested_for requester contact audit_actor key payload =
     atomic_ret (\<lambda>s.
       if write_fenced env ms then Inl PiiWriteFenced
       else if \<not> s_contact_verified contact
       then try_then (get_makerspace ms s) (\<lambda>_.
            try_then (anonymous_idempotency_replay ms key payload s) (\<lambda>existing.
              case existing of
                Some r \<Rightarrow> Inr (r, s)
              | None \<Rightarrow> try_then (enforce_anonymous_outstanding_limit env ms s) (\<lambda>_.
                  submit_new_request ms its requested_for requester contact audit_actor key payload s)))
       else submit_new_request ms its requested_for requester contact audit_actor key payload s)"

section \<open>Accepting and rejecting\<close>

text \<open>\<open>None\<close> accepts everything; a map is authoritative, an item it leaves out is declined.\<close>

definition accepted_qty :: "(nat \<times> int) list option \<Rightarrow> request_item \<Rightarrow> int" where
  "accepted_qty accepted i =
     (case accepted of
        None \<Rightarrow> i_requested i
      | Some m \<Rightarrow> (case map_of m (i_id i) of None \<Rightarrow> 0 | Some q \<Rightarrow> q))"

definition accept_item :: "(nat \<times> int) list option \<Rightarrow> request_item \<Rightarrow> db \<Rightarrow> exn + db" where
  "accept_item accepted i s =
     (let qty = accepted_qty accepted i
      in if qty < 0 \<or> i_requested i < qty then Inl RequestValidationError
         else save_item (i\<lparr>i_accepted := qty\<rparr>) s)"

definition accept_request ::
  "nat \<Rightarrow> nat \<Rightarrow> (nat \<times> int) list option \<Rightarrow> db \<Rightarrow> exn + db" where
  "accept_request actor rid accepted = atomic (\<lambda>s.
     try_then (locked_request rid s) (\<lambda>locked.
       if r_status locked \<noteq> PendingApproval then Inl InvalidTransition
       else let its = items_by_product rid s
            in if accepted \<noteq> None \<and>
                  \<not> list_all (\<lambda>(iid, _). iid \<in> set (map i_id its)) (the accepted)
               then Inl RequestValidationError
               else try_then (for_each (accept_item accepted) its s) (\<lambda>s.
                 if sum_list (map (accepted_qty accepted) its) = 0 then Inl RequestValidationError
                 else try_then (reserve_for_request rid s) (\<lambda>s.
                      try_then (save_request (locked\<lparr>r_status := Accepted,
                        r_accepted_by := Some actor, r_accepted_at := Some (now s)\<rparr>) s) (\<lambda>s.
                      Inr (notify ''request_accepted'' rid
                        (audit_record (Some actor) ''request.accepted'' (r_makerspace locked)
                           (request_target rid)
                           [(''accepted'', MInts (map (\<lambda>i. (i_id i, accepted_qty accepted i)) its))]
                           s)))))))"

definition reject_request :: "nat \<Rightarrow> nat \<Rightarrow> string \<Rightarrow> db \<Rightarrow> exn + db" where
  "reject_request actor rid reason s =
     (let reason = strip reason
      in if reason = [] then Inl RequestValidationError
         else atomic (\<lambda>s. try_then (locked_request rid s) (\<lambda>locked.
           if r_status locked \<noteq> PendingApproval then Inl InvalidTransition
           else try_then (save_request (locked\<lparr>r_status := Rejected,
                  r_rejection_reason := reason\<rparr>) s) (\<lambda>s.
                Inr (notify ''request_rejected'' rid
                  (audit_record (Some actor) ''request.rejected'' (r_makerspace locked)
                     (request_target rid) [(''reason'', MStr reason)] s))))) s)"

section \<open>Cancelling\<close>

definition box_of :: "nat \<Rightarrow> db \<Rightarrow> box option" where
  "box_of bid s = row_get b_id bid (boxes s)"

definition clear_unissued_assignment ::
  "hardware_request \<Rightarrow> db \<Rightarrow> exn + (nat option \<times> hardware_request \<times> db)" where
  "clear_unissued_assignment r s =
     (if \<not> in_atomic s then Inl RuntimeError
      else if r_status r \<noteq> Accepted \<or> r_issued_at r \<noteq> None \<or> r_issued_by r \<noteq> None \<or>
              r_issue_evidence r \<noteq> None then Inl InvalidTransition
      else case r_assigned_box r of
        None \<Rightarrow> Inr (None, r, s)
      | Some bid \<Rightarrow>
          try_then (of_option DoesNotExist (box_of bid s)) (\<lambda>b.
            if b_makerspace b \<noteq> r_makerspace r then Inl InvalidTransition
            else let r' = r\<lparr>r_assigned_box := None\<rparr>
                 in try_then (save_request r' s) (\<lambda>s. Inr (Some bid, r', s))))"

definition assert_wholly_unissued :: "hardware_request \<Rightarrow> db \<Rightarrow> exn + unit" where
  "assert_wholly_unissued r s =
     (let its = request_items (r_id r) s; iids = map i_id its
      in if r_issued_at r \<noteq> None \<or> r_issued_by r \<noteq> None \<or> r_issue_evidence r \<noteq> None
         then Inl InvalidTransition
         else if list_ex (\<lambda>i. i_issued i \<noteq> 0 \<or> i_returned i \<noteq> 0 \<or> i_damaged i \<noteq> 0 \<or>
                            i_missing i \<noteq> 0 \<or> i_needs_fix i \<noteq> 0) its
         then Inl InvalidTransition
         else if list_ex (\<lambda>v. v_request v = r_id r) (return_events s) \<or>
                 list_ex (\<lambda>c. c_request c = r_id r \<or> c_item c \<in> set iids) (accountabilities s) \<or>
                 list_ex (\<lambda>l. l_item l \<in> set iids) (links s) \<or>
                 list_ex (\<lambda>t. t_request t = r_id r) (loans s)
         then Inl InvalidTransition
         else Inr ())"

definition may_cancel :: "env \<Rightarrow> nat \<Rightarrow> nat \<Rightarrow> db \<Rightarrow> bool" where
  "may_cancel env actor ms s \<longleftrightarrow>
     (case row_get w_id actor (users s) of
        None \<Rightarrow> False
      | Some u \<Rightarrow> w_is_active u \<and> w_access_active u \<and> \<not> w_must_change_password u \<and>
                  \<not> w_is_dump_stub u \<and> actor_can env actor ''reject_request'' ms)"

text \<open>
  \<open>actor\<close> is \<open>None\<close> for an unauthenticated caller; \<open>seen_makerspace\<close> is the makerspace of the
  caller's copy of the request, fenced before the row is read again. A reason that is no string
  is \<open>None\<close>.
\<close>

definition cancel_request ::
  "env \<Rightarrow> nat option \<Rightarrow> nat \<Rightarrow> nat \<Rightarrow> string option \<Rightarrow> db \<Rightarrow> exn + db" where
  "cancel_request env actor rid seen_makerspace reason = atomic (\<lambda>s.
     if write_fenced env seen_makerspace then Inl PiiWriteFenced
     else try_then (locked_request rid s) (\<lambda>locked.
       if r_makerspace locked \<noteq> seen_makerspace then Inl InvalidTransition
       else try_then (of_option PermissionDenied actor) (\<lambda>actor.
         if \<not> may_cancel env actor (r_makerspace locked) s then Inl PermissionDenied
         else if \<not> module_enabled env (r_makerspace locked) ''request_workflow''
         then Inl ValidationError
         else if r_status locked \<noteq> Accepted then Inl InvalidTransition
         else try_then (of_option RequestValidationError reason) (\<lambda>reason.
           if strip reason = [] \<or> 500 < length (strip reason) then Inl RequestValidationError
           else try_then (assert_wholly_unissued locked s) (\<lambda>_.
                try_then (clear_unissued_assignment locked s) (\<lambda>(previous_box, locked, s).
                try_then (release_request_reservation locked s) (\<lambda>s.
                try_then (save_request (locked\<lparr>r_status := Cancelled,
                  r_cancellation_reason := strip reason, r_closed_by := Some actor,
                  r_closed_at := Some (now s)\<rparr>) s) (\<lambda>s.
                Inr (notify ''request_cancelled'' rid
                  (audit_record (Some actor) ''request.cancelled'' (r_makerspace locked)
                     (request_target rid)
                     ((''reason_recorded'', MBool True) #
                      (case previous_box of None \<Rightarrow> []
                       | Some b \<Rightarrow> [(''previous_box_id'', MInt (int b))])) s))))))))))"

end
