(* ===== verification/Handover.thy ===== *)
theory Handover
  imports Request_Workflow
begin

text \<open>
  The handover of an accepted request: assigning a container, handing the units out with a photo
  as evidence, and moving the return date (\<open>hardware_requests/handover_workflow.py\<close>,
  \<open>handover_issue_helpers.py\<close>). Issuing first promotes the photo, outside any transaction, and
  then runs as one transaction; a failure of the latter leaves the promotion done.
\<close>

section \<open>Containers\<close>

definition active_public_container_loan_exists :: "box \<Rightarrow> db \<Rightarrow> bool" where
  "active_public_container_loan_exists b s \<longleftrightarrow>
     list_ex (\<lambda>t. t_makerspace t = b_makerspace b \<and> t_container t = Some (b_id b) \<and> t_checked_out t)
       (loans s)"

text \<open>The scan table is append-only: the row's key is its position.\<close>

definition create_box_scan :: "box_scan \<Rightarrow> db \<Rightarrow> nat \<times> db" where
  "create_box_scan x s = (Suc (length (box_scans s)), s\<lparr>box_scans := box_scans s @ [x]\<rparr>)"

definition create_qr_scan :: "qr_scan \<Rightarrow> db \<Rightarrow> db" where
  "create_qr_scan x s = s\<lparr>qr_scans := qr_scans s @ [x]\<rparr>"

definition assign_box :: "nat \<Rightarrow> nat \<Rightarrow> string \<Rightarrow> db \<Rightarrow> exn + db" where
  "assign_box actor rid box_code = atomic (\<lambda>s.
     try_then (locked_request rid s) (\<lambda>locked.
       if r_status locked \<noteq> Accepted then Inl InvalidTransition
       else try_then (of_option BoxValidationError
              (find (\<lambda>b. b_makerspace b = r_makerspace locked \<and> b_code b = box_code \<and> b_is_active b)
                 (boxes s))) (\<lambda>b.
         if list_ex (\<lambda>o'. r_assigned_box o' = Some (b_id b) \<and> on_loan o' \<and> r_id o' \<noteq> rid) (requests s) \<or>
            active_public_container_loan_exists b s
         then Inl BoxUnavailable
         else try_then (save_request (locked\<lparr>r_assigned_box := Some (b_id b)\<rparr>) s) (\<lambda>s.
           let (scan, s) = create_box_scan \<lparr>bs_makerspace = r_makerspace locked, bs_box = b_id b,
                 bs_request = rid, bs_actor = actor, bs_context = ScanIssue\<rparr> s
           in Inr (audit_record (Some actor) ''box.scanned'' (r_makerspace locked)
                (''boxes.boxscan'', scan)
                [(''box_id'', MInt (int (b_id b))), (''request_id'', MInt (int rid))]
                (audit_record (Some actor) ''box.assigned'' (r_makerspace locked)
                   (request_target rid) [(''box_id'', MInt (int (b_id b)))] s))))))"

section \<open>Units rejected as broken\<close>

record reject_entry =
  y_item :: nat
  y_broken :: int
  y_disposition :: disposition

text \<open>The dict built from the entries: the last entry of an item wins.\<close>

definition rejects_by_item :: "reject_entry list \<Rightarrow> rejects" where
  "rejects_by_item entries =
     fold (\<lambda>y. AList.update (y_item y) (max 0 (y_broken y), y_disposition y))
       (filter (\<lambda>y. 0 < y_broken y) entries) []"

definition validate_reject :: "nat \<Rightarrow> db \<Rightarrow> nat \<times> (int \<times> disposition) \<Rightarrow> exn + unit" where
  "validate_reject rid s entry =
     try_then (of_option RequestValidationError
         (find (\<lambda>i. i_id i = fst entry) (request_items rid s))) (\<lambda>i.
       if i_accepted i < fst (snd entry) then Inl RequestValidationError
       else try_then (get_product (i_product i) s) (\<lambda>p.
         if p_tracking_mode p = INDIVIDUAL then Inl RequestValidationError else Inr ()))"

definition validate_broken_rejects :: "nat \<Rightarrow> rejects \<Rightarrow> db \<Rightarrow> exn + unit" where
  "validate_broken_rejects rid rs s =
     try_then (collect (validate_reject rid s) rs) (\<lambda>_.
       if sum_list (map (\<lambda>i. i_accepted i - fst (reject_of rs (i_id i))) (request_items rid s)) \<le> 0
       then Inl RequestValidationError else Inr ())"

section \<open>Handing out unit assets\<close>

definition is_individual :: "db \<Rightarrow> nat \<Rightarrow> bool" where
  "is_individual s pid \<longleftrightarrow> (\<exists>p \<in> set_option (product_of pid s). p_tracking_mode p = INDIVIDUAL)"

text \<open>The scanned QR codes, in scan order.\<close>

fun scanned_qrs :: "nat \<Rightarrow> db \<Rightarrow> nat list \<Rightarrow> string list \<Rightarrow> exn + qr_code list" where
  "scanned_qrs ms s seen [] = Inr []"
| "scanned_qrs ms s seen (payload # rest) =
     (case find (\<lambda>q. q_makerspace q = ms \<and> q_payload q = payload \<and> q_active q \<and>
                     q_target_type q = TargetAsset) (qr_codes s) of
        None \<Rightarrow> Inl RequestValidationError
      | Some q \<Rightarrow>
          if q_id q \<in> set seen then Inl InvalidTransition
          else try_then (scanned_qrs ms s (q_id q # seen) rest) (\<lambda>qs. Inr (q # qs)))"

definition scanned_asset :: "nat \<Rightarrow> db \<Rightarrow> qr_code \<Rightarrow> exn + asset" where
  "scanned_asset ms s q =
     of_option RequestValidationError
       (find (\<lambda>a. a_id a = q_target_id q \<and> a_makerspace a = ms \<and> a_status a = AVAILABLE) (assets s))"

definition create_link :: "nat \<Rightarrow> nat \<Rightarrow> db \<Rightarrow> exn + db" where
  "create_link iid aid s =
     (if list_ex (\<lambda>l. l_item l = iid \<and> l_asset l = aid) (links s) then Inl IntegrityError
      else Inr (s\<lparr>links := links s @ [\<lparr>l_id = fresh_key l_id (links s), l_item = iid, l_asset = aid,
             l_outcome = LinkIssued, l_returned_at = None, l_return_event = None\<rparr>]\<rparr>))"

definition asset_target :: "nat \<Rightarrow> string \<times> nat" where
  "asset_target aid = (''inventory.inventoryasset'', aid)"

definition issue_asset ::
  "nat \<Rightarrow> hardware_request \<Rightarrow> (nat \<Rightarrow> nat) \<Rightarrow> request_item \<Rightarrow> asset \<Rightarrow> db \<Rightarrow> exn + db" where
  "issue_asset actor locked qr_for i a s =
     try_then (create_link (i_id i) (a_id a) (put_asset (a\<lparr>a_status := ISSUED\<rparr>) s)) (\<lambda>s.
       Inr (audit_record (Some actor) ''asset.issued'' (r_makerspace locked) (asset_target (a_id a))
         [(''request_id'', MInt (int (r_id locked))), (''request_item_id'', MInt (int (i_id i))),
          (''qr_id'', MInt (int (qr_for (a_id a))))]
         (create_qr_scan \<lparr>qs_makerspace = r_makerspace locked, qs_qr = qr_for (a_id a),
            qs_request = r_id locked, qs_actor = actor, qs_context = ScanIssue\<rparr> s)))"

text \<open>
  One item takes the first units of its product that are still unassigned, in scan order, and
  hands them out in key order.
\<close>

definition issue_item_assets ::
  "nat \<Rightarrow> hardware_request \<Rightarrow> (nat \<Rightarrow> nat) \<Rightarrow> request_item \<Rightarrow> asset list \<times> db \<Rightarrow> exn + (asset list \<times> db)" where
  "issue_item_assets actor locked qr_for i st =
     (let mine = filter (\<lambda>a. a_product a = i_product i) (fst st);
          others = filter (\<lambda>a. a_product a \<noteq> i_product i) (fst st);
          n = nat (i_accepted i)
      in if length mine < n then Inl RequestValidationError
         else try_then (for_each (issue_asset actor locked qr_for i)
                 (sort_key a_id (take n mine)) (snd st))
                (\<lambda>s. Inr (others @ drop n mine, s)))"

definition issue_individual_assets ::
  "nat \<Rightarrow> hardware_request \<Rightarrow> string list \<Rightarrow> db \<Rightarrow> exn + db" where
  "issue_individual_assets actor locked payloads s =
     (let individual = filter (\<lambda>i. is_individual s (i_product i) \<and> 0 < i_accepted i)
                         (items_by_product (r_id locked) s);
          expected = sum_list (map i_accepted individual)
      in if expected = 0 then Inr s
         else if int (length payloads) \<noteq> expected then Inl RequestValidationError
         else try_then (scanned_qrs (r_makerspace locked) s [] payloads) (\<lambda>qs.
              try_then (collect (scanned_asset (r_makerspace locked) s) qs) (\<lambda>scanned.
              let qr_for = (\<lambda>aid. the (map_of (rev (zip (map a_id scanned) (map q_id qs))) aid))
              in try_then (for_each (issue_item_assets actor locked qr_for) individual (scanned, s))
                   (\<lambda>(rest, s). if rest \<noteq> [] then Inl RequestValidationError else Inr s))))"

section \<open>Issuing\<close>

fun occurs_in :: "string \<Rightarrow> string \<Rightarrow> bool" where
  "occurs_in needle [] = (needle = [])"
| "occurs_in needle (c # cs) = (prefix needle (c # cs) \<or> occurs_in needle cs)"

definition raise_issue_conflict :: "string \<Rightarrow> exn" where
  "raise_issue_conflict constraint =
     (if constraint = ''uniq_active_loan_per_box'' then BoxUnavailable
      else if occurs_in ''issue_evidence'' constraint then RequestValidationError
      else InvalidTransition)"

definition save_issued :: "hardware_request \<Rightarrow> db \<Rightarrow> exn + db" where
  "save_issued r s =
     (case request_conflict r s of
        Some constraint \<Rightarrow> Inl (raise_issue_conflict constraint)
      | None \<Rightarrow> Inr (put_request r s))"

definition check_assigned_box :: "hardware_request \<Rightarrow> db \<Rightarrow> exn + unit" where
  "check_assigned_box r s =
     (case r_assigned_box r of
        None \<Rightarrow> Inr ()
      | Some bid \<Rightarrow>
          if \<not> list_ex (\<lambda>x. bs_request x = r_id r \<and> bs_box x = bid \<and> bs_context x = ScanIssue)
                (box_scans s)
          then Inl RequestValidationError
          else try_then (of_option DoesNotExist (box_of bid s)) (\<lambda>b.
            if active_public_container_loan_exists b s then Inl BoxUnavailable else Inr ()))"

definition seconds_per_day :: int where "seconds_per_day = 86400"

definition default_days :: "makerspace \<Rightarrow> int" where
  "default_days m = (if m_default_loan_days m = 0 then 7 else m_default_loan_days m)"

text \<open>The transaction of \<open>issue_request\<close>, after the photo has been promoted.\<close>

definition issue_locked ::
  "env \<Rightarrow> nat \<Rightarrow> nat \<Rightarrow> evidence_photo \<Rightarrow> int option \<Rightarrow> string \<Rightarrow> string list \<Rightarrow> rejects \<Rightarrow> db \<Rightarrow> exn + db" where
  "issue_locked env actor rid ev finalized_size remark payloads rs = atomic (\<lambda>s.
     try_then (locked_request rid s) (\<lambda>locked.
       if r_status locked \<noteq> Accepted then Inl InvalidTransition
       else try_then (lock_evidence_for_attachment (e_id ev) False s) (\<lambda>attachable.
         if \<not> attachable then Inl RequestValidationError
         else try_then (get_makerspace (r_makerspace locked) s) (\<lambda>m.
              try_then (charge_storage_once env ev finalized_size s) (\<lambda>s.
              try_then (check_assigned_box locked s) (\<lambda>_.
              try_then (if rs \<noteq> [] then validate_broken_rejects rid rs s else Inr ()) (\<lambda>_.
              try_then (issue_individual_assets actor locked payloads s) (\<lambda>s.
              try_then (issue_items rid rs s) (\<lambda>s.
              try_then (save_issued (locked\<lparr>r_issue_evidence := Some (e_id ev),
                  r_issue_remark := remark, r_issued_by := Some actor, r_issued_at := Some (now s),
                  r_return_due_at := (case r_return_due_at locked of
                      None \<Rightarrow> Some (now s + default_days m * seconds_per_day)
                    | Some d \<Rightarrow> Some d),
                  r_status := Issued\<rparr>) s) (\<lambda>s.
              Inr (notify ''request_issued'' rid
                (audit_record (Some actor) ''request.issued'' (r_makerspace locked)
                   (request_target rid)
                   [(''box_id'', case r_assigned_box locked of None \<Rightarrow> MNone | Some b \<Rightarrow> MInt (int b)),
                    (''evidence_id'', MInt (int (e_id ev)))]
                   (audit_record (Some actor) ''evidence.attached'' (r_makerspace locked)
                      (evidence_target (e_id ev)) [(''request_id'', MInt (int rid))] s)))))))))))))"

text \<open>How a failed promotion is reported: by the issuing workflow and by the returning one.\<close>

definition promotion_error :: "exn \<Rightarrow> exn \<Rightarrow> exn" where
  "promotion_error invalid e =
     (case e of
        EvidenceObjectValidationError code \<Rightarrow> if code = ''missing'' then EvidenceNotUploaded else invalid
      | _ \<Rightarrow> e)"

text \<open>\<open>seen\<close> is the caller's copy of the request.\<close>

definition issue_request ::
  "env \<Rightarrow> nat \<Rightarrow> hardware_request \<Rightarrow> nat \<Rightarrow> string \<Rightarrow> string list \<Rightarrow> reject_entry list \<Rightarrow> db \<Rightarrow> (exn + unit) \<times> db" where
  "issue_request env actor seen evidence_id remark payloads rejects s =
     (case find (\<lambda>e. e_id e = evidence_id \<and> e_makerspace e = r_makerspace seen \<and>
                     e_type e = EvidenceIssue) (evidence s) of
        None \<Rightarrow> (Inl RequestValidationError, s)
      | Some ev \<Rightarrow>
          if r_status seen \<noteq> Accepted then (Inl InvalidTransition, s)
          else case storage_finalize_upload env ev (evidence_max_bytes env) s of
            (Inl e, s) \<Rightarrow> (Inl (promotion_error RequestValidationError e), s)
          | (Inr None, s) \<Rightarrow> (Inl EvidenceNotUploaded, s)
          | (Inr (Some finalized), s) \<Rightarrow>
              (case issue_locked env actor (r_id seen) ev (fst finalized) remark payloads
                      (rejects_by_item rejects) s of
                 Inl e \<Rightarrow> (Inl e, s)
               | Inr t \<Rightarrow> (Inr (), t)))"

section \<open>The return date\<close>

definition set_return_due :: "nat \<Rightarrow> nat \<Rightarrow> int option \<Rightarrow> db \<Rightarrow> exn + db" where
  "set_return_due actor rid due = atomic (\<lambda>s.
     try_then (locked_request rid s) (\<lambda>locked.
       if r_status locked \<notin> {Accepted, Issued, PartiallyReturned} then Inl InvalidTransition
       else try_then (save_request (locked\<lparr>r_return_due_at := due, r_reminder_sent_at := None\<rparr>) s) (\<lambda>s.
         Inr (audit_record (Some actor) ''request.return_due_updated'' (r_makerspace locked)
           (request_target rid)
           [(''return_due_at'', case due of None \<Rightarrow> MNone | Some d \<Rightarrow> MInt d)] s))))"

end
