(* ===== verification/Returns.thy ===== *)
theory Returns
  imports Handover
begin

text \<open>
  The return of an issued request (\<open>hardware_requests/return_workflow.py\<close>,
  \<open>return_helpers.py\<close>) and the request bodies its view accepts (\<open>serializers_admin.py\<close>):
  checking the resolutions against what is still out, moving the stock, flipping the unit rows,
  writing accountability for damage and loss, and closing the request when everything is
  resolved.
\<close>

section \<open>The request bodies\<close>

definition accept_body_valid :: "(nat \<times> int) list option \<Rightarrow> bool" where
  "accept_body_valid accepted \<longleftrightarrow>
     (case accepted of None \<Rightarrow> True
      | Some m \<Rightarrow> list_all (\<lambda>e. 0 \<le> snd e) m \<and> distinct (map fst m))"

definition resolution_nonempty :: "resolution \<Rightarrow> bool" where
  "resolution_nonempty x \<longleftrightarrow>
     x_returned x + x_damaged x + x_missing x + int (length (x_assets x)) \<noteq> 0"

definition return_body_valid :: "resolution list \<Rightarrow> bool" where
  "return_body_valid xs \<longleftrightarrow> xs \<noteq> [] \<and> list_all resolution_nonneg xs \<and> distinct (map x_item xs) \<and>
     list_all resolution_nonempty xs \<and> distinct (concat (map (\<lambda>x. map fst (x_assets x)) xs))"

section \<open>Checking the resolutions\<close>

definition remaining_quantity :: "request_item \<Rightarrow> int" where
  "remaining_quantity i = i_issued i - (i_returned i + i_damaged i + i_missing i)"

definition outcome_count :: "asset_outcome \<Rightarrow> (nat \<times> asset_outcome) list \<Rightarrow> int" where
  "outcome_count oc outcomes = int (length (filter (\<lambda>e. snd e = oc) outcomes))"

definition individual_counts ::
  "request_item \<Rightarrow> int \<Rightarrow> int \<Rightarrow> int \<Rightarrow> (nat \<times> asset_outcome) list \<Rightarrow> exn + (int \<times> int \<times> int)" where
  "individual_counts i returned damaged missing outcomes =
     (if outcomes \<noteq> []
      then let exact = (outcome_count OutcomeIsReturned outcomes,
                        outcome_count OutcomeIsDamaged outcomes,
                        outcome_count OutcomeIsMissing outcomes);
               provided = (returned, damaged, missing)
           in if provided \<noteq> (0, 0, 0) \<and> provided \<noteq> exact then Inl ReturnValidationError
              else Inr exact
      else if damaged \<noteq> 0 \<or> missing \<noteq> 0 \<or> returned \<noteq> remaining_quantity i
      then Inl ReturnValidationError
      else Inr (returned, damaged, missing))"

definition build_resolution :: "nat \<Rightarrow> db \<Rightarrow> resolution \<Rightarrow> exn + resolution" where
  "build_resolution rid s x =
     try_then (of_option ReturnValidationError
         (find (\<lambda>i. i_id i = x_item x) (request_items rid s))) (\<lambda>i.
       if x_returned x < 0 \<or> x_damaged x < 0 \<or> x_missing x < 0 then Inl ReturnValidationError
       else try_then (get_product (i_product i) s) (\<lambda>p.
            try_then (if p_tracking_mode p = INDIVIDUAL
                      then individual_counts i (x_returned x) (x_damaged x) (x_missing x) (x_assets x)
                      else Inr (x_returned x, x_damaged x, x_missing x))
              (\<lambda>(returned, damaged, missing).
                if remaining_quantity i < returned + damaged + missing
                then Inl ReturnValidationError
                else Inr (x\<lparr>x_returned := returned, x_damaged := damaged, x_missing := missing\<rparr>))))"

definition resolution_quantity :: "resolution \<Rightarrow> int" where
  "resolution_quantity x = x_returned x + x_damaged x + x_missing x"

definition build_resolutions :: "nat \<Rightarrow> resolution list \<Rightarrow> db \<Rightarrow> exn + resolution list" where
  "build_resolutions rid xs s =
     try_then (collect (build_resolution rid s) xs) (\<lambda>validated.
       if sum_list (map resolution_quantity validated) < 1 then Inl ReturnValidationError
       else Inr validated)"

section \<open>Flipping the unit rows\<close>

fun outcome_map :: "asset_outcome \<Rightarrow> link_outcome \<times> asset_status" where
  "outcome_map OutcomeIsReturned = (LinkReturned, AVAILABLE)"
| "outcome_map OutcomeIsDamaged = (LinkDamaged, DAMAGED)"
| "outcome_map OutcomeIsMissing = (LinkLost, LOST)"

definition set_link_outcome ::
  "asset_link \<Rightarrow> link_outcome \<Rightarrow> asset_status \<Rightarrow> nat \<Rightarrow> db \<Rightarrow> exn + db" where
  "set_link_outcome l oc status event s =
     try_then (get_asset (l_asset l) s) (\<lambda>a.
       Inr (put_link (l\<lparr>l_outcome := oc, l_returned_at := Some (now s), l_return_event := Some event\<rparr>)
              (put_asset (a\<lparr>a_status := status\<rparr>) s)))"

definition issued_links :: "nat \<Rightarrow> db \<Rightarrow> asset_link list" where
  "issued_links iid s = filter (\<lambda>l. l_item l = iid \<and> l_outcome l = LinkIssued) (links s)"

text \<open>The dict of active asset QR codes by asset: for one asset the last one wins.\<close>

definition active_asset_qr :: "nat \<Rightarrow> nat \<Rightarrow> db \<Rightarrow> qr_code option" where
  "active_asset_qr ms aid s =
     find (\<lambda>q. q_makerspace q = ms \<and> q_target_type q = TargetAsset \<and> q_target_id q = aid \<and> q_active q)
       (rev (qr_codes s))"

definition flip_exact_link ::
  "nat \<Rightarrow> hardware_request \<Rightarrow> asset_link list \<Rightarrow> nat \<Rightarrow> nat \<times> asset_outcome \<Rightarrow> db \<Rightarrow> exn + db" where
  "flip_exact_link actor locked ls event e s =
     try_then (of_option KeyError (find (\<lambda>l. l_asset l = fst e) ls)) (\<lambda>l.
     try_then (set_link_outcome l (fst (outcome_map (snd e))) (snd (outcome_map (snd e))) event s) (\<lambda>s.
       Inr (case active_asset_qr (r_makerspace locked) (fst e) s of
              None \<Rightarrow> s
            | Some q \<Rightarrow> create_qr_scan \<lparr>qs_makerspace = r_makerspace locked, qs_qr = q_id q,
                  qs_request = r_id locked, qs_actor = actor, qs_context = ScanReturn\<rparr> s)))"

definition flip_exact_asset_links ::
  "nat \<Rightarrow> hardware_request \<Rightarrow> nat \<Rightarrow> (nat \<times> asset_outcome) list \<Rightarrow> nat \<Rightarrow> db \<Rightarrow> exn + db" where
  "flip_exact_asset_links actor locked iid outcomes event s =
     (let requested = map fst outcomes;
          ls = filter (\<lambda>l. l_asset l \<in> set requested) (issued_links iid s)
      in if length ls \<noteq> length requested then Inl ReturnValidationError
         else for_each (flip_exact_link actor locked ls event) outcomes s)"

definition flip_asset_links ::
  "nat \<Rightarrow> int \<Rightarrow> link_outcome \<Rightarrow> asset_status \<Rightarrow> nat \<Rightarrow> db \<Rightarrow> exn + db" where
  "flip_asset_links iid quantity oc status event s =
     (if quantity \<le> 0 then Inr s
      else let ls = take (nat quantity) (sort_key l_asset (issued_links iid s))
           in if int (length ls) \<noteq> quantity then Inl ReturnValidationError
              else for_each (\<lambda>l. set_link_outcome l oc status event) ls s)"

definition flip_resolution ::
  "nat \<Rightarrow> hardware_request \<Rightarrow> nat \<Rightarrow> resolution \<Rightarrow> db \<Rightarrow> exn + db" where
  "flip_resolution actor locked event x s =
     try_then (of_option DoesNotExist (item_of (x_item x) s)) (\<lambda>i.
       if \<not> is_individual s (i_product i) then Inr s
       else if x_assets x \<noteq> []
       then flip_exact_asset_links actor locked (x_item x) (x_assets x) event s
       else flip_asset_links (x_item x) (x_returned x) LinkReturned AVAILABLE event s)"

definition flip_individual_asset_returns ::
  "nat \<Rightarrow> hardware_request \<Rightarrow> resolution list \<Rightarrow> nat \<Rightarrow> db \<Rightarrow> exn + db" where
  "flip_individual_asset_returns actor locked xs event =
     for_each (flip_resolution actor locked event) xs"

section \<open>Accountability\<close>

fun issue_name :: "issue_type \<Rightarrow> string" where
  "issue_name IssueDamaged = ''damaged''"
| "issue_name IssueMissing = ''missing''"

definition item_target :: "nat \<Rightarrow> string \<times> nat" where
  "item_target iid = (''hardware_requests.hardwarerequestitem'', iid)"

definition write_issue ::
  "nat \<Rightarrow> hardware_request \<Rightarrow> nat \<Rightarrow> nat \<Rightarrow> issue_type \<Rightarrow> int \<Rightarrow> db \<Rightarrow> db" where
  "write_issue actor locked iid eid kind quantity s =
     (if quantity \<le> 0 then s
      else audit_record (Some actor) (''item.'' @ issue_name kind) (r_makerspace locked)
             (item_target iid)
             [(''request_id'', MInt (int (r_id locked))), (''evidence_id'', MInt (int eid)),
              (''quantity'', MInt quantity)]
             (s\<lparr>accountabilities := accountabilities s @
                [\<lparr>c_requester = r_requester locked, c_request = r_id locked, c_item = iid,
                  c_makerspace = r_makerspace locked, c_issue_type = kind, c_description = [],
                  c_evidence = Some eid, c_quantity = quantity, c_created_by = actor\<rparr>]\<rparr>))"

definition write_accountability ::
  "nat \<Rightarrow> hardware_request \<Rightarrow> nat \<Rightarrow> resolution list \<Rightarrow> db \<Rightarrow> db" where
  "write_accountability actor locked eid xs =
     fold (\<lambda>x s. write_issue actor locked (x_item x) eid IssueMissing (x_missing x)
                   (write_issue actor locked (x_item x) eid IssueDamaged (x_damaged x) s)) xs"

section \<open>Closing\<close>

definition all_resolved :: "request_item list \<Rightarrow> bool" where
  "all_resolved its \<longleftrightarrow> list_all (\<lambda>i. i_returned i + i_damaged i + i_missing i = i_issued i) its"

definition has_issue :: "request_item list \<Rightarrow> bool" where
  "has_issue its \<longleftrightarrow> list_ex (\<lambda>i. 0 < i_damaged i \<or> 0 < i_missing i) its"

definition finalize_return_status :: "hardware_request \<Rightarrow> nat \<Rightarrow> db \<Rightarrow> exn + (string \<times> db)" where
  "finalize_return_status locked actor s =
     (let its = request_items (r_id locked) s
      in if \<not> all_resolved its
         then try_then (save_request (locked\<lparr>r_status := PartiallyReturned\<rparr>) s)
                (\<lambda>s. Inr (''request.partially_returned'', s))
         else try_then (save_request (locked\<lparr>
                  r_status := (if has_issue its then ClosedWithIssue else Returned),
                  r_closed_by := Some actor, r_closed_at := Some (now s)\<rparr>) s)
                (\<lambda>s. Inr (if has_issue its then ''request.closed_with_issue''
                          else ''request.returned'', s)))"

section \<open>The return\<close>

definition require_returnable :: "hardware_request \<Rightarrow> db \<Rightarrow> exn + unit" where
  "require_returnable r s =
     (if list_ex (\<lambda>t. t_request t = r_id r \<and> t_makerspace t = r_makerspace r) (loans s)
      then Inl ReturnValidationError
      else if \<not> on_loan r then Inl InvalidTransition
      else Inr ())"

definition matching_box :: "hardware_request \<Rightarrow> string \<Rightarrow> db \<Rightarrow> exn + box option" where
  "matching_box r box_code s =
     (case r_assigned_box r of
        None \<Rightarrow> if box_code \<noteq> [] then Inl ReturnValidationError else Inr None
      | Some bid \<Rightarrow>
          if box_code = [] then Inl ReturnValidationError
          else case find (\<lambda>b. b_makerspace b = r_makerspace r \<and> b_code b = box_code) (boxes s) of
            None \<Rightarrow> Inl ReturnValidationError
          | Some b \<Rightarrow> if b_id b \<noteq> bid then Inl ReturnValidationError else Inr (Some b))"

definition record_scan :: "nat \<Rightarrow> hardware_request \<Rightarrow> box option \<Rightarrow> db \<Rightarrow> nat option \<times> db" where
  "record_scan actor locked b s =
     (case b of
        None \<Rightarrow> (None, s)
      | Some b \<Rightarrow> let (scan, s) = create_box_scan \<lparr>bs_makerspace = r_makerspace locked,
            bs_box = b_id b, bs_request = r_id locked, bs_actor = actor, bs_context = ScanReturn\<rparr> s
          in (Some scan, s))"

definition create_event ::
  "nat \<Rightarrow> hardware_request \<Rightarrow> box option \<Rightarrow> nat \<Rightarrow> string \<Rightarrow> db \<Rightarrow> exn + (nat \<times> db)" where
  "create_event actor locked b eid remark s =
     (if list_ex (\<lambda>v. v_evidence v = eid) (return_events s) then Inl ReturnValidationError
      else let vid = fresh_key v_id (return_events s)
           in Inr (vid, s\<lparr>return_events := return_events s @
                [\<lparr>v_id = vid, v_request = r_id locked, v_makerspace = r_makerspace locked,
                  v_box = map_option b_id b, v_evidence = eid, v_remark = remark, v_actor = actor\<rparr>]\<rparr>))"

definition audit_return ::
  "nat \<Rightarrow> hardware_request \<Rightarrow> box option \<Rightarrow> nat \<Rightarrow> nat option \<Rightarrow> string \<Rightarrow> db \<Rightarrow> db" where
  "audit_return actor locked b eid scan action s =
     (let s = audit_record (Some actor) action (r_makerspace locked) (request_target (r_id locked))
                [(''box_id'', case b of None \<Rightarrow> MNone | Some b \<Rightarrow> MInt (int (b_id b))),
                 (''evidence_id'', MInt (int eid))] s;
          s = audit_record (Some actor) ''evidence.attached'' (r_makerspace locked)
                (evidence_target eid) [(''request_id'', MInt (int (r_id locked)))] s
      in case scan of
           None \<Rightarrow> s
         | Some scan \<Rightarrow> audit_record (Some actor) ''box.scanned'' (r_makerspace locked)
             (''boxes.boxscan'', scan)
             [(''box_id'', case b of None \<Rightarrow> MNone | Some b \<Rightarrow> MInt (int (b_id b))),
              (''request_id'', MInt (int (r_id locked)))] s)"

text \<open>The transaction of \<open>return_items\<close>, after the photo has been promoted.\<close>

definition return_locked ::
  "env \<Rightarrow> nat \<Rightarrow> nat \<Rightarrow> evidence_photo \<Rightarrow> int option \<Rightarrow> string \<Rightarrow> string \<Rightarrow> resolution list \<Rightarrow> db \<Rightarrow> exn + db" where
  "return_locked env actor rid ev finalized_size remark box_code resolutions = atomic (\<lambda>s.
     try_then (locked_request rid s) (\<lambda>locked.
     try_then (require_returnable locked s) (\<lambda>_.
     try_then (lock_evidence_for_attachment (e_id ev) False s) (\<lambda>attachable.
       if \<not> attachable then Inl ReturnValidationError
       else if list_ex (\<lambda>t. t_return_evidence t = Some (e_id ev)) (loans s)
       then Inl ReturnValidationError
       else try_then (charge_storage_once env ev finalized_size s) (\<lambda>s.
            try_then (matching_box locked box_code s) (\<lambda>b.
            let (scan, s) = record_scan actor locked b s
            in try_then (build_resolutions rid resolutions s) (\<lambda>validated.
               try_then (return_items_stock validated s) (\<lambda>s.
               try_then (create_event actor locked b (e_id ev) remark s) (\<lambda>(event, s).
               try_then (flip_individual_asset_returns actor locked validated event s) (\<lambda>s.
               let s = write_accountability actor locked (e_id ev) validated s
               in try_then (finalize_return_status locked actor s) (\<lambda>(action, s).
                  Inr (notify ''request_returned'' rid
                    (audit_return actor locked b (e_id ev) scan action s)))))))))))))"

definition return_request_items ::
  "env \<Rightarrow> nat \<Rightarrow> hardware_request \<Rightarrow> nat \<Rightarrow> string \<Rightarrow> string \<Rightarrow> resolution list \<Rightarrow> db \<Rightarrow> (exn + unit) \<times> db" where
  "return_request_items env actor seen evidence_id remark box_code resolutions s =
     (let remark = strip remark
      in if remark = [] then (Inl ReturnValidationError, s)
         else case find (\<lambda>e. e_id e = evidence_id \<and> e_makerspace e = r_makerspace seen \<and>
                             e_type e = EvidenceReturn) (evidence s) of
           None \<Rightarrow> (Inl ReturnValidationError, s)
         | Some ev \<Rightarrow>
             (case require_returnable seen s of
                Inl e \<Rightarrow> (Inl e, s)
              | Inr _ \<Rightarrow>
                  (case storage_finalize_upload env ev (evidence_max_bytes env) s of
                     (Inl e, s) \<Rightarrow> (Inl (promotion_error ReturnValidationError e), s)
                   | (Inr None, s) \<Rightarrow> (Inl EvidenceNotUploaded, s)
                   | (Inr (Some finalized), s) \<Rightarrow>
                       (case return_locked env actor (r_id seen) ev (fst finalized) remark box_code
                               resolutions s of
                          Inl e \<Rightarrow> (Inl e, s)
                        | Inr t \<Rightarrow> (Inr (), t)))))"

end
