(* ===== verification/Tool_Loans.thy ===== *)
theory Tool_Loans
  imports Returns
begin

text \<open>
  Loans without a reviewed request: self-checkout by scanning QR codes
  (\<open>hardware_requests/self_checkout_workflow.py\<close>, \<open>self_checkout_helpers.py\<close>,
  \<open>public_return_validation.py\<close>, \<open>self_checkout_return_guards.py\<close>) and handouts by staff
  (\<open>direct_loan_workflow.py\<close>, \<open>direct_loan_returns.py\<close>, \<open>direct_loan_audit.py\<close>). A loan stands on
  a request that is created issued, so it shares the tables of the request workflow. As there, the
  photo is promoted before the transaction.
\<close>

section \<open>The environment\<close>

text \<open>
  What the services ask of other packages: \<open>feature_enabled\<close>, \<open>is_servable\<close>, and of the presence
  package whether the borrower may borrow now.
\<close>

record loan_env =
  lo_env :: env
  feature_on :: "nat \<Rightarrow> string \<Rightarrow> bool"
  servable :: "nat \<Rightarrow> bool"
  member_presence_error :: "nat \<Rightarrow> nat \<Rightarrow> exn option"
  account_error :: "nat \<Rightarrow> nat \<Rightarrow> exn option"

record borrower =
  bo_id :: nat
  bo_username :: string
  bo_name :: string
  bo_email :: string
  bo_phone :: string

definition self_checkout_feature :: string where
  "self_checkout_feature = ''inventory.self_checkout''"

definition require_feature :: "loan_env \<Rightarrow> nat \<Rightarrow> db \<Rightarrow> exn + makerspace" where
  "require_feature env ms s =
     try_then (of_option Http404 (row_get m_id ms (makerspaces s))) (\<lambda>m.
       if feature_on env ms self_checkout_feature then Inr m else Inl ValidationError)"

definition require_feature_locked :: "loan_env \<Rightarrow> nat \<Rightarrow> db \<Rightarrow> exn + makerspace" where
  "require_feature_locked env ms s =
     try_then (get_makerspace ms s) (\<lambda>m.
       if feature_on env ms self_checkout_feature then Inr m else Inl ValidationError)"

definition require_servable :: "loan_env \<Rightarrow> nat \<Rightarrow> exn + unit" where
  "require_servable env ms = require (servable env ms) RequestValidationError"

definition require_eligible_borrower :: "loan_env \<Rightarrow> borrower \<Rightarrow> nat \<Rightarrow> exn + unit" where
  "require_eligible_borrower env b ms =
     (case (if module_enabled (lo_env env) ms ''membership'' then member_presence_error env (bo_id b) ms
            else account_error env (bo_id b) ms) of
        Some e \<Rightarrow> Inl e | None \<Rightarrow> Inr ())"

section \<open>Boxes inside boxes\<close>

definition child_boxes :: "nat \<Rightarrow> box list \<Rightarrow> nat list \<Rightarrow> nat list \<Rightarrow> nat list" where
  "child_boxes ms bs ids frontier =
     map b_id (filter (\<lambda>b. b_parent b \<in> Some ` set frontier \<and> b_makerspace b = ms \<and> b_id b \<notin> set ids) bs)"

lemma child_boxes_shrink:
  assumes "child_boxes ms bs ids frontier \<noteq> []"
  shows "length (filter (\<lambda>b. b_id b \<notin> set (ids @ child_boxes ms bs ids frontier)) bs) <
    length (filter (\<lambda>b. b_id b \<notin> set ids) bs)"
proof -
  from assms obtain c where c: "c \<in> set bs" "b_id c \<in> set (child_boxes ms bs ids frontier)" "b_id c \<notin> set ids"
    by (auto simp: child_boxes_def filter_empty_conv)
  have "filter (\<lambda>b. b_id b \<notin> set (ids @ child_boxes ms bs ids frontier)) bs =
      filter (\<lambda>b. b_id b \<notin> set (child_boxes ms bs ids frontier)) (filter (\<lambda>b. b_id b \<notin> set ids) bs)"
    by (auto intro: filter_cong)
  also have "length \<dots> < length (filter (\<lambda>b. b_id b \<notin> set ids) bs)"
    using c by (intro length_filter_less [where x = c]) auto
  finally show ?thesis .
qed

text \<open>The \<open>while frontier\<close> loop of \<open>container_subtree_ids\<close>: it ends whatever the parents are.\<close>

function subtree_walk :: "nat \<Rightarrow> box list \<Rightarrow> nat list \<Rightarrow> nat list \<Rightarrow> nat list" where
  "subtree_walk ms bs ids frontier =
     (if frontier = [] then ids
      else if child_boxes ms bs ids frontier = [] then ids
      else subtree_walk ms bs (ids @ child_boxes ms bs ids frontier) (child_boxes ms bs ids frontier))"
  by pat_completeness auto

termination
  by (relation "measure (\<lambda>(ms, bs, ids, frontier). length (filter (\<lambda>b. b_id b \<notin> set ids) bs))")
    (use child_boxes_shrink in \<open>auto simp del: set_append\<close>)

declare subtree_walk.simps [simp del]

definition container_subtree_ids :: "nat \<Rightarrow> nat \<Rightarrow> db \<Rightarrow> nat list" where
  "container_subtree_ids ms bid s = subtree_walk ms (boxes s) [bid] [bid]"

definition box_requires_separate_contents :: "box \<Rightarrow> db \<Rightarrow> bool" where
  "box_requires_separate_contents b s =
     (let ids = container_subtree_ids (b_makerspace b) (b_id b) s
      in list_ex (\<lambda>a. a_makerspace a = b_makerspace b \<and> a_box a \<in> Some ` set ids \<and> a_status a = AVAILABLE) (assets s) \<or>
         list_ex (\<lambda>p. p_makerspace p = b_makerspace b \<and> p_box p \<in> Some ` set (tl ids) \<and> \<not> p_is_archived p \<and>
           0 < p_available p) (products s))"

section \<open>Scanned targets\<close>

definition locked_qr :: "nat \<Rightarrow> string \<Rightarrow> db \<Rightarrow> exn + qr_code" where
  "locked_qr ms payload s =
     of_option RequestValidationError
       (find (\<lambda>q. q_payload q = payload \<and> q_makerspace q = ms \<and> q_active q) (qr_codes s))"

text \<open>Payloads are unique in the table, so the dict by payload holds every row.\<close>

definition locked_qrs_for_payloads :: "nat \<Rightarrow> string list \<Rightarrow> db \<Rightarrow> exn + qr_code list" where
  "locked_qrs_for_payloads ms payloads s =
     collect (\<lambda>payload. of_option RequestValidationError
       (find (\<lambda>q. q_payload q = payload \<and> q_makerspace q = ms \<and> q_active q) (qr_codes s))) payloads"

definition targets_of :: "qr_target \<Rightarrow> qr_code list \<Rightarrow> nat set" where
  "targets_of kind qs = q_target_id ` {q \<in> set qs. q_target_type q = kind}"

definition reject_overlapping_checkout_targets :: "qr_code list \<Rightarrow> db \<Rightarrow> exn + unit" where
  "reject_overlapping_checkout_targets qs s =
     require (\<not> list_ex (\<lambda>a. a_id a \<in> targets_of TargetAsset qs \<and> a_box a \<in> Some ` targets_of TargetBox qs \<and>
       a_makerspace a \<in> q_makerspace ` set qs) (assets s)) InvalidTransition"

definition qr_has_active_loan :: "nat \<Rightarrow> db \<Rightarrow> qr_code \<Rightarrow> bool" where
  "qr_has_active_loan ms s q \<longleftrightarrow>
     list_ex (\<lambda>t. t_makerspace t = ms \<and> t_checked_out t \<and>
       (t_qr_code t = Some (q_id q) \<or> q_id q \<in> set (t_qr_ids t))) (loans s)"

definition reviewed_request_holds_box :: "nat \<Rightarrow> db \<Rightarrow> bool" where
  "reviewed_request_holds_box bid s \<longleftrightarrow>
     list_ex (\<lambda>r. r_assigned_box r = Some bid \<and> r_status r \<in> {Issued, PartiallyReturned}) (requests s)"

definition eligible_product :: "nat \<Rightarrow> nat \<Rightarrow> bool \<Rightarrow> db \<Rightarrow> exn + product" where
  "eligible_product pid ms require_public s =
     (case product_of pid s of
        None \<Rightarrow> Inl RequestValidationError
      | Some p \<Rightarrow>
          if p_makerspace p \<noteq> ms \<or> p_is_archived p then Inl RequestValidationError
          else if require_public \<and> (\<not> p_is_public p \<or> \<not> p_self_checkout p) then Inl RequestValidationError
          else Inr p)"

definition eligible_asset :: "nat \<Rightarrow> nat \<Rightarrow> bool \<Rightarrow> db \<Rightarrow> exn + (asset \<times> product)" where
  "eligible_asset aid ms require_public s =
     (case row_get a_id aid (assets s) of
        None \<Rightarrow> Inl RequestValidationError
      | Some a \<Rightarrow>
          if a_makerspace a \<noteq> ms \<or> a_status a \<noteq> AVAILABLE then Inl RequestValidationError
          else if require_public \<and> \<not> a_self_checkout a then Inl RequestValidationError
          else try_then (eligible_product (a_product a) ms require_public s) (\<lambda>p. Inr (a, p)))"

definition issue_product :: "product \<Rightarrow> int \<Rightarrow> db \<Rightarrow> exn + db" where
  "issue_product p quantity s =
     (if p_available p < quantity then Inl RequestValidationError else issue_available (p_id p) quantity s)"

text \<open>What a scan hands out: its label, one unit of some products, unit assets, and a container.\<close>

record handout =
  ho_label :: string
  ho_products :: "nat list"
  ho_assets :: "nat list"
  ho_container :: "nat option"

definition boxed_products :: "nat \<Rightarrow> bool \<Rightarrow> db \<Rightarrow> product list" where
  "boxed_products bid require_public s =
     sort_key p_id (filter (\<lambda>p. p_box p = Some bid \<and> \<not> p_is_archived p \<and> 1 \<le> p_available p \<and>
       (require_public \<longrightarrow> p_is_public p \<and> p_self_checkout p)) (products s))"

definition check_box :: "nat \<Rightarrow> box \<Rightarrow> bool \<Rightarrow> db \<Rightarrow> exn + product list" where
  "check_box ms b require_public s =
     (if \<not> b_is_active b then Inl RequestValidationError
      else if list_ex (\<lambda>t. t_makerspace t = ms \<and> t_container t = Some (b_id b) \<and> t_checked_out t) (loans s) \<or>
              reviewed_request_holds_box (b_id b) s then Inl RequestValidationError
      else if box_requires_separate_contents b s then Inl RequestValidationError
      else let ps = boxed_products (b_id b) require_public s
           in if ps = [] then Inl RequestValidationError
              else if list_ex (\<lambda>p. p_tracking_mode p = INDIVIDUAL) ps then Inl RequestValidationError
              else Inr ps)"

definition checkout_box :: "qr_code \<Rightarrow> bool \<Rightarrow> db \<Rightarrow> exn + (handout \<times> db)" where
  "checkout_box q require_public s =
     (case find (\<lambda>b. b_id b = q_target_id q \<and> b_makerspace b = q_makerspace q) (boxes s) of
        None \<Rightarrow> Inl RequestValidationError
      | Some b \<Rightarrow>
          try_then (check_box (q_makerspace q) b require_public s) (\<lambda>ps.
          try_then (for_each (\<lambda>p. issue_product p 1) ps s) (\<lambda>s.
            Inr (\<lparr>ho_label = b_label b, ho_products = map p_id ps, ho_assets = [], ho_container = Some (b_id b)\<rparr>, s))))"

definition checkout_target :: "bool \<Rightarrow> qr_code \<Rightarrow> db \<Rightarrow> exn + (handout \<times> db)" where
  "checkout_target require_public q s =
     (case q_target_type q of
        TargetProduct \<Rightarrow>
          try_then (eligible_product (q_target_id q) (q_makerspace q) require_public s) (\<lambda>p.
            if p_tracking_mode p = INDIVIDUAL then Inl RequestValidationError
            else try_then (issue_product p 1 s) (\<lambda>s.
              Inr (\<lparr>ho_label = p_name p, ho_products = [p_id p], ho_assets = [], ho_container = None\<rparr>, s)))
      | TargetAsset \<Rightarrow>
          try_then (eligible_asset (q_target_id q) (q_makerspace q) require_public s) (\<lambda>(a, p).
          try_then (issue_product p 1 s) (\<lambda>s.
            Inr (\<lparr>ho_label = a_tag a, ho_products = [p_id p], ho_assets = [a_id a], ho_container = None\<rparr>,
                 put_asset (a\<lparr>a_status := ISSUED\<rparr>) s)))
      | TargetBox \<Rightarrow> checkout_box q require_public s)"

section \<open>What is being handed out\<close>

text \<open>A \<open>Counter\<close> of products in insertion order.\<close>

fun add_count :: "nat \<Rightarrow> int \<Rightarrow> (nat \<times> int) list \<Rightarrow> (nat \<times> int) list" where
  "add_count pid n [] = [(pid, n)]"
| "add_count pid n ((p, k) # rest) = (if p = pid then (p, k + n) # rest else (p, k) # add_count pid n rest)"

record basket =
  bk_labels :: "string list"
  bk_counts :: "(nat \<times> int) list"
  bk_assets :: "nat list"
  bk_container :: "nat option"

definition add_handout :: "handout \<Rightarrow> basket \<Rightarrow> basket" where
  "add_handout h u =
     u\<lparr>bk_labels := bk_labels u @ [ho_label h],
       bk_counts := fold (\<lambda>pid. add_count pid 1) (ho_products h) (bk_counts u),
       bk_assets := bk_assets u @ ho_assets h,
       bk_container := (case bk_container u of None \<Rightarrow> ho_container h | Some c \<Rightarrow> Some c)\<rparr>"

text \<open>One scan joins the basket: only one container per loan.\<close>

definition hand_out_qr :: "bool \<Rightarrow> qr_code \<Rightarrow> basket \<times> db \<Rightarrow> exn + (basket \<times> db)" where
  "hand_out_qr require_public q us =
     try_then (checkout_target require_public q (snd us)) (\<lambda>(h, s).
       if ho_container h \<noteq> None \<and> bk_container (fst us) \<noteq> None \<and> ho_container h \<noteq> bk_container (fst us)
       then Inl InvalidTransition
       else Inr (add_handout h (fst us), s))"

text \<open>\<open>", ".join(labels)[:200]\<close>.\<close>

fun joined :: "string list \<Rightarrow> string" where
  "joined [] = []"
| "joined [label] = label"
| "joined (label # labels) = label @ '', '' @ joined labels"

definition loan_label :: "string list \<Rightarrow> string" where
  "loan_label labels = take 200 (joined labels)"

section \<open>The request and the loan\<close>

text \<open>The contact of such a request is not asked to confirm itself: the column keeps its default.\<close>

definition issued_contact :: "borrower \<Rightarrow> requester_snapshot" where
  "issued_contact b = \<lparr>s_username = bo_username b, s_name = strip (bo_name b), s_email = strip (bo_email b),
     s_phone = strip (bo_phone b), s_contact_verified = True, s_checkin_identity = None, s_checkin_purpose = [],
     s_checkin_project_name = []\<rparr>"

definition new_issued_request :: "nat \<Rightarrow> nat \<Rightarrow> borrower \<Rightarrow> string \<Rightarrow> nat \<Rightarrow> int \<Rightarrow> int option \<Rightarrow> hardware_request" where
  "new_issued_request rid ms b requested_for issued_by_id issued_at due =
     (new_request rid ms (bo_id b) (issued_contact b) None [] [] requested_for)
       \<lparr>r_status := Issued, r_issued_by := Some issued_by_id, r_issued_at := Some issued_at, r_return_due_at := due\<rparr>"

definition new_issued_item :: "nat \<Rightarrow> nat \<Rightarrow> nat \<times> int \<Rightarrow> request_item" where
  "new_issued_item iid rid pq = (new_item iid rid pq)\<lparr>i_accepted := snd pq, i_issued := snd pq\<rparr>"

definition create_issued_item :: "nat \<Rightarrow> nat \<times> int \<Rightarrow> db \<Rightarrow> exn + db" where
  "create_issued_item rid pq s =
     (let i = new_issued_item (fresh_key i_id (items s)) rid pq
      in try_then (check_item i) (\<lambda>_. Inr (s\<lparr>items := items s @ [i]\<rparr>)))"

definition create_issued_request ::
  "hardware_request \<Rightarrow> (nat \<times> int) list \<Rightarrow> db \<Rightarrow> exn + db" where
  "create_issued_request r counts s =
     try_then (create_request r s) (for_each (create_issued_item (r_id r)) counts)"

text \<open>
  The unique constraints of \<open>PublicToolLoan\<close>: one active loan per QR code and per container, one
  loan per request, one per return photo.
\<close>

definition loan_conflict :: "tool_loan \<Rightarrow> db \<Rightarrow> bool" where
  "loan_conflict t s \<longleftrightarrow>
     list_ex (\<lambda>o'. t_id o' \<noteq> t_id t \<and>
       (t_checked_out t \<and> t_checked_out o' \<and>
          (t_qr_code t \<noteq> None \<and> t_qr_code o' = t_qr_code t \<or> t_container t \<noteq> None \<and> t_container o' = t_container t) \<or>
        t_request o' = t_request t \<or>
        t_return_evidence t \<noteq> None \<and> t_return_evidence o' = t_return_evidence t)) (loans s)"

definition create_loan :: "tool_loan \<Rightarrow> db \<Rightarrow> exn + db" where
  "create_loan t s = (if loan_conflict t s then Inl IntegrityError else Inr (s\<lparr>loans := loans s @ [t]\<rparr>))"

definition save_loan :: "tool_loan \<Rightarrow> db \<Rightarrow> exn + db" where
  "save_loan t s = (if loan_conflict t s then Inl IntegrityError else Inr (put_loan t s))"

definition loan_of :: "nat \<Rightarrow> db \<Rightarrow> tool_loan option" where
  "loan_of i s = row_get t_id i (loans s)"

definition new_loan :: "nat \<Rightarrow> nat \<Rightarrow> qr_code list \<Rightarrow> basket \<Rightarrow> nat \<Rightarrow> borrower \<Rightarrow> string \<Rightarrow> nat \<Rightarrow> loan_source \<Rightarrow>
  string \<Rightarrow> int option \<Rightarrow> tool_loan" where
  "new_loan i ms qs u rid b target_type target_id source label due =
     \<lparr>t_id = i, t_makerspace = ms, t_qr_code = (case qs of [] \<Rightarrow> None | q # _ \<Rightarrow> Some (q_id q)),
      t_container = bk_container u, t_request = rid, t_requester = bo_id b, t_target_type = target_type,
      t_target_id = target_id, t_asset_ids = bk_assets u, t_qr_ids = map q_id qs, t_checked_out = True,
      t_source = source, t_target_label = label, t_due_at = due, t_returned_at = None, t_return_evidence = None,
      t_return_notes = []\<rparr>"

definition scan_qr :: "nat \<Rightarrow> nat \<Rightarrow> nat \<Rightarrow> scan_context \<Rightarrow> qr_code \<Rightarrow> db \<Rightarrow> db" where
  "scan_qr actor ms rid context q =
     create_qr_scan \<lparr>qs_makerspace = ms, qs_qr = q_id q, qs_request = rid, qs_actor = actor, qs_context = context\<rparr>"

definition scan_qrs :: "nat \<Rightarrow> nat \<Rightarrow> nat \<Rightarrow> scan_context \<Rightarrow> qr_code list \<Rightarrow> db \<Rightarrow> db" where
  "scan_qrs actor ms rid context qs = fold (scan_qr actor ms rid context) qs"

fun target_type_name :: "qr_target \<Rightarrow> string" where
  "target_type_name TargetBox = ''box''"
| "target_type_name TargetProduct = ''product''"
| "target_type_name TargetAsset = ''asset''"

end
