(* ===== verification/Loan_Services.thy ===== *)
theory Loan_Services
  imports Tool_Loans
begin

text \<open>
  The services on tool loans: self-checkout and its return, handouts by staff and their return, and
  the triage of problem reports (\<open>hardware_requests/problem_report_workflow.py\<close>). The transaction of
  each service is a definition of its own, run after the photo has been promoted.
\<close>

section \<open>Evidence\<close>

definition public_evidence :: "nat \<Rightarrow> nat \<Rightarrow> nat \<Rightarrow> evidence_type \<Rightarrow> db \<Rightarrow> exn + evidence_photo" where
  "public_evidence ms requester eid kind s =
     of_option RequestValidationError (find (\<lambda>e. e_id e = eid \<and> e_makerspace e = ms \<and> e_type e = kind \<and>
       e_uploaded_by e = requester) (evidence s))"

text \<open>\<open>_lock_unused_evidence\<close> for an issue photo and for a return photo.\<close>

definition lock_issue_evidence :: "nat \<Rightarrow> db \<Rightarrow> exn + unit" where
  "lock_issue_evidence eid s =
     try_then (lock_evidence_for_attachment eid False s) (\<lambda>attachable.
       if \<not> attachable then Inl RequestValidationError
       else if list_ex (\<lambda>r. r_issue_evidence r = Some eid) (requests s) then Inl RequestValidationError
       else Inr ())"

definition lock_return_evidence :: "nat \<Rightarrow> db \<Rightarrow> exn + unit" where
  "lock_return_evidence eid s =
     try_then (lock_evidence_for_attachment eid False s) (\<lambda>attachable.
       if \<not> attachable then Inl ReturnValidationError
       else if list_ex (\<lambda>t. t_return_evidence t = Some eid) (loans s) \<or>
               list_ex (\<lambda>v. v_evidence v = eid) (return_events s) then Inl ReturnValidationError
       else Inr ())"

text \<open>\<open>validate_evidence_upload\<close>: the promotion and how its failures are reported.\<close>

definition validate_evidence_upload :: "env \<Rightarrow> evidence_photo \<Rightarrow> db \<Rightarrow> (exn + (int option \<times> string)) \<times> db" where
  "validate_evidence_upload env ev s =
     (case storage_finalize_upload env ev (evidence_max_bytes env) s of
        (Inl e, s) \<Rightarrow> (Inl (promotion_error ReturnValidationError e), s)
      | (Inr None, s) \<Rightarrow> (Inl EvidenceNotUploaded, s)
      | (Inr (Some finalized), s) \<Rightarrow> (Inr finalized, s))"

section \<open>Self-checkout\<close>

definition empty_basket :: basket where
  "empty_basket = \<lparr>bk_labels = [], bk_counts = [], bk_assets = [], bk_container = None\<rparr>"

text \<open>A request is created issued with its photo attached, then the loan, then the scans.\<close>

definition lend_basket :: "nat \<Rightarrow> nat \<Rightarrow> borrower \<Rightarrow> string \<Rightarrow> nat \<Rightarrow> string \<Rightarrow> int option \<Rightarrow> basket \<Rightarrow> db \<Rightarrow>
  exn + (hardware_request \<times> db)" where
  "lend_basket actor ms b requested_for eid remark due u s =
     (let r = new_issued_request (fresh_key r_id (requests s)) ms b requested_for actor (now s) due;
          r' = r\<lparr>r_issue_evidence := Some eid, r_issue_remark := strip remark\<rparr>
      in try_then (create_issued_request r (bk_counts u) s) (\<lambda>s.
         try_then (save_request r' s) (\<lambda>s. Inr (r', s))))"

definition due_date :: "makerspace \<Rightarrow> db \<Rightarrow> int" where
  "due_date m s = now s + default_days m * seconds_per_day"

definition distinct_qrs :: "nat \<Rightarrow> string list \<Rightarrow> db \<Rightarrow> exn + qr_code list" where
  "distinct_qrs ms payloads s =
     try_then (locked_qrs_for_payloads ms payloads s) (\<lambda>qs.
     try_then (require (distinct (map q_id qs)) InvalidTransition) (\<lambda>_.
     try_then (reject_overlapping_checkout_targets qs s) (\<lambda>_. Inr qs)))"

definition checkout_locked ::
  "loan_env \<Rightarrow> nat \<Rightarrow> borrower \<Rightarrow> evidence_photo \<Rightarrow> int option \<Rightarrow> string \<Rightarrow> string list \<Rightarrow> db \<Rightarrow> exn + db" where
  "checkout_locked env ms b ev finalized_size remark payloads = atomic (\<lambda>s.
     try_then (lock_issue_evidence (e_id ev) s) (\<lambda>_.
     try_then (require_feature_locked env ms s) (\<lambda>m.
     try_then (require_servable env ms) (\<lambda>_.
     try_then (distinct_qrs ms payloads s) (\<lambda>qs.
     try_then (require (\<not> list_ex (qr_has_active_loan ms s) qs) InvalidTransition) (\<lambda>_.
     try_then (charge_storage_once (lo_env env) ev finalized_size s) (\<lambda>s.
     try_then (for_each (hand_out_qr True) qs (empty_basket, s)) (\<lambda>(u, s).
     try_then (lend_basket (bo_id b) ms b ''Public QR self-checkout'' (e_id ev) remark (Some (due_date m s)) u s) (\<lambda>(r, s).
     try_then (create_loan (new_loan (fresh_key t_id (loans s)) ms qs u (r_id r) b (target_type_name (q_target_type (hd qs)))
         (q_target_id (hd qs)) PublicSelfCheckout (loan_label (bk_labels u)) (Some (due_date m s))) s) (\<lambda>s.
       Inr (audit_record (Some (bo_id b)) ''public_tool.checked_out'' ms (request_target (r_id r))
         [(''qr_id'', MInt (int (q_id (hd qs)))), (''target'', MStr (loan_label (bk_labels u)))]
         (scan_qrs (bo_id b) ms (r_id r) ScanIssue qs s))))))))))))"

definition checkout_tool ::
  "loan_env \<Rightarrow> nat \<Rightarrow> borrower \<Rightarrow> string option \<Rightarrow> string list \<Rightarrow> nat \<Rightarrow> string \<Rightarrow> db \<Rightarrow> (exn + unit) \<times> db" where
  "checkout_tool env ms b payload qr_payloads eid remark s =
     (let payloads = (if qr_payloads \<noteq> [] then qr_payloads else case payload of None \<Rightarrow> [] | Some x \<Rightarrow> [x])
      in case (if payload \<noteq> None \<and> qr_payloads \<noteq> [] then Inl RequestValidationError
               else if payloads = [] then Inl RequestValidationError
               else try_then (require_feature env ms s) (\<lambda>_.
                    try_then (require_servable env ms) (\<lambda>_. public_evidence ms (bo_id b) eid EvidenceIssue s))) of
           Inl e \<Rightarrow> (Inl e, s)
         | Inr ev \<Rightarrow>
             (case validate_evidence_upload (lo_env env) ev s of
                (Inl e, s) \<Rightarrow> (Inl e, s)
              | (Inr finalized, s) \<Rightarrow>
                  (case checkout_locked env ms b ev (fst finalized) remark payloads s of
                     Inl e \<Rightarrow> (Inl e, s) | Inr t \<Rightarrow> (Inr (), t))))"

section \<open>Returning a self-checkout\<close>

definition open_public_loan :: "nat \<Rightarrow> qr_code \<Rightarrow> db \<Rightarrow> tool_loan option" where
  "open_public_loan ms q s =
     find (\<lambda>t. t_makerspace t = ms \<and> t_checked_out t \<and> t_source t = PublicSelfCheckout \<and>
       (t_qr_code t = Some (q_id q) \<or> q_id q \<in> set (t_qr_ids t))) (loans s)"

definition item_fully_out :: "request_item \<Rightarrow> bool" where
  "item_fully_out i \<longleftrightarrow> 0 < i_issued i \<and> i_requested i = i_issued i \<and> i_accepted i = i_issued i \<and>
     i_returned i = 0 \<and> i_damaged i = 0 \<and> i_missing i = 0 \<and> i_needs_fix i = 0"

definition require_public_return_ledger :: "tool_loan \<Rightarrow> db \<Rightarrow> exn + hardware_request" where
  "require_public_return_ledger t s =
     try_then (locked_request (t_request t) s) (\<lambda>r.
       if r_makerspace r \<noteq> t_makerspace t \<or> r_requester r \<noteq> t_requester t \<or> r_status r \<noteq> Issued \<or>
          request_items (r_id r) s = [] \<or> list_ex (\<lambda>i. \<not> item_fully_out i) (request_items (r_id r) s)
       then Inl ReturnValidationError else Inr r)"

definition public_loan_of :: "nat \<Rightarrow> borrower \<Rightarrow> qr_code \<Rightarrow> db \<Rightarrow> exn + tool_loan" where
  "public_loan_of ms b q s =
     try_then (of_option InvalidTransition (open_public_loan ms q s)) (\<lambda>t.
       if t_requester t \<noteq> bo_id b then Inl RequesterBlocked else Inr t)"

definition preflight_public_return :: "nat \<Rightarrow> borrower \<Rightarrow> string \<Rightarrow> db \<Rightarrow> exn + unit" where
  "preflight_public_return ms b payload s =
     try_then (locked_qr ms payload s) (\<lambda>q.
     try_then (public_loan_of ms b q s) (\<lambda>t.
     try_then (require_public_return_ledger t s) (\<lambda>_. Inr ())))"

definition lock_loan_assets_for_return :: "tool_loan \<Rightarrow> nat \<Rightarrow> db \<Rightarrow> exn + asset list" where
  "lock_loan_assets_for_return t ms s =
     (let found = sort_key a_id (filter (\<lambda>a. a_id a \<in> set (t_asset_ids t) \<and> a_makerspace a = ms) (assets s))
      in if length found \<noteq> card (set (t_asset_ids t)) \<or> list_ex (\<lambda>a. a_status a \<noteq> ISSUED) found
         then Inl ReturnValidationError else Inr found)"

text \<open>\<open>_return_request_items\<close>: everything still out comes back to the shelf.\<close>

definition units_out :: "request_item \<Rightarrow> int" where
  "units_out i = i_issued i - i_returned i"

definition return_request_item :: "request_item \<Rightarrow> db \<Rightarrow> exn + db" where
  "return_request_item i s =
     try_then (of_option KeyError (product_of (i_product i) s)) (\<lambda>_.
     try_then (return_to_available (i_product i) (units_out i) s)
       (save_item (i\<lparr>i_returned := i_returned i + units_out i\<rparr>)))"

definition return_all_items :: "nat \<Rightarrow> db \<Rightarrow> exn + db" where
  "return_all_items rid s = for_each return_request_item (filter (\<lambda>i. 0 < units_out i) (request_items rid s)) s"

definition shelve_assets :: "asset list \<Rightarrow> db \<Rightarrow> db" where
  "shelve_assets as = fold (\<lambda>a. put_asset (a\<lparr>a_status := AVAILABLE\<rparr>)) as"

definition closed_loan :: "tool_loan \<Rightarrow> int \<Rightarrow> nat \<Rightarrow> string \<Rightarrow> tool_loan" where
  "closed_loan t time eid remark = t\<lparr>t_checked_out := False, t_returned_at := Some time,
     t_return_evidence := Some eid, t_return_notes := remark\<rparr>"

definition file_problem_report :: "nat \<Rightarrow> tool_loan \<Rightarrow> nat \<Rightarrow> string \<Rightarrow> db \<Rightarrow> db" where
  "file_problem_report ms t actor problem_note s =
     (let g = \<lparr>g_id = fresh_key g_id (reports s), g_makerspace = ms, g_loan = t_id t, g_request = t_request t,
            g_requester = actor, g_note = strip problem_note, g_outcome = None, g_triage_note = [],
            g_resolved_at = None, g_resolved_by = None\<rparr>
      in notify ''problem_report.filed'' (g_id g)
           (audit_record (Some actor) ''public_tool.problem_reported'' ms (''hardware_requests.publicproblemreport'', g_id g)
              [(''loan_id'', MInt (int (t_id t))), (''request_id'', MInt (int (t_request t)))]
              (s\<lparr>reports := reports s @ [g]\<rparr>)))"

definition return_tool_locked ::
  "loan_env \<Rightarrow> nat \<Rightarrow> borrower \<Rightarrow> string \<Rightarrow> evidence_photo \<Rightarrow> int option \<Rightarrow> string \<Rightarrow> string option \<Rightarrow> db \<Rightarrow> exn + db" where
  "return_tool_locked env ms b payload ev finalized_size remark problem = atomic (\<lambda>s.
     try_then (lock_return_evidence (e_id ev) s) (\<lambda>_.
     try_then (get_makerspace ms s) (\<lambda>_.
     try_then (require_servable env ms) (\<lambda>_.
     try_then (locked_qr ms payload s) (\<lambda>q.
     try_then (public_loan_of ms b q s) (\<lambda>t.
     try_then (require_public_return_ledger t s) (\<lambda>r.
     try_then (lock_loan_assets_for_return t ms s) (\<lambda>as.
     try_then (charge_storage_once (lo_env env) ev finalized_size s) (\<lambda>s.
     try_then (return_all_items (r_id r) s) (\<lambda>s.
     let s = shelve_assets as s in
     try_then (save_loan (closed_loan t (now s) (e_id ev) remark) s) (\<lambda>s.
     try_then (save_request (r\<lparr>r_status := Returned, r_closed_by := Some (bo_id b), r_closed_at := Some (now s)\<rparr>) s) (\<lambda>s.
     let s = audit_record (Some (bo_id b)) ''public_tool.returned'' ms (request_target (r_id r))
               [(''qr_id'', MInt (int (q_id q))), (''target'', MStr (t_target_label t))]
               (scan_qr (bo_id b) ms (r_id r) ScanReturn q s)
     in Inr (case problem of None \<Rightarrow> s | Some problem_note \<Rightarrow> file_problem_report ms t (bo_id b) problem_note s)))))))))))))"

definition return_tool ::
  "loan_env \<Rightarrow> nat \<Rightarrow> borrower \<Rightarrow> string \<Rightarrow> nat \<Rightarrow> string \<Rightarrow> string option \<Rightarrow> db \<Rightarrow> (exn + unit) \<times> db" where
  "return_tool env ms b payload eid remark problem s =
     (case (if strip remark = [] then Inl RequestValidationError
            else try_then (get_makerspace ms s) (\<lambda>_.
                 try_then (require_servable env ms) (\<lambda>_.
                 try_then (preflight_public_return ms b payload s) (\<lambda>_.
                   public_evidence ms (bo_id b) eid EvidenceReturn s)))) of
        Inl e \<Rightarrow> (Inl e, s)
      | Inr ev \<Rightarrow>
          (case validate_evidence_upload (lo_env env) ev s of
             (Inl e, s) \<Rightarrow> (Inl e, s)
           | (Inr finalized, s) \<Rightarrow>
               (case return_tool_locked env ms b payload ev (fst finalized) (strip remark) problem s of
                  Inl e \<Rightarrow> (Inl e, s) | Inr t \<Rightarrow> (Inr (), t))))"

end
