(* ===== verification/Direct_Loans.thy ===== *)
theory Direct_Loans
  imports Loan_Services
begin

text \<open>
  Handouts by staff and their return (\<open>hardware_requests/direct_loan_workflow.py\<close>,
  \<open>direct_loan_returns.py\<close>, \<open>direct_loan_audit.py\<close>), and the triage of the problem reports that
  returns file (\<open>problem_report_workflow.py\<close>).
\<close>

section \<open>Handing out\<close>

definition checked_container :: "nat \<Rightarrow> nat \<Rightarrow> db \<Rightarrow> exn + box" where
  "checked_container ms cid s =
     (case find (\<lambda>b. b_id b = cid \<and> b_makerspace b = ms) (boxes s) of
        None \<Rightarrow> Inl RequestValidationError
      | Some b \<Rightarrow>
          if \<not> b_is_active b then Inl RequestValidationError
          else if list_ex (\<lambda>t. t_makerspace t = ms \<and> t_container t = Some cid \<and> t_checked_out t) (loans s)
          then Inl InvalidTransition
          else if reviewed_request_holds_box cid s then Inl InvalidTransition else Inr b)"

definition container_has_contents :: "nat \<Rightarrow> nat \<Rightarrow> db \<Rightarrow> bool" where
  "container_has_contents ms cid s =
     (let ids = container_subtree_ids ms cid s
      in list_ex (\<lambda>p. p_box p \<in> Some ` set ids \<and> \<not> p_is_archived p \<and> 0 < p_available p) (products s) \<or>
         list_ex (\<lambda>a. a_box a \<in> Some ` set ids \<and> a_status a = AVAILABLE) (assets s))"

definition selected_container :: "nat \<Rightarrow> nat option \<Rightarrow> bool \<Rightarrow> db \<Rightarrow> exn + nat option" where
  "selected_container ms cid alone s =
     (case cid of
        None \<Rightarrow> Inr None
      | Some c \<Rightarrow>
          try_then (checked_container ms c s) (\<lambda>b.
            if alone \<and> container_has_contents ms c s then Inl RequestValidationError else Inr (Some (b_id b))))"

definition hand_out_direct :: "nat \<Rightarrow> nat option \<Rightarrow> qr_code \<Rightarrow> basket \<times> db \<Rightarrow> exn + (basket \<times> db)" where
  "hand_out_direct ms container q us =
     (if q_target_type q = TargetBox \<and> container \<noteq> None \<and> container \<noteq> Some (q_target_id q) then Inl InvalidTransition
      else if qr_has_active_loan ms (snd us) q then Inl InvalidTransition
      else hand_out_qr False q us)"

definition manual_product :: "nat \<Rightarrow> nat \<Rightarrow> db \<Rightarrow> exn + product" where
  "manual_product ms pid s =
     (case product_of pid s of
        None \<Rightarrow> Inl RequestValidationError
      | Some p \<Rightarrow>
          if p_makerspace p \<noteq> ms \<or> p_is_archived p then Inl RequestValidationError
          else if p_tracking_mode p = INDIVIDUAL then Inl RequestValidationError else Inr p)"

definition hand_out_manual :: "nat \<Rightarrow> nat \<times> int \<Rightarrow> basket \<times> db \<Rightarrow> exn + (basket \<times> db)" where
  "hand_out_manual ms e us =
     try_then (manual_product ms (fst e) (snd us)) (\<lambda>p.
     try_then (issue_product p (snd e) (snd us)) (\<lambda>s.
       Inr ((fst us)\<lparr>bk_labels := bk_labels (fst us) @ [p_name p],
                     bk_counts := add_count (p_id p) (snd e) (bk_counts (fst us))\<rparr>, s)))"

definition direct_label :: "basket \<Rightarrow> db \<Rightarrow> string" where
  "direct_label u s =
     (if loan_label (bk_labels u) \<noteq> [] then loan_label (bk_labels u)
      else case bk_container u of
        None \<Rightarrow> ''Direct handout''
      | Some c \<Rightarrow> (case row_get b_id c (boxes s) of None \<Rightarrow> [] | Some b \<Rightarrow> b_label b))"

fun source_name :: "loan_source \<Rightarrow> string" where
  "source_name PublicSelfCheckout = ''public_self_checkout''"
| "source_name AdminDirect = ''admin_direct''"

definition record_item_log :: "nat \<Rightarrow> string \<Rightarrow> nat \<Rightarrow> tool_loan \<Rightarrow> request_item \<Rightarrow> db \<Rightarrow> db" where
  "record_item_log actor action ms t i =
     audit_record (Some actor) action ms (product_target (i_product i))
       [(''loan_id'', MInt (int (t_id t))), (''request_id'', MInt (int (t_request t))),
        (''product_id'', MInt (int (i_product i))), (''quantity'', MInt (i_issued i)),
        (''source'', MStr (source_name (t_source t)))]"

definition record_item_logs :: "nat \<Rightarrow> string \<Rightarrow> nat \<Rightarrow> tool_loan \<Rightarrow> db \<Rightarrow> db" where
  "record_item_logs actor action ms t s =
     (case t_container t of
        Some c \<Rightarrow>
          if request_items (t_request t) s = []
          then audit_record (Some actor) action ms (''boxes.box'', c)
                 [(''loan_id'', MInt (int (t_id t))), (''request_id'', MInt (int (t_request t))),
                  (''container_id'', MInt (int c)), (''source'', MStr (source_name (t_source t)))] s
          else fold (record_item_log actor action ms t) (request_items (t_request t) s) s
      | None \<Rightarrow> fold (record_item_log actor action ms t) (request_items (t_request t) s) s)"

definition rename_error :: "exn \<Rightarrow> exn \<Rightarrow> exn + 'a \<Rightarrow> exn + 'a" where
  "rename_error old new r = (case r of Inl e \<Rightarrow> Inl (if e = old then new else e) | Inr x \<Rightarrow> Inr x)"

lemma rename_error_Inr [ok_iff]: "rename_error old new r = Inr x \<longleftrightarrow> r = Inr x"
  by (cases r) (simp_all add: rename_error_def)

text \<open>The loan of a handout, its photo, scans and logs.\<close>

definition lend_direct :: "nat \<Rightarrow> nat \<Rightarrow> borrower \<Rightarrow> nat \<Rightarrow> qr_code list \<Rightarrow> basket \<Rightarrow> hardware_request \<Rightarrow> int \<Rightarrow> db \<Rightarrow> exn + db" where
  "lend_direct ms actor b eid qs u r due s =
     (let s = audit_record (Some actor) ''evidence.attached'' ms (request_target (r_id r))
                [(''evidence_id'', MInt (int eid)), (''type'', MStr ''issue''), (''stage'', MStr ''issue'')] s;
          t = new_loan (fresh_key t_id (loans s)) ms qs u (r_id r) b ''direct'' (r_id r) AdminDirect (direct_label u s) (Some due)
      in try_then (rename_error IntegrityError InvalidTransition (create_loan t s)) (\<lambda>s.
         Inr (record_item_logs actor ''admin_direct.checked_out'' ms t (scan_qrs actor ms (r_id r) ScanIssue qs s))))"

definition issue_direct_locked ::
  "loan_env \<Rightarrow> nat \<Rightarrow> nat \<Rightarrow> borrower \<Rightarrow> evidence_photo \<Rightarrow> int option \<Rightarrow> string \<Rightarrow> string list \<Rightarrow> (nat \<times> int) list \<Rightarrow>
   nat option \<Rightarrow> db \<Rightarrow> exn + db" where
  "issue_direct_locked env ms actor b ev finalized_size remark qr_payloads manual cid = atomic (\<lambda>s.
     try_then (lock_issue_evidence (e_id ev) s) (\<lambda>_.
     try_then (require_feature_locked env ms s) (\<lambda>m.
     try_then (require_servable env ms) (\<lambda>_.
     try_then (require_eligible_borrower env b ms) (\<lambda>_.
     try_then (selected_container ms cid (qr_payloads = [] \<and> manual = []) s) (\<lambda>container.
     try_then (distinct_qrs ms qr_payloads s) (\<lambda>qs.
     try_then (charge_storage_once (lo_env env) ev finalized_size s) (\<lambda>s.
     try_then (for_each (hand_out_direct ms container) qs (empty_basket\<lparr>bk_container := container\<rparr>, s)) (\<lambda>us.
     try_then (for_each (hand_out_manual ms) manual us) (\<lambda>(u, s).
     try_then (lend_basket actor ms b ''Admin direct handout'' (e_id ev) remark (Some (due_date m s)) u s) (\<lambda>(r, s).
       lend_direct ms actor b (e_id ev) qs u r (due_date m s) s)))))))))))"

definition issue_direct_loan ::
  "loan_env \<Rightarrow> nat \<Rightarrow> nat \<Rightarrow> borrower \<Rightarrow> nat \<Rightarrow> string \<Rightarrow> string list \<Rightarrow> (nat \<times> int) list \<Rightarrow> nat option \<Rightarrow> db \<Rightarrow>
   (exn + unit) \<times> db" where
  "issue_direct_loan env ms actor b eid remark qr_payloads manual cid s =
     (case try_then (require_feature env ms s) (\<lambda>_.
           try_then (require_servable env ms) (\<lambda>_.
           try_then (require_eligible_borrower env b ms) (\<lambda>_.
           try_then (of_option RequestValidationError
               (find (\<lambda>e. e_id e = eid \<and> e_makerspace e = ms \<and> e_type e = EvidenceIssue) (evidence s))) (\<lambda>ev.
             if cid = None \<and> qr_payloads = [] \<and> manual = [] then Inl RequestValidationError else Inr ev)))) of
        Inl e \<Rightarrow> (Inl e, s)
      | Inr ev \<Rightarrow>
          (case validate_evidence_upload (lo_env env) ev s of
             (Inl e, s) \<Rightarrow> (Inl e, s)
           | (Inr finalized, s) \<Rightarrow>
               (case issue_direct_locked env ms actor b ev (fst finalized) remark qr_payloads manual cid s of
                  Inl e \<Rightarrow> (Inl e, s) | Inr t \<Rightarrow> (Inr (), t))))"

section \<open>Taking back\<close>

definition expected_qr_ids :: "tool_loan \<Rightarrow> db \<Rightarrow> nat list" where
  "expected_qr_ids t s =
     (if t_qr_ids t \<noteq> [] then t_qr_ids t
      else case t_container t of
        None \<Rightarrow> []
      | Some c \<Rightarrow>
          (case find (\<lambda>q. q_makerspace q = t_makerspace t \<and> q_target_type q = TargetBox \<and> q_target_id q = c \<and> q_active q)
                  (qr_codes s) of
             None \<Rightarrow> [] | Some q \<Rightarrow> [q_id q]))"

definition return_scan_qr :: "tool_loan \<Rightarrow> string \<Rightarrow> db \<Rightarrow> exn + qr_code option" where
  "return_scan_qr t qr_payload s =
     (let payload = strip qr_payload
      in if expected_qr_ids t s \<noteq> []
         then if payload = [] then Inl RequestValidationError
              else try_then (of_option RequestValidationError
                     (find (\<lambda>q. q_id q \<in> set (expected_qr_ids t s) \<and> q_makerspace q = t_makerspace t \<and>
                        q_payload q = payload) (qr_codes s))) (\<lambda>q. Inr (Some q))
         else if payload = [] then Inr None
         else try_then (of_option RequestValidationError
                (find (\<lambda>q. q_makerspace q = t_makerspace t \<and> q_payload q = payload \<and> q_active q) (qr_codes s)))
                (\<lambda>q. Inr (Some q)))"

definition require_full_resolution :: "nat \<Rightarrow> resolution list \<Rightarrow> db \<Rightarrow> exn + unit" where
  "require_full_resolution rid validated s =
     require (list_all (\<lambda>i. remaining_quantity i \<le> 0 \<or>
       map_of (rev (map (\<lambda>x. (x_item x, resolution_quantity x)) validated)) (i_id i) = Some (remaining_quantity i))
       (request_items rid s)) ReturnValidationError"

definition loan_assets :: "tool_loan \<Rightarrow> nat \<Rightarrow> db \<Rightarrow> asset list" where
  "loan_assets t pid s =
     sort_key a_id (filter (\<lambda>a. a_id a \<in> set (t_asset_ids t) \<and> a_product a = pid \<and> a_makerspace a = t_makerspace t \<and>
       a_status a = ISSUED) (assets s))"

definition flip_direct_asset :: "asset list \<Rightarrow> nat \<times> asset_outcome \<Rightarrow> db \<Rightarrow> db" where
  "flip_direct_asset as e s =
     (case find (\<lambda>a. a_id a = fst e) as of
        None \<Rightarrow> s | Some a \<Rightarrow> put_asset (a\<lparr>a_status := snd (outcome_map (snd e))\<rparr>) s)"

definition flip_direct_loan_assets :: "tool_loan \<Rightarrow> request_item \<Rightarrow> resolution \<Rightarrow> db \<Rightarrow> exn + db" where
  "flip_direct_loan_assets t i x s =
     (let as = loan_assets t (i_product i) s
      in if x_assets x \<noteq> []
         then if \<not> distinct (map fst (x_assets x)) \<or> list_ex (\<lambda>e. fst e \<notin> set (map a_id as)) (x_assets x)
              then Inl ReturnValidationError
              else Inr (fold (flip_direct_asset as) (x_assets x) s)
         else if x_returned x \<le> 0 then Inr s
         else if int (length as) < x_returned x then Inl ReturnValidationError
         else Inr (shelve_assets (take (nat (x_returned x)) as) s))"

definition flip_direct_resolution :: "tool_loan \<Rightarrow> resolution \<Rightarrow> db \<Rightarrow> exn + db" where
  "flip_direct_resolution t x s =
     try_then (of_option DoesNotExist (item_of (x_item x) s)) (\<lambda>i.
       if \<not> is_individual s (i_product i) then Inr s else flip_direct_loan_assets t i x s)"

text \<open>Settling what is outstanding: nothing may stay out, and nothing may be settled twice.\<close>

definition settle_direct :: "nat \<Rightarrow> tool_loan \<Rightarrow> hardware_request \<Rightarrow> nat \<Rightarrow> resolution list \<Rightarrow> db \<Rightarrow> exn + db" where
  "settle_direct actor t r eid resolutions s =
     (if list_ex (\<lambda>i. 0 < remaining_quantity i) (request_items (r_id r) s)
      then try_then (build_resolutions (r_id r) resolutions s) (\<lambda>validated.
           try_then (require_full_resolution (r_id r) validated s) (\<lambda>_.
           try_then (return_items_stock validated s) (\<lambda>s.
           try_then (for_each (flip_direct_resolution t) validated s) (\<lambda>s.
             Inr (write_accountability actor r eid validated s)))))
      else if resolutions \<noteq> [] then Inl ReturnValidationError else Inr s)"

definition create_direct_event :: "nat \<Rightarrow> tool_loan \<Rightarrow> nat \<Rightarrow> string \<Rightarrow> db \<Rightarrow> exn + (nat \<times> db)" where
  "create_direct_event actor t eid remark s =
     (if list_ex (\<lambda>v. v_evidence v = eid) (return_events s) then Inl ReturnValidationError
      else let vid = fresh_key v_id (return_events s)
           in Inr (vid, s\<lparr>return_events := return_events s @
                [\<lparr>v_id = vid, v_request = t_request t, v_makerspace = t_makerspace t, v_box = t_container t,
                  v_evidence = eid, v_remark = remark, v_actor = actor\<rparr>]\<rparr>))"

definition return_direct_locked ::
  "loan_env \<Rightarrow> nat \<Rightarrow> nat \<Rightarrow> evidence_photo \<Rightarrow> int option \<Rightarrow> string \<Rightarrow> resolution list \<Rightarrow> string \<Rightarrow> db \<Rightarrow> exn + db" where
  "return_direct_locked env lid actor ev finalized_size remark resolutions qr_payload = atomic (\<lambda>s.
     try_then (of_option DoesNotExist (loan_of lid s)) (\<lambda>t.
     try_then (locked_request (t_request t) s) (\<lambda>r.
     try_then (require (t_checked_out t) InvalidTransition) (\<lambda>_.
     try_then (lock_return_evidence (e_id ev) s) (\<lambda>_.
     try_then (charge_storage_once (lo_env env) ev finalized_size s) (\<lambda>s.
     try_then (return_scan_qr t qr_payload s) (\<lambda>q.
     try_then (settle_direct actor t r (e_id ev) resolutions s) (\<lambda>s.
     try_then (create_direct_event actor t (e_id ev) remark s) (\<lambda>(event, s).
     try_then (finalize_return_status r actor s) (\<lambda>(_, s).
     try_then (rename_error IntegrityError ReturnValidationError (save_loan (closed_loan t (now s) (e_id ev) remark) s)) (\<lambda>s.
     let s = (case q of None \<Rightarrow> s | Some q \<Rightarrow> scan_qr actor (t_makerspace t) (t_request t) ScanReturn q s)
     in Inr (audit_record (Some actor) ''evidence.attached'' (t_makerspace t) (evidence_target (e_id ev))
          [(''request_id'', MInt (int (t_request t))), (''return_event_id'', MInt (int event))]
          (record_item_logs actor ''admin_direct.returned'' (t_makerspace t) t s)))))))))))))"

definition return_direct_loan ::
  "loan_env \<Rightarrow> tool_loan \<Rightarrow> nat \<Rightarrow> nat \<Rightarrow> string \<Rightarrow> resolution list \<Rightarrow> string \<Rightarrow> db \<Rightarrow> (exn + unit) \<times> db" where
  "return_direct_loan env seen actor eid notes_text resolutions qr_payload s =
     (case (if strip notes_text = [] then Inl RequestValidationError
            else case find (\<lambda>e. e_id e = eid \<and> e_makerspace e = t_makerspace seen \<and> e_type e = EvidenceReturn) (evidence s) of
              None \<Rightarrow> Inl RequestValidationError
            | Some ev \<Rightarrow> if \<not> t_checked_out seen then Inl InvalidTransition else Inr ev) of
        Inl e \<Rightarrow> (Inl e, s)
      | Inr ev \<Rightarrow>
          (case validate_evidence_upload (lo_env env) ev s of
             (Inl e, s) \<Rightarrow> (Inl e, s)
           | (Inr finalized, s) \<Rightarrow>
               (case return_direct_locked env (t_id seen) actor ev (fst finalized) (strip notes_text) resolutions qr_payload s of
                  Inl e \<Rightarrow> (Inl e, s) | Inr t \<Rightarrow> (Inr (), t))))"

section \<open>Problem reports\<close>

fun report_issue :: "report_outcome \<Rightarrow> issue_type" where
  "report_issue OutcomeMissing = IssueMissing"
| "report_issue _ = IssueDamaged"

fun report_status :: "report_outcome \<Rightarrow> asset_status" where
  "report_status OutcomeDamaged = DAMAGED"
| "report_status OutcomeMissing = LOST"
| "report_status _ = MAINTENANCE"

fun outcome_text :: "report_outcome \<Rightarrow> string" where
  "outcome_text NoIssue = ''no_issue''"
| "outcome_text OutcomeDamaged = ''damaged''"
| "outcome_text OutcomeMissing = ''missing''"
| "outcome_text OutcomeNeedsFix = ''needs_fix''"

definition validated_triage :: "nat \<Rightarrow> db \<Rightarrow> nat \<times> int \<Rightarrow> exn + (request_item \<times> int)" where
  "validated_triage rid s e =
     (case find (\<lambda>i. i_id i = fst e) (request_items rid s) of
        None \<Rightarrow> Inl ReturnValidationError
      | Some i \<Rightarrow>
          if snd e \<le> 0 then Inl ReturnValidationError
          else if i_issued i < snd e then Inl ReturnValidationError else Inr (i, snd e))"

definition validated_resolutions :: "nat \<Rightarrow> (nat \<times> int) list \<Rightarrow> db \<Rightarrow> exn + (request_item \<times> int) list" where
  "validated_resolutions rid entries s =
     (if entries = [] then Inl ReturnValidationError else collect (validated_triage rid s) entries)"

definition shelved_assets :: "tool_loan \<Rightarrow> nat \<Rightarrow> nat \<Rightarrow> db \<Rightarrow> asset list" where
  "shelved_assets t ms pid s =
     sort_key a_id (filter (\<lambda>a. a_id a \<in> set (t_asset_ids t) \<and> a_makerspace a = ms \<and> a_product a = pid \<and>
       a_status a = AVAILABLE) (assets s))"

definition move_individual_assets :: "problem_report \<Rightarrow> tool_loan \<Rightarrow> nat \<Rightarrow> int \<Rightarrow> asset_status \<Rightarrow> db \<Rightarrow> exn + db" where
  "move_individual_assets g t pid quantity status s =
     (let as = take (nat quantity) (shelved_assets t (g_makerspace g) pid s)
      in if int (length as) \<noteq> quantity then Inl ReturnValidationError
         else for_each (\<lambda>a. move_asset_status (a_id a) status) as s)"

definition move_stock :: "nat \<Rightarrow> problem_report \<Rightarrow> tool_loan \<Rightarrow> report_outcome \<Rightarrow> request_item \<times> int \<Rightarrow> db \<Rightarrow> exn + db" where
  "move_stock actor g t outcome e s =
     (if is_individual s (i_product (fst e))
      then move_individual_assets g t (i_product (fst e)) (snd e) (report_status outcome) s
      else move_available_to_triage_bucket (i_product (fst e)) (snd e) outcome
             (''Public problem report #'' @ digits_of (g_id g) @ '': '' @ outcome_text outcome) (Some actor) s)"

definition write_report_accountability ::
  "nat \<Rightarrow> problem_report \<Rightarrow> report_outcome \<Rightarrow> request_item \<times> int \<Rightarrow> string \<Rightarrow> nat option \<Rightarrow> db \<Rightarrow> db" where
  "write_report_accountability actor g outcome e remark eid s =
     audit_record (Some actor) (''item.'' @ issue_name (report_issue outcome)) (g_makerspace g) (item_target (i_id (fst e)))
       [(''request_id'', MInt (int (g_request g))), (''problem_report_id'', MInt (int (g_id g))),
        (''outcome'', MStr (outcome_text outcome)),
        (''evidence_id'', case eid of None \<Rightarrow> MNone | Some i \<Rightarrow> MInt (int i)), (''quantity'', MInt (snd e))]
       (s\<lparr>accountabilities := accountabilities s @
          [\<lparr>c_requester = g_requester g, c_request = g_request g, c_item = i_id (fst e), c_makerspace = g_makerspace g,
            c_issue_type = report_issue outcome, c_description = remark, c_evidence = eid, c_quantity = snd e,
            c_created_by = actor\<rparr>]\<rparr>)"

definition triage_item ::
  "nat \<Rightarrow> problem_report \<Rightarrow> tool_loan \<Rightarrow> report_outcome \<Rightarrow> string \<Rightarrow> nat option \<Rightarrow> request_item \<times> int \<Rightarrow> db \<Rightarrow> exn + db" where
  "triage_item actor g t outcome remark eid e s =
     try_then (move_stock actor g t outcome e s) (\<lambda>s.
       Inr (write_report_accountability actor g outcome e remark eid s))"

definition triage_items ::
  "nat \<Rightarrow> problem_report \<Rightarrow> report_outcome \<Rightarrow> (nat \<times> int) list \<Rightarrow> string \<Rightarrow> nat option \<Rightarrow> db \<Rightarrow> exn + ((nat \<times> int) list \<times> db)" where
  "triage_items actor g outcome entries remark eid s =
     (if outcome = NoIssue then Inr ([], s)
      else try_then (of_option DoesNotExist (loan_of (g_loan g) s)) (\<lambda>t.
           try_then (validated_resolutions (g_request g) entries s) (\<lambda>validated.
           try_then (for_each (triage_item actor g t outcome remark eid) validated s) (\<lambda>s.
             Inr (map (\<lambda>e. (i_id (fst e), snd e)) validated, s)))))"

definition report_of :: "nat \<Rightarrow> db \<Rightarrow> problem_report option" where
  "report_of i s = row_get g_id i (reports s)"

text \<open>The photo is optional; its size is known when there is one.\<close>

definition charge_triage :: "loan_env \<Rightarrow> (evidence_photo \<times> int option) option \<Rightarrow> nat \<Rightarrow> db \<Rightarrow> exn + db" where
  "charge_triage env photo ms s =
     (case photo of
        None \<Rightarrow> try_then (get_makerspace ms s) (\<lambda>_. Inr s)
      | Some (ev, n) \<Rightarrow>
          try_then (lock_evidence_for_attachment (e_id ev) False s) (\<lambda>attachable.
          try_then (require attachable RequestValidationError) (\<lambda>_.
          try_then (get_makerspace ms s) (\<lambda>_. charge_storage_once (lo_env env) ev n s))))"

definition triage_locked ::
  "loan_env \<Rightarrow> nat \<Rightarrow> nat \<Rightarrow> report_outcome \<Rightarrow> (nat \<times> int) list \<Rightarrow> string \<Rightarrow> (evidence_photo \<times> int option) option \<Rightarrow> db \<Rightarrow> exn + db" where
  "triage_locked env gid actor outcome entries remark photo = atomic (\<lambda>s.
     try_then (of_option DoesNotExist (report_of gid s)) (\<lambda>g.
     try_then (require (g_resolved_at g = None) InvalidTransition) (\<lambda>_.
     try_then (charge_triage env photo (g_makerspace g) s) (\<lambda>s.
     try_then (triage_items actor g outcome entries remark (map_option (\<lambda>x. e_id (fst x)) photo) s) (\<lambda>(quantities, s).
       Inr (audit_record (Some actor) ''problem_report.triaged'' (g_makerspace g)
         (''hardware_requests.publicproblemreport'', g_id g)
         [(''outcome'', MStr (outcome_text outcome)), (''quantities'', MInts quantities),
          (''loan_id'', MInt (int (g_loan g))), (''request_id'', MInt (int (g_request g))),
          (''evidence_id'', case photo of None \<Rightarrow> MNone | Some x \<Rightarrow> MInt (int (e_id (fst x))))]
         (s\<lparr>reports := row_put g_id (g\<lparr>g_outcome := Some outcome, g_triage_note := remark, g_resolved_at := Some (now s),
              g_resolved_by := Some actor\<rparr>) (reports s)\<rparr>)))))))"

definition triage_problem_report ::
  "loan_env \<Rightarrow> problem_report \<Rightarrow> nat \<Rightarrow> report_outcome \<Rightarrow> (nat \<times> int) list \<Rightarrow> string \<Rightarrow> nat option \<Rightarrow> db \<Rightarrow> (exn + unit) \<times> db" where
  "triage_problem_report env seen actor outcome entries remark eid s =
     (if g_resolved_at seen \<noteq> None then (Inl InvalidTransition, s)
      else case eid of
        None \<Rightarrow> (case triage_locked env (g_id seen) actor outcome entries (strip remark) None s of
                   Inl e \<Rightarrow> (Inl e, s) | Inr t \<Rightarrow> (Inr (), t))
      | Some i \<Rightarrow>
          (case find (\<lambda>e. e_id e = i \<and> e_makerspace e = g_makerspace seen) (evidence s) of
             None \<Rightarrow> (Inl RequestValidationError, s)
           | Some ev \<Rightarrow>
               (case validate_evidence_upload (lo_env env) ev s of
                  (Inl e, s) \<Rightarrow> (Inl e, s)
                | (Inr finalized, s) \<Rightarrow>
                    (case triage_locked env (g_id seen) actor outcome entries (strip remark) (Some (ev, fst finalized)) s of
                       Inl e \<Rightarrow> (Inl e, s) | Inr t \<Rightarrow> (Inr (), t)))))"

section \<open>The loan machine\<close>

text \<open>The transactions of the loan services, each after the promotion of its photo.\<close>

datatype loan_op =
    Checkout nat borrower evidence_photo "int option" string "string list"
  | ReturnTool nat borrower string evidence_photo "int option" string "string option"
  | IssueDirect nat nat borrower evidence_photo "int option" string "string list" "(nat \<times> int) list" "nat option"
  | ReturnDirect nat nat evidence_photo "int option" string "resolution list" string

text \<open>The request bodies: quantities of a handout are positive, an item is resolved once.\<close>

definition direct_return_valid :: "resolution list \<Rightarrow> bool" where
  "direct_return_valid xs \<longleftrightarrow> list_all resolution_nonneg xs \<and> distinct (map x_item xs)"

fun loan_step :: "loan_env \<Rightarrow> loan_op \<Rightarrow> db \<Rightarrow> exn + db" where
  "loan_step env (Checkout ms b ev n remark payloads) s =
     (if payloads = [] then Inl RequestValidationError else checkout_locked env ms b ev n remark payloads s)"
| "loan_step env (ReturnTool ms b payload ev n remark problem) s = return_tool_locked env ms b payload ev n remark problem s"
| "loan_step env (IssueDirect ms actor b ev n remark payloads manual cid) s =
     (if list_all (\<lambda>e. 1 \<le> snd e) manual then issue_direct_locked env ms actor b ev n remark payloads manual cid s
      else Inl ValidationError)"
| "loan_step env (ReturnDirect lid actor ev n remark xs payload) s =
     (if direct_return_valid xs then return_direct_locked env lid actor ev n remark xs payload s else Inl ValidationError)"

end
