(* ===== verification/Ledger.thy ===== *)
theory Ledger
  imports Returns
begin

text \<open>
  The request ledger against the stock. For every product, the units it has reserved are those
  of the items of accepted requests, and the units it has issued those still out on the items of
  issued requests, up to a surplus that belongs to nobody here (units reserved or lent by other
  means). No operation of the workflow changes that surplus: it is what makes an accepted request
  always issuable and an issued unit always returnable.
\<close>

section \<open>Phases of an item\<close>

definition untouched :: "request_item \<Rightarrow> bool" where
  "untouched i \<longleftrightarrow> i_issued i = 0 \<and> i_returned i = 0 \<and> i_damaged i = 0 \<and> i_missing i = 0 \<and> i_needs_fix i = 0"

text \<open>What the quantities of an item may be in each status of its request.\<close>

fun phase_ok :: "request_status \<Rightarrow> request_item \<Rightarrow> bool" where
  "phase_ok Draft i = (untouched i \<and> i_accepted i = 0)"
| "phase_ok PendingApproval i = (untouched i \<and> i_accepted i = 0)"
| "phase_ok Rejected i = (untouched i \<and> i_accepted i = 0)"
| "phase_ok Accepted i = (untouched i \<and> i_accepted i \<le> i_requested i)"
| "phase_ok Cancelled i = (untouched i \<and> i_accepted i \<le> i_requested i)"
| "phase_ok Issued i = (i_accepted i \<le> i_requested i \<and> i_issued i + i_needs_fix i \<le> i_accepted i \<and>
     0 \<le> remaining_quantity i)"
| "phase_ok PartiallyReturned i = (i_accepted i \<le> i_requested i \<and> i_issued i + i_needs_fix i \<le> i_accepted i \<and>
     0 \<le> remaining_quantity i)"
| "phase_ok Returned i = (i_accepted i \<le> i_requested i \<and> i_issued i + i_needs_fix i \<le> i_accepted i \<and>
     remaining_quantity i = 0)"
| "phase_ok ClosedWithIssue i = (i_accepted i \<le> i_requested i \<and> i_issued i + i_needs_fix i \<le> i_accepted i \<and>
     remaining_quantity i = 0)"

definition ledger_ok :: "db \<Rightarrow> bool" where
  "ledger_ok s \<longleftrightarrow> tables_ok s \<and> unique_keys r_id (requests s) \<and>
     (\<forall>i \<in> set (items s). \<exists>r. request_of (i_request i) s = Some r \<and> phase_ok (r_status r) i)"

section \<open>What the requests hold of a product\<close>

definition demand :: "(request_status \<Rightarrow> request_item \<Rightarrow> int) \<Rightarrow> nat \<Rightarrow> db \<Rightarrow> int" where
  "demand w pid s = sum_list (map (\<lambda>i. if i_product i = pid
     then (case item_request_status s i of None \<Rightarrow> 0 | Some st \<Rightarrow> w st i) else 0) (items s))"

definition reserved_by :: "request_status \<Rightarrow> request_item \<Rightarrow> int" where
  "reserved_by st i = (if st = Accepted then i_accepted i else 0)"

definition issued_by :: "request_status \<Rightarrow> request_item \<Rightarrow> int" where
  "issued_by st i = (if st = Issued \<or> st = PartiallyReturned then remaining_quantity i else 0)"

definition reserved_of :: "nat \<Rightarrow> db \<Rightarrow> int" where
  "reserved_of pid s = (case product_of pid s of None \<Rightarrow> 0 | Some p \<Rightarrow> p_reserved p)"

definition issued_of :: "nat \<Rightarrow> db \<Rightarrow> int" where
  "issued_of pid s = (case product_of pid s of None \<Rightarrow> 0 | Some p \<Rightarrow> p_issued p)"

definition reserved_surplus :: "nat \<Rightarrow> db \<Rightarrow> int" where
  "reserved_surplus pid s = reserved_of pid s - demand reserved_by pid s"

definition issued_surplus :: "nat \<Rightarrow> db \<Rightarrow> int" where
  "issued_surplus pid s = issued_of pid s - demand issued_by pid s"

definition same_surplus :: "db \<Rightarrow> db \<Rightarrow> bool" where
  "same_surplus s t \<longleftrightarrow> (\<forall>pid. reserved_surplus pid t = reserved_surplus pid s \<and>
     issued_surplus pid t = issued_surplus pid s)"

lemma accepted_demand_eq: "accepted_demand pid s = demand reserved_by pid s"
proof -
  have "sum_list (map i_accepted (filter (\<lambda>i. i_product i = pid \<and> item_request_status s i = Some Accepted) its)) =
      sum_list (map (\<lambda>i. if i_product i = pid
        then (case item_request_status s i of None \<Rightarrow> 0 | Some st \<Rightarrow> reserved_by st i) else 0) its)" for its
    by (induction its) (auto simp: reserved_by_def split: option.split)
  then show ?thesis by (simp add: accepted_demand_def accepted_items_def demand_def)
qed

text \<open>Everything the ledger reads of a state.\<close>

definition core :: "db \<Rightarrow> product list \<times> request_item list \<times> hardware_request list" where
  "core s = (products s, items s, requests s)"

lemma core_eqD: "core t = core s \<Longrightarrow> products t = products s \<and> items t = items s \<and> requests t = requests s"
  by (simp add: core_def)

lemma ledger_ok_core: "core t = core s \<Longrightarrow> ledger_ok t = ledger_ok s"
  by (simp add: core_def ledger_ok_def tables_ok_def stock_ok_def items_ok_def request_of_def)

lemma same_surplus_core: "core t = core s \<Longrightarrow> same_surplus s t"
  by (simp add: core_def same_surplus_def reserved_surplus_def issued_surplus_def reserved_of_def
      issued_of_def demand_def product_of_def item_request_status_def
      cong: if_cong)

lemma same_surplus_refl [simp]: "same_surplus s s"
  by (simp add: same_surplus_def)

lemma same_surplus_trans [trans]: "same_surplus s t \<Longrightarrow> same_surplus t u \<Longrightarrow> same_surplus s u"
  by (simp add: same_surplus_def)

section \<open>One request moves on\<close>

text \<open>
  The shape of every step after the submission: one request changes its row, its items change
  their quantities, and everybody else's rows stay.
\<close>

definition moved ::
  "hardware_request \<Rightarrow> hardware_request \<Rightarrow> (request_item \<Rightarrow> request_item) \<Rightarrow> db \<Rightarrow> db \<Rightarrow> bool" where
  "moved r r' g s t \<longleftrightarrow> request_of (r_id r) s = Some r \<and> r_id r' = r_id r \<and>
     requests t = row_put r_id r' (requests s) \<and>
     items t = map (\<lambda>i. if i_request i = r_id r then g i else i) (items s) \<and>
     (\<forall>i \<in> set (items s). i_request i = r_id r \<longrightarrow> i_id (g i) = i_id i \<and> i_request (g i) = i_request i \<and>
        i_product (g i) = i_product i)"

lemma moved_request_of:
  "moved r r' g s t \<Longrightarrow> request_of rid t = (if rid = r_id r then Some r' else request_of rid s)"
  by (auto simp: moved_def request_of_def row_get_row_put)

lemma item_request_status_eq: "item_request_status s i = map_option r_status (request_of (i_request i) s)"
  by (simp add: item_request_status_def request_of_def)

lemma moved_demand:
  assumes "moved r r' g s t"
  shows "demand w pid t = demand w pid s +
    sum_list (map (\<lambda>i. if i_product i = pid then w (r_status r') (g i) - w (r_status r) i else 0)
      (request_items (r_id r) s))"
proof -
  have req: "request_of rid t = (if rid = r_id r then Some r' else request_of rid s)" for rid
    using assms by (rule moved_request_of)
  have r: "request_of (r_id r) s = Some r" using assms by (simp add: moved_def)
  have "sum_list (map (\<lambda>i. if i_product i = pid then (case item_request_status t i of None \<Rightarrow> 0 | Some st \<Rightarrow> w st i) else 0)
          (map (\<lambda>i. if i_request i = r_id r then g i else i) its)) =
      sum_list (map (\<lambda>i. if i_product i = pid then (case item_request_status s i of None \<Rightarrow> 0 | Some st \<Rightarrow> w st i) else 0) its) +
      sum_list (map (\<lambda>i. if i_product i = pid then w (r_status r') (g i) - w (r_status r) i else 0)
        (filter (\<lambda>i. i_request i = r_id r) its))"
    if "set its \<subseteq> set (items s)" for its
    using that
  proof (induction its)
    case (Cons i its)
    have "i_request i = r_id r \<Longrightarrow> i_product (g i) = i_product i \<and> i_request (g i) = i_request i"
      using assms Cons.prems by (auto simp: moved_def)
    with Cons show ?case by (auto simp: item_request_status_eq req r)
  qed simp
  from this [of "items s"] show ?thesis
    using assms by (simp add: demand_def moved_def request_items_def)
qed

lemma moved_ledger_ok:
  assumes "moved r r' g s t" and "ledger_ok s" and "stock_ok t"
    and "\<And>i. i \<in> set (request_items (r_id r) s) \<Longrightarrow> phase_ok (r_status r) i \<Longrightarrow>
      item_in_range i \<Longrightarrow> item_constraints i \<Longrightarrow>
      phase_ok (r_status r') (g i) \<and> item_in_range (g i) \<and> item_constraints (g i)"
  shows "ledger_ok t"
proof -
  have req: "request_of rid t = (if rid = r_id r then Some r' else request_of rid s)" for rid
    using assms(1) by (rule moved_request_of)
  have its: "items t = map (\<lambda>i. if i_request i = r_id r then g i else i) (items s)"
    and ids: "\<And>i. i \<in> set (items s) \<Longrightarrow> i_request i = r_id r \<Longrightarrow>
      i_id (g i) = i_id i \<and> i_request (g i) = i_request i"
    and r: "request_of (r_id r) s = Some r"
    using assms(1) by (auto simp: moved_def)
  have ok: "phase_ok (r_status r') (g i) \<and> item_in_range (g i) \<and> item_constraints (g i)"
    if "i \<in> set (items s)" "i_request i = r_id r" for i
    using assms(2) assms(4) [of i] r that
    by (auto simp: ledger_ok_def tables_ok_def items_ok_def request_items_def)
  have "map i_id (items t) = map i_id (items s)" using ids by (auto simp: its)
  then have "unique_keys i_id (items t)"
    using assms(2) by (simp add: unique_keys_def ledger_ok_def tables_ok_def items_ok_def)
  moreover have "unique_keys r_id (requests t)"
    using assms(1,2) by (simp add: moved_def ledger_ok_def)
  ultimately show ?thesis
    using assms(2,3) ok ids by (auto simp: its req ledger_ok_def tables_ok_def items_ok_def r)
qed

end
