(* ===== verification/Ledger_Steps.thy ===== *)
theory Ledger_Steps
  imports Ledger
begin

text \<open>
  What each operation of the request workflow does to the ledger: which request moves to which
  status, how its items change, and what is added to and taken from the reserved and issued
  buckets of every product.
\<close>

section \<open>Steps that leave the ledger alone\<close>

lemma core_simps [simp]:
  "core (audit_record actor act ms tgt meta s) = core s"
  "core (notify ev i s) = core s"
  "core (s\<lparr>in_atomic := b\<rparr>) = core s"
  "core (put_asset a s) = core s"
  "core (put_link l s) = core s"
  "core (create_qr_scan x s) = core s"
  "core (put_finalization f s) = core s"
  "core (put_makerspace m s) = core s"
  "core (s\<lparr>links := ls\<rparr>) = core s"
  "core (s\<lparr>box_scans := bs\<rparr>) = core s"
  "core (s\<lparr>return_events := vs\<rparr>) = core s"
  "core (s\<lparr>accountabilities := cs\<rparr>) = core s"
  by (simp_all add: core_def audit_record_def notify_def put_asset_def put_link_def
      create_qr_scan_def put_finalization_def put_makerspace_def)

lemma charge_storage_core: "charge_storage_once env ev n s = Inr t \<Longrightarrow> core t = core s"
proof -
  have "yields (\<lambda>t. core t = core s) (\<lambda>_. True) (charge_storage_once env ev n s)"
    by (auto simp: charge_storage_once_def get_makerspace_def Let_def split: option.splits intro!: wp)
  then show "charge_storage_once env ev n s = Inr t \<Longrightarrow> core t = core s" by simp
qed

lemma set_link_outcome_core: "set_link_outcome l oc status event s = Inr t \<Longrightarrow> core t = core s"
  by (auto simp: set_link_outcome_def ok_iff)

lemma flip_exact_core: "flip_exact_asset_links actor locked iid outcomes event s = Inr t \<Longrightarrow> core t = core s"
  by (auto simp: flip_exact_asset_links_def Let_def flip_exact_link_def ok_iff split: if_splits option.splits
      elim!: for_each_inv [where I = "\<lambda>u. core u = core s"] dest!: set_link_outcome_core)

lemma flip_core: "flip_individual_asset_returns actor locked xs event s = Inr t \<Longrightarrow> core t = core s"
  unfolding flip_individual_asset_returns_def
proof (rule for_each_inv [where I = "\<lambda>u. core u = core s"])
  fix x u v
  assume "core u = core s" and "flip_resolution actor locked event x u = Inr v"
  moreover have "core v = core u" if "flip_asset_links iid q oc st ev u = Inr v" for iid q oc st ev
    using that by (auto simp: flip_asset_links_def Let_def split: if_splits
        elim!: for_each_inv [where I = "\<lambda>w. core w = core u"] dest!: set_link_outcome_core)
  ultimately show "core v = core s"
    by (auto simp: flip_resolution_def ok_iff split: if_splits dest!: flip_exact_core)
qed simp_all

lemma write_accountability_core [simp]: "core (write_accountability actor locked eid xs s) = core s"
  by (induction xs arbitrary: s) (simp_all add: write_accountability_def write_issue_def)

lemma issue_item_assets_core:
  "issue_item_assets actor locked qr_for i st = Inr st' \<Longrightarrow> core (snd st') = core (snd st)"
  by (auto simp: issue_item_assets_def Let_def ok_iff issue_asset_def create_link_def split: if_splits
      elim!: for_each_inv [where I = "\<lambda>u. core u = core (snd st)"])

lemma issue_individual_assets_core:
  assumes "issue_individual_assets actor locked payloads s = Inr t"
  shows "core t = core s"
proof -
  have "core (snd st) = core s"
    if "for_each (issue_item_assets actor locked q) its (a, s) = Inr st" for q its a st
    using that by (rule for_each_inv [where I = "\<lambda>st. core (snd st) = core s"])
      (auto dest: issue_item_assets_core)
  with assms show ?thesis
    by (fastforce simp: issue_individual_assets_def Let_def ok_iff split: if_splits)
qed

section \<open>Accepting\<close>

definition same_but_items :: "db \<Rightarrow> db \<Rightarrow> bool" where
  "same_but_items s t \<longleftrightarrow> t\<lparr>items := []\<rparr> = s\<lparr>items := []\<rparr>"

definition same_but_products :: "db \<Rightarrow> db \<Rightarrow> bool" where
  "same_but_products s t \<longleftrightarrow> t\<lparr>products := []\<rparr> = s\<lparr>products := []\<rparr>"

lemma same_but_itemsD: "same_but_items s t \<Longrightarrow> t = s\<lparr>items := items t\<rparr>"
proof -
  assume "same_but_items s t"
  then have "t\<lparr>items := []\<rparr>\<lparr>items := items t\<rparr> = s\<lparr>items := []\<rparr>\<lparr>items := items t\<rparr>"
    by (simp only: same_but_items_def)
  then show ?thesis by simp
qed

lemma same_but_productsD: "same_but_products s t \<Longrightarrow> t = s\<lparr>products := products t\<rparr>"
proof -
  assume "same_but_products s t"
  then have "t\<lparr>products := []\<rparr>\<lparr>products := products t\<rparr> = s\<lparr>products := []\<rparr>\<lparr>products := products t\<rparr>"
    by (simp only: same_but_products_def)
  then show ?thesis by simp
qed

lemma same_but_refl [simp]: "same_but_items s s" "same_but_products s s"
  by (simp_all add: same_but_items_def same_but_products_def)

lemma same_but_products_trans: "same_but_products s t \<Longrightarrow> same_but_products t u \<Longrightarrow> same_but_products s u"
  by (simp add: same_but_products_def)

lemma same_but_products_fields:
  assumes "same_but_products s t"
  shows "items t = items s" "requests t = requests s" "in_atomic t = in_atomic s" "assets t = assets s"
    "links t = links s" "boxes t = boxes s" "now t = now s" "loans t = loans s"
  by (subst same_but_productsD [OF assms]; simp)+

lemma save_product_same: "save_product p s = Inr t \<Longrightarrow> same_but_products s t"
  by (simp add: save_product_Inr same_but_products_def)

definition accepted_item :: "(nat \<times> int) list option \<Rightarrow> request_item \<Rightarrow> request_item" where
  "accepted_item acc i = i\<lparr>i_accepted := accepted_qty acc i\<rparr>"

lemma distinct_items: "tables_ok s \<Longrightarrow> distinct (items s)"
  by (auto simp: tables_ok_def items_ok_def unique_keys_def distinct_map)

lemma distinct_items_by_product: "tables_ok s \<Longrightarrow> distinct (items_by_product rid s)"
  by (simp add: items_by_product_def request_items_def distinct_items)

lemma map_items_by_product:
  "map (\<lambda>r. if r \<in> set (items_by_product rid s) then g r else r) (items s) =
    map (\<lambda>i. if i_request i = rid then g i else i) (items s)"
  by (simp add: set_items_by_product)

lemma accept_loop:
  assumes "for_each (accept_item acc) (items_by_product rid s) s = Inr t" and "tables_ok s"
  shows "t = s\<lparr>items := map (\<lambda>i. if i_request i = rid then accepted_item acc i else i) (items s)\<rparr>"
    and "tables_ok t"
    and "\<forall>i \<in> set (request_items rid s). 0 \<le> accepted_qty acc i \<and> accepted_qty acc i \<le> i_requested i"
proof -
  let ?its = "items_by_product rid s"
  have "items t = map (\<lambda>r. if r \<in> set ?its then accepted_item acc r else r) (items s)"
    by (rule for_each_rows [OF assms(1), where key = i_id])
      (use assms(2) in \<open>auto simp: distinct_items_by_product tables_ok_def items_ok_def
        set_items_by_product accept_item_def accepted_item_def Let_def save_item_Inr split: if_splits\<close>)
  then have items: "items t = map (\<lambda>i. if i_request i = rid then accepted_item acc i else i) (items s)"
    by (simp only: map_items_by_product)
  have "same_but_items s t"
    using assms(1) by (rule for_each_inv) (auto simp: same_but_items_def accept_item_def Let_def
        save_item_Inr split: if_splits)
  from same_but_itemsD [OF this] items show "t = s\<lparr>items := map (\<lambda>i. if i_request i = rid then accepted_item acc i else i) (items s)\<rparr>"
    by simp
  show "tables_ok t"
    using assms by (rule for_each_inv) (auto simp: accept_item_def Let_def split: if_splits
        dest: save_item_tables_ok)
  have "0 \<le> accepted_qty acc i \<and> accepted_qty acc i \<le> i_requested i" if "i \<in> set its"
    "for_each (accept_item acc) its u = Inr v" for i its u v
    using that by (induction its arbitrary: u) (auto simp: ok_iff accept_item_def Let_def split: if_splits)
  with assms(1) show "\<forall>i \<in> set (request_items rid s). 0 \<le> accepted_qty acc i \<and> accepted_qty acc i \<le> i_requested i"
    by (metis items_by_product_def set_sort)
qed

text \<open>Reserving and releasing change one bucket pair of the products of the request.\<close>

lemma reserved_of_save:
  "save_product p s = Inr t \<Longrightarrow> product_of (p_id p) s = Some q \<Longrightarrow>
    reserved_of pid t = (if pid = p_id p then p_reserved p else reserved_of pid s) \<and>
    issued_of pid t = (if pid = p_id p then p_issued p else issued_of pid s)"
  by (auto simp: save_product_Inr reserved_of_def issued_of_def product_of_put)

lemma reserved_of_Some: "product_of pid s = Some p \<Longrightarrow> reserved_of pid s = p_reserved p \<and> issued_of pid s = p_issued p"
  by (simp add: reserved_of_def issued_of_def)

lemma reserve_product_step:
  "reserve_product x q u = Inr v \<Longrightarrow> same_but_products u v \<and>
    reserved_of pid v = reserved_of pid u + (if x = pid then q else 0) \<and> issued_of pid v = issued_of pid u"
  by (auto simp: reserve_product_def ok_iff save_product_Inr reserved_of_def issued_of_def product_of_put
      same_but_products_def dest: product_of_id)

lemma release_product_step:
  "release_product x q u = Inr v \<Longrightarrow> same_but_products u v \<and>
    reserved_of pid v = reserved_of pid u - (if x = pid then q else 0) \<and> issued_of pid v = issued_of pid u"
  by (cases "q = 0") (auto simp: release_product_def ok_iff save_product_Inr reserved_of_def issued_of_def
      product_of_put same_but_products_def dest: product_of_id)

lemma reserve_for_request_step:
  assumes "reserve_for_request rid s = Inr t" and "tables_ok s"
  shows "same_but_products s t" and "tables_ok t"
    and "reserved_of pid t = reserved_of pid s + accepted_quantity rid pid s"
    and "issued_of pid t = issued_of pid s"
proof -
  let ?its = "items_by_product rid s"
  have loop: "for_each (\<lambda>x. reserve_product x (required_quantity ?its x)) (required_products ?its) s = Inr t"
    using assms(1) by (auto simp: reserve_for_request_def Let_def split: if_splits)
  show "same_but_products s t"
    using loop by (rule for_each_inv)
      (auto dest: reserve_product_step intro: same_but_products_trans)
  show "tables_ok t" using assms yields_Inr [OF reserve_for_request_safe] by blast
  have "reserved_of pid t = reserved_of pid s +
      sum_list (map (\<lambda>x. if x = pid then required_quantity ?its x else 0) (required_products ?its))"
  proof (rule for_each_sum [OF loop, where I = "\<lambda>_. True"])
    fix x u v
    assume "reserve_product x (required_quantity ?its x) u = Inr v"
    from reserve_product_step [OF this, of pid]
    show "True \<and> reserved_of pid v = reserved_of pid u + (if x = pid then required_quantity ?its x else 0)"
      by simp
  qed simp
  then show "reserved_of pid t = reserved_of pid s + accepted_quantity rid pid s"
    using required_quantity_accepted [OF assms(2)] required_quantity_0 [of pid ?its]
    by (auto simp: sum_list_single required_products_def)
  show "issued_of pid t = issued_of pid s"
    using loop by (rule for_each_inv [where I = "\<lambda>u. issued_of pid u = issued_of pid s"])
      (auto dest!: reserve_product_step [where pid = pid])
qed

lemma release_reservation_step:
  assumes "release_request_reservation r s = Inr t" and "tables_ok s"
  shows "same_but_products s t" and "tables_ok t"
    and "reserved_of pid t = reserved_of pid s - accepted_quantity (r_id r) pid s"
    and "issued_of pid t = issued_of pid s"
proof -
  let ?q = "\<lambda>x. accepted_quantity (r_id r) x s"
  have loop: "for_each (\<lambda>x. release_product x (?q x)) (item_products (r_id r) s) s = Inr t"
    using assms(1) by (auto simp: release_request_reservation_def Let_def split: if_splits)
  show "same_but_products s t"
    using loop by (rule for_each_inv)
      (auto dest: release_product_step intro: same_but_products_trans)
  show "tables_ok t" using assms yields_Inr [OF release_reservation_safe] by blast
  have "reserved_of pid t = reserved_of pid s +
      sum_list (map (\<lambda>x. if x = pid then - ?q x else 0) (item_products (r_id r) s))"
  proof (rule for_each_sum [OF loop, where I = "\<lambda>_. True"])
    fix x u v
    assume "release_product x (?q x) u = Inr v"
    from release_product_step [OF this, of pid]
    show "True \<and> reserved_of pid v = reserved_of pid u + (if x = pid then - ?q x else 0)" by simp
  qed simp
  moreover have "?q pid = 0" if "pid \<notin> set (item_products (r_id r) s)"
  proof -
    have "filter (\<lambda>i. i_product i = pid) (request_items (r_id r) s) = []"
      using that by (auto simp: item_products_def filter_empty_conv)
    then show ?thesis by (simp only: accepted_quantity_def) simp
  qed
  ultimately show "reserved_of pid t = reserved_of pid s - ?q pid"
    by (auto simp: sum_list_single item_products_def)
  show "issued_of pid t = issued_of pid s"
    using loop by (rule for_each_inv [where I = "\<lambda>u. issued_of pid u = issued_of pid s"])
      (auto dest!: release_product_step [where pid = pid])
qed

lemma save_request_core:
  "save_request r s = Inr t \<Longrightarrow> products t = products s \<and> items t = items s \<and>
    requests t = row_put r_id r (requests s)"
  by (auto simp: save_request_def put_request_def split: if_splits)

lemma locked_request_Inr: "locked_request rid s = Inr r \<longleftrightarrow> request_of rid s = Some r"
  by (simp add: locked_request_def ok_iff)

lemma request_of_id: "request_of rid s = Some r \<Longrightarrow> r_id r = rid"
  by (auto simp: request_of_def dest: row_get_SomeD)

lemma moved_id:
  assumes "request_of (r_id r) s = Some r" and "r_id r' = r_id r"
    and "requests t = row_put r_id r' (requests s)" and "items t = items s"
  shows "moved r r' (\<lambda>i. i) s t"
  using assms by (simp add: moved_def)

lemma reserved_of_products: "products t = products s \<Longrightarrow> reserved_of pid t = reserved_of pid s \<and> issued_of pid t = issued_of pid s"
  by (simp add: reserved_of_def issued_of_def product_of_def)

text \<open>The items of an accepted request hold what they accepted of each product.\<close>

lemma accepted_quantity_sum:
  "accepted_quantity rid pid s = sum_list (map (\<lambda>i. if i_product i = pid then i_accepted i else 0) (request_items rid s))"
proof -
  have "sum_list (map i_accepted (filter (\<lambda>i. i_product i = pid) its)) =
      sum_list (map (\<lambda>i. if i_product i = pid then i_accepted i else 0) its)" for its
    by (induction its) auto
  then show ?thesis by (simp add: accepted_quantity_def)
qed

section \<open>From moves to the ledger\<close>

text \<open>
  A move keeps the surplus when the buckets change by what the items of the request change.
\<close>

lemma moved_same_surplus:
  assumes "moved r r' g s t"
    and "\<And>pid. reserved_of pid t = reserved_of pid s + sum_list (map (\<lambda>i. if i_product i = pid
      then reserved_by (r_status r') (g i) - reserved_by (r_status r) i else 0) (request_items (r_id r) s))"
    and "\<And>pid. issued_of pid t = issued_of pid s + sum_list (map (\<lambda>i. if i_product i = pid
      then issued_by (r_status r') (g i) - issued_by (r_status r) i else 0) (request_items (r_id r) s))"
  shows "same_surplus s t"
  by (simp add: same_surplus_def reserved_surplus_def issued_surplus_def moved_demand [OF assms(1)]
      assms(2,3))

text \<open>What a transaction of the workflow promises to the ledger.\<close>

definition keeps_ledger :: "db \<Rightarrow> db \<Rightarrow> bool" where
  "keeps_ledger s t \<longleftrightarrow> ledger_ok t \<and> same_surplus s t"

lemma keeps_ledger_core: "core t = core u \<Longrightarrow> keeps_ledger s t = keeps_ledger s u"
proof -
  assume c: "core t = core u"
  have "same_surplus u t" "same_surplus t u"
    using same_surplus_core [OF c] same_surplus_core [OF c [symmetric]] by auto
  then show ?thesis
    unfolding keeps_ledger_def using ledger_ok_core [OF c] same_surplus_trans by blast
qed

lemma keeps_ledger_simps [simp]:
  "keeps_ledger s (audit_record actor act ms tgt meta t) = keeps_ledger s t"
  "keeps_ledger s (notify ev i t) = keeps_ledger s t"
  "keeps_ledger s (t\<lparr>in_atomic := b\<rparr>) = keeps_ledger s t"
  "keeps_ledger s (t\<lparr>box_scans := bs\<rparr>) = keeps_ledger s t"
  by (rule keeps_ledger_core; simp)+

lemma request_of_core: "core t = core s \<Longrightarrow> request_of rid t = request_of rid s"
  by (simp add: core_def request_of_def)

lemma request_of_simps [simp]: "request_of rid (s\<lparr>in_atomic := b\<rparr>) = request_of rid s"
  by (simp add: request_of_def)

lemma ledger_item:
  assumes "ledger_ok s" and "request_of rid s = Some r" and "i \<in> set (request_items rid s)"
  shows "phase_ok (r_status r) i" and "item_in_range i" and "item_constraints i"
  using assms by (auto simp: ledger_ok_def tables_ok_def items_ok_def request_items_def)

lemma sum_zero: "(\<And>i. i \<in> set its \<Longrightarrow> f i = (0::int)) \<Longrightarrow> sum_list (map f its) = 0"
  by (induction its) auto

lemma sum_neg: "sum_list (map (\<lambda>i. - f i) its) = - (sum_list (map f its) :: int)"
  by (induction its) auto

lemma sum_cong: "(\<And>i. i \<in> set its \<Longrightarrow> f i = g i) \<Longrightarrow> sum_list (map f its) = sum_list (map g its)"
  by (induction its) auto

text \<open>A request that changes its row alone, between statuses that hold nothing, or the same.\<close>

lemma quiet_move:
  assumes "moved r r' (\<lambda>i. i) s t" and "ledger_ok s" and "products t = products s"
    and "\<And>i. phase_ok (r_status r) i \<Longrightarrow> phase_ok (r_status r') i \<and>
      reserved_by (r_status r') i = reserved_by (r_status r) i \<and>
      issued_by (r_status r') i = issued_by (r_status r) i"
  shows "keeps_ledger s t"
  unfolding keeps_ledger_def
proof
  have r: "request_of (r_id r) s = Some r" using assms(1) by (simp add: moved_def)
  have "stock_ok t" using assms(2,3) by (simp add: ledger_ok_def tables_ok_def stock_ok_def)
  with assms(1,2) show "ledger_ok t" by (rule moved_ledger_ok) (use assms(4) in auto)
  have z: "sum_list (map (\<lambda>i. if i_product i = pid then reserved_by (r_status r') i - reserved_by (r_status r) i else 0)
        (request_items (r_id r) s)) = 0"
      "sum_list (map (\<lambda>i. if i_product i = pid then issued_by (r_status r') i - issued_by (r_status r) i else 0)
        (request_items (r_id r) s)) = 0" for pid
    using assms(4) ledger_item(1) [OF assms(2) r] by (auto intro!: sum_zero)
  show "same_surplus s t"
    using assms(1) by (rule moved_same_surplus) (simp_all add: z reserved_of_products [OF assms(3)])
qed

lemma quiet_save:
  assumes "ledger_ok s" and "core u = core s" and "request_of (r_id r') s = Some r"
    and "\<And>i. phase_ok (r_status r) i \<Longrightarrow> phase_ok (r_status r') i \<and>
      reserved_by (r_status r') i = reserved_by (r_status r) i \<and>
      issued_by (r_status r') i = issued_by (r_status r) i"
    and "\<And>t. keeps_ledger s t \<Longrightarrow> P t"
  shows "yields P (\<lambda>_. True) (save_request r' u)"
proof (intro yieldsI assms(5))
  fix t
  assume "save_request r' u = Inr t"
  then have t: "products t = products s" "items t = items s" "requests t = row_put r_id r' (requests s)"
    using core_eqD [OF assms(2)] by (auto dest: save_request_core)
  have "moved r r' (\<lambda>i. i) s t"
    using t assms(3) request_of_id [OF assms(3)] by (simp add: moved_def)
  then show "keeps_ledger s t" using assms(1) t(1) assms(4) by (rule quiet_move)
qed simp

lemma locked_request_wp:
  "(\<And>r. request_of rid s = Some r \<Longrightarrow> r_id r = rid \<Longrightarrow> P r) \<Longrightarrow> yields P (\<lambda>_. True) (locked_request rid s)"
  by (intro yieldsI) (auto simp: locked_request_Inr dest: request_of_id)

lemma reject_ledger:
  "ledger_ok s \<Longrightarrow> yields (keeps_ledger s) (\<lambda>_. True) (reject_request actor rid reason s)"
  by (auto simp: reject_request_def Let_def reserved_by_def issued_by_def
      intro!: locked_request_wp quiet_save)

lemma set_return_due_ledger:
  "ledger_ok s \<Longrightarrow> yields (keeps_ledger s) (\<lambda>_. True) (set_return_due actor rid due s)"
  by (auto simp: set_return_due_def intro!: locked_request_wp quiet_save)

lemma assign_box_ledger:
  "ledger_ok s \<Longrightarrow> yields (keeps_ledger s) (\<lambda>_. True) (assign_box actor rid code s)"
  by (auto simp: assign_box_def create_box_scan_def split: option.splits
      intro!: locked_request_wp quiet_save)

lemma accept_request_Inr:
  assumes "accept_request actor rid acc s = Inr t"
  shows "\<exists>r r' u v w. request_of rid s = Some r \<and> r_status r = PendingApproval \<and>
    for_each (accept_item acc) (items_by_product rid s) (s\<lparr>in_atomic := True\<rparr>) = Inr u \<and>
    reserve_for_request rid u = Inr v \<and> r_id r' = r_id r \<and> r_status r' = Accepted \<and>
    save_request r' v = Inr w \<and> core t = core w \<and>
    sum_list (map (accepted_qty acc) (items_by_product rid s)) \<noteq> 0"
proof -
  from assms obtain r u v w where "request_of rid s = Some r" "r_status r = PendingApproval"
    "for_each (accept_item acc) (items_by_product rid s) (s\<lparr>in_atomic := True\<rparr>) = Inr u"
    "reserve_for_request rid u = Inr v"
    "save_request (r\<lparr>r_status := Accepted, r_accepted_by := Some actor, r_accepted_at := Some (now v)\<rparr>) v = Inr w"
    "core t = core w" "sum_list (map (accepted_qty acc) (items_by_product rid s)) \<noteq> 0"
    by (auto simp: accept_request_def atomic_Inr ok_iff locked_request_Inr Let_def items_by_product_def
        request_items_def split: if_splits)
  then show ?thesis
    by (intro exI [of _ r] exI [of _ "r\<lparr>r_status := Accepted, r_accepted_by := Some actor, r_accepted_at := Some (now v)\<rparr>"]
        exI [of _ u] exI [of _ v] exI [of _ w]) simp
qed

lemma filter_rewritten:
  assumes "\<And>i. i \<in> set its \<Longrightarrow> i_request i = rid \<Longrightarrow> i_request (g i) = rid"
  shows "filter (\<lambda>i. i_request i = rid) (map (\<lambda>i. if i_request i = rid then g i else i) its) =
    map g (filter (\<lambda>i. i_request i = rid) its)"
  using assms by (induction its) auto

lemma accept_moved:
  assumes "accept_request actor rid acc s = Inr t" and "ledger_ok s"
  shows "\<exists>r r'. moved r r' (accepted_item acc) s t \<and> r_id r = rid \<and> r_status r = PendingApproval \<and>
    r_status r' = Accepted \<and> stock_ok t \<and>
    (\<forall>i \<in> set (request_items rid s). 0 \<le> accepted_qty acc i \<and> accepted_qty acc i \<le> i_requested i) \<and>
    (\<forall>pid. issued_of pid t = issued_of pid s \<and> reserved_of pid t = reserved_of pid s +
      sum_list (map (\<lambda>i. if i_product i = pid then accepted_qty acc i else 0) (request_items rid s)))"
proof -
  from accept_request_Inr [OF assms(1)] obtain r r' u v w where
    r: "request_of rid s = Some r" "r_status r = PendingApproval"
    and u: "for_each (accept_item acc) (items_by_product rid s) (s\<lparr>in_atomic := True\<rparr>) = Inr u"
    and v: "reserve_for_request rid u = Inr v" and r': "r_id r' = r_id r" "r_status r' = Accepted"
    and w: "save_request r' v = Inr w" and t: "core t = core w" by blast
  let ?s = "s\<lparr>in_atomic := True\<rparr>"
  have its: "items_by_product rid s = items_by_product rid ?s" "request_items rid ?s = request_items rid s"
    by (simp_all add: items_by_product_def request_items_def)
  have ok: "tables_ok ?s" using assms(2) by (simp add: ledger_ok_def)
  note loop = accept_loop [OF u [unfolded its(1)] ok]
  note res = reserve_for_request_step [OF v loop(2)]
  have vt: "items v = items u" "requests v = requests s" "products u = products s"
    using same_but_products_fields [OF res(1)] loop(1) by simp_all
  have m: "moved r r' (accepted_item acc) s t"
    using r r' t vt loop(1) save_request_core [OF w] core_eqD [OF t] request_of_id [OF r(1)]
    by (auto simp: moved_def accepted_item_def)
  have st: "stock_ok t"
    using res(2) save_request_core [OF w] core_eqD [OF t] by (simp add: tables_ok_def stock_ok_def)
  have acc: "accepted_quantity rid pid u =
      sum_list (map (\<lambda>i. if i_product i = pid then accepted_qty acc i else 0) (request_items rid s))" for pid
  proof -
    have "request_items rid u = map (accepted_item acc) (request_items rid s)"
      by (simp add: loop(1) request_items_def) (rule filter_rewritten, simp add: accepted_item_def)
    then show ?thesis by (simp add: accepted_quantity_sum o_def accepted_item_def cong: if_cong)
  qed
  have tv: "products t = products v" using save_request_core [OF w] core_eqD [OF t] by simp
  have b: "issued_of pid t = issued_of pid s \<and> reserved_of pid t = reserved_of pid s +
      sum_list (map (\<lambda>i. if i_product i = pid then accepted_qty acc i else 0) (request_items rid s))" for pid
    unfolding acc [symmetric] using res(3,4) [of pid] reserved_of_products [OF vt(3), of pid]
      reserved_of_products [OF tv, of pid] by simp
  have "\<forall>i \<in> set (request_items rid s). 0 \<le> accepted_qty acc i \<and> accepted_qty acc i \<le> i_requested i"
    using loop(3) unfolding its(2) .
  then show ?thesis
    using m st b r(2) r' request_of_id [OF r(1)] by blast
qed

lemma accept_ledger:
  assumes "accept_request actor rid acc s = Inr t" and "ledger_ok s"
  shows "keeps_ledger s t"
  unfolding keeps_ledger_def
proof
  from accept_moved [OF assms] obtain r r' where m: "moved r r' (accepted_item acc) s t"
    and r: "r_id r = rid" "r_status r = PendingApproval" "r_status r' = Accepted" and "stock_ok t"
    and q: "\<forall>i \<in> set (request_items rid s). 0 \<le> accepted_qty acc i \<and> accepted_qty acc i \<le> i_requested i"
    and b: "\<forall>pid. issued_of pid t = issued_of pid s \<and> reserved_of pid t = reserved_of pid s +
      sum_list (map (\<lambda>i. if i_product i = pid then accepted_qty acc i else 0) (request_items rid s))"
    by blast
  from m assms(2) \<open>stock_ok t\<close> show "ledger_ok t"
    by (rule moved_ledger_ok)
      (use q r in \<open>auto simp: accepted_item_def untouched_def item_in_range_def item_constraints_def\<close>)
  show "same_surplus s t"
    using m by (rule moved_same_surplus)
      (simp_all add: b r reserved_by_def issued_by_def accepted_item_def sum_zero cong: if_cong)
qed

section \<open>Cancelling\<close>

lemma row_put_row_put: "key r = key r' \<Longrightarrow> row_put key r (row_put key r' rows) = row_put key r rows"
  by (auto simp: row_put_def)

lemma clear_unissued_Inr:
  assumes "clear_unissued_assignment r s = Inr (b, r', t)"
  shows "r_id r' = r_id r \<and> r_status r' = r_status r \<and> r_status r = Accepted \<and> r_makerspace r' = r_makerspace r \<and>
    products t = products s \<and> items t = items s \<and>
    (requests t = requests s \<or> requests t = row_put r_id r' (requests s))"
  using assms by (auto simp: clear_unissued_assignment_def Let_def ok_iff split: if_splits option.splits
      dest!: save_request_core)

lemma cancel_request_Inr:
  assumes "cancel_request env actor rid ms reason s = Inr t"
  shows "\<exists>r r' r'' b u v w. request_of rid s = Some r \<and> r_status r = Accepted \<and>
    assert_wholly_unissued r (s\<lparr>in_atomic := True\<rparr>) = Inr () \<and>
    clear_unissued_assignment r (s\<lparr>in_atomic := True\<rparr>) = Inr (b, r', u) \<and>
    release_request_reservation r' u = Inr v \<and> r_id r'' = r_id r' \<and> r_status r'' = Cancelled \<and>
    save_request r'' v = Inr w \<and> core t = core w"
proof -
  from assms obtain r r' b u v w a re where "request_of rid s = Some r" "r_status r = Accepted"
    "assert_wholly_unissued r (s\<lparr>in_atomic := True\<rparr>) = Inr ()"
    "clear_unissued_assignment r (s\<lparr>in_atomic := True\<rparr>) = Inr (b, r', u)"
    "release_request_reservation r' u = Inr v"
    "save_request (r'\<lparr>r_status := Cancelled, r_cancellation_reason := re, r_closed_by := Some a,
       r_closed_at := Some (now v)\<rparr>) v = Inr w" "core t = core w"
    by (auto simp: cancel_request_def atomic_Inr ok_iff locked_request_Inr split: if_splits)
  then show ?thesis
    by (intro exI [of _ r] exI [of _ r'] exI [of _ "r'\<lparr>r_status := Cancelled, r_cancellation_reason := re,
       r_closed_by := Some a, r_closed_at := Some (now v)\<rparr>"] exI [of _ b] exI [of _ u] exI [of _ v] exI [of _ w]) simp
qed

lemma cancel_moved:
  assumes "cancel_request env actor rid ms reason s = Inr t" and "ledger_ok s"
  shows "\<exists>r r'. moved r r' (\<lambda>i. i) s t \<and> r_id r = rid \<and> r_status r = Accepted \<and> r_status r' = Cancelled \<and>
    stock_ok t \<and> (\<forall>pid. issued_of pid t = issued_of pid s \<and>
      reserved_of pid t = reserved_of pid s - accepted_quantity rid pid s)"
proof -
  from cancel_request_Inr [OF assms(1)] obtain r r' r'' b u v w where
    r: "request_of rid s = Some r" "r_status r = Accepted"
    and u: "clear_unissued_assignment r (s\<lparr>in_atomic := True\<rparr>) = Inr (b, r', u)"
    and v: "release_request_reservation r' u = Inr v" and r'': "r_id r'' = r_id r'" "r_status r'' = Cancelled"
    and w: "save_request r'' v = Inr w" and t: "core t = core w" by blast
  have rid: "r_id r = rid" using r(1) by (rule request_of_id)
  from clear_unissued_Inr [OF u] have r': "r_id r' = rid" "products u = products s" "items u = items s"
    "requests u = requests s \<or> requests u = row_put r_id r' (requests s)"
    by (auto simp: rid)
  have ok: "tables_ok u"
    using assms(2) r' by (simp add: ledger_ok_def tables_ok_def stock_ok_def items_ok_def)
  note rel = release_reservation_step [OF v ok]
  have t': "products t = products v" "items t = items s" "requests t = row_put r_id r'' (requests u)"
    using save_request_core [OF w] core_eqD [OF t] same_but_products_fields [OF rel(1)] r' by simp_all
  have "requests t = row_put r_id r'' (requests s)"
    using t'(3) r'(1,4) r''(1) by (auto simp: row_put_row_put)
  then have "moved r r'' (\<lambda>i. i) s t" using r rid r' r'' t' by (simp add: moved_def)
  moreover have "stock_ok t" using rel(2) t'(1) by (simp add: tables_ok_def stock_ok_def)
  moreover have "issued_of pid t = issued_of pid s \<and>
      reserved_of pid t = reserved_of pid s - accepted_quantity rid pid s" for pid
  proof -
    have "accepted_quantity rid pid u = accepted_quantity rid pid s"
      using r'(3) by (simp add: accepted_quantity_def request_items_def)
    then show ?thesis
      using rel(3,4) [of pid] reserved_of_products [OF t'(1), of pid] reserved_of_products [OF r'(2), of pid] r'(1)
      by simp
  qed
  ultimately show ?thesis using rid r(2) r''(2) by blast
qed

lemma cancel_ledger:
  assumes "cancel_request env actor rid ms reason s = Inr t" and "ledger_ok s"
  shows "keeps_ledger s t"
  unfolding keeps_ledger_def
proof
  from cancel_moved [OF assms] obtain r r' where m: "moved r r' (\<lambda>i. i) s t"
    and r: "r_id r = rid" "r_status r = Accepted" "r_status r' = Cancelled" and "stock_ok t"
    and b: "\<forall>pid. issued_of pid t = issued_of pid s \<and>
      reserved_of pid t = reserved_of pid s - accepted_quantity rid pid s" by blast
  from m assms(2) \<open>stock_ok t\<close> show "ledger_ok t"
    by (rule moved_ledger_ok) (use r in auto)
  have neg: "sum_list (map (\<lambda>i. if i_product i = pid then - i_accepted i else 0) its) =
      - sum_list (map (\<lambda>i. if i_product i = pid then i_accepted i else 0) its)" for pid its
    by (induction its) auto
  show "same_surplus s t"
    using m by (rule moved_same_surplus) (simp_all add: b r neg reserved_by_def issued_by_def
        accepted_quantity_sum sum_zero cong: if_cong)
qed

section \<open>Submitting\<close>

definition fresh_item :: "nat \<Rightarrow> request_item \<Rightarrow> bool" where
  "fresh_item rid i \<longleftrightarrow> i_request i = rid \<and> item_in_range i \<and> item_constraints i \<and> untouched i \<and> i_accepted i = 0"

lemma create_items_Inr:
  assumes "for_each (create_item rid) its s = Inr t" and "unique_keys i_id (items s)"
  shows "same_but_items s t \<and> unique_keys i_id (items t) \<and>
    (\<exists>new. items t = items s @ new \<and> (\<forall>i \<in> set new. fresh_item rid i))"
  using assms(1)
proof (rule for_each_inv)
  show "same_but_items s s \<and> unique_keys i_id (items s) \<and>
    (\<exists>new. items s = items s @ new \<and> (\<forall>i \<in> set new. fresh_item rid i))"
    using assms(2) by simp
  fix x u v
  assume u: "same_but_items s u \<and> unique_keys i_id (items u) \<and>
      (\<exists>new. items u = items s @ new \<and> (\<forall>i \<in> set new. fresh_item rid i))"
    and "create_item rid x u = Inr v"
  then have v: "v = u\<lparr>items := items u @ [new_item (fresh_key i_id (items u)) rid x]\<rparr>"
    and c: "item_in_range (new_item (fresh_key i_id (items u)) rid x)"
      "item_constraints (new_item (fresh_key i_id (items u)) rid x)"
    by (auto simp: create_item_def Let_def ok_iff)
  then show "same_but_items s v \<and> unique_keys i_id (items v) \<and>
      (\<exists>new. items v = items s @ new \<and> (\<forall>i \<in> set new. fresh_item rid i))"
    using u by (auto simp: same_but_items_def unique_keys_fresh new_item_def fresh_item_def untouched_def)
qed

lemma submit_new_ledger:
  assumes "submit_new_request ms its rf rq contact actor key payload s = Inr (r, t)" and "ledger_ok s"
  shows "keeps_ledger s t"
proof -
  let ?rid = "fresh_key r_id (requests s)"
  from assms(1) obtain u v where r: "r_id r = ?rid" "r_status r = PendingApproval"
    and u: "u = s\<lparr>requests := requests s @ [r]\<rparr>"
    and v: "for_each (create_item ?rid) its u = Inr v" and t: "core t = core v"
    by (auto simp: submit_new_request_def Let_def ok_iff new_request_def create_request_def split: if_splits)
  have "unique_keys i_id (items u)"
    using assms(2) by (simp add: u ledger_ok_def tables_ok_def items_ok_def)
  from create_items_Inr [OF v this] obtain new where new: "items v = items s @ new"
    "\<forall>i \<in> set new. fresh_item ?rid i" "unique_keys i_id (items v)" and uv: "same_but_items u v"
    by (auto simp: u)
  have v': "products v = products s" "requests v = requests s @ [r]"
    by (subst same_but_itemsD [OF uv]; simp add: u)+
  have "request_of ?rid s = None" unfolding request_of_def by (rule row_get_fresh)
  then have req: "request_of rid v = (if rid = ?rid then Some r else request_of rid s)" for rid
    using r by (auto simp: request_of_def v' row_get_append row_get_Cons split: option.splits)
  have old: "i_request i \<noteq> ?rid" if "i \<in> set (items s)" for i
    using assms(2) that \<open>request_of ?rid s = None\<close> by (force simp: ledger_ok_def)
  have "unique_keys r_id (requests v)"
    using assms(2) r by (simp add: v' unique_keys_fresh ledger_ok_def)
  then have "ledger_ok v"
    using assms(2) new v' r old
    by (auto simp: ledger_ok_def tables_ok_def stock_ok_def items_ok_def req fresh_item_def)
  moreover have "same_surplus s v"
  proof -
    have "demand w pid v = demand w pid s" if w: "\<And>i. w PendingApproval i = 0" for w pid
    proof -
      have "sum_list (map (\<lambda>i. if i_product i = pid
          then (case item_request_status v i of None \<Rightarrow> 0 | Some st \<Rightarrow> w st i) else 0) new) = 0"
        using new(2) r w by (intro sum_zero) (auto simp: item_request_status_eq req fresh_item_def)
      moreover have "sum_list (map (\<lambda>i. if i_product i = pid
          then (case item_request_status v i of None \<Rightarrow> 0 | Some st \<Rightarrow> w st i) else 0) (items s)) = demand w pid s"
        unfolding demand_def by (rule sum_cong) (auto simp: item_request_status_eq req dest: old)
      ultimately show ?thesis by (simp add: demand_def new(1))
    qed
    then show ?thesis
      using reserved_of_products [OF v'(1)]
      by (simp add: same_surplus_def reserved_surplus_def issued_surplus_def reserved_by_def issued_by_def)
  qed
  ultimately show ?thesis using keeps_ledger_core [OF t] by (simp add: keeps_ledger_def)
qed

lemma keeps_ledger_refl: "ledger_ok s \<Longrightarrow> keeps_ledger s s"
  by (simp add: keeps_ledger_def)

lemma submit_ledger:
  assumes "ledger_ok s"
  shows "yields (\<lambda>(r, t). keeps_ledger s t) (\<lambda>_. True)
    (submit_request env ms its rf rq contact actor key payload s)"
proof -
  let ?s = "s\<lparr>in_atomic := True\<rparr>"
  have s: "ledger_ok ?s" using assms ledger_ok_core [of ?s s] by simp
  have "keeps_ledger s t" if "keeps_ledger ?s t" for t
    using that same_surplus_core [of ?s s] by (auto simp: keeps_ledger_def intro: same_surplus_trans)
  then have new: "yields (\<lambda>x. keeps_ledger s (snd x)) (\<lambda>_. True)
      (submit_new_request ms its rf rq contact actor key payload ?s)"
    using submit_new_ledger [OF _ s] by (intro yieldsI) (auto split: prod.splits)
  then show ?thesis
    using assms by (auto simp: submit_request_def anonymous_idempotency_replay_def case_prod_unfold
        enforce_anonymous_outstanding_limit_def get_makerspace_def keeps_ledger_refl
        split: option.splits)
qed

section \<open>Issuing\<close>

definition issued_item :: "rejects \<Rightarrow> request_item \<Rightarrow> request_item" where
  "issued_item rs i =
     (if i_accepted i \<le> 0 then i
      else i\<lparr>i_issued := i_accepted i - max 0 (fst (reject_of rs (i_id i))),
             i_needs_fix := (if snd (reject_of rs (i_id i)) = RejectRemove then 0
                             else max 0 (fst (reject_of rs (i_id i))))\<rparr>)"

lemma issued_item_fields [simp]:
  "i_id (issued_item rs i) = i_id i" "i_request (issued_item rs i) = i_request i"
  "i_product (issued_item rs i) = i_product i" "i_accepted (issued_item rs i) = i_accepted i"
  "i_requested (issued_item rs i) = i_requested i" "i_returned (issued_item rs i) = i_returned i"
  "i_damaged (issued_item rs i) = i_damaged i" "i_missing (issued_item rs i) = i_missing i"
  by (simp_all add: issued_item_def)

lemma issue_item_Inr:
  assumes "issue_item rs i u = Inr v" and "0 < i_accepted i"
  shows "\<exists>p p' w. product_of (i_product i) u = Some p \<and> p_id p' = p_id p \<and>
    p_reserved p' = p_reserved p - i_accepted i \<and> p_issued p' = p_issued p + i_issued (issued_item rs i) \<and>
    max 0 (fst (reject_of rs (i_id i))) \<le> i_accepted i \<and>
    save_product p' u = Inr w \<and> save_item (issued_item rs i) w = Inr v"
proof -
  let ?b = "max 0 (fst (reject_of rs (i_id i)))" and ?d = "snd (reject_of rs (i_id i))"
  define g where "g p = (let p' = p\<lparr>p_reserved := p_reserved p - i_accepted i, p_issued := p_issued p + (i_accepted i - ?b)\<rparr>
    in if ?b \<noteq> 0 \<and> ?d = RejectRemove then p'\<lparr>p_total := p_total p' - ?b\<rparr>
       else if ?b \<noteq> 0 then p'\<lparr>p_needs_fix := p_needs_fix p' + ?b\<rparr> else p')" for p :: product
  have g: "p_id (g p) = p_id p" "p_reserved (g p) = p_reserved p - i_accepted i"
    "p_issued (g p) = p_issued p + (i_accepted i - ?b)" for p
    by (simp_all add: g_def Let_def)
  from assms obtain p w where "product_of (i_product i) u = Some p" "?b \<le> i_accepted i"
    "save_product (g p) u = Inr w" "save_item (issued_item rs i) w = Inr v"
    by (auto simp: issue_item_def ok_iff g_def Let_def issued_item_def not_less cong: if_cong)
  moreover have "i_issued (issued_item rs i) = i_accepted i - ?b"
    using assms(2) by (simp add: issued_item_def)
  ultimately show ?thesis
    using g by (intro exI [of _ p] exI [of _ "g p"] exI [of _ w]) simp
qed

lemma issue_item_step:
  assumes "issue_item rs i u = Inr v" and "0 \<le> i_accepted i" and "i_issued i = 0"
  shows "requests v = requests u \<and>
    (items v = row_put i_id (issued_item rs i) (items u) \<or> issued_item rs i = i \<and> items v = items u) \<and>
    reserved_of pid v = reserved_of pid u - (if i_product i = pid then i_accepted i else 0) \<and>
    issued_of pid v = issued_of pid u + (if i_product i = pid then i_issued (issued_item rs i) else 0)"
proof (cases "0 < i_accepted i")
  case True
  from issue_item_Inr [OF assms(1) this] obtain p p' w where
    p: "product_of (i_product i) u = Some p" "p_id p' = p_id p" "p_reserved p' = p_reserved p - i_accepted i"
      "p_issued p' = p_issued p + i_issued (issued_item rs i)"
    and w: "save_product p' u = Inr w" and v: "save_item (issued_item rs i) w = Inr v" by blast
  have "reserved_of pid v = reserved_of pid w" "issued_of pid v = issued_of pid w"
    using v by (auto simp: save_item_Inr reserved_of_def issued_of_def)
  moreover have "reserved_of pid w = (if pid = p_id p' then p_reserved p' else reserved_of pid u) \<and>
      issued_of pid w = (if pid = p_id p' then p_issued p' else issued_of pid u)"
    using p(1,2) by (intro reserved_of_save [OF w]) simp
  ultimately show ?thesis
    using p product_of_id [OF p(1)] reserved_of_Some [OF p(1)] w v
    by (auto simp: save_item_Inr save_product_Inr)
next
  case False
  with assms show ?thesis by (auto simp: issue_item_def issued_item_def)
qed

lemma issue_items_step:
  assumes "issue_items rid rs s = Inr t" and "tables_ok s"
    and "\<And>i. i \<in> set (request_items rid s) \<Longrightarrow> i_issued i = 0"
  shows "requests t = requests s" and "tables_ok t"
    and "items t = map (\<lambda>i. if i_request i = rid then issued_item rs i else i) (items s)"
    and "reserved_of pid t = reserved_of pid s - accepted_quantity rid pid s"
    and "issued_of pid t = issued_of pid s +
      sum_list (map (\<lambda>i. if i_product i = pid then i_issued (issued_item rs i) else 0) (request_items rid s))"
    and "\<And>i. i \<in> set (request_items rid s) \<Longrightarrow> 0 < i_accepted i \<Longrightarrow> max 0 (fst (reject_of rs (i_id i))) \<le> i_accepted i"
proof -
  let ?its = "items_by_product rid s"
  have loop: "for_each (issue_item rs) ?its s = Inr t"
    using assms(1) by (auto simp: issue_items_def split: if_splits)
  have i: "0 \<le> i_accepted i \<and> i_issued i = 0" if "i \<in> set ?its" for i
    using that assms(2,3) by (auto simp: set_items_by_product request_items_def intro: tables_ok_accepted)
  note step = issue_item_step [OF _ conjunct1 [OF i] conjunct2 [OF i]]
  show "requests t = requests s"
    using loop by (rule for_each_inv [where I = "\<lambda>u. requests u = requests s"]) (auto dest!: step)
  show "tables_ok t" using assms(1,2) yields_Inr [OF issue_items_safe] by blast
  have "items t = map (\<lambda>r. if r \<in> set ?its then issued_item rs r else r) (items s)"
    by (rule for_each_rows [OF loop, where key = i_id])
      (use assms(2) step in \<open>auto simp: distinct_items_by_product tables_ok_def items_ok_def set_items_by_product\<close>)
  then show "items t = map (\<lambda>i. if i_request i = rid then issued_item rs i else i) (items s)"
    by (simp only: map_items_by_product)
  have perm: "sum_list (map f ?its) = sum_list (map f (request_items rid s))" for f :: "request_item \<Rightarrow> int"
    by (simp add: items_by_product_def flip: sum_mset_sum_list)
  have "reserved_of pid t = reserved_of pid s +
      sum_list (map (\<lambda>i. - (if i_product i = pid then i_accepted i else 0)) ?its)"
    by (rule for_each_sum [OF loop, where I = "\<lambda>_. True"]) (use step in auto)
  then show "reserved_of pid t = reserved_of pid s - accepted_quantity rid pid s"
    unfolding accepted_quantity_sum perm by (simp add: uminus_sum_list_map o_def)
  have "issued_of pid t = issued_of pid s +
      sum_list (map (\<lambda>i. if i_product i = pid then i_issued (issued_item rs i) else 0) ?its)"
    by (rule for_each_sum [OF loop, where I = "\<lambda>_. True"]) (use step in auto)
  then show "issued_of pid t = issued_of pid s +
      sum_list (map (\<lambda>i. if i_product i = pid then i_issued (issued_item rs i) else 0) (request_items rid s))"
    unfolding perm .
  have "max 0 (fst (reject_of rs (i_id i))) \<le> i_accepted i"
    if "for_each (issue_item rs) its u = Inr v" "i \<in> set its" "0 < i_accepted i" for i its u v
    using that by (induction its arbitrary: u) (auto simp: ok_iff dest!: issue_item_Inr)
  with loop show "max 0 (fst (reject_of rs (i_id i))) \<le> i_accepted i"
    if "i \<in> set (request_items rid s)" "0 < i_accepted i" for i
    using that by (metis items_by_product_def set_sort)
qed

lemma issue_locked_Inr:
  assumes "issue_locked env actor rid ev n remark payloads rs s = Inr t"
  shows "\<exists>r r' s' u w. request_of rid s = Some r \<and> r_status r = Accepted \<and> core s' = core s \<and>
    issue_items rid rs s' = Inr u \<and> r_id r' = r_id r \<and> r_status r' = Issued \<and>
    request_conflict r' u = None \<and> w = put_request r' u \<and> core t = core w"
proof -
  let ?s = "s\<lparr>in_atomic := True\<rparr>"
  define row where "row r m u = r\<lparr>r_issue_evidence := Some (e_id ev), r_issue_remark := remark,
      r_issued_by := Some actor, r_issued_at := Some (now u),
      r_return_due_at := (case r_return_due_at r of None \<Rightarrow> Some (now u + default_days m * seconds_per_day)
        | Some d \<Rightarrow> Some d), r_status := Issued\<rparr>" for r :: hardware_request and m :: makerspace and u :: db
  from assms obtain r m s1 s2 u w where r: "request_of rid s = Some r" "r_status r = Accepted"
    and s1: "charge_storage_once env ev n ?s = Inr s1"
    and s2: "issue_individual_assets actor r payloads s1 = Inr s2"
    and u: "issue_items rid rs s2 = Inr u"
    and w: "save_issued (row r m u) u = Inr w" and t: "core t = core w"
    by (auto simp: issue_locked_def atomic_Inr ok_iff locked_request_Inr row_def split: if_splits)
  have "core s2 = core s"
    using issue_individual_assets_core [OF s2] charge_storage_core [OF s1] by simp
  moreover have "r_id (row r m u) = r_id r" "r_status (row r m u) = Issued" by (simp_all add: row_def)
  moreover have "request_conflict (row r m u) u = None" "w = put_request (row r m u) u"
    using w by (auto simp: save_issued_def split: option.splits)
  ultimately show ?thesis using r u t by blast
qed

lemma issue_moved:
  assumes "issue_locked env actor rid ev n remark payloads rs s = Inr t" and "ledger_ok s"
  shows "\<exists>r r'. moved r r' (issued_item rs) s t \<and> r_id r = rid \<and> r_status r = Accepted \<and> r_status r' = Issued \<and>
    stock_ok t \<and>
    (\<forall>i \<in> set (request_items rid s). 0 < i_accepted i \<longrightarrow> max 0 (fst (reject_of rs (i_id i))) \<le> i_accepted i) \<and>
    (\<forall>pid. reserved_of pid t = reserved_of pid s - accepted_quantity rid pid s \<and>
      issued_of pid t = issued_of pid s +
        sum_list (map (\<lambda>i. if i_product i = pid then i_issued (issued_item rs i) else 0) (request_items rid s)))"
proof -
  from issue_locked_Inr [OF assms(1)] obtain r r' s' u w where
    r: "request_of rid s = Some r" "r_status r = Accepted" and s': "core s' = core s"
    and u: "issue_items rid rs s' = Inr u" and r': "r_id r' = r_id r" "r_status r' = Issued"
    and w: "w = put_request r' u" and t: "core t = core w" by blast
  note c = core_eqD [OF s'] and ct = core_eqD [OF t]
  have ok: "tables_ok s'" using ledger_ok_core [OF s'] assms(2) by (simp add: ledger_ok_def)
  have its: "request_items rid s' = request_items rid s" using c by (simp add: request_items_def)
  have "i_issued i = 0" if "i \<in> set (request_items rid s')" for i
    using ledger_item(1) [OF assms(2) r(1)] that r(2) its by (auto simp: untouched_def)
  note step = issue_items_step [OF u ok this]
  have t': "products t = products u" "items t = items u" "requests t = row_put r_id r' (requests u)"
    using w ct by (simp_all add: put_request_def)
  have "moved r r' (issued_item rs) s t"
    using r r' t' step(1,3) c request_of_id [OF r(1)] by (auto simp: moved_def)
  moreover have "stock_ok t" using step(2) t'(1) by (simp add: tables_ok_def stock_ok_def)
  moreover have "accepted_quantity rid pid s' = accepted_quantity rid pid s" for pid
    by (simp add: accepted_quantity_def its)
  moreover have "reserved_of pid s' = reserved_of pid s \<and> issued_of pid s' = issued_of pid s" for pid
    using c by (intro reserved_of_products) simp
  ultimately show ?thesis
    using step(4,5,6) r r' reserved_of_products [OF t'(1)] request_of_id [OF r(1)] its
    by (intro exI [of _ r] exI [of _ r']) auto
qed

lemma issue_ledger:
  assumes "issue_locked env actor rid ev n remark payloads rs s = Inr t" and "ledger_ok s"
  shows "keeps_ledger s t"
  unfolding keeps_ledger_def
proof
  from issue_moved [OF assms] obtain r r' where m: "moved r r' (issued_item rs) s t"
    and r: "r_id r = rid" "r_status r = Accepted" "r_status r' = Issued" and "stock_ok t"
    and q: "\<forall>i \<in> set (request_items rid s). 0 < i_accepted i \<longrightarrow> max 0 (fst (reject_of rs (i_id i))) \<le> i_accepted i"
    and b: "\<forall>pid. reserved_of pid t = reserved_of pid s - accepted_quantity rid pid s \<and>
      issued_of pid t = issued_of pid s +
        sum_list (map (\<lambda>i. if i_product i = pid then i_issued (issued_item rs i) else 0) (request_items rid s))"
    by blast
  from m have rs: "request_of rid s = Some r" using r(1) by (simp add: moved_def)
  from m assms(2) \<open>stock_ok t\<close> show "ledger_ok t"
  proof (rule moved_ledger_ok)
    fix i
    assume i: "i \<in> set (request_items (r_id r) s)" and "phase_ok (r_status r) i" "item_in_range i" "item_constraints i"
    moreover have "0 < i_accepted i \<longrightarrow> max 0 (fst (reject_of rs (i_id i))) \<le> i_accepted i" using q i r(1) by simp
    ultimately show "phase_ok (r_status r') (issued_item rs i) \<and> item_in_range (issued_item rs i) \<and>
        item_constraints (issued_item rs i)"
      using r by (auto simp: issued_item_def untouched_def remaining_quantity_def item_in_range_def
          item_constraints_def int32_max_def)
  qed
  have un: "i_returned i = 0 \<and> i_damaged i = 0 \<and> i_missing i = 0" if "i \<in> set (request_items rid s)" for i
    using ledger_item(1) [OF assms(2) rs that] r(2) by (simp add: untouched_def)
  show "same_surplus s t"
    using m
  proof (rule moved_same_surplus)
    fix pid
    show "reserved_of pid t = reserved_of pid s + sum_list (map (\<lambda>i. if i_product i = pid
        then reserved_by (r_status r') (issued_item rs i) - reserved_by (r_status r) i else 0) (request_items (r_id r) s))"
      unfolding r b [rule_format, THEN conjunct1] accepted_quantity_sum diff_conv_add_uminus uminus_sum_list_map
      by (intro arg_cong2 [of _ _ _ _ "(+)"] sum_cong) (simp_all add: reserved_by_def)
    show "issued_of pid t = issued_of pid s + sum_list (map (\<lambda>i. if i_product i = pid
        then issued_by (r_status r') (issued_item rs i) - issued_by (r_status r) i else 0) (request_items (r_id r) s))"
      unfolding r b [rule_format, THEN conjunct2]
      by (intro arg_cong2 [of _ _ _ _ "(+)"] sum_cong) (simp_all add: issued_by_def remaining_quantity_def un)
  qed
qed

section \<open>Returning\<close>

lemma for_each_map: "for_each f (map h xs) s = for_each (\<lambda>x. f (h x)) xs s"
proof (induction xs arbitrary: s)
  case (Cons x xs)
  then show ?case by (cases "f (h x) s") auto
qed simp

lemma for_each_cong: "(\<And>x. x \<in> set xs \<Longrightarrow> f x = g x) \<Longrightarrow> for_each f xs s = for_each g xs s"
proof (induction xs arbitrary: s)
  case (Cons x xs)
  then show ?case by (cases "g x s") auto
qed simp

definition add_return :: "resolution \<Rightarrow> request_item \<Rightarrow> request_item" where
  "add_return x i = i\<lparr>i_returned := i_returned i + x_returned x, i_damaged := i_damaged i + x_damaged x,
     i_missing := i_missing i + x_missing x\<rparr>"

lemma add_return_fields [simp]:
  "i_id (add_return x i) = i_id i" "i_request (add_return x i) = i_request i"
  "i_product (add_return x i) = i_product i" "i_accepted (add_return x i) = i_accepted i"
  "i_requested (add_return x i) = i_requested i" "i_issued (add_return x i) = i_issued i"
  "i_needs_fix (add_return x i) = i_needs_fix i"
  by (simp_all add: add_return_def)

lemma remaining_add_return: "remaining_quantity (add_return x i) = remaining_quantity i - resolution_quantity x"
  by (simp add: add_return_def remaining_quantity_def resolution_quantity_def)

lemma return_resolution_step:
  assumes "return_resolution x u = Inr v" and "resolution_nonneg x"
  shows "requests v = requests u \<and> reserved_of pid v = reserved_of pid u \<and>
    (resolution_quantity x = 0 \<and> v = u \<and> (\<forall>i. add_return x i = i) \<or>
     (\<exists>j. item_of (x_item x) u = Some j \<and> items v = row_put i_id (add_return x j) (items u) \<and>
       issued_of pid v = issued_of pid u - (if i_product j = pid then resolution_quantity x else 0)))"
proof (cases "resolution_quantity x \<le> 0")
  case True
  with assms(2) have "x_returned x = 0" "x_damaged x = 0" "x_missing x = 0"
    by (auto simp: resolution_quantity_def resolution_nonneg_def)
  with assms(1) show ?thesis by (simp add: return_resolution_def resolution_quantity_def add_return_def)
next
  case False
  with assms(1) obtain j p w where j: "item_of (x_item x) u = Some j" "product_of (i_product j) u = Some p"
    and w: "save_product (p\<lparr>p_issued := p_issued p - resolution_quantity x, p_available := p_available p + x_returned x,
      p_damaged := p_damaged p + x_damaged x, p_lost := p_lost p + x_missing x\<rparr>) u = Inr w"
    and v: "save_item (add_return x j) w = Inr v"
    by (auto simp: return_resolution_def Let_def ok_iff resolution_quantity_def add_return_def split: if_splits)
  have "reserved_of pid v = reserved_of pid w" "issued_of pid v = issued_of pid w"
    using v by (auto simp: save_item_Inr reserved_of_def issued_of_def)
  moreover have "reserved_of pid w = (if pid = p_id p then p_reserved p else reserved_of pid u) \<and>
      issued_of pid w = (if pid = p_id p then p_issued p - resolution_quantity x else issued_of pid u)"
    using reserved_of_save [OF w, of p pid] j(2) by simp
  ultimately show ?thesis
    using j w v product_of_id [OF j(2)] reserved_of_Some [OF j(2)]
    by (auto simp: save_item_Inr save_product_Inr)
qed

text \<open>The resolution of an item, and the item after the return.\<close>

definition resolution_for :: "resolution list \<Rightarrow> request_item \<Rightarrow> resolution option" where
  "resolution_for xs i = find (\<lambda>x. x_item x = i_id i) xs"

definition returned_item :: "resolution list \<Rightarrow> request_item \<Rightarrow> request_item" where
  "returned_item xs i = (case resolution_for xs i of None \<Rightarrow> i | Some x \<Rightarrow> add_return x i)"

definition returned_quantity :: "resolution list \<Rightarrow> request_item \<Rightarrow> int" where
  "returned_quantity xs i = (case resolution_for xs i of None \<Rightarrow> 0 | Some x \<Rightarrow> resolution_quantity x)"

lemma resolution_for_Some:
  "distinct (map x_item xs) \<Longrightarrow> x \<in> set xs \<Longrightarrow> i_id i = x_item x \<Longrightarrow> resolution_for xs i = Some x"
  unfolding resolution_for_def by (induction xs) auto

lemma resolution_for_None: "resolution_for xs i = None \<longleftrightarrow> i_id i \<notin> x_item ` set xs"
  unfolding resolution_for_def find_None_iff by (metis imageE image_eqI)

text \<open>What a checked list of resolutions is: one per item of the request, within what is out.\<close>

definition resolutions_fit :: "nat \<Rightarrow> resolution list \<Rightarrow> db \<Rightarrow> bool" where
  "resolutions_fit rid xs s \<longleftrightarrow> distinct (map x_item xs) \<and> (\<forall>x \<in> set xs. resolution_nonneg x \<and>
     (\<exists>i \<in> set (request_items rid s). i_id i = x_item x \<and> resolution_quantity x \<le> remaining_quantity i))"

lemma individual_counts_nonneg:
  "0 \<le> a \<Longrightarrow> 0 \<le> b \<Longrightarrow> 0 \<le> c \<Longrightarrow> (\<And>x y z. 0 \<le> x \<Longrightarrow> 0 \<le> y \<Longrightarrow> 0 \<le> z \<Longrightarrow> P (x, y, z)) \<Longrightarrow>
    yields P (\<lambda>_. True) (individual_counts i a b c outcomes)"
  by (simp add: individual_counts_def Let_def outcome_count_def)

lemma build_resolution_Inr:
  assumes "build_resolution rid s x = Inr y"
  shows "x_item y = x_item x \<and> x_assets y = x_assets x \<and> resolution_nonneg y \<and>
    (\<exists>i \<in> set (request_items rid s). i_id i = x_item y \<and> resolution_quantity y \<le> remaining_quantity i)"
proof -
  have "yields (\<lambda>y. x_item y = x_item x \<and> x_assets y = x_assets x \<and> resolution_nonneg y \<and>
    (\<exists>i \<in> set (request_items rid s). i_id i = x_item y \<and> resolution_quantity y \<le> remaining_quantity i)) (\<lambda>_. True)
    (build_resolution rid s x)"
    by (auto simp: build_resolution_def resolution_nonneg_def resolution_quantity_def find_Some_iff not_less
        split: option.splits intro!: get_product_framed individual_counts_nonneg)
  from yields_Inr [OF this assms] show ?thesis .
qed

lemma build_resolutions_fit:
  assumes "build_resolutions rid xs s = Inr ys" and "distinct (map x_item xs)"
  shows "resolutions_fit rid ys s \<and> 1 \<le> sum_list (map resolution_quantity ys)"
proof -
  from assms(1) have "list_all2 (\<lambda>x y. build_resolution rid s x = Inr y) xs ys"
    and sum: "1 \<le> sum_list (map resolution_quantity ys)"
    by (auto simp: build_resolutions_def ok_iff dest: collect_Inr)
  from this(1) have "map x_item ys = map x_item xs \<and> (\<forall>y \<in> set ys. resolution_nonneg y \<and>
      (\<exists>i \<in> set (request_items rid s). i_id i = x_item y \<and> resolution_quantity y \<le> remaining_quantity i))"
    by (induction xs ys rule: list_all2_induct) (auto dest: build_resolution_Inr)
  with assms(2) sum show ?thesis by (simp add: resolutions_fit_def)
qed

lemma return_items_step:
  assumes "return_items_stock xs s = Inr t" and "tables_ok s" and "resolutions_fit rid xs s"
  shows "requests t = requests s" and "tables_ok t"
    and "items t = map (\<lambda>i. if i_request i = rid then returned_item xs i else i) (items s)"
    and "reserved_of pid t = reserved_of pid s"
    and "issued_of pid t = issued_of pid s -
      sum_list (map (\<lambda>i. if i_product i = pid then returned_quantity xs i else 0) (request_items rid s))"
proof -
  have loop: "for_each return_resolution xs s = Inr t"
    using assms(1) by (auto simp: return_items_stock_def split: if_splits)
  have dist: "distinct (map x_item xs)" and nonneg: "\<And>x. x \<in> set xs \<Longrightarrow> resolution_nonneg x"
    using assms(3) by (auto simp: resolutions_fit_def)
  have uniq: "unique_keys i_id (items s)" using assms(2) by (simp add: tables_ok_def items_ok_def)
  show "requests t = requests s"
    using loop by (rule for_each_inv [where I = "\<lambda>u. requests u = requests s"])
      (auto dest!: return_resolution_step [OF _ nonneg])
  show "reserved_of pid t = reserved_of pid s"
    using loop by (rule for_each_inv [where I = "\<lambda>u. reserved_of pid u = reserved_of pid s"])
      (auto dest!: return_resolution_step [OF _ nonneg, where pid = pid])
  show "tables_ok t"
    using yields_Inr [OF return_items_safe [OF assms(2)] assms(1)] nonneg by (simp add: list_all_iff)
  \<comment> \<open>each resolution has an item of the request, found by its key\<close>
  define item where "item x = the (item_of (x_item x) s)" for x :: resolution
  have item: "item_of (x_item x) s = Some (item x) \<and> item x \<in> set (request_items rid s) \<and> i_id (item x) = x_item x"
    if "x \<in> set xs" for x
  proof -
    from assms(3) that obtain i where i: "i \<in> set (request_items rid s)" "i_id i = x_item x"
      by (auto simp: resolutions_fit_def)
    then have "item_of (x_item x) s = Some i"
      using row_get_unique [OF uniq, of i] by (simp add: item_of_def request_items_def)
    with i show ?thesis by (simp add: item_def)
  qed
  let ?is = "map item xs"
  let ?f = "\<lambda>i. return_resolution (the (resolution_for xs i))"
  have for_item: "resolution_for xs (item x) = Some x" if "x \<in> set xs" for x
    using resolution_for_Some [OF dist that] item [OF that] by simp
  have loop': "for_each ?f ?is s = Inr t"
    using loop by (simp add: for_each_map for_item cong: for_each_cong)
  have "map i_id ?is = map x_item xs" using item by simp
  then have "distinct (map i_id ?is)" using dist by (simp only:)
  then have dist': "distinct ?is" by (rule distinct_map [THEN iffD1, THEN conjunct1])
  have "items t = map (\<lambda>r. if r \<in> set ?is then returned_item xs r else r) (items s)"
  proof (rule for_each_rows [where key = i_id and tab = items, OF loop' dist' uniq])
    show "set ?is \<subseteq> set (items s)" using item by (auto simp: request_items_def)
    show "i_id (returned_item xs i) = i_id i" for i by (simp add: returned_item_def split: option.split)
    fix i u v
    assume "i \<in> set ?is" and u: "i \<in> set (items u)" "unique_keys i_id (items u)" and v: "?f i u = Inr v"
    then obtain x where x: "x \<in> set xs" "i = item x" by auto
    have i: "i_id i = x_item x" using item [OF x(1)] x(2) by simp
    have v': "return_resolution x u = Inr v" using v x by (simp add: for_item)
    have "item_of (x_item x) u = Some i" using row_get_unique [OF u(2,1)] i by (simp add: item_of_def)
    with return_resolution_step [OF v' nonneg [OF x(1)], of 0]
    show "items v = row_put i_id (returned_item xs i) (items u) \<or> returned_item xs i = i \<and> items v = items u"
      by (auto simp: x(2) for_item [OF x(1)] returned_item_def)
  qed
  moreover have outside: "resolution_for xs i = None" if "i \<in> set (request_items rid s)" "i \<notin> set ?is" for i
    unfolding resolution_for_None
  proof
    assume "i_id i \<in> x_item ` set xs"
    then obtain x where x: "x \<in> set xs" "i_id i = x_item x" by auto
    have "item_of (i_id i) s = Some i"
      using row_get_unique [OF uniq, of i] that(1) by (simp add: item_of_def request_items_def)
    with item [OF x(1)] x have "i = item x" by simp
    with x(1) that(2) show False by simp
  qed
  then have "returned_item xs i = i" if "i \<in> set (request_items rid s)" "i \<notin> set ?is" for i
    using that by (simp add: returned_item_def)
  ultimately show "items t = map (\<lambda>i. if i_request i = rid then returned_item xs i else i) (items s)"
    using item by (auto simp: request_items_def)
  have prod: "map_option i_product (item_of iid v) = map_option i_product (item_of iid u)"
    if "return_resolution x u = Inr v" "x \<in> set xs" for x u v iid
    using return_resolution_step [OF that(1) nonneg [OF that(2)], of 0]
    by (auto simp: item_of_def row_get_row_put dest: row_get_SomeD)
  have "issued_of pid t = issued_of pid s +
      sum_list (map (\<lambda>i. - (if i_product i = pid then returned_quantity xs i else 0)) ?is)"
  proof (rule for_each_sum [OF loop', where I = "\<lambda>u. \<forall>iid. map_option i_product (item_of iid u) = map_option i_product (item_of iid s)"])
    fix i u v
    assume "i \<in> set ?is" and u: "\<forall>iid. map_option i_product (item_of iid u) = map_option i_product (item_of iid s)"
      and v: "?f i u = Inr v"
    then obtain x where x: "x \<in> set xs" "i = item x" by auto
    have v': "return_resolution x u = Inr v" using v x by (simp add: for_item)
    have "map_option i_product (item_of (x_item x) u) = Some (i_product i)"
      using u [rule_format, of "x_item x"] item [OF x(1)] x(2) by simp
    then obtain j where "item_of (x_item x) u = Some j" "i_product j = i_product i" by auto
    with return_resolution_step [OF v' nonneg [OF x(1)], of pid]
    show "(\<forall>iid. map_option i_product (item_of iid v) = map_option i_product (item_of iid s)) \<and>
        issued_of pid v = issued_of pid u + - (if i_product i = pid then returned_quantity xs i else 0)"
      using u prod [OF v' x(1)] x(2) for_item [OF x(1)] by (auto simp: returned_quantity_def)
  qed simp
  moreover have "sum_list (map (\<lambda>i. if i_product i = pid then returned_quantity xs i else 0) ?is) =
      sum_list (map (\<lambda>i. if i_product i = pid then returned_quantity xs i else 0) (request_items rid s))"
  proof -
    have "distinct (request_items rid s)" using assms(2) by (simp add: request_items_def distinct_items)
    with dist' show ?thesis
      unfolding sum_list_distinct_conv_sum_set [OF dist'] sum_list_distinct_conv_sum_set [OF \<open>distinct (request_items rid s)\<close>]
      using item by (intro sum.mono_neutral_left) (auto simp: returned_quantity_def outside)
  qed
  ultimately show "issued_of pid t = issued_of pid s -
      sum_list (map (\<lambda>i. if i_product i = pid then returned_quantity xs i else 0) (request_items rid s))"
    unfolding sum_neg by linarith
qed

lemma finalize_return_Inr:
  assumes "finalize_return_status r actor s = Inr (action, t)"
  shows "\<exists>r'. r_id r' = r_id r \<and> save_request r' s = Inr t \<and>
    (r_status r' = PartiallyReturned \<and> \<not> all_resolved (request_items (r_id r) s) \<or>
     all_resolved (request_items (r_id r) s) \<and>
     r_status r' = (if has_issue (request_items (r_id r) s) then ClosedWithIssue else Returned))"
proof (cases "all_resolved (request_items (r_id r) s)")
  case True
  with assms show ?thesis
    by (auto simp: finalize_return_status_def ok_iff intro!: exI [of _ "r\<lparr>r_status := (if has_issue (request_items (r_id r) s)
      then ClosedWithIssue else Returned), r_closed_by := Some actor, r_closed_at := Some (now s)\<rparr>"])
next
  case False
  with assms show ?thesis
    by (auto simp: finalize_return_status_def ok_iff intro!: exI [of _ "r\<lparr>r_status := PartiallyReturned\<rparr>"])
qed

lemma record_scan_core: "core (snd (record_scan actor r b s)) = core s"
  by (auto simp: record_scan_def create_box_scan_def split: option.splits)

lemma create_event_core: "create_event actor r b eid remark s = Inr (v, t) \<Longrightarrow> core t = core s"
  by (auto simp: create_event_def Let_def split: if_splits)

lemma audit_return_core [simp]: "core (audit_return actor r b eid scan action s) = core s"
  by (simp add: audit_return_def Let_def split: option.split)

lemma return_locked_Inr:
  assumes "return_locked env actor rid ev n remark code xs s = Inr t"
  shows "\<exists>r s' ys u v a w. request_of rid s = Some r \<and> on_loan r \<and> core s' = core s \<and>
    build_resolutions rid xs s' = Inr ys \<and> return_items_stock ys s' = Inr u \<and> core v = core u \<and>
    finalize_return_status r actor v = Inr (a, w) \<and> core t = core w"
proof -
  let ?s = "s\<lparr>in_atomic := True\<rparr>"
  from assms obtain r s1 b ys u vid s3 s4 a w where r: "request_of rid s = Some r" "on_loan r"
    and s1: "charge_storage_once env ev n ?s = Inr s1"
    and ys: "build_resolutions rid xs (snd (record_scan actor r b s1)) = Inr ys"
      "return_items_stock ys (snd (record_scan actor r b s1)) = Inr u"
    and s3: "create_event actor r b (e_id ev) remark u = Inr (vid, s3)"
    and s4: "flip_individual_asset_returns actor r ys vid s3 = Inr s4"
    and w: "finalize_return_status r actor (write_accountability actor r (e_id ev) ys s4) = Inr (a, w)"
    and t: "core t = core w"
    by (auto simp: return_locked_def atomic_Inr ok_iff locked_request_Inr require_returnable_def Let_def
        split: if_splits prod.splits)
  have "core (snd (record_scan actor r b s1)) = core s"
    using record_scan_core charge_storage_core [OF s1] by simp
  moreover have "core (write_accountability actor r (e_id ev) ys s4) = core u"
    using flip_core [OF s4] create_event_core [OF s3] by simp
  ultimately show ?thesis using r ys w t by blast
qed

text \<open>
  The shape of every return: fitting resolutions are moved through the stock and the items of a
  request that is out, and the row of the request is saved partly returned, or closed with
  everything resolved.
\<close>

definition settles :: "nat \<Rightarrow> resolution list \<Rightarrow> db \<Rightarrow> db \<Rightarrow> bool" where
  "settles rid ys s t \<longleftrightarrow> (\<exists>r r' s' u v w. request_of rid s = Some r \<and> on_loan r \<and> core s' = core s \<and>
     resolutions_fit rid ys s \<and> return_items_stock ys s' = Inr u \<and> core v = core u \<and>
     r_id r' = r_id r \<and> save_request r' v = Inr w \<and> core t = core w \<and>
     (r_status r' = PartiallyReturned \<or>
      r_status r' \<in> {Returned, ClosedWithIssue} \<and> all_resolved (request_items rid v)))"

lemma return_locked_settles:
  assumes "return_locked env actor rid ev n remark code xs s = Inr t" and "distinct (map x_item xs)"
  shows "\<exists>ys. settles rid ys s t"
proof -
  from return_locked_Inr [OF assms(1)] obtain r s' ys u v a w where r: "request_of rid s = Some r" "on_loan r"
    and s': "core s' = core s" and ys: "build_resolutions rid xs s' = Inr ys"
    and u: "return_items_stock ys s' = Inr u" and v: "core v = core u"
    and w: "finalize_return_status r actor v = Inr (a, w)" and t: "core t = core w" by blast
  have rid: "r_id r = rid" using r(1) by (rule request_of_id)
  have "request_items rid s' = request_items rid s" using core_eqD [OF s'] by (simp add: request_items_def)
  with build_resolutions_fit [OF ys assms(2)] have "resolutions_fit rid ys s" by (simp add: resolutions_fit_def)
  moreover from finalize_return_Inr [OF w] obtain r' where "r_id r' = r_id r" "save_request r' v = Inr w"
    "r_status r' = PartiallyReturned \<or>
      r_status r' \<in> {Returned, ClosedWithIssue} \<and> all_resolved (request_items rid v)"
    by (auto simp: rid split: if_splits)
  ultimately show ?thesis using r s' u v t unfolding settles_def by blast
qed

lemma settled_moved:
  assumes "settles rid ys s t" and "ledger_ok s"
  shows "\<exists>r r'. moved r r' (returned_item ys) s t \<and> r_id r = rid \<and> on_loan r \<and> stock_ok t \<and>
    resolutions_fit rid ys s \<and>
    (r_status r' = PartiallyReturned \<or>
     r_status r' \<in> {Returned, ClosedWithIssue} \<and> all_resolved (map (returned_item ys) (request_items rid s))) \<and>
    (\<forall>pid. reserved_of pid t = reserved_of pid s \<and> issued_of pid t = issued_of pid s -
      sum_list (map (\<lambda>i. if i_product i = pid then returned_quantity ys i else 0) (request_items rid s)))"
proof -
  from assms(1) obtain r r' s' u v w where r: "request_of rid s = Some r" "on_loan r"
    and s': "core s' = core s" and fit: "resolutions_fit rid ys s"
    and u: "return_items_stock ys s' = Inr u" and v: "core v = core u"
    and r': "r_id r' = r_id r" "save_request r' v = Inr w" and t: "core t = core w"
    and st: "r_status r' = PartiallyReturned \<or>
      r_status r' \<in> {Returned, ClosedWithIssue} \<and> all_resolved (request_items rid v)"
    unfolding settles_def by blast
  note c = core_eqD [OF s'] and cv = core_eqD [OF v]
  have rid: "r_id r = rid" using r(1) by (rule request_of_id)
  have ok: "tables_ok s'" using ledger_ok_core [OF s'] assms(2) by (simp add: ledger_ok_def)
  have its: "request_items rid s' = request_items rid s" using c by (simp add: request_items_def)
  have fit': "resolutions_fit rid ys s'" using fit its by (simp add: resolutions_fit_def)
  note step = return_items_step [OF u ok fit']
  have t': "products t = products u" "items t = items u" "requests t = row_put r_id r' (requests s)"
    using save_request_core [OF r'(2)] core_eqD [OF t] cv step(1) c by simp_all
  have m: "moved r r' (returned_item ys) s t"
    using r(1) rid r'(1) t' step(3) c
    by (auto simp: moved_def returned_item_def split: option.splits)
  have "request_items rid v = map (returned_item ys) (request_items rid s)"
    unfolding request_items_def cv [THEN conjunct2, THEN conjunct1] step(3) c [THEN conjunct2, THEN conjunct1]
    by (rule filter_rewritten) (simp add: returned_item_def split: option.split)
  then have st': "r_status r' = PartiallyReturned \<or>
      r_status r' \<in> {Returned, ClosedWithIssue} \<and> all_resolved (map (returned_item ys) (request_items rid s))"
    using st by simp
  have "stock_ok t" using step(2) t'(1) by (simp add: tables_ok_def stock_ok_def)
  moreover have "reserved_of pid t = reserved_of pid s \<and> issued_of pid t = issued_of pid s -
      sum_list (map (\<lambda>i. if i_product i = pid then returned_quantity ys i else 0) (request_items rid s))" for pid
    using step(4,5) [of pid] reserved_of_products [OF t'(1), of pid] reserved_of_products [of s' s pid] c its by simp
  ultimately show ?thesis using m rid r(2) fit st' by blast
qed

lemma fit_returned_quantity:
  assumes "resolutions_fit rid xs s" and "tables_ok s" and "i \<in> set (request_items rid s)"
  shows "0 \<le> returned_quantity xs i" and "remaining_quantity i \<ge> 0 \<Longrightarrow> returned_quantity xs i \<le> remaining_quantity i"
    and "resolution_for xs i = Some x \<Longrightarrow> resolution_nonneg x"
proof -
  have uniq: "unique_keys i_id (items s)" using assms(2) by (simp add: tables_ok_def items_ok_def)
  show nn: "resolution_nonneg x" if "resolution_for xs i = Some x" for x
    using assms(1) that by (auto simp: resolution_for_def resolutions_fit_def find_Some_iff)
  then show "0 \<le> returned_quantity xs i"
    by (auto simp: returned_quantity_def resolution_quantity_def resolution_nonneg_def split: option.split)
  have "resolution_quantity x \<le> remaining_quantity i" if "resolution_for xs i = Some x" for x
  proof -
    from that have "x \<in> set xs" "x_item x = i_id i" by (auto simp: resolution_for_def find_Some_iff)
    with assms(1) obtain j where "j \<in> set (request_items rid s)" "i_id j = i_id i"
      "resolution_quantity x \<le> remaining_quantity j" by (auto simp: resolutions_fit_def)
    moreover have "j = i" using calculation(1,2) assms(3) uniq
      by (auto simp: request_items_def unique_keys_def distinct_map inj_on_def)
    ultimately show ?thesis by simp
  qed
  then show "remaining_quantity i \<ge> 0 \<Longrightarrow> returned_quantity xs i \<le> remaining_quantity i"
    by (auto simp: returned_quantity_def split: option.split)
qed

lemma remaining_returned_item: "remaining_quantity (returned_item xs i) = remaining_quantity i - returned_quantity xs i"
  by (simp add: returned_item_def returned_quantity_def remaining_add_return split: option.split)

lemma settled_ledger:
  assumes "settles rid ys s t" and "ledger_ok s"
  shows "keeps_ledger s t"
  unfolding keeps_ledger_def
proof
  from settled_moved [OF assms] obtain r r' where m: "moved r r' (returned_item ys) s t"
    and r: "r_id r = rid" "on_loan r" and "stock_ok t" and fit: "resolutions_fit rid ys s"
    and st: "r_status r' = PartiallyReturned \<or>
     r_status r' \<in> {Returned, ClosedWithIssue} \<and> all_resolved (map (returned_item ys) (request_items rid s))"
    and b: "\<forall>pid. reserved_of pid t = reserved_of pid s \<and> issued_of pid t = issued_of pid s -
      sum_list (map (\<lambda>i. if i_product i = pid then returned_quantity ys i else 0) (request_items rid s))" by blast
  have rs: "request_of rid s = Some r" using m r(1) by (simp add: moved_def)
  have ok: "tables_ok s" using assms(2) by (simp add: ledger_ok_def)
  have closed: "remaining_quantity (returned_item ys i) = 0"
    if "r_status r' \<noteq> PartiallyReturned" "i \<in> set (request_items rid s)" for i
    using st that by (auto simp: all_resolved_def list_all_iff remaining_quantity_def)
  have phase: "i_accepted i \<le> i_requested i \<and> i_issued i + i_needs_fix i \<le> i_accepted i \<and> 0 \<le> remaining_quantity i"
    if "i \<in> set (request_items rid s)" for i
    using ledger_item(1) [OF assms(2) rs that] r(2) by (auto simp: on_loan_def)
  have same: "i_accepted (returned_item ys i) = i_accepted i" "i_requested (returned_item ys i) = i_requested i"
    "i_issued (returned_item ys i) = i_issued i" "i_needs_fix (returned_item ys i) = i_needs_fix i" for i
    by (simp_all add: returned_item_def split: option.split)
  from m assms(2) \<open>stock_ok t\<close> show "ledger_ok t"
  proof (rule moved_ledger_ok)
    fix i
    assume i: "i \<in> set (request_items (r_id r) s)" and "item_in_range i" and c: "item_constraints i"
    note q = fit_returned_quantity [OF fit ok, of i]
    have rem: "0 \<le> remaining_quantity (returned_item ys i)"
      using q(2) phase [of i] i r(1) by (simp add: remaining_returned_item)
    then have "phase_ok (r_status r') (returned_item ys i)"
      using phase [of i] closed [of i] st i r(1) by (auto simp: same)
    moreover have c': "item_constraints (returned_item ys i)"
      using c q(3) i r(1) by (auto simp: item_constraints_def returned_item_def add_return_def resolution_nonneg_def
          split: option.split)
    moreover have "item_in_range (returned_item ys i)"
      using c' rem \<open>item_in_range i\<close> by (auto simp: item_in_range_def item_constraints_def same remaining_quantity_def)
    ultimately show "phase_ok (r_status r') (returned_item ys i) \<and> item_in_range (returned_item ys i) \<and>
        item_constraints (returned_item ys i)" by simp
  qed
  show "same_surplus s t"
    using m
  proof (rule moved_same_surplus)
    fix pid
    have "r_status r \<noteq> Accepted" "r_status r' \<noteq> Accepted" using r(2) st by (auto simp: on_loan_def)
    then show "reserved_of pid t = reserved_of pid s + sum_list (map (\<lambda>i. if i_product i = pid
        then reserved_by (r_status r') (returned_item ys i) - reserved_by (r_status r) i else 0) (request_items (r_id r) s))"
      by (simp add: b reserved_by_def sum_zero cong: if_cong)
    show "issued_of pid t = issued_of pid s + sum_list (map (\<lambda>i. if i_product i = pid
        then issued_by (r_status r') (returned_item ys i) - issued_by (r_status r) i else 0) (request_items (r_id r) s))"
      unfolding r b [rule_format, THEN conjunct2] diff_conv_add_uminus sum_neg [symmetric]
    proof (intro arg_cong2 [of _ _ _ _ "(+)"] sum_cong refl)
      fix i
      assume i: "i \<in> set (request_items rid s)"
      have "issued_by (r_status r) i = remaining_quantity i" using r(2) by (simp add: issued_by_def on_loan_def)
      moreover have "issued_by (r_status r') (returned_item ys i) = remaining_quantity i - returned_quantity ys i"
        using closed [OF _ i] st by (auto simp: issued_by_def remaining_returned_item)
      ultimately show "- (if i_product i = pid then returned_quantity ys i else 0) =
          (if i_product i = pid then issued_by (r_status r') (returned_item ys i) + - issued_by (r_status r) i else 0)"
        by simp
    qed
  qed
qed

lemma return_ledger:
  "return_locked env actor rid ev n remark code xs s = Inr t \<Longrightarrow> ledger_ok s \<Longrightarrow> distinct (map x_item xs) \<Longrightarrow>
    keeps_ledger s t"
  using return_locked_settles settled_ledger by blast

end
