(* ===== verification/Lending.thy ===== *)
theory Lending
  imports Ledger_Steps
begin

text \<open>
  The request workflow as one machine: its operations with the request bodies their views
  accept, the status graph every request follows, and the ledger invariant over every run. The
  promotion of a photo is a separate step of the evidence component; the two operations that
  need one are the transactions that run after it.
\<close>

section \<open>The machine\<close>

datatype lending_op =
    Submit nat "(nat \<times> int) list" string nat requester_snapshot "nat option" string string
  | Accept nat nat "(nat \<times> int) list option"
  | Reject nat nat string
  | Cancel "nat option" nat nat "string option"
  | AssignBox nat nat string
  | SetReturnDue nat nat "int option"
  | Issue nat nat evidence_photo "int option" string "string list" rejects
  | Return nat nat evidence_photo "int option" string string "resolution list"

fun lending_step :: "env \<Rightarrow> lending_op \<Rightarrow> db \<Rightarrow> exn + db" where
  "lending_step env (Submit ms its rf rq contact actor key payload) s =
     try_then (submit_request env ms its rf rq contact actor key payload s) (\<lambda>(_, t). Inr t)"
| "lending_step env (Accept actor rid accepted) s =
     (if accept_body_valid accepted then accept_request actor rid accepted s else Inl ValidationError)"
| "lending_step env (Reject actor rid reason) s = reject_request actor rid reason s"
| "lending_step env (Cancel actor rid ms reason) s = cancel_request env actor rid ms reason s"
| "lending_step env (AssignBox actor rid code) s = assign_box actor rid code s"
| "lending_step env (SetReturnDue actor rid due) s = set_return_due actor rid due s"
| "lending_step env (Issue actor rid ev n remark payloads rs) s =
     issue_locked env actor rid ev n remark payloads rs s"
| "lending_step env (Return actor rid ev n remark code xs) s =
     (if return_body_valid xs then return_locked env actor rid ev n remark code xs s
      else Inl ValidationError)"

lemma lending_step_keeps:
  assumes "ledger_ok s" and "lending_step env c s = Inr t"
  shows "keeps_ledger s t"
proof (cases c)
  case (Submit ms its rf rq contact actor key payload)
  with assms(2) obtain r where "submit_request env ms its rf rq contact actor key payload s = Inr (r, t)"
    by (auto simp: ok_iff)
  with yields_Inr [OF submit_ledger [OF assms(1)]] show ?thesis by blast
next
  case (Return actor rid ev n remark code xs)
  with assms show ?thesis
    by (auto simp: return_body_valid_def split: if_splits intro: return_ledger)
qed (use assms in \<open>auto split: if_splits intro: accept_ledger cancel_ledger issue_ledger
      yields_Inr [OF reject_ledger] yields_Inr [OF assign_box_ledger] yields_Inr [OF set_return_due_ledger]\<close>)

interpretation lending: tracked_machine "lending_step env" ledger_ok same_surplus for env
  by unfold_locales (auto dest: lending_step_keeps simp: keeps_ledger_def intro: same_surplus_trans)

section \<open>The status graph\<close>

inductive transition :: "request_status \<Rightarrow> request_status \<Rightarrow> bool" where
  stay: "transition st st"
| accept: "transition PendingApproval Accepted"
| reject: "transition PendingApproval Rejected"
| cancel: "transition Accepted Cancelled"
| issue: "transition Accepted Issued"
| partly_returned: "transition Issued PartiallyReturned"
| returned: "st \<in> {Issued, PartiallyReturned} \<Longrightarrow> transition st Returned"
| closed: "st \<in> {Issued, PartiallyReturned} \<Longrightarrow> transition st ClosedWithIssue"

code_pred transition .

inductive_simps transition_from_closed:
  "transition Rejected st" "transition Cancelled st" "transition Returned st" "transition ClosedWithIssue st"

text \<open>Every request of \<open>s\<close> is still in \<open>t\<close>, and moved along the graph.\<close>

definition follows_graph :: "db \<Rightarrow> db \<Rightarrow> bool" where
  "follows_graph s t \<longleftrightarrow> (\<forall>rid r. request_of rid s = Some r \<longrightarrow>
     (\<exists>r'. request_of rid t = Some r' \<and> transition\<^sup>*\<^sup>* (r_status r) (r_status r')))"

lemma follows_graph_refl: "follows_graph s s"
  unfolding follows_graph_def by blast

lemma follows_graph_trans: "follows_graph s t \<Longrightarrow> follows_graph t u \<Longrightarrow> follows_graph s u"
  unfolding follows_graph_def by (meson rtranclp_trans)

lemma follows_graph_core: "core t = core u \<Longrightarrow> follows_graph s t = follows_graph s u"
  unfolding follows_graph_def using request_of_core [of t u] by simp

lemma moved_follows:
  assumes "moved r r' g s t" and "transition (r_status r) (r_status r')"
  shows "follows_graph s t"
proof -
  have r: "request_of (r_id r) s = Some r" using assms(1) by (simp add: moved_def)
  show ?thesis
    unfolding follows_graph_def
  proof (intro allI impI)
    fix rid q
    assume q: "request_of rid s = Some q"
    show "\<exists>r'. request_of rid t = Some r' \<and> transition\<^sup>*\<^sup>* (r_status q) (r_status r')"
    proof (cases "rid = r_id r")
      case True
      with r q have "q = r" by simp
      with True moved_request_of [OF assms(1)] assms(2) show ?thesis by (simp add: r_into_rtranclp)
    next
      case False
      with moved_request_of [OF assms(1)] q show ?thesis by simp
    qed
  qed
qed

lemma quiet_save_follows:
  assumes "core u = core s" and "request_of (r_id r') s = Some r" and "transition (r_status r) (r_status r')"
    and "\<And>t. follows_graph s t \<Longrightarrow> P t"
  shows "yields P (\<lambda>_. True) (save_request r' u)"
proof (intro yieldsI assms(4))
  fix t
  assume "save_request r' u = Inr t"
  then have "moved r r' (\<lambda>i. i) s t"
    using core_eqD [OF assms(1)] assms(2) request_of_id [OF assms(2)]
    by (auto simp: moved_def dest: save_request_core)
  then show "follows_graph s t" using assms(3) by (rule moved_follows)
qed simp

lemma follows_graph_simps [simp]:
  "follows_graph s (audit_record actor act ms tgt meta t) = follows_graph s t"
  "follows_graph s (notify ev i t) = follows_graph s t"
  "follows_graph s (t\<lparr>in_atomic := b\<rparr>) = follows_graph s t"
  "follows_graph s (t\<lparr>box_scans := bs\<rparr>) = follows_graph s t"
  "follows_graph (s\<lparr>in_atomic := b\<rparr>) t = follows_graph s t"
  by (rule follows_graph_core, simp)+ (simp add: follows_graph_def)

lemma quiet_ops_follow:
  "yields (follows_graph s) (\<lambda>_. True) (reject_request actor rid reason s)"
  "yields (follows_graph s) (\<lambda>_. True) (set_return_due actor rid due s)"
  "yields (follows_graph s) (\<lambda>_. True) (assign_box actor rid code s)"
  by (auto simp: reject_request_def set_return_due_def assign_box_def create_box_scan_def Let_def
      split: option.splits intro!: locked_request_wp quiet_save_follows transition.intros)

lemma submit_follows:
  "yields (\<lambda>(r, t). follows_graph s t) (\<lambda>_. True) (submit_request env ms its rf rq contact actor key payload s)"
proof -
  let ?s = "s\<lparr>in_atomic := True\<rparr>"
  have "yields (\<lambda>x. follows_graph s (snd x)) (\<lambda>_. True)
      (submit_new_request ms its rf rq contact actor key payload ?s)"
  proof (rule yieldsI)
    fix x
    assume "submit_new_request ms its rf rq contact actor key payload ?s = Inr x"
    then obtain u v r where u: "u = ?s\<lparr>requests := requests s @ [r]\<rparr>"
      and v: "for_each (create_item (fresh_key r_id (requests s))) its u = Inr v" and x: "core (snd x) = core v"
      by (auto simp: submit_new_request_def Let_def ok_iff create_request_def split: if_splits)
    have "requests v = requests u"
      using v by (rule for_each_inv [where I = "\<lambda>w. requests w = requests u"])
        (auto simp: create_item_def Let_def ok_iff)
    then have "follows_graph s v" by (auto simp: follows_graph_def request_of_def u row_get_append)
    then show "follows_graph s (snd x)" using follows_graph_core [OF x] by simp
  qed simp
  then show ?thesis
    by (auto simp: submit_request_def anonymous_idempotency_replay_def case_prod_unfold follows_graph_refl
        enforce_anonymous_outstanding_limit_def get_makerspace_def split: option.splits)
qed

lemma lending_step_follows:
  assumes "ledger_ok s" and "lending_step env c s = Inr t"
  shows "follows_graph s t"
proof (cases c)
  case (Submit ms its rf rq contact actor key payload)
  with assms(2) obtain r where "submit_request env ms its rf rq contact actor key payload s = Inr (r, t)"
    by (auto simp: ok_iff)
  with yields_Inr [OF submit_follows] show ?thesis by blast
next
  case (Accept actor rid acc)
  with assms show ?thesis
    by (auto simp: transition.simps split: if_splits dest!: accept_moved elim!: moved_follows)
next
  case (Cancel actor rid ms reason)
  with assms show ?thesis by (auto simp: transition.simps dest!: cancel_moved elim!: moved_follows)
next
  case (Issue actor rid ev n remark payloads rs)
  with assms show ?thesis by (auto simp: transition.simps dest!: issue_moved elim!: moved_follows)
next
  case (Return actor rid ev n remark code xs)
  with assms have "return_locked env actor rid ev n remark code xs s = Inr t" "distinct (map x_item xs)"
    by (auto simp: return_body_valid_def split: if_splits)
  then obtain ys where "settles rid ys s t" using return_locked_settles by blast
  from settled_moved [OF this assms(1)] show ?thesis
    by (auto simp: on_loan_def transition.simps elim!: moved_follows)
qed (use assms in \<open>auto intro: yields_Inr [OF quiet_ops_follow(1)] yields_Inr [OF quiet_ops_follow(2)]
      yields_Inr [OF quiet_ops_follow(3)]\<close>)

interpretation status: tracked_machine "lending_step env" ledger_ok follows_graph for env
  by unfold_locales (auto dest: lending_step_follows intro: follows_graph_refl follows_graph_trans)

lemma closed_stays:
  "transition\<^sup>*\<^sup>* st st' \<Longrightarrow> st \<in> {Rejected, Cancelled, Returned, ClosedWithIssue} \<Longrightarrow> st' = st"
  by (induction rule: rtranclp_induct) (auto simp: transition_from_closed)

section \<open>The stock covers what the requests hold\<close>

definition covered :: "db \<Rightarrow> bool" where
  "covered s \<longleftrightarrow> (\<forall>pid. 0 \<le> reserved_surplus pid s \<and> 0 \<le> issued_surplus pid s)"

lemma same_surplus_covered: "same_surplus s t \<Longrightarrow> covered s \<Longrightarrow> covered t"
  by (simp add: covered_def same_surplus_def)

text \<open>The products of the items of a request exist: the foreign key.\<close>

definition products_exist :: "nat \<Rightarrow> db \<Rightarrow> bool" where
  "products_exist rid s \<longleftrightarrow> list_all (\<lambda>i. product_of (i_product i) s \<noteq> None) (request_items rid s)"

lemma demand_covers:
  assumes "ledger_ok s" and "request_of rid s = Some r"
    and "\<And>st i. phase_ok st i \<Longrightarrow> item_constraints i \<Longrightarrow> 0 \<le> w st i"
  shows "sum_list (map (\<lambda>i. if i_product i = pid then w (r_status r) i else 0) (request_items rid s)) \<le> demand w pid s"
proof -
  have "sum_list (map (\<lambda>i. if i_product i = pid then w (r_status r) i else 0) (filter (\<lambda>i. i_request i = rid) its)) \<le>
      sum_list (map (\<lambda>i. if i_product i = pid then
        (case item_request_status s i of None \<Rightarrow> 0 | Some st \<Rightarrow> w st i) else 0) its)"
    if "set its \<subseteq> set (items s)" for its
    using that
  proof (induction its)
    case (Cons i its)
    then have "i \<in> set (items s)" by simp
    with assms(1) obtain q where q: "request_of (i_request i) s = Some q" "phase_ok (r_status q) i" "item_constraints i"
      by (auto simp: ledger_ok_def tables_ok_def items_ok_def)
    have "0 \<le> w (r_status q) i" using assms(3) q by blast
    with q(1) Cons assms(2) show ?case by (auto simp: item_request_status_eq)
  qed simp
  from this [of "items s"] show ?thesis by (simp add: demand_def request_items_def)
qed

lemma framed_product_of: "framed u v \<Longrightarrow> product_of pid v = None \<longleftrightarrow> product_of pid u = None"
proof -
  assume "framed u v"
  then have "map product_identity (products v) = map product_identity (products u)"
    by (simp add: framed_def stock_frame_def)
  then have "map (fst \<circ> product_identity) (products v) = map (fst \<circ> product_identity) (products u)"
    by (simp flip: map_map)
  then have "map p_id (products v) = map p_id (products u)"
    by (simp add: o_def product_identity_def)
  then show ?thesis
    unfolding product_of_def row_get_None by (simp flip: set_map)
qed

definition item_issuable :: "rejects \<Rightarrow> request_item \<Rightarrow> bool" where
  "item_issuable rs i \<longleftrightarrow> item_in_range i \<and> item_constraints i \<and> i_issued i = 0 \<and>
     fst (reject_of rs (i_id i)) \<le> i_accepted i"

lemma issue_item_succeeds:
  assumes "tables_ok u" and "item_issuable rs i" and "product_of (i_product i) u = Some p"
    and "i_accepted i \<le> p_reserved p"
  shows "\<exists>v. issue_item rs i u = Inr v"
proof -
  have p: "product_ok p" using assms(1,3) by (rule tables_ok_product)
  have "yields (\<lambda>_. True) (\<lambda>_. False) (issue_item rs i u)"
  proof -
    have "yields (\<lambda>_. True) (\<lambda>_. False) (try_then (save_product q u) (save_item j))"
      if "product_ok q" "item_in_range j" "item_constraints j" for q j
      using that by (auto simp: save_product_def product_ok_def save_item_def check_item_def)
    then show ?thesis
      using p assms(2-4) by (auto simp: issue_item_def Let_def item_issuable_def product_ok_iff_total
          product_constraints_def bucket_sum_def item_in_range_def item_constraints_def int32_max_def)
  qed
  then show ?thesis by (cases "issue_item rs i u") auto
qed

lemma issue_loop_succeeds:
  assumes "tables_ok u" and "\<And>i. i \<in> set its \<Longrightarrow> item_issuable rs i \<and> product_of (i_product i) u \<noteq> None"
    and "\<And>pid. sum_list (map (\<lambda>i. if i_product i = pid then i_accepted i else 0) its) \<le> reserved_of pid u"
  shows "\<exists>t. for_each (issue_item rs) its u = Inr t"
  using assms
proof (induction its arbitrary: u)
  case (Cons i its)
  from Cons.prems(2) [of i] obtain p where p: "product_of (i_product i) u = Some p" and i: "item_issuable rs i"
    by auto
  have nonneg: "0 \<le> i_accepted j" if "j \<in> set (i # its)" for j
    using Cons.prems(2) [OF that] by (simp add: item_issuable_def item_constraints_def)
  have "0 \<le> sum_list (map (\<lambda>j. if i_product j = i_product i then i_accepted j else 0) its)"
    using nonneg by (intro sum_list_nonneg) auto
  with Cons.prems(3) [of "i_product i"] reserved_of_Some [OF p] have "i_accepted i \<le> p_reserved p" by simp
  from issue_item_succeeds [OF Cons.prems(1) i p this] obtain v where v: "issue_item rs i u = Inr v" by blast
  have step: "reserved_of pid v = reserved_of pid u - (if i_product i = pid then i_accepted i else 0)" for pid
    using issue_item_step [OF v nonneg, of pid] i by (simp add: item_issuable_def)
  have ok: "tables_ok v" using yields_Inr [OF issue_item_safe [OF Cons.prems(1)] v] i by (simp add: item_issuable_def)
  have prods: "product_of pid v = None \<longleftrightarrow> product_of pid u = None" for pid
    using yields_Inr [OF issue_item_framed [OF framed_refl [OF Cons.prems(1)]] v] by (rule framed_product_of)
  have "\<exists>t. for_each (issue_item rs) its v = Inr t"
  proof (rule Cons.IH [OF ok])
    show "item_issuable rs j \<and> product_of (i_product j) v \<noteq> None" if "j \<in> set its" for j
      using Cons.prems(2) [of j] that prods [of "i_product j"] by simp
    show "sum_list (map (\<lambda>i. if i_product i = pid then i_accepted i else 0) its) \<le> reserved_of pid v" for pid
      using Cons.prems(3) [of pid] step [of pid] by simp
  qed
  with v show ?case by simp
qed simp

lemma accepted_items_issue:
  assumes "ledger_ok s" and "covered s" and "in_atomic s" and "request_of rid s = Some r"
    and "r_status r = Accepted" and "products_exist rid s"
    and "\<And>i. i \<in> set (request_items rid s) \<Longrightarrow> fst (reject_of rs (i_id i)) \<le> i_accepted i"
  shows "\<exists>t. issue_items rid rs s = Inr t"
proof -
  let ?its = "items_by_product rid s"
  have set: "set ?its = set (request_items rid s)" by (simp add: set_items_by_product request_items_def)
  have "\<exists>t. for_each (issue_item rs) ?its s = Inr t"
  proof (rule issue_loop_succeeds)
    show "tables_ok s" using assms(1) by (simp add: ledger_ok_def)
    show "item_issuable rs i \<and> product_of (i_product i) s \<noteq> None" if "i \<in> set ?its" for i
      using ledger_item [OF assms(1,4), of i] assms(5,6,7) that
      by (simp add: set item_issuable_def products_exist_def list_all_iff untouched_def)
    fix pid
    have "sum_list (map (\<lambda>i. if i_product i = pid then i_accepted i else 0) ?its) =
        sum_list (map (\<lambda>i. if i_product i = pid then reserved_by (r_status r) i else 0) (request_items rid s))"
      by (simp add: items_by_product_def reserved_by_def assms(5) cong: if_cong flip: sum_mset_sum_list)
    also have "\<dots> \<le> demand reserved_by pid s"
      by (rule demand_covers [OF assms(1,4)]) (simp add: reserved_by_def item_constraints_def)
    also have "\<dots> \<le> reserved_of pid s" using assms(2) by (simp add: covered_def reserved_surplus_def)
    finally show "sum_list (map (\<lambda>i. if i_product i = pid then i_accepted i else 0) ?its) \<le> reserved_of pid s" .
  qed
  with assms(3) show ?thesis by (simp add: issue_items_def)
qed

lemma return_resolution_succeeds:
  assumes "tables_ok u" and "resolution_nonneg x" and "item_of (x_item x) u = Some i"
    and "product_of (i_product i) u = Some p" and "resolution_quantity x \<le> p_issued p"
    and "resolution_quantity x \<le> remaining_quantity i"
  shows "\<exists>v. return_resolution x u = Inr v"
proof -
  have p: "product_ok p" using assms(1,4) by (rule tables_ok_product)
  have i: "item_in_range i" "item_constraints i"
    using assms(1,3) item_of_mem by (auto simp: tables_ok_def items_ok_def)
  have "yields (\<lambda>_. True) (\<lambda>_. False) (try_then (save_product q u) (save_item j))"
    if "product_ok q" "item_in_range j" "item_constraints j" for q j
    using that by (auto simp: save_product_def product_ok_def save_item_def check_item_def)
  then have "yields (\<lambda>_. True) (\<lambda>_. False) (return_resolution x u)"
    using p i assms(2-6) by (auto simp: return_resolution_def Let_def product_ok_iff_total resolution_nonneg_def
        product_constraints_def bucket_sum_def item_in_range_def item_constraints_def int32_max_def
        resolution_quantity_def remaining_quantity_def)
  then show ?thesis by (cases "return_resolution x u") auto
qed

lemma return_loop_succeeds:
  assumes "tables_ok u" and "distinct (map x_item xs)"
    and "\<And>x. x \<in> set xs \<Longrightarrow> resolution_nonneg x \<and> item_of (x_item x) u = Some (f x) \<and>
      resolution_quantity x \<le> remaining_quantity (f x) \<and> product_of (i_product (f x)) u \<noteq> None"
    and "\<And>pid. sum_list (map (\<lambda>x. if i_product (f x) = pid then resolution_quantity x else 0) xs) \<le> issued_of pid u"
  shows "\<exists>t. for_each return_resolution xs u = Inr t"
  using assms
proof (induction xs arbitrary: u)
  case (Cons x xs)
  from Cons.prems(3) [of x] obtain p where p: "product_of (i_product (f x)) u = Some p"
    and x: "resolution_nonneg x" "item_of (x_item x) u = Some (f x)" "resolution_quantity x \<le> remaining_quantity (f x)"
    by auto
  have nonneg: "0 \<le> resolution_quantity y" if "y \<in> set (x # xs)" for y
    using Cons.prems(3) [OF that] by (simp add: resolution_nonneg_def resolution_quantity_def)
  have "0 \<le> sum_list (map (\<lambda>y. if i_product (f y) = i_product (f x) then resolution_quantity y else 0) xs)"
    using nonneg by (intro sum_list_nonneg) auto
  with Cons.prems(4) [of "i_product (f x)"] reserved_of_Some [OF p] have "resolution_quantity x \<le> p_issued p" by simp
  from return_resolution_succeeds [OF Cons.prems(1) x(1,2) p this x(3)]
  obtain v where v: "return_resolution x u = Inr v" by blast
  note step = return_resolution_step [OF v x(1)]
  have issued: "issued_of pid v = issued_of pid u - (if i_product (f x) = pid then resolution_quantity x else 0)" for pid
    using step [of pid] x(2) by auto
  have row: "item_of iid v = item_of iid u" if "iid \<noteq> x_item x" for iid
    using step [of 0] that by (auto simp: item_of_def row_get_row_put dest: row_get_SomeD)
  have ok: "tables_ok v" using yields_Inr [OF return_resolution_safe [OF Cons.prems(1) x(1)] v] .
  have prods: "product_of pid v = None \<longleftrightarrow> product_of pid u = None" for pid
    using yields_Inr [OF return_resolution_framed [OF framed_refl [OF Cons.prems(1)]] v] by (rule framed_product_of)
  have "\<exists>t. for_each return_resolution xs v = Inr t"
  proof (rule Cons.IH [OF ok])
    show "distinct (map x_item xs)" using Cons.prems(2) by simp
    show "resolution_nonneg y \<and> item_of (x_item y) v = Some (f y) \<and>
        resolution_quantity y \<le> remaining_quantity (f y) \<and> product_of (i_product (f y)) v \<noteq> None" if "y \<in> set xs" for y
    proof -
      have "x_item y \<noteq> x_item x" using Cons.prems(2) that by (metis distinct.simps(2) image_eqI list.simps(9) set_map)
      with Cons.prems(3) [of y] that row [of "x_item y"] prods [of "i_product (f y)"] show ?thesis by simp
    qed
    show "sum_list (map (\<lambda>x. if i_product (f x) = pid then resolution_quantity x else 0) xs) \<le> issued_of pid v" for pid
      using Cons.prems(4) [of pid] issued [of pid] by simp
  qed
  with v show ?case by simp
qed simp

lemma validated_rejects_fit:
  assumes "validate_broken_rejects rid rs s = Inr ()" and "tables_ok s" and "i \<in> set (request_items rid s)"
  shows "fst (reject_of rs (i_id i)) \<le> i_accepted i"
proof (cases "map_of rs (i_id i)")
  case None
  then show ?thesis
    using assms(2,3) tables_ok_accepted [of s i] by (simp add: reject_of_def request_items_def)
next
  case (Some b)
  have uniq: "unique_keys i_id (request_items rid s)"
    using assms(2) by (auto simp: tables_ok_def items_ok_def unique_keys_def request_items_def distinct_map
        inj_on_def)
  from Some have "(i_id i, b) \<in> set rs" by (rule map_of_SomeD)
  with assms(1) have "validate_reject rid s (i_id i, b) = Inr ()"
    by (auto simp: validate_broken_rejects_def ok_iff dest!: collect_mem)
  moreover have "find (\<lambda>j. i_id j = i_id i) (request_items rid s) = Some i"
    using row_get_unique [OF uniq assms(3)] by (simp add: row_get_def)
  ultimately show ?thesis
    using Some by (auto simp: validate_reject_def reject_of_def split: if_splits)
qed

lemma fitted_resolutions_return:
  assumes "ledger_ok s" and "covered s" and "in_atomic s" and "request_of rid s = Some r" and "on_loan r"
    and "products_exist rid s" and fit: "resolutions_fit rid xs s"
  shows "\<exists>t. return_items_stock xs s = Inr t"
proof -
  have ok: "tables_ok s" and uniq: "unique_keys i_id (items s)"
    using assms(1) by (simp_all add: ledger_ok_def tables_ok_def items_ok_def)
  have dist: "distinct (map x_item xs)" using fit by (simp add: resolutions_fit_def)
  define f where "f x = the (item_of (x_item x) s)" for x :: resolution
  have f: "item_of (x_item x) s = Some (f x) \<and> f x \<in> set (request_items rid s) \<and> i_id (f x) = x_item x \<and>
      resolution_nonneg x \<and> resolution_quantity x \<le> remaining_quantity (f x)" if "x \<in> set xs" for x
  proof -
    from fit that obtain i where i: "i \<in> set (request_items rid s)" "i_id i = x_item x" "resolution_nonneg x"
      "resolution_quantity x \<le> remaining_quantity i" by (auto simp: resolutions_fit_def)
    then have "item_of (x_item x) s = Some i"
      using row_get_unique [OF uniq, of i] by (simp add: item_of_def request_items_def)
    with i show ?thesis by (simp add: f_def)
  qed
  have "\<exists>t. for_each return_resolution xs s = Inr t"
  proof (rule return_loop_succeeds [OF ok dist])
    show "resolution_nonneg x \<and> item_of (x_item x) s = Some (f x) \<and>
        resolution_quantity x \<le> remaining_quantity (f x) \<and> product_of (i_product (f x)) s \<noteq> None" if "x \<in> set xs" for x
      using f [OF that] assms(6) by (simp add: products_exist_def list_all_iff)
    fix pid
    have "sum_list (map (\<lambda>x. if i_product (f x) = pid then resolution_quantity x else 0) xs) \<le>
        sum_list (map (\<lambda>x. if i_product (f x) = pid then remaining_quantity (f x) else 0) xs)"
      using f by (intro sum_list_mono) auto
    also have "\<dots> = sum_list (map (\<lambda>i. if i_product i = pid then remaining_quantity i else 0) (map f xs))"
      by (simp add: o_def)
    also have "\<dots> \<le> sum_list (map (\<lambda>i. if i_product i = pid then issued_by (r_status r) i else 0) (request_items rid s))"
    proof -
      have eq: "map i_id (map f xs) = map x_item xs" using f by simp
      have "distinct (map i_id (map f xs))" unfolding eq by (rule dist)
      then have d: "distinct (map f xs)" by (rule distinct_map [THEN iffD1, THEN conjunct1])
      have d': "distinct (request_items rid s)" using ok by (simp add: request_items_def distinct_items)
      have "0 \<le> remaining_quantity i" if "i \<in> set (request_items rid s)" for i
        using ledger_item(1) [OF assms(1,4) that] assms(5) by (auto simp: on_loan_def)
      moreover have "issued_by (r_status r) = remaining_quantity"
        using assms(5) by (auto simp: issued_by_def on_loan_def fun_eq_iff)
      ultimately show ?thesis
        unfolding sum_list_distinct_conv_sum_set [OF d] sum_list_distinct_conv_sum_set [OF d']
        using f by (simp only:) (rule sum_mono2; auto)
    qed
    also have "\<dots> \<le> demand issued_by pid s"
    proof (rule demand_covers [OF assms(1,4)])
      fix st i
      assume "phase_ok st i"
      then show "0 \<le> issued_by st i" by (cases st) (auto simp: issued_by_def)
    qed
    also have "\<dots> \<le> issued_of pid s" using assms(2) by (simp add: covered_def issued_surplus_def)
    finally show "sum_list (map (\<lambda>x. if i_product (f x) = pid then resolution_quantity x else 0) xs) \<le> issued_of pid s" .
  qed
  with assms(3) show ?thesis by (simp add: return_items_stock_def)
qed

section \<open>Accepting and cancelling are inverse on the stock\<close>

lemma release_product_frame':
  "touches_only product_of (\<lambda>pid. release_product pid (q pid))"
  by (rule touches_onlyI) (rule release_product_frame)

lemma release_effect:
  assumes "release_request_reservation r s = Inr t"
  shows "product_of pid t = map_option (reserved_row (- accepted_quantity (r_id r) pid s)) (product_of pid s)"
proof -
  let ?q = "\<lambda>pid. accepted_quantity (r_id r) pid s"
  have loop: "for_each (\<lambda>pid. release_product pid (?q pid)) (item_products (r_id r) s) s = Inr t"
    using assms by (auto simp: release_request_reservation_def Let_def split: if_splits)
  show ?thesis
  proof (cases "pid \<in> set (item_products (r_id r) s)")
    case True
    have "distinct (item_products (r_id r) s)" by (simp add: item_products_def)
    from for_each_distinct_Inr [OF loop this True release_product_frame']
    obtain u v where "product_of pid u = product_of pid s" "release_product pid (?q pid) u = Inr v"
      "product_of pid t = product_of pid v" by blast
    then show ?thesis
      by (cases "?q pid = 0") (auto simp: release_product_def ok_iff save_product_Inr product_of_put
          reserved_row_def dest: product_of_id)
  next
    case False
    then have "?q pid = 0"
      by (auto simp: accepted_quantity_def item_products_def filter_empty_conv
          intro!: arg_cong [of _ "[]" "\<lambda>xs. sum_list (map i_accepted xs)", simplified])
    moreover have "product_of pid t = product_of pid s"
      using loop False release_product_frame' by (rule for_each_distinct_frame)
    ultimately show ?thesis by (cases "product_of pid s") simp_all
  qed
qed

end
