(* ===== verification/Loan_Ledger.thy ===== *)
theory Loan_Ledger
  imports Direct_Loans Lending
begin

text \<open>
  Tool loans keep the request ledger: what they hand out is claimed by the items of the request they
  create, and what comes back is taken off both.
\<close>

section \<open>Handing out\<close>

definition counted :: "nat \<Rightarrow> (nat \<times> int) list \<Rightarrow> int" where
  "counted pid cs = sum_list (map (\<lambda>c. if fst c = pid then snd c else 0) cs)"

lemma counted_add: "counted pid (add_count p n cs) = counted pid cs + (if p = pid then n else 0)"
  by (induction cs) (auto simp: counted_def)

definition positive_counts :: "(nat \<times> int) list \<Rightarrow> bool" where
  "positive_counts cs = list_all (\<lambda>c. 1 \<le> snd c) cs"

lemma add_count_positive: "1 \<le> n \<Longrightarrow> positive_counts cs \<Longrightarrow> positive_counts (add_count p n cs)"
  by (induction cs) (auto simp: positive_counts_def)

lemma counted_fold:
  "counted pid (fold (\<lambda>p. add_count p 1) ps cs) = counted pid cs + int (count_list ps pid)"
  by (induction ps arbitrary: cs) (auto simp: counted_add)

lemma fold_count_positive: "positive_counts cs \<Longrightarrow> positive_counts (fold (\<lambda>p. add_count p 1) ps cs)"
  by (induction ps arbitrary: cs) (simp_all add: add_count_positive)

text \<open>The tables a handout leaves alone before the request is made.\<close>

definition apart :: "db \<Rightarrow> hardware_request list \<times> request_item list \<times> tool_loan list \<times> box list \<times> return_event list" where
  "apart s = (requests s, items s, loans s, boxes s, return_events s)"

text \<open>Units of some products left the shelves: \<open>m\<close> of each.\<close>

definition handed_out :: "(nat \<Rightarrow> int) \<Rightarrow> db \<Rightarrow> db \<Rightarrow> bool" where
  "handed_out m s t \<longleftrightarrow> apart t = apart s \<and> (stock_ok s \<longrightarrow> stock_ok t) \<and>
     (\<forall>pid. reserved_of pid t = reserved_of pid s \<and> issued_of pid t = issued_of pid s + m pid)"

lemma handed_out_refl: "handed_out (\<lambda>_. 0) s s"
  by (simp add: handed_out_def)

lemma handed_out_trans: "handed_out m s t \<Longrightarrow> handed_out n t u \<Longrightarrow> handed_out (\<lambda>pid. m pid + n pid) s u"
  by (simp add: handed_out_def)

lemma handed_out_asset: "handed_out m s (put_asset a t) = handed_out m s t"
  by (simp add: handed_out_def apart_def put_asset_def reserved_of_def issued_of_def product_of_def stock_ok_def)

lemma issue_product_out:
  assumes "issue_product p n s = Inr t"
  shows "handed_out (\<lambda>pid. if pid = p_id p then n else 0) s t"
proof -
  from assms obtain q where q: "product_of (p_id p) s = Some q"
    and t: "save_product (q\<lparr>p_available := p_available q - n, p_issued := p_issued q + n\<rparr>) s = Inr t"
    by (auto simp: issue_product_def issue_available_def ok_iff split: if_splits)
  have id: "p_id q = p_id p" using q by (rule product_of_id)
  have "stock_ok s \<longrightarrow> stock_ok t" using save_product_stock_ok [OF _ t] by blast
  moreover from t have "t = s\<lparr>products := row_put p_id (q\<lparr>p_available := p_available q - n, p_issued := p_issued q + n\<rparr>) (products s)\<rparr>"
    by (simp only: save_product_Inr)
  ultimately show ?thesis using q id
    by (simp add: handed_out_def apart_def reserved_of_def issued_of_def product_of_put)
qed

lemma issue_products_out:
  assumes "for_each (\<lambda>p. issue_product p 1) ps s = Inr t"
  shows "handed_out (\<lambda>pid. int (count_list (map p_id ps) pid)) s t"
  using assms
proof (induction ps arbitrary: s)
  case Nil
  then show ?case by (simp add: handed_out_refl)
next
  case (Cons p ps)
  then obtain u where u: "issue_product p 1 s = Inr u" and rest: "for_each (\<lambda>p. issue_product p 1) ps u = Inr t"
    by (auto simp: ok_iff)
  have eq: "(\<lambda>pid. (if pid = p_id p then 1 else 0) + int (count_list (map p_id ps) pid)) =
      (\<lambda>pid. int (count_list (map p_id (p # ps)) pid))" by auto
  from handed_out_trans [OF issue_product_out [OF u] Cons.IH [OF rest]] show ?case unfolding eq .
qed

text \<open>A container that may leave: a box of the makerspace that no reviewed request has out.\<close>

definition free_box :: "nat \<Rightarrow> db \<Rightarrow> nat \<Rightarrow> bool" where
  "free_box ms s c \<longleftrightarrow> (\<exists>b \<in> set (boxes s). b_id b = c \<and> b_makerspace b = ms) \<and> \<not> reviewed_request_holds_box c s"

lemma free_box_apart: "apart t = apart s \<Longrightarrow> free_box ms t c = free_box ms s c"
  by (simp add: apart_def free_box_def reviewed_request_holds_box_def)

lemma checkout_target_out:
  assumes "checkout_target pub q s = Inr (h, t)"
  shows "handed_out (\<lambda>pid. int (count_list (ho_products h) pid)) s t \<and>
    (\<forall>c. ho_container h = Some c \<longrightarrow> free_box (q_makerspace q) s c)"
proof (cases "q_target_type q")
  case TargetProduct
  with assms obtain p where "issue_product p 1 s = Inr t" and "ho_products h = [p_id p]" "ho_container h = None"
    by (auto simp: checkout_target_def ok_iff split: if_splits)
  with issue_product_out [of p 1 s t] show ?thesis by (simp add: handed_out_def eq_commute [of "p_id p"])
next
  case TargetAsset
  with assms obtain a p u where "issue_product p 1 s = Inr u" and "t = put_asset (a\<lparr>a_status := ISSUED\<rparr>) u"
    and "ho_products h = [p_id p]" "ho_container h = None"
    by (auto simp: checkout_target_def ok_iff split: if_splits)
  with issue_product_out [of p 1 s u] show ?thesis
    by (simp add: handed_out_asset) (simp add: handed_out_def eq_commute [of "p_id p"])
next
  case TargetBox
  with assms obtain b ps where b: "find (\<lambda>b. b_id b = q_target_id q \<and> b_makerspace b = q_makerspace q) (boxes s) = Some b"
    and ps: "check_box (q_makerspace q) b pub s = Inr ps"
    and out: "for_each (\<lambda>p. issue_product p 1) ps s = Inr t"
    and h: "ho_products h = map p_id ps" "ho_container h = Some (b_id b)"
    by (auto simp: checkout_target_def checkout_box_def ok_iff split: option.splits)
  from b have "b \<in> set (boxes s)" "b_makerspace b = q_makerspace q" by (auto simp: find_Some_iff)
  moreover from ps have "\<not> reviewed_request_holds_box (b_id b) s" by (auto simp: check_box_def split: if_splits)
  ultimately have "free_box (q_makerspace q) s (b_id b)" by (auto simp: free_box_def)
  with issue_products_out [OF out] h show ?thesis by simp
qed

text \<open>A basket holds what left the shelves since \<open>s\<close>.\<close>

definition basket_holds :: "nat \<Rightarrow> db \<Rightarrow> basket \<times> db \<Rightarrow> bool" where
  "basket_holds ms s us \<longleftrightarrow> handed_out (\<lambda>pid. counted pid (bk_counts (fst us))) s (snd us) \<and>
     positive_counts (bk_counts (fst us)) \<and> (\<forall>c. bk_container (fst us) = Some c \<longrightarrow> free_box ms s c)"

lemma hand_out_qr_holds:
  assumes holds: "basket_holds ms s us" and "q_makerspace q = ms" and run: "hand_out_qr pub q us = Inr us'"
  shows "basket_holds ms s us'"
proof -
  from run obtain h t where h: "checkout_target pub q (snd us) = Inr (h, t)" and us': "us' = (add_handout h (fst us), t)"
    by (auto simp: hand_out_qr_def ok_iff split: if_splits)
  have ap: "apart (snd us) = apart s" using holds by (simp add: basket_holds_def handed_out_def)
  note out = checkout_target_out [OF h, unfolded assms(2)]
  from holds out have "handed_out (\<lambda>pid. counted pid (bk_counts (fst us)) + int (count_list (ho_products h) pid)) s t"
    by (auto simp: basket_holds_def intro: handed_out_trans)
  moreover have "free_box ms s c" if "ho_container h = Some c" for c
    using out that free_box_apart [OF ap] by blast
  ultimately show ?thesis
    using holds by (auto simp: basket_holds_def us' add_handout_def counted_fold fold_count_positive split: option.splits)
qed

lemma hand_out_direct_holds:
  "basket_holds ms s us \<Longrightarrow> q_makerspace q = ms \<Longrightarrow> hand_out_direct ms' cont q us = Inr us' \<Longrightarrow> basket_holds ms s us'"
  by (auto simp: hand_out_direct_def split: if_splits intro: hand_out_qr_holds)

lemma hand_out_manual_holds:
  assumes holds: "basket_holds ms s us" and "1 \<le> snd e" and run: "hand_out_manual ms e us = Inr us'"
  shows "basket_holds ms s us'"
proof -
  from run obtain p t where p: "issue_product p (snd e) (snd us) = Inr t"
    and us': "us' = ((fst us)\<lparr>bk_labels := bk_labels (fst us) @ [p_name p],
      bk_counts := add_count (p_id p) (snd e) (bk_counts (fst us))\<rparr>, t)"
    by (auto simp: hand_out_manual_def ok_iff)
  have "handed_out (\<lambda>pid. counted pid (bk_counts (fst us)) + (if pid = p_id p then snd e else 0)) s t"
    using handed_out_trans [OF _ issue_product_out [OF p]] holds by (simp add: basket_holds_def)
  then have "handed_out (\<lambda>pid. counted pid (add_count (p_id p) (snd e) (bk_counts (fst us)))) s t"
    by (simp add: counted_add eq_commute [of "p_id p"])
  then show ?thesis using holds by (simp add: basket_holds_def us' add_count_positive [OF assms(2)])
qed

section \<open>The request that claims the basket\<close>

definition claiming_item :: "nat \<Rightarrow> request_item \<Rightarrow> bool" where
  "claiming_item rid i \<longleftrightarrow> i_request i = rid \<and> item_in_range i \<and> item_constraints i \<and> i_accepted i = i_requested i \<and>
     i_issued i = i_requested i \<and> i_returned i = 0 \<and> i_damaged i = 0 \<and> i_missing i = 0 \<and> i_needs_fix i = 0"

lemma create_issued_item_Inr:
  "create_issued_item rid c s = Inr t \<longleftrightarrow> item_in_range (new_issued_item (fresh_key i_id (items s)) rid c) \<and>
     item_constraints (new_issued_item (fresh_key i_id (items s)) rid c) \<and>
     t = s\<lparr>items := items s @ [new_issued_item (fresh_key i_id (items s)) rid c]\<rparr>"
  by (auto simp: create_issued_item_def Let_def ok_iff)

lemma create_issued_items_Inr:
  assumes "for_each (create_issued_item rid) cs s = Inr t"
  shows "same_but_items s t \<and> (unique_keys i_id (items s) \<longrightarrow> unique_keys i_id (items t)) \<and>
    (\<exists>new. items t = items s @ new \<and> (\<forall>i \<in> set new. claiming_item rid i) \<and>
      map (\<lambda>i. (i_product i, i_issued i)) new = cs)"
  using assms
proof (induction cs arbitrary: s)
  case (Cons c cs)
  let ?i = "new_issued_item (fresh_key i_id (items s)) rid c"
  from Cons.prems have i: "item_in_range ?i" "item_constraints ?i"
    and rest: "for_each (create_issued_item rid) cs (s\<lparr>items := items s @ [?i]\<rparr>) = Inr t"
    using create_issued_item_Inr by (auto simp: ok_iff)
  from Cons.IH [OF rest] obtain new where new: "items t = (items s @ [?i]) @ new" "\<forall>i \<in> set new. claiming_item rid i"
    "map (\<lambda>i. (i_product i, i_issued i)) new = cs" and same: "same_but_items (s\<lparr>items := items s @ [?i]\<rparr>) t"
    and uniq: "unique_keys i_id (items s @ [?i]) \<longrightarrow> unique_keys i_id (items t)" by auto
  have "claiming_item rid ?i" using i by (simp add: claiming_item_def new_issued_item_def new_item_def)
  moreover have "(i_product ?i, i_issued ?i) = c" by (simp add: new_issued_item_def new_item_def)
  moreover have "unique_keys i_id (items s) \<longrightarrow> unique_keys i_id (items t)"
    using uniq unique_keys_fresh [of i_id ?i "items s"] by (simp add: new_issued_item_def new_item_def)
  moreover have "same_but_items s t" using same by (simp add: same_but_items_def)
  ultimately show ?case using new by (intro conjI exI [of _ "?i # new"]) simp_all
qed simp

text \<open>A loan's request is appended, issued and without a box, and its items claim the basket.\<close>

definition claims_basket :: "nat \<Rightarrow> basket \<Rightarrow> hardware_request \<Rightarrow> db \<Rightarrow> db \<Rightarrow> bool" where
  "claims_basket ms u r s t \<longleftrightarrow> requests t = requests s @ [r] \<and> r_id r = fresh_key r_id (requests s) \<and>
     r_status r = Issued \<and> r_makerspace r = ms \<and> r_assigned_box r = None \<and>
     products t = products s \<and> loans t = loans s \<and> boxes t = boxes s \<and>
     (unique_keys i_id (items s) \<longrightarrow> unique_keys i_id (items t)) \<and>
     (\<exists>new. items t = items s @ new \<and> (\<forall>i \<in> set new. claiming_item (r_id r) i) \<and>
       map (\<lambda>i. (i_product i, i_issued i)) new = bk_counts u)"

lemma row_put_snoc:
  "key r' = key r \<Longrightarrow> key r = fresh_key key rows \<Longrightarrow> row_put key r' (rows @ [r]) = rows @ [r']"
  by (auto simp: row_put_def intro!: map_idI dest: fresh_key_greater [of _ _ key])

lemma lend_basket_claims:
  assumes "lend_basket actor ms b rf eid remark due u s = Inr (r, t)"
  shows "claims_basket ms u r s t"
proof -
  let ?r = "new_issued_request (fresh_key r_id (requests s)) ms b rf actor (now s) due"
  from assms obtain v where r: "r = ?r\<lparr>r_issue_evidence := Some eid, r_issue_remark := strip remark\<rparr>"
    and v: "for_each (create_issued_item (fresh_key r_id (requests s))) (bk_counts u) (s\<lparr>requests := requests s @ [?r]\<rparr>) = Inr v"
    and t: "t = put_request r v"
    by (auto simp: lend_basket_def Let_def ok_iff create_issued_request_def create_request_def save_request_def
        new_issued_request_def new_request_def split: if_splits)
  from create_issued_items_Inr [OF v] obtain new where new: "items v = items s @ new"
    "\<forall>i \<in> set new. claiming_item (fresh_key r_id (requests s)) i" "map (\<lambda>i. (i_product i, i_issued i)) new = bk_counts u"
    and same: "same_but_items (s\<lparr>requests := requests s @ [?r]\<rparr>) v"
    and uniq: "unique_keys i_id (items s) \<longrightarrow> unique_keys i_id (items v)" by auto
  have v': "requests v = requests s @ [?r]" "products v = products s" "loans v = loans s" "boxes v = boxes s"
    by (subst same_but_itemsD [OF same]; simp)+
  have ids: "r_id r = r_id ?r" "r_id ?r = fresh_key r_id (requests s)" "r_status r = Issued" "r_makerspace r = ms" "r_assigned_box r = None"
    by (simp_all add: r new_issued_request_def new_request_def)
  have "requests t = requests s @ [r]"
    using ids by (simp add: t put_request_def v' row_put_snoc)
  then show ?thesis
    using new uniq ids v' by (simp add: claims_basket_def t put_request_def)
qed

lemma claims_keep_ledger:
  assumes ok: "ledger_ok s" and out: "handed_out (\<lambda>pid. counted pid (bk_counts u)) s s1"
    and claims: "claims_basket ms u r s1 t"
  shows "keeps_ledger s t"
proof -
  have s1: "requests s1 = requests s" "items s1 = items s" "stock_ok s1"
    using out ok by (simp_all add: handed_out_def apart_def ledger_ok_def tables_ok_def)
  from claims obtain new where new: "items t = items s @ new" "\<forall>i \<in> set new. claiming_item (r_id r) i"
    "map (\<lambda>i. (i_product i, i_issued i)) new = bk_counts u"
    and r: "requests t = requests s @ [r]" "r_id r = fresh_key r_id (requests s)" "r_status r = Issued"
    and t: "products t = products s1" and uniq: "unique_keys i_id (items s) \<longrightarrow> unique_keys i_id (items t)"
    by (auto simp: claims_basket_def s1)
  have none: "request_of (r_id r) s = None" unfolding request_of_def r(2) by (rule row_get_fresh)
  have req: "request_of rid t = (if rid = r_id r then Some r else request_of rid s)" for rid
    using none by (auto simp: request_of_def r(1) row_get_append row_get_Cons split: option.splits)
  have old: "i_request i \<noteq> r_id r" if "i \<in> set (items s)" for i
    using ok that none by (force simp: ledger_ok_def)
  have "unique_keys r_id (requests t)"
    using ok r(2) by (simp add: r(1) unique_keys_fresh ledger_ok_def)
  moreover have "stock_ok t" using s1(3) t by (simp add: stock_ok_def)
  ultimately have "ledger_ok t"
    using ok new(1,2) uniq old r(3)
    by (auto simp: ledger_ok_def tables_ok_def items_ok_def req claiming_item_def remaining_quantity_def item_constraints_def)
  moreover have "same_surplus s t"
  proof -
    have dem: "demand w pid t = demand w pid s + sum_list (map (\<lambda>i. if i_product i = pid then w Issued i else 0) new)" for w pid
    proof -
      have "sum_list (map (\<lambda>i. if i_product i = pid
          then (case item_request_status t i of None \<Rightarrow> 0 | Some st \<Rightarrow> w st i) else 0) new) =
          sum_list (map (\<lambda>i. if i_product i = pid then w Issued i else 0) new)"
        using new(2) r(3) by (intro sum_cong) (auto simp: item_request_status_eq req claiming_item_def)
      moreover have "sum_list (map (\<lambda>i. if i_product i = pid
          then (case item_request_status t i of None \<Rightarrow> 0 | Some st \<Rightarrow> w st i) else 0) (items s)) = demand w pid s"
        unfolding demand_def by (rule sum_cong) (auto simp: item_request_status_eq req dest: old)
      ultimately show ?thesis by (simp add: demand_def new(1))
    qed
    have zero: "sum_list (map (\<lambda>i. if i_product i = pid then reserved_by Issued i else 0) new) = 0" for pid
      by (rule sum_zero) (simp add: reserved_by_def)
    have "sum_list (map (\<lambda>i. if i_product i = pid then issued_by Issued i else 0) new) = counted pid (bk_counts u)" for pid
    proof -
      have "sum_list (map (\<lambda>i. if i_product i = pid then issued_by Issued i else 0) new) =
          sum_list (map (\<lambda>i. if i_product i = pid then i_issued i else 0) new)"
        using new(2) by (intro sum_cong) (simp add: issued_by_def remaining_quantity_def claiming_item_def)
      then show ?thesis by (simp add: counted_def o_def flip: new(3) cong: if_cong)
    qed
    with out zero show ?thesis
      using reserved_of_products [OF t] by (simp add: same_surplus_def reserved_surplus_def issued_surplus_def dem handed_out_def)
  qed
  ultimately show ?thesis by (simp add: keeps_ledger_def)
qed

section \<open>Checkout and handout\<close>

lemma distinct_qrs_makerspace: "distinct_qrs ms payloads s = Inr qs \<Longrightarrow> q \<in> set qs \<Longrightarrow> q_makerspace q = ms"
  by (auto simp: distinct_qrs_def locked_qrs_for_payloads_def ok_iff find_Some_iff in_set_conv_nth
      dest!: collect_Inr list_all2_nthD2)

text \<open>Both services end alike: a basket, its request, and a loan on it.\<close>

definition lends :: "nat \<Rightarrow> db \<Rightarrow> db \<Rightarrow> bool" where
  "lends ms s t \<longleftrightarrow> (\<exists>u r s1 v l. basket_holds ms s (u, s1) \<and> claims_basket ms u r s1 v \<and> core t = core v \<and>
     boxes t = boxes v \<and> loans t = loans v @ [l] \<and> t_id l = fresh_key t_id (loans v) \<and> \<not> loan_conflict l v \<and>
     t_checked_out l \<and> t_request l = r_id r \<and> t_makerspace l = ms \<and> t_container l = bk_container u)"

lemma lends_ledger: "ledger_ok s \<Longrightarrow> lends ms s t \<Longrightarrow> keeps_ledger s t"
proof -
  assume ok: "ledger_ok s" and "lends ms s t"
  then obtain u r s1 v where "basket_holds ms s (u, s1)" and claims: "claims_basket ms u r s1 v" and t: "core t = core v"
    unfolding lends_def by blast
  then have "handed_out (\<lambda>pid. counted pid (bk_counts u)) s s1" by (simp add: basket_holds_def)
  from claims_keep_ledger [OF ok this claims] show "keeps_ledger s t" using keeps_ledger_core [OF t] by simp
qed

lemma charge_storage_apart: "charge_storage_once env ev n s = Inr t \<Longrightarrow> apart t = apart s \<and> reports t = reports s"
proof -
  have "yields (\<lambda>t. apart t = apart s \<and> reports t = reports s) (\<lambda>_. True) (charge_storage_once env ev n s)"
    by (auto simp: charge_storage_once_def get_makerspace_def Let_def apart_def put_finalization_def audit_record_def
        add_storage_def put_makerspace_def split: option.splits intro!: wp)
  then show "charge_storage_once env ev n s = Inr t \<Longrightarrow> apart t = apart s \<and> reports t = reports s" by simp
qed

lemma basket_holds_base:
  assumes "core s' = core s" and "apart s' = apart s"
  shows "basket_holds ms s us = basket_holds ms s' us"
proof -
  have "products s' = products s" using core_eqD [OF assms(1)] by simp
  then have "handed_out m s t = handed_out m s' t" for m t
    using assms(2) by (simp add: handed_out_def reserved_of_def issued_of_def product_of_def stock_ok_def)
  then show ?thesis by (simp add: basket_holds_def free_box_apart [OF assms(2)])
qed

lemma basket_holds_empty: "basket_holds ms s (empty_basket, s)"
  by (simp add: basket_holds_def empty_basket_def handed_out_refl counted_def positive_counts_def)

lemma scan_qrs_tables [simp]:
  "core (scan_qrs actor ms rid cx qs s) = core s" "loans (scan_qrs actor ms rid cx qs s) = loans s"
  "boxes (scan_qrs actor ms rid cx qs s) = boxes s" "requests (scan_qrs actor ms rid cx qs s) = requests s"
  by (induction qs arbitrary: s) (simp_all add: scan_qrs_def scan_qr_def create_qr_scan_def core_def)

lemma audit_tables [simp]:
  "loans (audit_record actor act ms tgt meta s) = loans s" "boxes (audit_record actor act ms tgt meta s) = boxes s"
  "requests (audit_record actor act ms tgt meta s) = requests s"
  by (simp_all add: audit_record_def)

lemma record_item_logs_tables [simp]:
  "core (record_item_logs actor action ms t s) = core s" "loans (record_item_logs actor action ms t s) = loans s"
  "boxes (record_item_logs actor action ms t s) = boxes s" "requests (record_item_logs actor action ms t s) = requests s"
proof -
  have "core (fold (record_item_log actor action ms t) its s) = core s \<and>
      loans (fold (record_item_log actor action ms t) its s) = loans s \<and>
      boxes (fold (record_item_log actor action ms t) its s) = boxes s \<and>
      requests (fold (record_item_log actor action ms t) its s) = requests s" for its
    by (induction its arbitrary: s) (simp_all add: record_item_log_def)
  then show "core (record_item_logs actor action ms t s) = core s" "loans (record_item_logs actor action ms t s) = loans s"
    "boxes (record_item_logs actor action ms t s) = boxes s" "requests (record_item_logs actor action ms t s) = requests s"
    by (simp_all add: record_item_logs_def split: option.split)
qed

lemma new_loan_fields [simp]:
  "t_id (new_loan i ms qs u rid b tt ti src lab due) = i" "t_checked_out (new_loan i ms qs u rid b tt ti src lab due)"
  "t_request (new_loan i ms qs u rid b tt ti src lab due) = rid" "t_makerspace (new_loan i ms qs u rid b tt ti src lab due) = ms"
  "t_container (new_loan i ms qs u rid b tt ti src lab due) = bk_container u"
  by (simp_all add: new_loan_def)

lemma create_loan_Inr: "create_loan l s = Inr t \<longleftrightarrow> \<not> loan_conflict l s \<and> t = s\<lparr>loans := loans s @ [l]\<rparr>"
  by (auto simp: create_loan_def)

text \<open>A base state that differs only in tables nobody reads here.\<close>

lemma checkout_lends:
  assumes "checkout_locked env ms b ev n remark payloads s = Inr t"
  shows "lends ms s t"
proof -
  let ?s = "s\<lparr>in_atomic := True\<rparr>"
  from assms obtain m qs s1 u s2 r v l w where
    qs: "distinct_qrs ms payloads ?s = Inr qs"
    and s1: "charge_storage_once (lo_env env) ev n ?s = Inr s1"
    and u: "for_each (hand_out_qr True) qs (empty_basket, s1) = Inr (u, s2)"
    and v: "lend_basket (bo_id b) ms b ''Public QR self-checkout'' (e_id ev) remark (Some (due_date m s2)) u s2 = Inr (r, v)"
    and l: "create_loan l v = Inr w" "t_id l = fresh_key t_id (loans v)" "t_checked_out l" "t_request l = r_id r"
      "t_makerspace l = ms" "t_container l = bk_container u"
    and t: "core t = core w" "boxes t = boxes w" "loans t = loans w"
    by (auto simp: checkout_locked_def atomic_Inr ok_iff)
  have base: "core s1 = core s" "apart s1 = apart s"
    using charge_storage_core [OF s1] charge_storage_apart [OF s1] by (simp_all add: apart_def)
  have "basket_holds ms s1 (u, s2)"
    using u basket_holds_empty
    by (rule for_each_inv [where I = "basket_holds ms s1"])
      (blast intro: hand_out_qr_holds distinct_qrs_makerspace [OF qs])
  then have "basket_holds ms s (u, s2)" using basket_holds_base [OF base] by simp
  moreover have "claims_basket ms u r s2 v" by (rule lend_basket_claims [OF v])
  moreover have "\<not> loan_conflict l v" "w = v\<lparr>loans := loans v @ [l]\<rparr>" using l(1) by (simp_all add: create_loan_Inr)
  ultimately show ?thesis using l t unfolding lends_def
    by (intro exI [of _ u] exI [of _ r] exI [of _ s2] exI [of _ v] exI [of _ l]) (simp add: core_def)
qed

lemma selected_container_free:
  assumes "selected_container ms cid alone s = Inr c"
  shows "\<forall>x. c = Some x \<longrightarrow> free_box ms s x"
  using assms by (auto simp: selected_container_def checked_container_def ok_iff find_Some_iff free_box_def
      split: option.splits if_splits)

lemma lend_direct_Inr:
  assumes "lend_direct ms actor b eid qs u r due v = Inr w"
  shows "\<exists>l. \<not> loan_conflict l v \<and> core w = core v \<and> boxes w = boxes v \<and> loans w = loans v @ [l] \<and>
    t_id l = fresh_key t_id (loans v) \<and> t_checked_out l \<and> t_request l = r_id r \<and> t_makerspace l = ms \<and>
    t_container l = bk_container u"
proof -
  let ?s = "audit_record (Some actor) ''evidence.attached'' ms (request_target (r_id r))
                [(''evidence_id'', MInt (int eid)), (''type'', MStr ''issue''), (''stage'', MStr ''issue'')] v"
  let ?l = "new_loan (fresh_key t_id (loans ?s)) ms qs u (r_id r) b ''direct'' (r_id r) AdminDirect (direct_label u ?s) (Some due)"
  from assms obtain x where x: "create_loan ?l ?s = Inr x"
    and w: "w = record_item_logs actor ''admin_direct.checked_out'' ms ?l (scan_qrs actor ms (r_id r) ScanIssue qs x)"
    unfolding lend_direct_def Let_def by (auto simp: ok_iff)
  have "\<not> loan_conflict ?l v" using x by (simp add: create_loan_Inr loan_conflict_def)
  moreover have "core w = core v \<and> boxes w = boxes v \<and> loans w = loans v @ [?l]"
    unfolding w record_item_logs_tables scan_qrs_tables x [unfolded create_loan_Inr, THEN conjunct2]
    by (simp add: core_def audit_record_def)
  ultimately show ?thesis by (intro exI [of _ ?l]) (simp only: new_loan_fields audit_tables simp_thms)
qed

lemma issue_direct_lends:
  assumes "issue_direct_locked env ms actor b ev n remark qr_payloads manual cid s = Inr t"
    and "list_all (\<lambda>e. 1 \<le> snd e) manual"
  shows "lends ms s t"
proof -
  let ?s = "s\<lparr>in_atomic := True\<rparr>"
  from assms(1) obtain m c qs s1 us u s2 r v w where
    c: "selected_container ms cid (qr_payloads = [] \<and> manual = []) ?s = Inr c"
    and qs: "distinct_qrs ms qr_payloads ?s = Inr qs"
    and s1: "charge_storage_once (lo_env env) ev n ?s = Inr s1"
    and us: "for_each (hand_out_direct ms c) qs (empty_basket\<lparr>bk_container := c\<rparr>, s1) = Inr us"
    and u: "for_each (hand_out_manual ms) manual us = Inr (u, s2)"
    and v: "lend_basket actor ms b ''Admin direct handout'' (e_id ev) remark (Some (due_date m s2)) u s2 = Inr (r, v)"
    and w: "lend_direct ms actor b (e_id ev) qs u r (due_date m v) v = Inr w"
    and t: "t = w\<lparr>in_atomic := in_atomic s\<rparr>"
    by (auto simp: issue_direct_locked_def atomic_Inr ok_iff)
  have base: "core s1 = core s" "apart s1 = apart s"
    using charge_storage_core [OF s1] charge_storage_apart [OF s1] by (simp_all add: apart_def)
  have "apart s1 = apart ?s" using base(2) by (simp add: apart_def)
  then have "\<forall>x. c = Some x \<longrightarrow> free_box ms s1 x"
    using selected_container_free [OF c] free_box_apart [of s1 ?s] by blast
  then have "basket_holds ms s1 (empty_basket\<lparr>bk_container := c\<rparr>, s1)"
    using basket_holds_empty [of ms s1] by (simp add: basket_holds_def empty_basket_def)
  with us have "basket_holds ms s1 us"
    by (rule for_each_inv [where I = "basket_holds ms s1"])
      (blast intro: hand_out_direct_holds distinct_qrs_makerspace [OF qs])
  with u have "basket_holds ms s1 (u, s2)"
    by (rule for_each_inv [where I = "basket_holds ms s1"])
      (use assms(2) in \<open>auto simp: list_all_iff intro: hand_out_manual_holds\<close>)
  then have "basket_holds ms s (u, s2)" using basket_holds_base [OF base] by simp
  moreover have "claims_basket ms u r s2 v" by (rule lend_basket_claims [OF v])
  moreover from lend_direct_Inr [OF w] obtain l where "\<not> loan_conflict l v" "core w = core v" "boxes w = boxes v"
    "loans w = loans v @ [l]" "t_id l = fresh_key t_id (loans v)" "t_checked_out l" "t_request l = r_id r"
    "t_makerspace l = ms" "t_container l = bk_container u" by blast
  ultimately show ?thesis unfolding lends_def t
    by (intro exI [of _ u] exI [of _ r] exI [of _ s2] exI [of _ v] exI [of _ l]) simp
qed

section \<open>Returns\<close>

text \<open>Bringing an item back whole is one of the resolutions of a return.\<close>

definition full_resolution :: "request_item \<Rightarrow> resolution" where
  "full_resolution i = \<lparr>x_item = i_id i, x_returned = units_out i, x_damaged = 0, x_missing = 0, x_assets = []\<rparr>"

lemma return_request_item_full:
  assumes "item_of (i_id i) s = Some i" and "0 < units_out i" and "in_atomic s"
  shows "return_request_item i s = return_resolution (full_resolution i) s"
proof -
  have "p\<lparr>p_issued := a, p_available := b, p_damaged := p_damaged p, p_lost := p_lost p\<rparr> =
      p\<lparr>p_issued := a, p_available := b\<rparr>" for p :: product and a b by (cases p) simp
  moreover have "i\<lparr>i_returned := a, i_damaged := i_damaged i, i_missing := i_missing i\<rparr> = i\<lparr>i_returned := a\<rparr>" for a
    by (cases i) simp
  ultimately show ?thesis using assms
    by (cases "row_get p_id (i_product i) (products s)")
      (simp_all add: return_request_item_def return_resolution_def full_resolution_def return_to_available_def get_product_def
        product_of_def Let_def)
qed

lemma return_resolution_rest:
  assumes "return_resolution x s = Inr t"
  shows "in_atomic t = in_atomic s" and "i_id i \<noteq> x_item x \<Longrightarrow> item_of (i_id i) s = Some i \<Longrightarrow> item_of (i_id i) t = Some i"
proof -
  show "in_atomic t = in_atomic s" using assms
    by (auto simp: return_resolution_def Let_def ok_iff save_product_Inr save_item_Inr split: if_splits)
  show "item_of (i_id i) t = Some i" if "i_id i \<noteq> x_item x" "item_of (i_id i) s = Some i"
    using assms that by (auto simp: return_resolution_def Let_def ok_iff save_product_Inr save_item_Inr item_of_def
      row_get_row_put split: if_splits dest: row_get_SomeD)
qed

lemma return_all_items_full:
  assumes "distinct (map i_id its)" and "\<forall>i \<in> set its. item_of (i_id i) s = Some i \<and> 0 < units_out i" and "in_atomic s"
  shows "for_each return_request_item its s = for_each return_resolution (map full_resolution its) s"
  using assms
proof (induction its arbitrary: s)
  case (Cons i its)
  have eq: "return_request_item i s = return_resolution (full_resolution i) s"
    using Cons.prems by (intro return_request_item_full) simp_all
  show ?case
  proof (cases "return_resolution (full_resolution i) s")
    case (Inr u)
    have "x_item (full_resolution i) = i_id i" by (simp add: full_resolution_def)
    with Cons.prems return_resolution_rest [OF Inr]
    have "\<forall>j \<in> set its. item_of (i_id j) u = Some j \<and> 0 < units_out j" "in_atomic u" by auto (metis image_eqI)
    with Cons Inr eq show ?thesis by simp
  qed (simp add: eq)
qed simp

text \<open>What a self-checkout has out is a full resolution of its request.\<close>

definition full_return :: "nat \<Rightarrow> db \<Rightarrow> resolution list" where
  "full_return rid s = map full_resolution (filter (\<lambda>i. 0 < units_out i) (request_items rid s))"

lemma return_all_items_stock:
  assumes "tables_ok s" and "in_atomic s"
  shows "return_all_items rid s = return_items_stock (full_return rid s) s"
proof -
  have uniq: "unique_keys i_id (items s)" using assms(1) by (simp add: tables_ok_def items_ok_def)
  then have "distinct (map i_id (filter (\<lambda>i. 0 < units_out i) (request_items rid s)))"
    unfolding request_items_def filter_filter by (simp add: unique_keys_def distinct_map_filter)
  moreover have "item_of (i_id i) s = Some i" if "i \<in> set (items s)" for i
    using row_get_unique [OF uniq that] by (simp add: item_of_def)
  ultimately show ?thesis using assms(2)
    by (simp add: return_all_items_def return_items_stock_def full_return_def return_all_items_full request_items_def)
qed

lemma full_return_fits:
  assumes "tables_ok s" and "\<forall>i \<in> set (request_items rid s). item_fully_out i"
  shows "resolutions_fit rid (full_return rid s) s"
proof -
  have "unique_keys i_id (items s)" using assms(1) by (simp add: tables_ok_def items_ok_def)
  then have "distinct (map x_item (full_return rid s))"
    unfolding full_return_def request_items_def filter_filter map_map o_def full_resolution_def
    by (simp add: unique_keys_def distinct_map_filter)
  then show ?thesis using assms(2)
    by (auto simp: resolutions_fit_def full_return_def full_resolution_def resolution_nonneg_def resolution_quantity_def
        item_fully_out_def remaining_quantity_def units_out_def)
qed

lemma full_returned_item:
  assumes "tables_ok s" and "\<forall>i \<in> set (request_items rid s). item_fully_out i" and "i \<in> set (request_items rid s)"
  shows "returned_item (full_return rid s) i = i\<lparr>i_returned := i_issued i\<rparr>"
proof -
  have dist: "distinct (map x_item (full_return rid s))"
    using full_return_fits [OF assms(1,2)] by (simp add: resolutions_fit_def)
  have out: "item_fully_out i" using assms(2,3) by blast
  then have "full_resolution i \<in> set (full_return rid s)"
    using assms(3) by (auto simp: full_return_def units_out_def item_fully_out_def)
  from resolution_for_Some [OF dist this, of i]
  have "returned_item (full_return rid s) i = add_return (full_resolution i) i"
    by (simp add: returned_item_def full_resolution_def)
  also have "\<dots> = i\<lparr>i_returned := i_issued i\<rparr>"
    using out by (cases i) (simp add: add_return_def full_resolution_def units_out_def item_fully_out_def)
  finally show ?thesis .
qed

lemma full_return_resolves:
  assumes "tables_ok s" and "\<forall>i \<in> set (request_items rid s). item_fully_out i"
  shows "all_resolved (map (returned_item (full_return rid s)) (request_items rid s))"
  using assms by (auto simp: all_resolved_def list_all_iff full_returned_item item_fully_out_def)

text \<open>The row of a product with \<open>n\<close> issued units back on its shelf.\<close>

definition shelved_row :: "int \<Rightarrow> product \<Rightarrow> product" where
  "shelved_row n p = p\<lparr>p_issued := p_issued p - n, p_available := p_available p + n\<rparr>"

lemma shelved_row_0 [simp]: "shelved_row 0 p = p"
  by (simp add: shelved_row_def)

lemma shelved_row_add: "shelved_row a (shelved_row b p) = shelved_row (b + a) p"
  by (simp add: shelved_row_def)

lemma return_request_item_row:
  assumes "return_request_item i s = Inr t"
  shows "product_of pid t = map_option (shelved_row (if i_product i = pid then units_out i else 0)) (product_of pid s)"
proof -
  from assms obtain p u where p: "product_of (i_product i) s = Some p"
    and u: "u = s\<lparr>products := row_put p_id (shelved_row (units_out i) p) (products s)\<rparr>"
    and t: "t = u\<lparr>items := items t\<rparr>"
    by (auto simp: return_request_item_def return_to_available_def ok_iff save_product_Inr save_item_Inr shelved_row_def
        split: if_splits)
  have "p_id (shelved_row (units_out i) p) = i_product i" using product_of_id [OF p] by (simp add: shelved_row_def)
  with p have "product_of pid u = map_option (shelved_row (if i_product i = pid then units_out i else 0)) (product_of pid s)"
    by (cases "product_of pid s") (auto simp: u product_of_put)
  moreover have "product_of pid t = product_of pid u" by (subst t) simp
  ultimately show ?thesis by simp
qed

lemma returned_items_rows:
  "for_each return_request_item its s = Inr t \<Longrightarrow> product_of pid t = map_option
    (shelved_row (sum_list (map (\<lambda>i. if i_product i = pid then units_out i else 0) its))) (product_of pid s)"
proof (induction its arbitrary: s)
  case Nil
  then show ?case by (cases "product_of pid s") simp_all
next
  case (Cons i its)
  then obtain u where u: "return_request_item i s = Inr u" "for_each return_request_item its u = Inr t"
    by (auto simp: ok_iff)
  show ?case unfolding Cons.IH [OF u(2)] return_request_item_row [OF u(1)]
    by (simp add: option.map_comp o_def shelved_row_add)
qed

lemma return_all_items_rows:
  assumes "return_all_items rid s = Inr t" and "\<forall>i \<in> set (request_items rid s). item_fully_out i"
  shows "product_of pid t = map_option
    (shelved_row (sum_list (map (\<lambda>i. if i_product i = pid then i_issued i else 0) (request_items rid s)))) (product_of pid s)"
proof -
  have "filter (\<lambda>i. 0 < units_out i) (request_items rid s) = request_items rid s"
    using assms(2) by (auto simp: filter_id_conv units_out_def item_fully_out_def)
  moreover have "sum_list (map (\<lambda>i. if i_product i = pid then units_out i else 0) (request_items rid s)) =
      sum_list (map (\<lambda>i. if i_product i = pid then i_issued i else 0) (request_items rid s))"
    using assms(2) by (intro arg_cong [where f = sum_list]) (auto simp: units_out_def item_fully_out_def)
  ultimately show ?thesis
    using returned_items_rows [of "request_items rid s" s t pid] assms(1) by (simp add: return_all_items_def)
qed

end
