(* ===== verification/Custody.thy ===== *)
theory Custody
  imports Lending
begin

text \<open>
  Who has which container out: the part of the state that the reviewed workflow and the tool loans
  share, and what a reviewed operation does to it.
\<close>

section \<open>The tables of custody\<close>

definition custody :: "db \<Rightarrow> hardware_request list \<times> tool_loan list \<times> box list" where
  "custody s = (requests s, loans s, boxes s)"

lemma custody_simps [simp]:
  "custody (audit_record actor act ms tgt meta s) = custody s"
  "custody (notify ev i s) = custody s"
  "custody (s\<lparr>in_atomic := b\<rparr>) = custody s"
  "custody (put_asset a s) = custody s"
  "custody (put_link l s) = custody s"
  "custody (create_qr_scan x s) = custody s"
  "custody (put_finalization f s) = custody s"
  "custody (put_makerspace m s) = custody s"
  "custody (s\<lparr>links := ls\<rparr>) = custody s"
  "custody (s\<lparr>products := ps\<rparr>) = custody s"
  "custody (s\<lparr>items := is\<rparr>) = custody s"
  "custody (s\<lparr>box_scans := bs\<rparr>) = custody s"
  "custody (s\<lparr>return_events := vs\<rparr>) = custody s"
  "custody (s\<lparr>accountabilities := cs\<rparr>) = custody s"
  "custody (audit_return who r bx eid scan action s) = custody s"
  "custody (snd (record_scan who r bx s)) = custody s"
  by (simp_all add: custody_def audit_record_def notify_def put_asset_def put_link_def audit_return_def Let_def
      create_qr_scan_def put_finalization_def put_makerspace_def record_scan_def create_box_scan_def split: option.split)

lemma custodyD: "custody t = custody s \<Longrightarrow> requests t = requests s \<and> loans t = loans s \<and> boxes t = boxes s"
  by (simp add: custody_def)

lemma write_accountability_custody [simp]: "custody (write_accountability actor locked eid xs s) = custody s"
  by (induction xs arbitrary: s) (simp_all add: write_accountability_def write_issue_def)

lemma charge_storage_custody: "charge_storage_once env ev n s = Inr t \<Longrightarrow> custody t = custody s"
proof -
  have "yields (\<lambda>t. custody t = custody s) (\<lambda>_. True) (charge_storage_once env ev n s)"
    by (auto simp: charge_storage_once_def get_makerspace_def Let_def split: option.splits intro!: wp)
  then show "charge_storage_once env ev n s = Inr t \<Longrightarrow> custody t = custody s" by simp
qed

lemma set_link_outcome_custody: "set_link_outcome l oc status event s = Inr t \<Longrightarrow> custody t = custody s"
  by (auto simp: set_link_outcome_def ok_iff)

lemma flip_custody: "flip_individual_asset_returns actor locked xs event s = Inr t \<Longrightarrow> custody t = custody s"
  unfolding flip_individual_asset_returns_def
proof (rule for_each_inv [where I = "\<lambda>u. custody u = custody s"])
  fix x u v
  assume "custody u = custody s" and "flip_resolution actor locked event x u = Inr v"
  moreover have "custody v = custody u" if "flip_asset_links iid q oc st ev u = Inr v" for iid q oc st ev
    using that by (auto simp: flip_asset_links_def Let_def split: if_splits
        elim!: for_each_inv [where I = "\<lambda>w. custody w = custody u"] dest!: set_link_outcome_custody)
  moreover have "custody v = custody u" if "flip_exact_asset_links actor locked iid outcomes event u = Inr v" for iid outcomes
    using that by (auto simp: flip_exact_asset_links_def Let_def flip_exact_link_def ok_iff split: if_splits option.splits
        elim!: for_each_inv [where I = "\<lambda>w. custody w = custody u"] dest!: set_link_outcome_custody)
  ultimately show "custody v = custody s"
    by (auto simp: flip_resolution_def ok_iff split: if_splits)
qed simp_all

lemma issue_individual_assets_custody:
  assumes "issue_individual_assets actor locked payloads s = Inr t"
  shows "custody t = custody s"
proof -
  have "custody (snd st') = custody (snd st)" if "issue_item_assets actor locked q i st = Inr st'" for q i st st'
    using that by (auto simp: issue_item_assets_def Let_def ok_iff issue_asset_def create_link_def split: if_splits
        elim!: for_each_inv [where I = "\<lambda>u. custody u = custody (snd st)"])
  then have "custody (snd st) = custody s" if "for_each (issue_item_assets actor locked q) its (a, s) = Inr st" for q its a st
    using that by - (rule for_each_inv [where I = "\<lambda>st. custody (snd st) = custody s"], auto)
  with assms show ?thesis
    by (fastforce simp: issue_individual_assets_def Let_def ok_iff split: if_splits)
qed

text \<open>Moving stock leaves it alone.\<close>

lemma saved_rows_custody:
  "save_product p s = Inr t \<Longrightarrow> custody t = custody s"
  "save_item i s = Inr t \<Longrightarrow> custody t = custody s"
  by (simp_all add: save_product_Inr save_item_Inr)

lemma issue_items_custody: "issue_items rid rs s = Inr t \<Longrightarrow> custody t = custody s"
  by (auto simp: issue_items_def issue_item_def Let_def ok_iff split: if_splits
      elim!: for_each_inv [where I = "\<lambda>u. custody u = custody s"] dest!: saved_rows_custody)

lemma return_items_custody: "return_items_stock xs s = Inr t \<Longrightarrow> custody t = custody s"
  by (auto simp: return_items_stock_def return_resolution_def Let_def ok_iff split: if_splits
      elim!: for_each_inv [where I = "\<lambda>u. custody u = custody s"] dest!: saved_rows_custody)

lemma same_but_products_custody: "same_but_products s t \<Longrightarrow> custody t = custody s"
  by (simp add: custody_def same_but_products_fields)

lemma reserve_custody: "reserve_for_request rid s = Inr t \<Longrightarrow> custody t = custody s"
proof -
  have "custody v = custody u" if "reserve_product x q u = Inr v" for x q u v
    using reserve_product_step [OF that] same_but_products_custody by blast
  then show "reserve_for_request rid s = Inr t \<Longrightarrow> custody t = custody s"
    by (auto simp: reserve_for_request_def Let_def split: if_splits elim!: for_each_inv [where I = "\<lambda>u. custody u = custody s"])
qed

lemma release_custody: "release_request_reservation r s = Inr t \<Longrightarrow> custody t = custody s"
proof -
  have "custody v = custody u" if "release_product x q u = Inr v" for x q u v
    using release_product_step [OF that] same_but_products_custody by blast
  then show "release_request_reservation r s = Inr t \<Longrightarrow> custody t = custody s"
    by (auto simp: release_request_reservation_def Let_def split: if_splits elim!: for_each_inv [where I = "\<lambda>u. custody u = custody s"])
qed

lemma accept_items_custody: "for_each (accept_item acc) its s = Inr t \<Longrightarrow> custody t = custody s"
  by (auto simp: accept_item_def Let_def split: if_splits elim!: for_each_inv [where I = "\<lambda>u. custody u = custody s"]
      dest!: saved_rows_custody)

lemma save_request_custody:
  "save_request r s = Inr t \<Longrightarrow> custody t = (row_put r_id r (requests s), loans s, boxes s) \<and> request_conflict r s = None"
  by (auto simp: save_request_def put_request_def custody_def split: if_splits)

end
