(* ===== verification/Reviewed_Custody.thy ===== *)
theory Reviewed_Custody
  imports Custody
begin

text \<open>
  What a reviewed operation does to the custody of containers: at most one request changes its row,
  and it takes a container out only when nobody else has it.
\<close>

definition box_lent :: "nat \<Rightarrow> db \<Rightarrow> bool" where
  "box_lent bid s \<longleftrightarrow> (\<exists>b. box_of bid s = Some b \<and> active_public_container_loan_exists b s)"

text \<open>How a request may change: not out before and after, taking its box out, or out and kept or brought back.\<close>

definition may_become :: "db \<Rightarrow> hardware_request \<Rightarrow> hardware_request \<Rightarrow> bool" where
  "may_become s r r' \<longleftrightarrow> r_id r' = r_id r \<and> r_makerspace r' = r_makerspace r \<and>
     (r_status r' = r_status r \<and> r_assigned_box r' = r_assigned_box r \<or>
      \<not> on_loan r \<and> \<not> on_loan r' \<or>
      \<not> on_loan r \<and> on_loan r' \<and> (\<forall>bid. r_assigned_box r' = Some bid \<longrightarrow> box_of bid s \<noteq> None \<and> \<not> box_lent bid s \<and>
        \<not> (\<exists>o' \<in> set (requests s). r_id o' \<noteq> r_id r \<and> on_loan o' \<and> r_assigned_box o' = Some bid)) \<or>
      on_loan r \<and> r_assigned_box r' = r_assigned_box r \<and>
        \<not> (\<exists>l \<in> set (loans s). t_request l = r_id r \<and> t_makerspace l = r_makerspace r))"

definition reviewed :: "db \<Rightarrow> db \<Rightarrow> bool" where
  "reviewed s t \<longleftrightarrow> loans t = loans s \<and> boxes t = boxes s \<and>
     (requests t = requests s \<or>
      (\<exists>r. requests t = requests s @ [r] \<and> r_id r = fresh_key r_id (requests s) \<and> \<not> on_loan r) \<or>
      (\<exists>r r'. request_of (r_id r) s = Some r \<and> may_become s r r' \<and> requests t = row_put r_id r' (requests s)))"

lemma reviewed_custody: "custody t = custody u \<Longrightarrow> reviewed s t = reviewed s u"
  by (simp add: custody_def reviewed_def)

lemma reviewed_simps [simp]:
  "reviewed s (audit_record actor act ms tgt meta t) = reviewed s t"
  "reviewed s (notify ev i t) = reviewed s t"
  "reviewed s (t\<lparr>in_atomic := b\<rparr>) = reviewed s t"
  "reviewed s (t\<lparr>box_scans := bs\<rparr>) = reviewed s t"
  "reviewed (s\<lparr>in_atomic := b\<rparr>) t = reviewed s t"
  by (rule reviewed_custody, simp)+
    (simp add: reviewed_def may_become_def box_lent_def box_of_def active_public_container_loan_exists_def)

lemma saved_reviewed:
  assumes "custody u = custody s" and "request_of (r_id r) s = Some r" and "may_become s r r'"
    and "custody t = (row_put r_id r' (requests u), loans u, boxes u)"
  shows "reviewed s t"
  using assms custodyD [OF assms(1)] unfolding reviewed_def custody_def by auto

lemma quiet_saved:
  assumes "custody u = custody s" and "request_of (r_id r') s = Some r" and "may_become s r r'"
    and "\<And>t. reviewed s t \<Longrightarrow> P t"
  shows "yields P (\<lambda>_. True) (save_request r' u)"
proof (intro yieldsI assms(4))
  fix t
  assume "save_request r' u = Inr t"
  then have "custody t = (row_put r_id r' (requests u), loans u, boxes u)" by (auto dest: save_request_custody)
  moreover have "request_of (r_id r) s = Some r" using assms(2) request_of_id [OF assms(2)] by simp
  ultimately show "reviewed s t" using assms(1,3) by (intro saved_reviewed) simp_all
qed simp

lemma quiet_ops_reviewed:
  "yields (reviewed s) (\<lambda>_. True) (reject_request actor rid reason s)"
  "yields (reviewed s) (\<lambda>_. True) (set_return_due actor rid due s)"
  "yields (reviewed s) (\<lambda>_. True) (assign_box actor rid code s)"
  by (auto simp: reject_request_def set_return_due_def assign_box_def create_box_scan_def Let_def may_become_def on_loan_def
      split: option.splits intro!: locked_request_wp quiet_saved)

lemma reviewed_refl: "reviewed s s"
  by (simp add: reviewed_def)

lemma submit_new_reviewed:
  assumes "submit_new_request ms its rf rq contact actor key payload s = Inr (r, t)"
  shows "reviewed s t"
proof -
  from assms obtain u v where r: "r_id r = fresh_key r_id (requests s)" "r_status r = PendingApproval"
    and u: "u = s\<lparr>requests := requests s @ [r]\<rparr>"
    and v: "for_each (create_item (fresh_key r_id (requests s))) its u = Inr v" and t: "custody t = custody v"
    by (auto simp: submit_new_request_def Let_def ok_iff create_request_def new_request_def split: if_splits)
  have "custody v = custody u"
    using v by (rule for_each_inv [where I = "\<lambda>w. custody w = custody u"]) (auto simp: create_item_def Let_def ok_iff)
  then have "requests v = requests s @ [r]" "loans v = loans s" "boxes v = boxes s"
    by (auto simp: u dest: custodyD)
  then show ?thesis using r reviewed_custody [OF t, of s] by (auto simp: reviewed_def on_loan_def)
qed

lemma submit_reviewed:
  "yields (\<lambda>x. reviewed s (snd x)) (\<lambda>_. True) (submit_request env ms its rf rq contact actor key payload s)"
proof -
  have "yields (\<lambda>x. reviewed s (snd x)) (\<lambda>_. True)
      (submit_new_request ms its rf rq contact actor key payload (s\<lparr>in_atomic := True\<rparr>))"
    by (intro yieldsI) (auto dest: submit_new_reviewed split: prod.splits)
  then show ?thesis
    by (auto simp: submit_request_def anonymous_idempotency_replay_def case_prod_unfold reviewed_refl
        enforce_anonymous_outstanding_limit_def get_makerspace_def split: option.splits)
qed

lemma accept_reviewed:
  assumes "accept_request actor rid acc s = Inr t"
  shows "reviewed s t"
proof -
  from assms obtain r u v w a z where r: "request_of rid s = Some r" "r_status r = PendingApproval"
    and u: "for_each (accept_item acc) (items_by_product rid (s\<lparr>in_atomic := True\<rparr>)) (s\<lparr>in_atomic := True\<rparr>) = Inr u"
    and v: "reserve_for_request rid u = Inr v"
    and w: "save_request (r\<lparr>r_status := Accepted, r_accepted_by := Some a, r_accepted_at := Some z\<rparr>) v = Inr w"
    and t: "custody t = custody w"
    by (auto simp: accept_request_def atomic_Inr ok_iff locked_request_Inr Let_def split: if_splits)
  have "custody v = custody s" using accept_items_custody [OF u] reserve_custody [OF v] by simp
  moreover have "request_of (r_id r) s = Some r" using r(1) request_of_id [OF r(1)] by simp
  ultimately have "reviewed s w"
    using save_request_custody [OF w] r(2) by (intro saved_reviewed) (auto simp: may_become_def on_loan_def)
  then show ?thesis using reviewed_custody [OF t, of s] by simp
qed

lemma cancel_reviewed:
  assumes "cancel_request env actor rid ms reason s = Inr t"
  shows "reviewed s t"
proof -
  from assms obtain r b r' u v w a re z where r: "request_of rid s = Some r" "r_status r = Accepted"
    and u: "clear_unissued_assignment r (s\<lparr>in_atomic := True\<rparr>) = Inr (b, r', u)"
    and v: "release_request_reservation r' u = Inr v"
    and w: "save_request (r'\<lparr>r_status := Cancelled, r_cancellation_reason := re, r_closed_by := Some a,
       r_closed_at := Some z\<rparr>) v = Inr w" and t: "custody t = custody w"
    by (auto simp: cancel_request_def atomic_Inr ok_iff locked_request_Inr split: if_splits)
  let ?r = "r'\<lparr>r_status := Cancelled, r_cancellation_reason := re, r_closed_by := Some a, r_closed_at := Some z\<rparr>"
  have r': "r_id r' = r_id r" "r_makerspace r' = r_makerspace r" using clear_unissued_Inr [OF u] by simp_all
  have "custody u = (requests s, loans s, boxes s) \<or> custody u = (row_put r_id r' (requests s), loans s, boxes s)"
    using u by (auto simp: clear_unissued_assignment_def Let_def ok_iff custody_def split: if_splits option.splits
        dest!: save_request_custody)
  then have "requests v = requests s \<or> requests v = row_put r_id r' (requests s)" "loans v = loans s" "boxes v = boxes s"
    using release_custody [OF v] by (auto simp: custody_def)
  then have "custody w = (row_put r_id ?r (requests s), loans s, boxes s)"
    using save_request_custody [OF w] by (auto simp: row_put_row_put)
  moreover have "request_of (r_id r) s = Some r" using r(1) request_of_id [OF r(1)] by simp
  ultimately have "reviewed s w"
    using r(2) r' by (intro saved_reviewed [where u = s and r = r and r' = ?r]) (simp_all add: may_become_def on_loan_def)
  then show ?thesis using reviewed_custody [OF t, of s] by simp
qed

lemma issue_reviewed:
  assumes "issue_locked env actor rid ev n remark payloads rs s = Inr t"
  shows "reviewed s t"
proof -
  define row where "row r m u = r\<lparr>r_issue_evidence := Some (e_id ev), r_issue_remark := remark,
      r_issued_by := Some actor, r_issued_at := Some (now u),
      r_return_due_at := (case r_return_due_at r of None \<Rightarrow> Some (now u + default_days m * seconds_per_day)
        | Some d \<Rightarrow> Some d), r_status := Issued\<rparr>" for r :: hardware_request and m :: makerspace and u :: db
  from assms obtain r m s1 s2 u w where r: "request_of rid s = Some r" "r_status r = Accepted"
    and s1: "charge_storage_once env ev n (s\<lparr>in_atomic := True\<rparr>) = Inr s1" and box: "check_assigned_box r s1 = Inr ()"
    and s2: "issue_individual_assets actor r payloads s1 = Inr s2"
    and u: "issue_items rid rs s2 = Inr u"
    and w: "save_issued (row r m u) u = Inr w" and t: "custody t = custody w"
    by (auto simp: issue_locked_def atomic_Inr ok_iff locked_request_Inr row_def split: if_splits)
  have c1: "custody s1 = custody s" using charge_storage_custody [OF s1] by simp
  have cu: "custody u = custody s"
    using c1 issue_individual_assets_custody [OF s2] issue_items_custody [OF u] by simp
  have row: "r_id (row r m u) = r_id r" "r_makerspace (row r m u) = r_makerspace r" "on_loan (row r m u)"
    "r_assigned_box (row r m u) = r_assigned_box r" by (simp_all add: row_def on_loan_def)
  from w have nc: "request_conflict (row r m u) u = None" and w': "w = put_request (row r m u) u"
    by (auto simp: save_issued_def split: option.splits)
  have "box_of bid s \<noteq> None \<and> \<not> box_lent bid s \<and>
      \<not> (\<exists>o' \<in> set (requests s). r_id o' \<noteq> r_id r \<and> on_loan o' \<and> r_assigned_box o' = Some bid)"
    if bid: "r_assigned_box r = Some bid" for bid
  proof (intro conjI)
    from box bid custodyD [OF c1] show "box_of bid s \<noteq> None" "\<not> box_lent bid s"
      by (auto simp: check_assigned_box_def ok_iff box_of_def box_lent_def active_public_container_loan_exists_def split: if_splits)
    from nc bid row custodyD [OF cu]
    show "\<not> (\<exists>o' \<in> set (requests s). r_id o' \<noteq> r_id r \<and> on_loan o' \<and> r_assigned_box o' = Some bid)"
      by (auto simp: request_conflict_def Let_def list_ex_iff split: if_splits)
  qed
  then have "may_become s r (row r m u)" using r(2) row by (auto simp: may_become_def on_loan_def)
  moreover have "request_of (r_id r) s = Some r" using r(1) request_of_id [OF r(1)] by simp
  ultimately have "reviewed s w"
    using cu by (intro saved_reviewed [where u = u and r = r and r' = "row r m u"]) (simp_all add: w' put_request_def custody_def)
  then show ?thesis using reviewed_custody [OF t, of s] by simp
qed

lemma finalize_return_row:
  assumes "finalize_return_status r actor s = Inr (a, t)"
  shows "\<exists>r'. r_id r' = r_id r \<and> r_makerspace r' = r_makerspace r \<and> r_assigned_box r' = r_assigned_box r \<and>
    save_request r' s = Inr t \<and> (all_resolved (request_items (r_id r) s) \<longrightarrow> \<not> on_loan r')"
proof (cases "all_resolved (request_items (r_id r) s)")
  case True
  with assms show ?thesis
    by (auto simp: finalize_return_status_def ok_iff on_loan_def intro!: exI [of _ "r\<lparr>r_status := (if has_issue (request_items (r_id r) s)
      then ClosedWithIssue else Returned), r_closed_by := Some actor, r_closed_at := Some (now s)\<rparr>"] split: if_splits)
next
  case False
  with assms show ?thesis
    by (auto simp: finalize_return_status_def ok_iff intro!: exI [of _ "r\<lparr>r_status := PartiallyReturned\<rparr>"])
qed

lemma return_reviewed:
  assumes "return_locked env actor rid ev n remark code xs s = Inr t"
  shows "reviewed s t"
proof -
  from assms obtain r s1 b ys u vid s3 s4 a w where r: "request_of rid s = Some r" "on_loan r"
    and lone: "\<not> list_ex (\<lambda>l. t_request l = r_id r \<and> t_makerspace l = r_makerspace r) (loans s)"
    and s1: "charge_storage_once env ev n (s\<lparr>in_atomic := True\<rparr>) = Inr s1"
    and u: "return_items_stock ys (snd (record_scan actor r b s1)) = Inr u"
    and s3: "create_event actor r b (e_id ev) remark u = Inr (vid, s3)"
    and s4: "flip_individual_asset_returns actor r ys vid s3 = Inr s4"
    and w: "finalize_return_status r actor (write_accountability actor r (e_id ev) ys s4) = Inr (a, w)"
    and t: "custody t = custody w"
    by (auto simp: return_locked_def atomic_Inr ok_iff locked_request_Inr require_returnable_def Let_def
        split: if_splits prod.splits)
  let ?v = "write_accountability actor r (e_id ev) ys s4"
  have "custody s3 = custody u" using s3 by (auto simp: create_event_def Let_def split: if_splits)
  then have v: "custody ?v = custody s"
    using charge_storage_custody [OF s1] return_items_custody [OF u] flip_custody [OF s4] by simp
  from finalize_return_row [OF w] obtain r' where "r_id r' = r_id r" "r_makerspace r' = r_makerspace r"
    "r_assigned_box r' = r_assigned_box r" "save_request r' ?v = Inr w" by blast
  moreover have "request_of (r_id r) s = Some r" using r(1) request_of_id [OF r(1)] by simp
  ultimately have "reviewed s w"
    using r(2) lone save_request_custody [of r' ?v w]
    by (intro saved_reviewed [OF v, of r r']) (simp_all add: may_become_def list_ex_iff)
  then show ?thesis using reviewed_custody [OF t, of s] by simp
qed

lemma lending_step_reviewed:
  assumes "lending_step env c s = Inr t"
  shows "reviewed s t"
proof (cases c)
  case (Submit ms its rf rq contact actor key payload)
  with assms obtain r where "submit_request env ms its rf rq contact actor key payload s = Inr (r, t)"
    by (auto simp: ok_iff)
  with yields_Inr [OF submit_reviewed] show ?thesis by fastforce
qed (use assms in \<open>auto split: if_splits intro: accept_reviewed cancel_reviewed issue_reviewed return_reviewed
      yields_Inr [OF quiet_ops_reviewed(1)] yields_Inr [OF quiet_ops_reviewed(2)] yields_Inr [OF quiet_ops_reviewed(3)]\<close>)

end
