(* ===== verification/Loan_Returns.thy ===== *)
theory Loan_Returns
  imports Loan_Ledger Reviewed_Custody
begin

text \<open>
  The return of a tool loan closes it and settles its request, whether the borrower brings the tools
  back or staff book them in.
\<close>

section \<open>Closing a loan\<close>

text \<open>
  A return finds an open loan and its request, settles what is outstanding, saves the request row
  and marks the loan returned.
\<close>

definition closes :: "db \<Rightarrow> db \<Rightarrow> bool" where
  "closes s t \<longleftrightarrow> (\<exists>l l' r r'. l \<in> set (loans s) \<and> t_checked_out l \<and> t_id l' = t_id l \<and> t_request l' = t_request l \<and>
     \<not> t_checked_out l' \<and> request_of (t_request l) s = Some r \<and> r_id r' = r_id r \<and> r_makerspace r' = r_makerspace r \<and>
     r_assigned_box r' = r_assigned_box r \<and> (on_loan r \<longrightarrow> (\<exists>ys. settles (t_request l) ys s t)) \<and>
     custody t = (row_put r_id r' (requests s), row_put t_id l' (loans s), boxes s))"

lemma shelve_assets_tables [simp]:
  "core (shelve_assets as s) = core s" "custody (shelve_assets as s) = custody s"
  by (induction as arbitrary: s) (simp_all add: shelve_assets_def)

lemma scan_qrs_custody [simp]: "custody (scan_qr actor ms rid cx q s) = custody s" "custody (scan_qrs actor ms rid cx qs s) = custody s"
  by (induction qs arbitrary: s) (simp_all add: scan_qrs_def scan_qr_def)

lemma scan_qr_core [simp]: "core (scan_qr actor ms rid cx q s) = core s"
  by (simp add: scan_qr_def)

lemma file_problem_report_tables [simp]:
  "core (file_problem_report ms t actor txt' s) = core s" "custody (file_problem_report ms t actor txt' s) = custody s"
  by (simp_all add: file_problem_report_def Let_def core_def custody_def audit_record_def notify_def)

lemma record_item_logs_custody [simp]: "custody (record_item_logs actor action ms t s) = custody s"
  by (simp add: custody_def)

lemma save_loan_Inr: "save_loan l s = Inr t \<longleftrightarrow> \<not> loan_conflict l s \<and> t = put_loan l s"
  by (auto simp: save_loan_def)

lemma put_loan_tables [simp]:
  "core (put_loan l s) = core s" "custody (put_loan l s) = (requests s, row_put t_id l (loans s), boxes s)"
  by (simp_all add: put_loan_def core_def custody_def)

lemma save_loan_custody:
  "save_loan l v = Inr t \<Longrightarrow> custody v = custody s \<Longrightarrow>
    core t = core v \<and> custody t = (requests s, row_put t_id l (loans s), boxes s)"
  by (simp add: save_loan_Inr put_loan_tables) (simp add: custody_def)

lemma closed_loan_fields [simp]:
  "t_id (closed_loan l time eid remark) = t_id l" "t_request (closed_loan l time eid remark) = t_request l"
  "\<not> t_checked_out (closed_loan l time eid remark)"
  by (simp_all add: closed_loan_def)

lemma public_loan_of_Inr:
  "public_loan_of ms b q s = Inr l \<Longrightarrow> l \<in> set (loans s) \<and> t_checked_out l \<and> t_makerspace l = ms"
  by (auto simp: public_loan_of_def open_public_loan_def ok_iff find_Some_iff split: if_splits)

lemma public_ledger_Inr:
  "require_public_return_ledger l s = Inr r \<Longrightarrow> request_of (t_request l) s = Some r \<and> r_status r = Issued \<and>
    (\<forall>i \<in> set (request_items (r_id r) s). item_fully_out i)"
  by (auto simp: require_public_return_ledger_def ok_iff locked_request_Inr list_ex_iff split: if_splits)

lemma charge_storage_atomic: "charge_storage_once env ev n s = Inr t \<Longrightarrow> in_atomic t = in_atomic s"
proof -
  have "yields (\<lambda>t. in_atomic t = in_atomic s) (\<lambda>_. True) (charge_storage_once env ev n s)"
    by (auto simp: charge_storage_once_def get_makerspace_def Let_def put_finalization_def audit_record_def
        add_storage_def put_makerspace_def split: option.splits intro!: wp)
  then show "charge_storage_once env ev n s = Inr t \<Longrightarrow> in_atomic t = in_atomic s" by simp
qed

lemma return_tool_closes:
  assumes "return_tool_locked env ms b payload ev n remark problem s = Inr t" and "ledger_ok s"
  shows "closes s t"
proof -
  let ?s = "s\<lparr>in_atomic := True\<rparr>"
  from assms(1) obtain q l r as s1 s2 s3 s4 where
    l: "public_loan_of ms b q ?s = Inr l" and r: "require_public_return_ledger l ?s = Inr r"
    and s1: "charge_storage_once (lo_env env) ev n ?s = Inr s1"
    and s2: "return_all_items (r_id r) s1 = Inr s2"
    and s3: "save_loan (closed_loan l (now (shelve_assets as s2)) (e_id ev) remark) (shelve_assets as s2) = Inr s3"
    and s4: "save_request (r\<lparr>r_status := Returned, r_closed_by := Some (bo_id b), r_closed_at := Some (now s3)\<rparr>) s3 = Inr s4"
    and t: "core t = core s4" "custody t = custody s4"
    by (auto simp: return_tool_locked_def atomic_Inr Let_def ok_iff split: option.splits)
  let ?r = "r\<lparr>r_status := Returned, r_closed_by := Some (bo_id b), r_closed_at := Some (now s3)\<rparr>"
  let ?l = "closed_loan l (now (shelve_assets as s2)) (e_id ev) remark"
  have c1: "core s1 = core s" and k1: "custody s1 = custody s"
    using charge_storage_core [OF s1] charge_storage_custody [OF s1] by simp_all
  have at: "in_atomic s1"
    using charge_storage_atomic [OF s1] by simp
  have ok: "tables_ok s1" using assms(2) ledger_ok_core [OF c1] by (simp add: ledger_ok_def)
  have r': "request_of (t_request l) s = Some r" "r_status r = Issued" and rid: "r_id r = t_request l"
    using public_ledger_Inr [OF r] request_of_id [of "t_request l" ?s r] by simp_all
  have its: "request_items (r_id r) s1 = request_items (r_id r) s" using core_eqD [OF c1] by (simp add: request_items_def)
  have out: "\<forall>i \<in> set (request_items (r_id r) s1). item_fully_out i"
    using public_ledger_Inr [OF r] unfolding its by (simp add: request_items_def)
  have u: "return_items_stock (full_return (r_id r) s1) s1 = Inr s2" using s2 return_all_items_stock [OF ok at] by simp
  note fit = full_return_fits [OF ok out]
  have s2': "custody s2 = custody s" using return_items_custody [OF u] k1 by simp
  have s3': "core s3 = core s2" "custody s3 = (requests s, row_put t_id ?l (loans s), boxes s)"
    using save_loan_custody [OF s3, of s] s2' by simp_all
  have "custody t = (row_put r_id ?r (requests s), row_put t_id ?l (loans s), boxes s)"
    using save_request_custody [OF s4] s3'(2) t(2) by (simp add: custody_def)
  moreover have "settles (t_request l) (full_return (r_id r) s1) s t"
    unfolding settles_def
  proof (intro exI conjI)
    show "request_of (t_request l) s = Some r" "on_loan r" using r' by (simp_all add: on_loan_def)
    show "core s1 = core s" "core s3 = core s2" "core t = core s4" by (fact c1 s3'(1) t(1))+
    show "resolutions_fit (t_request l) (full_return (r_id r) s1) s"
      using fit its by (simp add: resolutions_fit_def rid)
    show "return_items_stock (full_return (r_id r) s1) s1 = Inr s2" by (fact u)
    show "save_request ?r s3 = Inr s4" by (fact s4)
    have "request_items (r_id r) s3 = map (returned_item (full_return (r_id r) s1)) (request_items (r_id r) s1)"
    proof -
      have "items s2 = map (\<lambda>i. if i_request i = r_id r then returned_item (full_return (r_id r) s1) i else i) (items s1)"
        by (rule return_items_step(3) [OF u ok fit])
      then show ?thesis using core_eqD [OF s3'(1)] unfolding request_items_def
        by (simp only:) (rule filter_rewritten, simp add: returned_item_def split: option.split)
    qed
    then show "r_status ?r = PartiallyReturned \<or> r_status ?r \<in> {Returned, ClosedWithIssue} \<and>
        all_resolved (request_items (t_request l) s3)"
      using full_return_resolves [OF ok out] by (simp add: rid)
  qed simp
  moreover have "l \<in> set (loans s)" "t_checked_out l" using public_loan_of_Inr [OF l] by simp_all
  ultimately show ?thesis using r'
    unfolding closes_def by (intro exI [of _ l] exI [of _ ?l] exI [of _ r] exI [of _ ?r]) auto
qed

lemma settle_direct_Inr:
  assumes "settle_direct actor l r eid xs s = Inr t" and "distinct (map x_item xs)"
  shows "\<exists>ys u. resolutions_fit (r_id r) ys s \<and> (in_atomic s \<longrightarrow> return_items_stock ys s = Inr u) \<and>
    core t = core u \<and> custody t = custody s"
proof (cases "list_ex (\<lambda>i. 0 < remaining_quantity i) (request_items (r_id r) s)")
  case True
  with assms(1) obtain ys u v where ys: "build_resolutions (r_id r) xs s = Inr ys"
    and u: "return_items_stock ys s = Inr u" and v: "for_each (flip_direct_resolution l) ys u = Inr v"
    and t: "t = write_accountability actor r eid ys v"
    by (auto simp: settle_direct_def ok_iff)
  have flip: "core (fold (flip_direct_asset as) es w) = core w \<and> custody (fold (flip_direct_asset as) es w) = custody w" for as es w
    by (induction es arbitrary: w) (simp_all add: flip_direct_asset_def split: option.split)
  have "core v = core u \<and> custody v = custody u"
    using v by (rule for_each_inv [where I = "\<lambda>w. core w = core u \<and> custody w = custody u"])
      (auto simp: flip_direct_resolution_def flip_direct_loan_assets_def Let_def flip ok_iff split: if_splits)
  then show ?thesis
    using build_resolutions_fit [OF ys assms(2)] u return_items_custody [OF u]
    by (intro exI [of _ ys] exI [of _ u]) (simp add: t)
next
  case False
  then have "t = s" using assms(1) by (auto simp: settle_direct_def split: if_splits)
  then show ?thesis
    by (intro exI [of _ "[]"] exI [of _ s]) (simp add: resolutions_fit_def return_items_stock_def)
qed

lemma return_direct_closes:
  assumes "return_direct_locked env lid actor ev n remark xs payload s = Inr t" and "distinct (map x_item xs)"
  shows "closes s t"
proof -
  let ?s = "s\<lparr>in_atomic := True\<rparr>"
  from assms(1) obtain l r s1 s2 vid s3 a s4 s5 where
    l: "loan_of lid ?s = Some l" "t_checked_out l" and r: "request_of (t_request l) s = Some r"
    and s1: "charge_storage_once (lo_env env) ev n ?s = Inr s1"
    and s2: "settle_direct actor l r (e_id ev) xs s1 = Inr s2"
    and s3: "create_direct_event actor l (e_id ev) remark s2 = Inr (vid, s3)"
    and s4: "finalize_return_status r actor s3 = Inr (a, s4)"
    and s5: "save_loan (closed_loan l (now s4) (e_id ev) remark) s4 = Inr s5"
    and t: "core t = core s5" "custody t = custody s5"
    by (auto simp: return_direct_locked_def atomic_Inr Let_def ok_iff locked_request_Inr split: option.splits)
  let ?l = "closed_loan l (now s4) (e_id ev) remark"
  have c1: "core s1 = core s" and k1: "custody s1 = custody s" and at: "in_atomic s1"
    using charge_storage_core [OF s1] charge_storage_custody [OF s1] charge_storage_atomic [OF s1] by simp_all
  from settle_direct_Inr [OF s2 assms(2)] at obtain ys u where
    ys: "resolutions_fit (r_id r) ys s1" "return_items_stock ys s1 = Inr u" and u: "core s2 = core u" "custody s2 = custody s1"
    by blast
  have s3': "core s3 = core s2" "custody s3 = custody s2"
    using s3 by (auto simp: create_direct_event_def Let_def split: if_splits)
  have rid: "r_id r = t_request l" using request_of_id [OF r] .
  from finalize_return_row [OF s4] obtain r' where r': "r_id r' = r_id r" "r_makerspace r' = r_makerspace r"
    "r_assigned_box r' = r_assigned_box r" "save_request r' s3 = Inr s4" by blast
  have k4: "custody s4 = (row_put r_id r' (requests s), loans s, boxes s)"
    using save_request_custody [OF r'(4)] s3'(2) u(2) k1 by (auto simp: custody_def)
  then have "core s5 = core s4" "custody s5 = (row_put r_id r' (requests s), row_put t_id ?l (loans s), boxes s)"
    using save_loan_custody [OF s5 refl] by (simp_all add: custody_def)
  then have t': "core t = core s4" "custody t = (row_put r_id r' (requests s), row_put t_id ?l (loans s), boxes s)"
    using t by simp_all
  have "settles (t_request l) ys s t" if "on_loan r"
  proof -
    from finalize_return_Inr [OF s4] obtain r'' where r'': "r_id r'' = r_id r" "save_request r'' s3 = Inr s4"
      "r_status r'' = PartiallyReturned \<or> r_status r'' \<in> {Returned, ClosedWithIssue} \<and>
        all_resolved (request_items (t_request l) s3)"
      by (auto simp: rid split: if_splits)
    have "core s3 = core u" using s3'(1) u(1) by simp
    moreover have "resolutions_fit (t_request l) ys s"
      using ys(1) core_eqD [OF c1] by (simp add: resolutions_fit_def rid request_items_def)
    ultimately show ?thesis
      unfolding settles_def using r that c1 ys(2) r'' t'(1) by blast
  qed
  moreover have "l \<in> set (loans s)" using l(1) by (auto simp: loan_of_def dest: row_get_SomeD)
  ultimately show ?thesis
    unfolding closes_def using l(2) r r' t'(2)
    by (intro exI [of _ l] exI [of _ ?l] exI [of _ r] exI [of _ r']) auto
qed

end
