(* ===== verification/Desk.thy ===== *)
theory Desk
  imports Loan_Returns
begin

text \<open>
  The reviewed workflow and the tool loans as one machine over the shared tables: the ledger stays
  balanced, requests follow the status graph, and a container is never out twice.
\<close>

section \<open>The machine\<close>

datatype desk_op = Reviewed lending_op | Loan loan_op

fun desk_step :: "loan_env \<Rightarrow> desk_op \<Rightarrow> db \<Rightarrow> exn + db" where
  "desk_step env (Reviewed c) = lending_step (lo_env env) c"
| "desk_step env (Loan c) = loan_step env c"

text \<open>
  The custody of containers. An open loan has its own request, out and without a box, and its own
  container, a box of its makerspace; a container is out with one loan or one request at most.
\<close>

definition loan_backed :: "db \<Rightarrow> tool_loan \<Rightarrow> bool" where
  "loan_backed s l \<longleftrightarrow> (\<exists>r. request_of (t_request l) s = Some r \<and> on_loan r \<and> r_makerspace r = t_makerspace l \<and>
       r_assigned_box r = None) \<and>
     (\<forall>c. t_container l = Some c \<longrightarrow> (\<exists>b. box_of c s = Some b \<and> b_makerspace b = t_makerspace l))"

definition open_loans :: "db \<Rightarrow> tool_loan set" where
  "open_loans s = {l \<in> set (loans s). t_checked_out l}"

definition holds_box :: "db \<Rightarrow> nat \<Rightarrow> nat \<Rightarrow> bool" where
  "holds_box s rid c \<longleftrightarrow> (\<exists>r \<in> set_option (request_of rid s). on_loan r \<and> r_assigned_box r = Some c)"

definition custody_ok :: "db \<Rightarrow> bool" where
  "custody_ok s \<longleftrightarrow> unique_keys b_id (boxes s) \<and> unique_keys t_id (loans s) \<and>
     (\<forall>l \<in> open_loans s. loan_backed s l) \<and>
     inj_on t_request (open_loans s) \<and>
     inj_on t_container {l \<in> open_loans s. t_container l \<noteq> None} \<and>
     (\<forall>l \<in> open_loans s. \<forall>c. t_container l = Some c \<longrightarrow> (\<forall>rid. \<not> holds_box s rid c)) \<and>
     (\<forall>i j c. holds_box s i c \<longrightarrow> holds_box s j c \<longrightarrow> i = j)"

definition desk_ok :: "db \<Rightarrow> bool" where
  "desk_ok s \<longleftrightarrow> ledger_ok s \<and> custody_ok s"

section \<open>Reviewed operations\<close>

lemma request_of_mem: "request_of rid s = Some r \<Longrightarrow> r \<in> set (requests s)"
  by (auto simp: request_of_def dest: row_get_SomeD)

lemma request_of_put:
  "request_of (r_id r) s = Some r \<Longrightarrow> r_id r' = r_id r \<Longrightarrow> requests t = row_put r_id r' (requests s) \<Longrightarrow>
    request_of rid t = (if rid = r_id r then Some r' else request_of rid s)"
  by (auto simp: request_of_def row_get_row_put)

lemma holds_box_put:
  "request_of (r_id r) s = Some r \<Longrightarrow> r_id r' = r_id r \<Longrightarrow> requests t = row_put r_id r' (requests s) \<Longrightarrow>
    holds_box t i c \<longleftrightarrow> (if i = r_id r then on_loan r' \<and> r_assigned_box r' = Some c else holds_box s i c)"
  using request_of_put [of r s r' t i] by (auto simp: holds_box_def)

lemma lent_box:
  assumes "l \<in> open_loans s" and "loan_backed s l" and "t_container l = Some c"
  shows "box_lent c s"
proof -
  from assms(2,3) obtain b where b: "box_of c s = Some b" "b_makerspace b = t_makerspace l"
    unfolding loan_backed_def by blast
  moreover have "b_id b = c" using b(1) by (auto simp: box_of_def dest: row_get_SomeD)
  ultimately show ?thesis using assms(1,3)
    by (auto simp: box_lent_def active_public_container_loan_exists_def list_ex_iff open_loans_def)
qed

lemma reviewed_keeps_backed:
  assumes "loan_backed s l" and "l \<in> set (loans s)" and "request_of (r_id r) s = Some r" and "may_become s r r'"
    and "requests t = row_put r_id r' (requests s)" and "boxes t = boxes s"
  shows "loan_backed t l"
proof (cases "t_request l = r_id r")
  case True
  then have r: "on_loan r" "r_makerspace r = t_makerspace l" "r_assigned_box r = None"
    using assms(1,3) by (simp_all add: loan_backed_def)
  then have "r_status r' = r_status r \<and> r_assigned_box r' = r_assigned_box r" "r_makerspace r' = r_makerspace r" "r_id r' = r_id r"
    using assms(2,4) True by (auto simp: may_become_def)
  then show ?thesis using assms(1) r request_of_put [OF assms(3) _ assms(5)]
    by (simp add: loan_backed_def True box_of_def assms(6) on_loan_def)
next
  case False
  then show ?thesis using assms(1,4) request_of_put [OF assms(3) _ assms(5)]
    by (simp add: loan_backed_def box_of_def assms(6) may_become_def)
qed

lemma newly_held:
  assumes "request_of (r_id r) s = Some r" and "may_become s r r'" and "on_loan r'" and "r_assigned_box r' = Some c"
  shows "holds_box s (r_id r) c \<or> box_of c s \<noteq> None \<and> \<not> box_lent c s \<and> (\<forall>i. holds_box s i c \<longrightarrow> i = r_id r)"
proof -
  have "\<exists>o' \<in> set (requests s). r_id o' \<noteq> r_id r \<and> on_loan o' \<and> r_assigned_box o' = Some c"
    if "i \<noteq> r_id r" "holds_box s i c" for i
  proof -
    from that(2) obtain o' where o': "request_of i s = Some o'" "on_loan o'" "r_assigned_box o' = Some c"
      by (auto simp: holds_box_def)
    with that(1) request_of_mem [OF o'(1)] request_of_id [OF o'(1)] show ?thesis by auto
  qed
  then show ?thesis using assms by (auto simp: may_become_def on_loan_def holds_box_def)
qed

lemma reviewed_keeps_custody:
  assumes ok: "custody_ok s" and rev: "reviewed s t"
  shows "custody_ok t"
proof -
  have t: "loans t = loans s" "boxes t = boxes s" using rev by (simp_all add: reviewed_def)
  have ol: "open_loans t = open_loans s" by (simp add: open_loans_def t)
  note ok' = ok [unfolded custody_ok_def]
  from rev consider (old) "\<And>i. request_of i s \<noteq> None \<Longrightarrow> request_of i t = request_of i s"
      "\<And>i c. holds_box t i c \<longleftrightarrow> holds_box s i c"
    | (put) r r' where "request_of (r_id r) s = Some r" "may_become s r r'" "requests t = row_put r_id r' (requests s)"
    unfolding reviewed_def by (auto simp: request_of_def holds_box_def row_get_append row_get_Cons split: option.splits)
  then have "(\<forall>l \<in> open_loans s. loan_backed t l) \<and>
    (\<forall>l \<in> open_loans s. \<forall>c. t_container l = Some c \<longrightarrow> (\<forall>rid. \<not> holds_box t rid c)) \<and>
    (\<forall>i j c. holds_box t i c \<longrightarrow> holds_box t j c \<longrightarrow> i = j)"
  proof cases
    case old
    then show ?thesis using ok' by (auto simp: loan_backed_def box_of_def t)
  next
    case put
    have id: "r_id r' = r_id r" using put(2) by (simp add: may_become_def)
    note holds = holds_box_put [OF put(1) id put(3)] and new = newly_held [OF put(1,2)]
    have backed: "loan_backed t l" if "l \<in> open_loans s" for l
      using that ok' reviewed_keeps_backed [OF _ _ put t(2)] by (auto simp: open_loans_def)
    have lent: "box_lent c s" if "l \<in> open_loans s" "t_container l = Some c" for l c
      using that ok' lent_box by blast
    have "\<not> holds_box t i c" if "l \<in> open_loans s" "t_container l = Some c" for l c i
      using that ok' lent [OF that] new [of c] by (auto simp: holds split: if_splits)
    moreover have "i = j" if "holds_box t i c" "holds_box t j c" for i j c
      using that ok' new [of c] by (auto simp: holds split: if_splits)
    ultimately show ?thesis using backed by blast
  qed
  then show ?thesis using ok' by (simp add: custody_ok_def t ol)
qed

section \<open>Tool loans\<close>

lemma free_box_unheld: "free_box ms s c \<Longrightarrow> \<not> holds_box s i c"
  by (auto simp: free_box_def reviewed_request_holds_box_def holds_box_def on_loan_def list_ex_iff dest: request_of_mem)

lemma lends_keeps_custody:
  assumes ok: "custody_ok s" and "lends ms s t"
  shows "custody_ok t"
proof -
  from assms(2) obtain u r s1 v l where hold: "basket_holds ms s (u, s1)" and claims: "claims_basket ms u r s1 v"
    and t: "core t = core v" "boxes t = boxes v" "loans t = loans v @ [l]"
    and l: "t_id l = fresh_key t_id (loans v)" "\<not> loan_conflict l v" "t_checked_out l" "t_request l = r_id r"
      "t_makerspace l = ms" "t_container l = bk_container u" unfolding lends_def by blast
  have s1: "requests s1 = requests s" "loans s1 = loans s" "boxes s1 = boxes s"
    using hold by (simp_all add: basket_holds_def handed_out_def apart_def)
  have r: "requests t = requests s @ [r]" "r_id r = fresh_key r_id (requests s)" "on_loan r" "r_makerspace r = ms"
    "r_assigned_box r = None" and t': "loans t = loans s @ [l]" "boxes t = boxes s" "loans v = loans s"
    using claims t core_eqD [OF t(1)] s1 by (auto simp: claims_basket_def on_loan_def)
  have none: "request_of (r_id r) s = None" unfolding request_of_def r(2) by (rule row_get_fresh)
  have req: "request_of i t = (if i = r_id r then Some r else request_of i s)" for i
    using none by (auto simp: request_of_def r(1) row_get_append row_get_Cons split: option.splits)
  have holds: "holds_box t i c \<longleftrightarrow> holds_box s i c" for i c
    using none r(5) by (auto simp: holds_box_def req)
  have ol: "open_loans t = insert l (open_loans s)" using l(3) by (auto simp: open_loans_def t'(1))
  note ok' = ok [unfolded custody_ok_def]
  have free: "free_box ms s c" if "t_container l = Some c" for c using hold that l(6) by (simp add: basket_holds_def)
  have box: "\<exists>b. box_of c t = Some b \<and> b_makerspace b = ms" if c: "free_box ms s c" for c
  proof -
    from c obtain b where b: "b \<in> set (boxes s)" "b_id b = c" "b_makerspace b = ms" unfolding free_box_def by blast
    from row_get_unique [OF _ b(1)] ok' b(2,3) show ?thesis by (auto simp: box_of_def t'(2))
  qed
  have fresh: "t_id o' \<noteq> t_id l" if "o' \<in> set (loans s)" for o'
    using that fresh_key_greater [of o' "loans s" t_id] l(1) by (auto simp: t'(3))
  have apart: "t_request o' \<noteq> t_request l" "t_container l \<noteq> None \<Longrightarrow> t_container o' \<noteq> t_container l"
    if "o' \<in> open_loans s" for o'
    using that fresh [of o'] l(2,3) by (auto simp: open_loans_def loan_conflict_def list_ex_iff t'(3))
  have backed: "loan_backed t o'" if "o' \<in> insert l (open_loans s)" for o'
    using that
  proof
    assume "o' = l"
    then show ?thesis using r(3,4,5) l(4,5) free box by (auto simp: loan_backed_def req)
  next
    assume "o' \<in> open_loans s"
    then have "loan_backed s o'" using ok' by blast
    then show ?thesis using none by (auto simp: loan_backed_def req box_of_def t'(2))
  qed
  have "unique_keys t_id (loans t)" using ok' l(1) by (simp add: t'(1,3) unique_keys_fresh)
  moreover have "inj_on t_request (insert l (open_loans s))"
    using ok' apart(1) by (force simp: inj_on_insert)
  moreover have "inj_on t_container {o' \<in> insert l (open_loans s). t_container o' \<noteq> None}"
    using ok' apart(2) by (force simp: inj_on_def)
  moreover have "\<not> holds_box t i c" if "o' \<in> insert l (open_loans s)" "t_container o' = Some c" for o' c i
  proof (cases "o' = l")
    case True
    with that(2) free have "free_box ms s c" by simp
    then show ?thesis unfolding holds by (rule free_box_unheld)
  next
    case False
    with that(1) have "o' \<in> open_loans s" by simp
    with that(2) ok' show ?thesis unfolding holds by blast
  qed
  moreover have "\<forall>i j c. holds_box t i c \<longrightarrow> holds_box t j c \<longrightarrow> i = j"
    unfolding holds using ok' by blast
  moreover have "unique_keys b_id (boxes t)" using ok' by (simp add: t'(2))
  ultimately show ?thesis unfolding custody_ok_def ol using backed by blast
qed

lemma closes_keeps_custody:
  assumes ok: "custody_ok s" and "closes s t"
  shows "custody_ok t"
proof -
  from assms(2) obtain l l' r r' where l: "l \<in> open_loans s" and l': "t_id l' = t_id l" "\<not> t_checked_out l'"
    and r: "request_of (t_request l) s = Some r" "r_id r' = r_id r" "r_assigned_box r' = r_assigned_box r"
    and t: "custody t = (row_put r_id r' (requests s), row_put t_id l' (loans s), boxes s)"
    unfolding closes_def open_loans_def by blast
  note ok' = ok [unfolded custody_ok_def]
  have t': "requests t = row_put r_id r' (requests s)" "loans t = row_put t_id l' (loans s)" "boxes t = boxes s"
    using t by (simp_all add: custody_def)
  have box: "r_assigned_box r = None" using ok' l r(1) by (auto simp: loan_backed_def)
  have id: "request_of (r_id r) s = Some r" "r_id r = t_request l" using r(1) request_of_id [OF r(1)] by simp_all
  note req = request_of_put [OF id(1) r(2) t'(1)]
  have holds: "holds_box t i c \<longrightarrow> holds_box s i c" for i c
    using holds_box_put [OF id(1) r(2) t'(1), of i c] r(3) box by auto
  have ol: "open_loans t \<subseteq> open_loans s - {l}"
  proof
    fix o'
    assume "o' \<in> open_loans t"
    then have "t_checked_out o'" "o' \<in> set (row_put t_id l' (loans s))" by (simp_all add: open_loans_def t'(2))
    then have "o' \<in> set (loans s)" "t_id o' \<noteq> t_id l"
      using l' by (auto simp: row_put_def split: if_splits)
    with \<open>t_checked_out o'\<close> show "o' \<in> open_loans s - {l}" by (auto simp: open_loans_def)
  qed
  have "loan_backed t o'" if "o' \<in> open_loans t" for o'
  proof -
    have o': "o' \<in> open_loans s" "o' \<noteq> l" using that ol by auto
    then have "t_request o' \<noteq> t_request l" using ok' l by (auto dest: inj_onD)
    moreover have "loan_backed s o'" using ok' o'(1) by blast
    ultimately show ?thesis by (simp add: loan_backed_def req id(2) box_of_def t'(3))
  qed
  moreover have "inj_on t_request (open_loans t)" using ok' ol by (blast intro: inj_on_subset)
  moreover have "inj_on t_container {l \<in> open_loans t. t_container l \<noteq> None}"
  proof (rule inj_on_subset)
    show "inj_on t_container {l \<in> open_loans s. t_container l \<noteq> None}" using ok' by blast
    show "{l \<in> open_loans t. t_container l \<noteq> None} \<subseteq> {l \<in> open_loans s. t_container l \<noteq> None}" using ol by blast
  qed
  ultimately show ?thesis using ok' ol holds by (simp add: custody_ok_def t'(2,3)) blast
qed

section \<open>Every step of the desk\<close>

lemma loan_step_cases:
  assumes "loan_step env c s = Inr t" and "ledger_ok s"
  shows "(\<exists>ms. lends ms s t) \<or> closes s t"
  using assms by (cases c) (auto simp: direct_return_valid_def split: if_splits
      intro: checkout_lends issue_direct_lends return_tool_closes return_direct_closes)

lemma closes_settles:
  assumes "closes s t" and "custody_ok s"
  shows "\<exists>rid ys. settles rid ys s t"
proof -
  from assms(1) obtain l r where "l \<in> open_loans s" "request_of (t_request l) s = Some r"
    "on_loan r \<Longrightarrow> \<exists>ys. settles (t_request l) ys s t" unfolding closes_def open_loans_def by blast
  moreover from this assms(2) have "on_loan r" by (auto simp: custody_ok_def loan_backed_def)
  ultimately show ?thesis by blast
qed

lemma desk_step_keeps:
  assumes "desk_ok s" and "desk_step env c s = Inr t"
  shows "keeps_ledger s t \<and> custody_ok t"
proof (cases c)
  case (Reviewed c)
  with assms show ?thesis
    by (auto simp: desk_ok_def intro: lending_step_keeps reviewed_keeps_custody lending_step_reviewed)
next
  case (Loan c)
  with assms have "ledger_ok s" "custody_ok s" and "(\<exists>ms. lends ms s t) \<or> closes s t"
    using loan_step_cases by (auto simp: desk_ok_def)
  then show ?thesis
    using lends_ledger lends_keeps_custody closes_keeps_custody closes_settles settled_ledger by blast
qed

lemma lends_follows:
  assumes "lends ms s t"
  shows "follows_graph s t"
proof -
  from assms obtain u r s1 v where "basket_holds ms s (u, s1)" and claims: "claims_basket ms u r s1 v" and t: "core t = core v"
    unfolding lends_def by blast
  then have "requests v = requests s @ [r]"
    by (simp add: basket_holds_def handed_out_def apart_def claims_basket_def)
  then have "follows_graph s v" by (auto simp: follows_graph_def request_of_def row_get_append)
  then show ?thesis using follows_graph_core [OF t] by simp
qed

lemma settled_follows:
  assumes "settles rid ys s t" and "ledger_ok s"
  shows "follows_graph s t"
  using settled_moved [OF assms] by (auto simp: on_loan_def transition.simps elim!: moved_follows)

lemma desk_step_follows:
  assumes "desk_ok s" and "desk_step env c s = Inr t"
  shows "follows_graph s t"
proof (cases c)
  case (Reviewed c)
  with assms show ?thesis by (auto simp: desk_ok_def intro: lending_step_follows)
next
  case (Loan c)
  with assms have "ledger_ok s" "custody_ok s" and "(\<exists>ms. lends ms s t) \<or> closes s t"
    using loan_step_cases by (auto simp: desk_ok_def)
  then show ?thesis using lends_follows closes_settles settled_follows by blast
qed

lemma desk_step_ok: "desk_ok s \<Longrightarrow> desk_step env c s = Inr t \<Longrightarrow> desk_ok t \<and> same_surplus s t"
  using desk_step_keeps [of s env c t] by (simp add: keeps_ledger_def desk_ok_def)

interpretation desk: tracked_machine "desk_step env" desk_ok same_surplus for env
  by unfold_locales (blast dest: desk_step_ok intro: same_surplus_refl same_surplus_trans)+

interpretation desk_status: tracked_machine "desk_step env" desk_ok follows_graph for env
  by unfold_locales (auto dest: desk_step_follows intro: follows_graph_refl follows_graph_trans)

end
