(* ===== verification/Lending_Properties.thy ===== *)
theory Lending_Properties
  imports Lending
begin

text \<open>
  What the request workflow guarantees to its users, over every run of the machine of
  \<open>Lending\<close>: the stock ledger stays balanced, a request only moves along the status graph, an
  accepted request can be handed out and what was handed out can come back, a cancelled
  acceptance leaves no trace in the stock, and a repeated anonymous submission is the first one.
\<close>

section \<open>A sample of the workflow\<close>

definition sample_contact :: requester_snapshot where
  "sample_contact = \<lparr>s_username = ''ada'', s_name = ''Ada'', s_email = ''a'', s_phone = ''1'',
     s_contact_verified = False, s_checkin_identity = None, s_checkin_purpose = [],
     s_checkin_project_name = []\<rparr>"

definition sample_request :: "nat \<Rightarrow> request_status \<Rightarrow> hardware_request" where
  "sample_request rid st = (new_request rid 1 3 sample_contact None [] [] [])\<lparr>r_status := st\<rparr>"

definition sample_lending :: db where
  "sample_lending = empty_db\<lparr>
     makerspaces := [\<lparr>m_id = 1, m_default_loan_days = 7, m_storage_used = 0, m_storage_override = None\<rparr>],
     users := [\<lparr>w_id = 9, w_is_active = True, w_access_active = True, w_must_change_password = False,
       w_is_dump_stub = False\<rparr>],
     products := [sample_product],
     requests := [sample_request 5 Accepted, sample_request 6 PendingApproval, sample_request 7 Issued],
     items := [(new_item 51 5 (1, 2))\<lparr>i_accepted := 2\<rparr>, new_item 61 6 (1, 3),
       (new_item 71 7 (1, 1))\<lparr>i_accepted := 1, i_issued := 1\<rparr>]\<rparr>"

lemmas sample_lending_defs = sample_lending_def sample_request_def sample_contact_def new_request_def
  new_item_def sample_product_def sample_env_def empty_db_def

lemma sample_lending_ok: "ledger_ok sample_lending"
  by (simp add: sample_lending_defs ledger_ok_def tables_ok_def stock_ok_def items_ok_def unique_keys_def
      product_ok_def product_constraints_def product_in_range_def bucket_sum_def int32_max_def
      item_in_range_def item_constraints_def request_of_def row_get_Cons untouched_def remaining_quantity_def)

lemma sample_lending_covered: "covered sample_lending"
  by (simp add: sample_lending_defs covered_def reserved_surplus_def issued_surplus_def demand_def
      reserved_of_def issued_of_def product_of_def row_get_Cons item_request_status_def
      reserved_by_def issued_by_def remaining_quantity_def split: option.split)

lemma sample_requests:
  "request_of 5 sample_lending = Some (sample_request 5 Accepted)"
  "request_of 6 sample_lending = Some (sample_request 6 PendingApproval)"
  "request_of 7 sample_lending = Some (sample_request 7 Issued)"
  by (simp_all add: sample_lending_defs request_of_def row_get_Cons)

lemma sample_request_status [simp]: "r_status (sample_request rid st) = st"
  by (simp add: sample_request_def)

section \<open>Accepting and cancelling\<close>

text \<open>
  C15. Accepting a request and then cancelling it restores every product row of the inventory,
  whatever the accepted quantities and however many items share a product.
\<close>

lemma accepted_quantity_items: "items t = items s \<Longrightarrow> accepted_quantity rid pid t = accepted_quantity rid pid s"
  by (simp add: accepted_quantity_def request_items_def)

lemma accept_reserves:
  assumes "accept_request actor rid acc s = Inr t" and "ledger_ok s"
  shows "product_of pid t = map_option (reserved_row (accepted_quantity rid pid t)) (product_of pid s)"
proof -
  from accept_request_Inr [OF assms(1)] obtain r' u v w where
    u: "for_each (accept_item acc) (items_by_product rid s) (s\<lparr>in_atomic := True\<rparr>) = Inr u"
    and v: "reserve_for_request rid u = Inr v" and w: "save_request r' v = Inr w" and t: "core t = core w"
    by blast
  have ok: "tables_ok (s\<lparr>in_atomic := True\<rparr>)"
    using assms(2) ledger_ok_core [of "s\<lparr>in_atomic := True\<rparr>" s] by (simp add: ledger_ok_def)
  have u': "for_each (accept_item acc) (items_by_product rid (s\<lparr>in_atomic := True\<rparr>)) (s\<lparr>in_atomic := True\<rparr>) = Inr u"
    using u by (simp add: items_by_product_def request_items_def)
  note loop = accept_loop [OF u' ok]
  have "products u = products s" by (simp add: loop(1))
  then have pu: "product_of pid u = product_of pid s" by (simp add: product_of_def)
  have it: "items v = items u" using reserve_for_request_step(1) [OF v loop(2)] same_but_products_fields by blast
  have tw: "products t = products v" "items t = items v"
    using core_eqD [OF t] save_request_core [OF w] by simp_all
  then have "product_of pid t = product_of pid v" by (simp add: product_of_def)
  then show ?thesis
    using reserve_for_request_effect [OF loop(2) v, of pid] pu accepted_quantity_items [of t u] tw it by simp
qed

lemma cancel_releases:
  assumes "cancel_request env actor rid ms reason s = Inr t"
  shows "product_of pid t = map_option (reserved_row (- accepted_quantity rid pid s)) (product_of pid s)"
proof -
  from cancel_request_Inr [OF assms] obtain r r' r'' b u v w where
    r: "request_of rid s = Some r"
    and u: "clear_unissued_assignment r (s\<lparr>in_atomic := True\<rparr>) = Inr (b, r', u)"
    and v: "release_request_reservation r' u = Inr v" and w: "save_request r'' v = Inr w" and t: "core t = core w"
    by blast
  have c: "r_id r' = rid" "products u = products s" "items u = items s"
    using clear_unissued_Inr [OF u] request_of_id [OF r] by auto
  have "product_of pid t = product_of pid v"
    using core_eqD [OF t] save_request_core [OF w] by (simp add: product_of_def)
  moreover have "product_of pid u = product_of pid s" using c by (simp add: product_of_def)
  ultimately show ?thesis
    using release_effect [OF v, of pid] accepted_quantity_items [OF c(3)] c(1) by simp
qed

theorem cancelled_acceptance_leaves_no_trace:
  assumes "ledger_ok s" and "accept_request actor rid acc s = Inr t"
    and "cancel_request env actor' rid ms reason t = Inr u"
  shows "product_of pid u = product_of pid s"
  unfolding cancel_releases [OF assms(3)] accept_reserves [OF assms(2,1)]
  by (simp add: option.map_comp o_def reserved_row_add option.map_ident)

definition sample_accepted :: db where
  "sample_accepted = (case accept_request 9 6 (Some [(61, 2)]) sample_lending of Inr t \<Rightarrow> t | Inl _ \<Rightarrow> sample_lending)"

lemmas accept_defs = accept_request_def atomic_def locked_request_def request_of_def items_by_product_def
  request_items_def accept_item_def accepted_qty_def save_item_def check_item_def item_in_range_def
  item_constraints_def int32_max_def reserve_for_request_def required_products_def required_quantity_def
  reserve_product_def product_of_def assert_individual_assets_available_def save_product_def
  product_in_range_def product_constraints_def bucket_sum_def save_request_def request_conflict_def
  put_request_def notify_def audit_record_def

lemmas cancel_defs = cancel_request_def may_cancel_def assert_wholly_unissued_def
  clear_unissued_assignment_def release_request_reservation_def item_products_def accepted_quantity_def
  foreign_demand_def accepted_items_def item_request_status_def reservation_attributable_def
  accepted_demand_def release_product_def get_product_def assets_of_def status_count_def strip_def is_space_def code_of_def

lemma sample_accept: "accept_request 9 6 (Some [(61, 2)]) sample_lending = Inr sample_accepted"
  by (simp add: sample_accepted_def accept_defs sample_lending_defs row_get_Cons row_put_def Let_def)

theorem cancelled_acceptance_leaves_no_trace_witness:
  "\<exists>u. cancel_request sample_env (Some 9) 6 1 (Some ''late'') sample_accepted = Inr u \<and>
    product_of 1 u = Some sample_product"
proof -
  obtain u where u: "cancel_request sample_env (Some 9) 6 1 (Some ''late'') sample_accepted = Inr u"
    by (simp add: sample_accepted_def accept_defs cancel_defs sample_lending_defs row_get_Cons row_put_def
        Let_def on_loan_def)
  with cancelled_acceptance_leaves_no_trace [OF sample_lending_ok sample_accept u, of 1] show ?thesis
    by (simp add: product_of_def sample_lending_def row_get_Cons sample_product_def)
qed

section \<open>Anonymous submissions\<close>

text \<open>A submission adds one request, with its key, after those of the table.\<close>

lemma submit_new_request_Inr:
  assumes "submit_new_request ms its rf rq contact actor key payload s = Inr (r, t)"
  shows "requests t = requests s @ [r] \<and> makerspaces t = makerspaces s \<and> r_makerspace r = ms \<and>
    r_idempotency_key r = key \<and> r_payload_fingerprint r = payload \<and> r_status r = PendingApproval"
proof -
  from assms obtain v where
    v: "for_each (create_item (fresh_key r_id (requests s))) its (s\<lparr>requests := requests s @ [r]\<rparr>) = Inr v"
    and t: "requests t = requests v" "makerspaces t = makerspaces v"
    and r: "r_makerspace r = ms" "r_idempotency_key r = key" "r_payload_fingerprint r = payload"
      "r_status r = PendingApproval"
    by (auto simp: submit_new_request_def Let_def ok_iff create_request_def new_request_def
        notify_def audit_record_def split: if_splits)
  have "requests v = requests s @ [r] \<and> makerspaces v = makerspaces s"
    using v by (rule for_each_inv [where I = "\<lambda>w. requests w = requests s @ [r] \<and> makerspaces w = makerspaces s"])
      (auto simp: create_item_def Let_def ok_iff)
  with t r show ?thesis by simp
qed

abbreviation same_key :: "nat \<Rightarrow> string \<Rightarrow> hardware_request \<Rightarrow> bool" where
  "same_key ms key \<equiv> \<lambda>r. r_makerspace r = ms \<and> r_idempotency_key r = key"

lemma anonymous_submit_cases:
  assumes "submit_request env ms its rf rq contact actor key payload s = Inr (r, t)"
    and "\<not> s_contact_verified contact"
  shows "\<not> write_fenced env ms \<and> row_get m_id ms (makerspaces t) \<noteq> None \<and> key \<noteq> [] \<and>
    find (same_key ms key) (requests t) = Some r \<and> r_payload_fingerprint r = payload \<and>
    (requests t = requests s \<or> int (length (anonymous_pending ms s)) < anonymous_limit env \<and>
       requests t = requests s @ [r])"
proof -
  let ?s = "s\<lparr>in_atomic := True\<rparr>"
  from assms obtain m x b where f: "\<not> write_fenced env ms" and m: "row_get m_id ms (makerspaces s) = Some m"
    and x: "anonymous_idempotency_replay ms key payload ?s = Inr x" and t: "t = b\<lparr>in_atomic := in_atomic s\<rparr>"
    and c: "(case x of Some q \<Rightarrow> Inr (q, ?s)
      | None \<Rightarrow> try_then (enforce_anonymous_outstanding_limit env ms ?s) (\<lambda>_.
          submit_new_request ms its rf rq contact actor key payload ?s)) = Inr (r, b)"
    by (auto simp: submit_request_def atomic_ret_def ok_iff get_makerspace_def split: if_splits)
  have key: "key \<noteq> []" and x': "find (same_key ms key) (requests s) = x"
    "\<forall>q. x = Some q \<longrightarrow> r_payload_fingerprint q = payload"
    using x by (auto simp: anonymous_idempotency_replay_def split: if_splits option.splits)
  show ?thesis
  proof (cases x)
    case None
    with c have v: "submit_new_request ms its rf rq contact actor key payload ?s = Inr (r, b)"
      and l: "int (length (anonymous_pending ms s)) < anonymous_limit env"
      by (auto simp: enforce_anonymous_outstanding_limit_def anonymous_pending_def split: if_splits)
    have "find P (xs @ [r]) = Some r" if "find P xs = None" "P r" for P :: "hardware_request \<Rightarrow> bool" and xs
      using that by (induction xs) (auto split: if_splits)
    then show ?thesis
      using None f key m x' l t submit_new_request_Inr [OF v] by simp
  qed (use c f key m x' t in auto)
qed

text \<open>
  C16. Submitting anonymously is idempotent: once a submission with a key has succeeded, sending
  the same key and payload again (with whatever else differs) returns the request that was
  created and writes nothing.
\<close>

theorem anonymous_submit_replayed:
  assumes "submit_request env ms its rf rq contact actor key payload s = Inr (r, t)"
    and "\<not> s_contact_verified contact" and "\<not> s_contact_verified contact'"
  shows "submit_request env ms its' rf' rq' contact' actor' key payload t = Inr (r, t)"
proof -
  note c = anonymous_submit_cases [OF assms(1,2)]
  then obtain m where "row_get m_id ms (makerspaces t) = Some m" by auto
  with c assms(3) show ?thesis
    by (simp add: submit_request_def atomic_ret_def get_makerspace_def anonymous_idempotency_replay_def)
qed

definition sample_submitted :: "hardware_request \<times> db" where
  "sample_submitted = (case submit_request sample_env 1 [(1, 2)] ''now'' 3 sample_contact None ''key'' ''pay''
     sample_lending of Inr x \<Rightarrow> x | Inl _ \<Rightarrow> (sample_request 0 Draft, sample_lending))"

lemmas submit_defs = submit_request_def submit_new_request_def atomic_ret_def get_makerspace_def
  anonymous_idempotency_replay_def enforce_anonymous_outstanding_limit_def anonymous_pending_def
  create_request_def request_conflict_def create_item_def check_item_def item_in_range_def
  item_constraints_def int32_max_def fresh_key_def on_loan_def

lemma sample_submit:
  "submit_request sample_env 1 [(1, 2)] ''now'' 3 sample_contact None ''key'' ''pay'' sample_lending =
    Inr (fst sample_submitted, snd sample_submitted)"
  by (simp add: sample_submitted_def submit_defs sample_lending_defs row_get_Cons Let_def)

theorem anonymous_submit_replayed_witness:
  "submit_request sample_env 1 [] ''later'' 4 sample_contact (Some 9) ''key'' ''pay'' (snd sample_submitted) =
    Inr (fst sample_submitted, snd sample_submitted)"
  by (rule anonymous_submit_replayed [OF sample_submit]) (simp_all add: sample_contact_def)

text \<open>
  Anonymous submissions cannot flood a makerspace: a submission never takes the number of
  its pending anonymous requests above the configured limit.
\<close>

lemma anonymous_pending_bounded:
  assumes "submit_request env ms its rf rq contact actor key payload s = Inr (r, t)"
    and "\<not> s_contact_verified contact"
    and "int (length (anonymous_pending ms s)) \<le> anonymous_limit env"
  shows "int (length (anonymous_pending ms t)) \<le> anonymous_limit env"
  using anonymous_submit_cases [OF assms(1,2)] assms(3) by (auto simp: anonymous_pending_def)

lemma anonymous_pending_bounded_witness:
  "int (length (anonymous_pending 1 (snd sample_submitted))) \<le> 2"
  using anonymous_pending_bounded [OF sample_submit]
  by (simp add: sample_contact_def sample_lending_defs anonymous_pending_def)

end
