(* ===== verification/Desk_Properties.thy ===== *)
theory Desk_Properties
  imports Desk Lending_Properties
begin

text \<open>
  What the reviewed workflow and the tool loans guarantee together, over every run of the machine of
  \<open>Desk\<close>: the stock ledger stays balanced, requests follow the status graph, what was promised can be
  handed over, what was handed out can come back, and a container is never out twice.
\<close>

section \<open>A sample of the desk\<close>

definition sample_desk_env :: loan_env where
  "sample_desk_env = \<lparr>lo_env = sample_env, feature_on = (\<lambda>_ _. True), servable = (\<lambda>_. True),
     member_presence_error = (\<lambda>_ _. None), account_error = (\<lambda>_ _. None)\<rparr>"

definition sample_borrower :: borrower where
  "sample_borrower = \<lparr>bo_id = 3, bo_username = ''ada'', bo_name = ''Ada'', bo_email = ''a'', bo_phone = ''1''\<rparr>"

definition sample_loan :: tool_loan where
  "sample_loan = \<lparr>t_id = 2, t_makerspace = 1, t_qr_code = Some 6, t_container = Some 4, t_request = 8, t_requester = 3,
     t_target_type = ''box'', t_target_id = 4, t_asset_ids = [], t_qr_ids = [6], t_checked_out = True,
     t_source = PublicSelfCheckout, t_target_label = ''bin'', t_due_at = None, t_returned_at = None,
     t_return_evidence = None, t_return_notes = []\<rparr>"

text \<open>A box 4 with a box 5 in it, whose parent it is in turn, lent out; and requests as before.\<close>

definition sample_desk :: db where
  "sample_desk = sample_lending\<lparr>
     products := [sample_product\<lparr>p_available := 5, p_issued := 2\<rparr>],
     boxes := [\<lparr>b_id = 4, b_makerspace = 1, b_parent = Some 5, b_code = ''B4'', b_label = ''bin'', b_is_active = True\<rparr>,
       \<lparr>b_id = 5, b_makerspace = 1, b_parent = Some 4, b_code = ''B5'', b_label = ''cup'', b_is_active = True\<rparr>,
       \<lparr>b_id = 7, b_makerspace = 1, b_parent = None, b_code = ''B7'', b_label = ''rack'', b_is_active = True\<rparr>],
     loans := [sample_loan],
     requests := [sample_request 5 Accepted, sample_request 6 PendingApproval, sample_request 7 Issued, sample_request 8 Issued],
     items := [(new_item 51 5 (1, 2))\<lparr>i_accepted := 2\<rparr>, new_item 61 6 (1, 3),
       (new_item 71 7 (1, 1))\<lparr>i_accepted := 1, i_issued := 1\<rparr>,
       (new_item 81 8 (1, 1))\<lparr>i_accepted := 1, i_issued := 1\<rparr>]\<rparr>"

lemmas sample_desk_defs = sample_desk_def sample_loan_def sample_desk_env_def sample_lending_defs

lemma sample_desk_requests:
  "request_of 5 sample_desk = Some (sample_request 5 Accepted)"
  "request_of 6 sample_desk = Some (sample_request 6 PendingApproval)"
  "request_of 7 sample_desk = Some (sample_request 7 Issued)"
  "request_of 8 sample_desk = Some (sample_request 8 Issued)"
  by (simp_all add: sample_desk_defs request_of_def row_get_Cons)

lemma sample_desk_ok: "desk_ok sample_desk"
proof -
  have "ledger_ok sample_desk"
    by (simp add: sample_desk_defs ledger_ok_def tables_ok_def stock_ok_def items_ok_def unique_keys_def
        product_ok_def product_constraints_def product_in_range_def bucket_sum_def int32_max_def
        item_in_range_def item_constraints_def request_of_def row_get_Cons untouched_def remaining_quantity_def)
  moreover have "open_loans sample_desk = {sample_loan}" by (auto simp: open_loans_def sample_desk_defs)
  moreover have "\<not> holds_box sample_desk i c" for i c
    by (auto simp: holds_box_def sample_desk_defs request_of_def row_get_Cons split: if_splits)
  moreover have "loan_backed sample_desk sample_loan"
    by (simp add: loan_backed_def sample_desk_defs request_of_def row_get_Cons on_loan_def box_of_def)
  moreover have "unique_keys b_id (boxes sample_desk)" "unique_keys t_id (loans sample_desk)"
    by (simp_all add: sample_desk_def unique_keys_def)
  ultimately show ?thesis by (simp add: desk_ok_def custody_ok_def inj_on_def)
qed

lemma sample_desk_covered: "covered sample_desk"
  by (simp add: sample_desk_defs covered_def reserved_surplus_def issued_surplus_def demand_def
      reserved_of_def issued_of_def product_of_def row_get_Cons item_request_status_def
      reserved_by_def issued_by_def remaining_quantity_def split: option.split)

section \<open>The ledger\<close>

text \<open>
  C1. In whatever order requests are submitted, accepted, rejected, cancelled, given a box or a
  return date, issued and returned, and tools are checked out by scanning, handed out by staff and
  brought back, the refused operations rolled back: the quantities of every item stay consistent
  with the status of its request, every open loan keeps its request and its container, and for every
  product the units reserved and issued change exactly as the requests' claims on them do.
\<close>

theorem desk_keeps_ledger:
  assumes "desk_ok s"
  shows "desk_ok (fold (attempt (desk_step env)) cs s) \<and> same_surplus s (fold (attempt (desk_step env)) cs s)"
  using desk.run_inv [OF assms] desk.run_rel [OF assms] by blast

theorem desk_keeps_ledger_witness:
  "desk_ok sample_desk \<and>
   same_surplus sample_desk (fold (attempt (desk_step sample_desk_env))
     [Reviewed (Accept 9 6 None), Loan (ReturnTool 1 sample_borrower ''P'' sample_photo None ''ok'' None)] sample_desk)"
  using desk_keeps_ledger [OF sample_desk_ok] sample_desk_ok by blast

text \<open>
  C2. No operation deletes a request, every request only moves along the status graph (approval,
  then handover, then return, with rejection before the first and cancellation before the
  second), and a rejected, cancelled, returned or closed request never changes status again.
\<close>

theorem request_follows_graph:
  assumes "desk_ok s" and "request_of rid s = Some r"
  shows "\<exists>r'. request_of rid (fold (attempt (desk_step env)) cs s) = Some r' \<and>
    transition\<^sup>*\<^sup>* (r_status r) (r_status r') \<and>
    (r_status r \<in> {Rejected, Cancelled, Returned, ClosedWithIssue} \<longrightarrow> r_status r' = r_status r)"
  using desk_status.run_rel [OF assms(1)] assms(2) closed_stays unfolding follows_graph_def by meson

theorem request_follows_graph_witness:
  "\<exists>r'. request_of 6 (fold (attempt (desk_step sample_desk_env))
      [Reviewed (Accept 9 6 None), Reviewed (Cancel (Some 9) 5 1 (Some ''late''))] sample_desk) = Some r' \<and>
    transition\<^sup>*\<^sup>* PendingApproval (r_status r')"
  using request_follows_graph [OF sample_desk_ok sample_desk_requests(2), of sample_desk_env
      "[Reviewed (Accept 9 6 None), Reviewed (Cancel (Some 9) 5 1 (Some ''late''))]"] by auto

text \<open>
  C3. What was promised can be handed over: after any run from a state whose stock covers the
  requests, an accepted request on existing products always gets its stock: moving the accepted
  units, less those validated as broken, from reserved to issued raises no error.
\<close>

theorem accepted_request_issuable:
  assumes "desk_ok s" and "covered s" and "t = fold (attempt (desk_step env)) cs s"
    and "request_of rid t = Some r" and "r_status r = Accepted" and "products_exist rid t"
    and "rs = [] \<or> validate_broken_rejects rid rs t = Inr ()"
  shows "\<exists>u. issue_items rid rs (t\<lparr>in_atomic := True\<rparr>) = Inr u"
proof -
  let ?t = "t\<lparr>in_atomic := True\<rparr>"
  have ok: "ledger_ok t" and cov: "covered t"
    using desk.run_inv [OF assms(1)] same_surplus_covered [OF desk.run_rel [OF assms(1)] assms(2)]
    by (simp_all add: assms(3) desk_ok_def)
  then have ok': "ledger_ok ?t" "covered ?t"
    using ledger_ok_core [of ?t t] same_surplus_covered [OF same_surplus_core [of ?t t]] by simp_all
  have fits: "fst (reject_of rs (i_id i)) \<le> i_accepted i" if "i \<in> set (request_items rid ?t)" for i
    using assms(7)
  proof
    assume "rs = []"
    then show ?thesis using ledger_item(3) [OF ok' (1), of rid r i] assms(4) that
      by (simp add: reject_of_def item_constraints_def)
  next
    assume "validate_broken_rejects rid rs t = Inr ()"
    then show ?thesis using validated_rejects_fit [of rid rs t i] ok that
      by (simp add: ledger_ok_def request_items_def)
  qed
  show ?thesis
    by (rule accepted_items_issue [OF ok' _ _ assms(5) _ fits])
      (use assms(4,6) in \<open>simp_all add: products_exist_def request_items_def product_of_def\<close>)
qed

theorem accepted_request_issuable_witness:
  "\<exists>u. issue_items 5 [] (sample_desk\<lparr>in_atomic := True\<rparr>) = Inr u"
  by (rule accepted_request_issuable [OF sample_desk_ok sample_desk_covered, of _ sample_desk_env "[]" _ "sample_request 5 Accepted"])
    (simp_all add: sample_desk_defs request_of_def row_get_Cons products_exist_def request_items_def product_of_def)

text \<open>
  C4. What was handed out can come back: after any run from a state whose stock covers the
  requests, a return whose resolutions the validation accepts (no unit returned twice, none that
  is not out) is always booked into the stock.
\<close>

theorem issued_units_returnable:
  assumes "desk_ok s" and "covered s" and "t = fold (attempt (desk_step env)) cs s"
    and "request_of rid t = Some r" and "on_loan r" and "products_exist rid t"
    and "return_body_valid xs" and "build_resolutions rid xs t = Inr ys"
  shows "\<exists>u. return_items_stock ys (t\<lparr>in_atomic := True\<rparr>) = Inr u"
proof -
  let ?t = "t\<lparr>in_atomic := True\<rparr>"
  have ok: "ledger_ok t" and cov: "covered t"
    using desk.run_inv [OF assms(1)] same_surplus_covered [OF desk.run_rel [OF assms(1)] assms(2)]
    by (simp_all add: assms(3) desk_ok_def)
  then have ok': "ledger_ok ?t" "covered ?t"
    using ledger_ok_core [of ?t t] same_surplus_covered [OF same_surplus_core [of ?t t]] by simp_all
  have "resolutions_fit rid ys t"
    using build_resolutions_fit [OF assms(8)] assms(7) by (simp add: return_body_valid_def)
  then have "resolutions_fit rid ys ?t" by (simp add: resolutions_fit_def request_items_def)
  then show ?thesis
    by (intro fitted_resolutions_return [OF ok' _ _ assms(5)])
      (use assms(4,6) in \<open>simp_all add: products_exist_def request_items_def product_of_def\<close>)
qed

definition sample_resolution :: resolution where
  "sample_resolution = \<lparr>x_item = 71, x_returned = 0, x_damaged = 1, x_missing = 0, x_assets = []\<rparr>"

theorem issued_units_returnable_witness:
  "\<exists>u. return_items_stock [sample_resolution] (sample_desk\<lparr>in_atomic := True\<rparr>) = Inr u"
proof (rule issued_units_returnable [OF sample_desk_ok sample_desk_covered _ sample_desk_requests(3)])
  show "build_resolutions 7 [sample_resolution] sample_desk = Inr [sample_resolution]"
    by (simp add: sample_desk_defs sample_resolution_def build_resolutions_def build_resolution_def
        request_items_def get_product_def row_get_Cons remaining_quantity_def resolution_quantity_def)
  show "sample_desk = fold (attempt (desk_step sample_desk_env)) [] sample_desk" by simp
qed (simp_all add: on_loan_def sample_resolution_def return_body_valid_def resolution_nonneg_def
      resolution_nonempty_def sample_desk_defs products_exist_def request_items_def product_of_def row_get_Cons)

text \<open>
  C5. What a borrower has checked out can come back: after any run from a state whose stock covers the
  requests, a public return whose ledger check passes always succeeds. It moves exactly the issued units
  of the request's items from issued to available in each product row, changes nothing else in any
  product row, and books every unit of every item of the request, and of no other, as returned.
\<close>

theorem loaned_tools_returnable:
  assumes "desk_ok s" and "covered s" and "t = fold (attempt (desk_step env)) cs s"
    and "require_public_return_ledger l t = Inr r" and "products_exist (r_id r) t"
  shows "\<exists>u. return_all_items (r_id r) (t\<lparr>in_atomic := True\<rparr>) = Inr u \<and> requests u = requests t \<and>
    items u = map (\<lambda>i. if i_request i = r_id r then i\<lparr>i_returned := i_issued i\<rparr> else i) (items t) \<and>
    (\<forall>pid. product_of pid u = map_option (\<lambda>p.
       let n = sum_list (map (\<lambda>i. if i_product i = pid then i_issued i else 0) (request_items (r_id r) t))
       in p\<lparr>p_issued := p_issued p - n, p_available := p_available p + n\<rparr>) (product_of pid t))"
proof -
  let ?t = "t\<lparr>in_atomic := True\<rparr>" and ?rid = "r_id r"
  have "ledger_ok t" "covered t"
    using desk.run_inv [OF assms(1)] same_surplus_covered [OF desk.run_rel [OF assms(1)] assms(2)]
    by (simp_all add: assms(3) desk_ok_def)
  then have ok: "ledger_ok ?t" "covered ?t" and tab: "tables_ok ?t"
    using ledger_ok_core [of ?t t] same_surplus_covered [OF same_surplus_core [of ?t t]] by (simp_all add: ledger_ok_def)
  have r: "request_of ?rid ?t = Some r" "on_loan r" and out: "\<forall>i \<in> set (request_items ?rid ?t). item_fully_out i"
    using public_ledger_Inr [OF assms(4)] request_of_id [of "t_request l" t r] by (simp_all add: on_loan_def request_items_def)
  note fit = full_return_fits [OF tab out]
  have "products_exist ?rid ?t" using assms(5) by (simp add: products_exist_def request_items_def product_of_def)
  from fitted_resolutions_return [OF ok _ r this fit] obtain u
    where u: "return_items_stock (full_return ?rid ?t) ?t = Inr u" by auto
  then have all: "return_all_items ?rid ?t = Inr u" using return_all_items_stock [OF tab, of ?rid] by simp
  have "items u = map (\<lambda>i. if i_request i = ?rid then i\<lparr>i_returned := i_issued i\<rparr> else i) (items t)"
    using return_items_step(3) [OF u tab fit] full_returned_item [OF tab out]
    by (auto simp: request_items_def)
  moreover have "requests u = requests t" using return_items_step(1) [OF u tab fit] by simp
  moreover have "product_of pid u = map_option (shelved_row
      (sum_list (map (\<lambda>i. if i_product i = pid then i_issued i else 0) (request_items ?rid t)))) (product_of pid t)" for pid
    using return_all_items_rows [OF all out, of pid] by (simp add: request_items_def)
  ultimately show ?thesis using all by (intro exI [of _ u]) (simp add: shelved_row_def [abs_def] Let_def)
qed

theorem loaned_tools_returnable_witness:
  "\<exists>u. return_all_items 8 (sample_desk\<lparr>in_atomic := True\<rparr>) = Inr u \<and>
    product_of 1 u = Some (sample_product\<lparr>p_available := 6, p_issued := 1\<rparr>) \<and>
    item_of 81 u = Some ((new_item 81 8 (1, 1))\<lparr>i_accepted := 1, i_issued := 1, i_returned := 1\<rparr>)"
proof -
  have "require_public_return_ledger sample_loan sample_desk = Inr (sample_request 8 Issued)"
    by (simp add: require_public_return_ledger_def locked_request_def request_of_def row_get_Cons sample_desk_defs
        request_items_def item_fully_out_def)
  moreover have f: "r_id (sample_request 8 Issued) = 8" "products_exist 8 sample_desk"
    "product_of 1 sample_desk = Some (sample_product\<lparr>p_available := 5, p_issued := 2\<rparr>)"
    "request_items 8 sample_desk = [(new_item 81 8 (1, 1))\<lparr>i_accepted := 1, i_issued := 1\<rparr>]"
    by (simp_all add: sample_desk_defs products_exist_def request_items_def product_of_def row_get_Cons)
  ultimately obtain u where u: "return_all_items 8 (sample_desk\<lparr>in_atomic := True\<rparr>) = Inr u"
    "items u = map (\<lambda>i. if i_request i = 8 then i\<lparr>i_returned := i_issued i\<rparr> else i) (items sample_desk)"
    "\<forall>pid. product_of pid u = map_option (\<lambda>p.
       let n = sum_list (map (\<lambda>i. if i_product i = pid then i_issued i else 0) (request_items 8 sample_desk))
       in p\<lparr>p_issued := p_issued p - n, p_available := p_available p + n\<rparr>) (product_of pid sample_desk)"
    using loaned_tools_returnable [OF sample_desk_ok sample_desk_covered _ _, of sample_desk sample_desk_env "[]" sample_loan "sample_request 8 Issued"]
    by auto
  have "item_of 81 u = Some ((new_item 81 8 (1, 1))\<lparr>i_accepted := 1, i_issued := 1, i_returned := 1\<rparr>)"
    by (simp add: item_of_def u(2)) (simp add: sample_desk_defs row_get_Cons)
  moreover have "product_of 1 u = Some (sample_product\<lparr>p_available := 6, p_issued := 1\<rparr>)"
    using u(3) f by (simp add: new_item_def)
  ultimately show ?thesis using u(1) by blast
qed

section \<open>Containers\<close>

text \<open>How many open loans and reviewed requests have a container out.\<close>

definition times_out :: "nat \<Rightarrow> db \<Rightarrow> nat" where
  "times_out c s = length (filter (\<lambda>l. t_checked_out l \<and> t_container l = Some c) (loans s)) +
     length (filter (\<lambda>r. on_loan r \<and> r_assigned_box r = Some c) (requests s))"

lemma at_most_one:
  assumes "distinct xs" and "\<And>x y. x \<in> set xs \<Longrightarrow> y \<in> set xs \<Longrightarrow> x = y"
  shows "length xs \<le> 1"
proof (cases xs)
  case (Cons x ys)
  have "ys = []"
  proof (cases ys)
    case (Cons y zs)
    with assms(2) [of x y] \<open>xs = x # ys\<close> assms(1) show ?thesis by simp
  qed simp
  then show ?thesis by (simp add: Cons)
qed simp

lemma desk_ok_times_out:
  assumes "desk_ok s"
  shows "times_out c s \<le> 1"
proof -
  note ok = assms [unfolded desk_ok_def ledger_ok_def custody_ok_def]
  let ?ls = "filter (\<lambda>l. t_checked_out l \<and> t_container l = Some c) (loans s)"
  let ?rs = "filter (\<lambda>r. on_loan r \<and> r_assigned_box r = Some c) (requests s)"
  have holds: "holds_box s (r_id r) c \<and> request_of (r_id r) s = Some r" if "r \<in> set ?rs" for r
  proof -
    have "unique_keys r_id (requests s)" using ok by blast
    with that have "request_of (r_id r) s = Some r" by (simp add: request_of_def row_get_unique)
    with that show ?thesis by (simp add: holds_box_def)
  qed
  have "length ?ls \<le> 1"
  proof (rule at_most_one)
    show "distinct ?ls" using ok by (simp add: unique_keys_def distinct_map)
    have inj: "inj_on t_container {l \<in> open_loans s. t_container l \<noteq> None}" using ok by blast
    show "l = l'" if "l \<in> set ?ls" "l' \<in> set ?ls" for l l'
      using that by (intro inj_onD [OF inj]) (auto simp: open_loans_def)
  qed
  moreover have "length ?rs \<le> 1"
  proof (rule at_most_one)
    show "distinct ?rs" using ok by (simp add: unique_keys_def distinct_map)
    show "r = r'" if "r \<in> set ?rs" "r' \<in> set ?rs" for r r'
      using holds [OF that(1)] holds [OF that(2)] ok by (metis option.inject)
  qed
  moreover have "?ls = [] \<or> ?rs = []"
  proof (rule ccontr)
    assume "\<not> (?ls = [] \<or> ?rs = [])"
    then obtain l r where "l \<in> set ?ls" "r \<in> set ?rs" by (metis list.set_intros(1) neq_Nil_conv)
    with holds [of r] ok show False by (auto simp: open_loans_def)
  qed
  ultimately show ?thesis by (auto simp: times_out_def)
qed

text \<open>
  C6. A container is never out twice: whatever the order of the operations, no container is at once on
  two open tool loans, on two issued requests, or on a loan and a request.
\<close>

theorem container_out_once:
  assumes "desk_ok s"
  shows "times_out c (fold (attempt (desk_step env)) cs s) \<le> 1"
  using desk.run_inv [OF assms] by (rule desk_ok_times_out)

theorem container_out_once_witness:
  "times_out 4 (fold (attempt (desk_step sample_desk_env)) [Reviewed (AssignBox 9 5 ''B4'')] sample_desk) \<le> 1"
  by (rule container_out_once [OF sample_desk_ok])

section \<open>Boxes inside boxes\<close>

inductive inside :: "nat \<Rightarrow> box list \<Rightarrow> nat \<Rightarrow> nat \<Rightarrow> bool" for ms bs root where
  itself: "inside ms bs root root"
| nested: "inside ms bs root p \<Longrightarrow> b \<in> set bs \<Longrightarrow> b_parent b = Some p \<Longrightarrow> b_makerspace b = ms \<Longrightarrow> inside ms bs root (b_id b)"

lemma child_boxes_set:
  "c \<in> set (child_boxes ms bs ids frontier) \<longleftrightarrow>
     (\<exists>b \<in> set bs. b_id b = c \<and> c \<notin> set ids \<and> b_makerspace b = ms \<and> (\<exists>p \<in> set frontier. b_parent b = Some p))"
  by (auto simp: child_boxes_def)

lemma subtree_walk_inside:
  assumes "\<forall>c \<in> set ids. inside ms bs root c" and "set frontier \<subseteq> set ids" and "root \<in> set ids"
    and "\<forall>b \<in> set bs. b_makerspace b = ms \<longrightarrow> (\<exists>p \<in> set ids - set frontier. b_parent b = Some p) \<longrightarrow> b_id b \<in> set ids"
  shows "set (subtree_walk ms bs ids frontier) = {c. inside ms bs root c}"
  using assms
proof (induction ms bs ids frontier rule: subtree_walk.induct)
  case (1 ms bs ids frontier)
  let ?cs = "child_boxes ms bs ids frontier"
  show ?case
  proof (cases "frontier = [] \<or> ?cs = []")
    case True
    then have none: "\<not> (\<exists>c. c \<in> set ?cs)" by (auto simp: child_boxes_def filter_empty_conv)
    have closed: "b_id b \<in> set ids" if "b \<in> set bs" "b_makerspace b = ms" "b_parent b = Some p" "p \<in> set ids" for b p
    proof (cases "p \<in> set frontier")
      case True
      with none that show ?thesis by (auto simp: child_boxes_set)
    next
      case False
      with that "1.prems"(4) show ?thesis by blast
    qed
    have "c \<in> set ids" if "inside ms bs root c" for c
      using that by induction (use "1.prems"(3) closed in auto)
    then show ?thesis using True "1.prems"(1) by (subst subtree_walk.simps) auto
  next
    case False
    have "\<forall>c \<in> set (ids @ ?cs). inside ms bs root c"
    proof
      fix c
      assume "c \<in> set (ids @ ?cs)"
      then consider "c \<in> set ids" | b p where "b \<in> set bs" "b_id b = c" "b_makerspace b = ms" "p \<in> set frontier" "b_parent b = Some p"
        unfolding set_append Un_iff child_boxes_set by blast
      then show "inside ms bs root c"
      proof cases
        case 1
        with "1.prems"(1) show ?thesis by blast
      next
        case (2 b p)
        with "1.prems"(1,2) have "inside ms bs root p" by blast
        from nested [OF this 2(1,5,3)] 2(2) show ?thesis by simp
      qed
    qed
    moreover have "\<forall>b \<in> set bs. b_makerspace b = ms \<longrightarrow>
        (\<exists>p \<in> set (ids @ ?cs) - set ?cs. b_parent b = Some p) \<longrightarrow> b_id b \<in> set (ids @ ?cs)"
      using "1.prems"(4) by (auto simp: child_boxes_set)
    ultimately have "set (subtree_walk ms bs (ids @ ?cs) ?cs) = {c. inside ms bs root c}"
      using "1.IH" False "1.prems"(3) by simp
    then show ?thesis using False by (subst subtree_walk.simps) simp
  qed
qed

lemma subtree_walk_distinct:
  assumes "distinct ids" and "unique_keys b_id bs"
  shows "distinct (subtree_walk ms bs ids frontier)"
  using assms
proof (induction ms bs ids frontier rule: subtree_walk.induct)
  case (1 ms bs ids frontier)
  let ?cs = "child_boxes ms bs ids frontier"
  have "distinct ?cs" using "1.prems"(2) by (auto simp: child_boxes_def unique_keys_def distinct_map intro: inj_on_subset)
  moreover have "set ids \<inter> set ?cs = {}" by (auto simp: child_boxes_set)
  ultimately have "distinct (ids @ ?cs)" using "1.prems"(1) by simp
  then show ?case using 1 by (subst subtree_walk.simps) simp
qed

text \<open>
  C40. The search for the boxes nested in a container ends whatever parents the boxes have, even a box
  inside itself, and finds exactly the container and the boxes of the makerspace inside it, each once.
\<close>

theorem container_search_ends:
  assumes "unique_keys b_id (boxes s)"
  shows "set (container_subtree_ids ms bid s) = {c. inside ms (boxes s) bid c} \<and>
    distinct (container_subtree_ids ms bid s)"
  using subtree_walk_inside [of "[bid]" ms "boxes s" bid "[bid]"] subtree_walk_distinct [of "[bid]" "boxes s" ms "[bid]"] assms
  by (simp add: container_subtree_ids_def itself)

theorem container_search_ends_witness:
  "{c. inside 1 (boxes sample_desk) 4 c} = {4, 5}"
proof -
  have "container_subtree_ids 1 4 sample_desk = [4, 5]"
    by (simp add: container_subtree_ids_def sample_desk_def subtree_walk.simps child_boxes_def)
  with container_search_ends [of sample_desk 1 4] show ?thesis
    using sample_desk_ok by (auto simp: desk_ok_def custody_ok_def)
qed

end
