(* ===== verification/Forms_Schema.thy ===== *)
theory Forms_Schema
  imports Prelude Text_Ops "HOL-Library.Log_Nat"
begin

text \<open>
  Custom forms (\<open>forms_schema/validation.py\<close>): the schema a space or an event asks with, and the
  answers to it. Both arrive as JSON. A JSON object is the list of its entries, keys distinct. A
  float is the pair \<open>(m, e)\<close> of a double \<open>m * 2 ^ e\<close> (\<open>None\<close> for an infinity or a NaN, and no
  negative zero); the conversion of a decimal literal to it is the correctly rounded one of
  Python.
\<close>

section \<open>JSON values\<close>

datatype json =
    JNull | JBool bool | JInt int | JFloat "(int \<times> int) option" | JStr string
  | JList "json list" | JObj "(string \<times> json) list"

section \<open>The schema\<close>

datatype question_type =
  ShortText | Paragraph | Number | Date | SingleChoice | MultiChoice | Dropdown | YesNo

fun type_name :: "question_type \<Rightarrow> string" where
  "type_name ShortText = ''short_text''"
| "type_name Paragraph = ''paragraph''"
| "type_name Number = ''number''"
| "type_name Date = ''date''"
| "type_name SingleChoice = ''single_choice''"
| "type_name MultiChoice = ''multi_choice''"
| "type_name Dropdown = ''dropdown''"
| "type_name YesNo = ''yes_no''"

definition allowed_question_types :: "question_type list" where
  "allowed_question_types =
     [ShortText, Paragraph, Number, Date, SingleChoice, MultiChoice, Dropdown, YesNo]"

definition question_type_of :: "json \<Rightarrow> question_type option" where
  "question_type_of v =
     (case v of JStr t \<Rightarrow> find (\<lambda>ty. type_name ty = t) allowed_question_types | _ \<Rightarrow> None)"

definition choice_question :: "question_type \<Rightarrow> bool" where
  "choice_question t \<longleftrightarrow> t \<in> {SingleChoice, MultiChoice, Dropdown}"

definition question_keys :: "string list" where
  "question_keys = [''id'', ''label'', ''type'', ''options'', ''required'']"

definition question_id_char :: "char \<Rightarrow> bool" where
  "question_id_char c \<longleftrightarrow> is_upper c \<or> is_lower c \<or> is_digit c \<or> c = CHR ''_'' \<or> c = CHR ''-''"

definition valid_question_id :: "string \<Rightarrow> bool" where
  "valid_question_id s \<longleftrightarrow> 1 \<le> length s \<and> length s \<le> 64 \<and> list_all question_id_char s"

record question =
  k_id :: string
  k_label :: string
  k_type :: question_type
  k_options :: "string list"
  k_required :: bool

text \<open>\<open>QuestionError i f\<close>: question \<open>i\<close> (from 0) is refused for its field \<open>f\<close>.\<close>

datatype schema_error = SchemaNotArray | SchemaTooLong | QuestionError nat string

fun canonical_options :: "nat \<Rightarrow> string list \<Rightarrow> json list \<Rightarrow> schema_error + string list" where
  "canonical_options index acc [] = Inr acc"
| "canonical_options index acc (opt # opts) =
     (case opt of
        JStr s \<Rightarrow>
          if strip s = [] \<or> 200 < length (strip s) then Inl (QuestionError index ''options'')
          else if strip s \<in> set acc then Inl (QuestionError index ''options'')
          else canonical_options index (acc @ [strip s]) opts
      | _ \<Rightarrow> Inl (QuestionError index ''options''))"

definition question_options :: "nat \<Rightarrow> question_type \<Rightarrow> json \<Rightarrow> schema_error + string list" where
  "question_options index ty v =
     (case v of
        JList opts \<Rightarrow>
          if choice_question ty
          then if \<not> (1 \<le> length opts \<and> length opts \<le> 50)
               then Inl (QuestionError index ''options'') else canonical_options index [] opts
          else if opts \<noteq> [] then Inl (QuestionError index ''options'') else Inr []
      | _ \<Rightarrow> Inl (QuestionError index ''options''))"

definition question_label :: "nat \<Rightarrow> json \<Rightarrow> schema_error + string" where
  "question_label index v =
     (case v of
        JStr s \<Rightarrow> if strip s = [] \<or> 200 < length (strip s)
                  then Inl (QuestionError index ''label'') else Inr (strip s)
      | _ \<Rightarrow> Inl (QuestionError index ''label''))"

definition question_identifier :: "nat \<Rightarrow> string list \<Rightarrow> json \<Rightarrow> schema_error + string" where
  "question_identifier index seen v =
     (case v of
        JStr s \<Rightarrow> if \<not> valid_question_id s \<or> s \<in> set seen
                  then Inl (QuestionError index ''id'') else Inr s
      | _ \<Rightarrow> Inl (QuestionError index ''id''))"

definition question_required :: "nat \<Rightarrow> json \<Rightarrow> schema_error + bool" where
  "question_required index v =
     (case v of JBool b \<Rightarrow> Inr b | _ \<Rightarrow> Inl (QuestionError index ''required''))"

text \<open>\<open>question[key]\<close>, on an object that has every key.\<close>

definition field_of :: "(string \<times> json) list \<Rightarrow> string \<Rightarrow> json" where
  "field_of kvs key = the (map_of kvs key)"

definition canonical_question :: "json \<Rightarrow> nat \<Rightarrow> string list \<Rightarrow> schema_error + question" where
  "canonical_question v index seen =
     (case v of
        JObj kvs \<Rightarrow>
          if set (map fst kvs) \<noteq> set question_keys then Inl (QuestionError index ''question'')
          else try_then (question_identifier index seen (field_of kvs ''id'')) (\<lambda>qid.
               try_then (question_label index (field_of kvs ''label'')) (\<lambda>label.
               try_then (of_option (QuestionError index ''type'')
                           (question_type_of (field_of kvs ''type''))) (\<lambda>ty.
               try_then (question_required index (field_of kvs ''required'')) (\<lambda>required.
               try_then (question_options index ty (field_of kvs ''options'')) (\<lambda>options.
                 Inr \<lparr>k_id = qid, k_label = label, k_type = ty, k_options = options,
                      k_required = required\<rparr>)))))
      | _ \<Rightarrow> Inl (QuestionError index ''question''))"

fun canonical_questions ::
  "nat \<Rightarrow> string list \<Rightarrow> json list \<Rightarrow> schema_error + question list" where
  "canonical_questions index seen [] = Inr []"
| "canonical_questions index seen (v # vs) =
     try_then (canonical_question v index seen) (\<lambda>q.
     try_then (canonical_questions (Suc index) (seen @ [k_id q]) vs) (\<lambda>qs. Inr (q # qs)))"

definition validate_form_schema :: "json \<Rightarrow> schema_error + question list option" where
  "validate_form_schema v =
     (case v of
        JNull \<Rightarrow> Inr None
      | JList vs \<Rightarrow>
          if vs = [] then Inr None
          else if 50 < length vs then Inl SchemaTooLong
          else try_then (canonical_questions 0 [] vs) (\<lambda>qs. Inr (Some qs))
      | _ \<Rightarrow> Inl SchemaNotArray)"

section \<open>Numbers\<close>

text \<open>
  A decimal literal as JSON writes it, read with the regular expression of the code: an optional
  minus, an integer part without leading zeros, an optional fraction, an optional exponent.
\<close>

record decimal =
  d_negative :: bool
  d_int :: string
  d_frac :: "string option"
  d_exp :: "int option"

definition read_exponent :: "string \<Rightarrow> int option option" where
  "read_exponent s =
     (case s of
        [] \<Rightarrow> Some None
      | c # cs \<Rightarrow>
          if c \<noteq> CHR ''e'' \<and> c \<noteq> CHR ''E'' then None
          else let neg = (cs \<noteq> [] \<and> hd cs = CHR ''-'');
                   ds = (if cs \<noteq> [] \<and> (hd cs = CHR ''-'' \<or> hd cs = CHR ''+'') then tl cs else cs)
               in if ds = [] \<or> \<not> list_all is_digit ds then None
                  else Some (Some (if neg then - digits_value ds else digits_value ds)))"

definition read_fraction :: "string \<Rightarrow> (string option \<times> string) option" where
  "read_fraction s =
     (case s of
        [] \<Rightarrow> Some (None, [])
      | c # cs \<Rightarrow>
          if c \<noteq> CHR ''.'' then Some (None, c # cs)
          else if takeWhile is_digit cs = [] then None
          else Some (Some (takeWhile is_digit cs), dropWhile is_digit cs))"

definition read_number :: "string \<Rightarrow> decimal option" where
  "read_number raw =
     (let neg = (raw \<noteq> [] \<and> hd raw = CHR ''-'');
          body = (if neg then tl raw else raw);
          whole = takeWhile is_digit body
      in if whole = [] \<or> (hd whole = CHR ''0'' \<and> whole \<noteq> ''0'') then None
         else case read_fraction (dropWhile is_digit body) of
                None \<Rightarrow> None
              | Some (fraction, rest) \<Rightarrow>
                  (case read_exponent rest of
                     None \<Rightarrow> None
                   | Some ex \<Rightarrow> Some \<lparr>d_negative = neg, d_int = whole, d_frac = fraction, d_exp = ex\<rparr>))"

definition fraction_digits :: "decimal \<Rightarrow> string" where
  "fraction_digits d = (case d_frac d of None \<Rightarrow> [] | Some ds \<Rightarrow> ds)"

definition coefficient :: "decimal \<Rightarrow> int" where
  "coefficient d = digits_value (d_int d @ fraction_digits d)"

definition exponent :: "decimal \<Rightarrow> int" where
  "exponent d = (case d_exp d of None \<Rightarrow> 0 | Some e \<Rightarrow> e) - int (length (fraction_digits d))"

text \<open>The literals \<open>Decimal\<close> accepts; it raises \<open>InvalidOperation\<close> beyond its exponent range.\<close>

definition decimal_digits :: "decimal \<Rightarrow> int" where
  "decimal_digits d =
     int (max 1 (length (dropWhile (\<lambda>c. c = CHR ''0'') (d_int d @ fraction_digits d))))"

definition decimal_accepts :: "decimal \<Rightarrow> bool" where
  "decimal_accepts d \<longleftrightarrow> - 1999999999999999997 \<le> exponent d \<and>
     exponent d + decimal_digits d - 1 \<le> 999999999999999999"

text \<open>
  The double nearest to \<open>n / d\<close>, ties to even: \<open>round_exponent\<close> is the exponent of its last bit
  (at least that of the subnormal numbers), \<open>None\<close> an overflow to infinity.
\<close>

definition scaled_up :: "int \<Rightarrow> int \<Rightarrow> int" where
  "scaled_up n e = n * 2 ^ nat (- e)"

definition round_exponent :: "int \<Rightarrow> int \<Rightarrow> int" where
  "round_exponent n d =
     (let e = bitlen n - bitlen d - 53
      in max (- 1074) (if scaled_up n e < 2 ^ 53 * scaled_up d (- e) then e else e + 1))"

definition round_half_even :: "int \<Rightarrow> int \<Rightarrow> int" where
  "round_half_even n d =
     (let q = n div d; r = n mod d
      in if 2 * r < d \<or> 2 * r = d \<and> even q then q else q + 1)"

definition nearest_double :: "int \<Rightarrow> int \<Rightarrow> (int \<times> int) option" where
  "nearest_double n d =
     (if n = 0 then Some (0, 0)
      else let e = round_exponent n d;
               m = round_half_even (scaled_up n e) (scaled_up d (- e))
           in if 2 ^ 53 * 2 ^ 971 \<le> m * 2 ^ nat e then None
              else if m = 2 ^ 53 then Some (2 ^ 52, e + 1) else Some (m, e))"

definition float_of_decimal :: "decimal \<Rightarrow> (int \<times> int) option" where
  "float_of_decimal d =
     map_option (\<lambda>(m, e). (if d_negative d then - m else m, e))
       (nearest_double (coefficient d * 10 ^ nat (exponent d)) (10 ^ nat (- exponent d)))"

section \<open>The answers\<close>

datatype answer_error =
    UnknownQuestion | QuestionRequired
  | MustBeString | TooLong nat | MustBeFiniteNumber | MustBeDate | MustBeRealDate
  | MustBeChoice | MustBeChoiceArray | RepeatedChoice | MustBeConfiguredChoices | MustBeYesNo

definition canonical_number :: "json \<Rightarrow> json option" where
  "canonical_number v =
     (case v of
        JInt n \<Rightarrow> Some (JInt n)
      | JFloat f \<Rightarrow> map_option (\<lambda>x. JFloat (Some x)) f
      | JStr s \<Rightarrow>
          (case read_number (strip s) of
             None \<Rightarrow> None
           | Some d \<Rightarrow>
               if \<not> decimal_accepts d then None
               else if d_frac d = None \<and> d_exp d = None
               then Some (JInt (if d_negative d then - coefficient d else coefficient d))
               else map_option (\<lambda>x. JFloat (Some x)) (float_of_decimal d))
      | _ \<Rightarrow> None)"

definition leap_year :: "int \<Rightarrow> bool" where
  "leap_year y \<longleftrightarrow> y mod 4 = 0 \<and> (y mod 100 \<noteq> 0 \<or> y mod 400 = 0)"

definition days_in_month :: "int \<Rightarrow> int \<Rightarrow> int" where
  "days_in_month y m =
     (if m = 2 then (if leap_year y then 29 else 28)
      else if m = 4 \<or> m = 6 \<or> m = 9 \<or> m = 11 then 30 else 31)"

definition real_date :: "int \<Rightarrow> int \<Rightarrow> int \<Rightarrow> bool" where
  "real_date y m d \<longleftrightarrow> 1 \<le> y \<and> 1 \<le> m \<and> m \<le> 12 \<and> 1 \<le> d \<and> d \<le> days_in_month y m"

definition date_shape :: "string \<Rightarrow> bool" where
  "date_shape s \<longleftrightarrow> length s = 10 \<and> s ! 4 = CHR ''-'' \<and> s ! 7 = CHR ''-'' \<and>
     list_all is_digit (take 4 s) \<and> list_all is_digit (take 2 (drop 5 s)) \<and>
     list_all is_digit (drop 8 s)"

definition canonical_date :: "string \<Rightarrow> answer_error + json" where
  "canonical_date s =
     (if \<not> date_shape s then Inl MustBeDate
      else if \<not> real_date (digits_value (take 4 s)) (digits_value (take 2 (drop 5 s)))
                 (digits_value (drop 8 s)) then Inl MustBeRealDate
      else Inr (JStr s))"

fun json_strings :: "json list \<Rightarrow> string list option" where
  "json_strings [] = Some []"
| "json_strings (JStr s # vs) = map_option (\<lambda>ss. s # ss) (json_strings vs)"
| "json_strings (v # vs) = None"

definition canonical_choices :: "string list \<Rightarrow> json \<Rightarrow> answer_error + json" where
  "canonical_choices options v =
     (case v of
        JList vs \<Rightarrow>
          (case json_strings vs of
             None \<Rightarrow> Inl MustBeChoiceArray
           | Some items \<Rightarrow>
               if \<not> distinct items then Inl RepeatedChoice
               else if \<not> list_all (\<lambda>i. i \<in> set options) items then Inl MustBeConfiguredChoices
               else Inr (JList (map JStr (filter (\<lambda>opt. opt \<in> set items) options))))
      | _ \<Rightarrow> Inl MustBeChoiceArray)"

definition canonical_yes_no :: "json \<Rightarrow> answer_error + json" where
  "canonical_yes_no v =
     (case v of
        JBool b \<Rightarrow> Inr (JBool b)
      | JStr s \<Rightarrow>
          (let w = lowercase (strip s)
           in if w = ''yes'' \<or> w = ''true'' then Inr (JBool True)
              else if w = ''no'' \<or> w = ''false'' then Inr (JBool False)
              else Inl MustBeYesNo)
      | _ \<Rightarrow> Inl MustBeYesNo)"

definition canonical_text :: "nat \<Rightarrow> json \<Rightarrow> answer_error + json" where
  "canonical_text limit v =
     (case v of
        JStr s \<Rightarrow> if limit < length (strip s) then Inl (TooLong limit) else Inr (JStr (strip s))
      | _ \<Rightarrow> Inl MustBeString)"

definition canonical_answer :: "question \<Rightarrow> json \<Rightarrow> answer_error + json" where
  "canonical_answer q v =
     (case k_type q of
        ShortText \<Rightarrow> canonical_text 500 v
      | Paragraph \<Rightarrow> canonical_text 5000 v
      | Number \<Rightarrow> of_option MustBeFiniteNumber (canonical_number v)
      | Date \<Rightarrow> (case v of JStr s \<Rightarrow> canonical_date s | _ \<Rightarrow> Inl MustBeDate)
      | SingleChoice \<Rightarrow>
          (case v of JStr s \<Rightarrow> if s \<in> set (k_options q) then Inr v else Inl MustBeChoice
           | _ \<Rightarrow> Inl MustBeChoice)
      | Dropdown \<Rightarrow>
          (case v of JStr s \<Rightarrow> if s \<in> set (k_options q) then Inr v else Inl MustBeChoice
           | _ \<Rightarrow> Inl MustBeChoice)
      | MultiChoice \<Rightarrow> canonical_choices (k_options q) v
      | YesNo \<Rightarrow> canonical_yes_no v)"

text \<open>\<open>None\<close> is the value of a missing key.\<close>

definition is_unanswered :: "json option \<Rightarrow> bool" where
  "is_unanswered v =
     (case v of
        None \<Rightarrow> True
      | Some JNull \<Rightarrow> True
      | Some (JStr s) \<Rightarrow> strip s = []
      | Some (JList vs) \<Rightarrow> vs = []
      | _ \<Rightarrow> False)"

record answer =
  n_id :: string
  n_label :: string
  n_type :: question_type
  n_value :: json

text \<open>What one question makes of the raw answers: nothing, an error, or an answer.\<close>

definition answer_question ::
  "(string \<times> json) list \<Rightarrow> question \<Rightarrow> answer_error + answer option" where
  "answer_question raw q =
     (let v = map_of raw (k_id q)
      in if is_unanswered v
         then (if k_required q then Inl QuestionRequired else Inr None)
         else try_then (canonical_answer q (the v)) (\<lambda>value.
           Inr (Some \<lparr>n_id = k_id q, n_label = k_label q, n_type = k_type q, n_value = value\<rparr>)))"

datatype form_error =
  BadSchema schema_error | AnswersNotObject | BadAnswers "(string \<times> answer_error) list"

definition answer_errors ::
  "question list \<Rightarrow> (string \<times> json) list \<Rightarrow> (string \<times> answer_error) list" where
  "answer_errors questions raw =
     map (\<lambda>e. (fst e, UnknownQuestion)) (filter (\<lambda>e. fst e \<notin> set (map k_id questions)) raw) @
     concat (map (\<lambda>q. case answer_question raw q of Inl e \<Rightarrow> [(k_id q, e)] | Inr _ \<Rightarrow> []) questions)"

definition form_answers :: "question list \<Rightarrow> (string \<times> json) list \<Rightarrow> answer list" where
  "form_answers questions raw =
     concat (map (\<lambda>q. case answer_question raw q of Inr (Some a) \<Rightarrow> [a] | _ \<Rightarrow> []) questions)"

definition validate_answers :: "json \<Rightarrow> json \<Rightarrow> form_error + answer list option" where
  "validate_answers schema raw_answers =
     (case validate_form_schema schema of
        Inl e \<Rightarrow> Inl (BadSchema e)
      | Inr canonical \<Rightarrow>
          (let questions = (case canonical of None \<Rightarrow> [] | Some qs \<Rightarrow> qs)
           in case (case raw_answers of JNull \<Rightarrow> JObj [] | v \<Rightarrow> v) of
                JObj raw \<Rightarrow>
                  if answer_errors questions raw \<noteq> []
                  then Inl (BadAnswers (answer_errors questions raw))
                  else if form_answers questions raw = [] then Inr None
                  else Inr (Some (form_answers questions raw))
              | _ \<Rightarrow> Inl AnswersNotObject))"

end
