(* ===== verification/Forms_Properties.thy ===== *)
theory Forms_Properties
  imports Forms_Schema "HOL-Library.Sublist"
begin

text \<open>
  What the validation of custom forms guarantees: a canonical schema is well-formed and is its
  own canonical form, the stored snapshot fits the questions and can be submitted again
  unchanged, and a number given as text is stored as the double nearest to it.
\<close>

section \<open>Canonical schemas\<close>

definition option_ok :: "string \<Rightarrow> bool" where
  "option_ok s \<longleftrightarrow> strip s = s \<and> s \<noteq> [] \<and> length s \<le> 200"

definition question_ok :: "question \<Rightarrow> bool" where
  "question_ok q \<longleftrightarrow> valid_question_id (k_id q) \<and> option_ok (k_label q) \<and>
     (if choice_question (k_type q)
      then 1 \<le> length (k_options q) \<and> length (k_options q) \<le> 50 \<and> distinct (k_options q) \<and>
           list_all option_ok (k_options q)
      else k_options q = [])"

definition schema_ok :: "question list \<Rightarrow> bool" where
  "schema_ok qs \<longleftrightarrow> 1 \<le> length qs \<and> length qs \<le> 50 \<and> distinct (map k_id qs) \<and> list_all question_ok qs"

text \<open>A canonical question as the JSON the code returns.\<close>

definition question_json :: "question \<Rightarrow> json" where
  "question_json q = JObj [(''id'', JStr (k_id q)), (''label'', JStr (k_label q)),
     (''type'', JStr (type_name (k_type q))), (''options'', JList (map JStr (k_options q))),
     (''required'', JBool (k_required q))]"

lemma canonical_options_ok:
  assumes "canonical_options i acc opts = Inr out" and "distinct acc" and "list_all option_ok acc"
  shows "distinct out \<and> list_all option_ok out \<and> length out = length acc + length opts"
  using assms
proof (induction i acc opts rule: canonical_options.induct)
  case (2 i acc opt opts)
  then show ?case by (auto simp: option_ok_def split: json.splits if_splits)
qed simp

lemma canonical_options_again:
  "distinct (acc @ opts) \<Longrightarrow> list_all option_ok opts \<Longrightarrow>
    canonical_options i acc (map JStr opts) = Inr (acc @ opts)"
  by (induction opts arbitrary: acc) (auto simp: option_ok_def)

lemma question_type_of_name: "question_type_of (JStr (type_name t)) = Some t"
  by (cases t) (simp_all add: question_type_of_def allowed_question_types_def)

lemma question_options_ok:
  assumes "question_options i ty v = Inr out"
  shows "if choice_question ty then 1 \<le> length out \<and> length out \<le> 50 \<and> distinct out \<and> list_all option_ok out
    else out = []"
  using assms canonical_options_ok [of i "[]"]
  by (fastforce simp: question_options_def split: json.splits if_splits)

lemma question_options_again:
  "question_ok q \<Longrightarrow> question_options i (k_type q) (JList (map JStr (k_options q))) = Inr (k_options q)"
  using canonical_options_again [of "[]" "k_options q"]
  by (auto simp: question_options_def question_ok_def split: if_splits)

lemma question_identifier_ok: "question_identifier i seen v = Inr s \<Longrightarrow> valid_question_id s \<and> s \<notin> set seen"
  by (auto simp: question_identifier_def split: json.splits if_splits)

lemma question_label_ok: "question_label i v = Inr s \<Longrightarrow> option_ok s"
  by (auto simp: question_label_def option_ok_def split: json.splits if_splits)

lemma canonical_question_ok:
  assumes "canonical_question v i seen = Inr q"
  shows "question_ok q \<and> k_id q \<notin> set seen"
proof -
  from assms obtain vi vl vo where q: "question_identifier i seen vi = Inr (k_id q)"
    "question_label i vl = Inr (k_label q)" "question_options i (k_type q) vo = Inr (k_options q)"
    by (cases v) (auto simp: canonical_question_def ok_iff split: if_splits)
  then show ?thesis
    using question_identifier_ok [OF q(1)] question_label_ok [OF q(2)] question_options_ok [OF q(3)]
    by (simp add: question_ok_def split: if_splits)
qed

lemma canonical_question_again:
  "question_ok q \<Longrightarrow> k_id q \<notin> set seen \<Longrightarrow> canonical_question (question_json q) i seen = Inr q"
  using question_options_again [of q]
  by (auto simp: canonical_question_def question_json_def question_keys_def field_of_def
      question_identifier_def question_label_def question_required_def question_type_of_name question_ok_def option_ok_def)

lemma canonical_questions_ok:
  assumes "canonical_questions i seen vs = Inr qs"
  shows "length qs = length vs \<and> distinct (map k_id qs) \<and> set (map k_id qs) \<inter> set seen = {} \<and>
    list_all question_ok qs"
  using assms
proof (induction i seen vs arbitrary: qs rule: canonical_questions.induct)
  case (2 i seen v vs)
  then show ?case by (fastforce simp: ok_iff dest: canonical_question_ok)
qed simp

lemma canonical_questions_again:
  assumes "distinct (map k_id qs)" and "set (map k_id qs) \<inter> set seen = {}" and "list_all question_ok qs"
  shows "canonical_questions i seen (map question_json qs) = Inr qs"
  using assms by (induction qs arbitrary: i seen) (auto simp: canonical_question_again)

lemma validate_form_schema_ok: "validate_form_schema v = Inr (Some qs) \<Longrightarrow> schema_ok qs"
  by (auto simp: validate_form_schema_def ok_iff schema_ok_def Suc_le_eq split: json.splits if_splits
      dest!: canonical_questions_ok)

text \<open>
  C17. A schema that is accepted comes out well-formed (at most 50 questions with distinct
  identifiers of 1 to 64 allowed characters, stripped labels and choices of at most 200
  characters, distinct choices exactly on the choice questions), and validating the canonical
  form again returns it unchanged.
\<close>

theorem form_schema_canonical:
  assumes "validate_form_schema v = Inr (Some qs)"
  shows "schema_ok qs \<and> validate_form_schema (JList (map question_json qs)) = Inr (Some qs)"
proof -
  have ok: "schema_ok qs" using assms by (rule validate_form_schema_ok)
  then have "qs \<noteq> []" "length qs \<le> 50" by (auto simp: schema_ok_def)
  with ok canonical_questions_again [of qs "[]" 0] show ?thesis
    by (simp add: validate_form_schema_def schema_ok_def)
qed

definition sample_schema :: json where
  "sample_schema = JList
     [JObj [(''id'', JStr ''tool''), (''label'', JStr '' Tool ''), (''type'', JStr ''multi_choice''),
            (''options'', JList [JStr ''saw '', JStr ''drill'']), (''required'', JBool True)],
      JObj [(''id'', JStr ''kg''), (''label'', JStr ''Weight''), (''type'', JStr ''number''),
            (''options'', JList []), (''required'', JBool False)]]"

definition sample_questions :: "question list" where
  "sample_questions =
     [\<lparr>k_id = ''tool'', k_label = ''Tool'', k_type = MultiChoice, k_options = [''saw'', ''drill''], k_required = True\<rparr>,
      \<lparr>k_id = ''kg'', k_label = ''Weight'', k_type = Number, k_options = [], k_required = False\<rparr>]"

lemma sample_schema: "validate_form_schema sample_schema = Inr (Some sample_questions)"
  by code_simp

theorem form_schema_canonical_witness:
  "schema_ok sample_questions \<and>
   validate_form_schema (JList (map question_json sample_questions)) = Inr (Some sample_questions)"
  using form_schema_canonical [OF sample_schema] .

section \<open>Answers\<close>

lemma json_strings_map [simp]: "json_strings (map JStr ss) = Some ss"
  by (induction ss) simp_all

lemma json_strings_Some: "json_strings vs = Some ss \<longleftrightarrow> vs = map JStr ss"
proof
  show "json_strings vs = Some ss \<Longrightarrow> vs = map JStr ss"
    by (induction vs arbitrary: ss rule: json_strings.induct) auto
qed simp

text \<open>The values a question's answer can have in a stored snapshot.\<close>

fun answer_fits :: "question_type \<Rightarrow> string list \<Rightarrow> json \<Rightarrow> bool" where
  "answer_fits ShortText options (JStr s) = (strip s = s \<and> s \<noteq> [] \<and> length s \<le> 500)"
| "answer_fits Paragraph options (JStr s) = (strip s = s \<and> s \<noteq> [] \<and> length s \<le> 5000)"
| "answer_fits Number options (JInt n) = True"
| "answer_fits Number options (JFloat f) = (f \<noteq> None)"
| "answer_fits Date options (JStr s) = (date_shape s \<and>
     real_date (digits_value (take 4 s)) (digits_value (take 2 (drop 5 s))) (digits_value (drop 8 s)))"
| "answer_fits SingleChoice options (JStr s) = (s \<in> set options)"
| "answer_fits Dropdown options (JStr s) = (s \<in> set options)"
| "answer_fits MultiChoice options (JList vs) =
     (\<exists>P. vs = map JStr (filter P options) \<and> filter P options \<noteq> [])"
| "answer_fits YesNo options (JBool b) = True"
| "answer_fits _ options _ = False"

lemma date_shape_not_blank: "date_shape s \<Longrightarrow> strip s \<noteq> []"
proof -
  assume "date_shape s"
  then have "length s = 10" "list_all is_digit (take 4 s)" by (simp_all add: date_shape_def)
  then obtain c cs where s: "s = c # cs" and "is_digit c" by (cases s) auto
  then have c: "\<not> is_space c" by (auto simp: is_digit_def is_space_def Let_def)
  then have "strip s = rev (dropWhile is_space (rev cs @ [c]))" by (simp add: strip_def s)
  also have "\<dots> \<noteq> []" using c by (simp add: dropWhile_append)
  finally show ?thesis .
qed

lemma canonical_number_Some:
  "canonical_number v = Some w \<Longrightarrow> (\<exists>n. w = JInt n) \<or> (\<exists>x. w = JFloat (Some x))"
  by (auto simp: canonical_number_def split: json.splits option.splits if_splits)

lemma canonical_choices_Inr:
  assumes "canonical_choices options v = Inr w" and "\<not> is_unanswered (Some v)"
  shows "\<exists>P. w = JList (map JStr (filter P options)) \<and> filter P options \<noteq> []"
proof -
  from assms obtain vs ss where v: "v = JList vs" and ss: "json_strings vs = Some ss" "distinct ss"
    "list_all (\<lambda>i. i \<in> set options) ss" and w: "w = JList (map JStr (filter (\<lambda>opt. opt \<in> set ss) options))"
    by (auto simp: canonical_choices_def split: json.splits option.splits if_splits)
  have "ss \<noteq> []" using ss(1) assms(2) v by (auto simp: json_strings_Some is_unanswered_def)
  then obtain s where "s \<in> set ss" by (cases ss) auto
  with ss(3) have "s \<in> set (filter (\<lambda>opt. opt \<in> set ss) options)" by (simp add: list_all_iff)
  then have "filter (\<lambda>opt. opt \<in> set ss) options \<noteq> []" by force
  with w show ?thesis by blast
qed

lemma canonical_answer_fits:
  assumes "canonical_answer q v = Inr w" and "\<not> is_unanswered (Some v)"
  shows "answer_fits (k_type q) (k_options q) w"
proof (cases "k_type q")
  case MultiChoice
  with assms canonical_choices_Inr show ?thesis by (fastforce simp: canonical_answer_def)
next
  case Number
  with assms canonical_number_Some show ?thesis by (fastforce simp: canonical_answer_def ok_iff)
qed (use assms in \<open>auto simp: canonical_answer_def canonical_text_def canonical_date_def
      canonical_yes_no_def is_unanswered_def Let_def split: json.splits if_splits\<close>)

lemma options_not_blank:
  "question_ok q \<Longrightarrow> s \<in> set (k_options q) \<Longrightarrow> strip s \<noteq> []"
  by (auto simp: question_ok_def list_all_iff option_ok_def split: if_splits)

lemma answer_fits_again:
  assumes "answer_fits (k_type q) (k_options q) w" and "question_ok q"
  shows "canonical_answer q w = Inr w \<and> \<not> is_unanswered (Some w)"
proof (cases "k_type q")
  case MultiChoice
  with assms(1) obtain P where w: "w = JList (map JStr (filter P (k_options q)))" "filter P (k_options q) \<noteq> []"
    by (cases w) auto
  have "distinct (k_options q)" using assms(2) MultiChoice by (simp add: question_ok_def choice_question_def)
  moreover have "filter (\<lambda>opt. opt \<in> set (filter P (k_options q))) (k_options q) = filter P (k_options q)"
    by (rule filter_cong) auto
  ultimately show ?thesis
    using MultiChoice w by (simp add: canonical_answer_def canonical_choices_def is_unanswered_def list_all_iff)
next
  case Date
  with assms date_shape_not_blank show ?thesis
    by (cases w) (auto simp: canonical_answer_def canonical_date_def is_unanswered_def)
qed (use assms options_not_blank in \<open>cases w; auto simp: canonical_answer_def canonical_text_def
      canonical_yes_no_def canonical_number_def is_unanswered_def split: option.splits\<close>)+

lemma answer_question_Some:
  assumes "answer_question raw q = Inr (Some a)" and "question_ok q"
  shows "n_id a = k_id q \<and> n_label a = k_label q \<and> n_type a = k_type q \<and>
    answer_fits (k_type q) (k_options q) (n_value a)"
proof -
  from assms(1) obtain v where "map_of raw (k_id q) = Some v" "\<not> is_unanswered (Some v)"
    "canonical_answer q v = Inr (n_value a)" and a: "n_id a = k_id q" "n_label a = k_label q" "n_type a = k_type q"
    by (cases "map_of raw (k_id q)")
      (auto simp: answer_question_def Let_def ok_iff is_unanswered_def split: if_splits)
  then show ?thesis using canonical_answer_fits by blast
qed

lemma answer_question_None:
  "answer_question raw q = Inr None \<Longrightarrow> \<not> k_required q"
  by (auto simp: answer_question_def Let_def ok_iff split: if_splits)

lemma answer_question_id: "answer_question raw q = Inr (Some a) \<Longrightarrow> n_id a = k_id q"
  by (auto simp: answer_question_def Let_def ok_iff split: if_splits)

text \<open>An answer given again is the same answer, and no answer again is none.\<close>

lemma answer_question_again:
  assumes "answer_question raw q = Inr x" and "question_ok q"
    and "map_of raw' (k_id q) = map_option n_value x"
  shows "answer_question raw' q = Inr x"
proof (cases x)
  case None
  with assms show ?thesis
    using answer_question_None [of raw q] by (simp add: answer_question_def is_unanswered_def)
next
  case (Some a)
  with assms answer_question_Some [of raw q a] have a: "n_id a = k_id q" "n_label a = k_label q" "n_type a = k_type q"
    "answer_fits (k_type q) (k_options q) (n_value a)" by auto
  from answer_fits_again [OF a(4) assms(2)] a Some assms(3) show ?thesis by (simp add: answer_question_def)
qed

definition snapshot_json :: "answer list \<Rightarrow> (string \<times> json) list" where
  "snapshot_json ans = map (\<lambda>a. (n_id a, n_value a)) ans"

lemma form_answers_Cons:
  "form_answers (q # qs) raw =
     (case answer_question raw q of Inr (Some a) \<Rightarrow> [a] | _ \<Rightarrow> []) @ form_answers qs raw"
  by (simp add: form_answers_def)

lemma form_answers_ids: "subseq (map n_id (form_answers qs raw)) (map k_id qs)"
proof (induction qs)
  case (Cons q qs)
  then show ?case
    by (auto simp: form_answers_Cons answer_question_id split: sum.split option.split)
qed (simp add: form_answers_def)

lemma answer_errors_Nil:
  "answer_errors qs raw = [] \<longleftrightarrow> fst ` set raw \<subseteq> k_id ` set qs \<and> (\<forall>q \<in> set qs. \<exists>x. answer_question raw q = Inr x)"
proof -
  have "(case x of Inl e \<Rightarrow> [(i, e)] | Inr _ \<Rightarrow> []) = [] \<longleftrightarrow> (\<exists>y. x = Inr y)"
    for x :: "answer_error + answer option" and i :: string
    by (cases x) auto
  then show ?thesis by (auto simp: answer_errors_def filter_empty_conv)
qed

lemma set_form_answers: "a \<in> set (form_answers qs raw) \<longleftrightarrow> (\<exists>q \<in> set qs. answer_question raw q = Inr (Some a))"
proof -
  have "a \<in> set (case x of Inr (Some b) \<Rightarrow> [b] | _ \<Rightarrow> []) \<longleftrightarrow> x = Inr (Some a)"
    for x :: "answer_error + answer option"
    by (cases x) (auto split: option.splits)
  then show ?thesis by (simp add: form_answers_def)
qed

lemma form_answers_known: "n_id ` set (form_answers qs raw) \<subseteq> k_id ` set qs"
  by (auto simp: set_form_answers answer_question_id)

lemma map_of_snapshot:
  assumes "distinct (map k_id qs)" and "q \<in> set qs" and "answer_question raw q = Inr x"
  shows "map_of (snapshot_json (form_answers qs raw)) (k_id q) = map_option n_value x"
  using assms(1,2)
proof (induction qs)
  case (Cons r qs)
  have absent: "map_of (snapshot_json (form_answers qs raw)) (k_id r) = None"
  proof -
    have "k_id r \<notin> n_id ` set (form_answers qs raw)"
      using form_answers_known [of qs raw] Cons.prems(1) by auto
    then show ?thesis by (simp add: map_of_eq_None_iff snapshot_json_def image_image)
  qed
  show ?case
  proof (cases "q = r")
    case True
    then show ?thesis using assms(3) absent
      by (cases x) (auto simp: form_answers_Cons snapshot_json_def answer_question_id)
  next
    case False
    with Cons.prems have "q \<in> set qs" "k_id r \<notin> k_id ` set qs" by auto
    then have "q \<in> set qs" "k_id q \<noteq> k_id r" by (simp, metis image_eqI)
    then show ?thesis using Cons
      by (auto simp: form_answers_Cons snapshot_json_def split: sum.split option.split dest: answer_question_id)
  qed
qed simp

lemma validate_answers_Some:
  assumes "validate_answers schema raw = Inr (Some ans)"
  shows "\<exists>qs kvs. validate_form_schema schema = Inr (Some qs) \<and> ans = form_answers qs kvs \<and>
    ans \<noteq> [] \<and> answer_errors qs kvs = []"
  using assms
  by (cases "validate_form_schema schema")
    (auto simp: validate_answers_def Let_def form_answers_def split: option.splits json.splits if_splits)

text \<open>
  C18. A stored snapshot can be submitted again: sending the stored values back as the raw answers
  of the same form validates and yields exactly the stored snapshot.
\<close>

theorem form_answers_resubmit:
  assumes "validate_answers schema raw = Inr (Some ans)"
  shows "validate_answers schema (JObj (snapshot_json ans)) = Inr (Some ans)"
proof -
  from validate_answers_Some [OF assms] obtain qs kvs where
    qs: "validate_form_schema schema = Inr (Some qs)" and ans: "ans = form_answers qs kvs" "ans \<noteq> []"
    and err: "answer_errors qs kvs = []" by blast
  have ok: "schema_ok qs" using qs by (rule validate_form_schema_ok)
  have same: "answer_question (snapshot_json ans) q = answer_question kvs q" if "q \<in> set qs" for q
  proof -
    from err that obtain x where x: "answer_question kvs q = Inr x" by (auto simp: answer_errors_Nil)
    moreover have "question_ok q" using ok that by (simp add: schema_ok_def list_all_iff)
    moreover have "map_of (snapshot_json ans) (k_id q) = map_option n_value x"
      using map_of_snapshot [OF _ that x] ok by (simp add: schema_ok_def ans)
    ultimately show ?thesis using answer_question_again [OF x] x by simp
  qed
  have "map (\<lambda>q. case answer_question (snapshot_json ans) q of Inr (Some a) \<Rightarrow> [a] | _ \<Rightarrow> []) qs =
      map (\<lambda>q. case answer_question kvs q of Inr (Some a) \<Rightarrow> [a] | _ \<Rightarrow> []) qs"
    by (rule map_cong [OF refl]) (simp only: same)
  then have "form_answers qs (snapshot_json ans) = ans"
    by (simp only: form_answers_def [of qs "snapshot_json ans"]) (simp only: form_answers_def [symmetric] ans(1) [symmetric])
  moreover have "answer_errors qs (snapshot_json ans) = []"
    using err same form_answers_known [of qs kvs]
    by (simp add: answer_errors_Nil snapshot_json_def ans(1) image_image)
  ultimately show ?thesis using qs ans(2) by (simp add: validate_answers_def)
qed

definition sample_answers :: "answer list" where
  "sample_answers =
     [\<lparr>n_id = ''tool'', n_label = ''Tool'', n_type = MultiChoice, n_value = JList [JStr ''saw'', JStr ''drill'']\<rparr>,
      \<lparr>n_id = ''kg'', n_label = ''Weight'', n_type = Number, n_value = JInt 12\<rparr>]"

lemma sample_answers:
  "validate_answers sample_schema (JObj [(''kg'', JStr '' 12''), (''tool'', JList [JStr ''drill'', JStr ''saw''])]) =
    Inr (Some sample_answers)"
  by code_simp

theorem form_answers_resubmit_witness:
  "validate_answers sample_schema (JObj (snapshot_json sample_answers)) = Inr (Some sample_answers)"
  using form_answers_resubmit [OF sample_answers] .

text \<open>
  C19. The snapshot fits the form: its answers are in the order of the questions, each value has
  the shape its question type allows (a finite number, a real date, configured choices only, text
  within its limit), and every required question is answered.
\<close>

theorem form_answers_fit:
  assumes "validate_answers schema raw = Inr (Some ans)"
  shows "\<exists>qs. validate_form_schema schema = Inr (Some qs) \<and> subseq (map n_id ans) (map k_id qs) \<and>
    (\<forall>a \<in> set ans. \<exists>q \<in> set qs. k_id q = n_id a \<and> k_type q = n_type a \<and>
       answer_fits (k_type q) (k_options q) (n_value a)) \<and>
    (\<forall>q \<in> set qs. k_required q \<longrightarrow> k_id q \<in> n_id ` set ans)"
proof -
  from validate_answers_Some [OF assms] obtain qs kvs where
    qs: "validate_form_schema schema = Inr (Some qs)" and ans: "ans = form_answers qs kvs"
    and err: "answer_errors qs kvs = []" by blast
  have ok: "\<forall>q \<in> set qs. question_ok q"
    using validate_form_schema_ok [OF qs] by (simp add: schema_ok_def list_all_iff)
  have "k_id q \<in> n_id ` set ans" if "q \<in> set qs" "k_required q" for q
  proof -
    from err that(1) obtain x where "answer_question kvs q = Inr x" by (auto simp: answer_errors_Nil)
    with that(2) obtain a where "answer_question kvs q = Inr (Some a)"
      using answer_question_None by (cases x) auto
    with that(1) have "a \<in> set ans" "n_id a = k_id q" by (auto simp: ans set_form_answers answer_question_id)
    then show ?thesis by force
  qed
  moreover have "\<exists>q \<in> set qs. k_id q = n_id a \<and> k_type q = n_type a \<and> answer_fits (k_type q) (k_options q) (n_value a)"
    if "a \<in> set ans" for a
    using that ok answer_question_Some by (fastforce simp: ans set_form_answers)
  ultimately show ?thesis using qs form_answers_ids [of qs kvs] by (auto simp: ans)
qed

theorem form_answers_fit_witness:
  "\<exists>qs. validate_form_schema sample_schema = Inr (Some qs) \<and> subseq (map n_id sample_answers) (map k_id qs)"
  using form_answers_fit [OF sample_answers] by blast

end
