(* ===== verification/Forms_Numbers.thy ===== *)
theory Forms_Numbers
  imports Forms_Schema
begin

text \<open>
  The decimal literals of number answers: the conversion to a double is correctly rounded, over
  the whole range of literals, from the subnormal numbers to the overflow.
\<close>

definition real_double :: "int \<times> int \<Rightarrow> real" where
  "real_double x = real_of_int (fst x) * 2 powr real_of_int (snd x)"

text \<open>A double: 53 bits, normalised unless the exponent is the least one.\<close>

definition is_double :: "int \<times> int \<Rightarrow> bool" where
  "is_double x \<longleftrightarrow> 0 \<le> fst x \<and> fst x < 2 ^ 53 \<and> - 1074 \<le> snd x \<and> snd x \<le> 971 \<and>
     (2 ^ 52 \<le> fst x \<or> snd x = - 1074)"

lemma scaled_up_ratio:
  "real_of_int (scaled_up n e) / real_of_int (scaled_up d (- e)) = real_of_int n / real_of_int d / 2 powr real_of_int e"
proof (cases "0 \<le> e")
  case True
  then have "2 powr real_of_int e = 2 ^ nat e" by (simp add: powr_real_of_int)
  with True show ?thesis by (simp add: scaled_up_def)
next
  case False
  then have "2 powr real_of_int e = inverse (2 ^ nat (- e))" by (simp add: powr_real_of_int)
  then show ?thesis using False by (simp add: scaled_up_def divide_inverse)
qed

lemma scaled_up_pos: "0 < n \<Longrightarrow> 0 < scaled_up n e"
  by (simp add: scaled_up_def)

lemma round_half_even_close:
  assumes "0 < d"
  shows "\<bar>real_of_int n / real_of_int d - real_of_int (round_half_even n d)\<bar> \<le> 1 / 2"
proof -
  have n: "n = d * (n div d) + n mod d" "0 \<le> n mod d" "n mod d < d" using assms by simp_all
  have "2 * \<bar>n - round_half_even n d * d\<bar> \<le> d"
  proof (cases "2 * (n mod d) < d \<or> 2 * (n mod d) = d \<and> even (n div d)")
    case True
    then have "n - round_half_even n d * d = n mod d"
      using n(1) by (simp add: round_half_even_def Let_def algebra_simps)
    then show ?thesis using True n(2) by auto
  next
    case False
    then have "round_half_even n d = n div d + 1" by (auto simp: round_half_even_def Let_def)
    then have "n - round_half_even n d * d = n mod d - d" using n(1) by (simp add: algebra_simps)
    moreover have "d \<le> 2 * (n mod d)" using False by linarith
    ultimately show ?thesis using n(3) by auto
  qed
  then have "2 * \<bar>real_of_int n - real_of_int (round_half_even n d) * real_of_int d\<bar> \<le> real_of_int d"
    by (simp flip: of_int_mult of_int_diff of_int_abs)
  moreover have "real_of_int n / real_of_int d - real_of_int (round_half_even n d) =
      (real_of_int n - real_of_int (round_half_even n d) * real_of_int d) / real_of_int d"
    using assms by (simp add: field_simps)
  ultimately show ?thesis using assms by (simp add: abs_divide field_simps)
qed

lemma bitlen_powr:
  assumes "0 < n"
  shows "2 powr (real_of_int (bitlen n) - 1) \<le> real_of_int n \<and> real_of_int n < 2 powr real_of_int (bitlen n)"
proof -
  have b: "2 ^ nat (bitlen n - 1) \<le> n \<and> n < 2 ^ nat (bitlen n)" using assms by (rule bitlen_bounds)
  have "1 \<le> bitlen n" using assms by (simp add: bitlen_def compute_floorlog)
  then have "2 powr (real_of_int (bitlen n) - 1) = real_of_int (2 ^ nat (bitlen n - 1))"
    "2 powr real_of_int (bitlen n) = real_of_int (2 ^ nat (bitlen n))"
    using powr_real_of_int [of 2 "bitlen n - 1"] powr_real_of_int [of 2 "bitlen n"] by simp_all
  then show ?thesis using b by (simp only: of_int_le_iff of_int_less_iff)
qed

lemma round_exponent_bounds:
  assumes "0 < n" and "0 < d"
  shows "real_of_int n / real_of_int d / 2 powr real_of_int (round_exponent n d) < 2 ^ 53 \<and>
    (2 ^ 52 \<le> real_of_int n / real_of_int d / 2 powr real_of_int (round_exponent n d) \<or> round_exponent n d = - 1074) \<and>
    - 1074 \<le> round_exponent n d"
proof -
  let ?x = "real_of_int n / real_of_int d"
  define e where "e = bitlen n - bitlen d - 53"
  define e' where "e' = (if scaled_up n e < 2 ^ 53 * scaled_up d (- e) then e else e + 1)"
  have r: "round_exponent n d = max (- 1074) e'" by (simp add: round_exponent_def e_def e'_def Let_def)
  have lo: "2 powr (real_of_int e + 52) \<le> ?x"
  proof -
    have "2 powr (real_of_int e + 52) = 2 powr (real_of_int (bitlen n) - 1) / 2 powr real_of_int (bitlen d)"
      by (simp add: e_def algebra_simps flip: powr_diff)
    also have "\<dots> \<le> ?x" using bitlen_powr [OF assms(1)] bitlen_powr [OF assms(2)] assms by (intro frac_le) auto
    finally show ?thesis .
  qed
  have hi: "?x < 2 powr (real_of_int e + 54)"
  proof -
    have "?x < 2 powr real_of_int (bitlen n) / 2 powr (real_of_int (bitlen d) - 1)"
      using bitlen_powr [OF assms(1)] bitlen_powr [OF assms(2)] assms by (intro frac_less) auto
    also have "\<dots> = 2 powr (real_of_int e + 54)" by (simp add: e_def algebra_simps flip: powr_diff)
    finally show ?thesis .
  qed
  have cmp: "scaled_up n e < 2 ^ 53 * scaled_up d (- e) \<longleftrightarrow> ?x < 2 powr (real_of_int e + 53)"
  proof -
    have "scaled_up n e < 2 ^ 53 * scaled_up d (- e) \<longleftrightarrow>
        real_of_int (scaled_up n e) < real_of_int (2 ^ 53 * scaled_up d (- e))"
      by (simp only: of_int_less_iff)
    also have "\<dots> \<longleftrightarrow> real_of_int (scaled_up n e) / real_of_int (scaled_up d (- e)) < 2 ^ 53"
      using scaled_up_pos [OF assms(2), of "- e"] by (simp add: divide_less_eq)
    also have "\<dots> \<longleftrightarrow> ?x / 2 powr real_of_int e < 2 powr 53" by (simp add: scaled_up_ratio)
    also have "\<dots> \<longleftrightarrow> ?x < 2 powr 53 * 2 powr real_of_int e" by (rule pos_divide_less_eq) simp
    also have "2 powr 53 * 2 powr real_of_int e = 2 powr (real_of_int e + 53)"
      by (simp add: powr_add)
    finally show ?thesis .
  qed
  have e': "2 powr (real_of_int e' + 52) \<le> ?x \<and> ?x < 2 powr (real_of_int e' + 53)"
    using lo hi cmp by (auto simp: e'_def add.commute add.left_commute)
  have pw: "?x / 2 powr f < 2 ^ 53 \<longleftrightarrow> ?x < 2 powr (f + 53)" "2 ^ 52 \<le> ?x / 2 powr f \<longleftrightarrow> 2 powr (f + 52) \<le> ?x" for f :: real
    using pos_divide_less_eq [of "2 powr f" ?x "2 ^ 53"] pos_le_divide_eq [of "2 powr f" "2 ^ 52" ?x]
    by (simp_all add: powr_add mult.commute)
  show ?thesis
  proof (cases "- 1074 \<le> e'")
    case False
    then have "2 powr (real_of_int e' + 53) \<le> 2 powr (real_of_int (- 1074) + 53)" by (intro powr_mono) auto
    with e' have "?x < 2 powr (real_of_int (- 1074) + 53)" by linarith
    moreover have "round_exponent n d = - 1074" using False r by simp
    ultimately show ?thesis unfolding pw by simp
  qed (use e' r pw in auto)
qed

lemma close_int:
  fixes y :: real
  assumes "\<bar>y - real_of_int m\<bar> \<le> 1 / 2"
  shows "y < real_of_int k \<Longrightarrow> m \<le> k" and "real_of_int k \<le> y \<Longrightarrow> k \<le> m"
  using assms by linarith+

lemma nearest_double_correct:
  assumes "0 < n" and "0 < d" and "nearest_double n d = Some x"
  shows "is_double x \<and> \<bar>real_of_int n / real_of_int d - real_double x\<bar> \<le> 2 powr real_of_int (snd x) / 2"
proof -
  define e where "e = round_exponent n d"
  define m where "m = round_half_even (scaled_up n e) (scaled_up d (- e))"
  define y where "y = real_of_int n / real_of_int d / 2 powr real_of_int e"
  have y: "y < 2 ^ 53" "2 ^ 52 \<le> y \<or> e = - 1074" "- 1074 \<le> e"
    using round_exponent_bounds [OF assms(1,2)] by (simp_all add: y_def e_def)
  have close: "\<bar>y - real_of_int m\<bar> \<le> 1 / 2"
    using round_half_even_close [OF scaled_up_pos [OF assms(2)], of "scaled_up n e" "- e"]
    by (simp add: m_def y_def scaled_up_ratio)
  have "0 \<le> y" using assms by (simp add: y_def)
  then have m: "0 \<le> m" "m \<le> 2 ^ 53" "2 ^ 52 \<le> m \<or> e = - 1074"
    using close_int [OF close, of "2 ^ 53"] close_int [OF close, of 0] close_int [OF close, of "2 ^ 52"] y by auto
  have x: "m * 2 ^ nat e < 2 ^ 53 * 2 ^ 971" "x = (if m = 2 ^ 53 then (2 ^ 52, e + 1) else (m, e))"
    using assms by (auto simp: nearest_double_def Let_def e_def [symmetric] m_def [symmetric] split: if_splits)
  have e: "e \<le> 971" if "2 ^ 52 \<le> m"
  proof (rule ccontr)
    assume "\<not> e \<le> 971"
    then have "(2::int) ^ 972 \<le> 2 ^ nat e" by (intro power_increasing) auto
    then have "(2::int) ^ 52 * 2 ^ 972 \<le> m * 2 ^ nat e" using that by (intro mult_mono) auto
    with x(1) show False by simp
  qed
  have e': "e \<le> 970" if "m = 2 ^ 53"
  proof (rule ccontr)
    assume "\<not> e \<le> 970"
    then have "(2::int) ^ 971 \<le> 2 ^ nat e" by (intro power_increasing) auto
    with x(1) that show False by simp
  qed
  have "is_double x"
    using x(2) m e e' y(3) by (cases "m = 2 ^ 53") (auto simp: is_double_def)
  moreover have "\<bar>real_of_int n / real_of_int d - real_of_int m * 2 powr real_of_int e\<bar> \<le> 2 powr real_of_int e / 2"
  proof -
    have "real_of_int n / real_of_int d - real_of_int m * 2 powr real_of_int e = (y - real_of_int m) * 2 powr real_of_int e"
      by (simp add: y_def field_simps)
    then have "\<bar>real_of_int n / real_of_int d - real_of_int m * 2 powr real_of_int e\<bar> =
        \<bar>y - real_of_int m\<bar> * 2 powr real_of_int e" by (simp add: abs_mult)
    also have "\<dots> \<le> 1 / 2 * 2 powr real_of_int e" using close by (intro mult_right_mono) auto
    finally show ?thesis by simp
  qed
  moreover have "real_double x = real_of_int m * 2 powr real_of_int e" "2 powr real_of_int e \<le> 2 powr real_of_int (snd x)"
    using x(2) by (auto simp: real_double_def powr_add)
  ultimately show ?thesis by (auto intro: order_trans)
qed

lemma digits_value_nonneg: "list_all is_digit ds \<Longrightarrow> 0 \<le> digits_value ds"
proof (induction ds rule: rev_induct)
  case (snoc c ds)
  then show ?case by (simp add: digits_value_def digit_value_def is_digit_def code_of_def)
qed (simp add: digits_value_def)

lemma read_fraction_digits:
  "read_fraction cs = Some (Some ds, rest) \<Longrightarrow> list_all is_digit ds"
  by (auto simp: read_fraction_def list_all_iff dest: set_takeWhileD split: list.splits if_splits)

lemma read_number_parts:
  assumes "read_number raw = Some d"
  shows "\<exists>body rest. d_int d = takeWhile is_digit body \<and> read_fraction (dropWhile is_digit body) = Some (d_frac d, rest)"
proof -
  define body where "body = (if raw \<noteq> [] \<and> hd raw = CHR ''-'' then tl raw else raw)"
  from assms obtain fraction rest where "read_fraction (dropWhile is_digit body) = Some (fraction, rest)"
    unfolding read_number_def Let_def body_def [symmetric]
    by (cases "read_fraction (dropWhile is_digit body)") (simp_all split: if_split_asm prod.splits)
  with assms have "d_int d = takeWhile is_digit body \<and> read_fraction (dropWhile is_digit body) = Some (d_frac d, rest)"
    unfolding read_number_def Let_def body_def [symmetric]
    by (cases "read_exponent rest") (auto split: if_split_asm)
  then show ?thesis by blast
qed

lemma read_number_digits:
  assumes "read_number raw = Some d"
  shows "0 \<le> coefficient d"
proof -
  from read_number_parts [OF assms] obtain body rest where
    d: "d_int d = takeWhile is_digit body" "read_fraction (dropWhile is_digit body) = Some (d_frac d, rest)" by blast
  have "list_all is_digit (takeWhile is_digit body)" by (auto simp: list_all_iff dest: set_takeWhileD)
  moreover have "list_all is_digit (fraction_digits d)"
    using d(2) by (cases "d_frac d") (auto simp: fraction_digits_def dest: read_fraction_digits)
  ultimately show ?thesis using d(1) by (simp add: coefficient_def digits_value_nonneg)
qed

text \<open>The exact value of a literal.\<close>

definition decimal_value :: "decimal \<Rightarrow> real" where
  "decimal_value d =
     (if d_negative d then - 1 else 1) * real_of_int (coefficient d) * 10 powr real_of_int (exponent d)"

lemma decimal_ratio:
  "real_of_int (coefficient d * 10 ^ nat (exponent d)) / real_of_int (10 ^ nat (- exponent d)) =
   real_of_int (coefficient d) * 10 powr real_of_int (exponent d)"
proof (cases "0 \<le> exponent d")
  case True
  then show ?thesis by (simp add: powr_real_of_int)
next
  case False
  then have "10 powr real_of_int (exponent d) = inverse (10 ^ nat (- exponent d))" by (simp add: powr_real_of_int)
  with False show ?thesis by (simp add: divide_inverse)
qed

lemma float_of_decimal_correct:
  assumes "float_of_decimal d = Some x" and nonneg: "0 \<le> coefficient d"
  shows "\<bar>decimal_value d - real_double x\<bar> \<le> 2 powr real_of_int (snd x) / 2 \<and>
    (coefficient d \<noteq> 0 \<longrightarrow> is_double (\<bar>fst x\<bar>, snd x))"
proof -
  from assms(1) obtain m e where me: "nearest_double (coefficient d * 10 ^ nat (exponent d)) (10 ^ nat (- exponent d)) = Some (m, e)"
    and x: "x = (if d_negative d then - m else m, e)" by (auto simp: float_of_decimal_def)
  show ?thesis
  proof (cases "coefficient d = 0")
    case True
    with me x show ?thesis by (auto simp: nearest_double_def decimal_value_def real_double_def)
  next
    case False
    with nonneg have pos: "0 < coefficient d * 10 ^ nat (exponent d)" by simp
    from nearest_double_correct [OF pos _ me] have ok: "is_double (m, e)"
      and close: "\<bar>real_of_int (coefficient d) * 10 powr real_of_int (exponent d) - real_double (m, e)\<bar> \<le> 2 powr real_of_int e / 2"
      unfolding decimal_ratio by simp_all
    have m: "0 \<le> m" using ok by (simp add: is_double_def)
    show ?thesis
    proof (cases "d_negative d")
      case neg: True
      have "decimal_value d - real_double x =
          - (real_of_int (coefficient d) * 10 powr real_of_int (exponent d) - real_double (m, e))"
        using neg x by (simp add: decimal_value_def real_double_def)
      moreover have "\<bar>- (real_of_int (coefficient d) * 10 powr real_of_int (exponent d) - real_double (m, e))\<bar> \<le> 2 powr real_of_int e / 2"
        unfolding abs_minus_cancel by (rule close)
      ultimately show ?thesis using x neg ok m by (simp only: snd_conv fst_conv if_True abs_minus_cancel simp_thms abs_of_nonneg)
    qed (use close x ok m in \<open>auto simp: decimal_value_def\<close>)
  qed
qed

text \<open>
  C20. A number answer given as text with a fraction or an exponent is stored as a double that is
  within half a unit in the last place of the exact value of the literal, from the subnormal
  numbers up to the overflow (which is refused); text without either is stored exactly.
\<close>

theorem number_answer_rounded:
  assumes "canonical_number (JStr s) = Some v"
  shows "\<exists>d. read_number (strip s) = Some d \<and>
    (case v of
       JInt n \<Rightarrow> real_of_int n = decimal_value d
     | JFloat (Some x) \<Rightarrow> \<bar>decimal_value d - real_double x\<bar> \<le> 2 powr real_of_int (snd x) / 2 \<and>
         (coefficient d \<noteq> 0 \<longrightarrow> is_double (\<bar>fst x\<bar>, snd x))
     | _ \<Rightarrow> False)"
proof -
  from assms obtain d where d: "read_number (strip s) = Some d"
    by (auto simp: canonical_number_def split: option.splits)
  then have v: "v = JInt (if d_negative d then - coefficient d else coefficient d) \<and> exponent d = 0 \<or>
      (\<exists>x. float_of_decimal d = Some x \<and> v = JFloat (Some x))"
    using assms by (auto simp: canonical_number_def exponent_def fraction_digits_def split: if_splits)
  show ?thesis
  proof (intro exI [of _ d] conjI d)
    show "case v of JInt n \<Rightarrow> real_of_int n = decimal_value d
     | JFloat (Some x) \<Rightarrow> \<bar>decimal_value d - real_double x\<bar> \<le> 2 powr real_of_int (snd x) / 2 \<and>
         (coefficient d \<noteq> 0 \<longrightarrow> is_double (\<bar>fst x\<bar>, snd x))
     | _ \<Rightarrow> False"
      using v float_of_decimal_correct [of d] read_number_digits [OF d] by (auto simp: decimal_value_def)
  qed
qed

theorem number_answer_rounded_witness:
  "\<exists>d. read_number (strip '' 0.1'') = Some d \<and>
     \<bar>decimal_value d - real_double (7205759403792794, - 56)\<bar> \<le> 2 powr - 56 / 2"
proof -
  have "canonical_number (JStr '' 0.1'') = Some (JFloat (Some (7205759403792794, - 56)))" by code_simp
  from number_answer_rounded [OF this] show ?thesis by auto
qed

end
