(* ===== verification/Payment_Amounts.thy ===== *)
theory Payment_Amounts
  imports Lending_Db Text_Ops
begin

text \<open>
  Money (\<open>payments/currency_rules.py\<close>, \<open>payments/amounts.py\<close>). A ledger amount has two decimals
  and is counted in hundredths here; a \<open>Decimal\<close> argument is \<open>Dec c e\<close>, the number \<open>c * 10 ^ e\<close>,
  or \<open>NotDecimal\<close> when its text is no finite decimal. The provider's minor units are integers.
\<close>

section \<open>Currencies\<close>

datatype vendor = Stripe | Razorpay

text \<open>\<open>str.split()\<close> on a text whose separators are single blanks.\<close>

fun split_blanks :: "string \<Rightarrow> string \<Rightarrow> string list" where
  "split_blanks acc [] = (if acc = [] then [] else [acc])"
| "split_blanks acc (c # cs) =
     (if c = CHR '' '' then (if acc = [] then split_blanks [] cs else acc # split_blanks [] cs)
      else split_blanks (acc @ [c]) cs)"

definition codes :: "string \<Rightarrow> string list" where
  "codes txt = split_blanks [] txt"

definition stripe_two_decimal :: "string list" where
  "stripe_two_decimal = codes
     ''aed afn all amd ang aoa ars aud awg azn bam bbd bdt bmd bnd bob brl bsd bwp byn bzd cad cdf chf cny cop crc cve czk dkk dop dzd egp etb eur fjd fkp gbp gel gip gmd gtq gyd hkd hnl htg huf idr ils inr jmd kes kgs khr kyd kzt lak lbp lkr lrd lsl mad mdl mkd mmk mnt mop mur mvr mwk mxn myr mzn nad ngn nio nok npr nzd pab pen pgk php pkr pln qar ron rsd rub sar sbd scr sek sgd shp sle sos srd std szl thb tjs top try ttd twd tzs uah usd uyu uzs wst xcd xcg yer zar zmw''"

definition stripe_zero_decimal :: "string list" where
  "stripe_zero_decimal = codes ''bif clp djf gnf jpy kmf krw mga pyg rwf vnd vuv xaf xof xpf''"

definition stripe_three_decimal :: "string list" where
  "stripe_three_decimal = codes ''bhd jod kwd omr tnd''"

definition stripe_legacy_whole :: "string list" where
  "stripe_legacy_whole = codes ''isk ugx''"

definition razorpay_two_decimal :: "string list" where
  "razorpay_two_decimal = codes
     ''aed all amd aud awg azn bam bbd bdt bgn bmd bnd bob brl bsd btn bwp bzd cad chf cny cop crc cup cve czk dkk dop dzd egp etb eur fjd gbp ghs gip gmd gtq gyd hkd hnl hrk htg huf idr ils inr jmd kes kgs khr kyd kzt lak lkr lrd lsl mad mdl mga mkd mmk mnt mop mur mvr mwk mxn myr mzn nad ngn nio nok npr nzd pen pgk php pkr pln qar ron rsd rub sar scr sek sgd sll sos svc szl thb try ttd twd tzs uah usd uyu uzs xcd yer zar zmw''"

definition razorpay_zero_decimal :: "string list" where
  "razorpay_zero_decimal = codes ''bif clp djf gnf isk jpy kmf krw pyg rwf ugx vnd vuv xaf xof xpf''"

definition razorpay_three_decimal :: "string list" where
  "razorpay_three_decimal = codes ''bhd iqd jod kwd omr tnd''"

text \<open>
  The tables are built with \<open>dict.fromkeys\<close>, later keys winning: the last table is asked first.
  A value is the scale from major to minor units and the quantum minor amounts are multiples of.
\<close>

definition stripe_units :: "string \<Rightarrow> (int \<times> int) option" where
  "stripe_units c =
     (if c \<in> set stripe_legacy_whole then Some (100, 100)
      else if c \<in> set stripe_three_decimal then Some (1000, 10)
      else if c \<in> set stripe_zero_decimal then Some (1, 1)
      else if c \<in> set stripe_two_decimal then Some (100, 1) else None)"

definition razorpay_units :: "string \<Rightarrow> (int \<times> int) option" where
  "razorpay_units c =
     (if c \<in> set razorpay_three_decimal then Some (1000, 10)
      else if c \<in> set razorpay_zero_decimal then Some (1, 1)
      else if c \<in> set razorpay_two_decimal then Some (100, 1) else None)"

definition provider_units :: "vendor \<Rightarrow> string \<Rightarrow> (int \<times> int) option" where
  "provider_units v c = (case v of Stripe \<Rightarrow> stripe_units c | Razorpay \<Rightarrow> razorpay_units c)"

definition supported_currency :: "string \<Rightarrow> bool" where
  "supported_currency c \<longleftrightarrow> stripe_units c \<noteq> None \<or> razorpay_units c \<noteq> None"

definition normalize_currency :: "string \<Rightarrow> exn + string" where
  "normalize_currency currency =
     (if supported_currency (lowercase currency) then Inr (lowercase currency)
      else Inl PaymentsUnavailable)"

definition currency_units :: "string \<Rightarrow> vendor \<Rightarrow> exn + (int \<times> int)" where
  "currency_units currency v =
     try_then (normalize_currency currency) (\<lambda>c. of_option PaymentsUnavailable (provider_units v c))"

section \<open>Amounts\<close>

datatype amount = Dec int int | NotDecimal

text \<open>The hundredths of \<open>c * 10 ^ e\<close>, if that is a whole number of them.\<close>

definition cents :: "int \<Rightarrow> int \<Rightarrow> int option" where
  "cents c e =
     (if - 2 \<le> e then Some (c * 10 ^ nat (e + 2))
      else if c mod 10 ^ nat (- e - 2) = 0 then Some (c div 10 ^ nat (- e - 2)) else None)"

definition max_cents :: int where "max_cents = 999999999999"

definition normalize_major_amount :: "amount \<Rightarrow> exn + int" where
  "normalize_major_amount a =
     (case a of
        NotDecimal \<Rightarrow> Inl PaymentsUnavailable
      | Dec c e \<Rightarrow>
          (case cents c e of
             None \<Rightarrow> Inl PaymentsUnavailable
           | Some v \<Rightarrow> if 0 < v \<and> v \<le> max_cents then Inr v else Inl PaymentsUnavailable))"

text \<open>A stored amount of \<open>v\<close> hundredths is the decimal \<open>v * 10 ^ - 2\<close>.\<close>

definition stored_amount :: "int \<Rightarrow> amount" where
  "stored_amount v = Dec v (- 2)"

definition to_minor_units :: "amount \<Rightarrow> string \<Rightarrow> vendor \<Rightarrow> exn + int" where
  "to_minor_units a currency v =
     try_then (currency_units currency v) (\<lambda>(scale, quantum).
     try_then (normalize_major_amount a) (\<lambda>n.
       if n * scale mod 100 \<noteq> 0 \<or> n * scale div 100 mod quantum \<noteq> 0 then Inl PaymentsUnavailable
       else Inr (n * scale div 100)))"

text \<open>\<open>quantize(Decimal("1"), rounding=ROUND_HALF_UP)\<close> of a non-negative fraction \<open>n / d\<close>.\<close>

definition round_half_up :: "int \<Rightarrow> int \<Rightarrow> int" where
  "round_half_up n d = (2 * n + d) div (2 * d)"

text \<open>
  The rate is the platform's, in basis points from 0 to 10000, so the decimals of the computation
  stay within the precision of the decimal context and are exact.
\<close>

definition application_fee_amount :: "amount \<Rightarrow> int \<Rightarrow> string \<Rightarrow> vendor \<Rightarrow> exn + int" where
  "application_fee_amount a basis_points currency v =
     try_then (to_minor_units a currency v) (\<lambda>charge.
     try_then (currency_units currency v) (\<lambda>(_, quantum).
       if basis_points < 0 then Inl PaymentsUnavailable
       else Inr (min charge (round_half_up (charge * basis_points) (10000 * quantum) * quantum))))"

definition valid_fee :: "int \<Rightarrow> int \<Rightarrow> int \<Rightarrow> bool" where
  "valid_fee quantum charge fee \<longleftrightarrow> 0 \<le> fee \<and> fee \<le> charge \<and> fee mod quantum = 0"

definition validate_amount :: "int \<Rightarrow> string \<Rightarrow> vendor \<Rightarrow> int \<Rightarrow> exn + int" where
  "validate_amount amount currency v fee =
     try_then (to_minor_units (stored_amount amount) currency v) (\<lambda>charge.
     try_then (currency_units currency v) (\<lambda>(_, quantum).
       if valid_fee quantum charge fee then Inr charge else Inl PaymentsUnavailable))"

section \<open>Facts\<close>

lemma cents_stored [simp]: "cents v (- 2) = Some v"
  by (simp add: cents_def)

lemma normalize_stored [simp]:
  "normalize_major_amount (stored_amount v) =
     (if 0 < v \<and> v \<le> max_cents then Inr v else Inl PaymentsUnavailable)"
  by (simp add: normalize_major_amount_def stored_amount_def)

lemma normalize_major_amount_bounds:
  "normalize_major_amount a = Inr v \<Longrightarrow> 0 < v \<and> v \<le> max_cents"
  by (auto simp: normalize_major_amount_def split: amount.splits option.splits if_splits)

lemma normalize_twice:
  "normalize_major_amount a = Inr v \<Longrightarrow> normalize_major_amount (stored_amount v) = Inr v"
  by (auto dest: normalize_major_amount_bounds)

text \<open>A currency as stored is its own normal form.\<close>

lemma normalize_currency_again:
  "normalize_currency c = Inr c' \<Longrightarrow> normalize_currency c' = Inr c'"
  by (auto simp: normalize_currency_def lowercase_idem split: if_splits)

lemma units_cases:
  assumes "provider_units v c = Some (scale, quantum)"
  shows "(scale, quantum) \<in> {(100, 1), (1, 1), (1000, 10), (100, 100)}"
  using assms
  by (auto simp: provider_units_def stripe_units_def razorpay_units_def split: vendor.splits if_splits)

lemma currency_units_cases:
  "currency_units c v = Inr (scale, quantum) \<Longrightarrow>
    (scale, quantum) \<in> {(100, 1), (1, 1), (1000, 10), (100, 100)}"
  by (auto simp: currency_units_def ok_iff dest: units_cases)

lemma to_minor_units_Inr:
  "to_minor_units a c v = Inr charge \<longleftrightarrow>
     (\<exists>scale quantum n. currency_units c v = Inr (scale, quantum) \<and> normalize_major_amount a = Inr n \<and>
        n * scale = 100 * charge \<and> charge mod quantum = 0)"
  by (auto simp: to_minor_units_def ok_iff)

text \<open>The rounding is to the nearest multiple, halves up.\<close>

lemma round_half_up_nearest:
  assumes "0 < d"
  shows "2 * n - d < 2 * (round_half_up n d * d)" and "2 * (round_half_up n d * d) \<le> 2 * n + d"
proof -
  have "(2 * n + d) div (2 * d) * (2 * d) + (2 * n + d) mod (2 * d) = 2 * n + d"
    by (rule div_mult_mod_eq)
  moreover have "0 \<le> (2 * n + d) mod (2 * d)" "(2 * n + d) mod (2 * d) < 2 * d" using assms by auto
  ultimately show "2 * n - d < 2 * (round_half_up n d * d)" "2 * (round_half_up n d * d) \<le> 2 * n + d"
    unfolding round_half_up_def by (simp_all add: algebra_simps)
qed

lemma round_half_up_nonneg: "0 < d \<Longrightarrow> 0 \<le> n \<Longrightarrow> 0 \<le> round_half_up n d"
  by (simp add: round_half_up_def pos_imp_zdiv_nonneg_iff)

lemma application_fee_valid:
  assumes "application_fee_amount a bps c v = Inr fee"
  shows "\<exists>charge scale quantum. to_minor_units a c v = Inr charge \<and> currency_units c v = Inr (scale, quantum) \<and>
    valid_fee quantum charge fee"
proof -
  from assms obtain charge scale quantum where charge: "to_minor_units a c v = Inr charge"
    and u: "currency_units c v = Inr (scale, quantum)" and bps: "0 \<le> bps"
    and fee: "fee = min charge (round_half_up (charge * bps) (10000 * quantum) * quantum)"
    by (auto simp: application_fee_amount_def ok_iff)
  from charge u obtain n where n: "normalize_major_amount a = Inr n" "n * scale = 100 * charge" "charge mod quantum = 0"
    by (auto simp: to_minor_units_Inr)
  have q: "0 < quantum" "0 < scale" using currency_units_cases [OF u] by auto
  have "0 < n" using normalize_major_amount_bounds [OF n(1)] by simp
  with n(2) q(2) have "0 < charge" by (metis mult_pos_pos zero_less_mult_pos zero_less_numeral)
  then have "0 \<le> round_half_up (charge * bps) (10000 * quantum)"
    using q(1) bps by (intro round_half_up_nonneg) auto
  then have "valid_fee quantum charge fee"
    using fee q(1) \<open>0 < charge\<close> n(3) by (auto simp: valid_fee_def min_def)
  with charge u show ?thesis by blast
qed

end
