(* ===== verification/Payment_Records.thy ===== *)
theory Payment_Records
  imports Payment_Amounts
begin

text \<open>
  The rows of the payments app (\<open>payments/models_payment.py\<close>, \<open>payments/models_settings.py\<close>), the
  credentials a makerspace charges with (\<open>payments/resolution.py\<close>), and the save of a payment with
  the guards of \<open>Payment.save\<close>, \<open>Payment.clean\<close>, the unique constraints and the trigger of
  migration 0013. Amounts are in hundredths. The payments table is in primary key order, which is
  the order of creation.
\<close>

section \<open>Choices\<close>

datatype subject_type = SubjectMachine | SubjectBooking | SubjectEvent | SubjectMembership

datatype payment_status = PayPending | PaidOnline | PaidOffline | Waived | Canceled

datatype stripe_mode = RawKeys | ConnectKeys

datatype online_rail = CheckoutRail | NativeIntentRail

datatype connect_status =
  Unconnected | ConnectPending | ConnectActive | ConnectRestricted | ConnectDisconnected

section \<open>Rows\<close>

record payment =
  y_id :: nat
  y_makerspace :: nat
  y_subject_type :: subject_type
  y_subject_id :: nat
  y_member :: "nat option"
  y_via :: "nat option"
  y_label :: string
  y_amount :: int
  y_currency :: string
  y_status :: payment_status
  y_provider :: vendor
  y_order :: "string option"
  y_external :: "string option"
  y_checkout_url :: string
  y_stripe_mode :: stripe_mode
  y_account :: "string option"
  y_fee :: int
  y_rail :: "online_rail option"
  y_session :: "string option"
  y_stripe_url :: string
  y_expired_at :: "int option"
  y_intent :: "string option"
  y_created_by :: nat

text \<open>Stored secrets are ciphertexts; an empty text is an absent one.\<close>

record merchant =
  mp_makerspace :: nat
  mp_provider :: vendor
  mp_stripe_publishable :: string
  mp_stripe_secret :: string
  mp_stripe_webhook :: string
  mp_currency :: string
  mp_account :: "string option"
  mp_status :: connect_status
  mp_charges :: bool
  mp_payouts :: bool
  mp_assigned_at :: "int option"
  mp_status_at :: int
  mp_razorpay_key :: string
  mp_razorpay_secret :: string
  mp_razorpay_webhook :: string

record platform_connect =
  pf_publishable :: string
  pf_secret :: string
  pf_webhook :: string
  pf_client :: string
  pf_fee_bps :: int

record processed_event =
  pe_makerspace :: nat
  pe_provider :: vendor
  pe_event :: string

record source =
  so_mode :: stripe_mode
  so_secret :: string
  so_webhook :: string
  so_publishable :: string
  so_account :: "string option"
  so_bps :: int
  so_vendor :: vendor

text \<open>
  The state: the database of the other apps, and the payment tables. \<open>platform\<close> is the row of
  \<open>PlatformStripeConnectSettings\<close>; when \<open>load()\<close> inserts it, it inserts the default, which is what
  \<open>load_platform\<close> reads when there is none.
\<close>

record pay_db =
  pay_base :: db
  payments :: "payment list"
  merchants :: "merchant list"
  platform :: "platform_connect option"
  processed :: "processed_event list"

text \<open>
  What the app reads outside its tables: the clock, module and feature switches, the encryption
  of secrets, the subjects of other apps, the authority checks, and what the vendors answer.
  \<open>vendor_expires\<close> and \<open>vendor_cancels\<close> tell whether a best-effort call was confirmed;
  \<open>open_checkout\<close> is the reply to the creation of a hosted page (an order id and an address, or
  the exception of the vendor's client), \<open>open_intent\<close> that for a payment intent (its id and client
  secret); \<open>account_state\<close> is what Stripe reports of a connected account (charges enabled, payouts
  enabled, details submitted), \<open>None\<close> when it cannot be fetched.
\<close>

record pay_env =
  clock :: int
  payments_module :: "nat \<Rightarrow> bool"
  payments_feature :: "nat \<Rightarrow> string \<Rightarrow> bool"
  servable :: "nat \<Rightarrow> bool"
  on_self_host :: bool
  decrypt :: "string \<Rightarrow> string option"
  subject_exists :: "subject_type \<Rightarrow> nat \<Rightarrow> nat \<Rightarrow> bool"
  membership_user :: "nat \<Rightarrow> nat \<Rightarrow> nat option"
  url_ok :: "string \<Rightarrow> bool"
  scope_allows :: "nat \<Rightarrow> subject_type \<Rightarrow> nat \<Rightarrow> bool"
  machine_request_live :: "nat \<Rightarrow> bool"
  machine_request_covered :: "nat \<Rightarrow> nat \<Rightarrow> bool"
  machine_scope_exempt :: "nat \<Rightarrow> nat \<Rightarrow> bool"
  vendor_expires :: "source \<Rightarrow> payment \<Rightarrow> string \<Rightarrow> bool"
  member_url :: "nat \<Rightarrow> string"
  open_checkout :: "source \<Rightarrow> payment \<Rightarrow> int \<Rightarrow> exn + (string option \<times> string option)"
  open_intent :: "source \<Rightarrow> payment \<Rightarrow> int \<Rightarrow> exn + (string option \<times> string option)"
  account_state :: "string \<Rightarrow> (bool \<times> bool \<times> bool) option"

section \<open>Credentials\<close>

definition default_merchant :: "nat \<Rightarrow> merchant" where
  "default_merchant ms = \<lparr>mp_makerspace = ms, mp_provider = Stripe, mp_stripe_publishable = [],
     mp_stripe_secret = [], mp_stripe_webhook = [], mp_currency = ''inr'', mp_account = None,
     mp_status = Unconnected, mp_charges = False, mp_payouts = False, mp_assigned_at = None,
     mp_status_at = 0, mp_razorpay_key = [], mp_razorpay_secret = [], mp_razorpay_webhook = []\<rparr>"

definition merchant_row :: "nat \<Rightarrow> pay_db \<Rightarrow> merchant option" where
  "merchant_row ms s = row_get mp_makerspace ms (merchants s)"

definition for_makerspace :: "nat \<Rightarrow> pay_db \<Rightarrow> merchant" where
  "for_makerspace ms s = (case merchant_row ms s of None \<Rightarrow> default_merchant ms | Some m \<Rightarrow> m)"

definition raw_credentials_configured :: "merchant \<Rightarrow> bool" where
  "raw_credentials_configured m =
     (if mp_provider m = Razorpay
      then mp_razorpay_key m \<noteq> [] \<and> mp_razorpay_secret m \<noteq> [] \<and> mp_razorpay_webhook m \<noteq> []
      else mp_stripe_secret m \<noteq> [] \<and> mp_stripe_webhook m \<noteq> [])"

definition default_platform :: platform_connect where
  "default_platform = \<lparr>pf_publishable = [], pf_secret = [], pf_webhook = [], pf_client = [], pf_fee_bps = 0\<rparr>"

definition load_platform :: "pay_db \<Rightarrow> platform_connect" where
  "load_platform s = (case platform s of None \<Rightarrow> default_platform | Some p \<Rightarrow> p)"

definition platform_configured :: "platform_connect \<Rightarrow> bool" where
  "platform_configured p \<longleftrightarrow> pf_secret p \<noteq> [] \<and> pf_webhook p \<noteq> [] \<and> pf_client p \<noteq> []"

text \<open>Two stored secrets, decrypted; \<open>None\<close> when one cannot be.\<close>

definition decrypt_pair :: "pay_env \<Rightarrow> string \<Rightarrow> string \<Rightarrow> (string \<times> string) option" where
  "decrypt_pair env a b =
     (case (decrypt env a, decrypt env b) of (Some x, Some y) \<Rightarrow> Some (x, y) | _ \<Rightarrow> None)"

definition razorpay_source :: "pay_env \<Rightarrow> merchant \<Rightarrow> source option" where
  "razorpay_source env m =
     (if \<not> raw_credentials_configured m then None
      else case decrypt_pair env (mp_razorpay_secret m) (mp_razorpay_webhook m) of
        None \<Rightarrow> None
      | Some (secret, webhook) \<Rightarrow>
          if secret = [] \<or> webhook = [] \<or> mp_razorpay_key m = [] then None
          else Some \<lparr>so_mode = RawKeys, so_secret = secret, so_webhook = webhook,
                 so_publishable = mp_razorpay_key m, so_account = None, so_bps = 0, so_vendor = Razorpay\<rparr>)"

definition raw_source :: "string \<Rightarrow> string \<Rightarrow> string \<Rightarrow> source" where
  "raw_source secret webhook publishable = \<lparr>so_mode = RawKeys, so_secret = secret, so_webhook = webhook,
     so_publishable = publishable, so_account = None, so_bps = 0, so_vendor = Stripe\<rparr>"

definition connect_source :: "platform_connect \<Rightarrow> string \<Rightarrow> string \<Rightarrow> string option \<Rightarrow> int \<Rightarrow> source" where
  "connect_source p secret webhook account bps = \<lparr>so_mode = ConnectKeys, so_secret = secret,
     so_webhook = webhook, so_publishable = pf_publishable p, so_account = account, so_bps = bps,
     so_vendor = Stripe\<rparr>"

definition resolve_connect_source :: "pay_env \<Rightarrow> merchant \<Rightarrow> pay_db \<Rightarrow> source option" where
  "resolve_connect_source env m s =
     (if on_self_host env then None
      else if mp_account m = None \<or> mp_account m = Some [] \<or> mp_status m \<noteq> ConnectActive \<or> \<not> mp_charges m
      then None
      else let p = load_platform s
           in if \<not> platform_configured p then None
              else case decrypt_pair env (pf_secret p) (pf_webhook p) of
                None \<Rightarrow> None
              | Some (secret, webhook) \<Rightarrow>
                  if secret = [] \<or> webhook = [] then None
                  else Some (connect_source p secret webhook (mp_account m) (pf_fee_bps p)))"

definition resolve_payment_source :: "pay_env \<Rightarrow> nat \<Rightarrow> pay_db \<Rightarrow> source option" where
  "resolve_payment_source env ms s =
     (let m = for_makerspace ms s
      in if mp_provider m = Razorpay then razorpay_source env m
         else if raw_credentials_configured m
         then (case decrypt_pair env (mp_stripe_secret m) (mp_stripe_webhook m) of
                 None \<Rightarrow> None
               | Some (secret, webhook) \<Rightarrow>
                   if secret \<noteq> [] \<and> webhook \<noteq> []
                   then Some (raw_source secret webhook (mp_stripe_publishable m))
                   else resolve_connect_source env m s)
         else resolve_connect_source env m s)"

definition source_for_payment :: "pay_env \<Rightarrow> payment \<Rightarrow> pay_db \<Rightarrow> source option" where
  "source_for_payment env p s =
     (let m = for_makerspace (y_makerspace p) s
      in if y_provider p = Razorpay then razorpay_source env m
         else if y_stripe_mode p = RawKeys
         then (if \<not> raw_credentials_configured m then None
               else case decrypt_pair env (mp_stripe_secret m) (mp_stripe_webhook m) of
                 None \<Rightarrow> None
               | Some (secret, webhook) \<Rightarrow> Some (raw_source secret webhook (mp_stripe_publishable m)))
         else if on_self_host env \<or> y_account p = None \<or> y_account p = Some [] then None
         else let pf = load_platform s
              in if \<not> platform_configured pf then None
                 else case decrypt_pair env (pf_secret pf) (pf_webhook pf) of
                   None \<Rightarrow> None
                 | Some (secret, webhook) \<Rightarrow> Some (connect_source pf secret webhook (y_account p) 0))"

definition online_payments_enabled :: "pay_env \<Rightarrow> nat \<Rightarrow> string \<Rightarrow> pay_db \<Rightarrow> bool" where
  "online_payments_enabled env ms domain s \<longleftrightarrow>
     payments_module env ms \<and> payments_feature env ms ''payments.enabled'' \<and>
     payments_feature env ms (''payments.'' @ domain) \<and> resolve_payment_source env ms s \<noteq> None"

definition new_charges_allowed_locked :: "pay_env \<Rightarrow> nat \<Rightarrow> pay_db \<Rightarrow> exn + bool" where
  "new_charges_allowed_locked env ms s =
     try_then (get_makerspace ms (pay_base s)) (\<lambda>_. Inr (payments_module env ms))"

section \<open>Saving a payment\<close>

definition payment_row :: "nat \<Rightarrow> pay_db \<Rightarrow> payment option" where
  "payment_row i s = row_get y_id i (payments s)"

definition subject_of :: "payment \<Rightarrow> nat \<times> subject_type \<times> nat" where
  "subject_of p = (y_makerspace p, y_subject_type p, y_subject_id p)"

definition payment_for :: "nat \<Rightarrow> subject_type \<Rightarrow> nat \<Rightarrow> pay_db \<Rightarrow> payment option" where
  "payment_for ms ty sid s = find (\<lambda>p. subject_of p = (ms, ty, sid)) (payments s)"

definition currency_shape :: "string \<Rightarrow> bool" where
  "currency_shape c \<longleftrightarrow> length c = 3 \<and> list_all is_lower c"

definition short_text :: "nat \<Rightarrow> string option \<Rightarrow> bool" where
  "short_text n t = (case t of None \<Rightarrow> True | Some x \<Rightarrow> length x \<le> n)"

text \<open>A \<open>URLField\<close>: blank, or an address of at most 200 characters.\<close>

definition url_field_ok :: "pay_env \<Rightarrow> string \<Rightarrow> bool" where
  "url_field_ok env u \<longleftrightarrow> u = [] \<or> length u \<le> 200 \<and> url_ok env u"

definition identity_unchanged :: "payment option \<Rightarrow> payment \<Rightarrow> bool" where
  "identity_unchanged old p =
     (case old of None \<Rightarrow> False | Some q \<Rightarrow> subject_of q = subject_of p \<and> y_member q = y_member p)"

definition subject_clean :: "pay_env \<Rightarrow> payment option \<Rightarrow> payment \<Rightarrow> bool" where
  "subject_clean env old p \<longleftrightarrow> y_subject_id p = 0 \<or>
     (if y_subject_type p = SubjectMembership
      then (case membership_user env (y_makerspace p) (y_subject_id p) of
              None \<Rightarrow> identity_unchanged old p
            | Some u \<Rightarrow> y_member p = Some u)
      else identity_unchanged old p \<or> subject_exists env (y_subject_type p) (y_makerspace p) (y_subject_id p))"

text \<open>The unique keys of two rows clash; a null is no key.\<close>

definition same_key :: "'a option \<Rightarrow> 'a option \<Rightarrow> bool" where
  "same_key a b \<longleftrightarrow> a \<noteq> None \<and> a = b"

definition clashes :: "payment \<Rightarrow> payment \<Rightarrow> bool" where
  "clashes p q \<longleftrightarrow> subject_of p = subject_of q \<or> same_key (y_session p) (y_session q) \<or>
     same_key (y_intent p) (y_intent q) \<or>
     y_provider p = y_provider q \<and>
       (same_key (y_order p) (y_order q) \<or> same_key (y_external p) (y_external q))"

definition payment_unique :: "payment \<Rightarrow> payment list \<Rightarrow> bool" where
  "payment_unique p rows \<longleftrightarrow> list_all (\<lambda>q. y_id q = y_id p \<or> \<not> clashes p q) rows"

definition payment_fields_ok :: "pay_env \<Rightarrow> payment \<Rightarrow> bool" where
  "payment_fields_ok env p \<longleftrightarrow> 0 < y_amount p \<and> y_amount p \<le> max_cents \<and> currency_shape (y_currency p) \<and>
     0 \<le> y_fee p \<and> y_fee p \<le> 9223372036854775807 \<and> length (y_label p) \<le> 255 \<and>
     short_text 255 (y_order p) \<and> short_text 255 (y_external p) \<and> short_text 255 (y_account p) \<and>
     short_text 255 (y_session p) \<and> short_text 255 (y_intent p) \<and>
     url_field_ok env (y_checkout_url p) \<and> url_field_ok env (y_stripe_url p)"

definition full_clean :: "pay_env \<Rightarrow> payment option \<Rightarrow> payment \<Rightarrow> pay_db \<Rightarrow> bool" where
  "full_clean env old p s \<longleftrightarrow> payment_fields_ok env p \<and> subject_clean env old p \<and> payment_unique p (payments s)"

text \<open>The guard of \<open>Payment.save\<close> against the stored row.\<close>

definition save_guard :: "payment \<Rightarrow> payment \<Rightarrow> bool" where
  "save_guard old p \<longleftrightarrow>
     (y_status old = PayPending \<or> y_status old = y_status p \<and> y_amount old = y_amount p) \<and>
     y_provider old = y_provider p \<and> y_stripe_mode old = y_stripe_mode p \<and>
     y_account old = y_account p \<and> y_fee old = y_fee p \<and>
     (y_rail old = None \<or> y_rail old = y_rail p)"

text \<open>
  The update trigger; its flag is \<open>app.allow_waived_online_settlement\<close>.
\<close>

definition terminal_guard :: "bool \<Rightarrow> payment \<Rightarrow> payment \<Rightarrow> bool" where
  "terminal_guard allow_waived old p \<longleftrightarrow>
     y_status old = PayPending \<or> y_status p = y_status old \<and> y_amount p = y_amount old \<or>
     allow_waived \<and> y_status old = Waived \<and> y_status p = PaidOnline \<and> y_amount p = y_amount old"

definition put_payment :: "payment \<Rightarrow> pay_db \<Rightarrow> pay_db" where
  "put_payment p s = s\<lparr>payments := row_put y_id p (payments s)\<rparr>"

definition save_payment :: "pay_env \<Rightarrow> payment \<Rightarrow> pay_db \<Rightarrow> exn + pay_db" where
  "save_payment env p s =
     (case payment_row (y_id p) s of
        None \<Rightarrow> Inl DatabaseError
      | Some old \<Rightarrow>
          if \<not> save_guard old p then Inl ValidationError
          else if \<not> full_clean env (Some old) p s then Inl ValidationError
          else if \<not> terminal_guard False old p then Inl DatabaseError
          else Inr (put_payment p s))"

text \<open>\<open>Payment.objects.create(...)\<close>; the columns not given keep their defaults.\<close>

definition new_payment :: "nat \<Rightarrow> nat \<Rightarrow> subject_type \<Rightarrow> nat \<Rightarrow> nat option \<Rightarrow> nat option \<Rightarrow> string \<Rightarrow> int \<Rightarrow>
  string \<Rightarrow> nat \<Rightarrow> payment" where
  "new_payment i ms ty sid member via label amount currency created_by =
     \<lparr>y_id = i, y_makerspace = ms, y_subject_type = ty, y_subject_id = sid, y_member = member, y_via = via,
      y_label = take 255 label, y_amount = amount, y_currency = currency, y_status = PayPending,
      y_provider = Stripe, y_order = None, y_external = None, y_checkout_url = [],
      y_stripe_mode = RawKeys, y_account = None, y_fee = 0, y_rail = None, y_session = None,
      y_stripe_url = [], y_expired_at = None, y_intent = None, y_created_by = created_by\<rparr>"

definition insert_payment :: "pay_env \<Rightarrow> payment \<Rightarrow> pay_db \<Rightarrow> exn + pay_db" where
  "insert_payment env p s =
     (if full_clean env None p s then Inr (s\<lparr>payments := payments s @ [p]\<rparr>) else Inl ValidationError)"

definition pay_audit ::
  "nat option \<Rightarrow> string \<Rightarrow> payment \<Rightarrow> (string \<times> meta_value) list \<Rightarrow> pay_db \<Rightarrow> pay_db" where
  "pay_audit actor action p meta s =
     s\<lparr>pay_base := audit_record actor action (y_makerspace p) (''payment'', y_id p) meta (pay_base s)\<rparr>"

end
