(* ===== verification/Payments.thy ===== *)
theory Payments
  imports Payment_Records
begin

text \<open>
  The payment services: raising a charge (\<open>payments/services.py\<close>, \<open>offline_payments.py\<close>), settling it
  at the counter (\<open>reconciliation.py\<close>), its hosted checkout and its native intent
  (\<open>services.py\<close>, \<open>services_mobile.py\<close>), and the webhooks of the vendors
  (\<open>services_webhooks.py\<close>, \<open>terminal_settlement.py\<close>). Every service runs in one transaction, so an
  exception leaves the state it was called in, except where the text says otherwise.
\<close>

section \<open>Raising a charge\<close>

definition subject_name :: "subject_type \<Rightarrow> string" where
  "subject_name ty = (case ty of SubjectMachine \<Rightarrow> ''machine_service_request'' | SubjectBooking \<Rightarrow> ''booking''
     | SubjectEvent \<Rightarrow> ''event_registration'' | SubjectMembership \<Rightarrow> ''makerspace_membership'')"

definition vendor_name :: "vendor \<Rightarrow> string" where
  "vendor_name v = (case v of Stripe \<Rightarrow> ''stripe'' | Razorpay \<Rightarrow> ''razorpay'')"

definition mode_name :: "stripe_mode \<Rightarrow> string" where
  "mode_name m = (case m of RawKeys \<Rightarrow> ''raw'' | ConnectKeys \<Rightarrow> ''connect'')"

text \<open>The amount is logged in hundredths.\<close>

definition created_meta :: "payment \<Rightarrow> int \<Rightarrow> (string \<times> meta_value) list" where
  "created_meta p amount =
     [(''payment_id'', MInt (int (y_id p))), (''subject_type'', MStr (subject_name (y_subject_type p))),
      (''subject_id'', MInt (int (y_subject_id p))), (''amount'', MInt amount),
      (''currency'', MStr (y_currency p)),
      (''via_makerspace_id'', case y_via p of None \<Rightarrow> MNone | Some v \<Rightarrow> MInt (int v))]"

definition create_payment :: "pay_env \<Rightarrow> nat \<Rightarrow> subject_type \<Rightarrow> nat \<Rightarrow> nat option \<Rightarrow> amount \<Rightarrow> string \<Rightarrow> nat \<Rightarrow>
  nat option \<Rightarrow> string \<Rightarrow> pay_db \<Rightarrow> exn + (payment \<times> pay_db)" where
  "create_payment env ms ty sid member amount currency created_by via label s =
     try_then (new_charges_allowed_locked env ms s) (\<lambda>allowed.
     try_then (require allowed PaymentsUnavailable) (\<lambda>_.
     try_then (of_option PaymentsUnavailable (resolve_payment_source env ms s)) (\<lambda>source.
     try_then (normalize_currency currency) (\<lambda>currency.
     try_then (normalize_major_amount amount) (\<lambda>value.
     try_then (application_fee_amount (stored_amount value) (so_bps source) currency (so_vendor source)) (\<lambda>fee.
       let p = (new_payment (fresh_key y_id (payments s)) ms ty sid member via label value currency created_by)
                 \<lparr>y_provider := so_vendor source, y_stripe_mode := so_mode source,
                  y_account := so_account source, y_fee := fee\<rparr>
       in try_then (insert_payment env p s) (\<lambda>s.
            Inr (p, pay_audit (Some created_by) ''payment.created'' p (created_meta p value) s))))))))"

text \<open>
  \<open>DecimalField(max_digits=12, decimal_places=2)\<close> refuses a decimal written with more than two
  decimals, and one with more than ten digits before the point.
\<close>

definition decimal_field_ok :: "int \<Rightarrow> int \<Rightarrow> bool" where
  "decimal_field_ok c e \<longleftrightarrow> - 2 \<le> e \<and> \<bar>c * 10 ^ nat (e + 2)\<bar> \<le> max_cents"

definition create_offline_payment :: "pay_env \<Rightarrow> nat \<Rightarrow> subject_type \<Rightarrow> nat \<Rightarrow> nat option \<Rightarrow> int \<times> int \<Rightarrow> string \<Rightarrow>
  nat \<Rightarrow> string \<Rightarrow> pay_db \<Rightarrow> exn + (payment option \<times> pay_db)" where
  "create_offline_payment env ms ty sid member amount currency created_by label s =
     (if fst amount \<le> 0 then Inr (None, s)
      else try_then (new_charges_allowed_locked env ms s) (\<lambda>allowed.
        if \<not> allowed then Inr (None, s)
        else case payment_for ms ty sid s of
          Some existing \<Rightarrow> Inr (Some existing, s)
        | None \<Rightarrow>
            (let value = fst amount * 10 ^ nat (snd amount + 2);
                 p = new_payment (fresh_key y_id (payments s)) ms ty sid member None label value
                       (lowercase currency) created_by
             in case (if decimal_field_ok (fst amount) (snd amount) then insert_payment env p s
                      else Inl ValidationError) of
                  Inl e \<Rightarrow>
                    if e = IntegrityError \<or> e = ValidationError
                    then (case payment_for ms ty sid s of None \<Rightarrow> Inl e | Some p \<Rightarrow> Inr (Some p, s))
                    else Inl e
                | Inr s \<Rightarrow>
                    Inr (Some p, pay_audit (Some created_by) ''payment.created'' p (created_meta p value) s))))"

section \<open>Settling at the counter\<close>

text \<open>
  The vendor is asked to close a live rail. A failure is logged, never raised; a confirmed expiry
  is stamped on the row that the caller saves next.
\<close>

definition expire_checkout_best_effort :: "pay_env \<Rightarrow> payment \<Rightarrow> pay_db \<Rightarrow> payment" where
  "expire_checkout_best_effort env p s =
     (if y_rail p = Some NativeIntentRail \<and> y_intent p \<noteq> None \<and> y_intent p \<noteq> Some [] then p
      else let order = (if y_order p \<noteq> None \<and> y_order p \<noteq> Some [] then y_order p else y_session p)
           in case order of
                None \<Rightarrow> p
              | Some oid \<Rightarrow>
                  if oid = [] \<or> y_expired_at p \<noteq> None then p
                  else case source_for_payment env p s of
                    None \<Rightarrow> p
                  | Some src \<Rightarrow>
                      if vendor_expires env src p oid then p\<lparr>y_expired_at := Some (clock env)\<rparr> else p)"

definition cancel_pending ::
  "pay_env \<Rightarrow> nat \<Rightarrow> subject_type \<Rightarrow> nat \<Rightarrow> nat option \<Rightarrow> pay_db \<Rightarrow> exn + (payment option \<times> pay_db)" where
  "cancel_pending env ms ty sid actor s =
     (case payment_for ms ty sid s of
        None \<Rightarrow> Inr (None, s)
      | Some p \<Rightarrow>
          if y_status p \<noteq> PayPending then Inr (Some p, s)
          else let p = (expire_checkout_best_effort env p s)\<lparr>y_status := Canceled\<rparr>
               in try_then (save_payment env p s) (\<lambda>s.
                    Inr (Some p, pay_audit actor ''payment.canceled'' p [] s)))"

definition require_machine_scope :: "pay_env \<Rightarrow> nat \<Rightarrow> payment list \<Rightarrow> exn + unit" where
  "require_machine_scope env actor ps =
     (let machine = filter (\<lambda>p. y_subject_type p = SubjectMachine) ps;
          live = filter (\<lambda>p. machine_request_live env (y_subject_id p)) machine;
          orphaned = filter (\<lambda>p. \<not> machine_request_live env (y_subject_id p)) machine
      in if \<not> list_all (\<lambda>p. machine_request_covered env actor (y_subject_id p)) live then Inl PermissionDenied
         else if \<not> list_all (\<lambda>p. machine_scope_exempt env actor (y_makerspace p)) orphaned
         then Inl PermissionDenied else Inr ())"

definition subject_actions :: "subject_type list" where
  "subject_actions = [SubjectMachine, SubjectBooking, SubjectEvent, SubjectMembership]"

definition require_subject_authority :: "pay_env \<Rightarrow> nat \<Rightarrow> payment list \<Rightarrow> exn + unit" where
  "require_subject_authority env actor ps =
     for_each (\<lambda>ty _.
       let mine = filter (\<lambda>p. y_subject_type p = ty) ps
       in if mine = [] then Inr ()
          else if \<not> list_all (\<lambda>p. scope_allows env actor ty (y_makerspace p)) mine then Inl PermissionDenied
          else if ty = SubjectMachine then require_machine_scope env actor ps else Inr ())
       subject_actions ()"

definition reconcile_one :: "pay_env \<Rightarrow> nat \<Rightarrow> payment_status \<Rightarrow> payment \<Rightarrow> pay_db \<Rightarrow> exn + pay_db" where
  "reconcile_one env actor target p s =
     (let p = (expire_checkout_best_effort env p s)\<lparr>y_status := target\<rparr>
      in try_then (save_payment env p s) (\<lambda>s.
           Inr (pay_audit (Some actor)
             (if target = PaidOffline then ''payment.paid_offline'' else ''payment.waived'') p [] s)))"

definition reconcile_payments ::
  "pay_env \<Rightarrow> nat \<Rightarrow> nat \<Rightarrow> nat list \<Rightarrow> payment_status \<Rightarrow> pay_db \<Rightarrow> exn + pay_db" where
  "reconcile_payments env actor ms ids target s =
     (if target \<noteq> PaidOffline \<and> target \<noteq> Waived then Inl ValueError
      else let locked = filter (\<lambda>p. y_makerspace p = ms \<and> y_id p \<in> set ids) (payments s);
               terminal = map y_id (filter (\<lambda>p. y_status p \<noteq> PayPending) locked)
           in if length locked \<noteq> length ids then Inl NotFound
              else try_then (require_subject_authority env actor locked) (\<lambda>_.
                if terminal \<noteq> [] then Inl (PaymentConflict terminal)
                else for_each (reconcile_one env actor target) locked s))"

text \<open>\<open>mark_offline\<close> and \<open>waive\<close> leave a settled payment as it is.\<close>

definition compat_reconcile ::
  "pay_env \<Rightarrow> nat \<Rightarrow> nat \<Rightarrow> payment_status \<Rightarrow> pay_db \<Rightarrow> exn + pay_db" where
  "compat_reconcile env actor pid target s =
     (case payment_row pid s of
        None \<Rightarrow> Inl DoesNotExist
      | Some current \<Rightarrow>
          if y_status current \<noteq> PayPending then Inr s
          else reconcile_payments env actor (y_makerspace current) [pid] target s)"

section \<open>Connected accounts\<close>

text \<open>
  \<open>MakerspacePaymentSettings.save\<close> stamps the change of a status. The other columns are the ones
  the row had, so its validation passes as it did when they were saved.
\<close>

definition save_connect_status ::
  "pay_env \<Rightarrow> connect_status \<Rightarrow> bool \<Rightarrow> bool \<Rightarrow> merchant \<Rightarrow> pay_db \<Rightarrow> merchant \<times> pay_db" where
  "save_connect_status env st charges payouts m s =
     (let m = m\<lparr>mp_status := st, mp_charges := charges, mp_payouts := payouts, mp_status_at := clock env\<rparr>
      in (m, s\<lparr>merchants := row_put mp_makerspace m (merchants s)\<rparr>))"

definition update_account_status ::
  "pay_env \<Rightarrow> merchant \<Rightarrow> bool \<times> bool \<times> bool \<Rightarrow> pay_db \<Rightarrow> merchant \<times> pay_db" where
  "update_account_status env m account s =
     (case account of (charges, payouts, details) \<Rightarrow>
        save_connect_status env
          (if charges then ConnectActive else if details then ConnectRestricted else ConnectPending)
          charges payouts m s)"

definition restrict_account_status :: "pay_env \<Rightarrow> merchant \<Rightarrow> pay_db \<Rightarrow> merchant \<times> pay_db" where
  "restrict_account_status env m s = save_connect_status env ConnectRestricted False False m s"

definition refresh_connected_account ::
  "pay_env \<Rightarrow> merchant \<Rightarrow> pay_db \<Rightarrow> exn + (merchant \<times> pay_db)" where
  "refresh_connected_account env m s =
     (case mp_account m of
        None \<Rightarrow> Inl PaymentsUnavailable
      | Some account \<Rightarrow>
          if account = [] then Inl PaymentsUnavailable
          else try_then (of_option PaymentsUnavailable (account_state env account)) (\<lambda>st.
                 Inr (update_account_status env m st s)))"

section \<open>Checkout and native intent\<close>

text \<open>
  The creation of a hosted page ends in an address, in an exception, or in the refusal of a
  connected account: then the transaction is rolled back and the account is restricted in the next
  one before \<open>PaymentsUnavailable\<close> is raised.
\<close>

datatype checkout_result = CheckoutUrl string pay_db | CheckoutFails exn | AccountCannotCharge

definition checkout_source ::
  "pay_env \<Rightarrow> payment \<Rightarrow> pay_db \<Rightarrow> exn + ((source \<times> bool) \<times> pay_db)" where
  "checkout_source env p s =
     try_then (of_option PaymentsUnavailable (source_for_payment env p s)) (\<lambda>src.
       if y_stripe_mode p \<noteq> ConnectKeys then Inr ((src, True), s)
       else case merchant_row (y_makerspace p) s of
          None \<Rightarrow> Inl PaymentsUnavailable
        | Some m \<Rightarrow>
            if mp_account m \<noteq> y_account p then Inl PaymentsUnavailable
            else try_then (refresh_connected_account env m s) (\<lambda>(m, s).
                   Inr ((src, mp_status m = ConnectActive \<and> mp_charges m), s)))"

definition payable :: "payment \<Rightarrow> exn + int" where
  "payable p = validate_amount (y_amount p) (y_currency p) (y_provider p) (y_fee p)"

text \<open>What the reply of the vendor writes on the row, and the address handed out.\<close>

definition checkout_reply ::
  "payment \<Rightarrow> string option \<times> string option \<Rightarrow> exn + (payment \<times> string)" where
  "checkout_reply p reply =
     (case reply of
        (Some oid, Some url) \<Rightarrow>
          if oid = [] \<or> url = [] then Inl PaymentsUnavailable
          else if y_provider p \<noteq> Stripe
          then Inr (p\<lparr>y_order := Some oid, y_checkout_url := url\<rparr>, url)
          else Inr (p\<lparr>y_session := Some oid, y_stripe_url := url, y_expired_at := None,
                      y_order := Some oid, y_checkout_url := url\<rparr>, url)
      | _ \<Rightarrow> Inl PaymentsUnavailable)"

definition checkout_meta :: "payment \<Rightarrow> (string \<times> meta_value) list" where
  "checkout_meta p =
     [(''payment_id'', MInt (int (y_id p))), (''provider'', MStr (vendor_name (y_provider p))),
      (''subject_type'', MStr (subject_name (y_subject_type p))), (''subject_id'', MInt (int (y_subject_id p)))]"

definition open_checkout_page :: "pay_env \<Rightarrow> payment \<Rightarrow> nat option \<Rightarrow> source \<Rightarrow> int \<Rightarrow> pay_db \<Rightarrow> exn + (string \<times> pay_db)" where
  "open_checkout_page env p actor src minor s =
     (if member_url env (case y_via p of None \<Rightarrow> y_makerspace p | Some v \<Rightarrow> v) = []
      then Inl PaymentsUnavailable
      else try_then (open_checkout env src p minor) (\<lambda>reply.
           try_then (checkout_reply p reply) (\<lambda>(p, url).
           try_then (save_payment env p s) (\<lambda>s.
             Inr (url, pay_audit (Some (case actor of None \<Rightarrow> y_created_by p | Some a \<Rightarrow> a))
                         ''payment.checkout_created'' p (checkout_meta p) s)))))"

definition checkout_result_of :: "exn + (string \<times> pay_db) \<Rightarrow> checkout_result" where
  "checkout_result_of r = (case r of Inl e \<Rightarrow> CheckoutFails e | Inr (url, s) \<Rightarrow> CheckoutUrl url s)"

definition create_checkout_url_atomic :: "pay_env \<Rightarrow> nat \<Rightarrow> nat option \<Rightarrow> pay_db \<Rightarrow> checkout_result" where
  "create_checkout_url_atomic env pid actor s =
     (case payment_row pid s of
        None \<Rightarrow> CheckoutFails DoesNotExist
      | Some p \<Rightarrow>
          if y_stripe_mode p = ConnectKeys \<and> platform s = None then CheckoutFails PaymentsUnavailable
          else if y_status p \<noteq> PayPending then CheckoutUrl [] s
          else if y_rail p = Some NativeIntentRail then CheckoutFails PaymentRailConflict
          else if y_checkout_url p \<noteq> [] \<or> y_stripe_url p \<noteq> []
          then CheckoutUrl (if y_checkout_url p \<noteq> [] then y_checkout_url p else y_stripe_url p) s
          else case payable p of
            Inl e \<Rightarrow> CheckoutFails e
          | Inr minor \<Rightarrow>
              (let p = p\<lparr>y_rail := (case y_rail p of None \<Rightarrow> Some CheckoutRail | r \<Rightarrow> r)\<rparr>
               in case checkout_source env p s of
                    Inl e \<Rightarrow> CheckoutFails e
                  | Inr ((src, can_charge), s) \<Rightarrow>
                      if \<not> can_charge then AccountCannotCharge
                      else checkout_result_of (open_checkout_page env p actor src minor s)))"

text \<open>The exception or the address, and the state either way.\<close>

definition create_checkout_url :: "pay_env \<Rightarrow> nat \<Rightarrow> nat option \<Rightarrow> pay_db \<Rightarrow> (exn + string) \<times> pay_db" where
  "create_checkout_url env pid actor s =
     (case create_checkout_url_atomic env pid actor s of
        CheckoutUrl url t \<Rightarrow> (Inr url, t)
      | CheckoutFails e \<Rightarrow> (Inl e, s)
      | AccountCannotCharge \<Rightarrow>
          (case Option.bind (payment_row pid s) (\<lambda>p. merchant_row (y_makerspace p) s) of
             None \<Rightarrow> (Inl DoesNotExist, s)
           | Some m \<Rightarrow> (Inl PaymentsUnavailable, snd (restrict_account_status env m s))))"

text \<open>What the vendor's intent writes on the row; the secret is handed out.\<close>

definition attach_intent :: "pay_env \<Rightarrow> payment \<Rightarrow> nat \<Rightarrow> string option \<times> string option \<Rightarrow> pay_db \<Rightarrow>
  exn + (string \<times> pay_db)" where
  "attach_intent env p actor reply s =
     (case reply of
        (Some intent, Some secret) \<Rightarrow>
          if intent = [] \<or> secret = [] then Inl PaymentsUnavailable
          else if y_intent p \<noteq> None \<and> y_intent p \<noteq> Some [] \<and> y_intent p \<noteq> Some intent
          then Inl PaymentsUnavailable
          else if y_intent p \<noteq> None then Inr (secret, s)
          else let p = p\<lparr>y_rail := Some NativeIntentRail, y_intent := Some intent\<rparr>
               in try_then (save_payment env p s) (\<lambda>s.
                    Inr (secret, pay_audit (Some actor) ''payment.mobile_intent_created'' p
                         [(''stripe_provider'', MStr (mode_name (y_stripe_mode p)))] s))
      | _ \<Rightarrow> Inl PaymentsUnavailable)"

definition create_mobile_intent :: "pay_env \<Rightarrow> nat \<Rightarrow> nat \<Rightarrow> pay_db \<Rightarrow> exn + (string \<times> pay_db)" where
  "create_mobile_intent env pid actor s =
     try_then (of_option DoesNotExist (payment_row pid s)) (\<lambda>p.
       if y_stripe_mode p = ConnectKeys \<and> platform s = None then Inl PaymentsUnavailable
       else if y_status p \<noteq> PayPending then Inl DoesNotExist
       else if y_rail p = Some CheckoutRail then Inl PaymentRailConflict
       else if y_provider p \<noteq> Stripe then Inl PaymentsUnavailable
       else try_then (payable p) (\<lambda>minor.
       try_then (of_option PaymentsUnavailable (source_for_payment env p s)) (\<lambda>src.
         if so_vendor src \<noteq> Stripe \<or> so_publishable src = [] then Inl PaymentsUnavailable
         else try_then (checkout_source env p s) (\<lambda>((_, can_charge), s).
         try_then (require can_charge PaymentsUnavailable) (\<lambda>_.
         try_then (open_intent env src p minor) (\<lambda>reply. attach_intent env p actor reply s))))))"

end
