(* ===== verification/Bookings.thy ===== *)
theory Bookings
  imports Payments Forms_Schema
begin

text \<open>
  Bookable spaces and their bookings (\<open>bookings/models.py\<close>, \<open>services_spaces.py\<close>,
  \<open>services_rules.py\<close>, \<open>services_bookings.py\<close>, \<open>service_payments.py\<close>). Instants and lengths of time
  are in seconds. The state wraps that of the payments, because confirming a booking may raise a
  charge. Every service is one transaction. The creation of the hosted page is scheduled for after
  the commit; it is the operation \<open>create_checkout_url\<close> of the payments.
\<close>

section \<open>Rows\<close>

datatype booking_status =
  BookingPending | BookingConfirmed | BookingRejected | BookingCancelled | BookingCompleted | BookingNoShow

record bookable_space =
  h_id :: nat
  h_makerspace :: nat
  h_name :: string
  h_kind :: string
  h_description :: string
  h_capacity :: int
  h_location :: string
  h_is_public :: bool
  h_show_availability :: bool
  h_show_names :: bool
  h_approval :: string
  h_form :: json
  h_notify :: "bool option"
  h_amount :: int
  h_min_minutes :: int
  h_max_minutes :: int
  h_lead_minutes :: int
  h_advance_days :: int
  h_active :: bool
  h_created_by :: "nat option"

record booking =
  x_id :: nat
  x_space :: nat
  x_name :: string
  x_email :: string
  x_phone :: string
  x_member :: "nat option"
  x_starts :: int
  x_ends :: int
  x_status :: booking_status
  x_note :: string
  x_answers :: "answer list option"

text \<open>The account of a member who books.\<close>

record member_user =
  mu_id :: nat
  mu_display_name :: string
  mu_full_name :: string
  mu_username :: string
  mu_email :: string
  mu_phone :: string

record booking_db =
  bk_pay :: pay_db
  spaces :: "bookable_space list"
  bookings :: "booking list"

text \<open>
  The payment environment, the PII write fence, the module switch and the \<open>resource_limit\<close> of a
  makerspace for bookings.
\<close>

record booking_env =
  bk_env :: pay_env
  booking_fenced :: "nat \<Rightarrow> bool"
  bookings_module :: "nat \<Rightarrow> bool"
  booking_limit :: "nat \<Rightarrow> int option"

definition right_now :: "booking_env \<Rightarrow> int" where
  "right_now env = clock (bk_env env)"

definition space_row :: "nat \<Rightarrow> booking_db \<Rightarrow> bookable_space option" where
  "space_row i s = row_get h_id i (spaces s)"

definition booking_row :: "nat \<Rightarrow> booking_db \<Rightarrow> booking option" where
  "booking_row i s = row_get x_id i (bookings s)"

definition locked_space :: "nat \<Rightarrow> booking_db \<Rightarrow> exn + bookable_space" where
  "locked_space i s = of_option DoesNotExist (space_row i s)"

definition space_audit ::
  "nat option \<Rightarrow> string \<Rightarrow> bookable_space \<Rightarrow> string \<times> nat \<Rightarrow> (string \<times> meta_value) list \<Rightarrow> booking_db \<Rightarrow> booking_db" where
  "space_audit actor action sp tgt meta s =
     s\<lparr>bk_pay := (bk_pay s)\<lparr>pay_base := audit_record actor action (h_makerspace sp) tgt meta (pay_base (bk_pay s))\<rparr>\<rparr>"

definition booking_notify :: "string \<Rightarrow> booking \<Rightarrow> booking_db \<Rightarrow> booking_db" where
  "booking_notify event b s =
     s\<lparr>bk_pay := (bk_pay s)\<lparr>pay_base := notify (''booking_'' @ event) (x_id b) (pay_base (bk_pay s))\<rparr>\<rparr>"

section \<open>Spaces\<close>

definition space_kinds :: "string list" where
  "space_kinds = [''dev_room'', ''bench'', ''meeting'', ''other'']"

definition approval_modes :: "string list" where
  "approval_modes = [''instant'', ''approve'']"

text \<open>
  \<open>full_clean\<close> of a space, without its uniqueness and constraint checks. A \<open>custom_form\<close> is valid
  when its schema is; the validators of a field skip an empty value. The names of the changed fields
  that an update logs are left out of its audit row.
\<close>

definition positive_int :: "int \<Rightarrow> bool" where
  "positive_int n \<longleftrightarrow> 0 \<le> n \<and> n \<le> 2147483647"

definition space_clean :: "bookable_space \<Rightarrow> bool" where
  "space_clean sp \<longleftrightarrow> h_name sp \<noteq> [] \<and> length (h_name sp) \<le> 200 \<and> h_kind sp \<in> set space_kinds \<and>
     positive_int (h_capacity sp) \<and> length (h_location sp) \<le> 255 \<and>
     h_approval sp \<in> set approval_modes \<and>
     (h_form sp \<in> {JObj [], JStr []} \<or> (case validate_form_schema (h_form sp) of Inl _ \<Rightarrow> False | Inr _ \<Rightarrow> True)) \<and>
     0 \<le> h_amount sp \<and> h_amount sp \<le> max_cents \<and>
     positive_int (h_min_minutes sp) \<and> 1 \<le> h_min_minutes sp \<and>
     positive_int (h_max_minutes sp) \<and> 1 \<le> h_max_minutes sp \<and>
     positive_int (h_lead_minutes sp) \<and> positive_int (h_advance_days sp) \<and> 1 \<le> h_advance_days sp"

definition validate_public_visibility :: "bookable_space \<Rightarrow> exn + unit" where
  "validate_public_visibility sp =
     (if h_show_names sp \<and> \<not> h_show_availability sp then Inl BookerNamesRequiresAvailability else Inr ())"

definition space_constraints :: "bookable_space \<Rightarrow> bool" where
  "space_constraints sp \<longleftrightarrow> 0 \<le> h_capacity sp \<and> 1 \<le> h_min_minutes sp \<and>
     h_min_minutes sp \<le> h_max_minutes sp \<and> 1 \<le> h_advance_days sp \<and> 0 \<le> h_amount sp"

text \<open>\<open>BookableSpace.save\<close>: the name is stripped, and the makerspace is that of the stored row.\<close>

definition clean_space_name :: "bookable_space \<Rightarrow> exn + bookable_space" where
  "clean_space_name sp =
     (let sp = sp\<lparr>h_name := strip (h_name sp)\<rparr> in if h_name sp = [] then Inl ValidationError else Inr sp)"

definition save_space :: "bookable_space \<Rightarrow> booking_db \<Rightarrow> exn + booking_db" where
  "save_space sp s =
     try_then (clean_space_name sp) (\<lambda>sp.
     try_then (of_option DoesNotExist (space_row (h_id sp) s)) (\<lambda>original.
       let sp = sp\<lparr>h_makerspace := h_makerspace original\<rparr>
       in if \<not> space_constraints sp then Inl IntegrityError
          else Inr (s\<lparr>spaces := row_put h_id sp (spaces s)\<rparr>)))"

definition save_changed :: "'c list \<Rightarrow> bookable_space \<Rightarrow> booking_db \<Rightarrow> exn + booking_db" where
  "save_changed changes sp s = (if changes = [] then Inr s else save_space sp s)"

text \<open>The form stored is the canonical one; a question is stored as an object, no form as \<open>null\<close>.\<close>

definition stored_question :: "question \<Rightarrow> json" where
  "stored_question q = JObj [(''id'', JStr (k_id q)), (''label'', JStr (k_label q)),
     (''type'', JStr (type_name (k_type q))), (''options'', JList (map JStr (k_options q))),
     (''required'', JBool (k_required q))]"

definition canonical_form :: "json \<Rightarrow> exn + json" where
  "canonical_form v =
     (case validate_form_schema v of
        Inl _ \<Rightarrow> Inl ValidationError
      | Inr None \<Rightarrow> Inr JNull
      | Inr (Some qs) \<Rightarrow> Inr (JList (map stored_question qs)))"

definition new_space :: "nat \<Rightarrow> nat \<Rightarrow> nat option \<Rightarrow> string \<Rightarrow> string \<Rightarrow> string \<Rightarrow> int \<Rightarrow> string \<Rightarrow> bool \<Rightarrow> bool \<Rightarrow> bool \<Rightarrow>
  string \<Rightarrow> json \<Rightarrow> bool option \<Rightarrow> int \<Rightarrow> bookable_space" where
  "new_space i ms actor name kind description capacity location public availability names approval form notified amount =
     \<lparr>h_id = i, h_makerspace = ms, h_name = name, h_kind = kind, h_description = description,
      h_capacity = capacity, h_location = location, h_is_public = public,
      h_show_availability = availability, h_show_names = names, h_approval = approval, h_form = form,
      h_notify = notified, h_amount = amount, h_min_minutes = 30, h_max_minutes = 480,
      h_lead_minutes = 60, h_advance_days = 30, h_active = True, h_created_by = actor\<rparr>"

definition create_space :: "nat \<Rightarrow> nat option \<Rightarrow> string \<Rightarrow> string \<Rightarrow> string \<Rightarrow> int \<Rightarrow> string \<Rightarrow> bool \<Rightarrow> bool \<Rightarrow> bool \<Rightarrow>
  string \<Rightarrow> json \<Rightarrow> bool option \<Rightarrow> int \<Rightarrow> booking_db \<Rightarrow> exn + (bookable_space \<times> booking_db)" where
  "create_space ms actor name kind description capacity location public availability names approval form notified amount s =
     try_then (get_makerspace ms (pay_base (bk_pay s))) (\<lambda>_.
     try_then (canonical_form form) (\<lambda>form.
       let sp = new_space (fresh_key h_id (spaces s)) ms actor name kind description capacity location public
                  availability names approval form notified amount
       in try_then (validate_public_visibility sp) (\<lambda>_.
          try_then (require (space_clean sp) ValidationError) (\<lambda>_.
          try_then (clean_space_name sp) (\<lambda>sp.
            if \<not> space_constraints sp then Inl IntegrityError
            else Inr (sp, space_audit actor ''booking.space_created'' sp (''space'', h_id sp) []
                           (s\<lparr>spaces := spaces s @ [sp]\<rparr>)))))))"

text \<open>The keyword changes of an update; \<open>SetOther\<close> is a field that cannot be updated.\<close>

datatype space_change =
    SetName string | SetKind string | SetDescription string | SetCapacity int | SetLocation string
  | SetPublic bool | SetShowAvailability bool | SetShowNames bool | SetForm json
  | SetNotify "bool option" | SetAmount int | SetOther

fun canonical_change :: "space_change \<Rightarrow> exn + space_change" where
  "canonical_change (SetForm v) = try_then (canonical_form v) (\<lambda>f. Inr (SetForm f))"
| "canonical_change c = Inr c"

fun apply_change :: "space_change \<Rightarrow> bookable_space \<Rightarrow> bookable_space" where
  "apply_change (SetName x) sp = sp\<lparr>h_name := x\<rparr>"
| "apply_change (SetKind x) sp = sp\<lparr>h_kind := x\<rparr>"
| "apply_change (SetDescription x) sp = sp\<lparr>h_description := x\<rparr>"
| "apply_change (SetCapacity x) sp = sp\<lparr>h_capacity := x\<rparr>"
| "apply_change (SetLocation x) sp = sp\<lparr>h_location := x\<rparr>"
| "apply_change (SetPublic x) sp = sp\<lparr>h_is_public := x\<rparr>"
| "apply_change (SetShowAvailability x) sp = sp\<lparr>h_show_availability := x\<rparr>"
| "apply_change (SetShowNames x) sp = sp\<lparr>h_show_names := x\<rparr>"
| "apply_change (SetForm x) sp = sp\<lparr>h_form := x\<rparr>"
| "apply_change (SetNotify x) sp = sp\<lparr>h_notify := x\<rparr>"
| "apply_change (SetAmount x) sp = sp\<lparr>h_amount := x\<rparr>"
| "apply_change SetOther sp = sp"

definition update_space :: "nat \<Rightarrow> nat option \<Rightarrow> space_change list \<Rightarrow> booking_db \<Rightarrow> exn + booking_db" where
  "update_space i actor changes s =
     try_then (locked_space i s) (\<lambda>locked.
       if \<not> h_active locked then Inl BookingInvalidTransition
       else if SetOther \<in> set changes then Inl ValidationError
       else try_then (collect canonical_change changes) (\<lambda>changes.
         let sp = fold apply_change changes locked
         in try_then (validate_public_visibility sp) (\<lambda>_.
            try_then (require (space_clean sp) ValidationError) (\<lambda>_.
            try_then (save_changed changes sp s) (\<lambda>s.
              Inr (space_audit actor ''booking.space_updated'' sp (''space'', i) [] s))))))"

definition deactivate_space :: "nat \<Rightarrow> nat option \<Rightarrow> booking_db \<Rightarrow> exn + booking_db" where
  "deactivate_space i actor s =
     try_then (locked_space i s) (\<lambda>locked.
       if \<not> h_active locked then Inl BookingInvalidTransition
       else try_then (save_space (locked\<lparr>h_active := False\<rparr>) s) (\<lambda>s.
              Inr (space_audit actor ''booking.space_deactivated'' locked (''space'', i)
                     [(''old_status'', MStr ''active''), (''new_status'', MStr ''inactive'')] s)))"

section \<open>Booking rules\<close>

definition max_duration_minutes :: int where "max_duration_minutes = 60 * 24 * 30"

definition max_lead_minutes :: int where "max_lead_minutes = 60 * 24 * 365"

definition max_advance_days :: int where "max_advance_days = 3650"

definition enforce_booking_rules :: "bookable_space \<Rightarrow> int \<Rightarrow> int \<Rightarrow> int \<Rightarrow> exn + unit" where
  "enforce_booking_rules sp starts ends time =
     (if ends - starts < 60 * h_min_minutes sp then Inl ValidationError
      else if 60 * h_max_minutes sp < ends - starts then Inl ValidationError
      else if starts < time + 60 * h_lead_minutes sp then Inl ValidationError
      else if time + 86400 * h_advance_days sp < starts then Inl ValidationError
      else Inr ())"

datatype rule_change =
  MinDuration int | MaxDuration int | LeadTime int | AdvanceDays int | ApprovalMode string | NoRule

fun apply_rule :: "rule_change \<Rightarrow> bookable_space \<Rightarrow> bookable_space" where
  "apply_rule (MinDuration n) sp = sp\<lparr>h_min_minutes := n\<rparr>"
| "apply_rule (MaxDuration n) sp = sp\<lparr>h_max_minutes := n\<rparr>"
| "apply_rule (LeadTime n) sp = sp\<lparr>h_lead_minutes := n\<rparr>"
| "apply_rule (AdvanceDays n) sp = sp\<lparr>h_advance_days := n\<rparr>"
| "apply_rule (ApprovalMode m) sp = sp\<lparr>h_approval := m\<rparr>"
| "apply_rule NoRule sp = sp"

definition rules_valid :: "bookable_space \<Rightarrow> bool" where
  "rules_valid sp \<longleftrightarrow> 1 \<le> h_min_minutes sp \<and> 1 \<le> h_max_minutes sp \<and>
     h_min_minutes sp \<le> h_max_minutes sp \<and> h_min_minutes sp \<le> max_duration_minutes \<and>
     h_max_minutes sp \<le> max_duration_minutes \<and> 0 \<le> h_lead_minutes sp \<and>
     h_lead_minutes sp \<le> max_lead_minutes \<and> 1 \<le> h_advance_days sp \<and>
     h_advance_days sp \<le> max_advance_days \<and> h_approval sp \<in> set approval_modes"

definition update_booking_rules :: "nat \<Rightarrow> nat option \<Rightarrow> rule_change list \<Rightarrow> booking_db \<Rightarrow> exn + booking_db" where
  "update_booking_rules i actor changes s =
     (if NoRule \<in> set changes then Inl ValidationError
      else try_then (locked_space i s) (\<lambda>locked.
        if \<not> h_active locked then Inl BookingInvalidTransition
        else let sp = fold apply_rule changes locked
             in try_then (require (rules_valid sp) ValidationError) (\<lambda>_.
                try_then (save_changed changes sp s) (\<lambda>s.
                  Inr (space_audit actor ''booking.space_rules_updated'' sp (''space'', i) [] s)))))"

section \<open>Saving a booking\<close>

definition clean_booking :: "booking \<Rightarrow> exn + booking" where
  "clean_booking b =
     (let b = b\<lparr>x_name := strip (x_name b), x_email := lowercase (strip (x_email b)), x_phone := strip (x_phone b)\<rparr>
      in if x_name b = [] \<or> x_email b = [] \<or> x_phone b = [] then Inl ValidationError else Inr b)"

text \<open>The constraint \<open>booking_end_after_start\<close> is checked by the database.\<close>

definition insert_booking :: "booking \<Rightarrow> booking_db \<Rightarrow> exn + (booking \<times> booking_db)" where
  "insert_booking b s =
     try_then (clean_booking b) (\<lambda>b.
       if x_ends b \<le> x_starts b then Inl IntegrityError
       else Inr (b, s\<lparr>bookings := bookings s @ [b]\<rparr>))"

text \<open>\<open>save(update_fields=["status"])\<close>: the guards run, only the status is written.\<close>

definition save_status :: "booking \<Rightarrow> booking_status \<Rightarrow> booking_db \<Rightarrow> exn + booking_db" where
  "save_status b st s =
     try_then (clean_booking b) (\<lambda>_.
     try_then (of_option DoesNotExist (booking_row (x_id b) s)) (\<lambda>row.
       Inr (s\<lparr>bookings := row_put x_id (row\<lparr>x_status := st\<rparr>) (bookings s)\<rparr>)))"

section \<open>Charging\<close>

text \<open>
  A failure of the payment side is swallowed: the booking goes on and nothing is charged. Where the
  charge could not be raised, the savepoint leaves the payments as they were.
\<close>

definition create_for_confirmed_booking :: "booking_env \<Rightarrow> booking \<Rightarrow> nat option \<Rightarrow> booking_db \<Rightarrow> booking_db" where
  "create_for_confirmed_booking env b actor s =
     (case (space_row (x_space b) s, x_member b) of
        (Some sp, Some member) \<Rightarrow>
          if h_amount sp \<le> 0 \<or> \<not> online_payments_enabled (bk_env env) (h_makerspace sp) ''bookings'' (bk_pay s) then s
          else if payment_for (h_makerspace sp) SubjectBooking (x_id b) (bk_pay s) \<noteq> None then s
          else (case create_payment (bk_env env) (h_makerspace sp) SubjectBooking (x_id b) (Some member)
                       (stored_amount (h_amount sp)) (mp_currency (for_makerspace (h_makerspace sp) (bk_pay s)))
                       (case actor of None \<Rightarrow> member | Some a \<Rightarrow> a) None (h_name sp) (bk_pay s) of
                  Inl _ \<Rightarrow> s
                | Inr (_, pay) \<Rightarrow> s\<lparr>bk_pay := pay\<rparr>)
      | _ \<Rightarrow> s)"

definition cancel_for_booking :: "booking_env \<Rightarrow> booking \<Rightarrow> nat option \<Rightarrow> booking_db \<Rightarrow> booking_db" where
  "cancel_for_booking env b actor s =
     (case space_row (x_space b) s of
        None \<Rightarrow> s
      | Some sp \<Rightarrow>
          (case cancel_pending (bk_env env) (h_makerspace sp) SubjectBooking (x_id b) actor (bk_pay s) of
             Inl _ \<Rightarrow> s
           | Inr (_, pay) \<Rightarrow> s\<lparr>bk_pay := pay\<rparr>))"

section \<open>Booking a space\<close>

definition overlaps :: "int \<Rightarrow> int \<Rightarrow> booking \<Rightarrow> bool" where
  "overlaps starts ends b \<longleftrightarrow> x_starts b < ends \<and> starts < x_ends b"

definition confirmed_overlap :: "nat \<Rightarrow> int \<Rightarrow> int \<Rightarrow> nat option \<Rightarrow> booking_db \<Rightarrow> bool" where
  "confirmed_overlap space starts ends exclude s \<longleftrightarrow>
     list_ex (\<lambda>b. x_space b = space \<and> x_status b = BookingConfirmed \<and> overlaps starts ends b \<and>
                   Some (x_id b) \<noteq> exclude) (bookings s)"

text \<open>The counter of the quota: the open bookings of the makerspace that have not ended.\<close>

definition open_bookings :: "nat \<Rightarrow> int \<Rightarrow> booking_db \<Rightarrow> booking list" where
  "open_bookings ms time s = filter (\<lambda>b. (case space_row (x_space b) s of None \<Rightarrow> False | Some sp \<Rightarrow> h_makerspace sp = ms) \<and>
     x_status b \<in> {BookingPending, BookingConfirmed} \<and> time < x_ends b) (bookings s)"

definition check_booking_quota :: "booking_env \<Rightarrow> nat \<Rightarrow> booking_db \<Rightarrow> exn + unit" where
  "check_booking_quota env ms s =
     (case booking_limit env ms of
        None \<Rightarrow> Inr ()
      | Some limit \<Rightarrow>
          try_then (get_makerspace ms (pay_base (bk_pay s))) (\<lambda>_.
            if limit < int (length (open_bookings ms (right_now env) s)) + 1 then Inl ValidationError
            else Inr ()))"

definition require_module_locked :: "booking_env \<Rightarrow> nat \<Rightarrow> booking_db \<Rightarrow> exn + unit" where
  "require_module_locked env ms s =
     try_then (get_makerspace ms (pay_base (bk_pay s))) (\<lambda>_.
       require (bookings_module env ms) ValidationError)"

text \<open>Who books: the member's account, or the contact given.\<close>

definition booking_contact ::
  "member_user option \<Rightarrow> string option \<Rightarrow> string option \<Rightarrow> string option \<Rightarrow> string \<times> string \<times> string" where
  "booking_contact member name email phone =
     (case member of
        Some m \<Rightarrow>
          (if mu_display_name m \<noteq> [] then mu_display_name m
           else if mu_full_name m \<noteq> [] then mu_full_name m else mu_username m, mu_email m, mu_phone m)
      | None \<Rightarrow> (case name of None \<Rightarrow> [] | Some x \<Rightarrow> x, case email of None \<Rightarrow> [] | Some x \<Rightarrow> x,
                 case phone of None \<Rightarrow> [] | Some x \<Rightarrow> x))"

definition new_booking :: "nat \<Rightarrow> nat \<Rightarrow> nat option \<Rightarrow> string \<times> string \<times> string \<Rightarrow> int \<Rightarrow> int \<Rightarrow> string \<Rightarrow>
  booking_status \<Rightarrow> booking" where
  "new_booking i space member contact starts ends note st =
     (case contact of (name, email, phone) \<Rightarrow>
        \<lparr>x_id = i, x_space = space, x_name = strip name, x_email = lowercase (strip email),
         x_phone = strip phone, x_member = member, x_starts = starts, x_ends = ends, x_status = st,
         x_note = note, x_answers = None\<rparr>)"

definition validate_booking :: "booking \<Rightarrow> exn + unit" where
  "validate_booking b =
     (if x_name b = [] \<or> x_email b = [] \<or> x_phone b = [] then Inl ValidationError
      else if x_ends b \<le> x_starts b then Inl ValidationError else Inr ())"

definition form_checked :: "form_error + answer list option \<Rightarrow> exn + answer list option" where
  "form_checked r = (case r of Inl _ \<Rightarrow> Inl ValidationError | Inr a \<Rightarrow> Inr a)"

definition status_text :: "booking_status \<Rightarrow> string" where
  "status_text st = (case st of BookingPending \<Rightarrow> ''pending'' | BookingConfirmed \<Rightarrow> ''confirmed''
     | BookingRejected \<Rightarrow> ''rejected'' | BookingCancelled \<Rightarrow> ''cancelled''
     | BookingCompleted \<Rightarrow> ''completed'' | BookingNoShow \<Rightarrow> ''no_show'')"

definition create_booking :: "booking_env \<Rightarrow> nat \<Rightarrow> nat \<Rightarrow> int \<Rightarrow> int \<Rightarrow> member_user option \<Rightarrow> string option \<Rightarrow>
  string option \<Rightarrow> string option \<Rightarrow> json \<Rightarrow> string \<Rightarrow> nat option \<Rightarrow> booking_db \<Rightarrow> exn + (booking \<times> booking_db)" where
  "create_booking env space ms starts ends member name email phone answers note actor s =
     (if booking_fenced env ms then Inl PiiWriteFenced
      else try_then (locked_space space s) (\<lambda>sp.
        if \<not> h_active sp then Inl BookingInvalidTransition
        else let st = (if h_approval sp = ''instant'' then BookingConfirmed else BookingPending);
                 b = new_booking (fresh_key x_id (bookings s)) space (map_option mu_id member)
                       (booking_contact member name email phone) starts ends note st
             in try_then (validate_booking b) (\<lambda>_.
                try_then (enforce_booking_rules sp starts ends (right_now env)) (\<lambda>_.
                try_then (require (right_now env < ends) ValidationError) (\<lambda>_.
                try_then (form_checked (validate_answers (h_form sp) answers)) (\<lambda>checked.
                try_then (require_module_locked env (h_makerspace sp) s) (\<lambda>_.
                try_then (check_booking_quota env (h_makerspace sp) s) (\<lambda>_.
                  if st = BookingConfirmed \<and> confirmed_overlap space starts ends None s then Inl BookingConflict
                  else try_then (insert_booking (b\<lparr>x_answers := checked\<rparr>) s) (\<lambda>(b, s).
                    let s = booking_notify ''created'' b
                              (space_audit actor ''booking.created'' sp (''booking'', x_id b)
                                 [(''booking_id'', MInt (int (x_id b))), (''status'', MStr (status_text st))] s)
                    in Inr (b, if st = BookingConfirmed then create_for_confirmed_booking env b actor s else s))))))))))"

definition locked_booking :: "booking \<Rightarrow> booking_db \<Rightarrow> exn + (bookable_space \<times> booking)" where
  "locked_booking b s =
     try_then (locked_space (x_space b) s) (\<lambda>sp.
     try_then (of_option DoesNotExist (booking_row (x_id b) s)) (\<lambda>locked.
       if x_space locked \<noteq> h_id sp then Inl BookingInvalidTransition else Inr (sp, locked)))"

definition moved_meta :: "booking \<Rightarrow> booking_status \<Rightarrow> (string \<times> meta_value) list" where
  "moved_meta b st = [(''booking_id'', MInt (int (x_id b))), (''old_status'', MStr (status_text (x_status b))),
     (''new_status'', MStr (status_text st))]"

text \<open>The status is saved, logged and notified.\<close>

definition move_booking :: "nat option \<Rightarrow> string \<Rightarrow> string \<Rightarrow> bookable_space \<Rightarrow> booking \<Rightarrow> booking_status \<Rightarrow>
  booking_db \<Rightarrow> exn + booking_db" where
  "move_booking actor action event sp b st s =
     try_then (save_status b st s) (\<lambda>s.
       Inr (booking_notify event b (space_audit actor action sp (''booking'', x_id b) (moved_meta b st) s)))"

definition approve_booking :: "booking_env \<Rightarrow> booking \<Rightarrow> nat option \<Rightarrow> booking_db \<Rightarrow> exn + booking_db" where
  "approve_booking env seen actor s =
     try_then (locked_booking seen s) (\<lambda>(sp, b).
       if x_status b \<noteq> BookingPending then Inl BookingInvalidTransition
       else if \<not> h_active sp then Inl BookingInvalidTransition
       else if x_ends b \<le> right_now env then Inl BookingInvalidTransition
       else if confirmed_overlap (h_id sp) (x_starts b) (x_ends b) (Some (x_id b)) s then Inl BookingConflict
       else try_then (move_booking actor ''booking.approved'' ''confirmed'' sp b BookingConfirmed s) (\<lambda>s.
         Inr (create_for_confirmed_booking env b actor s)))"

definition reject_booking :: "booking \<Rightarrow> nat option \<Rightarrow> booking_db \<Rightarrow> exn + booking_db" where
  "reject_booking seen actor s =
     try_then (locked_booking seen s) (\<lambda>(sp, b).
       if x_status b \<noteq> BookingPending then Inl BookingInvalidTransition
       else move_booking actor ''booking.rejected'' ''rejected'' sp b BookingRejected s)"

definition transition_booking :: "booking_env \<Rightarrow> booking \<Rightarrow> nat option \<Rightarrow> booking_status \<Rightarrow> string \<Rightarrow> string \<Rightarrow> bool \<Rightarrow>
  booking_db \<Rightarrow> exn + booking_db" where
  "transition_booking env seen actor st action event require_ended s =
     try_then (locked_booking seen s) (\<lambda>(sp, b).
       if x_status b \<noteq> BookingConfirmed then Inl BookingInvalidTransition
       else if require_ended \<and> right_now env < x_ends b then Inl BookingInvalidTransition
       else move_booking actor action event sp b st s)"

definition cancel_booking :: "booking_env \<Rightarrow> booking \<Rightarrow> nat option \<Rightarrow> booking_db \<Rightarrow> exn + booking_db" where
  "cancel_booking env seen actor s =
     try_then (transition_booking env seen actor BookingCancelled ''booking.cancelled'' ''cancelled'' False s) (\<lambda>s.
       Inr (case booking_row (x_id seen) s of None \<Rightarrow> s | Some b \<Rightarrow> cancel_for_booking env b actor s))"

definition complete_booking :: "booking_env \<Rightarrow> booking \<Rightarrow> nat option \<Rightarrow> booking_db \<Rightarrow> exn + booking_db" where
  "complete_booking env seen actor =
     transition_booking env seen actor BookingCompleted ''booking.completed'' ''completed'' True"

definition mark_no_show :: "booking_env \<Rightarrow> booking \<Rightarrow> nat option \<Rightarrow> booking_db \<Rightarrow> exn + booking_db" where
  "mark_no_show env seen actor =
     transition_booking env seen actor BookingNoShow ''booking.no_show_marked'' ''no_show'' True"

section \<open>The booking machine\<close>

datatype booking_op =
    CreateSpace nat "nat option" string string string int string bool bool bool string json "bool option" int
  | UpdateSpace nat "nat option" "space_change list"
  | DeactivateSpace nat "nat option"
  | UpdateRules nat "nat option" "rule_change list"
  | Book nat nat int int "member_user option" "string option" "string option" "string option" json string "nat option"
  | Approve booking "nat option"
  | Reject booking "nat option"
  | CancelBooking booking "nat option"
  | Complete booking "nat option"
  | NoShow booking "nat option"

fun booking_step :: "booking_env \<times> booking_op \<Rightarrow> booking_db \<Rightarrow> exn + booking_db" where
  "booking_step (env, CreateSpace ms actor name kind d c l p av nm ap f n a) s =
     try_then (create_space ms actor name kind d c l p av nm ap f n a s) (\<lambda>(_, t). Inr t)"
| "booking_step (env, UpdateSpace i actor changes) s = update_space i actor changes s"
| "booking_step (env, DeactivateSpace i actor) s = deactivate_space i actor s"
| "booking_step (env, UpdateRules i actor changes) s = update_booking_rules i actor changes s"
| "booking_step (env, Book i ms a b member name email phone answers note actor) s =
     try_then (create_booking env i ms a b member name email phone answers note actor s) (\<lambda>(_, t). Inr t)"
| "booking_step (env, Approve b actor) s = approve_booking env b actor s"
| "booking_step (env, Reject b actor) s = reject_booking b actor s"
| "booking_step (env, CancelBooking b actor) s = cancel_booking env b actor s"
| "booking_step (env, Complete b actor) s = complete_booking env b actor s"
| "booking_step (env, NoShow b actor) s = mark_no_show env b actor s"

end
