(* ===== verification/Payment_Webhooks.thy ===== *)
theory Payment_Webhooks
  imports Payments
begin

text \<open>
  The webhooks of the vendors (\<open>payments/services_webhooks.py\<close>) and money that arrives after a
  charge was settled otherwise (\<open>payments/terminal_settlement.py\<close>). A verified event is a record of
  the fields the code reads; an absent one and an empty one both count as missing.
\<close>

record stripe_event =
  we_id :: "string option"
  we_type :: string
  we_object_id :: "string option"
  we_intent :: "string option"
  we_payment_status :: "string option"
  we_account :: "string option"
  we_created :: "int option"

record razorpay_event =
  rz_event_id :: string
  rz_is_paid :: bool
  rz_order_id :: string
  rz_payment_id :: string

definition truthy :: "string option \<Rightarrow> string option" where
  "truthy x = (if x = Some [] then None else x)"

definition or_else :: "string option \<Rightarrow> string option \<Rightarrow> string option" where
  "or_else a b = (case truthy a of None \<Rightarrow> b | Some x \<Rightarrow> Some x)"

section \<open>Claiming an event\<close>

definition event_claimed :: "nat \<Rightarrow> vendor \<Rightarrow> string \<Rightarrow> pay_db \<Rightarrow> bool" where
  "event_claimed ms v eid s \<longleftrightarrow>
     (\<exists>e \<in> set (processed s). pe_makerspace e = ms \<and> pe_provider e = v \<and> pe_event e = eid)"

text \<open>\<open>None\<close>: the event was claimed before. The column holds 255 characters.\<close>

definition record_once :: "nat \<Rightarrow> string \<Rightarrow> vendor \<Rightarrow> pay_db \<Rightarrow> exn + pay_db option" where
  "record_once ms eid v s =
     (if 255 < length eid then Inl DataError
      else if event_claimed ms v eid s then Inr None
      else Inr (Some (s\<lparr>processed := processed s @
             [\<lparr>pe_makerspace = ms, pe_provider = v, pe_event = eid\<rparr>]\<rparr>)))"

section \<open>Money after settlement\<close>

text \<open>
  The update that bypasses \<open>Payment.save\<close>, under the trigger's flag; the unique keys still hold.
\<close>

definition promote_waived_to_paid_online ::
  "payment \<Rightarrow> string option \<Rightarrow> pay_db \<Rightarrow> exn + (payment \<times> pay_db)" where
  "promote_waived_to_paid_online p intent s =
     (case payment_row (y_id p) s of
        None \<Rightarrow> Inl RuntimeError
      | Some old \<Rightarrow>
          if y_status old \<noteq> Waived then Inl RuntimeError
          else let paid = (\<lambda>q. q\<lparr>y_status := PaidOnline,
                                  y_intent := (case truthy intent of None \<Rightarrow> y_intent q | Some i \<Rightarrow> Some i)\<rparr>)
               in if \<not> terminal_guard True old (paid old) then Inl DatabaseError
                  else if \<not> short_text 255 (y_intent (paid old)) then Inl DataError
                  else if \<not> payment_unique (paid old) (payments s) then Inl IntegrityError
                  else Inr (paid p, put_payment (paid old) s))"

definition status_name :: "payment_status \<Rightarrow> string" where
  "status_name st = (case st of PayPending \<Rightarrow> ''pending'' | PaidOnline \<Rightarrow> ''paid_online''
     | PaidOffline \<Rightarrow> ''paid_offline'' | Waived \<Rightarrow> ''waived'' | Canceled \<Rightarrow> ''canceled'')"

definition paid_after_terminal :: "(string \<times> meta_value) list \<Rightarrow> payment \<Rightarrow> string option \<Rightarrow> pay_db \<Rightarrow>
  exn + (payment \<times> pay_db)" where
  "paid_after_terminal meta p intent s =
     try_then (if y_status p = Waived then promote_waived_to_paid_online p intent s else Inr (p, s)) (\<lambda>(p', s).
       let s = pay_audit None ''payment.paid_after_terminal'' p'
                 (meta @ [(''prior_status'', MStr (status_name (y_status p))),
                          (''resolved_status'', MStr (status_name (y_status p')))]) s
       in Inr (p', if y_status p = PaidOffline
                   then pay_audit None ''payment.double_paid_refund_required'' p'
                          (meta @ [(''prior_status'', MStr (status_name (y_status p)))]) s
                   else s))"

definition handle_stripe_paid_after_terminal ::
  "payment \<Rightarrow> string \<Rightarrow> string option \<Rightarrow> pay_db \<Rightarrow> exn + (payment \<times> pay_db)" where
  "handle_stripe_paid_after_terminal p eid intent s =
     paid_after_terminal [(''stripe_event_id'', MStr eid)] p intent s"

definition handle_razorpay_paid_after_terminal ::
  "payment \<Rightarrow> string \<Rightarrow> pay_db \<Rightarrow> exn + (payment \<times> pay_db)" where
  "handle_razorpay_paid_after_terminal p eid s =
     paid_after_terminal [(''provider'', MStr ''razorpay''), (''event_id'', MStr eid)] p None s"

section \<open>Stripe\<close>

definition session_types :: "string list" where
  "session_types = [''checkout.session.completed'', ''checkout.session.async_payment_succeeded'',
     ''checkout.session.expired'']"

definition session_of :: "stripe_event \<Rightarrow> string option" where
  "session_of ev = (if we_type ev \<in> set session_types then truthy (we_object_id ev) else None)"

definition intent_of :: "stripe_event \<Rightarrow> string option" where
  "intent_of ev = truthy (or_else (we_intent ev)
     (if we_type ev = ''payment_intent.succeeded'' then we_object_id ev else None))"

text \<open>\<open>filter(Q(session) | Q(intent)).first()\<close>: the newest of the matching payments.\<close>

definition identified :: "string option \<Rightarrow> string option \<Rightarrow> payment \<Rightarrow> bool" where
  "identified session intent p \<longleftrightarrow>
     session \<noteq> None \<and> y_session p = session \<or> intent \<noteq> None \<and> y_intent p = intent"

definition newest :: "(payment \<Rightarrow> bool) \<Rightarrow> pay_db \<Rightarrow> payment option" where
  "newest P s = find P (rev (payments s))"

definition expire_session :: "pay_env \<Rightarrow> string \<Rightarrow> payment \<Rightarrow> pay_db \<Rightarrow> exn + (payment option \<times> pay_db)" where
  "expire_session env eid p s =
     (let p = p\<lparr>y_expired_at := Some (clock env), y_session := None, y_stripe_url := [],
                y_order := None, y_checkout_url := []\<rparr>
      in try_then (save_payment env p s) (\<lambda>s.
           Inr (Some p, pay_audit None ''payment.checkout_expired'' p [(''stripe_event_id'', MStr eid)] s)))"

definition settle_online :: "pay_env \<Rightarrow> (string \<times> meta_value) list \<Rightarrow> payment \<Rightarrow> pay_db \<Rightarrow>
  exn + (payment option \<times> pay_db)" where
  "settle_online env meta p s =
     (let p = p\<lparr>y_status := PaidOnline\<rparr>
      in try_then (save_payment env p s) (\<lambda>s. Inr (Some p, pay_audit None ''payment.paid_online'' p meta s)))"

definition apply_to_payment :: "pay_env \<Rightarrow> stripe_event \<Rightarrow> string \<Rightarrow> payment \<Rightarrow> pay_db \<Rightarrow> exn + (payment option \<times> pay_db)" where
  "apply_to_payment env ev eid p s =
     (if we_type ev = ''checkout.session.expired'' then expire_session env eid p s
      else if y_status p \<noteq> PayPending
      then try_then (handle_stripe_paid_after_terminal p eid (intent_of ev) s) (\<lambda>(p, s). Inr (Some p, s))
      else settle_online env [(''stripe_event_id'', MStr eid)]
             (p\<lparr>y_intent := (case intent_of ev of None \<Rightarrow> y_intent p | Some i \<Rightarrow> Some i)\<rparr>) s)"

definition relevant_event :: "stripe_event \<Rightarrow> bool" where
  "relevant_event ev \<longleftrightarrow>
     (we_type ev \<in> set session_types \<or> we_type ev = ''payment_intent.succeeded'') \<and>
     (we_type ev = ''checkout.session.completed'' \<longrightarrow> we_payment_status ev \<in> {Some ''paid'', None})"

definition apply_webhook_event :: "pay_env \<Rightarrow> nat \<Rightarrow> stripe_event \<Rightarrow> stripe_mode \<Rightarrow> string option \<Rightarrow> pay_db \<Rightarrow>
  exn + (payment option \<times> pay_db)" where
  "apply_webhook_event env ms ev mode account s =
     (case truthy (we_id ev) of
        None \<Rightarrow> Inr (None, s)
      | Some eid \<Rightarrow>
          if \<not> servable env ms \<or> \<not> relevant_event ev then Inr (None, s)
          else if session_of ev = None \<and> intent_of ev = None then Inr (None, s)
          else case newest (\<lambda>p. y_makerspace p = ms \<and> y_stripe_mode p = mode \<and>
                              (account = None \<or> y_account p = account) \<and>
                              identified (session_of ev) (intent_of ev) p) s of
            None \<Rightarrow> Inr (None, s)
          | Some p \<Rightarrow>
              try_then (record_once ms eid Stripe s) (\<lambda>claimed.
                case claimed of None \<Rightarrow> Inr (None, s) | Some s \<Rightarrow> apply_to_payment env ev eid p s))"

text \<open>\<open>str.startswith\<close>.\<close>

definition starts_with :: "string \<Rightarrow> string \<Rightarrow> bool" where
  "starts_with pre s \<longleftrightarrow> take (length pre) s = pre"

text \<open>An event older than the second in which the account was assigned is stale.\<close>

definition event_is_stale :: "int option \<Rightarrow> int option \<Rightarrow> bool" where
  "event_is_stale created assigned =
     (case created of None \<Rightarrow> True
      | Some c \<Rightarrow> (case assigned of None \<Rightarrow> False | Some a \<Rightarrow> c < a))"

definition merchant_audit :: "string \<Rightarrow> merchant \<Rightarrow> string \<Rightarrow> pay_db \<Rightarrow> pay_db" where
  "merchant_audit action m eid s =
     s\<lparr>pay_base := audit_record None action (mp_makerspace m) (''payment_settings'', mp_makerspace m)
          [(''stripe_event_id'', MStr eid)] (pay_base s)\<rparr>"

definition account_effect :: "pay_env \<Rightarrow> string \<Rightarrow> string \<Rightarrow> int option \<Rightarrow> merchant \<Rightarrow> pay_db \<Rightarrow> pay_db" where
  "account_effect env eid etype created m s =
     (if etype = ''account.application.deauthorized'' \<and> event_is_stale created (mp_assigned_at m)
      then merchant_audit ''payments.connect_deauthorization_ignored'' m eid s
      else if etype = ''account.application.deauthorized''
      then merchant_audit ''payments.connect_deauthorized'' m eid
             (snd (save_connect_status env ConnectDisconnected False False m s))
      else if mp_status m = ConnectDisconnected
      then merchant_audit ''payments.connect_status_update_ignored'' m eid s
      else merchant_audit ''payments.connect_status_updated'' m eid
             (case refresh_connected_account env m s of
                Inr (_, s') \<Rightarrow> s'
              | Inl _ \<Rightarrow> snd (restrict_account_status env m s)))"

definition apply_account_event :: "pay_env \<Rightarrow> string \<Rightarrow> string \<Rightarrow> string \<Rightarrow> int option \<Rightarrow> pay_db \<Rightarrow> exn + pay_db" where
  "apply_account_event env eid etype account created s =
     (case find (\<lambda>m. mp_account m = Some account) (merchants s) of
        None \<Rightarrow> Inr s
      | Some m \<Rightarrow>
          if \<not> servable env (mp_makerspace m) then Inr s
          else try_then (record_once (mp_makerspace m) eid Stripe s) (\<lambda>claimed.
            case claimed of None \<Rightarrow> Inr s | Some s \<Rightarrow> Inr (account_effect env eid etype created m s)))"

definition apply_connect_webhook_event :: "pay_env \<Rightarrow> stripe_event \<Rightarrow> pay_db \<Rightarrow> exn + pay_db" where
  "apply_connect_webhook_event env ev s =
     (case (truthy (we_id ev), truthy (or_else (we_account ev) (we_object_id ev))) of
        (Some eid, Some account) \<Rightarrow>
          if we_type ev = ''account.updated'' \<or> we_type ev = ''account.application.deauthorized''
          then apply_account_event env eid (we_type ev) account (we_created ev) s
          else let session = (if starts_with ''checkout.session.'' (we_type ev)
                              then truthy (we_object_id ev) else None);
                   intent = intent_of ev
               in if session = None \<and> intent = None then Inr s
                  else (case newest (\<lambda>p. y_stripe_mode p = ConnectKeys \<and> y_account p = Some account \<and>
                                    identified session intent p) s of
                     None \<Rightarrow> Inr s
                   | Some p \<Rightarrow>
                       try_then (apply_webhook_event env (y_makerspace p) ev ConnectKeys (Some account) s)
                         (\<lambda>(_, s). Inr s))
      | _ \<Rightarrow> Inr s)"

section \<open>Razorpay\<close>

definition razorpay_to_payment :: "pay_env \<Rightarrow> razorpay_event \<Rightarrow> payment \<Rightarrow> pay_db \<Rightarrow> exn + (payment option \<times> pay_db)" where
  "razorpay_to_payment env ev p s =
     (if y_status p \<noteq> PayPending
      then try_then (handle_razorpay_paid_after_terminal p (rz_event_id ev) s) (\<lambda>(p, s). Inr (Some p, s))
      else settle_online env
             [(''provider'', MStr ''razorpay''), (''event_id'', MStr (rz_event_id ev))]
             (if rz_payment_id ev \<noteq> [] \<and> truthy (y_external p) = None
              then p\<lparr>y_external := Some (rz_payment_id ev)\<rparr> else p) s)"

definition razorpay_identified :: "razorpay_event \<Rightarrow> payment \<Rightarrow> bool" where
  "razorpay_identified ev p \<longleftrightarrow>
     rz_order_id ev \<noteq> [] \<and> y_order p = Some (rz_order_id ev) \<or>
     rz_payment_id ev \<noteq> [] \<and> y_external p = Some (rz_payment_id ev)"

definition apply_razorpay_webhook_event :: "pay_env \<Rightarrow> nat \<Rightarrow> razorpay_event \<Rightarrow> pay_db \<Rightarrow>
  exn + (payment option \<times> pay_db)" where
  "apply_razorpay_webhook_event env ms ev s =
     (if \<not> servable env ms \<or> rz_event_id ev = [] \<or> \<not> rz_is_paid ev then Inr (None, s)
      else if rz_order_id ev = [] \<and> rz_payment_id ev = [] then Inr (None, s)
      else case newest (\<lambda>p. y_makerspace p = ms \<and> y_provider p = Razorpay \<and> razorpay_identified ev p) s of
        None \<Rightarrow> Inr (None, s)
      | Some p \<Rightarrow>
          try_then (record_once ms (rz_event_id ev) Razorpay s) (\<lambda>claimed.
            case claimed of None \<Rightarrow> Inr (None, s) | Some s \<Rightarrow> razorpay_to_payment env ev p s))"

section \<open>The payment machine\<close>

text \<open>
  The services as operations, each in the environment of its own moment. The creation of a hosted
  page keeps what it wrote even when it raises: the restriction of an account.
\<close>

datatype pay_op =
    CreatePayment nat subject_type nat "nat option" amount string nat "nat option" string
  | CreateOffline nat subject_type nat "nat option" "int \<times> int" string nat string
  | CancelPending nat subject_type nat "nat option"
  | Reconcile nat nat "nat list" payment_status
  | MarkOne nat nat payment_status
  | CheckoutPage nat "nat option"
  | MobileIntent nat nat
  | StripeHook nat stripe_event
  | ConnectHook stripe_event
  | RazorpayHook nat razorpay_event

fun pay_step :: "pay_env \<times> pay_op \<Rightarrow> pay_db \<Rightarrow> exn + pay_db" where
  "pay_step (env, CreatePayment ms ty sid member amount currency by via label) s =
     try_then (create_payment env ms ty sid member amount currency by via label s) (\<lambda>(_, t). Inr t)"
| "pay_step (env, CreateOffline ms ty sid member amount currency by label) s =
     try_then (create_offline_payment env ms ty sid member amount currency by label s) (\<lambda>(_, t). Inr t)"
| "pay_step (env, CancelPending ms ty sid actor) s =
     try_then (cancel_pending env ms ty sid actor s) (\<lambda>(_, t). Inr t)"
| "pay_step (env, Reconcile actor ms ids target) s = reconcile_payments env actor ms ids target s"
| "pay_step (env, MarkOne actor pid target) s = compat_reconcile env actor pid target s"
| "pay_step (env, CheckoutPage pid actor) s = Inr (snd (create_checkout_url env pid actor s))"
| "pay_step (env, MobileIntent pid actor) s =
     try_then (create_mobile_intent env pid actor s) (\<lambda>(_, t). Inr t)"
| "pay_step (env, StripeHook ms ev) s =
     try_then (apply_webhook_event env ms ev RawKeys None s) (\<lambda>(_, t). Inr t)"
| "pay_step (env, ConnectHook ev) s = apply_connect_webhook_event env ev s"
| "pay_step (env, RazorpayHook ms ev) s =
     try_then (apply_razorpay_webhook_event env ms ev s) (\<lambda>(_, t). Inr t)"

end
