(* ===== verification/Payment_Safety.thy ===== *)
theory Payment_Safety
  imports Payment_Webhooks
begin

text \<open>
  What every payment service keeps: the table stays well-formed (one row per subject, unique vendor
  ids, a chargeable amount, one rail), no payment disappears, what a charge is about never changes,
  its status only moves along the settlement graph, and no claimed event is forgotten.
\<close>

section \<open>The settlement graph\<close>

inductive pay_move :: "payment_status \<Rightarrow> payment_status \<Rightarrow> bool" where
  stays: "pay_move st st"
| settled: "st \<noteq> PayPending \<Longrightarrow> pay_move PayPending st"
| late_money: "pay_move Waived PaidOnline"

code_pred pay_move .

inductive_simps pay_move_simps [simp]:
  "pay_move PayPending st" "pay_move PaidOnline st" "pay_move PaidOffline st" "pay_move Waived st"
  "pay_move Canceled st"

lemma pay_move_from_pending [simp]: "pay_move PayPending st"
  by (cases st) (auto intro: pay_move.intros)

lemma pay_move_trans: "pay_move a b \<Longrightarrow> pay_move b c \<Longrightarrow> pay_move a c"
  by (cases a; cases b; simp)

section \<open>The invariant\<close>

definition one_rail :: "payment \<Rightarrow> bool" where
  "one_rail p \<longleftrightarrow> y_rail p = Some CheckoutRail \<or>
     y_session p = None \<and> y_order p = None \<and> y_checkout_url p = [] \<and> y_stripe_url p = []"

definition fee_sound :: "payment \<Rightarrow> bool" where
  "fee_sound p \<longleftrightarrow> y_fee p = 0 \<or> (\<exists>charge. payable p = Inr charge)"

definition payment_sound :: "payment \<Rightarrow> bool" where
  "payment_sound p \<longleftrightarrow> 0 < y_amount p \<and> y_amount p \<le> max_cents \<and> currency_shape (y_currency p) \<and>
     fee_sound p \<and> one_rail p"

definition pay_ok :: "pay_db \<Rightarrow> bool" where
  "pay_ok s \<longleftrightarrow> unique_keys y_id (payments s) \<and>
     (\<forall>p \<in> set (payments s). payment_sound p \<and> payment_unique p (payments s))"

definition frozen :: "payment \<Rightarrow> payment" where
  "frozen p = p\<lparr>y_status := PayPending, y_order := None, y_external := None, y_checkout_url := [],
     y_rail := None, y_session := None, y_stripe_url := [], y_expired_at := None, y_intent := None\<rparr>"

definition successor :: "payment \<Rightarrow> payment \<Rightarrow> bool" where
  "successor p q \<longleftrightarrow> frozen q = frozen p \<and> pay_move (y_status p) (y_status q) \<and>
     (y_rail p = None \<or> y_rail q = y_rail p)"

definition payments_persist :: "pay_db \<Rightarrow> pay_db \<Rightarrow> bool" where
  "payments_persist s t \<longleftrightarrow>
     (\<forall>i p. payment_row i s = Some p \<longrightarrow> (\<exists>q. payment_row i t = Some q \<and> successor p q)) \<and>
     set (processed s) \<subseteq> set (processed t)"

definition keeps_payments :: "pay_db \<Rightarrow> pay_db \<Rightarrow> bool" where
  "keeps_payments s t \<longleftrightarrow> (pay_ok s \<longrightarrow> pay_ok t) \<and> payments_persist s t"

lemma frozen_eq [simp]:
  "frozen (p\<lparr>y_status := st\<rparr>) = frozen p" "frozen (p\<lparr>y_rail := r\<rparr>) = frozen p"
  "frozen (p\<lparr>y_order := x\<rparr>) = frozen p" "frozen (p\<lparr>y_external := x\<rparr>) = frozen p"
  "frozen (p\<lparr>y_checkout_url := u\<rparr>) = frozen p" "frozen (p\<lparr>y_stripe_url := u\<rparr>) = frozen p"
  "frozen (p\<lparr>y_session := x\<rparr>) = frozen p" "frozen (p\<lparr>y_expired_at := n\<rparr>) = frozen p"
  "frozen (p\<lparr>y_intent := x\<rparr>) = frozen p"
  by (simp_all add: frozen_def)

lemma frozenD:
  assumes "frozen q = frozen p"
  shows "y_id q = y_id p" "subject_of q = subject_of p" "y_amount q = y_amount p" "y_currency q = y_currency p"
    "y_provider q = y_provider p" "y_fee q = y_fee p" "y_stripe_mode q = y_stripe_mode p"
    "y_account q = y_account p" "y_member q = y_member p"
proof -
  have "y_id (frozen q) = y_id (frozen p)" "subject_of (frozen q) = subject_of (frozen p)"
    "y_amount (frozen q) = y_amount (frozen p)" "y_currency (frozen q) = y_currency (frozen p)"
    "y_provider (frozen q) = y_provider (frozen p)" "y_fee (frozen q) = y_fee (frozen p)"
    "y_stripe_mode (frozen q) = y_stripe_mode (frozen p)" "y_account (frozen q) = y_account (frozen p)"
    "y_member (frozen q) = y_member (frozen p)"
    using assms by simp_all
  then show "y_id q = y_id p" "subject_of q = subject_of p" "y_amount q = y_amount p" "y_currency q = y_currency p"
    "y_provider q = y_provider p" "y_fee q = y_fee p" "y_stripe_mode q = y_stripe_mode p"
    "y_account q = y_account p" "y_member q = y_member p"
    by (simp_all add: frozen_def subject_of_def)
qed

lemma successor_refl [simp]: "successor p p"
  by (simp add: successor_def pay_move.stays)

lemma successor_trans: "successor p q \<Longrightarrow> successor q r \<Longrightarrow> successor p r"
  by (auto simp: successor_def intro: pay_move_trans)

lemma payments_persist_refl [simp]: "payments_persist s s"
  by (auto simp: payments_persist_def)

lemma payments_persist_trans: "payments_persist s t \<Longrightarrow> payments_persist t u \<Longrightarrow> payments_persist s u"
  unfolding payments_persist_def by (meson order_trans successor_trans)

lemma keeps_payments_refl [simp]: "keeps_payments s s"
  by (simp add: keeps_payments_def)

lemma keeps_payments_trans: "keeps_payments s t \<Longrightarrow> keeps_payments t u \<Longrightarrow> keeps_payments s u"
  unfolding keeps_payments_def using payments_persist_trans by blast

text \<open>Only the payment tables matter.\<close>

lemma pay_ok_cong: "payments t = payments s \<Longrightarrow> pay_ok t = pay_ok s"
  by (simp add: pay_ok_def)

lemma payments_persist_cong:
  "payments t = payments u \<Longrightarrow> processed t = processed u \<Longrightarrow> payments_persist s t = payments_persist s u"
  by (simp add: payments_persist_def payment_row_def)

lemma keeps_payments_cong:
  "payments t = payments u \<Longrightarrow> processed t = processed u \<Longrightarrow> keeps_payments s t = keeps_payments s u"
  unfolding keeps_payments_def using payments_persist_cong pay_ok_cong by metis

lemma pay_audit_simps [simp]:
  "payments (pay_audit a act p m s) = payments s" "processed (pay_audit a act p m s) = processed s"
  "merchants (pay_audit a act p m s) = merchants s" "platform (pay_audit a act p m s) = platform s"
  "payment_row i (pay_audit a act p m s) = payment_row i s"
  by (simp_all add: pay_audit_def payment_row_def)

lemma keeps_payments_quiet [simp]:
  "keeps_payments s (pay_audit a act p m t) = keeps_payments s t"
  "keeps_payments s (merchant_audit act' mer eid t) = keeps_payments s t"
  "keeps_payments s (t\<lparr>merchants := ms\<rparr>) = keeps_payments s t"
  by (rule keeps_payments_cong; simp add: merchant_audit_def)+

lemma payment_row_mem: "pay_ok s \<Longrightarrow> p \<in> set (payments s) \<Longrightarrow> payment_row (y_id p) s = Some p"
  by (auto simp: pay_ok_def payment_row_def intro: row_get_unique)

lemma payment_row_SomeD: "payment_row i s = Some p \<Longrightarrow> p \<in> set (payments s) \<and> y_id p = i"
  unfolding payment_row_def by (rule row_get_SomeD)

lemma payment_row_put:
  "payment_row i (put_payment p s) = (if i = y_id p then map_option (\<lambda>_. p) (payment_row i s) else payment_row i s)"
  by (simp add: payment_row_def put_payment_def row_get_row_put)

lemma put_payment_simps [simp]:
  "processed (put_payment p s) = processed s" "merchants (put_payment p s) = merchants s"
  "platform (put_payment p s) = platform s" "payments (put_payment p s) = row_put y_id p (payments s)"
  by (simp_all add: put_payment_def)

text \<open>The payments of the state are a row store.\<close>

interpretation payment_store: row_store payment_row put_payment y_id
  by unfold_locales (auto simp: payment_row_put dest: payment_row_SomeD)

section \<open>Writes\<close>

lemma same_key_sym: "same_key a b = same_key b a"
  by (auto simp: same_key_def)

lemma clashes_sym: "clashes p q = clashes q p"
  unfolding clashes_def using same_key_sym by metis

lemma payment_unique_put:
  assumes "\<forall>q \<in> set rows. payment_unique q rows" and "payment_unique p rows" and "x \<in> set (row_put y_id p rows)"
  shows "payment_unique x (row_put y_id p rows)"
proof -
  have "y_id q = y_id x \<or> \<not> clashes x q" if "q \<in> set (row_put y_id p rows)" for q
  proof (cases "x = p"; cases "q = p")
    assume "x = p" "q \<noteq> p"
    then show ?thesis using set_row_putD [OF that] assms(2) by (auto simp: payment_unique_def list_all_iff)
  next
    assume "x \<noteq> p" "q = p"
    then show ?thesis using set_row_putD [OF assms(3)] assms(2) clashes_sym by (auto simp: payment_unique_def list_all_iff)
  next
    assume "x \<noteq> p" "q \<noteq> p"
    then have "x \<in> set rows" "q \<in> set rows" using set_row_putD [OF that] set_row_putD [OF assms(3)] by auto
    then show ?thesis using assms(1) by (auto simp: payment_unique_def list_all_iff)
  qed simp
  then show ?thesis by (simp add: payment_unique_def list_all_iff)
qed

lemma fee_sound_frozen:
  assumes "frozen q = frozen p"
  shows "fee_sound q = fee_sound p"
  using frozenD [OF assms] by (simp add: fee_sound_def payable_def)

lemma put_keeps:
  assumes "payment_row (y_id p) s = Some old" and "successor old p" and "one_rail old \<longrightarrow> one_rail p"
    and "payment_unique p (payments s)"
  shows "keeps_payments s (put_payment p s)"
proof -
  have fr: "frozen p = frozen old" using assms(2) by (simp add: successor_def)
  have "pay_ok (put_payment p s)" if ok: "pay_ok s"
  proof -
    have "payment_sound old" using ok payment_row_SomeD [OF assms(1)] by (simp add: pay_ok_def)
    then have "payment_sound p"
      using assms(3) frozenD [OF fr] fee_sound_frozen [OF fr] by (simp add: payment_sound_def)
    then show ?thesis
      using ok assms(4) set_row_putD [of _ y_id p "payments s"] payment_unique_put [of "payments s" p]
      by (auto simp: pay_ok_def)
  qed
  moreover have "payments_persist s (put_payment p s)"
    using assms(1,2) by (auto simp: payments_persist_def payment_row_put)
  ultimately show ?thesis by (simp add: keeps_payments_def)
qed

lemma save_payment_Inr:
  "save_payment env p s = Inr t \<longleftrightarrow> (\<exists>old. payment_row (y_id p) s = Some old \<and> save_guard old p \<and>
     full_clean env (Some old) p s \<and> t = put_payment p s)"
  by (auto simp: save_payment_def save_guard_def terminal_guard_def split: option.splits)

text \<open>The trigger never refuses what \<open>Payment.save\<close> lets through.\<close>

lemma save_guard_terminal: "save_guard old p \<Longrightarrow> terminal_guard False old p"
  by (auto simp: save_guard_def terminal_guard_def)

lemma save_guard_successor: "frozen p = frozen old \<Longrightarrow> save_guard old p \<Longrightarrow> successor old p"
  by (cases "y_status old") (auto simp: successor_def save_guard_def)

lemma save_wp [wp]:
  assumes "payment_row (y_id p) s = Some old" and "frozen p = frozen old" and "one_rail old \<longrightarrow> one_rail p"
    and "\<And>t. keeps_payments s t \<Longrightarrow> Q t"
  shows "yields Q (\<lambda>_. True) (save_payment env p s)"
proof (intro yieldsI assms(4))
  fix t
  assume "save_payment env p s = Inr t"
  then have "save_guard old p" "payment_unique p (payments s)" "t = put_payment p s"
    using assms(1) by (auto simp: save_payment_Inr full_clean_def)
  then show "keeps_payments s t" using assms(1-3) save_guard_successor by (auto intro: put_keeps)
qed simp

lemma insert_wp [wp]:
  assumes "y_id p = fresh_key y_id (payments s)" and "fee_sound p" and "one_rail p"
    and "\<And>t. keeps_payments s t \<Longrightarrow> Q t"
  shows "yields Q (\<lambda>_. True) (insert_payment env p s)"
proof -
  have new: "payment_row (y_id p) s = None" by (simp add: payment_row_def assms(1))
  have "keeps_payments s (s\<lparr>payments := payments s @ [p]\<rparr>)" if "full_clean env None p s"
  proof -
    have u: "payment_unique p (payments s)" "payment_sound p"
      using that assms(2,3) by (auto simp: full_clean_def payment_fields_ok_def payment_sound_def)
    have "pay_ok (s\<lparr>payments := payments s @ [p]\<rparr>)" if "pay_ok s"
      using that u clashes_sym unique_keys_fresh [OF assms(1)]
      by (auto simp: pay_ok_def payment_unique_def list_all_iff)
    moreover have "payments_persist s (s\<lparr>payments := payments s @ [p]\<rparr>)"
      by (auto simp: payments_persist_def payment_row_def row_get_append)
    ultimately show ?thesis by (simp add: keeps_payments_def)
  qed
  then show ?thesis using assms(4) by (simp add: insert_payment_def)
qed

lemma record_once_wp [wp]:
  assumes "Q None" and "\<And>t. keeps_payments s t \<Longrightarrow> payments t = payments s \<Longrightarrow> Q (Some t)"
  shows "yields Q (\<lambda>_. True) (record_once ms eid v s)"
proof -
  let ?t = "s\<lparr>processed := processed s @ [\<lparr>pe_makerspace = ms, pe_provider = v, pe_event = eid\<rparr>]\<rparr>"
  have "keeps_payments s ?t"
    by (auto simp: keeps_payments_def payments_persist_def payment_row_def pay_ok_def)
  with assms show ?thesis by (simp add: record_once_def)
qed

section \<open>The services\<close>

lemma fee_payable:
  assumes "application_fee_amount (stored_amount v) bps c vendor = Inr fee"
  shows "\<exists>charge. validate_amount v c vendor fee = Inr charge"
  using application_fee_valid [OF assms] by (auto simp: validate_amount_def)

lemma create_payment_keeps:
  "yields (\<lambda>(p, t). keeps_payments s t) (\<lambda>_. True)
     (create_payment env ms ty sid member amount currency by via label s)"
proof -
  let ?p = "\<lambda>v c vendor m a fee. (new_payment (fresh_key y_id (payments s)) ms ty sid member via label v c by)
      \<lparr>y_provider := vendor, y_stripe_mode := m, y_account := a, y_fee := fee\<rparr>"
  have ins: "keeps_payments s t"
    if "application_fee_amount (stored_amount v) bps c vendor = Inr fee"
      and "insert_payment env (?p v c vendor m a fee) s = Inr t" for v c bps vendor m a fee t
  proof (rule yields_Inr [OF insert_wp that(2)])
    show "fee_sound (?p v c vendor m a fee)"
      using fee_payable [OF that(1)] by (simp add: fee_sound_def payable_def new_payment_def)
  qed (simp_all add: new_payment_def one_rail_def)
  show ?thesis
    by (auto simp: create_payment_def Let_def ok_iff split: option.splits intro!: yieldsI dest: ins)
qed

lemma create_offline_keeps:
  "yields (\<lambda>(p, t). keeps_payments s t) (\<lambda>_. True)
     (create_offline_payment env ms ty sid member amount currency by label s)"
proof -
  let ?p = "\<lambda>v. new_payment (fresh_key y_id (payments s)) ms ty sid member None label v (lowercase currency) by"
  have ins: "insert_payment env (?p v) s = Inr t \<Longrightarrow> keeps_payments s t" for v t
    by (rule yields_Inr [OF insert_wp]) (auto simp: new_payment_def fee_sound_def one_rail_def)
  show ?thesis
    by (auto simp: create_offline_payment_def Let_def split: option.splits sum.splits if_splits
        intro!: yieldsI dest: ins simp: ok_iff)
qed

lemma expire_best_effort_frozen [simp]: "frozen (expire_checkout_best_effort env p s) = frozen p"
  by (simp add: expire_checkout_best_effort_def Let_def split: option.splits)

lemma expire_best_effort_same [simp]:
  "y_id (expire_checkout_best_effort env p s) = y_id p"
  "one_rail (expire_checkout_best_effort env p s) = one_rail p"
  by (simp_all add: expire_checkout_best_effort_def one_rail_def Let_def split: option.splits)

lemma one_rail_status [simp]:
  "one_rail (p\<lparr>y_status := st\<rparr>) = one_rail p" "one_rail (p\<lparr>y_intent := x\<rparr>) = one_rail p"
  "one_rail (p\<lparr>y_external := x\<rparr>) = one_rail p"
  by (simp_all add: one_rail_def)

lemma payment_for_Some: "payment_for ms ty sid s = Some p \<Longrightarrow> p \<in> set (payments s)"
  by (auto simp: payment_for_def find_Some_iff)

lemma newest_Some: "newest P s = Some p \<Longrightarrow> p \<in> set (payments s) \<and> P p"
  unfolding newest_def find_Some_iff by (metis nth_mem set_rev)

text \<open>Saving a changed copy of a row of the table.\<close>

lemma save_copy_wp:
  assumes "pay_ok s" and "q \<in> set (payments s)" and "frozen p = frozen q" and "one_rail q \<longrightarrow> one_rail p"
    and "\<And>t. keeps_payments s t \<Longrightarrow> Q t"
  shows "yields Q (\<lambda>_. True) (save_payment env p s)"
proof (rule save_wp)
  show "payment_row (y_id p) s = Some q" using payment_row_mem [OF assms(1,2)] frozenD(1) [OF assms(3)] by simp
qed (use assms in auto)

lemma cancel_pending_keeps:
  assumes "pay_ok s"
  shows "yields (\<lambda>(p, t). keeps_payments s t) (\<lambda>_. True) (cancel_pending env ms ty sid actor s)"
  by (auto simp: cancel_pending_def Let_def split: option.splits
      intro!: save_copy_wp [OF assms payment_for_Some])

lemma reconcile_one_keeps:
  assumes "pay_ok s" and "p \<in> set (payments s)"
  shows "yields (keeps_payments s) (\<lambda>_. True) (reconcile_one env actor target p s)"
  by (auto simp: reconcile_one_def Let_def intro!: save_copy_wp [OF assms])

text \<open>
  The loop of the batch: it settles the rows it was given, each as it was, and no other row.
\<close>

definition settled_row :: "pay_env \<Rightarrow> payment_status \<Rightarrow> pay_db \<Rightarrow> payment \<Rightarrow> payment" where
  "settled_row env target s p = (expire_checkout_best_effort env p s)\<lparr>y_status := target\<rparr>"

lemma source_for_payment_cong:
  "merchants t = merchants s \<Longrightarrow> platform t = platform s \<Longrightarrow> source_for_payment env p t = source_for_payment env p s"
  by (simp add: source_for_payment_def for_makerspace_def merchant_row_def load_platform_def Let_def)

lemma settled_row_cong:
  assumes "merchants t = merchants s" and "platform t = platform s"
  shows "settled_row env target t p = settled_row env target s p"
  by (simp only: settled_row_def expire_checkout_best_effort_def source_for_payment_cong [OF assms])

lemma settled_row_id [simp]: "y_id (settled_row env target s p) = y_id p"
  by (simp add: settled_row_def)

lemma reconcile_one_Inr:
  assumes "reconcile_one env actor target p s = Inr t"
  shows "payment_row i t = (if i = y_id p then Some (settled_row env target s p) else payment_row i s) \<and>
    merchants t = merchants s \<and> platform t = platform s"
  using assms
  by (auto simp: reconcile_one_def Let_def ok_iff save_payment_Inr settled_row_def payment_row_put)

lemma reconcile_loop:
  assumes "for_each (reconcile_one env actor target) ps s = Inr t" and "distinct (map y_id ps)"
    and "pay_ok s" and "\<forall>p \<in> set ps. payment_row (y_id p) s = Some p"
  shows "keeps_payments s t \<and>
    payment_row i t = (if i \<in> y_id ` set ps then map_option (settled_row env target s) (payment_row i s)
                       else payment_row i s)"
  using assms
proof (induction ps arbitrary: s)
  case (Cons p ps)
  from Cons.prems(1) obtain u where u: "reconcile_one env actor target p s = Inr u"
    and t: "for_each (reconcile_one env actor target) ps u = Inr t" by (auto simp: ok_iff)
  have mem: "p \<in> set (payments s)" using Cons.prems(4) payment_row_SomeD [of "y_id p" s p] by simp
  have su: "keeps_payments s u"
    using yields_Inr [OF reconcile_one_keeps [OF Cons.prems(3) mem] u] .
  note eff = reconcile_one_Inr [OF u]
  have "payment_row (y_id q) u = Some q" if "q \<in> set ps" for q
  proof -
    have "y_id q \<in> y_id ` set ps" using that by simp
    with Cons.prems(2) have "y_id q \<noteq> y_id p" by auto
    with reconcile_one_Inr [OF u, of "y_id q"] have "payment_row (y_id q) u = payment_row (y_id q) s" by simp
    with that Cons.prems(4) show ?thesis by simp
  qed
  moreover have "pay_ok u" "distinct (map y_id ps)"
    using su Cons.prems(2,3) by (simp_all add: keeps_payments_def)
  ultimately have IH: "keeps_payments u t"
    "payment_row i t = (if i \<in> y_id ` set ps then map_option (settled_row env target u) (payment_row i u)
                       else payment_row i u)"
    using Cons.IH [OF t] by blast+
  have same: "settled_row env target u = settled_row env target s"
    using settled_row_cong eff by blast
  have p: "payment_row (y_id p) s = Some p" "y_id p \<notin> y_id ` set ps" using Cons.prems(2,4) by auto
  have row: "payment_row i u = (if i = y_id p then Some (settled_row env target s p) else payment_row i s)"
    using eff by blast
  have "payment_row i t = (if i \<in> y_id ` set (p # ps) then map_option (settled_row env target s) (payment_row i s)
      else payment_row i s)"
  proof (cases "i = y_id p")
    case True
    then show ?thesis unfolding IH(2) row same using p by simp
  next
    case False
    then show ?thesis unfolding IH(2) row same by simp
  qed
  with keeps_payments_trans [OF su IH(1)] show ?case by blast
qed simp

lemma reconcile_payments_Inr:
  assumes "pay_ok s" and "reconcile_payments env actor ms ids target s = Inr t"
  shows "keeps_payments s t \<and> target \<in> {PaidOffline, Waived} \<and>
    payment_row i t = (if i \<in> set ids then map_option (settled_row env target s) (payment_row i s)
                       else payment_row i s) \<and>
    (i \<in> set ids \<longrightarrow> (\<exists>p. payment_row i s = Some p \<and> y_makerspace p = ms \<and> y_status p = PayPending))"
proof -
  define locked where "locked = filter (\<lambda>p. y_makerspace p = ms \<and> y_id p \<in> set ids) (payments s)"
  from assms(2) have t: "target \<in> {PaidOffline, Waived}" "length locked = length ids"
    "filter (\<lambda>p. y_status p \<noteq> PayPending) locked = []"
    "for_each (reconcile_one env actor target) locked s = Inr t"
    unfolding reconcile_payments_def Let_def locked_def [symmetric] by (auto simp: ok_iff split: if_splits)
  have uniq: "distinct (map y_id (payments s))" using assms(1) by (simp add: pay_ok_def unique_keys_def)
  then have d: "distinct (map y_id locked)" by (simp add: locked_def distinct_map_filter)
  have sub: "y_id ` set locked \<subseteq> set ids" by (auto simp: locked_def)
  have "card (y_id ` set locked) = length ids"
    using d t(2) distinct_card [OF d] by simp
  then have "card (y_id ` set locked) = card (set ids)"
    using card_mono [OF finite_set sub] card_length [of ids] by linarith
  with sub have ids: "y_id ` set locked = set ids" by (intro card_subset_eq) auto
  have rows: "\<forall>p \<in> set locked. payment_row (y_id p) s = Some p"
    using payment_row_mem [OF assms(1)] by (auto simp: locked_def)
  have "\<exists>p. payment_row i s = Some p \<and> y_makerspace p = ms \<and> y_status p = PayPending" if "i \<in> set ids"
  proof -
    from that ids obtain p where "p \<in> set locked" "y_id p = i" by (metis imageE)
    with rows t(3) show ?thesis by (auto simp: locked_def filter_empty_conv)
  qed
  with reconcile_loop [OF t(4) d assms(1) rows] ids t(1) show ?thesis by simp
qed

lemma reconcile_payments_keeps:
  "pay_ok s \<Longrightarrow> yields (keeps_payments s) (\<lambda>_. True) (reconcile_payments env actor ms ids target s)"
  using reconcile_payments_Inr by (auto intro: yieldsI)

lemma compat_reconcile_keeps:
  "pay_ok s \<Longrightarrow> yields (keeps_payments s) (\<lambda>_. True) (compat_reconcile env actor pid target s)"
  by (auto simp: compat_reconcile_def split: option.splits intro: reconcile_payments_keeps)

text \<open>The connected account is a row of another table.\<close>

lemma save_connect_status_simps [simp]:
  "payments (snd (save_connect_status env st c p m s)) = payments s"
  "processed (snd (save_connect_status env st c p m s)) = processed s"
  "payments (snd (update_account_status env m a s)) = payments s"
  "processed (snd (update_account_status env m a s)) = processed s"
  "payments (snd (restrict_account_status env m s)) = payments s"
  "processed (snd (restrict_account_status env m s)) = processed s"
  by (simp_all add: save_connect_status_def update_account_status_def restrict_account_status_def Let_def
      split: prod.splits)

lemma update_account_same:
  "update_account_status env m a s = (m', t) \<Longrightarrow> payments t = payments s \<and> processed t = processed s"
  using save_connect_status_simps(3,4) [of env m a s] by simp

lemma refresh_same_payments:
  "refresh_connected_account env m s = Inr (m', t) \<Longrightarrow> payments t = payments s \<and> processed t = processed s"
  by (auto simp: refresh_connected_account_def ok_iff split: option.splits if_splits
      dest: update_account_same)

lemma keeps_same_tables: "payments t = payments s \<Longrightarrow> processed t = processed s \<Longrightarrow> keeps_payments s t"
  using keeps_payments_cong [of t s s] by simp

lemma checkout_source_same:
  "checkout_source env p s = Inr (r, t) \<Longrightarrow> payments t = payments s \<and> processed t = processed s"
  by (auto simp: checkout_source_def ok_iff split: option.splits if_splits dest: refresh_same_payments)

lemma checkout_reply_row:
  "checkout_reply p reply = Inr (q, url) \<Longrightarrow> frozen q = frozen p \<and> y_rail q = y_rail p"
  by (auto simp: checkout_reply_def split: prod.splits option.splits if_splits)

lemma open_checkout_page_keeps:
  assumes "pay_ok s" and "q \<in> set (payments s)" and "frozen p = frozen q" and "y_rail p = Some CheckoutRail"
    and "open_checkout_page env p actor src minor s = Inr (url, t)"
  shows "keeps_payments s t"
proof -
  from assms(5) obtain r u reply where r: "checkout_reply p reply = Inr (r, url)"
    and u: "save_payment env r s = Inr u" and t: "payments t = payments u" "processed t = processed u"
    by (auto simp: open_checkout_page_def ok_iff split: if_splits)
  have "frozen r = frozen q" "one_rail r"
    using checkout_reply_row [OF r] assms(3,4) by (simp_all add: one_rail_def)
  then have "keeps_payments s u"
    using yields_Inr [OF save_copy_wp [OF assms(1,2), where Q = "keeps_payments s"] u] by simp
  then show ?thesis using keeps_payments_cong [OF t] by simp
qed

lemma other_rail: "r \<noteq> NativeIntentRail \<longleftrightarrow> r = CheckoutRail"
  by (cases r) simp_all

lemma create_checkout_atomic_keeps:
  assumes "pay_ok s" and "create_checkout_url_atomic env pid actor s = CheckoutUrl url t"
  shows "keeps_payments s t"
proof (cases "payment_row pid s")
  case (Some p)
  let ?q = "p\<lparr>y_rail := (case y_rail p of None \<Rightarrow> Some CheckoutRail | Some r \<Rightarrow> Some r)\<rparr>"
  note mem = payment_row_SomeD [OF Some]
  from assms(2) Some consider "t = s"
    | src minor u where "y_rail p \<noteq> Some NativeIntentRail" "checkout_source env ?q s = Inr ((src, True), u)"
        "open_checkout_page env ?q actor src minor u = Inr (url, t)"
    unfolding create_checkout_url_atomic_def checkout_result_of_def Let_def
    by (auto split: if_splits sum.splits prod.splits)
  then show ?thesis
  proof cases
    case 2
    have rail: "y_rail ?q = Some CheckoutRail" using 2(1) other_rail by (cases "y_rail p") auto
    note su = checkout_source_same [OF 2(2)]
    have "pay_ok u" "p \<in> set (payments u)" using assms(1) mem su pay_ok_cong [of u s] by simp_all
    from open_checkout_page_keeps [OF this _ rail 2(3)] have "keeps_payments u t" by simp
    moreover have "keeps_payments s u" using su by (intro keeps_same_tables) simp_all
    ultimately show ?thesis by (rule keeps_payments_trans [rotated])
  qed simp
qed (use assms in \<open>simp add: create_checkout_url_atomic_def\<close>)

lemma create_checkout_keeps:
  assumes "pay_ok s"
  shows "keeps_payments s (snd (create_checkout_url env pid actor s))"
  using create_checkout_atomic_keeps [OF assms]
  by (auto simp: create_checkout_url_def intro: keeps_same_tables
      split: checkout_result.splits option.splits)

lemma attach_intent_keeps:
  assumes "pay_ok s" and "p \<in> set (payments s)" and "y_rail p \<noteq> Some CheckoutRail"
  shows "yields (\<lambda>(x, t). keeps_payments s t) (\<lambda>_. True) (attach_intent env p actor reply s)"
proof -
  have "one_rail (p\<lparr>y_rail := Some NativeIntentRail, y_intent := x\<rparr>)" if "one_rail p" for x
    using that assms(3) by (simp add: one_rail_def)
  then show ?thesis
    by (auto simp: attach_intent_def Let_def intro!: save_copy_wp [OF assms(1,2)] split: option.splits prod.splits)
qed

lemma create_mobile_intent_keeps:
  assumes "pay_ok s"
  shows "yields (\<lambda>(x, t). keeps_payments s t) (\<lambda>_. True) (create_mobile_intent env pid actor s)"
proof (rule yieldsI, clarify)
  fix x t
  assume run: "create_mobile_intent env pid actor s = Inr (x, t)"
  then obtain p r u reply where p: "payment_row pid s = Some p" "y_rail p \<noteq> Some CheckoutRail"
    and u: "checkout_source env p s = Inr (r, u)" and t: "attach_intent env p actor reply u = Inr (x, t)"
    by (auto simp: create_mobile_intent_def ok_iff split: if_splits)
  note same = checkout_source_same [OF u]
  then have su: "keeps_payments s u" by (intro keeps_same_tables) simp_all
  have mem: "pay_ok u" "p \<in> set (payments u)"
    using assms payment_row_SomeD [OF p(1)] same pay_ok_cong [of u s] by simp_all
  from yields_Inr [OF attach_intent_keeps [OF mem p(2)] t] su show "keeps_payments s t"
    by (auto intro: keeps_payments_trans)
qed simp

section \<open>The webhooks\<close>

lemma successor_paid:
  "y_status old = Waived \<Longrightarrow> successor old (old\<lparr>y_status := PaidOnline, y_intent := x\<rparr>)"
  by (simp add: successor_def frozen_def)

lemma promote_Inr:
  assumes "promote_waived_to_paid_online p intent s = Inr (q, t)"
  obtains old x where "payment_row (y_id p) s = Some old" "y_status old = Waived"
    "payment_unique (old\<lparr>y_status := PaidOnline, y_intent := x\<rparr>) (payments s)"
    "t = put_payment (old\<lparr>y_status := PaidOnline, y_intent := x\<rparr>) s"
    "q = p\<lparr>y_status := PaidOnline, y_intent := case truthy intent of None \<Rightarrow> y_intent p | Some i \<Rightarrow> Some i\<rparr>"
    "x = (case truthy intent of None \<Rightarrow> y_intent old | Some i \<Rightarrow> Some i)"
  using assms unfolding promote_waived_to_paid_online_def Let_def
  by (cases "payment_row (y_id p) s") (simp_all split: if_split_asm)

lemma promote_keeps:
  assumes "promote_waived_to_paid_online p intent s = Inr (q, t)"
  shows "keeps_payments s t"
proof -
  from promote_Inr [OF assms] obtain old x where old: "payment_row (y_id p) s = Some old" "y_status old = Waived"
    and t: "payment_unique (old\<lparr>y_status := PaidOnline, y_intent := x\<rparr>) (payments s)"
      "t = put_payment (old\<lparr>y_status := PaidOnline, y_intent := x\<rparr>) s" by metis
  have "payment_row (y_id (old\<lparr>y_status := PaidOnline, y_intent := x\<rparr>)) s = Some old"
    using old(1) payment_row_SomeD [OF old(1)] by simp
  with t successor_paid [OF old(2)] show ?thesis by (auto intro: put_keeps)
qed

lemma paid_after_terminal_keeps:
  "paid_after_terminal meta p intent s = Inr (q, t) \<Longrightarrow> keeps_payments s t"
  by (auto simp: paid_after_terminal_def ok_iff Let_def split: if_splits dest: promote_keeps)

lemma settle_online_keeps:
  assumes "pay_ok s" and "q \<in> set (payments s)" and "frozen p = frozen q" and "one_rail q \<longrightarrow> one_rail p"
  shows "yields (\<lambda>(x, t). keeps_payments s t) (\<lambda>_. True) (settle_online env meta p s)"
  by (auto simp: settle_online_def Let_def assms intro!: save_copy_wp [OF assms(1,2)])

lemma expire_session_keeps:
  assumes "pay_ok s" and "p \<in> set (payments s)"
  shows "yields (\<lambda>(x, t). keeps_payments s t) (\<lambda>_. True) (expire_session env eid p s)"
  by (auto simp: expire_session_def Let_def one_rail_def intro!: save_copy_wp [OF assms])

lemma apply_to_payment_keeps:
  assumes "pay_ok s" and "p \<in> set (payments s)"
  shows "yields (\<lambda>(x, t). keeps_payments s t) (\<lambda>_. True) (apply_to_payment env ev eid p s)"
proof (cases "we_type ev = ''checkout.session.expired'' \<or> y_status p = PayPending")
  case True
  then show ?thesis
    using expire_session_keeps [OF assms] settle_online_keeps [OF assms]
    by (auto simp: apply_to_payment_def split: option.splits)
next
  case False
  then show ?thesis
    by (auto simp: apply_to_payment_def handle_stripe_paid_after_terminal_def ok_iff
        intro!: yieldsI dest: paid_after_terminal_keeps)
qed

lemma case_option_Inr:
  "(case c of None \<Rightarrow> a | Some x \<Rightarrow> f x) = Inr y \<longleftrightarrow> c = None \<and> a = Inr y \<or> (\<exists>x. c = Some x \<and> f x = Inr y)"
  by (cases c) simp_all

lemma claimed_then:
  assumes "record_once ms eid v s = Inr (Some u)" and "pay_ok s"
    and "\<lbrakk>pay_ok u; payments u = payments s\<rbrakk> \<Longrightarrow> keeps_payments u t"
  shows "keeps_payments s t"
proof -
  have "keeps_payments s u \<and> payments u = payments s"
    using yields_Inr [OF record_once_wp [where Q = "\<lambda>x. \<forall>u. x = Some u \<longrightarrow> keeps_payments s u \<and> payments u = payments s"] assms(1)]
    by simp
  with assms(2,3) keeps_payments_trans pay_ok_cong show ?thesis by blast
qed

lemma apply_webhook_keeps:
  assumes "pay_ok s"
  shows "yields (\<lambda>(x, t). keeps_payments s t) (\<lambda>_. True) (apply_webhook_event env ms ev mode account s)"
proof (rule yieldsI, clarify)
  fix x t
  assume "apply_webhook_event env ms ev mode account s = Inr (x, t)"
  then consider "t = s"
    | P p eid u where "newest P s = Some p" "record_once ms eid Stripe s = Inr (Some u)"
        "apply_to_payment env ev eid p u = Inr (x, t)"
    unfolding apply_webhook_event_def by (auto simp: ok_iff case_option_Inr split: if_splits)
  then show "keeps_payments s t"
  proof cases
    case 2
    show ?thesis
    proof (rule claimed_then [OF 2(2) assms])
      assume u: "pay_ok u" "payments u = payments s"
      then have "p \<in> set (payments u)" using newest_Some [OF 2(1)] by simp
      from yields_Inr [OF apply_to_payment_keeps [OF u(1) this] 2(3)] show "keeps_payments u t" by simp
    qed
  qed simp
qed simp

lemma account_effect_same [simp]:
  "payments (account_effect env eid etype created m s) = payments s"
  "processed (account_effect env eid etype created m s) = processed s"
  by (auto simp: account_effect_def merchant_audit_def dest: refresh_same_payments split: sum.splits)

lemma apply_account_keeps:
  assumes "pay_ok s" and "apply_account_event env eid etype account created s = Inr t"
  shows "keeps_payments s t"
proof -
  from assms(2) consider "t = s"
    | m u where "record_once (mp_makerspace m) eid Stripe s = Inr (Some u)"
        "t = account_effect env eid etype created m u"
    unfolding apply_account_event_def by (auto simp: ok_iff case_option_Inr split: if_splits)
  then show ?thesis
  proof cases
    case 2
    show ?thesis by (rule claimed_then [OF 2(1) assms(1)]) (simp add: 2(2) keeps_same_tables)
  qed simp
qed

lemma apply_connect_Inr:
  assumes "apply_connect_webhook_event env ev s = Inr t"
  shows "t = s \<or> (\<exists>eid etype account created. apply_account_event env eid etype account created s = Inr t) \<or>
    (\<exists>ms mode account x. apply_webhook_event env ms ev mode account s = Inr (x, t))"
proof (cases "truthy (we_id ev)"; cases "truthy (or_else (we_account ev) (we_object_id ev))")
  fix eid account
  assume *: "truthy (we_id ev) = Some eid" "truthy (or_else (we_account ev) (we_object_id ev)) = Some account"
  show ?thesis
  proof (cases "we_type ev = ''account.updated'' \<or> we_type ev = ''account.application.deauthorized''")
    case True
    with assms * show ?thesis unfolding apply_connect_webhook_event_def by auto
  next
    case False
    with assms * show ?thesis
      unfolding apply_connect_webhook_event_def Let_def
      by (simp only: prod.case option.case if_False de_Morgan_disj simp_thms case_option_Inr ok_iff split: if_split_asm) force+
  qed
qed (use assms in \<open>simp_all add: apply_connect_webhook_event_def\<close>)

lemma apply_connect_keeps:
  "pay_ok s \<Longrightarrow> apply_connect_webhook_event env ev s = Inr t \<Longrightarrow> keeps_payments s t"
  using apply_connect_Inr [of env ev s t] apply_account_keeps [of s env _ _ _ _ t]
    yields_Inr [OF apply_webhook_keeps, of s env _ ev _ _ "(_, t)"] by fastforce

lemma razorpay_to_payment_keeps:
  assumes "pay_ok s" and "p \<in> set (payments s)"
  shows "yields (\<lambda>(x, t). keeps_payments s t) (\<lambda>_. True) (razorpay_to_payment env ev p s)"
proof (cases "y_status p = PayPending")
  case True
  then show ?thesis using settle_online_keeps [OF assms] by (simp add: razorpay_to_payment_def)
next
  case False
  then show ?thesis
    by (auto simp: razorpay_to_payment_def handle_razorpay_paid_after_terminal_def ok_iff
        intro!: yieldsI dest: paid_after_terminal_keeps)
qed

lemma apply_razorpay_keeps:
  assumes "pay_ok s"
  shows "yields (\<lambda>(x, t). keeps_payments s t) (\<lambda>_. True) (apply_razorpay_webhook_event env ms ev s)"
proof (rule yieldsI, clarify)
  fix x t
  assume "apply_razorpay_webhook_event env ms ev s = Inr (x, t)"
  then consider "t = s"
    | P p eid u where "newest P s = Some p" "record_once ms eid Razorpay s = Inr (Some u)"
        "razorpay_to_payment env ev p u = Inr (x, t)"
    unfolding apply_razorpay_webhook_event_def by (auto simp: ok_iff case_option_Inr split: if_splits)
  then show "keeps_payments s t"
  proof cases
    case 2
    show ?thesis
    proof (rule claimed_then [OF 2(2) assms])
      assume u: "pay_ok u" "payments u = payments s"
      then have "p \<in> set (payments u)" using newest_Some [OF 2(1)] by simp
      from yields_Inr [OF razorpay_to_payment_keeps [OF u(1) this] 2(3)] show "keeps_payments u t" by simp
    qed
  qed simp
qed simp

lemma pay_step_keeps:
  assumes "pay_ok s" and "pay_step c s = Inr t"
  shows "keeps_payments s t"
  using assms
  by (cases "(c, s)" rule: pay_step.cases)
    (auto simp: ok_iff intro: create_checkout_keeps apply_connect_keeps
      dest: yields_Inr [OF create_payment_keeps] yields_Inr [OF create_offline_keeps]
        yields_Inr [OF cancel_pending_keeps] yields_Inr [OF reconcile_payments_keeps]
        yields_Inr [OF compat_reconcile_keeps] yields_Inr [OF create_mobile_intent_keeps]
        yields_Inr [OF apply_webhook_keeps] yields_Inr [OF apply_razorpay_keeps])

lemma pay_step_inv: "pay_ok s \<Longrightarrow> pay_step c s = Inr t \<Longrightarrow> pay_ok t \<and> payments_persist s t"
  using pay_step_keeps [of s c t] by (simp add: keeps_payments_def)

interpretation paying: tracked_machine pay_step pay_ok payments_persist
  by unfold_locales (use pay_step_inv payments_persist_trans in \<open>blast intro: payments_persist_refl\<close>)+

end
