(* ===== verification/Booking_Safety.thy ===== *)
theory Booking_Safety
  imports Bookings Payment_Safety
begin

text \<open>
  What the booking services keep: the calendar of confirmed bookings never double-books a space,
  bookings move along their status graph and keep what they are about, spaces keep their constraints,
  and the payments keep theirs. The calendar is also the abstract state that the services refine.
\<close>

section \<open>The calendar\<close>

text \<open>A slot is a booking with its space and its time; two slots of one space clash when they overlap.\<close>

type_synonym slot = "nat \<times> nat \<times> int \<times> int"

fun slot_clash :: "slot \<Rightarrow> slot \<Rightarrow> bool" where
  "slot_clash (i, sp, a, b) (j, sp', a', b') \<longleftrightarrow> i \<noteq> j \<and> sp = sp' \<and> a' < b \<and> a < b'"

definition slot_of :: "booking \<Rightarrow> slot" where
  "slot_of b = (x_id b, x_space b, x_starts b, x_ends b)"

definition calendar :: "booking_db \<Rightarrow> slot set" where
  "calendar s = slot_of ` {b \<in> set (bookings s). x_status b = BookingConfirmed}"

definition confirm_slot :: "slot \<Rightarrow> slot set \<Rightarrow> slot set option" where
  "confirm_slot c C = (if \<exists>d \<in> C. slot_clash c d then None else Some (insert c C))"

definition release_slot :: "nat \<Rightarrow> slot set \<Rightarrow> slot set" where
  "release_slot i C = {c \<in> C. fst c \<noteq> i}"

definition clash_free :: "slot set \<Rightarrow> bool" where
  "clash_free C \<longleftrightarrow> (\<forall>c \<in> C. \<forall>d \<in> C. \<not> slot_clash c d)"

lemma slot_clash_sym: "slot_clash c d \<Longrightarrow> slot_clash d c"
  by (cases c; cases d) auto

lemma slot_clash_irrefl [simp]: "\<not> slot_clash c c"
  by (cases c) simp

lemma confirm_clash_free: "clash_free C \<Longrightarrow> confirm_slot c C = Some D \<Longrightarrow> clash_free D"
  using slot_clash_sym by (auto simp: clash_free_def confirm_slot_def split: if_splits)

lemma release_clash_free: "clash_free C \<Longrightarrow> clash_free (release_slot i C)"
  by (simp add: clash_free_def release_slot_def)

section \<open>The status graph\<close>

inductive booking_move :: "booking_status \<Rightarrow> booking_status \<Rightarrow> bool" where
  kept: "booking_move st st"
| decided: "st \<in> {BookingConfirmed, BookingRejected} \<Longrightarrow> booking_move BookingPending st"
| ended: "st \<in> {BookingCancelled, BookingCompleted, BookingNoShow} \<Longrightarrow> booking_move BookingConfirmed st"

code_pred booking_move .

inductive_simps booking_move_simps:
  "booking_move BookingRejected st" "booking_move BookingCancelled st" "booking_move BookingCompleted st"
  "booking_move BookingNoShow st"

section \<open>The invariant\<close>

definition booking_ok :: "booking_db \<Rightarrow> bool" where
  "booking_ok s \<longleftrightarrow> unique_keys x_id (bookings s) \<and> unique_keys h_id (spaces s) \<and>
     (\<forall>b \<in> set (bookings s). x_starts b < x_ends b \<and> space_row (x_space b) s \<noteq> None) \<and>
     (\<forall>sp \<in> set (spaces s). space_constraints sp \<and> (h_show_names sp \<longrightarrow> h_show_availability sp)) \<and>
     clash_free (calendar s) \<and> pay_ok (bk_pay s)"

definition booking_about :: "booking \<Rightarrow> booking" where
  "booking_about b = b\<lparr>x_status := BookingPending\<rparr>"

definition bookings_persist :: "booking_db \<Rightarrow> booking_db \<Rightarrow> bool" where
  "bookings_persist s t \<longleftrightarrow>
     (\<forall>i b. booking_row i s = Some b \<longrightarrow> (\<exists>c. booking_row i t = Some c \<and> booking_about c = booking_about b \<and>
        booking_move\<^sup>*\<^sup>* (x_status b) (x_status c))) \<and>
     (\<forall>i sp. space_row i s = Some sp \<longrightarrow> (\<exists>sp'. space_row i t = Some sp' \<and> h_makerspace sp' = h_makerspace sp \<and>
        (h_active sp' \<longrightarrow> h_active sp))) \<and>
     payments_persist (bk_pay s) (bk_pay t)"

lemma bookings_persist_refl [simp]: "bookings_persist s s"
  by (auto simp: bookings_persist_def)

lemma bookings_persist_trans:
  assumes "bookings_persist s t" and "bookings_persist t u"
  shows "bookings_persist s u"
proof -
  have "\<exists>c. booking_row i u = Some c \<and> booking_about c = booking_about b \<and> booking_move\<^sup>*\<^sup>* (x_status b) (x_status c)"
    if "booking_row i s = Some b" for i b
    using assms that unfolding bookings_persist_def by (metis rtranclp_trans)
  moreover have "\<exists>sp'. space_row i u = Some sp' \<and> h_makerspace sp' = h_makerspace sp \<and> (h_active sp' \<longrightarrow> h_active sp)"
    if "space_row i s = Some sp" for i sp
    using assms that unfolding bookings_persist_def by metis
  ultimately show ?thesis
    using assms payments_persist_trans unfolding bookings_persist_def by blast
qed

text \<open>What the charges and the logs leave alone.\<close>

definition same_bookings :: "booking_db \<Rightarrow> booking_db \<Rightarrow> bool" where
  "same_bookings s t \<longleftrightarrow> bookings t = bookings s \<and> spaces t = spaces s"

lemma same_bookings_logs [simp]:
  "bookings (space_audit a act sp tgt m s) = bookings s" "spaces (space_audit a act sp tgt m s) = spaces s"
  "bookings (booking_notify ev b s) = bookings s" "spaces (booking_notify ev b s) = spaces s"
  "payments (bk_pay (space_audit a act sp tgt m s)) = payments (bk_pay s)"
  "processed (bk_pay (space_audit a act sp tgt m s)) = processed (bk_pay s)"
  "merchants (bk_pay (space_audit a act sp tgt m s)) = merchants (bk_pay s)"
  "platform (bk_pay (space_audit a act sp tgt m s)) = platform (bk_pay s)"
  "payments (bk_pay (booking_notify ev b s)) = payments (bk_pay s)"
  "processed (bk_pay (booking_notify ev b s)) = processed (bk_pay s)"
  "merchants (bk_pay (booking_notify ev b s)) = merchants (bk_pay s)"
  "platform (bk_pay (booking_notify ev b s)) = platform (bk_pay s)"
  by (simp_all add: space_audit_def booking_notify_def)

lemma charge_same:
  "bookings (create_for_confirmed_booking env b actor s) = bookings s"
  "spaces (create_for_confirmed_booking env b actor s) = spaces s"
  "bookings (cancel_for_booking env b actor s) = bookings s"
  "spaces (cancel_for_booking env b actor s) = spaces s"
  by (simp_all add: create_for_confirmed_booking_def cancel_for_booking_def split: option.splits sum.splits)

lemma charge_keeps: "keeps_payments (bk_pay s) (bk_pay (create_for_confirmed_booking env b actor s))"
  by (auto simp: create_for_confirmed_booking_def dest: yields_Inr [OF create_payment_keeps]
      split: option.splits sum.splits)

lemma cancel_for_keeps:
  "pay_ok (bk_pay s) \<Longrightarrow> keeps_payments (bk_pay s) (bk_pay (cancel_for_booking env b actor s))"
  by (auto simp: cancel_for_booking_def dest: yields_Inr [OF cancel_pending_keeps]
      split: option.splits sum.splits)

lemma calendar_cong: "bookings t = bookings s \<Longrightarrow> calendar t = calendar s"
  by (simp add: calendar_def)

lemma space_row_cong: "spaces t = spaces s \<Longrightarrow> space_row i t = space_row i s"
  by (simp add: space_row_def)

lemma booking_row_cong: "bookings t = bookings s \<Longrightarrow> booking_row i t = booking_row i s"
  by (simp add: booking_row_def)

lemma booking_row_SomeD: "booking_row i s = Some b \<Longrightarrow> b \<in> set (bookings s) \<and> x_id b = i"
  unfolding booking_row_def by (rule row_get_SomeD)

lemma space_row_SomeD: "space_row i s = Some sp \<Longrightarrow> sp \<in> set (spaces s) \<and> h_id sp = i"
  unfolding space_row_def by (rule row_get_SomeD)

lemma same_bookings_keeps:
  assumes "same_bookings s t" and "keeps_payments (bk_pay s) (bk_pay t)" and "booking_ok s"
  shows "booking_ok t \<and> bookings_persist s t \<and> calendar t = calendar s"
proof -
  from assms(1) have b: "bookings t = bookings s" and sp: "spaces t = spaces s" by (simp_all add: same_bookings_def)
  have "booking_ok t"
    using assms(2,3) b sp calendar_cong [OF b] space_row_cong [OF sp] by (simp add: booking_ok_def keeps_payments_def)
  moreover have "bookings_persist s t"
    using assms(2) booking_row_cong [OF b] space_row_cong [OF sp] by (simp add: bookings_persist_def keeps_payments_def)
  ultimately show ?thesis using calendar_cong [OF b] by blast
qed

section \<open>Overlaps and the calendar\<close>

lemma confirmed_overlap_calendar:
  "confirmed_overlap sp a e (Some i) s \<longleftrightarrow> (\<exists>d \<in> calendar s. slot_clash (i, sp, a, e) d)"
  by (auto simp: confirmed_overlap_def list_ex_iff calendar_def slot_of_def overlaps_def)

lemma confirmed_overlap_new:
  assumes "\<forall>b \<in> set (bookings s). x_id b \<noteq> i"
  shows "confirmed_overlap sp a e None s \<longleftrightarrow> (\<exists>d \<in> calendar s. slot_clash (i, sp, a, e) d)"
  using assms by (auto simp: confirmed_overlap_def list_ex_iff calendar_def slot_of_def overlaps_def)

text \<open>The calendar after a booking was inserted, and after a row changed its status.\<close>

lemma calendar_insert:
  "calendar (s\<lparr>bookings := bookings s @ [b]\<rparr>) =
     (if x_status b = BookingConfirmed then insert (slot_of b) (calendar s) else calendar s)"
  by (auto simp: calendar_def)

lemma calendar_row_put:
  assumes "unique_keys x_id (bookings s)" and "booking_row (x_id b) s = Some b"
  shows "slot_of ` {c \<in> set (row_put x_id (b\<lparr>x_status := st\<rparr>) (bookings s)). x_status c = BookingConfirmed} =
    (if st = BookingConfirmed then insert (slot_of b) (calendar s) else release_slot (x_id b) (calendar s))"
proof -
  have mem: "b \<in> set (bookings s)" using booking_row_SomeD [OF assms(2)] by simp
  have other: "x_id c \<noteq> x_id b" if "c \<in> set (bookings s)" "c \<noteq> b" for c
    using assms(1) that mem by (auto simp: unique_keys_def distinct_map inj_on_def)
  define f where "f c = (if c = b then b\<lparr>x_status := st\<rparr> else c)" for c
  have rows: "row_put x_id (b\<lparr>x_status := st\<rparr>) (bookings s) = map f (bookings s)"
    using assms(1) mem by (subst row_put_map [of _ _ b]) (simp_all add: f_def)
  have slot: "slot_of (f c) = slot_of c" for c by (simp add: f_def slot_of_def)
  have "slot_of ` {c \<in> set (map f (bookings s)). x_status c = BookingConfirmed} =
      slot_of ` {c \<in> set (bookings s). x_status (f c) = BookingConfirmed}"
    using slot by (auto simp: image_iff) metis
  moreover have "{c \<in> set (bookings s). x_status (f c) = BookingConfirmed} =
      (if st = BookingConfirmed then insert b {c \<in> set (bookings s). x_status c = BookingConfirmed}
       else {c \<in> set (bookings s). x_status c = BookingConfirmed \<and> c \<noteq> b})"
    using mem by (auto simp: f_def)
  moreover have "slot_of ` {c \<in> set (bookings s). x_status c = BookingConfirmed \<and> c \<noteq> b} =
      release_slot (x_id b) (calendar s)"
  proof -
    have "x_id c = x_id b \<longleftrightarrow> c = b" if "c \<in> set (bookings s)" for c using other that by blast
    then show ?thesis by (auto simp: calendar_def release_slot_def slot_of_def)
  qed
  ultimately show ?thesis by (simp add: rows calendar_def)
qed

section \<open>Moving a booking\<close>

definition booking_keeps :: "booking_db \<Rightarrow> booking_db \<Rightarrow> bool" where
  "booking_keeps s t \<longleftrightarrow> booking_ok t \<and> bookings_persist s t"

lemma booking_keeps_trans: "booking_keeps s t \<Longrightarrow> booking_keeps t u \<Longrightarrow> booking_keeps s u"
  unfolding booking_keeps_def using bookings_persist_trans by blast

lemma locked_booking_Inr:
  assumes "locked_booking seen s = Inr (sp, b)"
  shows "booking_row (x_id seen) s = Some b \<and> space_row (x_space b) s = Some sp \<and> x_space seen = x_space b \<and> h_id sp = x_space b"
proof -
  from assms have *: "space_row (x_space seen) s = Some sp" "booking_row (x_id seen) s = Some b" "x_space b = h_id sp"
    by (auto simp: locked_booking_def locked_space_def ok_iff split: if_splits)
  with space_row_SomeD [OF *(1)] show ?thesis by simp
qed

lemma move_booking_rows:
  assumes "move_booking actor action event sp b st s = Inr t" and "booking_row (x_id b) s = Some b"
  shows "bookings t = row_put x_id (b\<lparr>x_status := st\<rparr>) (bookings s) \<and> spaces t = spaces s \<and>
    payments (bk_pay t) = payments (bk_pay s) \<and> processed (bk_pay t) = processed (bk_pay s) \<and>
    merchants (bk_pay t) = merchants (bk_pay s) \<and> platform (bk_pay t) = platform (bk_pay s)"
  using assms by (auto simp: move_booking_def save_status_def ok_iff)

lemma move_booking_effect:
  assumes "booking_ok s" and b: "booking_row (x_id b) s = Some b"
    and "move_booking actor action event sp b st s = Inr t" and "booking_move (x_status b) st"
    and "st = BookingConfirmed \<Longrightarrow> \<not> (\<exists>d \<in> calendar s. slot_clash (slot_of b) d)"
  shows "booking_keeps s t \<and> booking_row (x_id b) t = Some (b\<lparr>x_status := st\<rparr>) \<and>
    calendar t = (if st = BookingConfirmed then insert (slot_of b) (calendar s) else release_slot (x_id b) (calendar s))"
proof -
  note rows = move_booking_rows [OF assms(3) b]
  let ?b = "b\<lparr>x_status := st\<rparr>"
  have mem: "b \<in> set (bookings s)" using booking_row_SomeD [OF b] by simp
  have uniq: "unique_keys x_id (bookings s)" using assms(1) by (simp add: booking_ok_def)
  have cal: "calendar t = (if st = BookingConfirmed then insert (slot_of b) (calendar s) else release_slot (x_id b) (calendar s))"
    using calendar_row_put [OF uniq b, of st] rows by (simp add: calendar_def)
  have row: "booking_row i t = (if i = x_id b then Some ?b else booking_row i s)" for i
    using rows b by (simp add: booking_row_def row_get_row_put)
  have sp: "space_row i t = space_row i s" for i using rows by (simp add: space_row_def)
  have "clash_free (calendar t)"
  proof (cases "st = BookingConfirmed")
    case True
    then have "confirm_slot (slot_of b) (calendar s) = Some (calendar t)"
      using assms(5) cal by (simp add: confirm_slot_def)
    moreover have "clash_free (calendar s)" using assms(1) by (simp add: booking_ok_def)
    ultimately show ?thesis by (rule confirm_clash_free [rotated])
  next
    case False
    with cal release_clash_free assms(1) show ?thesis by (simp add: booking_ok_def)
  qed
  moreover have "x_starts c < x_ends c \<and> space_row (x_space c) t \<noteq> None" if "c \<in> set (bookings t)" for c
  proof -
    have "c = ?b \<or> c \<in> set (bookings s)" using that rows set_row_putD by metis
    with mem assms(1) show ?thesis by (auto simp: booking_ok_def sp)
  qed
  ultimately have "booking_ok t"
    using assms(1) rows pay_ok_cong [of "bk_pay t" "bk_pay s"] unfolding booking_ok_def by simp
  moreover have "bookings_persist s t"
  proof -
    have "payments_persist (bk_pay s) (bk_pay t)"
      using rows payments_persist_cong [of "bk_pay t" "bk_pay s" "bk_pay s"] by simp
    then show ?thesis
      using row sp b assms(4) by (auto simp: bookings_persist_def booking_about_def intro: r_into_rtranclp)
  qed
  ultimately show ?thesis using cal row [of "x_id b"] by (simp add: booking_keeps_def)
qed

text \<open>A booking that is not confirmed has no slot to release.\<close>

lemma release_absent:
  assumes "booking_ok s" and b: "booking_row (x_id b) s = Some b" and "x_status b \<noteq> BookingConfirmed"
  shows "release_slot (x_id b) (calendar s) = calendar s"
proof -
  have "x_id c \<noteq> x_id b" if "c \<in> set (bookings s)" "x_status c = BookingConfirmed" for c
  proof
    assume "x_id c = x_id b"
    moreover have "booking_row (x_id c) s = Some c"
      using assms(1) that(1) by (auto simp: booking_ok_def booking_row_def intro: row_get_unique)
    ultimately show False using b that(2) assms(3) by (metis option.inject)
  qed
  then show ?thesis by (auto simp: release_slot_def calendar_def slot_of_def)
qed

lemma same_then:
  assumes "booking_keeps s t" and "same_bookings t u" and "keeps_payments (bk_pay t) (bk_pay u)"
  shows "booking_keeps s u \<and> calendar u = calendar t"
proof -
  from assms(1) have "booking_ok t" by (simp add: booking_keeps_def)
  from same_bookings_keeps [OF assms(2,3) this] have "booking_keeps t u" "calendar u = calendar t"
    by (simp_all add: booking_keeps_def)
  with booking_keeps_trans [OF assms(1)] show ?thesis by blast
qed

lemma approve_effect:
  assumes "booking_ok s" and "approve_booking env seen actor s = Inr t"
  shows "\<exists>b. booking_row (x_id seen) s = Some b \<and> x_space seen = x_space b \<and> x_status b = BookingPending \<and>
    right_now env < x_ends b \<and> booking_keeps s t \<and> confirm_slot (slot_of b) (calendar s) = Some (calendar t)"
proof -
  from assms(2) obtain sp b u where l: "locked_booking seen s = Inr (sp, b)"
    and g: "x_status b = BookingPending" "\<not> x_ends b \<le> right_now env"
      "\<not> confirmed_overlap (h_id sp) (x_starts b) (x_ends b) (Some (x_id b)) s"
    and u: "move_booking actor ''booking.approved'' ''confirmed'' sp b BookingConfirmed s = Inr u"
    and t: "t = create_for_confirmed_booking env b actor u"
    by (auto simp: approve_booking_def ok_iff split: if_splits)
  note b = locked_booking_Inr [OF l]
  then have row: "booking_row (x_id b) s = Some b" using booking_row_SomeD by auto
  have free: "\<not> (\<exists>d \<in> calendar s. slot_clash (slot_of b) d)"
    using g(3) b confirmed_overlap_calendar by (simp add: slot_of_def)
  have m: "booking_move (x_status b) BookingConfirmed" using g(1) by (simp add: booking_move.decided)
  note eff = move_booking_effect [OF assms(1) row u m free]
  have "booking_keeps s t \<and> calendar t = calendar u"
    using eff charge_same charge_keeps unfolding t by (intro same_then) (simp_all add: same_bookings_def)
  with b g eff free show ?thesis by (auto simp: confirm_slot_def)
qed

lemma reject_effect:
  assumes "booking_ok s" and "reject_booking seen actor s = Inr t"
  shows "booking_keeps s t \<and> calendar t = calendar s"
proof -
  from assms(2) obtain sp b where l: "locked_booking seen s = Inr (sp, b)" and g: "x_status b = BookingPending"
    and u: "move_booking actor ''booking.rejected'' ''rejected'' sp b BookingRejected s = Inr t"
    by (auto simp: reject_booking_def ok_iff split: if_splits)
  have row: "booking_row (x_id b) s = Some b" using locked_booking_Inr [OF l] booking_row_SomeD by auto
  have m: "booking_move (x_status b) BookingRejected" using g by (simp add: booking_move.decided)
  from move_booking_effect [OF assms(1) row u m] release_absent [OF assms(1) row] g show ?thesis by simp
qed

lemma transition_effect:
  assumes "booking_ok s" and "transition_booking env seen actor st action event ended s = Inr t"
    and "st \<in> {BookingCancelled, BookingCompleted, BookingNoShow}"
  shows "\<exists>b. booking_row (x_id seen) s = Some b \<and> x_status b = BookingConfirmed \<and> (ended \<longrightarrow> x_ends b \<le> right_now env) \<and>
    booking_row (x_id seen) t = Some (b\<lparr>x_status := st\<rparr>) \<and> spaces t = spaces s \<and> payments (bk_pay t) = payments (bk_pay s) \<and>
    booking_keeps s t \<and> calendar t = release_slot (x_id seen) (calendar s)"
proof -
  from assms(2) obtain sp b where l: "locked_booking seen s = Inr (sp, b)" and g: "x_status b = BookingConfirmed"
    "ended \<longrightarrow> x_ends b \<le> right_now env" and u: "move_booking actor action event sp b st s = Inr t"
    by (auto simp: transition_booking_def ok_iff not_less split: if_splits)
  have b: "booking_row (x_id seen) s = Some b" "x_id b = x_id seen"
    using locked_booking_Inr [OF l] booking_row_SomeD by auto
  then have row: "booking_row (x_id b) s = Some b" by simp
  have m: "booking_move (x_status b) st" using g(1) assms(3) by (simp add: booking_move.ended)
  have "st \<noteq> BookingConfirmed" using assms(3) by auto
  with move_booking_effect [OF assms(1) row u m] move_booking_rows [OF u row] b g show ?thesis by auto
qed

lemma transition_keeps:
  assumes "booking_ok s" and "transition_booking env seen actor st action event ended s = Inr t"
    and "st \<in> {BookingCancelled, BookingCompleted, BookingNoShow}"
  shows "booking_keeps s t \<and> calendar t = release_slot (x_id seen) (calendar s)"
  using transition_effect [OF assms] by blast

lemma cancel_effect:
  assumes "booking_ok s" and "cancel_booking env seen actor s = Inr t"
  shows "booking_keeps s t \<and> calendar t = release_slot (x_id seen) (calendar s)"
proof -
  from assms(2) obtain u where
    u: "transition_booking env seen actor BookingCancelled ''booking.cancelled'' ''cancelled'' False s = Inr u"
    and t: "t = (case booking_row (x_id seen) u of None \<Rightarrow> u | Some b \<Rightarrow> cancel_for_booking env b actor u)"
    by (auto simp: cancel_booking_def ok_iff)
  from transition_effect [OF assms(1) u] obtain b where b: "booking_row (x_id seen) u = Some (b\<lparr>x_status := BookingCancelled\<rparr>)"
    "booking_keeps s u" "calendar u = release_slot (x_id seen) (calendar s)" by auto
  have "pay_ok (bk_pay u)" using b(2) by (simp add: booking_keeps_def booking_ok_def)
  with b(2) have "booking_keeps s t \<and> calendar t = calendar u"
    unfolding t b(1) option.case
    by (intro same_then) (simp_all add: same_bookings_def charge_same cancel_for_keeps)
  with b(3) show ?thesis by simp
qed

section \<open>Booking a space\<close>

lemma insert_booking_Inr:
  "insert_booking b s = Inr (b', t) \<Longrightarrow> x_starts b' < x_ends b' \<and> t = s\<lparr>bookings := bookings s @ [b']\<rparr> \<and>
    x_id b' = x_id b \<and> x_space b' = x_space b \<and> x_starts b' = x_starts b \<and> x_ends b' = x_ends b \<and>
    x_status b' = x_status b \<and> x_answers b' = x_answers b"
  by (auto simp: insert_booking_def clean_booking_def Let_def ok_iff split: if_splits)

lemma insert_booking_effect:
  assumes "booking_ok s" and "insert_booking b s = Inr (b', t)" and "x_id b = fresh_key x_id (bookings s)"
    and "space_row (x_space b) s \<noteq> None"
    and "x_status b = BookingConfirmed \<Longrightarrow> \<not> confirmed_overlap (x_space b) (x_starts b) (x_ends b) None s"
  shows "booking_keeps s t \<and>
    (if x_status b = BookingConfirmed then confirm_slot (slot_of b') (calendar s) = Some (calendar t)
     else calendar t = calendar s)"
proof -
  have t: "bookings t = bookings s @ [b']" "spaces t = spaces s" "bk_pay t = bk_pay s"
    using insert_booking_Inr [OF assms(2)] by simp_all
  have ins: "x_starts b' < x_ends b'" "x_id b' = x_id b" "x_space b' = x_space b" "x_starts b' = x_starts b"
    "x_ends b' = x_ends b" "x_status b' = x_status b"
    using insert_booking_Inr [OF assms(2)] by simp_all
  have cal: "calendar t = (if x_status b = BookingConfirmed then insert (slot_of b') (calendar s) else calendar s)"
    using ins calendar_insert [of s b'] calendar_cong [of t "s\<lparr>bookings := bookings s @ [b']\<rparr>"] t by simp
  have fresh: "\<forall>c \<in> set (bookings s). x_id c \<noteq> x_id b"
    using fresh_key_greater [of _ "bookings s" x_id] assms(3) by fastforce
  have step: "if x_status b = BookingConfirmed then confirm_slot (slot_of b') (calendar s) = Some (calendar t)
     else calendar t = calendar s"
    using assms(5) confirmed_overlap_new [OF fresh] cal ins by (auto simp: confirm_slot_def slot_of_def)
  have "clash_free (calendar s)" using assms(1) by (simp add: booking_ok_def)
  with step have "clash_free (calendar t)" by (auto split: if_splits intro: confirm_clash_free)
  moreover have "space_row i t = space_row i s" for i using t by (simp add: space_row_def)
  moreover have "unique_keys x_id (bookings t)"
    using assms(1,3) ins unique_keys_fresh [of x_id b' "bookings s"] t by (simp add: booking_ok_def)
  ultimately have "booking_ok t"
    using assms(1,4) ins t by (auto simp: booking_ok_def)
  moreover have "bookings_persist s t"
    using t by (auto simp: bookings_persist_def booking_row_def space_row_def row_get_append)
  ultimately show ?thesis using step by (simp add: booking_keeps_def)
qed

text \<open>What a booking that was made went through.\<close>

lemma create_booking_Inr:
  assumes "create_booking env space ms starts ends member name email phone answers note actor s = Inr (b, t)"
  obtains sp b0 st checked u where "space_row space s = Some sp" "h_active sp"
    "st = (if h_approval sp = ''instant'' then BookingConfirmed else BookingPending)"
    "b0 = new_booking (fresh_key x_id (bookings s)) space (map_option mu_id member)
            (booking_contact member name email phone) starts ends note st"
    "enforce_booking_rules sp starts ends (right_now env) = Inr ()" "right_now env < ends" "starts < ends"
    "validate_answers (h_form sp) answers = Inr checked" "check_booking_quota env (h_makerspace sp) s = Inr ()"
    "bookings_module env (h_makerspace sp)"
    "st = BookingConfirmed \<longrightarrow> \<not> confirmed_overlap space starts ends None s"
    "insert_booking (b0\<lparr>x_answers := checked\<rparr>) s = Inr (b, u)"
    "t = (let v = booking_notify ''created'' b (space_audit actor ''booking.created'' sp (''booking'', x_id b)
            [(''booking_id'', MInt (int (x_id b))), (''status'', MStr (status_text st))] u)
          in if st = BookingConfirmed then create_for_confirmed_booking env b actor v else v)"
proof -
  from assms obtain sp where sp: "space_row space s = Some sp" "h_active sp"
    by (auto simp: create_booking_def locked_space_def ok_iff split: if_splits)
  define st where "st = (if h_approval sp = ''instant'' then BookingConfirmed else BookingPending)"
  define b0 where "b0 = new_booking (fresh_key x_id (bookings s)) space (map_option mu_id member)
      (booking_contact member name email phone) starts ends note st"
  have "x_starts b0 = starts" "x_ends b0 = ends" by (simp_all add: b0_def new_booking_def split: prod.splits)
  from assms sp obtain checked u where
    "validate_booking b0 = Inr ()" "enforce_booking_rules sp starts ends (right_now env) = Inr ()" "right_now env < ends"
    "form_checked (validate_answers (h_form sp) answers) = Inr checked"
    "require_module_locked env (h_makerspace sp) s = Inr ()" "check_booking_quota env (h_makerspace sp) s = Inr ()"
    "st = BookingConfirmed \<longrightarrow> \<not> confirmed_overlap space starts ends None s"
    "insert_booking (b0\<lparr>x_answers := checked\<rparr>) s = Inr (b, u)"
    "t = (let v = booking_notify ''created'' b (space_audit actor ''booking.created'' sp (''booking'', x_id b)
            [(''booking_id'', MInt (int (x_id b))), (''status'', MStr (status_text st))] u)
          in if st = BookingConfirmed then create_for_confirmed_booking env b actor v else v)"
    unfolding create_booking_def st_def [symmetric] b0_def [symmetric]
    by (auto simp: locked_space_def ok_iff Let_def st_def [symmetric] b0_def [symmetric] split: if_split_asm)
  moreover from this(1) have "starts < ends"
    using \<open>x_starts b0 = starts\<close> \<open>x_ends b0 = ends\<close> by (auto simp: validate_booking_def split: if_splits)
  ultimately show thesis
    using that [OF sp st_def b0_def] by (auto simp: form_checked_def require_module_locked_def ok_iff split: sum.splits)
qed

lemma create_booking_effect:
  assumes "booking_ok s"
    and "create_booking env space ms starts ends member name email phone answers note actor s = Inr (b, t)"
  shows "booking_keeps s t \<and> (calendar t = calendar s \<or>
    confirm_slot (x_id b, space, starts, ends) (calendar s) = Some (calendar t))"
proof -
  from create_booking_Inr [OF assms(2)] obtain sp b0 st checked u where
    sp: "space_row space s = Some sp"
    and b0: "b0 = new_booking (fresh_key x_id (bookings s)) space (map_option mu_id member)
            (booking_contact member name email phone) starts ends note st"
    and free: "st = BookingConfirmed \<longrightarrow> \<not> confirmed_overlap space starts ends None s"
    and u: "insert_booking (b0\<lparr>x_answers := checked\<rparr>) s = Inr (b, u)"
    and t: "t = (let v = booking_notify ''created'' b (space_audit actor ''booking.created'' sp (''booking'', x_id b)
            [(''booking_id'', MInt (int (x_id b))), (''status'', MStr (status_text st))] u)
          in if st = BookingConfirmed then create_for_confirmed_booking env b actor v else v)"
    by metis
  have b0s: "x_id b0 = fresh_key x_id (bookings s)" "x_space b0 = space" "x_starts b0 = starts" "x_ends b0 = ends"
    "x_status b0 = st"
    by (simp_all add: b0 new_booking_def split: prod.splits)
  have ins: "booking_keeps s u \<and> (if st = BookingConfirmed then confirm_slot (slot_of b) (calendar s) = Some (calendar u)
      else calendar u = calendar s)"
    using insert_booking_effect [OF assms(1) u] b0s sp free by simp
  have "same_bookings u t" unfolding t by (simp add: Let_def same_bookings_def charge_same)
  moreover have "keeps_payments (bk_pay u) (bk_pay t)"
  proof -
    have logs: "keeps_payments (bk_pay u) (bk_pay (booking_notify ev c (space_audit a act sp tgt m u)))" for ev c a act tgt m
      by (rule keeps_same_tables) simp_all
    show ?thesis
      unfolding t Let_def using logs keeps_payments_trans [OF logs charge_keeps] by simp
  qed
  ultimately have "booking_keeps s t \<and> calendar t = calendar u" using same_then ins by blast
  moreover have "slot_of b = (x_id b, space, starts, ends)"
    using insert_booking_Inr [OF u] b0s by (simp add: slot_of_def)
  ultimately show ?thesis using ins by (cases "st = BookingConfirmed") simp_all
qed

section \<open>Changing a space\<close>

lemma save_space_Inr:
  assumes "save_space sp s = Inr t"
  shows "\<exists>old. space_row (h_id sp) s = Some old \<and>
    spaces t = row_put h_id (sp\<lparr>h_name := strip (h_name sp), h_makerspace := h_makerspace old\<rparr>) (spaces s) \<and>
    space_constraints sp \<and> bookings t = bookings s \<and> bk_pay t = bk_pay s"
  using assms by (auto simp: save_space_def clean_space_name_def space_constraints_def ok_iff Let_def split: if_splits)

lemma save_space_keeps:
  assumes "booking_ok s" and "save_space sp s = Inr t" and "space_row (h_id sp) s = Some old"
    and "h_active sp \<longrightarrow> h_active old" and "h_show_names sp \<longrightarrow> h_show_availability sp"
  shows "booking_keeps s t \<and> calendar t = calendar s"
proof -
  let ?sp = "sp\<lparr>h_name := strip (h_name sp), h_makerspace := h_makerspace old\<rparr>"
  from save_space_Inr [OF assms(2)] assms(3) have
    t: "spaces t = row_put h_id ?sp (spaces s)" "space_constraints sp" "bookings t = bookings s" "bk_pay t = bk_pay s"
    by auto
  have row: "space_row i t = (if i = h_id sp then Some ?sp else space_row i s)" for i
    using t(1) assms(3) by (simp add: space_row_def row_get_row_put)
  have "space_constraints x \<and> (h_show_names x \<longrightarrow> h_show_availability x)" if "x \<in> set (spaces t)" for x
    using that t(1,2) set_row_putD [of x h_id ?sp "spaces s"] assms(1,5)
    by (auto simp: booking_ok_def space_constraints_def)
  then have "booking_ok t"
    using assms(1) t row calendar_cong [OF t(3)] by (auto simp: booking_ok_def)
  moreover have "bookings_persist s t"
    using t row assms(3,4) booking_row_cong [OF t(3)] by (auto simp: bookings_persist_def)
  ultimately show ?thesis using calendar_cong [OF t(3)] by (simp add: booking_keeps_def)
qed

lemma apply_change_same:
  "h_id (apply_change c sp) = h_id sp \<and> h_active (apply_change c sp) = h_active sp"
  by (cases c) simp_all

lemma apply_changes_same [simp]:
  "h_id (fold apply_change cs sp) = h_id sp" "h_active (fold apply_change cs sp) = h_active sp"
  by (induction cs arbitrary: sp) (simp_all add: apply_change_same)

lemma apply_rule_same:
  "h_id (apply_rule c sp) = h_id sp \<and> h_active (apply_rule c sp) = h_active sp \<and>
   h_show_names (apply_rule c sp) = h_show_names sp \<and> h_show_availability (apply_rule c sp) = h_show_availability sp"
  by (cases c) simp_all

lemma apply_rules_same [simp]:
  "h_id (fold apply_rule cs sp) = h_id sp" "h_active (fold apply_rule cs sp) = h_active sp"
  "h_show_names (fold apply_rule cs sp) = h_show_names sp"
  "h_show_availability (fold apply_rule cs sp) = h_show_availability sp"
  by (induction cs arbitrary: sp) (simp_all add: apply_rule_same)

lemma logged_keeps:
  assumes "booking_keeps s u \<and> calendar u = C" and "t = space_audit a act sp tgt m u"
  shows "booking_keeps s t \<and> calendar t = C"
proof -
  have "booking_keeps s (space_audit a act sp tgt m u) \<and> calendar (space_audit a act sp tgt m u) = calendar u"
    using assms(1) by (intro same_then) (simp_all add: same_bookings_def keeps_same_tables)
  with assms show ?thesis by simp
qed

lemma booking_keeps_refl: "booking_ok s \<Longrightarrow> booking_keeps s s"
  by (simp add: booking_keeps_def)

lemma update_space_effect:
  assumes "booking_ok s" and "update_space i actor changes s = Inr t"
  shows "booking_keeps s t \<and> calendar t = calendar s"
proof -
  from assms(2) obtain locked cs u where l: "space_row i s = Some locked"
    and vis: "h_show_names (fold apply_change cs locked) \<longrightarrow> h_show_availability (fold apply_change cs locked)"
    and u: "save_changed cs (fold apply_change cs locked) s = Inr u"
    and t: "t = space_audit actor ''booking.space_updated'' (fold apply_change cs locked) (''space'', i) [] u"
    by (auto simp: update_space_def locked_space_def validate_public_visibility_def ok_iff Let_def split: if_splits)
  have "booking_keeps s u \<and> calendar u = calendar s"
  proof (cases "cs = []")
    case True
    with u assms(1) show ?thesis by (simp add: save_changed_def booking_keeps_refl)
  next
    case False
    with u have "save_space (fold apply_change cs locked) s = Inr u" by (simp add: save_changed_def)
    with vis show ?thesis
      using space_row_SomeD [OF l] l by (intro save_space_keeps [OF assms(1)]) auto
  qed
  from logged_keeps [OF this t] show ?thesis .
qed

lemma update_rules_effect:
  assumes "booking_ok s" and "update_booking_rules i actor changes s = Inr t"
  shows "booking_keeps s t \<and> calendar t = calendar s"
proof -
  from assms(2) obtain locked u where l: "space_row i s = Some locked"
    and u: "save_changed changes (fold apply_rule changes locked) s = Inr u"
    and t: "t = space_audit actor ''booking.space_rules_updated'' (fold apply_rule changes locked) (''space'', i) [] u"
    by (auto simp: update_booking_rules_def locked_space_def ok_iff Let_def split: if_splits)
  have "h_show_names locked \<longrightarrow> h_show_availability locked"
    using assms(1) space_row_SomeD [OF l] by (simp add: booking_ok_def)
  then have "booking_keeps s u \<and> calendar u = calendar s"
  proof (cases "changes = []")
    case True
    with u assms(1) show ?thesis by (simp add: save_changed_def booking_keeps_refl)
  next
    case False
    with u have "save_space (fold apply_rule changes locked) s = Inr u" by (simp add: save_changed_def)
    with \<open>h_show_names locked \<longrightarrow> h_show_availability locked\<close> show ?thesis
      using space_row_SomeD [OF l] l save_space_keeps [OF assms(1)] by simp
  qed
  from logged_keeps [OF this t] show ?thesis .
qed

lemma deactivate_effect:
  assumes "booking_ok s" and "deactivate_space i actor s = Inr t"
  shows "booking_keeps s t \<and> calendar t = calendar s"
proof -
  from assms(2) obtain locked u where l: "space_row i s = Some locked"
    and u: "save_space (locked\<lparr>h_active := False\<rparr>) s = Inr u"
    and t: "t = space_audit actor ''booking.space_deactivated'' locked (''space'', i)
              [(''old_status'', MStr ''active''), (''new_status'', MStr ''inactive'')] u"
    by (auto simp: deactivate_space_def locked_space_def ok_iff split: if_splits)
  have "h_show_names locked \<longrightarrow> h_show_availability locked"
    using assms(1) space_row_SomeD [OF l] by (simp add: booking_ok_def)
  then have "booking_keeps s u \<and> calendar u = calendar s"
    using u space_row_SomeD [OF l] l by (intro save_space_keeps [OF assms(1) u]) auto
  from logged_keeps [OF this t] show ?thesis .
qed

lemma create_space_effect:
  assumes "booking_ok s"
    and "create_space ms actor name kind d c l p av nm ap f n a s = Inr (sp, t)"
  shows "booking_keeps s t \<and> calendar t = calendar s"
proof -
  from assms(2) have sp: "h_id sp = fresh_key h_id (spaces s)" "space_constraints sp"
      "h_show_names sp \<longrightarrow> h_show_availability sp"
    and t: "t = space_audit actor ''booking.space_created'' sp (''space'', h_id sp) [] (s\<lparr>spaces := spaces s @ [sp]\<rparr>)"
    by (auto simp: create_space_def clean_space_name_def validate_public_visibility_def new_space_def ok_iff Let_def
        split: if_splits)
  let ?u = "s\<lparr>spaces := spaces s @ [sp]\<rparr>"
  have row: "space_row i ?u = (case space_row i s of None \<Rightarrow> (if h_id sp = i then Some sp else None) | Some x \<Rightarrow> Some x)" for i
    by (simp add: space_row_def row_get_append row_get_Cons split: option.split)
  have "unique_keys h_id (spaces ?u)"
    using assms(1) unique_keys_fresh [OF sp(1)] by (simp add: booking_ok_def)
  then have "booking_ok ?u"
    using assms(1) sp row calendar_cong [of ?u s] by (auto simp: booking_ok_def split: option.splits)
  moreover have "bookings_persist s ?u"
    using row booking_row_cong [of ?u s] by (auto simp: bookings_persist_def)
  ultimately have "booking_keeps s ?u" by (simp add: booking_keeps_def)
  then have "booking_keeps s ?u \<and> calendar ?u = calendar s" using calendar_cong [of ?u s] by simp
  from logged_keeps [OF this t] show ?thesis .
qed

section \<open>The machine\<close>

text \<open>What the calendar may do in each operation.\<close>

fun calendar_spec :: "booking_op \<Rightarrow> slot set \<Rightarrow> slot set \<Rightarrow> bool" where
  "calendar_spec (Book space ms starts ends member name email phone answers note actor) C D \<longleftrightarrow>
     D = C \<or> (\<exists>i. confirm_slot (i, space, starts, ends) C = Some D)"
| "calendar_spec (Approve b actor) C D \<longleftrightarrow> (\<exists>a e. confirm_slot (x_id b, x_space b, a, e) C = Some D)"
| "calendar_spec (CancelBooking b actor) C D \<longleftrightarrow> D = release_slot (x_id b) C"
| "calendar_spec (Complete b actor) C D \<longleftrightarrow> D = release_slot (x_id b) C"
| "calendar_spec (NoShow b actor) C D \<longleftrightarrow> D = release_slot (x_id b) C"
| "calendar_spec _ C D \<longleftrightarrow> D = C"

lemma booking_step_effect:
  assumes "booking_ok s" and "booking_step (env, op) s = Inr t"
  shows "booking_keeps s t \<and> calendar_spec op (calendar s) (calendar t)"
proof (cases op)
  case (Book space ms starts ends member name email phone answers nt actor)
  with assms(2) obtain b where
    "create_booking env space ms starts ends member name email phone answers nt actor s = Inr (b, t)"
    by (auto simp: ok_iff)
  from create_booking_effect [OF assms(1) this] Book show ?thesis by auto
next
  case (Approve seen actor)
  with assms(2) have "approve_booking env seen actor s = Inr t" by simp
  from approve_effect [OF assms(1) this] obtain b where
    "booking_row (x_id seen) s = Some b" "x_space seen = x_space b" "booking_keeps s t"
    "confirm_slot (slot_of b) (calendar s) = Some (calendar t)" by blast
  with booking_row_SomeD Approve show ?thesis by (auto simp: slot_of_def)
next
  case (CreateSpace ms actor name kind d c l p av nm ap f n a)
  with assms show ?thesis by (auto simp: ok_iff dest: create_space_effect)
next
  case (Complete b actor)
  with assms show ?thesis by (auto simp: complete_booking_def dest: transition_keeps)
next
  case (NoShow b actor)
  with assms show ?thesis by (auto simp: mark_no_show_def dest: transition_keeps)
qed (use assms in \<open>auto dest: reject_effect cancel_effect update_space_effect update_rules_effect deactivate_effect\<close>)

lemma booking_step_inv:
  "booking_ok s \<Longrightarrow> booking_step c s = Inr t \<Longrightarrow> booking_ok t \<and> bookings_persist s t"
  using booking_step_effect [of s "fst c" "snd c" t] by (simp add: booking_keeps_def)

interpretation booking: tracked_machine booking_step booking_ok bookings_persist
  by unfold_locales (use booking_step_inv bookings_persist_trans in \<open>(blast intro: bookings_persist_refl)+\<close>)

end
