(* ===== verification/Payment_Properties.thy ===== *)
theory Payment_Properties
  imports Payment_Safety
begin

text \<open>The properties of the payment services, with a sample space that charges through Stripe.\<close>

section \<open>Samples\<close>

definition sample_env :: pay_env where
  "sample_env = \<lparr>clock = 100, payments_module = (\<lambda>_. True), payments_feature = (\<lambda>_ _. True),
     servable = (\<lambda>_. True), on_self_host = False, decrypt = Some, subject_exists = (\<lambda>_ _ _. True),
     membership_user = (\<lambda>_ _. None), url_ok = (\<lambda>_. True), scope_allows = (\<lambda>_ _ _. True),
     machine_request_live = (\<lambda>_. True), machine_request_covered = (\<lambda>_ _. True),
     machine_scope_exempt = (\<lambda>_ _. True), vendor_expires = (\<lambda>_ _ _. True),
     member_url = (\<lambda>_. ''https://m.example''),
     open_checkout = (\<lambda>_ _ _. Inr (Some ''cs_1'', Some ''https://pay.example/1'')),
     open_intent = (\<lambda>_ _ _. Inr (Some ''pi_1'', Some ''secret'')), account_state = (\<lambda>_. None)\<rparr>"

definition sample_merchant :: merchant where
  "sample_merchant = (default_merchant 1)\<lparr>mp_stripe_secret := ''sk'', mp_stripe_webhook := ''wh''\<rparr>"

definition sample_space :: makerspace where
  "sample_space = \<lparr>m_id = 1, m_default_loan_days = 7, m_storage_used = 0, m_storage_override = None\<rparr>"

definition sample_pay :: pay_db where
  "sample_pay = \<lparr>pay_base = empty_db\<lparr>makerspaces := [sample_space]\<rparr>, payments = [],
     merchants = [sample_merchant], platform = None, processed = []\<rparr>"

definition sample_payment :: payment where
  "sample_payment = (new_payment 1 1 SubjectBooking 5 (Some 7) None ''Bench'' 12550 ''inr'' 9)
     \<lparr>y_rail := Some CheckoutRail, y_session := Some ''cs_1'', y_order := Some ''cs_1'',
      y_checkout_url := ''https://pay.example/1'', y_stripe_url := ''https://pay.example/1''\<rparr>"

definition sample_charged :: pay_db where
  "sample_charged = sample_pay\<lparr>payments := [sample_payment]\<rparr>"

definition sample_event :: stripe_event where
  "sample_event = \<lparr>we_id = Some ''evt_1'', we_type = ''checkout.session.completed'', we_object_id = Some ''cs_1'',
     we_intent = Some ''pi_1'', we_payment_status = Some ''paid'', we_account = None, we_created = Some 90\<rparr>"

lemmas sample_pay_defs = sample_env_def sample_merchant_def default_merchant_def sample_space_def sample_pay_def
  sample_payment_def sample_charged_def sample_event_def new_payment_def empty_db_def

lemma sample_charged_ok: "pay_ok sample_charged"
  by (simp add: pay_ok_def sample_pay_defs payment_sound_def payment_unique_def fee_sound_def one_rail_def
      max_cents_def currency_shape_def is_lower_def code_of_def unique_keys_def)

section \<open>Every run\<close>

text \<open>
  C21. Over every run of the payment services, whatever the vendors answer and whatever order the
  events come in: the table stays well-formed (one payment per subject, vendor ids that name one
  payment, positive amounts in a three-letter currency, a fee that fits the charge, one rail), no
  payment disappears, the subject, payer, amount, currency, vendor, account and fee of a payment
  never change, its status only goes from pending to a settled one or from waived to paid online,
  and a rail once claimed stays.
\<close>

theorem payments_settle_forward:
  assumes "pay_ok s"
  shows "pay_ok (fold (attempt pay_step) cs s) \<and> payments_persist s (fold (attempt pay_step) cs s)"
  using paying.run_inv [OF assms] paying.run_rel [OF assms] by blast

lemma payments_persistD:
  "payments_persist s t \<Longrightarrow> payment_row i s = Some p \<Longrightarrow> \<exists>q. payment_row i t = Some q \<and> successor p q"
  by (simp add: payments_persist_def)

theorem payments_settle_forward_witness:
  "\<exists>q. payment_row 1 (fold (attempt pay_step)
         [(sample_env, Reconcile 9 1 [1] Waived), (sample_env, StripeHook 1 sample_event)] sample_charged) = Some q \<and>
       y_amount q = 12550"
    (is "\<exists>q. payment_row 1 ?t = Some q \<and> _")
proof -
  have row: "payment_row 1 sample_charged = Some sample_payment"
    by (simp add: payment_row_def sample_pay_defs row_get_Cons)
  have "payments_persist sample_charged ?t"
    using payments_settle_forward [OF sample_charged_ok] by (rule conjunct2)
  from payments_persistD [OF this row] obtain q where q: "payment_row 1 ?t = Some q" "frozen q = frozen sample_payment"
    unfolding successor_def by (elim exE conjE)
  from frozenD(3) [OF q(2)] have "y_amount q = 12550" by (simp add: sample_payment_def new_payment_def)
  with q(1) show ?thesis by (intro exI conjI)
qed

section \<open>Webhooks\<close>

lemma record_once_claims:
  "record_once ms eid v s = Inr (Some t) \<Longrightarrow> event_claimed ms v eid t \<and> length eid \<le> 255"
  by (auto simp: record_once_def event_claimed_def split: if_splits)

lemma record_once_again:
  "event_claimed ms v eid s \<Longrightarrow> length eid \<le> 255 \<Longrightarrow> record_once ms eid v s = Inr None"
  by (simp add: record_once_def)

lemma event_claimed_mono:
  "event_claimed ms v eid s \<Longrightarrow> set (processed s) \<subseteq> set (processed t) \<Longrightarrow> event_claimed ms v eid t"
  by (auto simp: event_claimed_def)

lemma keeps_processed: "keeps_payments s t \<Longrightarrow> set (processed s) \<subseteq> set (processed t)"
  by (simp add: keeps_payments_def payments_persist_def)

text \<open>A claimed event is ignored.\<close>

lemma claimed_event_ignored:
  assumes "event_claimed ms Stripe eid s" and "length eid \<le> 255" and "truthy (we_id ev) = Some eid"
  shows "apply_webhook_event env ms ev mode account s = Inr (None, s)"
  using record_once_again [OF assms(1,2)] assms(3)
  by (simp add: apply_webhook_event_def split: option.splits)

lemma settled_event_claimed:
  assumes "pay_ok s" and "apply_webhook_event env ms ev mode account s = Inr (Some p, t)"
  obtains eid where "event_claimed ms Stripe eid t" "length eid \<le> 255" "truthy (we_id ev) = Some eid"
proof -
  from assms(2) obtain q eid u P where q: "newest P s = Some q" "record_once ms eid Stripe s = Inr (Some u)"
    "apply_to_payment env ev eid q u = Inr (Some p, t)" and eid: "truthy (we_id ev) = Some eid"
    unfolding apply_webhook_event_def by (auto simp: ok_iff case_option_Inr split: if_splits)
  have u: "keeps_payments s u" "payments u = payments s"
    using yields_Inr [OF record_once_wp [where Q = "\<lambda>x. \<forall>u. x = Some u \<longrightarrow> keeps_payments s u \<and> payments u = payments s"] q(2)]
    by simp_all
  then have "pay_ok u" "q \<in> set (payments u)"
    using assms(1) newest_Some [OF q(1)] by (simp_all add: keeps_payments_def)
  from yields_Inr [OF apply_to_payment_keeps [OF this] q(3)] have "keeps_payments u t" by simp
  with record_once_claims [OF q(2)] eid show thesis
    using that event_claimed_mono keeps_processed by metis
qed

text \<open>
  C22. A Stripe event that was applied is never applied again: delivered a second time, at any later
  moment of any run and through either webhook route, it changes nothing.
\<close>

theorem webhook_applied_once:
  assumes "pay_ok s" and "apply_webhook_event env ms ev mode account s = Inr (Some p, t)"
  shows "apply_webhook_event env' ms ev mode' account' (fold (attempt pay_step) cs t) =
    Inr (None, fold (attempt pay_step) cs t)"
proof -
  from settled_event_claimed [OF assms] obtain eid where
    eid: "event_claimed ms Stripe eid t" "length eid \<le> 255" "truthy (we_id ev) = Some eid" .
  have "pay_ok t"
    using yields_Inr [OF apply_webhook_keeps [OF assms(1)] assms(2)] assms(1) by (simp add: keeps_payments_def)
  then have "payments_persist t (fold (attempt pay_step) cs t)" by (rule paying.run_rel)
  then have "event_claimed ms Stripe eid (fold (attempt pay_step) cs t)"
    using eid(1) event_claimed_mono by (auto simp: payments_persist_def)
  then show ?thesis using eid(2,3) by (rule claimed_event_ignored)
qed

theorem webhook_applied_once_witness:
  "\<exists>p t. apply_webhook_event sample_env 1 sample_event RawKeys None sample_charged = Inr (Some p, t) \<and>
     apply_webhook_event sample_env 1 sample_event RawKeys None t = Inr (None, t)"
proof -
  have "\<exists>p t. apply_webhook_event sample_env 1 sample_event RawKeys None sample_charged = Inr (Some p, t)"
    by (simp add: apply_webhook_event_def apply_to_payment_def settle_online_def sample_pay_defs truthy_def or_else_def
        session_of_def intent_of_def session_types_def relevant_event_def newest_def identified_def record_once_def
        event_claimed_def save_payment_def payment_row_def row_get_Cons save_guard_def full_clean_def
        payment_fields_ok_def subject_clean_def identity_unchanged_def payment_unique_def url_field_ok_def
        short_text_def currency_shape_def is_lower_def code_of_def max_cents_def terminal_guard_def Let_def)
  then obtain p t where run: "apply_webhook_event sample_env 1 sample_event RawKeys None sample_charged = Inr (Some p, t)"
    by blast
  from webhook_applied_once [OF sample_charged_ok this, of sample_env RawKeys None "[]"] run show ?thesis by simp
qed

text \<open>
  C23. Money that arrives after the charge was settled otherwise: a waived charge becomes paid
  online, which is the only settled status that changes; any other row stays as it is. The audit log
  says so, and one paid at the counter is flagged for a refund.
\<close>

theorem late_money_resolved:
  assumes "pay_ok s" and "p \<in> set (payments s)" and "y_status p \<noteq> PayPending"
    and "we_type ev \<noteq> ''checkout.session.expired''" and "apply_to_payment env ev eid p s = Inr (r, t)"
  shows "payments t =
      (if y_status p = Waived
       then row_put y_id (p\<lparr>y_status := PaidOnline,
              y_intent := (case intent_of ev of None \<Rightarrow> y_intent p | Some i \<Rightarrow> Some i)\<rparr>) (payments s)
       else payments s) \<and>
    map u_action (audit_log (pay_base t)) = map u_action (audit_log (pay_base s)) @
      ''payment.paid_after_terminal'' #
      (if y_status p = PaidOffline then [''payment.double_paid_refund_required''] else [])"
proof -
  have row: "payment_row (y_id p) s = Some p" using assms(1,2) by (rule payment_row_mem)
  have tr: "truthy (intent_of ev) = intent_of ev" by (simp add: intent_of_def truthy_def)
  from assms(3-5) obtain q where
    run: "paid_after_terminal [(''stripe_event_id'', MStr eid)] p (intent_of ev) s = Inr (q, t)"
    by (auto simp: apply_to_payment_def handle_stripe_paid_after_terminal_def ok_iff)
  show ?thesis
  proof (cases "y_status p = Waived")
    case True
    with run obtain u where u: "promote_waived_to_paid_online p (intent_of ev) s = Inr (q, u)"
      and t: "t = pay_audit None ''payment.paid_after_terminal'' q
        ([(''stripe_event_id'', MStr eid)] @ [(''prior_status'', MStr (status_name (y_status p))),
          (''resolved_status'', MStr (status_name (y_status q)))]) u"
      by (auto simp: paid_after_terminal_def ok_iff Let_def)
    from promote_Inr [OF u] row tr have "payments u = row_put y_id (p\<lparr>y_status := PaidOnline,
        y_intent := (case intent_of ev of None \<Rightarrow> y_intent p | Some i \<Rightarrow> Some i)\<rparr>) (payments s)"
      "pay_base u = pay_base s"
      by (metis option.inject put_payment_simps(4), metis put_payment_def pay_db.select_convs(1) pay_db.surjective pay_db.update_convs(2))
    with True t show ?thesis by (simp add: pay_audit_def audit_record_def)
  next
    case False
    with run show ?thesis by (auto simp: paid_after_terminal_def Let_def pay_audit_def audit_record_def)
  qed
qed

theorem late_money_resolved_witness:
  "\<exists>r t. apply_to_payment sample_env sample_event ''evt_1'' (sample_payment\<lparr>y_status := Waived\<rparr>)
       (sample_pay\<lparr>payments := [sample_payment\<lparr>y_status := Waived\<rparr>]\<rparr>) = Inr (r, t) \<and>
     map y_status (payments t) = [PaidOnline]"
proof -
  let ?p = "sample_payment\<lparr>y_status := Waived\<rparr>"
  let ?s = "sample_pay\<lparr>payments := [?p]\<rparr>"
  have ok: "pay_ok ?s"
    by (simp add: pay_ok_def sample_pay_defs payment_sound_def payment_unique_def fee_sound_def one_rail_def
        max_cents_def currency_shape_def is_lower_def code_of_def unique_keys_def)
  have "\<exists>r t. apply_to_payment sample_env sample_event ''evt_1'' ?p ?s = Inr (r, t)"
    by (simp add: apply_to_payment_def sample_pay_defs handle_stripe_paid_after_terminal_def paid_after_terminal_def
        promote_waived_to_paid_online_def payment_row_def row_get_Cons terminal_guard_def short_text_def truthy_def
        or_else_def intent_of_def payment_unique_def Let_def)
  then obtain r t where run: "apply_to_payment sample_env sample_event ''evt_1'' ?p ?s = Inr (r, t)" by blast
  have "payments t = row_put y_id (?p\<lparr>y_status := PaidOnline, y_intent := (case intent_of sample_event of None \<Rightarrow> y_intent ?p | Some i \<Rightarrow> Some i)\<rparr>) (payments ?s)"
    using late_money_resolved [OF ok _ _ _ run] by (simp add: sample_event_def)
  with run show ?thesis by (auto simp: row_put_def)
qed

section \<open>The counter\<close>

text \<open>
  A batch is settled as a whole or not at all. When it returns, exactly the requested payments
  changed: every one was a pending charge of the makerspace, and now has the requested status, with
  nothing else changed but the expiry stamp of its hosted page.
\<close>

lemma reconcile_batch_atomic:
  assumes "pay_ok s" and "reconcile_payments env actor ms ids target s = Inr t"
  shows "payment_row i t =
      (if i \<in> set ids then map_option (\<lambda>p. (expire_checkout_best_effort env p s)\<lparr>y_status := target\<rparr>) (payment_row i s)
       else payment_row i s) \<and>
    (i \<in> set ids \<longrightarrow> (\<exists>p. payment_row i s = Some p \<and> y_makerspace p = ms \<and> y_status p = PayPending)) \<and>
    target \<in> {PaidOffline, Waived}"
proof -
  have eq: "settled_row env target s = (\<lambda>p. (expire_checkout_best_effort env p s)\<lparr>y_status := target\<rparr>)"
    by (rule ext) (rule settled_row_def)
  from reconcile_payments_Inr [OF assms, of i] show ?thesis unfolding eq by (elim conjE) (intro conjI)
qed

lemma reconcile_batch_atomic_witness:
  "\<exists>t. reconcile_payments sample_env 9 1 [1] Waived sample_charged = Inr t \<and>
     map_option y_status (payment_row 1 t) = Some Waived"
proof -
  have "\<exists>t. reconcile_payments sample_env 9 1 [1] Waived sample_charged = Inr t"
    by (simp add: reconcile_payments_def require_subject_authority_def subject_actions_def reconcile_one_def
        expire_checkout_best_effort_def source_for_payment_def for_makerspace_def merchant_row_def
        raw_credentials_configured_def decrypt_pair_def raw_source_def sample_pay_defs
        save_payment_def payment_row_def row_get_Cons save_guard_def full_clean_def
        payment_fields_ok_def subject_clean_def identity_unchanged_def payment_unique_def url_field_ok_def
        short_text_def currency_shape_def is_lower_def code_of_def max_cents_def terminal_guard_def Let_def)
  then obtain t where run: "reconcile_payments sample_env 9 1 [1] Waived sample_charged = Inr t" by blast
  from reconcile_batch_atomic [OF sample_charged_ok run, of 1] run show ?thesis
    by (auto simp: payment_row_def)
qed

section \<open>Raising a charge\<close>

lemma round_fee_close:
  assumes "fee = min charge (round_half_up (charge * bps) (10000 * quantum) * quantum)" and "0 < quantum"
  shows "fee = charge \<or> \<bar>10000 * fee - charge * bps\<bar> * 2 \<le> 10000 * quantum"
proof (cases "fee = charge")
  case False
  define r where "r = round_half_up (charge * bps) (10000 * quantum) * (10000 * quantum)"
  have "10000 * fee = r" using assms(1) False by (simp add: r_def min_def split: if_splits)
  moreover have "2 * (charge * bps) - 10000 * quantum < 2 * r" "2 * r \<le> 2 * (charge * bps) + 10000 * quantum"
    using round_half_up_nearest [of "10000 * quantum" "charge * bps"] assms(2) by (simp_all add: r_def)
  then have "\<bar>r - charge * bps\<bar> * 2 \<le> 10000 * quantum" unfolding abs_if by auto
  ultimately show ?thesis by simp
qed simp

text \<open>
  C24. A charge that was raised can be collected: its stored amount is exactly the amount asked for,
  it is a whole number of the currency's minor units on the vendor's quantum, the fee is a multiple of
  the quantum between nothing and the charge, and it is the platform's rate rounded to the nearest
  quantum unless it was capped at the charge.
\<close>

theorem created_charge_collectable:
  assumes "create_payment env ms ty sid member (Dec c e) currency by via label s = Inr (p, t)"
  shows "\<exists>source scale quantum charge. resolve_payment_source env ms s = Some source \<and>
    currency_units (y_currency p) (y_provider p) = Inr (scale, quantum) \<and>
    cents c e = Some (y_amount p) \<and> y_amount p * scale = 100 * charge \<and> payable p = Inr charge \<and>
    0 \<le> y_fee p \<and> y_fee p \<le> charge \<and> y_fee p mod quantum = 0 \<and>
    (y_fee p = charge \<or> \<bar>10000 * y_fee p - charge * so_bps source\<bar> * 2 \<le> 10000 * quantum)"
proof -
  from assms obtain source cur v fee where src: "resolve_payment_source env ms s = Some source"
    and cur: "normalize_currency currency = Inr cur" and v: "normalize_major_amount (Dec c e) = Inr v"
    and fee: "application_fee_amount (stored_amount v) (so_bps source) cur (so_vendor source) = Inr fee"
    and p: "y_amount p = v" "y_currency p = cur" "y_provider p = so_vendor source" "y_fee p = fee"
    by (auto simp: create_payment_def ok_iff Let_def new_payment_def)
  from application_fee_valid [OF fee] obtain charge scale quantum where
    charge: "to_minor_units (stored_amount v) cur (so_vendor source) = Inr charge"
    and u: "currency_units cur (so_vendor source) = Inr (scale, quantum)" and ok: "valid_fee quantum charge fee" by blast
  have n: "v * scale = 100 * charge" using charge u by (auto simp: to_minor_units_Inr split: if_splits)
  have q: "0 < quantum" using currency_units_cases [OF u] by auto
  have "fee = min charge (round_half_up (charge * so_bps source) (10000 * quantum) * quantum)"
    using fee charge u by (auto simp: application_fee_amount_def ok_iff)
  then have close: "fee = charge \<or> \<bar>10000 * fee - charge * so_bps source\<bar> * 2 \<le> 10000 * quantum"
    using q by (rule round_fee_close)
  have "cents c e = Some v" using v by (auto simp: normalize_major_amount_def split: option.splits if_splits)
  moreover have "payable p = Inr charge"
    using charge u ok by (simp add: payable_def validate_amount_def p)
  ultimately show ?thesis
    using src u n ok close p by (auto simp: valid_fee_def)
qed

theorem created_charge_collectable_witness:
  "\<exists>p t. create_payment sample_env 1 SubjectBooking 6 (Some 7) (Dec 12550 (- 2)) ''INR'' 9 None ''Bench'' sample_pay = Inr (p, t) \<and>
     payable p = Inr 12550"
proof -
  have inr: "normalize_currency ''INR'' = Inr ''inr''" "currency_units ''inr'' Stripe = Inr (100, 1)" by code_simp+
  have "\<exists>p t. create_payment sample_env 1 SubjectBooking 6 (Some 7) (Dec 12550 (- 2)) ''INR'' 9 None ''Bench'' sample_pay = Inr (p, t) \<and>
      y_amount p = 12550 \<and> y_currency p = ''inr'' \<and> y_provider p = Stripe"
    by (simp add: create_payment_def new_charges_allowed_locked_def get_makerspace_def resolve_payment_source_def
        for_makerspace_def merchant_row_def raw_credentials_configured_def decrypt_pair_def raw_source_def inr
        normalize_major_amount_def application_fee_amount_def to_minor_units_def stored_amount_def round_half_up_def
        sample_pay_defs insert_payment_def full_clean_def payment_fields_ok_def subject_clean_def
        payment_unique_def url_field_ok_def short_text_def currency_shape_def is_lower_def code_of_def max_cents_def
        row_get_Cons fresh_key_def Let_def)
  then obtain p t where run: "create_payment sample_env 1 SubjectBooking 6 (Some 7) (Dec 12550 (- 2)) ''INR'' 9 None ''Bench'' sample_pay = Inr (p, t)"
    and p: "y_amount p = 12550" "y_currency p = ''inr''" "y_provider p = Stripe" by blast
  from created_charge_collectable [OF run] inr p have "payable p = Inr 12550" by auto
  with run show ?thesis by blast
qed

section \<open>The hosted page\<close>

lemma open_checkout_page_Inr:
  assumes "open_checkout_page env p actor src minor s = Inr (url, t)"
  obtains q reply old where "open_checkout env src p minor = Inr reply" "checkout_reply p reply = Inr (q, url)" "full_clean env (Some old) q s"
    "payments t = row_put y_id q (payments s)" "platform t = platform s" "payment_row (y_id q) s = Some old"
  using assms by (auto simp: open_checkout_page_def ok_iff save_payment_Inr split: if_splits)

lemma checkout_reply_url:
  "checkout_reply p reply = Inr (q, url) \<Longrightarrow>
    (\<exists>oid. reply = (Some oid, Some url)) \<and> url \<noteq> [] \<and> y_checkout_url q = url \<and> y_status q = y_status p \<and> y_stripe_mode q = y_stripe_mode p \<and>
    y_id q = y_id p \<and> y_rail q = y_rail p"
  by (auto simp: checkout_reply_def split: prod.splits option.splits if_splits)

lemma refresh_platform:
  "refresh_connected_account env m s = Inr (m', t) \<Longrightarrow> platform t = platform s"
  by (auto simp: refresh_connected_account_def update_account_status_def save_connect_status_def ok_iff Let_def
      split: option.splits if_splits)

lemma checkout_source_platform: "checkout_source env p s = Inr (r, t) \<Longrightarrow> platform t = platform s"
  by (auto simp: checkout_source_def ok_iff split: option.splits if_splits dest: refresh_platform)

text \<open>The two ways a hosted page address is handed out: the stored one, or a new one.\<close>

lemma create_checkout_url_cases:
  assumes "create_checkout_url env pid actor s = (Inr url, t)" and "url \<noteq> []"
  obtains (stored) p where "t = s" "payment_row pid s = Some p" "y_status p = PayPending"
      "y_rail p \<noteq> Some NativeIntentRail" "y_stripe_mode p = ConnectKeys \<longrightarrow> platform s \<noteq> None"
      "y_checkout_url p \<noteq> [] \<or> y_stripe_url p \<noteq> []"
      "url = (if y_checkout_url p \<noteq> [] then y_checkout_url p else y_stripe_url p)"
  | (opened) p src u minor where "payment_row pid s = Some p" "y_status p = PayPending"
      "y_rail p \<noteq> Some NativeIntentRail" "y_stripe_mode p = ConnectKeys \<longrightarrow> platform s \<noteq> None"
      "checkout_source env (p\<lparr>y_rail := (case y_rail p of None \<Rightarrow> Some CheckoutRail | Some r \<Rightarrow> Some r)\<rparr>) s = Inr ((src, True), u)"
      "open_checkout_page env (p\<lparr>y_rail := (case y_rail p of None \<Rightarrow> Some CheckoutRail | Some r \<Rightarrow> Some r)\<rparr>) actor src minor u = Inr (url, t)"
proof -
  from assms(1) have "create_checkout_url_atomic env pid actor s = CheckoutUrl url t"
    by (auto simp: create_checkout_url_def split: checkout_result.splits option.splits)
  with assms(2) that show thesis
    unfolding create_checkout_url_atomic_def checkout_result_of_def Let_def
    by (cases "payment_row pid s") (auto split: if_splits sum.splits prod.splits)
qed

text \<open>
  C25. A payment has one hosted page: once its address was handed out, asking again hands out the
  same address and changes nothing, whatever the vendor would answer now.
\<close>

theorem checkout_page_once:
  assumes "create_checkout_url env pid actor s = (Inr url, t)" and "url \<noteq> []"
  shows "create_checkout_url env' pid actor' t = (Inr url, t)"
  using assms
proof (cases rule: create_checkout_url_cases)
  case (stored p)
  then show ?thesis by (auto simp: create_checkout_url_def create_checkout_url_atomic_def)
next
  case (opened p src u minor)
  let ?p = "p\<lparr>y_rail := (case y_rail p of None \<Rightarrow> Some CheckoutRail | Some r \<Rightarrow> Some r)\<rparr>"
  from open_checkout_page_Inr [OF opened(6)] obtain q reply old where
    q: "checkout_reply ?p reply = Inr (q, url)" "payments t = row_put y_id q (payments u)" "platform t = platform u"
      "payment_row (y_id q) u = Some old" by metis
  note url = checkout_reply_url [OF q(1)]
  have "payment_row pid t = Some q"
    using q(2,4) url payment_row_SomeD [OF opened(1)] by (simp add: payment_row_def row_get_row_put)
  moreover have "y_rail q \<noteq> Some NativeIntentRail" using url opened(3) by (cases "y_rail p") auto
  moreover have "platform t = platform s" using q(3) checkout_source_platform [OF opened(5)] by simp
  ultimately show ?thesis
    using url opened(2,4) by (simp add: create_checkout_url_def create_checkout_url_atomic_def)
qed

theorem checkout_page_once_witness:
  "\<exists>url t. create_checkout_url sample_env 1 None sample_charged = (Inr url, t) \<and> url \<noteq> [] \<and>
     create_checkout_url (sample_env\<lparr>open_checkout := (\<lambda>_ _ _. Inl PaymentsUnavailable)\<rparr>) 1 None t = (Inr url, t)"
proof -
  have "create_checkout_url sample_env 1 None sample_charged = (Inr ''https://pay.example/1'', sample_charged)"
    by (simp add: create_checkout_url_def create_checkout_url_atomic_def sample_pay_defs payment_row_def row_get_Cons)
  from checkout_page_once [OF this] this show ?thesis by auto
qed

text \<open>
  C26. The address column holds 200 characters. When the vendor answers with a longer address, no
  hosted page is ever handed out: the creation fails, and the payment stays as it was.
\<close>

theorem long_address_never_stored:
  assumes "payment_row pid s = Some p" and "y_status p = PayPending" and "y_checkout_url p = []" and "y_stripe_url p = []"
    and "\<And>src q m oid url. open_checkout env src q m = Inr (oid, Some url) \<Longrightarrow> 200 < length url"
  shows "(\<exists>e. fst (create_checkout_url env pid actor s) = Inl e) \<and>
    payments (snd (create_checkout_url env pid actor s)) = payments s"
proof -
  have never: "open_checkout_page env q actor src minor u \<noteq> Inr (url, t)" for q src minor u url t
  proof
    assume run: "open_checkout_page env q actor src minor u = Inr (url, t)"
    from open_checkout_page_Inr [OF this] obtain r reply old where
      reply: "open_checkout env src q minor = Inr reply" "checkout_reply q reply = Inr (r, url)"
      and clean: "full_clean env (Some old) r u" by metis
    from checkout_reply_url [OF reply(2)] reply(1) obtain oid where
      r: "open_checkout env src q minor = Inr (Some oid, Some url)" "y_checkout_url r = url" "url \<noteq> []" by auto
    from assms(5) [OF r(1)] clean r(2,3) show False
      by (simp add: full_clean_def payment_fields_ok_def url_field_ok_def)
  qed
  then have fails: "\<exists>e. checkout_result_of (open_checkout_page env q actor src minor u) = CheckoutFails e" for q src minor u
    by (cases "open_checkout_page env q actor src minor u") (auto simp: checkout_result_of_def)
  have "(\<exists>e. create_checkout_url_atomic env pid actor s = CheckoutFails e) \<or>
      create_checkout_url_atomic env pid actor s = AccountCannotCharge"
    using assms(1-4) fails
    by (auto simp: create_checkout_url_atomic_def Let_def split: sum.splits prod.splits)
  then show ?thesis
    by (auto simp: create_checkout_url_def split: option.splits)
qed

theorem long_address_never_stored_witness:
  "\<exists>e. fst (create_checkout_url (sample_env\<lparr>open_checkout := (\<lambda>_ _ _. Inr (Some ''cs'', Some (replicate 201 CHR ''x'')))\<rparr>)
     1 None (sample_pay\<lparr>payments := [new_payment 1 1 SubjectBooking 5 (Some 7) None ''Bench'' 12550 ''inr'' 9]\<rparr>)) = Inl e"
proof -
  let ?p = "new_payment 1 1 SubjectBooking 5 (Some 7) None ''Bench'' 12550 ''inr'' 9"
  let ?env = "sample_env\<lparr>open_checkout := (\<lambda>_ _ _. Inr (Some ''cs'', Some (replicate 201 CHR ''x'')))\<rparr>"
  have "payment_row 1 (sample_pay\<lparr>payments := [?p]\<rparr>) = Some ?p"
    by (simp add: payment_row_def row_get_Cons new_payment_def)
  from long_address_never_stored [OF this, of ?env None] show ?thesis
    by (simp add: new_payment_def)
qed

end
