(* ===== verification/Booking_Properties.thy ===== *)
theory Booking_Properties
  imports Booking_Safety Payment_Properties
begin

text \<open>
  The properties of the booking services, with a sample space of the sample makerspace: a bench that
  is booked at once and costs 125.50, from one to eight hours long.
\<close>

section \<open>Samples\<close>

definition bench :: bookable_space where
  "bench = (new_space 1 1 None ''Bench'' ''bench'' [] 1 [] True True False ''instant'' JNull None 12550)
     \<lparr>h_min_minutes := 60, h_lead_minutes := 0\<rparr>"

definition sample_bookings :: booking_db where
  "sample_bookings = \<lparr>bk_pay = sample_pay, spaces = [bench], bookings = []\<rparr>"

definition sample_member :: member_user where
  "sample_member = \<lparr>mu_id = 7, mu_display_name = ''Asha'', mu_full_name = [], mu_username = ''asha'',
     mu_email = ''asha@example.org'', mu_phone = ''123''\<rparr>"

definition desk_env :: booking_env where
  "desk_env = \<lparr>bk_env = sample_env, booking_fenced = (\<lambda>_. False), bookings_module = (\<lambda>_. True),
     booking_limit = (\<lambda>_. Some 5)\<rparr>"

definition sample_book :: booking_op where
  "sample_book = Book 1 1 1000 8200 (Some sample_member) None None None JNull ''note'' None"

definition seen_booking :: booking where
  "seen_booking = (new_booking 1 1 (Some 7) (''Asha'', ''asha@example.org'', ''123'') 1000 8200 ''note'' BookingPending)"

definition sample_pending :: booking_db where
  "sample_pending = sample_bookings\<lparr>bookings := [seen_booking]\<rparr>"

definition sample_confirmed :: booking_db where
  "sample_confirmed = sample_bookings\<lparr>bk_pay := sample_charged, bookings := [seen_booking\<lparr>x_id := 5, x_status := BookingConfirmed\<rparr>]\<rparr>"

lemmas sample_booking_defs = bench_def new_space_def sample_bookings_def sample_member_def desk_env_def sample_book_def
  seen_booking_def new_booking_def sample_pending_def sample_confirmed_def

lemma sample_texts:
  "strip ''Asha'' = ''Asha''" "strip ''123'' = ''123''" "strip ''asha@example.org'' = ''asha@example.org''"
  "lowercase ''asha@example.org'' = ''asha@example.org''" "validate_answers JNull JNull = Inr None"
  by code_simp+

lemma sample_pay_ok: "pay_ok sample_pay"
  by (simp add: pay_ok_def sample_pay_def unique_keys_def)

lemma sample_bookings_ok: "booking_ok sample_bookings"
  using sample_pay_ok
  by (simp add: booking_ok_def sample_booking_defs unique_keys_def clash_free_def calendar_def space_constraints_def)

lemma sample_pending_ok: "booking_ok sample_pending"
  using sample_pay_ok
  by (simp add: booking_ok_def sample_booking_defs unique_keys_def clash_free_def calendar_def space_constraints_def
      space_row_def row_get_Cons)

lemma sample_confirmed_ok: "booking_ok sample_confirmed"
  using sample_charged_ok
  by (simp add: booking_ok_def sample_booking_defs unique_keys_def clash_free_def calendar_def space_constraints_def
      space_row_def row_get_Cons slot_of_def)

text \<open>The sample member books the bench.\<close>

definition made_booking :: booking where
  "made_booking = seen_booking\<lparr>x_status := BookingConfirmed\<rparr>"

lemma sample_book_runs:
  "\<exists>t. create_booking desk_env 1 1 1000 8200 (Some sample_member) None None None JNull ''note'' None sample_bookings =
     Inr (made_booking, t) \<and> bookings t = [made_booking] \<and> spaces t = [bench]"
  by (simp add: create_booking_def locked_space_def space_row_def row_get_Cons fresh_key_def sample_booking_defs
      made_booking_def booking_contact_def sample_texts validate_booking_def enforce_booking_rules_def right_now_def
      sample_env_def form_checked_def require_module_locked_def get_makerspace_def sample_pay_def empty_db_def
      sample_space_def check_booking_quota_def open_bookings_def confirmed_overlap_def insert_booking_def
      clean_booking_def charge_same Let_def)

text \<open>Another booking, right after it, that waits for a decision.\<close>

definition next_booking :: booking where
  "next_booking = seen_booking\<lparr>x_id := 2, x_starts := 8200, x_ends := 12000\<rparr>"

definition sample_next :: booking_db where
  "sample_next = sample_bookings\<lparr>bookings := [made_booking, next_booking]\<rparr>"

lemma sample_next_ok: "booking_ok sample_next"
  using sample_pay_ok
  by (auto simp: booking_ok_def sample_booking_defs sample_next_def made_booking_def next_booking_def unique_keys_def
      clash_free_def calendar_def space_constraints_def space_row_def row_get_Cons slot_of_def)

lemma sample_next_runs:
  "\<exists>t. approve_booking desk_env next_booking None sample_next = Inr t \<and>
     bookings t = [made_booking, next_booking\<lparr>x_status := BookingConfirmed\<rparr>]"
  by (simp add: approve_booking_def locked_booking_def locked_space_def space_row_def booking_row_def row_get_Cons
      sample_next_def sample_booking_defs made_booking_def next_booking_def sample_texts right_now_def sample_env_def
      confirmed_overlap_def overlaps_def move_booking_def save_status_def clean_booking_def charge_same row_put_def Let_def)

section \<open>Every run\<close>

lemma confirmed_in_calendar: "b \<in> set (bookings s) \<Longrightarrow> x_status b = BookingConfirmed \<Longrightarrow> slot_of b \<in> calendar s"
  by (simp add: calendar_def)

text \<open>
  C28. A space is never double-booked: after any sequence of requests, by anyone and whatever the
  payment vendors answer, two confirmed bookings of one space do not overlap.
\<close>

theorem bookings_never_overlap:
  assumes "booking_ok s" and "t = fold (attempt booking_step) cs s"
    and "b \<in> set (bookings t)" and "c \<in> set (bookings t)" and "x_id b \<noteq> x_id c" and "x_space b = x_space c"
    and "x_status b = BookingConfirmed" and "x_status c = BookingConfirmed"
  shows "x_ends b \<le> x_starts c \<or> x_ends c \<le> x_starts b"
proof -
  have "booking_ok t" unfolding assms(2) by (rule booking.run_inv [OF assms(1)])
  then have "\<not> slot_clash (slot_of b) (slot_of c)"
    using confirmed_in_calendar assms(3,4,7,8) by (simp add: booking_ok_def clash_free_def)
  with assms(5,6) show ?thesis by (auto simp: slot_of_def)
qed

theorem bookings_never_overlap_witness:
  "\<exists>t. fold (attempt booking_step) [(desk_env, Approve next_booking None)] sample_next = t \<and>
     bookings t = [made_booking, next_booking\<lparr>x_status := BookingConfirmed\<rparr>] \<and>
     (x_ends made_booking \<le> x_starts next_booking \<or> x_ends next_booking \<le> x_starts made_booking)"
proof -
  from sample_next_runs obtain t where run: "approve_booking desk_env next_booking None sample_next = Inr t"
    and rows: "bookings t = [made_booking, next_booking\<lparr>x_status := BookingConfirmed\<rparr>]" by blast
  have t: "t = fold (attempt booking_step) [(desk_env, Approve next_booking None)] sample_next"
    using run by (simp add: attempt_def)
  from bookings_never_overlap [OF sample_next_ok t, of made_booking "next_booking\<lparr>x_status := BookingConfirmed\<rparr>"] rows t
  show ?thesis by (simp add: made_booking_def next_booking_def seen_booking_def new_booking_def)
qed

text \<open>
  C29. Bookings and spaces live forward: over every run a booking keeps its space, its time, its
  member, its contact and its answers, its status only moves from pending to a decision and from
  confirmed to an end, no space changes its makerspace or is activated again, and the payments behind
  the bookings keep theirs.
\<close>

theorem bookings_follow_graph:
  assumes "booking_ok s"
  shows "booking_ok (fold (attempt booking_step) cs s) \<and> bookings_persist s (fold (attempt booking_step) cs s)"
  using booking.run_inv [OF assms] booking.run_rel [OF assms] by blast

theorem bookings_follow_graph_witness:
  "booking_ok (fold (attempt booking_step) [(desk_env, CancelBooking seen_booking None), (desk_env, sample_book)] sample_pending)"
  using bookings_follow_graph [OF sample_pending_ok] by blast

section \<open>The calendar\<close>

text \<open>
  C30. The services refine the calendar, the abstract state that holds the confirmed slots only: a
  request that succeeds inserts its slot when no slot of the space clashes with it, or releases the
  slot of its booking, or leaves the calendar alone, as its specification says.
\<close>

theorem calendar_refined:
  assumes "booking_ok s" and "booking_step (env, op) s = Inr t"
  shows "booking_ok t \<and> calendar_spec op (calendar s) (calendar t)"
  using booking_step_effect [OF assms] by (simp add: booking_keeps_def)

theorem calendar_refined_witness:
  "\<exists>t. booking_step (desk_env, sample_book) sample_bookings = Inr t \<and>
     (calendar t = {} \<or> (\<exists>i. confirm_slot (i, 1, 1000, 8200) {} = Some (calendar t)))"
proof -
  from sample_book_runs obtain t where run: "booking_step (desk_env, sample_book) sample_bookings = Inr t"
    by (auto simp: sample_book_def)
  have "calendar sample_bookings = {}" by (simp add: calendar_def sample_bookings_def)
  with calendar_refined [OF sample_bookings_ok run] run show ?thesis by (simp add: sample_book_def)
qed

lemma move_booking_succeeds:
  "booking_row (x_id b) s = Some b \<Longrightarrow> clean_booking b = Inr b' \<Longrightarrow> \<exists>t. move_booking actor action event sp b st s = Inr t"
  by (simp add: move_booking_def save_status_def)

text \<open>
  C31. The decision on a pending booking is exactly that of the calendar: for a booking of an active
  space that has not ended, approval succeeds with the slot confirmed when the calendar has room for it,
  and is refused as a conflict when it has not. Nothing on the side of the payments changes that.
\<close>

theorem approval_decided_by_calendar:
  assumes "booking_ok s" and "booking_row (x_id b) s = Some b" and "space_row (x_space b) s = Some sp" and "h_active sp"
    and "x_status b = BookingPending" and "right_now env < x_ends b" and "clean_booking b = Inr b'"
  shows "case confirm_slot (slot_of b) (calendar s) of
      None \<Rightarrow> approve_booking env b actor s = Inl BookingConflict
    | Some C \<Rightarrow> \<exists>t. approve_booking env b actor s = Inr t \<and> calendar t = C"
proof -
  have id: "h_id sp = x_space b" using space_row_SomeD [OF assms(3)] by simp
  have l: "locked_booking b s = Inr (sp, b)"
    using assms(2,3) id by (simp add: locked_booking_def locked_space_def of_option_def)
  have step: "approve_booking env b actor s =
      (if confirmed_overlap (x_space b) (x_starts b) (x_ends b) (Some (x_id b)) s then Inl BookingConflict
       else try_then (move_booking actor ''booking.approved'' ''confirmed'' sp b BookingConfirmed s)
              (\<lambda>s. Inr (create_for_confirmed_booking env b actor s)))"
    using assms(4-6) id by (simp add: approve_booking_def l)
  show ?thesis
  proof (cases "\<exists>d \<in> calendar s. slot_clash (slot_of b) d")
    case True
    then show ?thesis using step confirmed_overlap_calendar by (simp add: confirm_slot_def slot_of_def)
  next
    case False
    then have no: "\<not> confirmed_overlap (x_space b) (x_starts b) (x_ends b) (Some (x_id b)) s"
      using confirmed_overlap_calendar by (simp add: slot_of_def)
    from move_booking_succeeds [OF assms(2,7)] obtain u where
      "move_booking actor ''booking.approved'' ''confirmed'' sp b BookingConfirmed s = Inr u" by blast
    with no step have run: "approve_booking env b actor s = Inr (create_for_confirmed_booking env b actor u)" by simp
    from approve_effect [OF assms(1) run] assms(2) show ?thesis using run by auto
  qed
qed

theorem approval_decided_by_calendar_witness:
  "\<exists>t. approve_booking desk_env seen_booking (Some 9) sample_pending = Inr t \<and> calendar t = {(1, 1, 1000, 8200)}"
proof -
  have "calendar sample_pending = {}" by (simp add: calendar_def sample_booking_defs)
  then have c: "confirm_slot (slot_of seen_booking) (calendar sample_pending) = Some {(1, 1, 1000, 8200)}"
    by (simp add: confirm_slot_def slot_of_def sample_booking_defs)
  have "clean_booking seen_booking = Inr seen_booking"
    by (simp add: clean_booking_def sample_booking_defs sample_texts)
  moreover have "booking_row (x_id seen_booking) sample_pending = Some seen_booking"
    "space_row (x_space seen_booking) sample_pending = Some bench"
    by (simp_all add: booking_row_def space_row_def row_get_Cons sample_booking_defs)
  ultimately show ?thesis
    using approval_decided_by_calendar [OF sample_pending_ok, of seen_booking bench desk_env seen_booking "Some 9"] c
    by (simp add: sample_booking_defs right_now_def sample_env_def)
qed

section \<open>Booking within the rules\<close>

lemma open_bookings_insert:
  assumes "bookings t = bookings s @ [b]" and "spaces t = spaces s" and "space_row (x_space b) s = Some sp"
    and "x_status b \<in> {BookingPending, BookingConfirmed}" and "time < x_ends b"
  shows "length (open_bookings (h_makerspace sp) time t) = Suc (length (open_bookings (h_makerspace sp) time s))"
  using assms space_row_cong [OF assms(2)] by (auto simp: open_bookings_def)

text \<open>
  C32. A booking that was made obeys the rules of its space at that moment: its length is within the
  bounds, it starts no sooner than the lead time and no later than the advance window allows, it is
  confirmed at once only in a space of instant approval, its answers fit the space's form, and the open
  bookings of the makerspace, this one included, are within the quota.
\<close>

theorem booking_within_rules:
  assumes "create_booking env space ms starts ends member name email phone answers note actor s = Inr (b, t)"
  shows "\<exists>sp. space_row space s = Some sp \<and> h_active sp \<and> x_space b = space \<and> x_starts b = starts \<and> x_ends b = ends \<and>
    60 * h_min_minutes sp \<le> ends - starts \<and> ends - starts \<le> 60 * h_max_minutes sp \<and>
    right_now env + 60 * h_lead_minutes sp \<le> starts \<and> starts \<le> right_now env + 86400 * h_advance_days sp \<and>
    (x_status b = BookingConfirmed \<longleftrightarrow> h_approval sp = ''instant'') \<and>
    validate_answers (h_form sp) answers = Inr (x_answers b) \<and>
    (case booking_limit env (h_makerspace sp) of None \<Rightarrow> True
     | Some limit \<Rightarrow> int (length (open_bookings (h_makerspace sp) (right_now env) t)) \<le> limit)"
proof -
  from create_booking_Inr [OF assms] obtain sp b0 st checked u where
    sp: "space_row space s = Some sp" "h_active sp"
    and st: "st = (if h_approval sp = ''instant'' then BookingConfirmed else BookingPending)"
    and b0: "b0 = new_booking (fresh_key x_id (bookings s)) space (map_option mu_id member)
            (booking_contact member name email phone) starts ends note st"
    and rules: "enforce_booking_rules sp starts ends (right_now env) = Inr ()" "right_now env < ends"
    and form: "validate_answers (h_form sp) answers = Inr checked"
    and quota: "check_booking_quota env (h_makerspace sp) s = Inr ()"
    and u: "insert_booking (b0\<lparr>x_answers := checked\<rparr>) s = Inr (b, u)"
    and t: "t = (let v = booking_notify ''created'' b (space_audit actor ''booking.created'' sp (''booking'', x_id b)
            [(''booking_id'', MInt (int (x_id b))), (''status'', MStr (status_text st))] u)
          in if st = BookingConfirmed then create_for_confirmed_booking env b actor v else v)"
    by metis
  have b: "x_space b = space" "x_starts b = starts" "x_ends b = ends" "x_status b = st" "x_answers b = checked"
    and rows: "bookings u = bookings s @ [b]" "spaces u = spaces s"
    using insert_booking_Inr [OF u] by (simp_all add: b0 new_booking_def split: prod.splits)
  have "bookings t = bookings s @ [b]" "spaces t = spaces s"
    using rows by (simp_all add: t charge_same Let_def)
  then have "length (open_bookings (h_makerspace sp) (right_now env) t) =
      Suc (length (open_bookings (h_makerspace sp) (right_now env) s))"
    using open_bookings_insert [of t s b sp "right_now env"] sp b rules(2) st by simp
  then show ?thesis
    using sp b st rules(1) form quota
    by (auto simp: enforce_booking_rules_def check_booking_quota_def ok_iff split: if_splits option.splits)
qed

theorem booking_within_rules_witness:
  "\<exists>t. create_booking desk_env 1 1 1000 8200 (Some sample_member) None None None JNull ''note'' None sample_bookings =
     Inr (made_booking, t) \<and> (60::int) * 60 \<le> 8200 - 1000 \<and> (1000::int) \<le> 100 + 86400 * 30"
proof -
  from sample_book_runs obtain t where
    run: "create_booking desk_env 1 1 1000 8200 (Some sample_member) None None None JNull ''note'' None sample_bookings =
      Inr (made_booking, t)" by blast
  from booking_within_rules [OF run] run show ?thesis
    by (simp add: space_row_def row_get_Cons sample_bookings_def bench_def new_space_def desk_env_def right_now_def
        sample_env_def)
qed

section \<open>Bookings and their charges\<close>

lemma cancel_pending_cancels:
  assumes "pay_ok s" and "payment_for ms SubjectBooking i s = Some p" and "y_status p = PayPending" and "payment_fields_ok env p"
  shows "\<exists>t. cancel_pending env ms SubjectBooking i actor s = Inr t \<and>
    (\<exists>q. payment_row (y_id p) (snd t) = Some q \<and> y_status q = Canceled)"
proof -
  let ?q = "(expire_checkout_best_effort env p s)\<lparr>y_status := Canceled\<rparr>"
  have p: "p \<in> set (payments s)" "subject_of p = (ms, SubjectBooking, i)"
    using assms(2) by (auto simp: payment_for_def find_Some_iff)
  have row: "payment_row (y_id p) s = Some p" using assms(1) p(1) by (rule payment_row_mem)
  have same: "?q = p\<lparr>y_status := Canceled, y_expired_at := y_expired_at ?q\<rparr>"
    by (simp add: expire_checkout_best_effort_def Let_def split: option.splits)
  have "payment_unique p (payments s)" using assms(1) p(1) by (simp add: pay_ok_def)
  moreover have "clashes ?q r = clashes p r" for r by (subst same) (simp add: clashes_def subject_of_def)
  ultimately have "payment_unique ?q (payments s)" by (simp add: payment_unique_def)
  moreover have "payment_fields_ok env ?q" using assms(4) by (subst same) (simp add: payment_fields_ok_def)
  moreover have "subject_clean env (Some p) ?q"
    using p(2) by (subst same) (simp add: subject_clean_def identity_unchanged_def subject_of_def)
  moreover have "save_guard p ?q" using assms(3) by (subst same) (simp add: save_guard_def)
  ultimately have "save_payment env ?q s = Inr (put_payment ?q s)"
    using row by (auto simp: save_payment_Inr full_clean_def)
  then show ?thesis
    using assms(2,3) row by (simp add: cancel_pending_def Let_def payment_row_put)
qed

text \<open>
  C33. Cancelling a booking calls off its pending charge: when the stored charges are valid ones, no
  charge of the cancelled booking is pending afterwards.
\<close>

theorem cancelled_booking_uncharged:
  assumes "booking_ok s" and "\<forall>p \<in> set (payments (bk_pay s)). payment_fields_ok (bk_env env) p"
    and "cancel_booking env seen actor s = Inr t"
  shows "\<exists>b sp. booking_row (x_id seen) t = Some b \<and> x_status b = BookingCancelled \<and>
    space_row (x_space b) t = Some sp \<and>
    (\<forall>p. payment_for (h_makerspace sp) SubjectBooking (x_id b) (bk_pay t) = Some p \<longrightarrow> y_status p \<noteq> PayPending)"
proof -
  from assms(3) obtain u where
    u: "transition_booking env seen actor BookingCancelled ''booking.cancelled'' ''cancelled'' False s = Inr u"
    and t: "t = (case booking_row (x_id seen) u of None \<Rightarrow> u | Some b \<Rightarrow> cancel_for_booking env b actor u)"
    by (auto simp: cancel_booking_def ok_iff)
  from transition_effect [OF assms(1) u] obtain b0 where
    b0: "booking_row (x_id seen) u = Some (b0\<lparr>x_status := BookingCancelled\<rparr>)"
    and keep: "booking_keeps s u" and pays: "payments (bk_pay u) = payments (bk_pay s)" by auto
  let ?b = "b0\<lparr>x_status := BookingCancelled\<rparr>"
  have ok: "booking_ok u" using keep by (simp add: booking_keeps_def)
  then obtain sp where sp: "space_row (x_space ?b) u = Some sp"
    using booking_row_SomeD [OF b0] by (auto simp: booking_ok_def)
  have t: "t = cancel_for_booking env ?b actor u" using t b0 by simp
  have rows: "bookings t = bookings u" "spaces t = spaces u" by (simp_all add: t charge_same)
  note row_t = booking_row_cong [OF rows(1)] space_row_cong [OF rows(2)]
  let ?ms = "h_makerspace sp"
  have pok: "pay_ok (bk_pay u)" "pay_ok (bk_pay t)"
    using ok cancel_for_keeps [of u env ?b actor] by (auto simp: t booking_ok_def keeps_payments_def)
  have "y_status p \<noteq> PayPending" if p: "payment_for ?ms SubjectBooking (x_id ?b) (bk_pay t) = Some p" for p
  proof (cases "payment_for ?ms SubjectBooking (x_id ?b) (bk_pay u)")
    case None
    then have "t = u" using sp by (simp add: t cancel_for_booking_def cancel_pending_def)
    with None p show ?thesis by simp
  next
    case (Some q)
    show ?thesis
    proof (cases "y_status q = PayPending")
      case False
      with Some have "bk_pay t = bk_pay u" using sp by (simp add: t cancel_for_booking_def cancel_pending_def)
      with Some p False show ?thesis by simp
    next
      case True
      have "payment_fields_ok (bk_env env) q" using assms(2) pays payment_for_Some [OF Some] by simp
      from cancel_pending_cancels [OF pok(1) Some True this, of actor] obtain v r where
        v: "cancel_pending (bk_env env) ?ms SubjectBooking (x_id ?b) actor (bk_pay u) = Inr v"
        and r: "payment_row (y_id q) (snd v) = Some r" "y_status r = Canceled" by blast
      have tv: "bk_pay t = snd v" using sp v by (simp add: t cancel_for_booking_def split: prod.splits)
      have "keeps_payments (bk_pay u) (bk_pay t)" unfolding t using pok(1) by (rule cancel_for_keeps)
      then obtain r' where "payment_row (y_id q) (bk_pay t) = Some r'" "frozen r' = frozen q"
        using payment_row_mem [OF pok(1) payment_for_Some [OF Some]]
        unfolding keeps_payments_def payments_persist_def successor_def by blast
      then have r': "r \<in> set (payments (bk_pay t))" "subject_of r = subject_of q"
        using r(1) tv payment_row_SomeD [of "y_id q" "bk_pay t" r] by (auto simp: subject_of_def dest: frozenD)
      have "subject_of q = (?ms, SubjectBooking, x_id ?b)" "subject_of p = (?ms, SubjectBooking, x_id ?b)"
        and pm: "p \<in> set (payments (bk_pay t))"
        using Some p by (auto simp: payment_for_def find_Some_iff)
      with r' have "subject_of p = subject_of r" by simp
      moreover have "payment_unique p (payments (bk_pay t))" using pok(2) pm by (simp add: pay_ok_def)
      ultimately have "y_id r = y_id p" using r'(1) by (auto simp: payment_unique_def list_all_iff clashes_def)
      then have "p = r" using payment_row_mem [OF pok(2)] pm r'(1) by (metis option.inject)
      with r(2) show ?thesis by simp
    qed
  qed
  then show ?thesis using b0 sp row_t by auto
qed

theorem cancelled_booking_uncharged_witness:
  "\<exists>t. cancel_booking desk_env (seen_booking\<lparr>x_id := 5\<rparr>) None sample_confirmed = Inr t \<and>
     (\<forall>p. payment_for 1 SubjectBooking 5 (bk_pay t) = Some p \<longrightarrow> y_status p \<noteq> PayPending)"
proof -
  have "\<exists>t. cancel_booking desk_env (seen_booking\<lparr>x_id := 5\<rparr>) None sample_confirmed = Inr t \<and>
      bookings t = [seen_booking\<lparr>x_id := 5, x_status := BookingCancelled\<rparr>] \<and> spaces t = [bench]"
    by (simp add: cancel_booking_def transition_booking_def locked_booking_def locked_space_def space_row_def
        booking_row_def row_get_Cons sample_booking_defs sample_texts move_booking_def save_status_def
        clean_booking_def charge_same row_put_def Let_def)
  then obtain t where run: "cancel_booking desk_env (seen_booking\<lparr>x_id := 5\<rparr>) None sample_confirmed = Inr t"
    and rows: "bookings t = [seen_booking\<lparr>x_id := 5, x_status := BookingCancelled\<rparr>]" "spaces t = [bench]" by blast
  have "\<forall>p \<in> set (payments (bk_pay sample_confirmed)). payment_fields_ok (bk_env desk_env) p"
    by (simp add: sample_booking_defs sample_pay_defs payment_fields_ok_def url_field_ok_def short_text_def
        currency_shape_def is_lower_def code_of_def max_cents_def)
  from cancelled_booking_uncharged [OF sample_confirmed_ok this run] rows run show ?thesis
    by (auto simp: booking_row_def space_row_def row_get_Cons sample_booking_defs)
qed

section \<open>The payments never decide\<close>

text \<open>Two states with the same spaces, bookings and makerspaces, and results that differ in the rest only.\<close>

definition same_desk :: "booking_db \<Rightarrow> booking_db \<Rightarrow> bool" where
  "same_desk s t \<longleftrightarrow> bookings t = bookings s \<and> spaces t = spaces s \<and>
     makerspaces (pay_base (bk_pay t)) = makerspaces (pay_base (bk_pay s))"

definition same_rows :: "booking_db \<Rightarrow> booking_db \<Rightarrow> bool" where
  "same_rows s t \<longleftrightarrow> bookings t = bookings s \<and> spaces t = spaces s"

definition same_result :: "('r \<Rightarrow> 'r \<Rightarrow> bool) \<Rightarrow> exn + 'r \<Rightarrow> exn + 'r \<Rightarrow> bool" where
  "same_result R = rel_sum (=) R"

lemma same_result_simps [simp]:
  "same_result R (Inl e) (Inl e') \<longleftrightarrow> e = e'" "same_result R (Inr x) (Inr y) \<longleftrightarrow> R x y"
  "same_result R (Inl e) (Inr y) \<longleftrightarrow> False" "same_result R (Inr x) (Inl e') \<longleftrightarrow> False"
  by (simp_all add: same_result_def)

lemma same_result_then:
  assumes "same_result R m m'" and "\<And>x y. R x y \<Longrightarrow> same_result Q (f x) (g y)"
  shows "same_result Q (try_then m f) (try_then m' g)"
  using assms by (cases m; cases m') simp_all

lemma same_result_refl: "(\<And>x. R x x) \<Longrightarrow> same_result R m m"
  by (cases m) simp_all

lemma same_result_bind:
  "(\<And>x. m = Inr x \<Longrightarrow> same_result Q (f x) (g x)) \<Longrightarrow> same_result Q (try_then m f) (try_then m g)"
  by (cases m) simp_all

lemma same_result_if:
  "(c \<Longrightarrow> same_result Q a a') \<Longrightarrow> (\<not> c \<Longrightarrow> same_result Q b b') \<Longrightarrow>
    same_result Q (if c then a else b) (if c then a' else b')"
  by simp

lemma same_result_let: "(\<And>x. same_result Q (f x) (g x)) \<Longrightarrow> same_result Q (Let a f) (Let a g)"
  by simp

lemma same_desk_reads:
  assumes "same_desk s t"
  shows "locked_space i t = locked_space i s" "locked_booking b t = locked_booking b s"
    "get_makerspace m (pay_base (bk_pay t)) = get_makerspace m (pay_base (bk_pay s))"
    "confirmed_overlap i a e x t = confirmed_overlap i a e x s"
    "open_bookings m time t = open_bookings m time s" "bookings t = bookings s" "spaces t = spaces s"
    "space_row i t = space_row i s" "booking_row i t = booking_row i s"
  using assms by (simp_all add: same_desk_def locked_space_def space_row_def locked_booking_def booking_row_def
      get_makerspace_def confirmed_overlap_def open_bookings_def)

lemma save_space_same:
  assumes "same_desk s s'"
  shows "same_result same_rows (save_space sp s) (save_space sp s')"
  unfolding save_space_def same_desk_reads [OF assms]
  by (intro same_result_bind) (simp add: Let_def same_rows_def same_desk_reads [OF assms])

lemma save_changed_same:
  "same_desk s s' \<Longrightarrow> same_result same_rows (save_changed cs sp s) (save_changed cs sp s')"
  using save_space_same by (simp add: save_changed_def same_rows_def same_desk_def)

lemma save_status_same:
  assumes "same_desk s s'"
  shows "same_result same_rows (save_status b st s) (save_status b st s')"
  unfolding save_status_def same_desk_reads [OF assms]
  by (intro same_result_bind) (simp add: same_rows_def same_desk_reads [OF assms])

lemma move_booking_same:
  assumes "same_desk s s'"
  shows "same_result same_rows (move_booking actor action event sp b st s) (move_booking actor action event sp b st s')"
  unfolding move_booking_def
  by (rule same_result_then [OF save_status_same [OF assms]]) (simp add: same_rows_def)

lemma transition_booking_same:
  assumes "same_desk s s'" and "right_now env' = right_now env"
  shows "same_result same_rows (transition_booking env b actor st action event ended s)
    (transition_booking env' b actor st action event ended s')"
  unfolding transition_booking_def same_desk_reads [OF assms(1)] assms(2)
  by (intro same_result_bind) (auto intro!: same_result_if move_booking_same [OF assms(1)] split: prod.split)

lemma charged_same:
  "same_rows u v \<Longrightarrow> same_rows (create_for_confirmed_booking env b actor u) (create_for_confirmed_booking env' b actor v)"
  "same_rows u v \<Longrightarrow> same_rows (cancel_for_booking env b actor u) (cancel_for_booking env' b actor v)"
  by (simp_all add: same_rows_def charge_same)

lemma approve_same:
  assumes "same_desk s s'" and "right_now env' = right_now env"
  shows "same_result same_rows (approve_booking env b actor s) (approve_booking env' b actor s')"
  unfolding approve_booking_def same_desk_reads [OF assms(1)] assms(2)
  by (intro same_result_bind)
    (auto intro!: same_result_if same_result_then [OF move_booking_same [OF assms(1)]] charged_same split: prod.split)

lemma insert_booking_same:
  assumes "same_desk s s'"
  shows "same_result (rel_prod (=) same_rows) (insert_booking b s) (insert_booking b s')"
  unfolding insert_booking_def same_desk_reads [OF assms]
  by (intro same_result_bind) (simp add: same_rows_def same_desk_reads [OF assms])

text \<open>
  C34. Payments never decide about bookings: a request has the same result, and leaves the same
  bookings and spaces, whatever the payments, their credentials and their log are, and whatever the
  payment environment is apart from the clock.
\<close>

theorem payments_never_decide:
  assumes "same_desk s s'" and "clock pe = right_now env"
  shows "same_result same_rows (booking_step (env, op) s) (booking_step (env\<lparr>bk_env := pe\<rparr>, op) s')"
proof -
  let ?env = "env\<lparr>bk_env := pe\<rparr>"
  have now: "right_now ?env = right_now env" using assms(2) by (simp add: right_now_def)
  note reads = same_desk_reads [OF assms(1)]
  show ?thesis
  proof (cases op)
    case (CreateSpace ms actor name kind d c l p av nm ap f n a)
    have "same_result (rel_prod (=) same_rows) (create_space ms actor name kind d c l p av nm ap f n a s)
      (create_space ms actor name kind d c l p av nm ap f n a s')"
      unfolding create_space_def reads Let_def
      by (intro same_result_bind same_result_if) (simp_all add: same_rows_def reads)
    then show ?thesis
      unfolding CreateSpace booking_step.simps by (rule same_result_then) auto
  next
    case (UpdateSpace i actor changes)
    show ?thesis
      unfolding UpdateSpace booking_step.simps update_space_def reads Let_def
      by (intro same_result_bind same_result_if same_result_then [OF save_changed_same [OF assms(1)]])
        (simp_all add: same_rows_def)
  next
    case (DeactivateSpace i actor)
    show ?thesis
      unfolding DeactivateSpace booking_step.simps deactivate_space_def reads
      by (intro same_result_bind same_result_if same_result_then [OF save_space_same [OF assms(1)]])
        (simp_all add: same_rows_def)
  next
    case (UpdateRules i actor changes)
    show ?thesis
      unfolding UpdateRules booking_step.simps update_booking_rules_def reads Let_def
      by (intro same_result_bind same_result_if same_result_then [OF save_changed_same [OF assms(1)]])
        (simp_all add: same_rows_def)
  next
    case (Book i ms a e member name email phone answers nt actor)
    have quota: "check_booking_quota ?env m s' = check_booking_quota env m s"
      "require_module_locked ?env m s' = require_module_locked env m s" "booking_fenced ?env m = booking_fenced env m" for m
      by (simp_all add: check_booking_quota_def require_module_locked_def reads now split: option.split)
    have "same_result (rel_prod (=) same_rows) (create_booking env i ms a e member name email phone answers nt actor s)
      (create_booking ?env i ms a e member name email phone answers nt actor s')"
      unfolding create_booking_def reads quota now
      by (intro same_result_bind same_result_if same_result_let same_result_then [OF insert_booking_same [OF assms(1)]])
        (auto simp: same_rows_def charge_same Let_def)
    then show ?thesis
      unfolding Book booking_step.simps by (rule same_result_then) auto
  next
    case (CancelBooking b actor)
    show ?thesis
      unfolding CancelBooking booking_step.simps cancel_booking_def
      by (rule same_result_then [OF transition_booking_same [OF assms(1) now]])
        (simp add: same_rows_def booking_row_def charge_same split: option.split)
  next
    case (Reject b actor)
    show ?thesis
      unfolding Reject booking_step.simps reject_booking_def reads
      by (intro same_result_bind) (auto intro!: same_result_if move_booking_same [OF assms(1)] split: prod.split)
  qed (use approve_same [OF assms(1) now] transition_booking_same [OF assms(1) now] in
      \<open>simp_all add: complete_booking_def mark_no_show_def\<close>)
qed

theorem payments_never_decide_witness:
  "same_result same_rows (booking_step (desk_env, sample_book) sample_bookings)
     (booking_step (desk_env\<lparr>bk_env := sample_env\<lparr>payments_module := (\<lambda>_. False)\<rparr>\<rparr>, sample_book)
        (sample_bookings\<lparr>bk_pay := sample_charged\<rparr>))"
  by (rule payments_never_decide)
    (simp_all add: same_desk_def sample_bookings_def sample_charged_def desk_env_def right_now_def)

end
