(* ===== verification/Stocktakes.thy ===== *)
theory Stocktakes
  imports Availability_Requests Text_Ops
begin

text \<open>
  Stocktakes (\<open>operations/models.py\<close>, \<open>services_stocktake_workflow.py\<close>,
  \<open>services_stocktake_helpers.py\<close>, \<open>stocktake_authority.py\<close>): a session is counted line by line,
  completed, approved and applied to the stock by another person. The state wraps the tables of the
  inventory. Every service is one transaction; the unique constraints of lines and ledger entries are
  those the services check themselves before they write.
\<close>

section \<open>Rows\<close>

datatype stocktake_status =
  StocktakeDraft | StocktakeCounting | StocktakeCompleted | StocktakeApproved | StocktakeApplied | StocktakeCancelled

text \<open>The conditions of a line; the buckets of the ledger are the first three.\<close>

datatype condition = CountAvailable | CountDamaged | CountLost | CountUnknown

record stocktake =
  ss_id :: nat
  ss_makerspace :: nat
  ss_container :: "nat option"
  ss_status :: stocktake_status
  ss_started_by :: nat
  ss_completed_by :: "nat option"
  ss_completed_at :: "int option"
  ss_approved_by :: "nat option"
  ss_approved_at :: "int option"
  ss_notes :: string

record stocktake_line =
  sl_id :: nat
  sl_stocktake :: nat
  sl_product :: "nat option"
  sl_asset :: "nat option"
  sl_container :: "nat option"
  sl_expected :: int
  sl_counted :: int
  sl_variance :: int
  sl_condition :: condition
  sl_notes :: string

record ledger_entry =
  le_makerspace :: nat
  le_stocktake :: nat
  le_line :: nat
  le_product :: nat
  le_asset :: "nat option"
  le_bucket :: condition
  le_delta :: int
  le_old_status :: "asset_status option"
  le_new_status :: "asset_status option"
  le_reason :: string
  le_created_by :: nat

text \<open>The categories, and the rows of transfers (modelled in their own theory), share the state.\<close>

record category =
  cat_id :: nat
  cat_makerspace :: nat
  cat_slug :: string

record stock_transfer =
  st_id :: nat
  st_makerspace :: nat
  st_source :: "nat option"
  st_destination :: "nat option"
  st_destination_makerspace :: nat
  st_created_by :: nat
  st_reason :: string
  st_applied_at :: int

record transfer_line =
  tl_transfer :: nat
  tl_product :: "nat option"
  tl_asset :: "nat option"
  tl_quantity :: int
  tl_from :: "asset_status option"
  tl_to :: "asset_status option"
  tl_notes :: string

record operations_db =
  op_base :: db
  stocktakes :: "stocktake list"
  count_lines :: "stocktake_line list"
  stocktake_ledger :: "ledger_entry list"
  op_categories :: "category list"
  transfers :: "stock_transfer list"
  transfer_lines :: "transfer_line list"

text \<open>
  The environment of the lending services, and who is a superadmin that sees the makerspace
  (\<open>_global_superadmin_in\<close>).
\<close>

record operations_env =
  op_env :: env
  superadmin_in :: "nat \<Rightarrow> nat \<Rightarrow> bool"

definition on_base :: "(db \<Rightarrow> exn + db) \<Rightarrow> operations_db \<Rightarrow> exn + operations_db" where
  "on_base f s = try_then (f (op_base s)) (\<lambda>b. Inr (s\<lparr>op_base := b\<rparr>))"

definition set_atomic :: "bool \<Rightarrow> operations_db \<Rightarrow> operations_db" where
  "set_atomic b s = s\<lparr>op_base := (op_base s)\<lparr>in_atomic := b\<rparr>\<rparr>"

definition in_transaction :: "(operations_db \<Rightarrow> exn + operations_db) \<Rightarrow> operations_db \<Rightarrow> exn + operations_db" where
  "in_transaction f s =
     try_then (f (set_atomic True s)) (\<lambda>t. Inr (set_atomic (in_atomic (op_base s)) t))"

definition op_audit ::
  "nat \<Rightarrow> string \<Rightarrow> nat \<Rightarrow> string \<times> nat \<Rightarrow> (string \<times> meta_value) list \<Rightarrow> operations_db \<Rightarrow> operations_db" where
  "op_audit actor action ms tgt meta s =
     s\<lparr>op_base := audit_record (Some actor) action ms tgt meta (op_base s)\<rparr>"

definition stocktake_row :: "nat \<Rightarrow> operations_db \<Rightarrow> stocktake option" where
  "stocktake_row i s = row_get ss_id i (stocktakes s)"

definition put_stocktake :: "stocktake \<Rightarrow> operations_db \<Rightarrow> operations_db" where
  "put_stocktake k s = s\<lparr>stocktakes := row_put ss_id k (stocktakes s)\<rparr>"

definition lines_of :: "nat \<Rightarrow> operations_db \<Rightarrow> stocktake_line list" where
  "lines_of i s = filter (\<lambda>l. sl_stocktake l = i) (count_lines s)"

section \<open>Gates\<close>

definition stocktake_module :: "operations_env \<Rightarrow> nat \<Rightarrow> operations_db \<Rightarrow> exn + unit" where
  "stocktake_module env ms s =
     try_then (get_makerspace ms (op_base s)) (\<lambda>_.
       require (module_enabled (op_env env) ms ''stocktake'') ValidationError)"

definition locked_session :: "operations_env \<Rightarrow> stocktake \<Rightarrow> operations_db \<Rightarrow> exn + stocktake" where
  "locked_session env seen s =
     try_then (stocktake_module env (ss_makerspace seen) s) (\<lambda>_.
       of_option DoesNotExist (stocktake_row (ss_id seen) s))"

definition can_review_stocktake :: "operations_env \<Rightarrow> nat \<Rightarrow> stocktake \<Rightarrow> bool" where
  "can_review_stocktake env actor k \<longleftrightarrow>
     actor_can (op_env env) actor ''manage_makerspace'' (ss_makerspace k) \<and>
     (superadmin_in env actor (ss_makerspace k) \<or>
      ss_completed_by k \<noteq> None \<and> ss_completed_by k \<noteq> Some actor)"

definition require_stocktake_reviewer :: "operations_env \<Rightarrow> nat \<Rightarrow> stocktake \<Rightarrow> exn + unit" where
  "require_stocktake_reviewer env actor k = require (can_review_stocktake env actor k) PermissionDenied"

text \<open>\<open>_container\<close>: an absent id (or zero) is no container.\<close>

definition container_of :: "nat option \<Rightarrow> nat \<Rightarrow> db \<Rightarrow> exn + box option" where
  "container_of cid ms s =
     (case cid of
        None \<Rightarrow> Inr None
      | Some i \<Rightarrow>
          if i = 0 then Inr None
          else (case row_get b_id i (boxes s) of
             None \<Rightarrow> Inl Http404
           | Some b \<Rightarrow> if b_makerspace b = ms then Inr (Some b) else Inl Http404))"

section \<open>Counting\<close>

fun product_expected :: "product \<Rightarrow> condition \<Rightarrow> int" where
  "product_expected p CountAvailable = p_available p"
| "product_expected p CountDamaged = p_damaged p"
| "product_expected p CountLost = p_lost p"
| "product_expected p CountUnknown = 0"

fun asset_bucket :: "asset_status \<Rightarrow> condition option" where
  "asset_bucket AVAILABLE = Some CountAvailable"
| "asset_bucket DAMAGED = Some CountDamaged"
| "asset_bucket LOST = Some CountLost"
| "asset_bucket _ = None"

definition asset_new_status :: "stocktake_line \<Rightarrow> asset_status" where
  "asset_new_status l =
     (if sl_counted l = 0 then LOST
      else if sl_condition l = CountDamaged then DAMAGED
      else if sl_condition l = CountLost then LOST else AVAILABLE)"

definition validate_product_count :: "product \<Rightarrow> exn + unit" where
  "validate_product_count p = (if p_tracking_mode p = INDIVIDUAL then Inl ValidationError else Inr ())"

definition validate_asset_count :: "asset \<Rightarrow> int \<Rightarrow> exn + unit" where
  "validate_asset_count a counted =
     (if counted \<notin> {0, 1} then Inl ValidationError
      else if asset_bucket (a_status a) = None then Inl ValidationError else Inr ())"

definition validate_line_container :: "stocktake \<Rightarrow> nat option \<Rightarrow> exn + unit" where
  "validate_line_container k container =
     (case ss_container k of
        None \<Rightarrow> Inr ()
      | Some c \<Rightarrow> if container \<noteq> Some c then Inl ValidationError else Inr ())"

definition validate_item_container :: "stocktake \<Rightarrow> nat option \<Rightarrow> product option \<Rightarrow> asset option \<Rightarrow> exn + unit" where
  "validate_item_container k container p a =
     (case (case ss_container k of None \<Rightarrow> container | Some c \<Rightarrow> Some c) of
        None \<Rightarrow> Inr ()
      | Some scope \<Rightarrow>
          if p \<noteq> None \<and> p_box (the p) \<noteq> Some scope then Inl ValidationError
          else if a \<noteq> None \<and> a_box (the a) \<noteq> Some scope then Inl ValidationError
          else Inr ())"

definition reject_duplicate_line ::
  "nat \<Rightarrow> nat option \<Rightarrow> nat option \<Rightarrow> condition \<Rightarrow> nat option \<Rightarrow> operations_db \<Rightarrow> exn + unit" where
  "reject_duplicate_line i pid aid condition container s =
     (case aid of
        Some a \<Rightarrow> if list_ex (\<lambda>l. sl_asset l = Some a) (lines_of i s) then Inl ValidationError else Inr ()
      | None \<Rightarrow>
          if list_ex (\<lambda>l. sl_product l = pid \<and> sl_condition l = condition \<and> sl_container l = container) (lines_of i s)
          then Inl ValidationError else Inr ())"

text \<open>The target of a count, of which the request names exactly one.\<close>

datatype count_target = OfProduct nat | OfAsset nat

record count_input =
  ci_target :: count_target
  ci_container :: "nat option"
  ci_counted :: int
  ci_condition :: "condition option"
  ci_notes :: string

definition new_stocktake :: "nat \<Rightarrow> nat \<Rightarrow> nat \<Rightarrow> nat option \<Rightarrow> string \<Rightarrow> stocktake" where
  "new_stocktake i actor ms container notes =
     \<lparr>ss_id = i, ss_makerspace = ms, ss_container = container, ss_status = StocktakeCounting, ss_started_by = actor,
      ss_completed_by = None, ss_completed_at = None, ss_approved_by = None, ss_approved_at = None, ss_notes = notes\<rparr>"

definition create_stocktake :: "operations_env \<Rightarrow> nat \<Rightarrow> nat \<Rightarrow> nat option \<Rightarrow> string \<Rightarrow> operations_db \<Rightarrow> exn + operations_db" where
  "create_stocktake env actor ms container notes s =
     try_then (container_of container ms (op_base s)) (\<lambda>box.
     try_then (stocktake_module env ms s) (\<lambda>_.
       let k = new_stocktake (fresh_key ss_id (stocktakes s)) actor ms (map_option b_id box) notes
       in Inr (op_audit actor ''stocktake.created'' ms (''stocktake'', ss_id k) [] (s\<lparr>stocktakes := stocktakes s @ [k]\<rparr>))))"

definition get_asset_of :: "nat \<Rightarrow> nat \<Rightarrow> db \<Rightarrow> exn + asset" where
  "get_asset_of aid ms s =
     (case row_get a_id aid (assets s) of
        None \<Rightarrow> Inl Http404
      | Some a \<Rightarrow> if a_makerspace a = ms then Inr a else Inl Http404)"

definition get_product_of :: "nat \<Rightarrow> nat \<Rightarrow> db \<Rightarrow> exn + product" where
  "get_product_of pid ms s =
     (case product_of pid s of
        None \<Rightarrow> Inl Http404
      | Some p \<Rightarrow> if p_makerspace p = ms then Inr p else Inl Http404)"

text \<open>What is counted, and how many units the books expect there.\<close>

definition counted_item :: "stocktake \<Rightarrow> count_input \<Rightarrow> condition \<Rightarrow> nat option \<Rightarrow> db \<Rightarrow> exn + (nat option \<times> nat option \<times> int)" where
  "counted_item k input condition container s =
     (case ci_target input of
        OfAsset aid \<Rightarrow>
          try_then (get_asset_of aid (ss_makerspace k) s) (\<lambda>a.
          try_then (validate_asset_count a (ci_counted input)) (\<lambda>_.
          try_then (validate_item_container k container None (Some a)) (\<lambda>_.
            Inr (None, Some aid, if asset_bucket (a_status a) = Some condition then 1 else 0))))
      | OfProduct pid \<Rightarrow>
          try_then (get_product_of pid (ss_makerspace k) s) (\<lambda>p.
          try_then (validate_product_count p) (\<lambda>_.
          try_then (validate_item_container k container (Some p) None) (\<lambda>_.
            Inr (Some pid, None, product_expected p condition)))))"

definition column_range :: "int \<Rightarrow> bool" where
  "column_range n \<longleftrightarrow> - 2147483648 \<le> n \<and> n \<le> int32_max"

definition counted_condition :: "count_input \<Rightarrow> condition" where
  "counted_condition input = (case ci_condition input of None \<Rightarrow> CountAvailable | Some c \<Rightarrow> c)"

definition new_line :: "nat \<Rightarrow> stocktake \<Rightarrow> count_input \<Rightarrow> nat option \<Rightarrow> nat option \<Rightarrow> nat option \<Rightarrow> int \<Rightarrow> stocktake_line" where
  "new_line i k input container pid aid expected =
     \<lparr>sl_id = i, sl_stocktake = ss_id k, sl_product = pid, sl_asset = aid, sl_container = container,
      sl_expected = expected, sl_counted = ci_counted input, sl_variance = ci_counted input - expected,
      sl_condition = counted_condition input, sl_notes = ci_notes input\<rparr>"

definition store_line :: "nat \<Rightarrow> stocktake \<Rightarrow> stocktake_line \<Rightarrow> operations_db \<Rightarrow> exn + operations_db" where
  "store_line actor k l s =
     (if \<not> column_range (sl_counted l) \<or> \<not> column_range (sl_variance l) then Inl DataError
      else Inr (op_audit actor ''stocktake.line_counted'' (ss_makerspace k) (''stocktake'', ss_id k)
             [(''line_id'', MInt (int (sl_id l)))] (s\<lparr>count_lines := count_lines s @ [l]\<rparr>)))"

definition add_stocktake_line :: "operations_env \<Rightarrow> nat \<Rightarrow> stocktake \<Rightarrow> count_input \<Rightarrow> operations_db \<Rightarrow> exn + operations_db" where
  "add_stocktake_line env actor seen input s =
     try_then (locked_session env seen s) (\<lambda>k.
       if ss_status k \<notin> {StocktakeDraft, StocktakeCounting} then Inl ValidationError
       else try_then (container_of (ci_container input) (ss_makerspace k) (op_base s)) (\<lambda>box.
            try_then (validate_line_container k (map_option b_id box)) (\<lambda>_.
            try_then (counted_item k input (counted_condition input) (map_option b_id box) (op_base s)) (\<lambda>(pid, aid, expected).
            try_then (reject_duplicate_line (ss_id k) pid aid (counted_condition input) (map_option b_id box) s) (\<lambda>_.
              store_line actor k (new_line (fresh_key sl_id (count_lines s)) k input (map_option b_id box) pid aid expected) s)))))"

section \<open>Completing and approving\<close>

definition complete_stocktake :: "operations_env \<Rightarrow> nat \<Rightarrow> stocktake \<Rightarrow> operations_db \<Rightarrow> exn + operations_db" where
  "complete_stocktake env actor seen s =
     try_then (locked_session env seen s) (\<lambda>k.
       if ss_status k \<noteq> StocktakeCounting then Inl ValidationError
       else let s = op_audit actor ''stocktake.completed'' (ss_makerspace k) (''stocktake'', ss_id k) []
                      (put_stocktake (k\<lparr>ss_status := StocktakeCompleted, ss_completed_at := Some (now (op_base s)),
                                        ss_completed_by := Some actor\<rparr>) s)
            in Inr (s\<lparr>op_base := notify ''stocktake.completed'' (ss_id k) (op_base s)\<rparr>))"

definition approve_stocktake :: "operations_env \<Rightarrow> nat \<Rightarrow> stocktake \<Rightarrow> operations_db \<Rightarrow> exn + operations_db" where
  "approve_stocktake env actor seen s =
     try_then (locked_session env seen s) (\<lambda>k.
     try_then (require_stocktake_reviewer env actor k) (\<lambda>_.
       if ss_status k \<noteq> StocktakeCompleted then Inl ValidationError
       else Inr (op_audit actor ''stocktake.approved'' (ss_makerspace k) (''stocktake'', ss_id k) []
              (put_stocktake (k\<lparr>ss_status := StocktakeApproved, ss_approved_by := Some actor,
                                ss_approved_at := Some (now (op_base s))\<rparr>) s))))"

section \<open>Applying\<close>

text \<open>
  A line is checked against the rows as they were read with the lines (\<open>s\<close>), then its freshness
  against the rows of the moment.
\<close>

definition validate_line_scope :: "stocktake \<Rightarrow> stocktake_line \<Rightarrow> db \<Rightarrow> exn + unit" where
  "validate_line_scope k l s =
     (let p = (case sl_product l of None \<Rightarrow> None | Some i \<Rightarrow> product_of i s);
          a = (case sl_asset l of None \<Rightarrow> None | Some i \<Rightarrow> row_get a_id i (assets s));
          b = (case sl_container l of None \<Rightarrow> None | Some i \<Rightarrow> row_get b_id i (boxes s))
      in try_then (require (p = None \<or> p_makerspace (the p) = ss_makerspace k) ValidationError) (\<lambda>_.
         try_then (if p \<noteq> None \<and> sl_asset l = None then validate_product_count (the p) else Inr ()) (\<lambda>_.
         try_then (if a = None then Inr ()
                   else try_then (require (a_makerspace (the a) = ss_makerspace k) ValidationError) (\<lambda>_.
                        try_then (require (sl_product l = None \<or> sl_product l = Some (a_product (the a))) ValidationError) (\<lambda>_.
                          validate_asset_count (the a) (sl_counted l)))) (\<lambda>_.
         try_then (require (b = None \<or> b_makerspace (the b) = ss_makerspace k) ValidationError) (\<lambda>_.
         try_then (validate_line_container k (sl_container l)) (\<lambda>_.
           validate_item_container k (sl_container l) p a))))))"

definition line_current :: "stocktake_line \<Rightarrow> db \<Rightarrow> exn + int" where
  "line_current l s =
     (case sl_asset l of
        Some aid \<Rightarrow>
          try_then (get_asset aid s) (\<lambda>a.
          try_then (of_option ValidationError (asset_bucket (a_status a))) (\<lambda>b.
            Inr (if b = sl_condition l then 1 else 0)))
      | None \<Rightarrow>
          try_then (of_option DoesNotExist (sl_product l)) (\<lambda>pid.
          try_then (get_product pid s) (\<lambda>p. Inr (product_expected p (sl_condition l)))))"

definition validate_line_fresh :: "stocktake_line \<Rightarrow> db \<Rightarrow> exn + unit" where
  "validate_line_fresh l s =
     (if sl_condition l = CountUnknown then Inr ()
      else try_then (line_current l s) (\<lambda>current.
        if current \<noteq> sl_expected l then Inl ValidationError else Inr ()))"

text \<open>\<open>f"Stocktake #{id}: {notes}".strip()\<close>.\<close>

definition stocktake_reason :: "nat \<Rightarrow> string \<Rightarrow> string" where
  "stocktake_reason i notes = strip (''Stocktake #'' @ digits_of i @ '': '' @ notes)"

definition new_entry :: "nat \<Rightarrow> stocktake \<Rightarrow> stocktake_line \<Rightarrow> nat \<Rightarrow> condition \<Rightarrow> int \<Rightarrow>
  asset_status option \<Rightarrow> asset_status option \<Rightarrow> ledger_entry" where
  "new_entry actor k l pid bucket delta old new =
     \<lparr>le_makerspace = ss_makerspace k, le_stocktake = ss_id k, le_line = sl_id l, le_product = pid, le_asset = sl_asset l,
      le_bucket = bucket, le_delta = delta, le_old_status = old, le_new_status = new,
      le_reason = stocktake_reason (ss_id k) (sl_notes l), le_created_by = actor\<rparr>"

text \<open>The product of a line, or of its asset.\<close>

definition line_product :: "stocktake_line \<Rightarrow> db \<Rightarrow> nat option" where
  "line_product l s =
     (case sl_product l of
        Some i \<Rightarrow> Some i
      | None \<Rightarrow> (case sl_asset l of None \<Rightarrow> None | Some a \<Rightarrow> map_option a_product (row_get a_id a (assets s))))"

definition asset_ledger_entries ::
  "nat \<Rightarrow> stocktake \<Rightarrow> stocktake_line \<Rightarrow> nat \<Rightarrow> nat \<Rightarrow> operations_db \<Rightarrow> exn + (ledger_entry list \<times> operations_db)" where
  "asset_ledger_entries actor k l pid aid s =
     try_then (get_asset aid (op_base s)) (\<lambda>a.
       let new_status = asset_new_status l
       in try_then (of_option ValidationError (asset_bucket (a_status a))) (\<lambda>old_bucket.
          try_then (of_option ValidationError (asset_bucket new_status)) (\<lambda>new_bucket.
            let entries = (if old_bucket = new_bucket then []
                           else [new_entry actor k l pid old_bucket (- 1) (Some (a_status a)) (Some new_status),
                                 new_entry actor k l pid new_bucket 1 (Some (a_status a)) (Some new_status)])
            in Inr (entries, s\<lparr>stocktake_ledger := stocktake_ledger s @ entries,
                               op_base := put_asset (a\<lparr>a_status := new_status\<rparr>) (op_base s)\<rparr>))))"

definition ledger_entries_for_line ::
  "nat \<Rightarrow> stocktake \<Rightarrow> stocktake_line \<Rightarrow> operations_db \<Rightarrow> exn + (ledger_entry list \<times> operations_db)" where
  "ledger_entries_for_line actor k l s =
     (if sl_condition l = CountUnknown then Inl ValidationError
      else try_then (of_option DoesNotExist (line_product l (op_base s))) (\<lambda>pid.
        case sl_asset l of
          Some aid \<Rightarrow> asset_ledger_entries actor k l pid aid s
        | None \<Rightarrow>
            let entries = (if sl_variance l = 0 then []
                           else [new_entry actor k l pid (sl_condition l) (sl_variance l) None None])
            in Inr (entries, s\<lparr>stocktake_ledger := stocktake_ledger s @ entries\<rparr>)))"

definition apply_entry :: "ledger_entry \<Rightarrow> db \<Rightarrow> exn + db" where
  "apply_entry e s =
     (case apply_stocktake_delta (le_product e)
             (if le_bucket e = CountAvailable then le_delta e else 0)
             (if le_bucket e = CountDamaged then le_delta e else 0)
             (if le_bucket e = CountLost then le_delta e else 0) s of
        Inl x \<Rightarrow> Inl (if x = InsufficientStock then ValidationError else x)
      | Inr t \<Rightarrow> Inr t)"

text \<open>\<open>deltas\<close> maps a bucket to the delta of its last entry.\<close>

definition bucket_delta :: "condition \<Rightarrow> ledger_entry list \<Rightarrow> int" where
  "bucket_delta c es = (case find (\<lambda>e. le_bucket e = c) (rev es) of None \<Rightarrow> 0 | Some e \<Rightarrow> le_delta e)"

definition record_adjustment :: "nat \<Rightarrow> stocktake \<Rightarrow> stocktake_line \<Rightarrow> ledger_entry list \<Rightarrow> db \<Rightarrow> db" where
  "record_adjustment actor k l es s =
     (if es = [] then s
      else s\<lparr>adjustments := adjustments s @
         [\<lparr>j_makerspace = ss_makerspace k, j_product = line_product l s, j_asset = sl_asset l,
           j_stocktake = Some (ss_id k), j_transfer = None, j_delta_available = bucket_delta CountAvailable es,
           j_delta_damaged = bucket_delta CountDamaged es, j_delta_lost = bucket_delta CountLost es,
           j_reason = stocktake_reason (ss_id k) (sl_notes l), j_created_by = Some actor\<rparr>]\<rparr>)"

definition apply_line :: "nat \<Rightarrow> stocktake \<Rightarrow> db \<Rightarrow> stocktake_line \<Rightarrow> operations_db \<Rightarrow> exn + operations_db" where
  "apply_line actor k read l s =
     try_then (validate_line_scope k l read) (\<lambda>_.
     try_then (validate_line_fresh l (op_base s)) (\<lambda>_.
     try_then (ledger_entries_for_line actor k l s) (\<lambda>(entries, s).
     try_then (on_base (for_each apply_entry entries) s) (\<lambda>s.
       Inr (s\<lparr>op_base := record_adjustment actor k l entries (op_base s)\<rparr>)))))"

definition apply_stocktake_adjustments :: "operations_env \<Rightarrow> nat \<Rightarrow> stocktake \<Rightarrow> operations_db \<Rightarrow> exn + operations_db" where
  "apply_stocktake_adjustments env actor seen =
     in_transaction (\<lambda>s.
       try_then (locked_session env seen s) (\<lambda>k.
       try_then (require_stocktake_reviewer env actor k) (\<lambda>_.
         if ss_status k \<noteq> StocktakeApproved then Inl ValidationError
         else try_then (for_each (apply_line actor k (op_base s)) (lines_of (ss_id k) s) s) (\<lambda>s.
           Inr (op_audit actor ''stocktake.adjustments_applied'' (ss_makerspace k) (''stocktake'', ss_id k) []
                  (put_stocktake (k\<lparr>ss_status := StocktakeApplied\<rparr>) s))))))"

section \<open>The stocktake machine\<close>

datatype stocktake_op =
    CreateStocktake nat nat "nat option" string
  | AddLine nat stocktake count_input
  | CompleteStocktake nat stocktake
  | ApproveStocktake nat stocktake
  | ApplyStocktake nat stocktake

fun stocktake_step :: "operations_env \<Rightarrow> stocktake_op \<Rightarrow> operations_db \<Rightarrow> exn + operations_db" where
  "stocktake_step env (CreateStocktake actor ms container notes) s = create_stocktake env actor ms container notes s"
| "stocktake_step env (AddLine actor seen input) s = add_stocktake_line env actor seen input s"
| "stocktake_step env (CompleteStocktake actor seen) s = complete_stocktake env actor seen s"
| "stocktake_step env (ApproveStocktake actor seen) s = approve_stocktake env actor seen s"
| "stocktake_step env (ApplyStocktake actor seen) s = apply_stocktake_adjustments env actor seen s"

end
