(* ===== verification/Transfers.thy ===== *)
theory Transfers
  imports Stocktakes
begin

text \<open>
  Stock transfers (\<open>operations/services_transfers.py\<close>, \<open>services_transfer_splits.py\<close>): moving
  quantity stock or unit assets between the containers of a makerspace, or quantity stock to another
  makerspace. The code letter a new product row may be issued is not modelled. \<open>iexact\<close> compares in
  one case.
\<close>

section \<open>Rows and requests\<close>

record transfer_input =
  ti_target :: count_target
  ti_quantity :: "int option"
  ti_from :: "asset_status option"
  ti_to :: "asset_status option"
  ti_notes :: string

definition wanted_quantity :: "transfer_input \<Rightarrow> int" where
  "wanted_quantity input = (case ti_quantity input of None \<Rightarrow> 1 | Some q \<Rightarrow> if q = 0 then 1 else q)"

definition transfer_target_statuses :: "asset_status list" where
  "transfer_target_statuses = [AVAILABLE, MAINTENANCE, DAMAGED]"

definition iexact :: "string \<Rightarrow> string \<Rightarrow> bool" where
  "iexact a b \<longleftrightarrow> lowercase a = lowercase b"

definition create_transfer_line :: "transfer_line \<Rightarrow> operations_db \<Rightarrow> exn + operations_db" where
  "create_transfer_line l s =
     (if tl_quantity l < 0 then Inl IntegrityError
      else if int32_max < tl_quantity l then Inl DataError
      else Inr (s\<lparr>transfer_lines := transfer_lines s @ [l]\<rparr>))"

definition transfer_adjustment :: "nat \<Rightarrow> nat \<Rightarrow> stock_transfer \<Rightarrow> nat option \<Rightarrow> nat option \<Rightarrow> int \<Rightarrow> operations_db \<Rightarrow> operations_db" where
  "transfer_adjustment actor ms x pid aid delta s =
     s\<lparr>op_base := (op_base s)\<lparr>adjustments := adjustments (op_base s) @
       [\<lparr>j_makerspace = ms, j_product = pid, j_asset = aid, j_stocktake = None, j_transfer = Some (st_id x),
         j_delta_available = delta, j_delta_damaged = 0, j_delta_lost = 0, j_reason = st_reason x,
         j_created_by = Some actor\<rparr>]\<rparr>\<rparr>"

text \<open>\<open>InventoryProduct.objects.create(...)\<close> of an empty row.\<close>

definition empty_product :: "nat \<Rightarrow> nat \<Rightarrow> nat option \<Rightarrow> nat option \<Rightarrow> string \<Rightarrow> string \<Rightarrow> string \<Rightarrow> product" where
  "empty_product i ms box cat name description location =
     \<lparr>p_id = i, p_makerspace = ms, p_box = box, p_category = cat, p_name = name, p_description = description,
      p_storage_location = location, p_tracking_mode = QUANTITY, p_total = 0, p_available = 0, p_reserved = 0,
      p_issued = 0, p_damaged = 0, p_lost = 0, p_needs_fix = 0, p_is_public = False, p_self_checkout = False,
      p_is_archived = False\<rparr>"

definition add_product :: "product \<Rightarrow> db \<Rightarrow> db" where
  "add_product p s = s\<lparr>products := products s @ [p]\<rparr>"

section \<open>Within a makerspace\<close>

definition can_move_source_row :: "product \<Rightarrow> product option \<Rightarrow> int \<Rightarrow> bool" where
  "can_move_source_row p dest quantity \<longleftrightarrow>
     dest = None \<and> quantity = p_available p \<and> p_total p = p_available p \<and> p_reserved p = 0 \<and>
     p_issued p = 0 \<and> p_damaged p = 0 \<and> p_lost p = 0 \<and> p_needs_fix p = 0"

definition destination_product :: "product \<Rightarrow> nat option \<Rightarrow> db \<Rightarrow> product option" where
  "destination_product p box s =
     find (\<lambda>q. p_makerspace q = p_makerspace p \<and> p_box q = box \<and> iexact (p_name q) (p_name p) \<and>
       p_tracking_mode q = QUANTITY \<and> \<not> p_is_archived q \<and> p_category q = p_category p \<and> p_id q \<noteq> p_id p) (products s)"

definition create_destination_product :: "product \<Rightarrow> nat option \<Rightarrow> db \<Rightarrow> product \<times> db" where
  "create_destination_product p box s =
     (let q = empty_product (fresh_key p_id (products s)) (p_makerspace p) box (p_category p) (p_name p)
                (p_description p) (p_storage_location p)
      in (q, add_product q s))"

text \<open>The product the stock is in afterwards, and whether it was split off.\<close>

definition move_quantity_stock :: "product \<Rightarrow> nat option \<Rightarrow> int \<Rightarrow> db \<Rightarrow> exn + ((nat \<times> bool) \<times> db)" where
  "move_quantity_stock p box quantity s =
     (if p_tracking_mode p = INDIVIDUAL then Inl ValidationError
      else if p_available p < quantity then Inl ValidationError
      else let dest = destination_product p box s
           in if can_move_source_row p dest quantity
              then try_then (save_product (p\<lparr>p_box := box\<rparr>) s) (\<lambda>s. Inr ((p_id p, False), s))
              else case (case dest of Some q \<Rightarrow> (q, s) | None \<Rightarrow> create_destination_product p box s) of
                (q, s) \<Rightarrow> try_then (transfer_available_quantity (p_id p) (p_id q) quantity s) (\<lambda>s.
                            Inr ((p_id q, True), s)))"

definition asset_on_loan :: "asset \<Rightarrow> db \<Rightarrow> bool" where
  "asset_on_loan a s \<longleftrightarrow>
     list_ex (\<lambda>l. t_makerspace l = a_makerspace a \<and> t_checked_out l \<and> a_id a \<in> set (t_asset_ids l)) (loans s) \<or>
     list_ex (\<lambda>k. l_asset k = a_id a \<and> l_outcome k = LinkIssued \<and>
       (case row_get i_id (l_item k) (items s) of None \<Rightarrow> False
        | Some i \<Rightarrow> item_request_status s i \<in> {Some Issued, Some PartiallyReturned})) (links s)"

definition assert_asset_transferable :: "asset \<Rightarrow> asset_status option \<Rightarrow> db \<Rightarrow> exn + unit" where
  "assert_asset_transferable a to_status s =
     (if to_status \<noteq> None \<and> the to_status \<notin> set transfer_target_statuses then Inl ValidationError
      else if a_status a \<in> {ISSUED, RESERVED} then Inl ValidationError
      else if asset_on_loan a s then Inl ValidationError else Inr ())"

definition restatus_asset :: "asset \<Rightarrow> asset_status option \<Rightarrow> db \<Rightarrow> exn + db" where
  "restatus_asset a to_status s =
     (if to_status = None \<or> to_status = Some (a_status a) then Inr s
      else case move_asset_status (a_id a) (the to_status) s of
             Inl e \<Rightarrow> Inl (if e = InsufficientStock then ValidationError else e)
           | Inr t \<Rightarrow> Inr t)"

definition move_asset :: "nat \<Rightarrow> nat option \<Rightarrow> nat option \<Rightarrow> nat \<Rightarrow> transfer_input \<Rightarrow> db \<Rightarrow> exn + db" where
  "move_asset ms source destination aid input s =
     try_then (get_asset_of aid ms s) (\<lambda>a.
     try_then (require (source = None \<or> a_box a = source) ValidationError) (\<lambda>_.
     try_then (require (ti_from input = None \<or> ti_from input = Some (a_status a)) ValidationError) (\<lambda>_.
     try_then (assert_asset_transferable a (ti_to input) s) (\<lambda>_.
     try_then (restatus_asset a (ti_to input) s) (\<lambda>s.
     try_then (get_asset aid s) (\<lambda>a. Inr (put_asset (a\<lparr>a_box := destination\<rparr>) s)))))))"

definition new_transfer_line :: "stock_transfer \<Rightarrow> transfer_input \<Rightarrow> nat option \<Rightarrow> nat option \<Rightarrow> string \<Rightarrow> transfer_line" where
  "new_transfer_line x input pid aid notes =
     \<lparr>tl_transfer = st_id x, tl_product = pid, tl_asset = aid, tl_quantity = wanted_quantity input,
      tl_from = ti_from input, tl_to = ti_to input, tl_notes = notes\<rparr>"

definition apply_intra_makerspace_line ::
  "nat \<Rightarrow> stock_transfer \<Rightarrow> nat \<Rightarrow> nat option \<Rightarrow> nat option \<Rightarrow> transfer_input \<Rightarrow> operations_db \<Rightarrow> exn + operations_db" where
  "apply_intra_makerspace_line actor x ms source destination input s =
     (case ti_target input of
        OfAsset aid \<Rightarrow>
          try_then (on_base (move_asset ms source destination aid input) s) (\<lambda>s.
          try_then (create_transfer_line (new_transfer_line x input None (Some aid) (ti_notes input)) s) (\<lambda>s.
            Inr (transfer_adjustment actor ms x None (Some aid) 0 s)))
      | OfProduct pid \<Rightarrow>
          try_then (get_product_of pid ms (op_base s)) (\<lambda>p.
          try_then (require (source = None \<or> p_box p = source) ValidationError) (\<lambda>_.
          try_then (move_quantity_stock p destination (wanted_quantity input) (op_base s)) (\<lambda>((q, split), b).
          try_then (create_transfer_line (new_transfer_line x input (Some pid) None (ti_notes input)) (s\<lparr>op_base := b\<rparr>)) (\<lambda>s.
            Inr (transfer_adjustment actor ms x (Some (if split then q else pid)) None 0 s))))))"

section \<open>To another makerspace\<close>

definition category_in :: "nat option \<Rightarrow> nat \<Rightarrow> operations_db \<Rightarrow> nat option" where
  "category_in cat ms s =
     (case (case cat of None \<Rightarrow> None | Some c \<Rightarrow> row_get cat_id c (op_categories s)) of
        None \<Rightarrow> None
      | Some c \<Rightarrow> map_option cat_id (find (\<lambda>d. cat_makerspace d = ms \<and> cat_slug d = cat_slug c) (op_categories s)))"

definition receiving_product :: "product \<Rightarrow> nat \<Rightarrow> nat option \<Rightarrow> nat option \<Rightarrow> db \<Rightarrow> product option" where
  "receiving_product src ms box cat s =
     find (\<lambda>q. p_makerspace q = ms \<and> iexact (p_name q) (p_name src) \<and> p_category q = cat \<and> p_box q = box \<and>
       \<not> p_is_archived q) (products s)"

definition moved_notes :: "transfer_input \<Rightarrow> nat \<Rightarrow> nat \<Rightarrow> string" where
  "moved_notes input ms pid =
     (if ti_notes input \<noteq> [] then ti_notes input
      else ''Moved to makerspace #'' @ digits_of ms @ '' product #'' @ digits_of pid)"

definition apply_cross_makerspace_line ::
  "nat \<Rightarrow> stock_transfer \<Rightarrow> nat \<Rightarrow> nat \<Rightarrow> nat option \<Rightarrow> transfer_input \<Rightarrow> operations_db \<Rightarrow> exn + operations_db" where
  "apply_cross_makerspace_line actor x ms dest_ms box input s =
     (case ti_target input of
        OfAsset _ \<Rightarrow> Inl ValidationError
      | OfProduct pid \<Rightarrow>
          let quantity = wanted_quantity input
          in try_then (get_product_of pid ms (op_base s)) (\<lambda>src.
             if p_tracking_mode src = INDIVIDUAL then Inl ValidationError
             else if p_available src < quantity then Inl ValidationError
             else let cat = category_in (p_category src) dest_ms s;
                      dest = receiving_product src dest_ms box cat (op_base s)
                  in if dest \<noteq> None \<and> p_tracking_mode (the dest) = INDIVIDUAL then Inl ValidationError
                     else case (case dest of Some q \<Rightarrow> (q, op_base s)
                          | None \<Rightarrow> (let q = empty_product (fresh_key p_id (products (op_base s))) dest_ms box cat
                                        (p_name src) (p_description src) []
                                    in (q, add_product q (op_base s)))) of
                       (q, b) \<Rightarrow>
                         try_then (transfer_available_quantity pid (p_id q) quantity b) (\<lambda>b.
                         try_then (create_transfer_line
                             (new_transfer_line x input (Some pid) None (moved_notes input dest_ms (p_id q))) (s\<lparr>op_base := b\<rparr>)) (\<lambda>s.
                           Inr (transfer_adjustment actor dest_ms x (Some (p_id q)) None quantity
                                  (transfer_adjustment actor ms x (Some pid) None (- quantity) s))))))"

section \<open>A transfer\<close>

definition require_module_locked_for_all :: "operations_env \<Rightarrow> nat list \<Rightarrow> string \<Rightarrow> operations_db \<Rightarrow> exn + unit" where
  "require_module_locked_for_all env ids key s =
     require (list_all (\<lambda>i. row_get m_id i (makerspaces (op_base s)) \<noteq> None \<and> module_enabled (op_env env) i key) ids)
       ValidationError"

definition new_transfer ::
  "nat \<Rightarrow> nat \<Rightarrow> nat option \<Rightarrow> nat option \<Rightarrow> nat \<Rightarrow> string \<Rightarrow> operations_db \<Rightarrow> stock_transfer" where
  "new_transfer actor ms source destination dest_ms reason s =
     \<lparr>st_id = fresh_key st_id (transfers s), st_makerspace = ms, st_source = source, st_destination = destination,
      st_destination_makerspace = dest_ms, st_created_by = actor, st_reason = reason, st_applied_at = now (op_base s)\<rparr>"

definition transfer_audits :: "nat \<Rightarrow> stock_transfer \<Rightarrow> nat \<Rightarrow> nat \<Rightarrow> operations_db \<Rightarrow> exn + operations_db" where
  "transfer_audits actor x ms dest_ms s =
     (let s = op_audit actor ''stock_transfer.applied'' ms (''stocktransfer'', st_id x) [] s
      in if dest_ms = ms then Inr s
         else try_then (get_makerspace dest_ms (op_base s)) (\<lambda>_.
           Inr (op_audit actor ''stock_transfer.received'' dest_ms (''stocktransfer'', st_id x)
                  [(''source_makerspace_id'', MInt (int ms))] s)))"

definition transfer_row :: "nat \<Rightarrow> stock_transfer \<Rightarrow> nat \<Rightarrow> nat \<Rightarrow> nat option \<Rightarrow> nat option \<Rightarrow> transfer_input \<Rightarrow>
  operations_db \<Rightarrow> exn + operations_db" where
  "transfer_row actor x ms dest_ms source destination input =
     (if dest_ms \<noteq> ms then apply_cross_makerspace_line actor x ms dest_ms destination input
      else apply_intra_makerspace_line actor x ms source destination input)"

text \<open>The makerspace that receives.\<close>

definition receiver :: "nat \<Rightarrow> nat option \<Rightarrow> nat" where
  "receiver ms destination_ms = (case destination_ms of None \<Rightarrow> ms | Some d \<Rightarrow> if d = 0 then ms else d)"

definition apply_stock_transfer :: "operations_env \<Rightarrow> nat \<Rightarrow> nat \<Rightarrow> nat option \<Rightarrow> nat option \<Rightarrow> nat option \<Rightarrow> string \<Rightarrow>
  transfer_input list \<Rightarrow> operations_db \<Rightarrow> exn + operations_db" where
  "apply_stock_transfer env actor ms source_id destination_id destination_ms reason inputs =
     in_transaction (\<lambda>s.
       let dest_ms = receiver ms destination_ms
       in try_then (require_module_locked_for_all env [ms, dest_ms] ''stock_transfers'' s) (\<lambda>_.
          try_then (container_of source_id ms (op_base s)) (\<lambda>source.
          try_then (container_of destination_id dest_ms (op_base s)) (\<lambda>destination.
            let x = new_transfer actor ms (map_option b_id source) (map_option b_id destination) dest_ms reason s
            in try_then (for_each (transfer_row actor x ms dest_ms (map_option b_id source) (map_option b_id destination))
                   inputs (s\<lparr>transfers := transfers s @ [x]\<rparr>)) (\<lambda>s.
                 transfer_audits actor x ms dest_ms s)))))"

end
