(* ===== verification/Stocktake_Safety.thy ===== *)
theory Stocktake_Safety
  imports Stocktakes Stock_Safety "HOL-Library.Sublist"
begin

text \<open>
  What the stocktake services keep: a session moves forward along its status graph, its lines are
  frozen when it is completed, it is signed by another person than the one who completed it, and the
  ledger entries account for every unit a stocktake adds to or takes from the stock.
\<close>

section \<open>The books\<close>

definition entry_delta :: "nat \<Rightarrow> condition \<Rightarrow> ledger_entry \<Rightarrow> int" where
  "entry_delta pid c e = (if le_product e = pid \<and> le_bucket e = c then le_delta e else 0)"

definition ledger_sum :: "nat \<Rightarrow> condition \<Rightarrow> ledger_entry list \<Rightarrow> int" where
  "ledger_sum pid c es = sum_list (map (entry_delta pid c) es)"

definition counted_units :: "nat \<Rightarrow> condition \<Rightarrow> db \<Rightarrow> int" where
  "counted_units pid c s = (case product_of pid s of None \<Rightarrow> 0 | Some p \<Rightarrow> product_expected p c)"

definition uncounted :: "product \<Rightarrow> int \<times> int \<times> int" where
  "uncounted p = (p_reserved p, p_issued p, p_needs_fix p)"

text \<open>
  The stock apart from what the ledger accounts for, and the columns no stocktake touches.
\<close>

definition same_books :: "operations_db \<Rightarrow> operations_db \<Rightarrow> bool" where
  "same_books s t \<longleftrightarrow>
     (\<forall>pid c. c \<noteq> CountUnknown \<longrightarrow>
        counted_units pid c (op_base t) - ledger_sum pid c (stocktake_ledger t) =
        counted_units pid c (op_base s) - ledger_sum pid c (stocktake_ledger s)) \<and>
     (\<forall>pid. map_option uncounted (product_of pid (op_base t)) = map_option uncounted (product_of pid (op_base s))) \<and>
     prefix (stocktake_ledger s) (stocktake_ledger t)"

lemma same_books_refl [simp]: "same_books s s"
  by (simp add: same_books_def)

lemma same_books_trans: "same_books s t \<Longrightarrow> same_books t u \<Longrightarrow> same_books s u"
  by (auto simp: same_books_def intro: prefix_order.trans)

lemma same_books_cong:
  "products (op_base t) = products (op_base s) \<Longrightarrow> stocktake_ledger t = stocktake_ledger s \<Longrightarrow> same_books s t"
  by (simp add: same_books_def counted_units_def product_of_def)

lemma ledger_sum_append [simp]: "ledger_sum pid c (xs @ ys) = ledger_sum pid c xs + ledger_sum pid c ys"
  by (simp add: ledger_sum_def)

lemma apply_entry_Inr:
  assumes "apply_entry e b = Inr b'"
  shows "\<exists>p q. product_of (le_product e) b = Some p \<and> b' = b\<lparr>products := row_put p_id q (products b)\<rparr> \<and>
    p_id q = p_id p \<and> uncounted q = uncounted p \<and>
    (\<forall>c. c \<noteq> CountUnknown \<longrightarrow> product_expected q c = product_expected p c + (if c = le_bucket e then le_delta e else 0))"
proof -
  from assms obtain p where p: "product_of (le_product e) b = Some p"
    by (auto simp: apply_entry_def apply_stocktake_delta_def ok_iff split: sum.splits if_splits)
  let ?q = "with_recomputed_total (p\<lparr>
     p_available := p_available p + (if le_bucket e = CountAvailable then le_delta e else 0),
     p_damaged := p_damaged p + (if le_bucket e = CountDamaged then le_delta e else 0),
     p_lost := p_lost p + (if le_bucket e = CountLost then le_delta e else 0)\<rparr>)"
  have "b' = b\<lparr>products := row_put p_id ?q (products b)\<rparr>"
    using assms p by (auto simp: apply_entry_def apply_stocktake_delta_def ok_iff Let_def save_product_Inr
        split: sum.splits if_splits)
  moreover have "product_expected ?q c = product_expected p c + (if c = le_bucket e then le_delta e else 0)"
    if "c \<noteq> CountUnknown" for c
    using that by (cases c) (auto simp: with_recomputed_total_def)
  ultimately show ?thesis
    using p by (intro exI [of _ p] exI [of _ ?q]) (simp add: with_recomputed_total_def uncounted_def)
qed

lemma apply_entry_units:
  assumes "apply_entry e b = Inr b'" and "c \<noteq> CountUnknown"
  shows "counted_units pid c b' = counted_units pid c b + entry_delta pid c e"
proof -
  from apply_entry_Inr [OF assms(1)] obtain p q where
    "product_of (le_product e) b = Some p" "b' = b\<lparr>products := row_put p_id q (products b)\<rparr>" "p_id q = p_id p"
    "\<forall>c. c \<noteq> CountUnknown \<longrightarrow> product_expected q c = product_expected p c + (if c = le_bucket e then le_delta e else 0)"
    by blast
  with assms(2) show ?thesis
    by (auto simp: counted_units_def product_of_put entry_delta_def product_of_id split: option.split)
qed

lemma apply_entry_frame:
  assumes "apply_entry e b = Inr b'"
  shows "map_option uncounted (product_of pid b') = map_option uncounted (product_of pid b) \<and>
    assets b' = assets b \<and> boxes b' = boxes b \<and> in_atomic b' = in_atomic b \<and> items b' = items b"
  using apply_entry_Inr [OF assms] by (auto simp: product_of_put product_of_id)

lemma apply_entries_effect:
  assumes "for_each apply_entry es b = Inr b'"
  shows "(c \<noteq> CountUnknown \<longrightarrow> counted_units pid c b' = counted_units pid c b + ledger_sum pid c es) \<and>
    map_option uncounted (product_of pid b') = map_option uncounted (product_of pid b) \<and>
    assets b' = assets b \<and> in_atomic b' = in_atomic b"
proof (intro conjI impI)
  show "counted_units pid c b' = counted_units pid c b + ledger_sum pid c es" if "c \<noteq> CountUnknown"
    unfolding ledger_sum_def
    by (rule for_each_sum [OF assms, where I = "\<lambda>_. True"]) (simp_all add: apply_entry_units that)
  have "map_option uncounted (product_of pid b') = map_option uncounted (product_of pid b) \<and>
      assets b' = assets b \<and> in_atomic b' = in_atomic b"
    by (rule for_each_rel [OF assms, where R = "\<lambda>u v. map_option uncounted (product_of pid v) =
        map_option uncounted (product_of pid u) \<and> assets v = assets u \<and> in_atomic v = in_atomic u"])
      (simp_all add: apply_entry_frame)
  then show "map_option uncounted (product_of pid b') = map_option uncounted (product_of pid b)"
    "assets b' = assets b" "in_atomic b' = in_atomic b" by simp_all
qed

section \<open>Applying a line\<close>

lemma apply_entry_tables:
  assumes "tables_ok b" and "apply_entry e b = Inr b'"
  shows "tables_ok b'"
proof -
  have "yields tables_ok no_integrity_error (apply_stocktake_delta (le_product e)
      (if le_bucket e = CountAvailable then le_delta e else 0)
      (if le_bucket e = CountDamaged then le_delta e else 0) (if le_bucket e = CountLost then le_delta e else 0) b)"
    using assms(1) by (rule apply_stocktake_delta_safe)
  then show ?thesis using assms(2) by (auto simp: apply_entry_def split: sum.splits)
qed

lemma apply_entries_tables: "tables_ok b \<Longrightarrow> for_each apply_entry es b = Inr b' \<Longrightarrow> tables_ok b'"
  by (rule for_each_inv [where I = tables_ok]) (auto intro: apply_entry_tables)

definition asset_row :: "nat \<Rightarrow> operations_db \<Rightarrow> asset option" where
  "asset_row i s = row_get a_id i (assets (op_base s))"

text \<open>What a line that was applied did: its entries, and the unit it names.\<close>

lemma ledger_entries_effect:
  assumes "ledger_entries_for_line actor k l s = Inr (es, t)"
  shows "\<exists>pid. line_product l (op_base s) = Some pid \<and> sl_condition l \<noteq> CountUnknown \<and>
    (\<forall>e \<in> set es. le_product e = pid) \<and>
    stocktake_ledger t = stocktake_ledger s @ es \<and> stocktakes t = stocktakes s \<and> count_lines t = count_lines s \<and>
    products (op_base t) = products (op_base s) \<and> items (op_base t) = items (op_base s) \<and>
    in_atomic (op_base t) = in_atomic (op_base s) \<and>
    (case sl_asset l of
       None \<Rightarrow> op_base t = op_base s \<and> (\<forall>e \<in> set es. le_bucket e = sl_condition l) \<and>
         ledger_sum pid (sl_condition l) es = sl_variance l
     | Some aid \<Rightarrow> \<exists>a. asset_row aid s = Some a \<and> op_base t = put_asset (a\<lparr>a_status := asset_new_status l\<rparr>) (op_base s))"
proof (cases "sl_asset l")
  case None
  with assms show ?thesis
    by (auto simp: ledger_entries_for_line_def ok_iff Let_def ledger_sum_def entry_delta_def new_entry_def
        split: if_splits)
next
  case (Some aid)
  with assms obtain pid where pid: "line_product l (op_base s) = Some pid" "sl_condition l \<noteq> CountUnknown"
    and run: "asset_ledger_entries actor k l pid aid s = Inr (es, t)"
    by (auto simp: ledger_entries_for_line_def ok_iff split: if_splits)
  from run obtain a where a: "asset_row aid s = Some a"
    "t = s\<lparr>stocktake_ledger := stocktake_ledger s @ es, op_base := put_asset (a\<lparr>a_status := asset_new_status l\<rparr>) (op_base s)\<rparr>"
    "\<forall>e \<in> set es. le_product e = pid"
    by (auto simp: asset_ledger_entries_def ok_iff Let_def get_asset_def asset_row_def new_entry_def)
  with pid Some show ?thesis by (simp add: put_asset_def)
qed

lemma asset_row_put:
  "row_get a_id i (assets (put_asset a s)) =
    (if i = a_id a then map_option (\<lambda>_. a) (row_get a_id i (assets s)) else row_get a_id i (assets s))"
  by (simp add: put_asset_def row_get_row_put)

lemma record_adjustment_same [simp]:
  "products (record_adjustment actor k l es s) = products s" "assets (record_adjustment actor k l es s) = assets s"
  "in_atomic (record_adjustment actor k l es s) = in_atomic s" "items (record_adjustment actor k l es s) = items s"
  by (simp_all add: record_adjustment_def)

lemma product_of_cong: "products t = products s \<Longrightarrow> product_of i t = product_of i s"
  by (simp add: product_of_def)

lemma counted_units_cong: "products t = products s \<Longrightarrow> counted_units pid c t = counted_units pid c s"
  by (simp add: counted_units_def product_of_def)

lemma apply_line_Inr:
  assumes "apply_line actor k read l s = Inr t"
  obtains es u v where "validate_line_scope k l read = Inr ()" "validate_line_fresh l (op_base s) = Inr ()"
    "ledger_entries_for_line actor k l s = Inr (es, u)" "for_each apply_entry es (op_base u) = Inr v"
    "t = u\<lparr>op_base := record_adjustment actor k l es v\<rparr>"
  using assms by (auto simp: apply_line_def on_base_def ok_iff)

lemma tables_ok_cong: "products t = products s \<Longrightarrow> items t = items s \<Longrightarrow> tables_ok t = tables_ok s"
  by (simp add: tables_ok_def stock_ok_def items_ok_def)

lemma apply_line_effect:
  assumes "apply_line actor k read l s = Inr t"
  shows "same_books s t \<and> stocktakes t = stocktakes s \<and> count_lines t = count_lines s \<and>
    in_atomic (op_base t) = in_atomic (op_base s) \<and> (tables_ok (op_base s) \<longrightarrow> tables_ok (op_base t)) \<and>
    sl_condition l \<noteq> CountUnknown"
proof -
  from apply_line_Inr [OF assms] obtain es u v where
    es: "ledger_entries_for_line actor k l s = Inr (es, u)" and v: "for_each apply_entry es (op_base u) = Inr v"
    and t: "t = u\<lparr>op_base := record_adjustment actor k l es v\<rparr>" .
  note eff = ledger_entries_effect [OF es]
  have u: "stocktake_ledger u = stocktake_ledger s @ es" "products (op_base u) = products (op_base s)"
    "items (op_base u) = items (op_base s)" "in_atomic (op_base u) = in_atomic (op_base s)"
    "stocktakes u = stocktakes s" "count_lines u = count_lines s" "sl_condition l \<noteq> CountUnknown"
    using eff by auto
  have "same_books s t"
    using apply_entries_effect [OF v] counted_units_cong [OF u(2)] product_of_cong [OF u(2)] u(1)
    by (simp add: same_books_def t counted_units_cong [of "record_adjustment actor k l es v" v]
        product_of_cong [of "record_adjustment actor k l es v" v])
  moreover have "tables_ok (op_base t)" if "tables_ok (op_base s)"
  proof -
    have "tables_ok (op_base u)" using that tables_ok_cong [OF u(2,3)] by simp
    from apply_entries_tables [OF this v] show ?thesis
      using tables_ok_cong [of "record_adjustment actor k l es v" v] by (simp add: t)
  qed
  moreover have "in_atomic (op_base t) = in_atomic (op_base s)"
    using apply_entries_effect [OF v] u by (simp add: t)
  ultimately show ?thesis using u by (simp add: t)
qed

section \<open>A line settles what it counted\<close>

definition line_sound :: "stocktake_line \<Rightarrow> bool" where
  "line_sound l \<longleftrightarrow> sl_variance l = sl_counted l - sl_expected l \<and> (sl_product l = None \<longleftrightarrow> sl_asset l \<noteq> None)"

lemma product_line_settles:
  assumes "apply_line actor k read l s = Inr t" and "line_sound l" and "sl_asset l = None"
  shows "\<exists>pid. sl_product l = Some pid \<and> (\<exists>p. product_of pid (op_base t) = Some p) \<and>
    counted_units pid (sl_condition l) (op_base t) = sl_counted l"
proof -
  from apply_line_Inr [OF assms(1)] obtain es u v where fresh: "validate_line_fresh l (op_base s) = Inr ()"
    and es: "ledger_entries_for_line actor k l s = Inr (es, u)" and v: "for_each apply_entry es (op_base u) = Inr v"
    and t: "t = u\<lparr>op_base := record_adjustment actor k l es v\<rparr>" .
  note eff = ledger_entries_effect [OF es]
  from assms(2,3) obtain pid where pid: "sl_product l = Some pid" by (auto simp: line_sound_def)
  then have lp: "line_product l (op_base s) = Some pid" by (simp add: line_product_def)
  have known: "sl_condition l \<noteq> CountUnknown" and sum: "ledger_sum pid (sl_condition l) es = sl_variance l"
    and base: "op_base u = op_base s" using eff assms(3) lp by auto
  from fresh known assms(3) pid obtain p where p: "product_of pid (op_base s) = Some p"
    "product_expected p (sl_condition l) = sl_expected l"
    by (auto simp: validate_line_fresh_def line_current_def ok_iff split: if_splits)
  have "counted_units pid (sl_condition l) v = counted_units pid (sl_condition l) (op_base s) + sl_variance l"
    using apply_entries_effect [OF v] known sum base by simp
  then have "counted_units pid (sl_condition l) (op_base t) = sl_counted l"
    using p assms(2) counted_units_cong [of "record_adjustment actor k l es v" v]
    by (simp add: t counted_units_def line_sound_def)
  moreover have "product_of pid (op_base t) = product_of pid v" by (simp add: t product_of_def)
  moreover have "map_option uncounted (product_of pid v) = Some (uncounted p)"
    using apply_entries_effect [OF v] p base by simp
  ultimately show ?thesis using pid by auto
qed

lemma asset_line_settles:
  assumes "apply_line actor k read l s = Inr t" and "sl_asset l = Some aid"
  shows "\<exists>a. asset_row aid s = Some a \<and> asset_row aid t = Some (a\<lparr>a_status := asset_new_status l\<rparr>)"
proof -
  from apply_line_Inr [OF assms(1)] obtain es u v where
    es: "ledger_entries_for_line actor k l s = Inr (es, u)" and v: "for_each apply_entry es (op_base u) = Inr v"
    and t: "t = u\<lparr>op_base := record_adjustment actor k l es v\<rparr>" .
  from ledger_entries_effect [OF es] assms(2) obtain a where
    a: "asset_row aid s = Some a" "op_base u = put_asset (a\<lparr>a_status := asset_new_status l\<rparr>) (op_base s)" by auto
  have "assets (op_base t) = assets (op_base u)" using apply_entries_effect [OF v] by (simp add: t)
  moreover have "a_id a = aid" using a(1) by (auto simp: asset_row_def dest: row_get_SomeD)
  ultimately show ?thesis using a by (simp add: asset_row_def asset_row_put)
qed

text \<open>A line leaves the units of other buckets, and the other unit assets, alone.\<close>

lemma apply_line_other:
  assumes "apply_line actor k read l s = Inr t"
  shows "(sl_asset l \<noteq> Some aid \<longrightarrow> asset_row aid t = asset_row aid s) \<and>
    map_option a_product (asset_row aid t) = map_option a_product (asset_row aid s) \<and>
    (c \<noteq> CountUnknown \<longrightarrow> line_product l (op_base s) \<noteq> Some pid \<or> sl_asset l = None \<and> sl_condition l \<noteq> c \<longrightarrow>
      counted_units pid c (op_base t) = counted_units pid c (op_base s))"
proof -
  from apply_line_Inr [OF assms(1)] obtain es u v where
    es: "ledger_entries_for_line actor k l s = Inr (es, u)" and v: "for_each apply_entry es (op_base u) = Inr v"
    and t: "t = u\<lparr>op_base := record_adjustment actor k l es v\<rparr>" .
  from ledger_entries_effect [OF es] obtain pid' where pid': "line_product l (op_base s) = Some pid'"
    "\<forall>e \<in> set es. le_product e = pid'" "products (op_base u) = products (op_base s)"
    and cases: "case sl_asset l of
       None \<Rightarrow> op_base u = op_base s \<and> (\<forall>e \<in> set es. le_bucket e = sl_condition l) \<and>
         ledger_sum pid' (sl_condition l) es = sl_variance l
     | Some aid \<Rightarrow> \<exists>a. asset_row aid s = Some a \<and> op_base u = put_asset (a\<lparr>a_status := asset_new_status l\<rparr>) (op_base s)"
    by blast
  have assets: "assets (op_base t) = assets (op_base u)" using apply_entries_effect [OF v] by (simp add: t)
  have "asset_row aid t = (if sl_asset l = Some aid then map_option (\<lambda>a. a\<lparr>a_status := asset_new_status l\<rparr>) (asset_row aid s)
      else asset_row aid s)"
  proof (cases "sl_asset l")
    case None
    with cases assets show ?thesis by (simp add: asset_row_def)
  next
    case (Some i)
    with cases obtain a where "asset_row i s = Some a" "op_base u = put_asset (a\<lparr>a_status := asset_new_status l\<rparr>) (op_base s)"
      by auto
    moreover from this(1) have "a_id a = i" by (auto simp: asset_row_def dest: row_get_SomeD)
    ultimately show ?thesis using assets Some by (auto simp: asset_row_def asset_row_put)
  qed
  moreover have "counted_units pid c (op_base t) = counted_units pid c (op_base s)"
    if "c \<noteq> CountUnknown" "line_product l (op_base s) \<noteq> Some pid \<or> sl_asset l = None \<and> sl_condition l \<noteq> c"
  proof -
    have "\<forall>e \<in> set es. entry_delta pid c e = 0" using that(2) pid' cases by (auto simp: entry_delta_def)
    then have "ledger_sum pid c es = 0" by (induction es) (simp_all add: ledger_sum_def)
    then have "counted_units pid c v = counted_units pid c (op_base s)"
      using apply_entries_effect [OF v] that(1) counted_units_cong [OF pid'(3)] by simp
    then show ?thesis using counted_units_cong [of "record_adjustment actor k l es v" v] by (simp add: t)
  qed
  ultimately show ?thesis by (cases "asset_row aid s") auto
qed

section \<open>The loop over the lines\<close>

lemma apply_lines_effect:
  assumes "for_each (apply_line actor k read) ls s = Inr t"
  shows "same_books s t \<and> stocktakes t = stocktakes s \<and> count_lines t = count_lines s \<and>
    in_atomic (op_base t) = in_atomic (op_base s) \<and> (tables_ok (op_base s) \<longrightarrow> tables_ok (op_base t))"
  by (rule for_each_rel [OF assms, where R = "\<lambda>u v. same_books u v \<and> stocktakes v = stocktakes u \<and>
      count_lines v = count_lines u \<and> in_atomic (op_base v) = in_atomic (op_base u) \<and>
      (tables_ok (op_base u) \<longrightarrow> tables_ok (op_base v))"])
    (auto dest: apply_line_effect intro: same_books_trans)

lemma apply_lines_known:
  "for_each (apply_line actor k read) ls s = Inr t \<Longrightarrow> \<forall>l \<in> set ls. sl_condition l \<noteq> CountUnknown"
  by (induction ls arbitrary: s) (auto simp: ok_iff dest: apply_line_effect)

definition line_targets :: "stocktake_line \<Rightarrow> operations_db \<Rightarrow> nat option" where
  "line_targets l s = line_product l (op_base s)"

lemma line_targets_kept: "apply_line actor k read l s = Inr t \<Longrightarrow> line_targets l' t = line_targets l' s"
  using apply_line_other [of actor k read l s t]
  by (simp add: line_targets_def line_product_def asset_row_def split: option.split)

text \<open>A product line with no other line on its bucket, and every asset line, ends with what was counted.\<close>

lemma lines_keep_units:
  assumes "for_each (apply_line actor k read) ls s = Inr t" and "c \<noteq> CountUnknown"
    and "\<forall>l \<in> set ls. line_targets l s \<noteq> Some pid \<or> sl_asset l = None \<and> sl_condition l \<noteq> c"
  shows "counted_units pid c (op_base t) = counted_units pid c (op_base s)"
  using assms
proof (induction ls arbitrary: s)
  case (Cons l ls)
  from Cons.prems(1) obtain u where u: "apply_line actor k read l s = Inr u" "for_each (apply_line actor k read) ls u = Inr t"
    by (auto simp: ok_iff)
  have "counted_units pid c (op_base u) = counted_units pid c (op_base s)"
    using apply_line_other [OF u(1), of undefined c pid] Cons.prems(2,3) by (simp add: line_targets_def)
  with Cons.IH [OF u(2) Cons.prems(2)] Cons.prems(3) line_targets_kept [OF u(1)] show ?case by simp
qed simp

lemma lines_keep_asset:
  assumes "for_each (apply_line actor k read) ls s = Inr t" and "\<forall>l \<in> set ls. sl_asset l \<noteq> Some aid"
  shows "asset_row aid t = asset_row aid s"
  by (rule for_each_inv [OF assms(1), where I = "\<lambda>u. asset_row aid u = asset_row aid s"])
    (use assms(2) apply_line_other in auto)

lemma line_targets_run:
  assumes "for_each (apply_line actor k read) ls s = Inr t"
  shows "line_targets l' t = line_targets l' s"
proof (rule for_each_rel [OF assms, where R = "\<lambda>u v. line_targets l' v = line_targets l' u"])
  show "line_targets l' v = line_targets l' u" if "apply_line actor k read l u = Inr v" for l u v
    using that by (rule line_targets_kept)
qed simp_all

lemma product_stays:
  assumes "same_books s t" and "product_of pid (op_base s) = Some p"
  shows "\<exists>q. product_of pid (op_base t) = Some q"
proof -
  from assms have "map_option uncounted (product_of pid (op_base t)) = Some (uncounted p)" by (simp add: same_books_def)
  then show ?thesis by auto
qed

lemma lines_settle:
  assumes run: "for_each (apply_line actor k read) (xs @ l # ys) s = Inr t" and "line_sound l"
  shows "case sl_asset l of
      None \<Rightarrow> (\<forall>l' \<in> set ys. line_targets l' s \<noteq> sl_product l \<or> sl_asset l' = None \<and> sl_condition l' \<noteq> sl_condition l) \<longrightarrow>
        (\<exists>p. product_of (the (sl_product l)) (op_base t) = Some p \<and> product_expected p (sl_condition l) = sl_counted l)
    | Some aid \<Rightarrow> (\<forall>l' \<in> set ys. sl_asset l' \<noteq> Some aid) \<longrightarrow>
        (\<exists>a. asset_row aid t = Some a \<and> a_status a = asset_new_status l)"
proof -
  from run obtain u v where u: "for_each (apply_line actor k read) xs s = Inr u" and v: "apply_line actor k read l u = Inr v"
    and w: "for_each (apply_line actor k read) ys v = Inr t" by (auto simp: for_each_append ok_iff)
  have known: "sl_condition l \<noteq> CountUnknown" using apply_line_effect [OF v] by simp
  show ?thesis
  proof (cases "sl_asset l")
    case None
    from product_line_settles [OF v assms(2) None] obtain pid p where pid: "sl_product l = Some pid"
      and p: "product_of pid (op_base v) = Some p" and n: "counted_units pid (sl_condition l) (op_base v) = sl_counted l" by auto
    have "\<exists>q. product_of pid (op_base t) = Some q \<and> product_expected q (sl_condition l) = sl_counted l"
      if "\<forall>l' \<in> set ys. line_targets l' s \<noteq> Some pid \<or> sl_asset l' = None \<and> sl_condition l' \<noteq> sl_condition l"
    proof -
      have "line_targets l' v = line_targets l' s" for l'
        using line_targets_run [OF u] line_targets_kept [OF v] by simp
      with that have "counted_units pid (sl_condition l) (op_base t) = sl_counted l"
        using lines_keep_units [OF w known] n by simp
      moreover obtain q where "product_of pid (op_base t) = Some q"
        using product_stays [OF _ p] apply_lines_effect [OF w] by blast
      ultimately show ?thesis by (simp add: counted_units_def)
    qed
    with None pid show ?thesis by simp
  next
    case (Some aid)
    from asset_line_settles [OF v Some] lines_keep_asset [OF w, of aid] Some show ?thesis by auto
  qed
qed

section \<open>The invariant\<close>

inductive take_move :: "stocktake_status \<Rightarrow> stocktake_status \<Rightarrow> bool" where
  same: "take_move st st"
| completes: "take_move StocktakeCounting StocktakeCompleted"
| approves: "take_move StocktakeCompleted StocktakeApproved"
| applies: "take_move StocktakeApproved StocktakeApplied"

code_pred take_move .

inductive_simps take_move_simps: "take_move StocktakeApplied st" "take_move StocktakeCancelled st" "take_move StocktakeDraft st"

text \<open>Who approved is a superadmin, or not the one who completed the count.\<close>

definition signed :: "operations_env \<Rightarrow> stocktake \<Rightarrow> bool" where
  "signed env k \<longleftrightarrow> (ss_status k \<in> {StocktakeApproved, StocktakeApplied} \<longrightarrow>
     (\<exists>a. ss_approved_by k = Some a \<and> (superadmin_in env a (ss_makerspace k) \<or>
        ss_completed_by k \<noteq> None \<and> ss_completed_by k \<noteq> Some a)))"

definition distinct_assets :: "stocktake_line list \<Rightarrow> bool" where
  "distinct_assets ls \<longleftrightarrow> distinct (map (\<lambda>l. (sl_stocktake l, sl_asset l)) (filter (\<lambda>l. sl_asset l \<noteq> None) ls))"

lemma later_assets_differ:
  assumes "distinct_assets (count_lines s)" and "lines_of i s = xs @ l # ys" and "l' \<in> set ys" and "sl_asset l = Some aid"
  shows "sl_asset l' \<noteq> Some aid"
proof
  assume same: "sl_asset l' = Some aid"
  let ?f = "\<lambda>l. (sl_stocktake l, sl_asset l)" and ?P = "\<lambda>l. sl_asset l \<noteq> None"
  have "filter ?P (lines_of i s) = filter (\<lambda>l. sl_stocktake l = i) (filter ?P (count_lines s))"
    by (simp add: lines_of_def conj_commute)
  then have "distinct (map ?f (filter ?P (lines_of i s)))"
    using assms(1) by (simp only: distinct_assets_def distinct_map_filter)
  then have n: "?f l \<notin> ?f ` set (filter ?P ys)" using assms(2,4) by simp
  have "\<forall>x \<in> set (lines_of i s). sl_stocktake x = i" by (simp add: lines_of_def)
  then have "sl_stocktake l = i" "sl_stocktake l' = i" using assms(2,3) by auto
  then have "?f l = ?f l'" using assms(4) same by simp
  moreover have "l' \<in> set (filter ?P ys)" using assms(3) same by simp
  ultimately have "?f l \<in> ?f ` set (filter ?P ys)" by (rule image_eqI)
  with n show False by blast
qed

definition takes_ok :: "operations_env \<Rightarrow> operations_db \<Rightarrow> bool" where
  "takes_ok env s \<longleftrightarrow> unique_keys ss_id (stocktakes s) \<and> unique_keys sl_id (count_lines s) \<and>
     (\<forall>l \<in> set (count_lines s). line_sound l \<and> stocktake_row (sl_stocktake l) s \<noteq> None) \<and>
     distinct_assets (count_lines s) \<and>
     (\<forall>k \<in> set (stocktakes s). signed env k \<and>
        (ss_status k = StocktakeApplied \<longrightarrow> (\<forall>l \<in> set (lines_of (ss_id k) s). sl_condition l \<noteq> CountUnknown))) \<and>
     tables_ok (op_base s)"

definition take_open :: "stocktake \<Rightarrow> bool" where
  "take_open k \<longleftrightarrow> ss_status k \<in> {StocktakeDraft, StocktakeCounting}"

definition take_follows :: "operations_db \<Rightarrow> operations_db \<Rightarrow> stocktake \<Rightarrow> stocktake \<Rightarrow> bool" where
  "take_follows s t k k' \<longleftrightarrow> ss_id k' = ss_id k \<and> ss_makerspace k' = ss_makerspace k \<and> ss_container k' = ss_container k \<and>
     take_move\<^sup>*\<^sup>* (ss_status k) (ss_status k') \<and> prefix (lines_of (ss_id k) s) (lines_of (ss_id k) t) \<and>
     (\<not> take_open k \<longrightarrow> \<not> take_open k' \<and> lines_of (ss_id k) t = lines_of (ss_id k) s \<and>
        ss_completed_by k' = ss_completed_by k)"

definition takes_persist :: "operations_db \<Rightarrow> operations_db \<Rightarrow> bool" where
  "takes_persist s t \<longleftrightarrow> (\<forall>i k. stocktake_row i s = Some k \<longrightarrow> (\<exists>k'. stocktake_row i t = Some k' \<and> take_follows s t k k')) \<and>
     same_books s t"

lemma take_follows_trans: "take_follows s t k k' \<Longrightarrow> take_follows t u k' k'' \<Longrightarrow> take_follows s u k k''"
  unfolding take_follows_def by (auto intro: prefix_order.trans rtranclp_trans)

lemma takes_persist_refl: "takes_persist s s"
  by (auto simp: takes_persist_def take_follows_def)

lemma takes_persist_trans: "takes_persist s t \<Longrightarrow> takes_persist t u \<Longrightarrow> takes_persist s u"
  unfolding takes_persist_def using same_books_trans take_follows_trans by metis

section \<open>The services\<close>

definition take_keeps :: "operations_env \<Rightarrow> operations_db \<Rightarrow> operations_db \<Rightarrow> bool" where
  "take_keeps env s t \<longleftrightarrow> takes_ok env t \<and> takes_persist s t"

lemma op_audit_simps [simp]:
  "stocktakes (op_audit a act ms tgt m s) = stocktakes s" "count_lines (op_audit a act ms tgt m s) = count_lines s"
  "stocktake_ledger (op_audit a act ms tgt m s) = stocktake_ledger s"
  "products (op_base (op_audit a act ms tgt m s)) = products (op_base s)"
  "items (op_base (op_audit a act ms tgt m s)) = items (op_base s)"
  by (simp_all add: op_audit_def audit_record_def)

lemma take_keeps_cong:
  assumes "take_keeps env s t" and "stocktakes u = stocktakes t" and "count_lines u = count_lines t"
    and "stocktake_ledger u = stocktake_ledger t" and "products (op_base u) = products (op_base t)"
    and "items (op_base u) = items (op_base t)"
  shows "take_keeps env s u"
proof -
  have rows: "stocktake_row i u = stocktake_row i t" "lines_of i u = lines_of i t" for i
    using assms(2,3) by (simp_all add: stocktake_row_def lines_of_def)
  have "takes_ok env u"
    using assms rows tables_ok_cong [OF assms(5,6)] by (simp add: take_keeps_def takes_ok_def)
  moreover have "take_follows s u k k' = take_follows s t k k'" for k k' using rows by (simp add: take_follows_def)
  moreover have "same_books s u"
    using assms(1) same_books_trans same_books_cong [OF assms(5,4)] by (auto simp: take_keeps_def takes_persist_def)
  ultimately show ?thesis using assms(1) rows by (simp add: take_keeps_def takes_persist_def)
qed

lemma stocktake_row_SomeD: "stocktake_row i s = Some k \<Longrightarrow> k \<in> set (stocktakes s) \<and> ss_id k = i"
  unfolding stocktake_row_def by (rule row_get_SomeD)

lemma put_stocktake_keeps:
  assumes ok: "takes_ok env s" and row: "stocktake_row (ss_id k) s = Some k"
    and t: "stocktakes t = row_put ss_id k' (stocktakes s)" "count_lines t = count_lines s" "same_books s t"
      "tables_ok (op_base t)"
    and k': "ss_id k' = ss_id k" "ss_makerspace k' = ss_makerspace k" "ss_container k' = ss_container k"
      "take_move (ss_status k) (ss_status k')" "\<not> take_open k'" "signed env k'"
      "\<not> take_open k \<longrightarrow> ss_completed_by k' = ss_completed_by k"
      "ss_status k' = StocktakeApplied \<longrightarrow> (\<forall>l \<in> set (lines_of (ss_id k) s). sl_condition l \<noteq> CountUnknown)"
  shows "take_keeps env s t"
proof -
  have rows: "stocktake_row i t = (if i = ss_id k then Some k' else stocktake_row i s)" for i
    using t(1) row k'(1) by (simp add: stocktake_row_def row_get_row_put)
  have lines: "lines_of i t = lines_of i s" for i using t(2) by (simp add: lines_of_def)
  have "signed env x \<and> (ss_status x = StocktakeApplied \<longrightarrow> (\<forall>l \<in> set (lines_of (ss_id x) t). sl_condition l \<noteq> CountUnknown))"
    if "x \<in> set (stocktakes t)" for x
  proof -
    have "x = k' \<or> x \<in> set (stocktakes s)" using that t(1) set_row_putD by metis
    then show ?thesis using ok k'(1,6,8) lines by (auto simp: takes_ok_def)
  qed
  then have "takes_ok env t"
    using ok t rows by (auto simp: takes_ok_def)
  moreover have "takes_persist s t"
    using rows row t(3) k' lines by (auto simp: takes_persist_def take_follows_def)
  ultimately show ?thesis by (simp add: take_keeps_def)
qed

lemma locked_session_Inr:
  assumes "locked_session env seen s = Inr k"
  shows "stocktake_row (ss_id k) s = Some k \<and> ss_id k = ss_id seen"
  using assms stocktake_row_SomeD by (auto simp: locked_session_def ok_iff)

lemma create_stocktake_keeps:
  assumes "takes_ok env s" and "create_stocktake env actor ms container notes s = Inr t"
  shows "take_keeps env s t"
proof -
  from assms(2) obtain c where t: "t = (let k = new_stocktake (fresh_key ss_id (stocktakes s)) actor ms c notes
      in op_audit actor ''stocktake.created'' ms (''stocktake'', ss_id k) [] (s\<lparr>stocktakes := stocktakes s @ [k]\<rparr>))"
    by (auto simp: create_stocktake_def ok_iff Let_def)
  define k where "k = new_stocktake (fresh_key ss_id (stocktakes s)) actor ms c notes"
  have k: "ss_id k = fresh_key ss_id (stocktakes s)" "ss_status k = StocktakeCounting"
    by (simp_all add: k_def new_stocktake_def)
  have t: "t = op_audit actor ''stocktake.created'' ms (''stocktake'', ss_id k) [] (s\<lparr>stocktakes := stocktakes s @ [k]\<rparr>)"
    using t by (simp add: k_def Let_def)
  let ?u = "s\<lparr>stocktakes := stocktakes s @ [k]\<rparr>"
  have rows: "stocktake_row i ?u = (case stocktake_row i s of None \<Rightarrow> (if ss_id k = i then Some k else None) | Some x \<Rightarrow> Some x)" for i
    by (simp add: stocktake_row_def row_get_append row_get_Cons split: option.split)
  have lines: "lines_of i ?u = lines_of i s" for i by (simp add: lines_of_def)
  have "unique_keys ss_id (stocktakes ?u)"
    using assms(1) unique_keys_fresh [OF k(1)] by (simp add: takes_ok_def)
  then have "takes_ok env ?u"
    using assms(1) k rows lines by (auto simp: takes_ok_def signed_def split: option.splits)
  moreover have "takes_persist s ?u"
    using rows lines by (auto simp: takes_persist_def take_follows_def intro: same_books_cong)
  ultimately have "take_keeps env s ?u" by (simp add: take_keeps_def)
  then show ?thesis unfolding t by (rule take_keeps_cong) simp_all
qed

lemma counted_item_sound:
  "counted_item k input c container b = Inr (pid, aid, expected) \<Longrightarrow> pid = None \<longleftrightarrow> aid \<noteq> None"
  by (auto simp: counted_item_def ok_iff split: count_target.splits)

lemma add_line_Inr:
  assumes "add_stocktake_line env actor seen input s = Inr t"
  obtains k l where "stocktake_row (ss_id k) s = Some k" "take_open k" "sl_stocktake l = ss_id k"
    "sl_id l = fresh_key sl_id (count_lines s)" "line_sound l"
    "\<forall>a. sl_asset l = Some a \<longrightarrow> (\<forall>l' \<in> set (lines_of (ss_id k) s). sl_asset l' \<noteq> Some a)"
    "t = op_audit actor ''stocktake.line_counted'' (ss_makerspace k) (''stocktake'', ss_id k)
           [(''line_id'', MInt (int (sl_id l)))] (s\<lparr>count_lines := count_lines s @ [l]\<rparr>)"
proof -
  from assms obtain k where k: "locked_session env seen s = Inr k" "take_open k"
    by (auto simp: add_stocktake_line_def ok_iff take_open_def split: if_splits)
  with assms obtain c pid aid expected where
    item: "counted_item k input (counted_condition input) c (op_base s) = Inr (pid, aid, expected)"
    and dup: "reject_duplicate_line (ss_id k) pid aid (counted_condition input) c s = Inr ()"
    and t: "store_line actor k (new_line (fresh_key sl_id (count_lines s)) k input c pid aid expected) s = Inr t"
    by (auto simp: add_stocktake_line_def ok_iff)
  show thesis
    by (rule that [of k "new_line (fresh_key sl_id (count_lines s)) k input c pid aid expected"])
      (use locked_session_Inr [OF k(1)] k(2) counted_item_sound [OF item] dup t in
        \<open>auto simp: line_sound_def new_line_def store_line_def reject_duplicate_line_def list_ex_iff split: if_splits\<close>)
qed

lemma distinct_assets_snoc:
  "distinct_assets ls \<Longrightarrow> \<forall>a. sl_asset l = Some a \<longrightarrow> (\<forall>l' \<in> set ls. sl_stocktake l' = sl_stocktake l \<longrightarrow> sl_asset l' \<noteq> Some a) \<Longrightarrow>
    distinct_assets (ls @ [l])"
  by (auto simp: distinct_assets_def)

lemma add_line_keeps:
  assumes "takes_ok env s" and "add_stocktake_line env actor seen input s = Inr t"
  shows "take_keeps env s t"
proof -
  from add_line_Inr [OF assms(2)] obtain k l where row: "stocktake_row (ss_id k) s = Some k" and op: "take_open k"
    and l: "sl_stocktake l = ss_id k" "sl_id l = fresh_key sl_id (count_lines s)" "line_sound l"
    and dup: "\<forall>a. sl_asset l = Some a \<longrightarrow> (\<forall>l' \<in> set (lines_of (ss_id k) s). sl_asset l' \<noteq> Some a)"
    and t: "t = op_audit actor ''stocktake.line_counted'' (ss_makerspace k) (''stocktake'', ss_id k)
           [(''line_id'', MInt (int (sl_id l)))] (s\<lparr>count_lines := count_lines s @ [l]\<rparr>)" .
  let ?u = "s\<lparr>count_lines := count_lines s @ [l]\<rparr>"
  have rows: "stocktake_row i ?u = stocktake_row i s" for i by (simp add: stocktake_row_def)
  have lines: "lines_of i ?u = (if i = ss_id k then lines_of i s @ [l] else lines_of i s)" for i
    using l(1) by (simp add: lines_of_def)
  have "distinct_assets (count_lines ?u)"
    using assms(1) dup l(1) distinct_assets_snoc [of "count_lines s" l] by (simp add: takes_ok_def lines_of_def)
  moreover have "unique_keys sl_id (count_lines ?u)"
    using assms(1) unique_keys_fresh [OF l(2)] by (simp add: takes_ok_def)
  moreover have "ss_status x \<noteq> StocktakeApplied" if "x \<in> set (stocktakes s)" "ss_id x = ss_id k" for x
  proof -
    have "stocktake_row (ss_id x) s = Some x"
      using that(1) assms(1) by (simp add: takes_ok_def stocktake_row_def row_get_unique)
    with row op show ?thesis unfolding that(2) by (auto simp: take_open_def)
  qed
  ultimately have "takes_ok env ?u"
    using assms(1) l row rows lines op by (auto simp: takes_ok_def take_open_def)
  moreover have "take_follows s ?u x x" if "stocktake_row i s = Some x" for i x
  proof (cases "ss_id x = ss_id k")
    case True
    with that row stocktake_row_SomeD [OF that] have "x = k" by simp
    with op lines show ?thesis by (simp add: take_follows_def)
  qed (simp add: take_follows_def lines)
  then have "takes_persist s ?u"
    using rows by (simp add: takes_persist_def same_books_cong)
  ultimately have "take_keeps env s ?u" by (simp add: take_keeps_def)
  then show ?thesis unfolding t by (rule take_keeps_cong) simp_all
qed

lemma complete_keeps:
  assumes "takes_ok env s" and "complete_stocktake env actor seen s = Inr t"
  shows "take_keeps env s t"
proof -
  from assms(2) obtain k where k: "locked_session env seen s = Inr k" "ss_status k = StocktakeCounting"
    and t: "t = (let u = op_audit actor ''stocktake.completed'' (ss_makerspace k) (''stocktake'', ss_id k) []
        (put_stocktake (k\<lparr>ss_status := StocktakeCompleted, ss_completed_at := Some (now (op_base s)),
           ss_completed_by := Some actor\<rparr>) s) in u\<lparr>op_base := notify ''stocktake.completed'' (ss_id k) (op_base u)\<rparr>)"
    by (auto simp: complete_stocktake_def ok_iff Let_def)
  let ?k = "k\<lparr>ss_status := StocktakeCompleted, ss_completed_at := Some (now (op_base s)), ss_completed_by := Some actor\<rparr>"
  have row: "stocktake_row (ss_id k) s = Some k" using locked_session_Inr [OF k(1)] by (rule conjunct1)
  have "take_keeps env s (put_stocktake ?k s)"
    by (rule put_stocktake_keeps [OF assms(1) row, of _ ?k])
      (use assms(1) k(2) in \<open>simp_all add: put_stocktake_def takes_ok_def take_open_def signed_def same_books_cong take_move.completes\<close>)
  then show ?thesis unfolding t Let_def by (rule take_keeps_cong) (simp_all add: notify_def)
qed

lemma approve_keeps:
  assumes "takes_ok env s" and "approve_stocktake env actor seen s = Inr t"
  shows "take_keeps env s t"
proof -
  from assms(2) obtain k where k: "locked_session env seen s = Inr k" "ss_status k = StocktakeCompleted"
    and rev: "can_review_stocktake env actor k"
    and t: "t = op_audit actor ''stocktake.approved'' (ss_makerspace k) (''stocktake'', ss_id k) []
        (put_stocktake (k\<lparr>ss_status := StocktakeApproved, ss_approved_by := Some actor,
           ss_approved_at := Some (now (op_base s))\<rparr>) s)"
    by (auto simp: approve_stocktake_def require_stocktake_reviewer_def ok_iff)
  let ?k = "k\<lparr>ss_status := StocktakeApproved, ss_approved_by := Some actor, ss_approved_at := Some (now (op_base s))\<rparr>"
  have row: "stocktake_row (ss_id k) s = Some k" using locked_session_Inr [OF k(1)] by (rule conjunct1)
  have "take_keeps env s (put_stocktake ?k s)"
    by (rule put_stocktake_keeps [OF assms(1) row, of _ ?k])
      (use assms(1) k(2) rev in \<open>simp_all add: put_stocktake_def takes_ok_def take_open_def signed_def same_books_cong
        can_review_stocktake_def take_move.approves\<close>)
  then show ?thesis unfolding t by (rule take_keeps_cong) simp_all
qed

lemma set_atomic_simps [simp]:
  "stocktakes (set_atomic b s) = stocktakes s" "count_lines (set_atomic b s) = count_lines s"
  "stocktake_ledger (set_atomic b s) = stocktake_ledger s" "products (op_base (set_atomic b s)) = products (op_base s)"
  "items (op_base (set_atomic b s)) = items (op_base s)" "assets (op_base (set_atomic b s)) = assets (op_base s)"
  "lines_of i (set_atomic b s) = lines_of i s" "stocktake_row i (set_atomic b s) = stocktake_row i s"
  by (simp_all add: set_atomic_def lines_of_def stocktake_row_def)

lemma set_atomic_ok [simp]: "takes_ok env (set_atomic b s) = takes_ok env s"
  by (simp add: takes_ok_def tables_ok_cong [of "op_base (set_atomic b s)" "op_base s"])

lemma apply_stocktake_Inr:
  assumes "apply_stocktake_adjustments env actor seen s = Inr t"
  obtains k u where "stocktake_row (ss_id k) s = Some k" "ss_id k = ss_id seen" "ss_status k = StocktakeApproved"
    "can_review_stocktake env actor k"
    "for_each (apply_line actor k (op_base (set_atomic True s))) (lines_of (ss_id k) s) (set_atomic True s) = Inr u"
    "t = set_atomic (in_atomic (op_base s)) (op_audit actor ''stocktake.adjustments_applied'' (ss_makerspace k)
           (''stocktake'', ss_id k) [] (put_stocktake (k\<lparr>ss_status := StocktakeApplied\<rparr>) u))"
proof -
  from assms obtain k u where l: "locked_session env seen (set_atomic True s) = Inr k" and "can_review_stocktake env actor k"
    "ss_status k = StocktakeApproved"
    "for_each (apply_line actor k (op_base (set_atomic True s))) (lines_of (ss_id k) s) (set_atomic True s) = Inr u"
    "t = set_atomic (in_atomic (op_base s)) (op_audit actor ''stocktake.adjustments_applied'' (ss_makerspace k)
           (''stocktake'', ss_id k) [] (put_stocktake (k\<lparr>ss_status := StocktakeApplied\<rparr>) u))"
    by (auto simp: apply_stocktake_adjustments_def in_transaction_def require_stocktake_reviewer_def ok_iff)
  moreover note locked_session_Inr [OF l, unfolded set_atomic_simps]
  ultimately show thesis by (elim conjE) (rule that)
qed

lemma apply_keeps:
  assumes "takes_ok env s" and "apply_stocktake_adjustments env actor seen s = Inr t"
  shows "take_keeps env s t"
proof -
  from apply_stocktake_Inr [OF assms(2)] obtain k u where row: "stocktake_row (ss_id k) s = Some k"
    and k: "ss_status k = StocktakeApproved"
    and run: "for_each (apply_line actor k (op_base (set_atomic True s))) (lines_of (ss_id k) s) (set_atomic True s) = Inr u"
    and t: "t = set_atomic (in_atomic (op_base s)) (op_audit actor ''stocktake.adjustments_applied'' (ss_makerspace k)
           (''stocktake'', ss_id k) [] (put_stocktake (k\<lparr>ss_status := StocktakeApplied\<rparr>) u))" .
  note eff = apply_lines_effect [OF run]
  let ?k = "k\<lparr>ss_status := StocktakeApplied\<rparr>"
  have books: "same_books s (put_stocktake ?k u)"
  proof -
    have "same_books s (set_atomic True s)" by (rule same_books_cong) simp_all
    moreover have "same_books u (put_stocktake ?k u)" by (rule same_books_cong) (simp_all add: put_stocktake_def)
    ultimately show ?thesis using eff same_books_trans by blast
  qed
  have "tables_ok (op_base u)"
    using eff assms(1) set_atomic_ok by (auto simp: takes_ok_def)
  then have "take_keeps env s (put_stocktake ?k u)"
    by (intro put_stocktake_keeps [OF assms(1) row, of _ ?k] books)
      (use assms(1) k eff apply_lines_known [OF run] stocktake_row_SomeD [OF row] in
        \<open>auto simp: put_stocktake_def takes_ok_def take_open_def signed_def intro: take_move.applies\<close>)
  then show ?thesis unfolding t by (rule take_keeps_cong) simp_all
qed

lemma stocktake_step_keeps: "takes_ok env s \<Longrightarrow> stocktake_step env c s = Inr t \<Longrightarrow> take_keeps env s t"
  by (cases c) (auto dest: create_stocktake_keeps add_line_keeps complete_keeps approve_keeps apply_keeps)

lemma stocktake_step_inv:
  "takes_ok env s \<Longrightarrow> stocktake_step env c s = Inr t \<Longrightarrow> takes_ok env t \<and> takes_persist s t"
  using stocktake_step_keeps by (simp add: take_keeps_def)

interpretation takes: tracked_machine "stocktake_step env" "takes_ok env" takes_persist for env
  by unfold_locales (use stocktake_step_inv takes_persist_trans in \<open>blast intro: takes_persist_refl\<close>)+

end
