(* ===== verification/Stocktake_Properties.thy ===== *)
theory Stocktake_Properties
  imports Stocktake_Safety Stock_Effects
begin

text \<open>
  The properties of the stocktake services, with a session that counts seven units where the books
  say six, and a unit asset that was not found.
\<close>

section \<open>Samples\<close>

definition count_env :: operations_env where
  "count_env = \<lparr>op_env = \<lparr>actor_can = (\<lambda>_ _ _. True), write_fenced = (\<lambda>_. False), module_enabled = (\<lambda>_ _. True),
     anonymous_limit = 5, evidence_max_bytes = 100, evidence_mimes = [], url_ttl = 60, presign_put = True,
     self_host = True, managed_storage_limit = None, database_uuid = None, store_up = True, new_token = 0,
     sleeps = []\<rparr>, superadmin_in = (\<lambda>_ _. False)\<rparr>"

definition counted_session :: stocktake where
  "counted_session = (new_stocktake 3 8 1 None [])\<lparr>ss_status := StocktakeCompleted, ss_completed_by := Some 8\<rparr>"

definition product_line :: stocktake_line where
  "product_line = \<lparr>sl_id = 1, sl_stocktake = 3, sl_product = Some 1, sl_asset = None, sl_container = None,
     sl_expected = 6, sl_counted = 7, sl_variance = 1, sl_condition = CountAvailable, sl_notes = []\<rparr>"

definition unit_line :: stocktake_line where
  "unit_line = \<lparr>sl_id = 2, sl_stocktake = 3, sl_product = None, sl_asset = Some 4, sl_container = None,
     sl_expected = 1, sl_counted = 0, sl_variance = - 1, sl_condition = CountAvailable, sl_notes = []\<rparr>"

definition counted_stock :: operations_db where
  "counted_stock = \<lparr>op_base = empty_db\<lparr>
       makerspaces := [\<lparr>m_id = 1, m_default_loan_days = 7, m_storage_used = 0, m_storage_override = None\<rparr>],
       products := [sample_product, sample_product\<lparr>p_id := 2, p_tracking_mode := INDIVIDUAL\<rparr>],
       assets := [\<lparr>a_id = 4, a_makerspace = 1, a_product = 2, a_box = None, a_tag = ''T'', a_status = AVAILABLE,
         a_self_checkout = False\<rparr>]\<rparr>,
     stocktakes = [counted_session], count_lines = [product_line, unit_line], stocktake_ledger = [],
     op_categories = [], transfers = [], transfer_lines = []\<rparr>"

lemmas count_defs = count_env_def counted_session_def product_line_def unit_line_def counted_stock_def
  new_stocktake_def sample_product_def empty_db_def

text \<open>Another person approves the session, and applies it.\<close>

definition approved_stock :: operations_db where
  "approved_stock = (case approve_stocktake count_env 9 counted_session counted_stock of Inr t \<Rightarrow> t | Inl _ \<Rightarrow> counted_stock)"

lemma counted_stock_ok: "takes_ok count_env counted_stock"
  by (simp add: takes_ok_def count_defs unique_keys_def line_sound_def stocktake_row_def row_get_Cons distinct_assets_def
      signed_def tables_ok_def stock_ok_def items_ok_def product_ok_def product_constraints_def product_in_range_def
      bucket_sum_def int32_max_def)

lemma approve_runs: "approve_stocktake count_env 9 counted_session counted_stock = Inr approved_stock"
  by (simp add: approved_stock_def approve_stocktake_def locked_session_def stocktake_module_def get_makerspace_def
      stocktake_row_def row_get_Cons require_stocktake_reviewer_def can_review_stocktake_def count_defs)

lemma approved_stock_ok: "takes_ok count_env approved_stock"
  using approve_keeps [OF counted_stock_ok approve_runs] by (simp add: take_keeps_def)

lemma approved_lines: "lines_of 3 approved_stock = [product_line, unit_line]"
  by (simp add: approved_stock_def approve_stocktake_def locked_session_def stocktake_module_def get_makerspace_def
      stocktake_row_def row_get_Cons require_stocktake_reviewer_def can_review_stocktake_def count_defs lines_of_def
      put_stocktake_def)

lemma apply_runs: "\<exists>t. apply_stocktake_adjustments count_env 9 counted_session approved_stock = Inr t"
  by (simp add: approved_stock_def approve_stocktake_def locked_session_def stocktake_module_def get_makerspace_def
      stocktake_row_def row_get_Cons require_stocktake_reviewer_def can_review_stocktake_def count_defs lines_of_def
      put_stocktake_def apply_stocktake_adjustments_def in_transaction_def set_atomic_def apply_line_def
      validate_line_scope_def validate_product_count_def validate_asset_count_def validate_line_container_def
      validate_item_container_def product_of_def validate_line_fresh_def line_current_def get_product_def get_asset_def
      ledger_entries_for_line_def asset_ledger_entries_def asset_new_status_def line_product_def new_entry_def on_base_def
      apply_entry_def apply_stocktake_delta_def save_product_def with_recomputed_total_def product_in_range_def
      product_constraints_def bucket_sum_def int32_max_def row_put_def op_audit_def audit_record_def put_asset_def
      record_adjustment_def Let_def)

section \<open>Every run\<close>

text \<open>
  C35. Over every run of the stocktake services: no session disappears, its status only moves from
  counting over completed and approved to applied, its lines are frozen once it is completed, whoever
  approved it is a superadmin or not the one who completed it, and for every product the units it has
  as available, damaged or lost change exactly by the ledger entries that were added.
\<close>

theorem stocktakes_signed_and_booked:
  assumes "takes_ok env s"
  shows "takes_ok env (fold (attempt (stocktake_step env)) cs s) \<and>
    takes_persist s (fold (attempt (stocktake_step env)) cs s)"
  using takes.run_inv [OF assms] takes.run_rel [OF assms] by blast

theorem stocktakes_signed_and_booked_witness:
  "takes_persist counted_stock (fold (attempt (stocktake_step count_env))
     [ApproveStocktake 8 counted_session, ApproveStocktake 9 counted_session, ApplyStocktake 9 counted_session] counted_stock)"
  using stocktakes_signed_and_booked [OF counted_stock_ok] by (rule conjunct2)

section \<open>Applying\<close>

text \<open>
  C36. Applying a session makes the stock what was counted: every unit asset of a line has the counted
  status, and every product bucket that no later line counts again holds the counted number of units.
\<close>

theorem applied_counts_are_stock:
  assumes "takes_ok env s" and "apply_stocktake_adjustments env actor seen s = Inr t"
    and "lines_of (ss_id seen) s = xs @ l # ys"
  shows "case sl_asset l of
      None \<Rightarrow> (\<forall>l' \<in> set ys. line_targets l' s \<noteq> sl_product l \<or> sl_asset l' = None \<and> sl_condition l' \<noteq> sl_condition l) \<longrightarrow>
        (\<exists>p. product_of (the (sl_product l)) (op_base t) = Some p \<and> product_expected p (sl_condition l) = sl_counted l)
    | Some aid \<Rightarrow> \<exists>a. asset_row aid t = Some a \<and> a_status a = asset_new_status l"
proof -
  from apply_stocktake_Inr [OF assms(2)] obtain k u where
    run: "for_each (apply_line actor k (op_base (set_atomic True s))) (lines_of (ss_id seen) s) (set_atomic True s) = Inr u"
    and t: "t = set_atomic (in_atomic (op_base s)) (op_audit actor ''stocktake.adjustments_applied'' (ss_makerspace k)
           (''stocktake'', ss_id k) [] (put_stocktake (k\<lparr>ss_status := StocktakeApplied\<rparr>) u))" by metis
  have "l \<in> set (lines_of (ss_id seen) s)" using assms(3) by simp
  then have sound: "line_sound l" using assms(1) by (simp add: takes_ok_def lines_of_def)
  have rows: "product_of i (op_base t) = product_of i (op_base u)" "asset_row i t = asset_row i u" for i
    by (simp_all add: t product_of_def asset_row_def op_audit_def audit_record_def put_stocktake_def)
  have start: "line_targets l' (set_atomic True s) = line_targets l' s" for l'
    by (simp add: line_targets_def line_product_def split: option.split)
  have apart: "sl_asset l' \<noteq> Some aid" if "l' \<in> set ys" "sl_asset l = Some aid" for l' aid
    using assms(1) later_assets_differ [OF _ assms(3) that] by (simp add: takes_ok_def)
  from lines_settle [OF run [unfolded assms(3)] sound] show ?thesis
    unfolding rows start using apart by (auto split: option.splits)
qed

theorem applied_counts_are_stock_witness:
  "\<exists>t. apply_stocktake_adjustments count_env 9 counted_session approved_stock = Inr t \<and>
     (\<exists>p. product_of 1 (op_base t) = Some p \<and> p_available p = 7) \<and>
     (\<exists>a. asset_row 4 t = Some a \<and> a_status a = LOST)"
proof -
  from apply_runs obtain t where run: "apply_stocktake_adjustments count_env 9 counted_session approved_stock = Inr t" by blast
  have id: "ss_id counted_session = 3" by (simp add: counted_session_def new_stocktake_def)
  have ls: "lines_of (ss_id counted_session) approved_stock = [] @ product_line # [unit_line]"
    "lines_of (ss_id counted_session) approved_stock = [product_line] @ unit_line # []"
    by (simp_all add: id approved_lines)
  have "line_targets unit_line approved_stock = Some 2"
    by (simp add: approved_stock_def approve_stocktake_def locked_session_def stocktake_module_def get_makerspace_def
      stocktake_row_def row_get_Cons require_stocktake_reviewer_def can_review_stocktake_def count_defs
      put_stocktake_def line_targets_def line_product_def op_audit_def audit_record_def)
  with applied_counts_are_stock [OF approved_stock_ok run ls(1)] have
    "\<exists>p. product_of 1 (op_base t) = Some p \<and> p_available p = 7" by (simp add: product_line_def)
  moreover from applied_counts_are_stock [OF approved_stock_ok run ls(2)] have
    "\<exists>a. asset_row 4 t = Some a \<and> a_status a = LOST" by (simp add: unit_line_def asset_new_status_def)
  ultimately show ?thesis using run by blast
qed

text \<open>
  C37. A line of unknown condition is accepted while counting, and there is no service that removes it:
  the session it belongs to is never applied, whatever is tried afterwards.
\<close>

theorem unknown_line_blocks_session:
  assumes "takes_ok env s" and "l \<in> set (count_lines s)" and "sl_condition l = CountUnknown"
    and "stocktake_row (sl_stocktake l) (fold (attempt (stocktake_step env)) cs s) = Some k"
  shows "ss_status k \<noteq> StocktakeApplied"
proof
  let ?t = "fold (attempt (stocktake_step env)) cs s"
  assume applied: "ss_status k = StocktakeApplied"
  have ok: "takes_ok env ?t" and persist: "takes_persist s ?t"
    using takes.run_inv [OF assms(1)] takes.run_rel [OF assms(1)] by blast+
  from assms(1,2) obtain k0 where k0: "stocktake_row (sl_stocktake l) s = Some k0" by (auto simp: takes_ok_def)
  with persist have "prefix (lines_of (ss_id k0) s) (lines_of (ss_id k0) ?t)"
    unfolding takes_persist_def take_follows_def by blast
  moreover have "ss_id k0 = sl_stocktake l" "ss_id k = sl_stocktake l" "k \<in> set (stocktakes ?t)"
    using stocktake_row_SomeD [OF k0] stocktake_row_SomeD [OF assms(4)] by simp_all
  moreover from this(1) have "l \<in> set (lines_of (ss_id k0) s)" using assms(2) by (simp add: lines_of_def)
  ultimately have "l \<in> set (lines_of (ss_id k) ?t)" by (auto dest: set_mono_prefix)
  with ok \<open>k \<in> set (stocktakes ?t)\<close> applied assms(3) show False by (auto simp: takes_ok_def)
qed

definition unknown_stock :: operations_db where
  "unknown_stock = counted_stock\<lparr>count_lines := [product_line\<lparr>sl_condition := CountUnknown\<rparr>]\<rparr>"

theorem unknown_line_blocks_session_witness:
  "\<exists>k. stocktake_row 3 (fold (attempt (stocktake_step count_env))
       [ApproveStocktake 9 counted_session, ApplyStocktake 9 counted_session] unknown_stock) = Some k \<and>
     ss_status k \<noteq> StocktakeApplied"
    (is "\<exists>k. stocktake_row 3 ?t = Some k \<and> _")
proof -
  have ok: "takes_ok count_env unknown_stock"
    using counted_stock_ok by (simp add: unknown_stock_def takes_ok_def counted_stock_def counted_session_def
        new_stocktake_def product_line_def line_sound_def stocktake_row_def row_get_Cons distinct_assets_def unique_keys_def)
  have "stocktake_row 3 unknown_stock = Some counted_session"
    by (simp add: unknown_stock_def stocktake_row_def row_get_Cons counted_stock_def counted_session_def new_stocktake_def)
  then obtain k where k: "stocktake_row 3 ?t = Some k"
    using takes.run_rel [OF ok] unfolding takes_persist_def by blast
  let ?l = "product_line\<lparr>sl_condition := CountUnknown\<rparr>"
  from k have "stocktake_row (sl_stocktake ?l) ?t = Some k" by (simp add: product_line_def)
  then have "ss_status k \<noteq> StocktakeApplied"
    by (rule unknown_line_blocks_session [OF ok, rotated 2]) (simp_all add: unknown_stock_def)
  with k show ?thesis by blast
qed

end
