(* ===== verification/Transfer_Properties.thy ===== *)
theory Transfer_Properties
  imports Transfers Stocktake_Properties
begin

text \<open>
  Stock transfers conserve the units of quantity-tracked products, makerspace by makerspace, and
  leave alone what is reserved or on loan.
\<close>

section \<open>Weighing the stock\<close>

definition weigh :: "(product \<Rightarrow> int) \<Rightarrow> db \<Rightarrow> int" where
  "weigh f s = sum_list (map f (products s))"

text \<open>The units of a makerspace's quantity-tracked products.\<close>

definition units_in :: "nat \<Rightarrow> product \<Rightarrow> int" where
  "units_in ms p = (if p_tracking_mode p = QUANTITY \<and> p_makerspace p = ms then p_total p else 0)"

lemma save_product_weigh:
  "stock_ok s \<Longrightarrow> product_of (p_id p) s = Some old \<Longrightarrow> save_product p s = Inr t \<Longrightarrow> weigh f t = weigh f s - f old + f p"
  by (simp add: weigh_def save_product_Inr stock_ok_def product_of_def sum_list_row_put)

lemma weigh_add: "weigh f (add_product p s) = weigh f s + f p"
  by (simp add: weigh_def add_product_def)

lemma weigh_cong: "products t = products s \<Longrightarrow> weigh f t = weigh f s"
  by (simp add: weigh_def)

section \<open>What a line keeps\<close>

text \<open>
  Reserved and issued units of quantity-tracked products, and unit assets that are reserved, issued or
  on loan, stay; so do the tables of requests and loans.
\<close>

definition held_asset :: "asset \<Rightarrow> db \<Rightarrow> bool" where
  "held_asset a s \<longleftrightarrow> a_status a \<in> {ISSUED, RESERVED} \<or> asset_on_loan a s"

definition lending_tables :: "db \<Rightarrow> tool_loan list \<times> asset_link list \<times> request_item list \<times> hardware_request list" where
  "lending_tables s = (loans s, links s, items s, requests s)"

definition held_kept :: "db \<Rightarrow> db \<Rightarrow> bool" where
  "held_kept s t \<longleftrightarrow> lending_tables t = lending_tables s \<and>
     (\<forall>i p. product_of i s = Some p \<and> p_tracking_mode p = QUANTITY \<longrightarrow>
        (\<exists>q. product_of i t = Some q \<and> p_tracking_mode q = QUANTITY \<and> p_reserved q = p_reserved p \<and> p_issued q = p_issued p)) \<and>
     (\<forall>i a. row_get a_id i (assets s) = Some a \<and> held_asset a s \<longrightarrow> row_get a_id i (assets t) = Some a)"

lemma held_kept_refl [simp]: "held_kept s s"
  by (simp add: held_kept_def)

lemma held_asset_cong:
  assumes "lending_tables t = lending_tables s"
  shows "held_asset a t = held_asset a s"
proof -
  have eqs: "loans t = loans s" "links t = links s" "items t = items s" "item_request_status t = item_request_status s"
    using assms by (auto simp: item_request_status_def lending_tables_def)
  show ?thesis unfolding held_asset_def asset_on_loan_def eqs by (rule refl)
qed

lemma held_kept_trans:
  assumes "held_kept s t" and "held_kept t u"
  shows "held_kept s u"
proof -
  have tab: "lending_tables t = lending_tables s" using assms(1) by (simp add: held_kept_def)
  show ?thesis unfolding held_kept_def
  proof (intro conjI allI impI)
    show "lending_tables u = lending_tables s" using assms(2) tab by (simp add: held_kept_def)
  next
    fix i p
    assume p: "product_of i s = Some p \<and> p_tracking_mode p = QUANTITY"
    with assms(1) obtain q where q: "product_of i t = Some q" "p_tracking_mode q = QUANTITY"
      "p_reserved q = p_reserved p" "p_issued q = p_issued p" unfolding held_kept_def by blast
    with assms(2) obtain r where "product_of i u = Some r" "p_tracking_mode r = QUANTITY"
      "p_reserved r = p_reserved q" "p_issued r = p_issued q" unfolding held_kept_def by blast
    with q show "\<exists>q. product_of i u = Some q \<and> p_tracking_mode q = QUANTITY \<and>
        p_reserved q = p_reserved p \<and> p_issued q = p_issued p" by auto
  next
    fix i a
    assume a: "row_get a_id i (assets s) = Some a \<and> held_asset a s"
    with assms(1) have "row_get a_id i (assets t) = Some a" unfolding held_kept_def by blast
    with a assms(2) held_asset_cong [OF tab] show "row_get a_id i (assets u) = Some a" unfolding held_kept_def by blast
  qed
qed

lemma held_kept_cong:
  "products t = products s \<Longrightarrow> assets t = assets s \<Longrightarrow> lending_tables t = lending_tables s \<Longrightarrow> held_kept s t"
  by (simp add: held_kept_def product_of_def)

definition line_keeps :: "db \<Rightarrow> db \<Rightarrow> (nat \<Rightarrow> int) \<Rightarrow> bool" where
  "line_keeps s t d \<longleftrightarrow> stock_ok t \<and> held_kept s t \<and> (\<forall>ms. weigh (units_in ms) t = weigh (units_in ms) s + d ms)"

lemma line_keeps_refl: "stock_ok s \<Longrightarrow> line_keeps s s (\<lambda>_. 0)"
  by (simp add: line_keeps_def)

lemma line_keeps_trans:
  "line_keeps s t d \<Longrightarrow> line_keeps t u e \<Longrightarrow> line_keeps s u (\<lambda>ms. d ms + e ms)"
  by (auto simp: line_keeps_def intro: held_kept_trans)

lemma line_keeps_trans0: "line_keeps s t (\<lambda>_. 0) \<Longrightarrow> line_keeps t u d \<Longrightarrow> line_keeps s u d"
  using line_keeps_trans [of s t "\<lambda>_. 0" u d] by simp

text \<open>A product row is written: it keeps its mode and, if it counts quantities, its reserved and issued units.\<close>

lemma write_product_keeps:
  assumes "stock_ok s" and "product_of (p_id p) s = Some old" and "save_product p s = Inr t"
    and "p_tracking_mode p = p_tracking_mode old"
    and "p_tracking_mode p = QUANTITY \<Longrightarrow> p_reserved p = p_reserved old \<and> p_issued p = p_issued old"
    and "\<And>ms. units_in ms p = units_in ms old + d ms"
  shows "line_keeps s t d"
proof -
  have t: "t = s\<lparr>products := row_put p_id p (products s)\<rparr>" using assms(3) by (simp only: save_product_Inr)
  have "lending_tables t = lending_tables s" "assets t = assets s" unfolding t by (simp_all add: lending_tables_def)
  moreover have "product_of i t = (if i = p_id p then Some p else product_of i s)" for i
    unfolding t product_of_put using assms(2) by simp
  ultimately have "held_kept s t" using assms(2,4,5) by (auto simp: held_kept_def)
  moreover have "weigh (units_in ms) t = weigh (units_in ms) s + d ms" for ms
    using save_product_weigh [OF assms(1,2,3)] assms(6) by simp
  ultimately show ?thesis using save_product_stock_ok [OF assms(1,3)] by (simp add: line_keeps_def)
qed

lemma put_asset_keeps:
  assumes "stock_ok s" and "row_get a_id (a_id a) (assets s) = Some old" and "\<not> held_asset old s"
  shows "line_keeps s (put_asset a s) (\<lambda>_. 0)"
proof -
  have "product_of i (put_asset a s) = product_of i s" for i by (simp add: product_of_def put_asset_def)
  moreover have "lending_tables (put_asset a s) = lending_tables s" by (simp add: put_asset_def lending_tables_def)
  moreover have "row_get a_id i (assets (put_asset a s)) =
      (if i = a_id a then Some a else row_get a_id i (assets s))" for i
    using assms(2) by (simp add: put_asset_def row_get_row_put)
  ultimately have "held_kept s (put_asset a s)" using assms(2,3) by (auto simp: held_kept_def)
  then show ?thesis using assms(1) by (simp add: line_keeps_def weigh_def put_asset_def stock_ok_def)
qed

lemma add_product_keeps:
  assumes "stock_ok s" and "p_id q = fresh_key p_id (products s)" and "product_ok q" and "p_total q = 0"
  shows "line_keeps s (add_product q s) (\<lambda>_. 0) \<and> product_of (p_id q) (add_product q s) = Some q \<and>
    (\<forall>i p. product_of i s = Some p \<longrightarrow> product_of i (add_product q s) = Some p \<and> p_id q \<noteq> i)"
proof -
  have fresh: "product_of (p_id q) s = None" using assms(2) by (simp add: product_of_def row_get_fresh)
  have rows: "product_of i (add_product q s) = (case product_of i s of None \<Rightarrow> (if p_id q = i then Some q else None) | Some p \<Rightarrow> Some p)" for i
    by (simp add: product_of_def add_product_def row_get_append row_get_Cons split: option.split)
  have "stock_ok (add_product q s)"
    using assms unique_keys_fresh [OF assms(2)] by (simp add: stock_ok_def add_product_def)
  moreover have "held_kept s (add_product q s)"
    using rows by (auto simp: held_kept_def lending_tables_def add_product_def)
  moreover have "weigh (units_in ms) (add_product q s) = weigh (units_in ms) s" for ms
    by (simp add: weigh_add units_in_def assms(4))
  ultimately show ?thesis using rows fresh by (auto simp: line_keeps_def)
qed

lemma empty_product_ok: "product_ok (empty_product i ms box cat name d l)"
  by (simp add: empty_product_def product_ok_def product_constraints_def product_in_range_def bucket_sum_def int32_max_def)

lemma transfer_line_keeps:
  assumes ok: "stock_ok s" and src: "product_of src s = Some p" and dst: "product_of dst s = Some q" and "src \<noteq> dst"
    and modes: "p_tracking_mode p = QUANTITY" "p_tracking_mode q = QUANTITY"
    and run: "transfer_available_quantity src dst n s = Inr t"
  shows "line_keeps s t (\<lambda>ms. - (if p_makerspace p = ms then n else 0) + (if p_makerspace q = ms then n else 0))"
proof -
  let ?p = "p\<lparr>p_available := p_available p - n, p_total := p_total p - n\<rparr>"
  let ?q = "q\<lparr>p_available := p_available q + n, p_total := p_total q + n\<rparr>"
  from run assms(4) src dst obtain u where u: "save_product ?p s = Inr u" and t: "save_product ?q u = Inr t"
    by (auto simp: transfer_available_quantity_def ok_iff split: if_splits)
  have ids: "p_id p = src" "p_id q = dst" using src dst by (simp_all add: product_of_id)
  have first: "line_keeps s u (\<lambda>ms. - (if p_makerspace p = ms then n else 0))"
    by (rule write_product_keeps [OF ok _ u, of p]) (simp_all add: ids src modes units_in_def)
  have "product_of dst u = Some q" using u dst ids assms(4) by (auto simp: save_product_Inr product_of_put)
  then have "line_keeps u t (\<lambda>ms. if p_makerspace q = ms then n else 0)"
    using first by (intro write_product_keeps [OF _ _ t, of q]) (simp_all add: ids modes units_in_def line_keeps_def)
  with first show ?thesis by (rule line_keeps_trans)
qed

section \<open>Unit assets\<close>

lemma reconcile_keeps:
  assumes "stock_ok s" and "reconcile_individual_product_from_assets pid s = Inr t"
  shows "line_keeps s t (\<lambda>_. 0)"
proof -
  from assms(2) obtain p where p: "product_of pid s = Some p"
    and run: "if p_tracking_mode p \<noteq> INDIVIDUAL then t = s
      else \<exists>p'. reconciled_row p s = Inr p' \<and> (t = s \<or> save_product p' s = Inr t)"
    by (auto simp: reconcile_individual_product_from_assets_def ok_iff split: if_splits)
  show ?thesis
  proof (cases "t = s")
    case False
    with run obtain p' where mode: "p_tracking_mode p = INDIVIDUAL" and p': "reconciled_row p s = Inr p'"
      and t: "save_product p' s = Inr t" by (auto split: if_splits)
    from p' have "p_id p' = p_id p" "p_tracking_mode p' = p_tracking_mode p"
      by (auto simp: reconciled_row_def Let_def split: if_splits)
    with p mode show ?thesis
      by (intro write_product_keeps [OF assms(1) _ t, of p]) (simp_all add: product_of_id units_in_def)
  qed (simp add: line_keeps_refl assms(1))
qed

lemma set_bucket_simps [simp]:
  "p_id (set_bucket b n p) = p_id p" "p_makerspace (set_bucket b n p) = p_makerspace p"
  "p_total (set_bucket b n p) = p_total p"
  by (cases b; simp)+

lemma set_bucket_held:
  "b \<notin> {BReserved, BIssued} \<Longrightarrow> p_reserved (set_bucket b n p) = p_reserved p \<and> p_issued (set_bucket b n p) = p_issued p"
  by (cases b) simp_all

lemma unheld_bucket:
  "asset_quantity_bucket st = Some b \<Longrightarrow> st \<notin> {ISSUED, RESERVED} \<Longrightarrow> b \<notin> {BReserved, BIssued}"
  by (cases st) simp_all

lemma move_asset_status_keeps:
  assumes ok: "stock_ok s" and a: "row_get a_id aid (assets s) = Some a" and free: "\<not> held_asset a s"
    and st: "st \<notin> {ISSUED, RESERVED}" and run: "move_asset_status aid st s = Inr t"
  shows "line_keeps s t (\<lambda>_. 0)"
proof (cases "a_status a = st")
  case True
  with a run ok show ?thesis by (auto simp: move_asset_status_def get_asset_def ok_iff line_keeps_refl split: if_splits)
next
  case False
  from run a False obtain ob nb u p v where
    ob: "asset_quantity_bucket (a_status a) = Some ob" and nb: "asset_quantity_bucket st = Some nb"
    and u: "reconcile_individual_product_from_assets (a_product a) s = Inr u"
    and p: "product_of (a_product a) u = Some p"
    and v: "let p' = set_bucket ob (get_bucket ob p - 1) p in
      save_product (set_bucket nb (get_bucket nb p' + 1) p') u = Inr v"
    and t: "t = put_asset (a\<lparr>a_status := st\<rparr>) v"
    by (auto simp: move_asset_status_def get_asset_def ok_iff Let_def simp del: get_bucket_set split: if_splits)
  have su: "line_keeps s u (\<lambda>_. 0)" by (rule reconcile_keeps [OF ok u])
  let ?p' = "set_bucket ob (get_bucket ob p - 1) p"
  let ?p'' = "set_bucket nb (get_bucket nb ?p' + 1) ?p'"
  have out: "ob \<notin> {BReserved, BIssued}" using unheld_bucket [OF ob] free by (simp add: held_asset_def)
  have into: "nb \<notin> {BReserved, BIssued}" by (rule unheld_bucket [OF nb st])
  have "line_keeps u v (\<lambda>_. 0)"
  proof (rule write_product_keeps [of u ?p'' p])
    show "stock_ok u" using su by (simp only: line_keeps_def)
    show "product_of (p_id ?p'') u = Some p" using p by (simp add: product_of_id)
    show "save_product ?p'' u = Inr v" using v by (simp only: Let_def)
    show "p_tracking_mode ?p'' = p_tracking_mode p" by (simp only: tracking_mode_set_bucket)
    show "p_reserved ?p'' = p_reserved p \<and> p_issued ?p'' = p_issued p"
      by (simp only: set_bucket_held [OF out] set_bucket_held [OF into])
    show "units_in ms ?p'' = units_in ms p + 0" for ms
      by (simp only: units_in_def tracking_mode_set_bucket set_bucket_simps add_0_right)
  qed
  with su have sv: "line_keeps s v (\<lambda>_. 0)" by (rule line_keeps_trans0)
  have "u = s\<lparr>products := products u\<rparr>" using reconcile_Inr [OF u] by blast
  then have "assets u = assets (s\<lparr>products := products u\<rparr>)" by (rule arg_cong)
  moreover have "assets v = assets u" using v by (simp only: Let_def save_product_Inr) simp
  ultimately have rows: "assets v = assets s" by simp
  have "a_id a = aid" using a by (auto dest: row_get_SomeD)
  have "lending_tables v = lending_tables s" using sv by (simp only: line_keeps_def held_kept_def)
  note still_free = held_asset_cong [OF this, of a]
  have "line_keeps v t (\<lambda>_. 0)" unfolding t
  proof (rule put_asset_keeps)
    show "stock_ok v" using sv by (simp only: line_keeps_def)
    show "row_get a_id (a_id (a\<lparr>a_status := st\<rparr>)) (assets v) = Some a" using a \<open>a_id a = aid\<close> by (simp add: rows)
    show "\<not> held_asset a v" using free still_free by simp
  qed
  with sv show ?thesis by (rule line_keeps_trans0)
qed

section \<open>Lines\<close>

lemma move_asset_keeps:
  assumes ok: "stock_ok s" and run: "move_asset ms source destination aid input s = Inr t"
  shows "line_keeps s t (\<lambda>_. 0)"
proof -
  from run obtain a u b where a: "row_get a_id aid (assets s) = Some a"
    and movable: "assert_asset_transferable a (ti_to input) s = Inr ()" and u: "restatus_asset a (ti_to input) s = Inr u"
    and b: "row_get a_id aid (assets u) = Some b" and t: "t = put_asset (b\<lparr>a_box := destination\<rparr>) u"
    by (auto simp: move_asset_def get_asset_of_def get_asset_def ok_iff split: option.splits if_splits)
  from movable have free: "\<not> held_asset a s" and
    target: "ti_to input = Some st \<Longrightarrow> st \<in> set transfer_target_statuses" for st
    by (auto simp: assert_asset_transferable_def held_asset_def split: if_splits)
  have ids: "a_id a = aid" "a_id b = aid" using a b by (auto dest: row_get_SomeD)
  have moved: "line_keeps s u (\<lambda>_. 0) \<and> \<not> held_asset b u"
  proof (cases "ti_to input = None \<or> ti_to input = Some (a_status a)")
    case True
    with u have "u = s" by (auto simp: restatus_asset_def)
    with a b free ok show ?thesis by (simp add: line_keeps_refl)
  next
    case False
    then obtain st where st: "ti_to input = Some st" "st \<noteq> a_status a" by auto
    from u st have run: "move_asset_status aid st s = Inr u"
      by (auto simp: restatus_asset_def ids split: sum.splits if_splits)
    from target [OF st(1)] have unheld: "st \<notin> {ISSUED, RESERVED}" by (auto simp: transfer_target_statuses_def)
    have keeps: "line_keeps s u (\<lambda>_. 0)" by (rule move_asset_status_keeps [OF ok a free unheld run])
    from move_asset_status_Inr [OF a _ run] st(2) obtain w ps where u: "u = put_asset (a\<lparr>a_status := st\<rparr>) (w\<lparr>products := ps\<rparr>)"
      by (auto simp: Let_def)
    then have "b = a\<lparr>a_status := st\<rparr>" using b ids by (auto simp: put_asset_def row_get_row_put split: if_splits)
    moreover have "lending_tables u = lending_tables s" using keeps by (simp only: line_keeps_def held_kept_def)
    note held_asset_cong [OF this, of "a\<lparr>a_status := st\<rparr>"]
    ultimately have "\<not> held_asset b u" using free unheld by (simp add: held_asset_def asset_on_loan_def)
    with keeps show ?thesis by blast
  qed
  then have "line_keeps u t (\<lambda>_. 0)" unfolding t
    using b ids by (intro put_asset_keeps [where old = b]) (simp_all add: line_keeps_def)
  with moved show ?thesis by (blast intro: line_keeps_trans0)
qed

lemma find_product:
  assumes "stock_ok s" and "find P (products s) = Some q"
  shows "product_of (p_id q) s = Some q \<and> P q"
  using assms by (auto simp: find_Some_iff product_of_def stock_ok_def intro!: row_get_unique)

lemma quantity_mode: "p_tracking_mode p \<noteq> INDIVIDUAL \<longleftrightarrow> p_tracking_mode p = QUANTITY"
  by (cases "p_tracking_mode p") simp_all

text \<open>Stock moves into a row that is found, or made empty.\<close>

lemma into_found_or_new:
  assumes ok: "stock_ok s" and src: "product_of (p_id p) s = Some p" and "p_tracking_mode p = QUANTITY"
    and found: "\<And>q. dest = Some q \<Longrightarrow> product_of (p_id q) s = Some q \<and> p_id q \<noteq> p_id p \<and>
      p_tracking_mode q = QUANTITY \<and> p_makerspace q = ms"
    and made: "made = empty_product (fresh_key p_id (products s)) ms box cat name d l"
    and pr: "pr = (case dest of Some q \<Rightarrow> (q, s) | None \<Rightarrow> (made, add_product made s))"
    and run: "transfer_available_quantity (p_id p) (p_id (fst pr)) n (snd pr) = Inr t"
  shows "line_keeps s t (\<lambda>m. - (if p_makerspace p = m then n else 0) + (if ms = m then n else 0))"
proof (cases dest)
  case (Some r)
  with pr run have "transfer_available_quantity (p_id p) (p_id r) n s = Inr t" by simp
  with found [OF Some] show ?thesis
    using transfer_line_keeps [OF ok src, of "p_id r" r n t] assms(3) by simp
next
  case None
  with pr run have moved: "transfer_available_quantity (p_id p) (p_id made) n (add_product made s) = Inr t" by simp
  from made have new: "p_id made = fresh_key p_id (products s)" "product_ok made" "p_total made = 0"
    "p_tracking_mode made = QUANTITY" "p_makerspace made = ms"
    by (simp_all add: empty_product_ok) (simp_all add: empty_product_def)
  note added = add_product_keeps [OF ok new(1-3)]
  then have rows: "product_of (p_id p) (add_product made s) = Some p" "p_id p \<noteq> p_id made"
    "product_of (p_id made) (add_product made s) = Some made" "stock_ok (add_product made s)"
    using src unfolding line_keeps_def by (blast, metis, blast, blast)
  have "line_keeps (add_product made s) t (\<lambda>m. - (if p_makerspace p = m then n else 0) + (if ms = m then n else 0))"
    using transfer_line_keeps [OF rows(4,1,3,2) assms(3) new(4) moved] by (simp only: new(5))
  with added show ?thesis by (blast intro: line_keeps_trans0)
qed

lemma move_quantity_stock_keeps:
  assumes ok: "stock_ok s" and src: "product_of (p_id p) s = Some p"
    and run: "move_quantity_stock p box n s = Inr (r, t)"
  shows "line_keeps s t (\<lambda>_. 0)"
proof (cases "can_move_source_row p (destination_product p box s) n")
  case True
  with run have "save_product (p\<lparr>p_box := box\<rparr>) s = Inr t"
    by (auto simp: move_quantity_stock_def Let_def ok_iff split: if_splits)
  then show ?thesis using src by (intro write_product_keeps [OF ok, of "p\<lparr>p_box := box\<rparr>" p]) (simp_all add: units_in_def)
next
  case False
  let ?made = "empty_product (fresh_key p_id (products s)) (p_makerspace p) box (p_category p) (p_name p)
    (p_description p) (p_storage_location p)"
  let ?pr = "case destination_product p box s of Some q \<Rightarrow> (q, s) | None \<Rightarrow> (?made, add_product ?made s)"
  from run False have mode: "p_tracking_mode p = QUANTITY"
    and t: "transfer_available_quantity (p_id p) (p_id (fst ?pr)) n (snd ?pr) = Inr t"
    unfolding move_quantity_stock_def create_destination_product_def Let_def
    by (auto simp: ok_iff quantity_mode case_prod_beta split: if_splits)
  have "product_of (p_id q) s = Some q \<and> p_id q \<noteq> p_id p \<and> p_tracking_mode q = QUANTITY \<and> p_makerspace q = p_makerspace p"
    if "destination_product p box s = Some q" for q
    using find_product [OF ok that [unfolded destination_product_def]] by simp
  from into_found_or_new [OF ok src mode this refl refl t] show ?thesis by simp
qed

section \<open>A line of a transfer\<close>

text \<open>What a line moves into a makerspace, and what the adjustments say was moved into it.\<close>

definition line_delta :: "nat \<Rightarrow> nat \<Rightarrow> transfer_input \<Rightarrow> nat \<Rightarrow> int" where
  "line_delta ms dest_ms input m =
     (if dest_ms = ms then 0
      else - (if ms = m then wanted_quantity input else 0) + (if dest_ms = m then wanted_quantity input else 0))"

definition booked :: "nat \<Rightarrow> db \<Rightarrow> int" where
  "booked m s = sum_list (map (\<lambda>j. if j_makerspace j = m then j_delta_available j else 0) (adjustments s))"

definition books_keep :: "operations_db \<Rightarrow> operations_db \<Rightarrow> (nat \<Rightarrow> int) \<Rightarrow> bool" where
  "books_keep s t d \<longleftrightarrow> line_keeps (op_base s) (op_base t) d \<and>
     (\<forall>m. booked m (op_base t) = booked m (op_base s) + d m)"

lemma books_keep_trans:
  "books_keep s t d \<Longrightarrow> books_keep t u e \<Longrightarrow> books_keep s u (\<lambda>m. d m + e m)"
  by (auto simp: books_keep_def intro: line_keeps_trans)

lemma save_product_adjustments: "save_product p s = Inr t \<Longrightarrow> adjustments t = adjustments s"
  by (auto simp: save_product_Inr)

lemma reconcile_adjustments: "reconcile_individual_product_from_assets pid s = Inr t \<Longrightarrow> adjustments t = adjustments s"
  by (auto simp: reconcile_individual_product_from_assets_def ok_iff save_product_adjustments split: if_splits)

lemma move_asset_status_adjustments: "move_asset_status aid st s = Inr t \<Longrightarrow> adjustments t = adjustments s"
  by (auto simp: move_asset_status_def ok_iff Let_def put_asset_def split: if_splits
      dest!: save_product_adjustments reconcile_adjustments)

lemma move_asset_adjustments: "move_asset ms source destination aid input s = Inr t \<Longrightarrow> adjustments t = adjustments s"
  by (auto simp: move_asset_def restatus_asset_def ok_iff put_asset_def split: if_splits sum.splits
      dest!: move_asset_status_adjustments)

lemma transfer_adjustments: "transfer_available_quantity src dst n s = Inr t \<Longrightarrow> adjustments t = adjustments s"
  by (auto simp: transfer_available_quantity_def ok_iff save_product_Inr split: if_splits)

lemma add_product_adjustments [simp]: "adjustments (add_product p s) = adjustments s"
  by (simp add: add_product_def)

lemma move_quantity_adjustments: "move_quantity_stock p box n s = Inr (r, t) \<Longrightarrow> adjustments t = adjustments s"
  by (auto simp: move_quantity_stock_def create_destination_product_def Let_def ok_iff
      split: if_splits option.splits dest!: save_product_adjustments transfer_adjustments)

lemma booked_cong: "adjustments t = adjustments s \<Longrightarrow> booked m t = booked m s"
  by (simp add: booked_def)

text \<open>Rows that are only appended to the ledgers leave the stock alone.\<close>

lemma line_keeps_append: "line_keeps s (u\<lparr>adjustments := js\<rparr>) d = line_keeps s u d"
  by (simp add: line_keeps_def held_kept_def lending_tables_def product_of_def weigh_def stock_ok_def)

lemma books_keep_adjustment:
  assumes "line_keeps (op_base s) (op_base u) d" and "\<And>m. booked m (op_base u) = booked m (op_base s) + e m"
    and "\<And>m. d m = e m + (if ms = m then delta else 0)"
  shows "books_keep s (transfer_adjustment actor ms x pid aid delta u) d"
  using assms by (simp add: books_keep_def transfer_adjustment_def line_keeps_append booked_def)

lemma create_transfer_line_base: "create_transfer_line l s = Inr t \<Longrightarrow> op_base t = op_base s"
  by (auto simp: create_transfer_line_def split: if_splits)

lemma intra_line_keeps:
  assumes ok: "stock_ok (op_base s)" and run: "apply_intra_makerspace_line actor x ms source destination input s = Inr t"
  shows "books_keep s t (\<lambda>_. 0)"
proof (cases "ti_target input")
  case (OfAsset aid)
  with run obtain b u where b: "move_asset ms source destination aid input (op_base s) = Inr b"
    and u: "create_transfer_line (new_transfer_line x input None (Some aid) (ti_notes input)) (s\<lparr>op_base := b\<rparr>) = Inr u"
    and t: "t = transfer_adjustment actor ms x None (Some aid) 0 u"
    by (auto simp: apply_intra_makerspace_line_def on_base_def ok_iff)
  have "op_base u = b" using create_transfer_line_base [OF u] by simp
  with move_asset_keeps [OF ok b] booked_cong [OF move_asset_adjustments [OF b]] show ?thesis
    unfolding t by (intro books_keep_adjustment [where e = "\<lambda>_. 0"]) simp_all
next
  case (OfProduct pid)
  with run obtain p q split b u where p: "product_of pid (op_base s) = Some p"
    and b: "move_quantity_stock p destination (wanted_quantity input) (op_base s) = Inr ((q, split), b)"
    and u: "create_transfer_line (new_transfer_line x input (Some pid) None (ti_notes input)) (s\<lparr>op_base := b\<rparr>) = Inr u"
    and t: "t = transfer_adjustment actor ms x (Some (if split then q else pid)) None 0 u"
    by (auto simp: apply_intra_makerspace_line_def get_product_of_def ok_iff split: option.splits if_splits)
  have "op_base u = b" using create_transfer_line_base [OF u] by simp
  moreover have "line_keeps (op_base s) b (\<lambda>_. 0)"
    using p by (intro move_quantity_stock_keeps [OF ok _ b]) (simp add: product_of_id)
  ultimately show ?thesis using booked_cong [OF move_quantity_adjustments [OF b]]
    unfolding t by (intro books_keep_adjustment [where e = "\<lambda>_. 0"]) simp_all
qed

lemma cross_line_keeps:
  assumes ok: "stock_ok (op_base s)" and "dest_ms \<noteq> ms"
    and run: "apply_cross_makerspace_line actor x ms dest_ms box input s = Inr t"
  shows "books_keep s t (line_delta ms dest_ms input)"
proof -
  let ?n = "wanted_quantity input"
  from run obtain pid p where p: "product_of pid (op_base s) = Some p" "p_makerspace p = ms"
    "p_tracking_mode p = QUANTITY" and target: "ti_target input = OfProduct pid"
    by (auto simp: apply_cross_makerspace_line_def get_product_of_def ok_iff Let_def quantity_mode
        split: count_target.splits option.splits if_splits)
  let ?cat = "category_in (p_category p) dest_ms s"
  let ?dest = "receiving_product p dest_ms box ?cat (op_base s)"
  let ?made = "empty_product (fresh_key p_id (products (op_base s))) dest_ms box ?cat (p_name p) (p_description p) []"
  let ?pr = "case ?dest of Some q \<Rightarrow> (q, op_base s) | None \<Rightarrow> (?made, add_product ?made (op_base s))"
  from run [unfolded apply_cross_makerspace_line_def Let_def] p target obtain b u remark where mode: "?dest = None \<or> p_tracking_mode (the ?dest) = QUANTITY"
    and b: "transfer_available_quantity pid (p_id (fst ?pr)) ?n (snd ?pr) = Inr b"
    and u: "create_transfer_line (new_transfer_line x input (Some pid) None remark) (s\<lparr>op_base := b\<rparr>) = Inr u"
    and t: "t = transfer_adjustment actor dest_ms x (Some (p_id (fst ?pr))) None ?n
      (transfer_adjustment actor ms x (Some pid) None (- ?n) u)"
    by (auto simp: get_product_of_def ok_iff quantity_mode case_prod_beta split: if_splits)
  have found: "product_of (p_id q) (op_base s) = Some q \<and> p_id q \<noteq> p_id p \<and> p_tracking_mode q = QUANTITY \<and>
      p_makerspace q = dest_ms" if "?dest = Some q" for q
    using find_product [OF ok that [unfolded receiving_product_def]] mode that p(1,2) assms(2)
    by (auto dest: product_of_id)
  have id: "p_id p = pid" using p(1) by (rule product_of_id)
  have "line_keeps (op_base s) b (\<lambda>m. - (if p_makerspace p = m then ?n else 0) + (if dest_ms = m then ?n else 0))"
    by (rule into_found_or_new [OF ok _ p(3) found refl refl]) (use p(1) b id in simp_all)
  moreover have base: "op_base u = b" using create_transfer_line_base [OF u] by simp
  ultimately have keeps: "line_keeps (op_base s) (op_base u) (line_delta ms dest_ms input)"
    using assms(2) p(2) by (simp add: line_delta_def [abs_def])
  have "adjustments b = adjustments (op_base s)"
    unfolding transfer_adjustments [OF b] by (cases ?dest) simp_all
  then have books: "booked m (op_base u) = booked m (op_base s)" for m unfolding base by (rule booked_cong)
  have "line_keeps (op_base s) (op_base (transfer_adjustment actor ms x (Some pid) None (- ?n) u)) (line_delta ms dest_ms input)"
    using keeps by (simp add: transfer_adjustment_def line_keeps_append)
  moreover have "booked m (op_base (transfer_adjustment actor ms x (Some pid) None (- ?n) u)) =
      booked m (op_base s) + - (if ms = m then ?n else 0)" for m
    using books [of m] by (simp add: transfer_adjustment_def booked_def)
  ultimately show ?thesis unfolding t
    using assms(2) by (intro books_keep_adjustment [where e = "\<lambda>m. - (if ms = m then ?n else 0)"]) (simp_all add: line_delta_def)
qed

lemma transfer_row_keeps:
  assumes "stock_ok (op_base s)" and "transfer_row actor x ms dest_ms source destination input s = Inr t"
  shows "books_keep s t (line_delta ms dest_ms input)"
proof (cases "dest_ms = ms")
  case True
  then have "line_delta ms dest_ms input = (\<lambda>_. 0)" by (simp add: line_delta_def [abs_def])
  with True assms show ?thesis by (simp add: transfer_row_def intra_line_keeps)
next
  case False
  with assms show ?thesis by (simp add: transfer_row_def cross_line_keeps)
qed

lemma transfer_rows_keep:
  assumes "stock_ok (op_base s)" and "for_each (transfer_row actor x ms dest_ms source destination) inputs s = Inr t"
  shows "books_keep s t (\<lambda>m. \<Sum>input\<leftarrow>inputs. line_delta ms dest_ms input m)"
  using assms
proof (induction inputs arbitrary: s)
  case Nil
  then show ?case by (auto simp: books_keep_def line_keeps_refl)
next
  case (Cons input inputs)
  then obtain u where u: "transfer_row actor x ms dest_ms source destination input s = Inr u"
    and rest: "for_each (transfer_row actor x ms dest_ms source destination) inputs u = Inr t" by (auto simp: ok_iff)
  have first: "books_keep s u (line_delta ms dest_ms input)" by (rule transfer_row_keeps [OF Cons.prems(1) u])
  then have "stock_ok (op_base u)" by (simp only: books_keep_def line_keeps_def)
  with Cons.IH rest have "books_keep u t (\<lambda>m. \<Sum>input\<leftarrow>inputs. line_delta ms dest_ms input m)" by blast
  from books_keep_trans [OF first this] show ?case by simp
qed

section \<open>A whole transfer\<close>

lemma books_keep_cong:
  "products (op_base t) = products (op_base s) \<Longrightarrow> assets (op_base t) = assets (op_base s) \<Longrightarrow>
   lending_tables (op_base t) = lending_tables (op_base s) \<Longrightarrow> adjustments (op_base t) = adjustments (op_base s) \<Longrightarrow>
   stock_ok (op_base s) \<Longrightarrow> books_keep s t (\<lambda>_. 0)"
  by (simp add: books_keep_def line_keeps_def held_kept_cong booked_def weigh_def stock_ok_def)

lemma transfer_audits_keep:
  assumes "stock_ok (op_base s)" and "transfer_audits actor x ms dest_ms s = Inr t"
  shows "books_keep s (set_atomic b t) (\<lambda>_. 0)"
  using assms by (intro books_keep_cong)
    (auto simp: transfer_audits_def Let_def ok_iff op_audit_def audit_record_def set_atomic_def lending_tables_def split: if_splits)

definition transferred :: "nat \<Rightarrow> nat option \<Rightarrow> transfer_input list \<Rightarrow> nat \<Rightarrow> int" where
  "transferred ms destination_ms inputs m = (\<Sum>input\<leftarrow>inputs. line_delta ms (receiver ms destination_ms) input m)"

lemma transfer_keeps_books:
  assumes ok: "stock_ok (op_base s)"
    and run: "apply_stock_transfer env actor ms source destination destination_ms reason inputs s = Inr t"
  shows "books_keep s t (transferred ms destination_ms inputs)"
proof -
  from run obtain x src dst u v where
    u: "for_each (transfer_row actor x ms (receiver ms destination_ms) src dst) inputs
        ((set_atomic True s)\<lparr>transfers := transfers s @ [x]\<rparr>) = Inr u"
    and v: "transfer_audits actor x ms (receiver ms destination_ms) u = Inr v"
    and t: "t = set_atomic (in_atomic (op_base s)) v"
    unfolding apply_stock_transfer_def in_transaction_def Let_def
    by (auto simp: ok_iff) (auto simp: set_atomic_def)
  let ?s = "(set_atomic True s)\<lparr>transfers := transfers s @ [x]\<rparr>"
  have start: "books_keep s ?s (\<lambda>_. 0)"
    using ok by (intro books_keep_cong) (simp_all add: set_atomic_def lending_tables_def)
  then have "stock_ok (op_base ?s)" by (simp only: books_keep_def line_keeps_def)
  then have rows: "books_keep ?s u (transferred ms destination_ms inputs)"
    unfolding transferred_def by (rule transfer_rows_keep [OF _ u])
  then have "stock_ok (op_base u)" by (simp only: books_keep_def line_keeps_def)
  then have last: "books_keep u t (\<lambda>_. 0)" unfolding t by (rule transfer_audits_keep [OF _ v])
  from books_keep_trans [OF start books_keep_trans [OF rows last]] show ?thesis by simp
qed

section \<open>Properties\<close>

text \<open>
  C38. A transfer conserves units: the quantity-tracked units of every makerspace change exactly by what
  the lines of the transfer carry over its border (nothing, for a transfer within it), and so do the
  units that the adjustments of the makerspace say are available.
\<close>

theorem transfer_conserves_units:
  assumes "stock_ok (op_base s)"
    and "apply_stock_transfer env actor ms source destination destination_ms reason inputs s = Inr t"
  shows "stock_ok (op_base t) \<and>
    weigh (units_in m) (op_base t) = weigh (units_in m) (op_base s) + transferred ms destination_ms inputs m \<and>
    booked m (op_base t) = booked m (op_base s) + transferred ms destination_ms inputs m"
  using transfer_keeps_books [OF assms] by (simp add: books_keep_def line_keeps_def)

definition shared_stock :: operations_db where
  "shared_stock = counted_stock\<lparr>op_base := (op_base counted_stock)\<lparr>makerspaces :=
     [\<lparr>m_id = 1, m_default_loan_days = 7, m_storage_used = 0, m_storage_override = None\<rparr>,
      \<lparr>m_id = 2, m_default_loan_days = 7, m_storage_used = 0, m_storage_override = None\<rparr>],
     assets := [\<lparr>a_id = 4, a_makerspace = 1, a_product = 2, a_box = None, a_tag = ''T'', a_status = AVAILABLE, a_self_checkout = False\<rparr>,
       \<lparr>a_id = 5, a_makerspace = 1, a_product = 2, a_box = None, a_tag = ''U'', a_status = ISSUED, a_self_checkout = False\<rparr>]\<rparr>\<rparr>"

definition two_saws :: transfer_input where
  "two_saws = \<lparr>ti_target = OfProduct 1, ti_quantity = Some 2, ti_from = None, ti_to = None, ti_notes = ''gift''\<rparr>"

lemmas shared_defs = shared_stock_def two_saws_def count_defs

lemma shared_stock_ok: "stock_ok (op_base shared_stock)"
  by (simp add: shared_defs stock_ok_def unique_keys_def product_ok_def product_constraints_def product_in_range_def
      bucket_sum_def int32_max_def)

lemma gift_runs: "\<exists>t. apply_stock_transfer count_env 8 1 None None (Some 2) ''help'' [two_saws] shared_stock = Inr t"
  by (simp add: shared_defs apply_stock_transfer_def receiver_def in_transaction_def set_atomic_def require_module_locked_for_all_def
      row_get_Cons container_of_def new_transfer_def transfer_row_def apply_cross_makerspace_line_def wanted_quantity_def
      get_product_of_def product_of_def category_in_def receiving_product_def iexact_def moved_notes_def
      transfer_available_quantity_def get_product_def fresh_key_def add_product_def empty_product_def save_product_def
      product_in_range_def product_constraints_def bucket_sum_def int32_max_def row_put_def create_transfer_line_def
      new_transfer_line_def transfer_adjustment_def transfer_audits_def op_audit_def audit_record_def get_makerspace_def Let_def)

theorem transfer_conserves_units_witness:
  "\<exists>t. apply_stock_transfer count_env 8 1 None None (Some 2) ''help'' [two_saws] shared_stock = Inr t \<and>
     weigh (units_in 1) (op_base t) = weigh (units_in 1) (op_base shared_stock) - 2 \<and>
     weigh (units_in 2) (op_base t) = weigh (units_in 2) (op_base shared_stock) + 2"
proof -
  from gift_runs obtain t where t: "apply_stock_transfer count_env 8 1 None None (Some 2) ''help'' [two_saws] shared_stock = Inr t"
    by blast
  have "transferred 1 (Some 2) [two_saws] 1 = - 2" "transferred 1 (Some 2) [two_saws] 2 = 2"
    by (simp_all add: transferred_def line_delta_def receiver_def wanted_quantity_def two_saws_def)
  with transfer_conserves_units [OF shared_stock_ok t, of 1] transfer_conserves_units [OF shared_stock_ok t, of 2] t
  show ?thesis by simp
qed

text \<open>
  C39. A transfer leaves alone what others hold: the reserved and issued units of every quantity-tracked
  product, every unit asset that is reserved, issued or on an open loan, and the requests and loans
  themselves.
\<close>

theorem transfer_spares_held:
  assumes "stock_ok (op_base s)"
    and "apply_stock_transfer env actor ms source destination destination_ms reason inputs s = Inr t"
  shows "held_kept (op_base s) (op_base t)"
  using transfer_keeps_books [OF assms] by (simp only: books_keep_def line_keeps_def)

theorem transfer_spares_held_witness:
  "\<exists>t. apply_stock_transfer count_env 8 1 None None (Some 2) ''help'' [two_saws] shared_stock = Inr t \<and>
     asset_row 5 t = asset_row 5 shared_stock \<and> (\<exists>p. product_of 1 (op_base t) = Some p \<and> p_reserved p = 2 \<and> p_issued p = 1)"
proof -
  from gift_runs obtain t where t: "apply_stock_transfer count_env 8 1 None None (Some 2) ''help'' [two_saws] shared_stock = Inr t"
    by blast
  note kept = transfer_spares_held [OF shared_stock_ok t]
  have unit: "asset_row 5 shared_stock =
      Some \<lparr>a_id = 5, a_makerspace = 1, a_product = 2, a_box = None, a_tag = ''U'', a_status = ISSUED, a_self_checkout = False\<rparr>"
    and saw: "product_of 1 (op_base shared_stock) = Some sample_product" "p_tracking_mode sample_product = QUANTITY"
    by (simp_all add: shared_defs row_get_Cons product_of_def asset_row_def)
  have "asset_row 5 t = asset_row 5 shared_stock"
    using kept unit by (simp add: held_kept_def held_asset_def asset_row_def)
  moreover from kept saw obtain q where "product_of 1 (op_base t) = Some q"
    "p_reserved q = p_reserved sample_product" "p_issued q = p_issued sample_product" unfolding held_kept_def by blast
  ultimately show ?thesis using t by (simp add: sample_product_def)
qed

end
