(* ===== verification/Event_Rows.thy ===== *)
theory Event_Rows
  imports Bookings "HOL-Library.Product_Lexorder"
begin

text \<open>
  The rows of the events app (\<open>events/models_event.py\<close>, \<open>models_registration.py\<close>,
  \<open>models_attendance.py\<close>, \<open>models_feedback.py\<close>, \<open>models_certificates.py\<close>) with the guards of their
  \<open>save\<close>, and the capacity of an event (\<open>capacity.py\<close>). The state wraps that of the payments, as a
  registration may raise a charge. The events are those that are not occurrences of a series.
\<close>

section \<open>Rows\<close>

datatype event_status = EventDraft | EventPublished | EventCancelled | EventCompleted

datatype registration_status =
  RegPending | RegRegistered | RegWaitlisted | RegRejected | RegCancelled | RegAttended

datatype check_in_source = SourceOnline | SourceQr | SourceOffline | SourceStation | SourceLegacy

datatype certificate_status = CertPending | CertRendering | CertActive | CertFailed | CertRevoked

datatype revocation_reason = AttendanceCorrected | EventWasCancelled | StaffRevoked

record event =
  ev_id :: nat
  ev_makerspace :: nat
  ev_title :: string
  ev_description :: string
  ev_starts :: int
  ev_ends :: int
  ev_location :: string
  ev_location_kind :: string
  ev_form :: json
  ev_capacity :: int
  ev_amount :: int
  ev_approval :: bool
  ev_cutoff_at :: "int option"
  ev_cutoff_lead :: "int option"
  ev_public :: bool
  ev_zone :: string
  ev_status :: event_status
  ev_sequence :: int
  ev_touched :: int
  ev_created_by :: "nat option"

record registration =
  rg_id :: nat
  rg_event :: nat
  rg_token :: nat
  rg_name :: string
  rg_email :: string
  rg_phone :: string
  rg_member :: "nat option"
  rg_via :: "nat option"
  rg_pay_via :: "nat option"
  rg_answers :: "answer list option"
  rg_status :: registration_status
  rg_sequence :: int
  rg_touched :: int
  rg_created :: int

record check_in =
  ci_id :: nat
  ci_makerspace :: nat
  ci_event :: nat
  ci_registration :: nat
  ci_operation :: nat
  ci_source :: check_in_source
  ci_attended :: int
  ci_recorded :: int
  ci_actor :: "nat option"
  ci_session :: "nat option"
  ci_station_version :: "nat option"

text \<open>The credential of a check-in station; its PIN is a secret and left out.\<close>

record station =
  sn_event :: nat
  sn_version :: nat
  sn_enabled :: bool
  sn_rotated :: int
  sn_disabled :: "int option"

record survey =
  sv_id :: nat
  sv_event :: nat
  sv_title :: string
  sv_thanks :: string
  sv_questions :: "question list"
  sv_open :: bool
  sv_certificates :: bool
  sv_answered :: "string list"
  sv_opened :: "int option"
  sv_closed :: "int option"

record response =
  rp_id :: nat
  rp_survey :: nat
  rp_registration :: "nat option"
  rp_answers :: "answer list"
  rp_certificate :: bool
  rp_created :: int

record certificate =
  ct_id :: nat
  ct_response :: nat
  ct_registration :: nat
  ct_serial :: nat
  ct_revision :: nat
  ct_recipient :: string
  ct_title :: string
  ct_starts :: int
  ct_ends :: int
  ct_size :: "int option"
  ct_digest :: string
  ct_status :: certificate_status
  ct_rendered :: "int option"
  ct_revoked :: "int option"
  ct_revoked_by :: "nat option"
  ct_reason :: "revocation_reason option"

record event_db =
  ev_pay :: pay_db
  events :: "event list"
  registrations :: "registration list"
  check_ins :: "check_in list"
  stations :: "station list"
  surveys :: "survey list"
  responses :: "response list"
  certificates :: "certificate list"

text \<open>
  The environments of the payments and of the storage quota; the PII write fence, the module
  switch, the check-in feature and the \<open>resource_limit\<close> of a makerspace for events; the time zones that
  are known and the default one; the fresh UUID of an operation; whether secrets can be stored; the
  error of the presence package for a member, if any; the clock skew that is tolerated; and what the
  renderer and the object store make of a certificate: the size and digest of its document.
\<close>

record event_env =
  ev_env :: pay_env
  quota_env :: env
  event_fenced :: "nat \<Rightarrow> bool"
  events_module :: "nat \<Rightarrow> bool"
  offline_checkin :: "nat \<Rightarrow> bool"
  event_limit :: "nat \<Rightarrow> int option"
  zone_known :: "string \<Rightarrow> bool"
  default_zone :: string
  fresh_uuid :: nat
  secrets_up :: bool
  absent_member :: "nat \<Rightarrow> nat \<Rightarrow> exn option"
  clock_skew :: int
  stored_pdf :: "certificate \<Rightarrow> exn + (int \<times> string)"

definition event_time :: "event_env \<Rightarrow> int" where
  "event_time env = clock (ev_env env)"

definition event_row :: "nat \<Rightarrow> event_db \<Rightarrow> event option" where
  "event_row i s = row_get ev_id i (events s)"

definition registration_row :: "nat \<Rightarrow> event_db \<Rightarrow> registration option" where
  "registration_row i s = row_get rg_id i (registrations s)"

definition certificate_row :: "nat \<Rightarrow> event_db \<Rightarrow> certificate option" where
  "certificate_row i s = row_get ct_id i (certificates s)"

definition station_row :: "nat \<Rightarrow> event_db \<Rightarrow> station option" where
  "station_row ev s = row_get sn_event ev (stations s)"

text \<open>A survey belongs to its event one to one.\<close>

definition survey_row :: "nat \<Rightarrow> event_db \<Rightarrow> survey option" where
  "survey_row ev s = row_get sv_event ev (surveys s)"

definition locked_event :: "nat \<Rightarrow> event_db \<Rightarrow> exn + event" where
  "locked_event i s = of_option DoesNotExist (event_row i s)"

definition put_event :: "event \<Rightarrow> event_db \<Rightarrow> event_db" where
  "put_event ev s = s\<lparr>events := row_put ev_id ev (events s)\<rparr>"

definition put_registration :: "registration \<Rightarrow> event_db \<Rightarrow> event_db" where
  "put_registration r s = s\<lparr>registrations := row_put rg_id r (registrations s)\<rparr>"

definition event_audit ::
  "nat option \<Rightarrow> string \<Rightarrow> event \<Rightarrow> string \<times> nat \<Rightarrow> (string \<times> meta_value) list \<Rightarrow> event_db \<Rightarrow> event_db" where
  "event_audit actor action ev tgt meta s =
     s\<lparr>ev_pay := (ev_pay s)\<lparr>pay_base := audit_record actor action (ev_makerspace ev) tgt meta (pay_base (ev_pay s))\<rparr>\<rparr>"

definition event_notify :: "string \<Rightarrow> nat \<Rightarrow> event_db \<Rightarrow> event_db" where
  "event_notify name i s =
     s\<lparr>ev_pay := (ev_pay s)\<lparr>pay_base := notify (''event_'' @ name) i (pay_base (ev_pay s))\<rparr>\<rparr>"

definition events_module_locked :: "event_env \<Rightarrow> nat \<Rightarrow> event_db \<Rightarrow> exn + unit" where
  "events_module_locked env ms s =
     try_then (get_makerspace ms (pay_base (ev_pay s))) (\<lambda>_. require (events_module env ms) ValidationError)"

definition checkin_feature_locked :: "event_env \<Rightarrow> nat \<Rightarrow> event_db \<Rightarrow> exn + unit" where
  "checkin_feature_locked env ms s =
     try_then (get_makerspace ms (pay_base (ev_pay s))) (\<lambda>_. require (offline_checkin env ms) ValidationError)"

section \<open>Capacity\<close>

definition confirmed :: "registration_status \<Rightarrow> bool" where
  "confirmed st \<longleftrightarrow> st = RegRegistered \<or> st = RegAttended"

definition confirmed_occupancy :: "nat \<Rightarrow> event_db \<Rightarrow> int" where
  "confirmed_occupancy e s =
     int (length (filter (\<lambda>r. rg_event r = e \<and> confirmed (rg_status r)) (registrations s)))"

definition spots_left :: "event \<Rightarrow> event_db \<Rightarrow> int option" where
  "spots_left ev s =
     (if ev_capacity ev = 0 then None else Some (max (ev_capacity ev - confirmed_occupancy (ev_id ev) s) 0))"

definition spot_free :: "event \<Rightarrow> event_db \<Rightarrow> bool" where
  "spot_free ev s \<longleftrightarrow> (case spots_left ev s of None \<Rightarrow> True | Some n \<Rightarrow> 0 < n)"

definition effective_registration_cutoff :: "event \<Rightarrow> int option" where
  "effective_registration_cutoff ev =
     (case ev_cutoff_at ev of
        Some c \<Rightarrow> Some c
      | None \<Rightarrow> map_option (\<lambda>m. ev_starts ev - 60 * m) (ev_cutoff_lead ev))"

definition registration_is_open :: "event \<Rightarrow> int \<Rightarrow> bool" where
  "registration_is_open ev time \<longleftrightarrow> ev_status ev = EventPublished \<and> time < ev_ends ev \<and>
     (case effective_registration_cutoff ev of None \<Rightarrow> True | Some c \<Rightarrow> time < c)"

definition fresh_registration_status :: "event \<Rightarrow> event_db \<Rightarrow> registration_status" where
  "fresh_registration_status ev s =
     (if ev_approval ev then RegPending
      else if spot_free ev s then RegRegistered else RegWaitlisted)"

text \<open>A fifth of the capacity, rounded up; the double \<open>capacity * 0.2\<close> is exact on the multiples of five.\<close>

definition availability_label :: "event \<Rightarrow> event_db \<Rightarrow> string" where
  "availability_label ev s =
     (case spots_left ev s of
        None \<Rightarrow> ''Available''
      | Some left \<Rightarrow>
          if left \<le> 0 then ''Full''
          else if left \<le> (ev_capacity ev + 4) div 5 then ''Limited'' else ''Available'')"

section \<open>Saving events\<close>

definition location_kinds :: "string list" where
  "location_kinds = [''indoor'', ''outdoor'', ''other'']"

text \<open>
  \<open>full_clean\<close> of an event and the order of its times. The validators of a field skip an empty value.
  The check constraints of the table follow from it.
\<close>

definition form_field_ok :: "json \<Rightarrow> bool" where
  "form_field_ok v \<longleftrightarrow> v \<in> {JNull, JObj [], JStr [], JList []} \<or>
     (case validate_form_schema v of Inl _ \<Rightarrow> False | Inr _ \<Rightarrow> True)"

definition event_clean :: "event_env \<Rightarrow> event \<Rightarrow> bool" where
  "event_clean env ev \<longleftrightarrow> ev_title ev \<noteq> [] \<and> length (ev_title ev) \<le> 200 \<and>
     length (ev_location ev) \<le> 255 \<and> ev_location_kind ev \<in> set location_kinds \<and>
     form_field_ok (ev_form ev) \<and> positive_int (ev_capacity ev) \<and>
     0 \<le> ev_amount ev \<and> ev_amount ev \<le> max_cents \<and>
     (case ev_cutoff_lead ev of None \<Rightarrow> True | Some m \<Rightarrow> positive_int m) \<and>
     ev_zone ev \<noteq> [] \<and> length (ev_zone ev) \<le> 64 \<and> zone_known env (ev_zone ev) \<and>
     (ev_cutoff_at ev = None \<or> ev_cutoff_lead ev = None) \<and>
     (case ev_cutoff_at ev of None \<Rightarrow> True | Some c \<Rightarrow> c \<le> ev_starts ev) \<and>
     ev_starts ev \<le> ev_ends ev"

definition validate_event :: "event_env \<Rightarrow> event \<Rightarrow> exn + unit" where
  "validate_event env ev = require (event_clean env ev) ValidationError"

definition calendar_event_changed :: "event_env \<Rightarrow> nat \<Rightarrow> event_db \<Rightarrow> event_db" where
  "calendar_event_changed env i s =
     (case event_row i s of
        None \<Rightarrow> s
      | Some ev \<Rightarrow> put_event (ev\<lparr>ev_sequence := ev_sequence ev + 1, ev_touched := event_time env\<rparr>) s)"

text \<open>The published events of a makerspace that have not ended count towards its quota.\<close>

definition running_events :: "nat \<Rightarrow> int \<Rightarrow> event_db \<Rightarrow> event list" where
  "running_events ms time s =
     filter (\<lambda>ev. ev_makerspace ev = ms \<and> ev_status ev = EventPublished \<and> time \<le> ev_ends ev) (events s)"

definition check_event_quota :: "event_env \<Rightarrow> nat \<Rightarrow> event_db \<Rightarrow> exn + unit" where
  "check_event_quota env ms s =
     (case event_limit env ms of
        None \<Rightarrow> Inr ()
      | Some limit \<Rightarrow>
          try_then (get_makerspace ms (pay_base (ev_pay s))) (\<lambda>_.
            if limit < int (length (running_events ms (event_time env) s)) + 1 then Inl ValidationError
            else Inr ()))"

section \<open>Saving registrations\<close>

definition live_registration :: "registration_status \<Rightarrow> bool" where
  "live_registration st \<longleftrightarrow> st \<in> {RegPending, RegRegistered, RegWaitlisted}"

text \<open>
  The unique constraints: one row per event and email address, one live row per event and member,
  and a check-in token of its own.
\<close>

definition registration_clash :: "registration \<Rightarrow> registration \<Rightarrow> bool" where
  "registration_clash r q \<longleftrightarrow> rg_id q \<noteq> rg_id r \<and>
     (rg_event q = rg_event r \<and> rg_email q = rg_email r \<or>
      rg_event q = rg_event r \<and> rg_member r \<noteq> None \<and> rg_member q = rg_member r \<and>
        live_registration (rg_status r) \<and> live_registration (rg_status q) \<or>
      rg_token q = rg_token r)"

definition save_registration :: "registration \<Rightarrow> event_db \<Rightarrow> exn + event_db" where
  "save_registration r s =
     (if registration_row (rg_id r) s = None then Inl DatabaseError
      else if list_ex (registration_clash r) (registrations s) then Inl IntegrityError
      else Inr (put_registration r s))"

definition insert_registration :: "registration \<Rightarrow> event_db \<Rightarrow> exn + event_db" where
  "insert_registration r s =
     (if list_ex (registration_clash r) (registrations s) then Inl IntegrityError
      else Inr (s\<lparr>registrations := registrations s @ [r]\<rparr>))"

text \<open>\<open>full_clean\<close> of a registration.\<close>

definition validate_registration :: "registration \<Rightarrow> exn + unit" where
  "validate_registration r =
     require (rg_name r \<noteq> [] \<and> rg_email r \<noteq> [] \<and> rg_phone r \<noteq> []) ValidationError"

definition calendar_registration_changed :: "event_env \<Rightarrow> nat \<Rightarrow> event_db \<Rightarrow> event_db" where
  "calendar_registration_changed env i s =
     (case registration_row i s of
        None \<Rightarrow> s
      | Some r \<Rightarrow> put_registration (r\<lparr>rg_sequence := rg_sequence r + 1, rg_touched := event_time env\<rparr>) s)"

text \<open>\<open>save(update_fields=["status"])\<close> of a locked row.\<close>

definition save_reg_status :: "registration \<Rightarrow> registration_status \<Rightarrow> event_db \<Rightarrow> exn + event_db" where
  "save_reg_status r st s =
     try_then (of_option DatabaseError (registration_row (rg_id r) s)) (\<lambda>row.
       save_registration (row\<lparr>rg_status := st\<rparr>) s)"

definition move_registration :: "event_env \<Rightarrow> registration \<Rightarrow> registration_status \<Rightarrow> event_db \<Rightarrow> exn + event_db" where
  "move_registration env r st s =
     try_then (save_reg_status r st s) (\<lambda>s. Inr (calendar_registration_changed env (rg_id r) s))"

definition registration_text :: "registration_status \<Rightarrow> string" where
  "registration_text st = (case st of RegPending \<Rightarrow> ''pending_approval'' | RegRegistered \<Rightarrow> ''registered''
     | RegWaitlisted \<Rightarrow> ''waitlisted'' | RegRejected \<Rightarrow> ''rejected'' | RegCancelled \<Rightarrow> ''cancelled''
     | RegAttended \<Rightarrow> ''attended'')"

definition event_text :: "event_status \<Rightarrow> string" where
  "event_text st = (case st of EventDraft \<Rightarrow> ''draft'' | EventPublished \<Rightarrow> ''published''
     | EventCancelled \<Rightarrow> ''cancelled'' | EventCompleted \<Rightarrow> ''completed'')"

section \<open>Charging\<close>

text \<open>A failure of the payment side is swallowed and leaves the payments as they were.\<close>

definition charge_route :: "registration \<Rightarrow> event \<Rightarrow> nat" where
  "charge_route r ev =
     (case rg_pay_via r of
        Some v \<Rightarrow> v
      | None \<Rightarrow> (case rg_via r of Some v \<Rightarrow> v | None \<Rightarrow> ev_makerspace ev))"

definition create_for_registered_registration ::
  "event_env \<Rightarrow> event \<Rightarrow> registration \<Rightarrow> nat option \<Rightarrow> event_db \<Rightarrow> event_db" where
  "create_for_registered_registration env ev r actor s =
     (case rg_member r of
        None \<Rightarrow> s
      | Some member \<Rightarrow>
          if ev_amount ev \<le> 0 \<or> \<not> online_payments_enabled (ev_env env) (ev_makerspace ev) ''events'' (ev_pay s) then s
          else if payment_for (ev_makerspace ev) SubjectEvent (rg_id r) (ev_pay s) \<noteq> None then s
          else (case create_payment (ev_env env) (ev_makerspace ev) SubjectEvent (rg_id r) (Some member)
                       (stored_amount (ev_amount ev)) (mp_currency (for_makerspace (ev_makerspace ev) (ev_pay s)))
                       (case actor of None \<Rightarrow> member | Some a \<Rightarrow> a) (Some (charge_route r ev)) (ev_title ev) (ev_pay s) of
                  Inl _ \<Rightarrow> s
                | Inr (_, pay) \<Rightarrow> s\<lparr>ev_pay := pay\<rparr>))"

definition cancel_for_registration :: "event_env \<Rightarrow> event \<Rightarrow> registration \<Rightarrow> nat option \<Rightarrow> event_db \<Rightarrow> event_db" where
  "cancel_for_registration env ev r actor s =
     (case cancel_pending (ev_env env) (ev_makerspace ev) SubjectEvent (rg_id r) actor (ev_pay s) of
        Inl _ \<Rightarrow> s
      | Inr (_, pay) \<Rightarrow> s\<lparr>ev_pay := pay\<rparr>)"

end
