(* ===== verification/Event_Certificates.thy ===== *)
theory Event_Certificates
  imports Event_Rows Evidence
begin

text \<open>
  Attendance certificates (\<open>events/services_certificates.py\<close>, \<open>models_certificates.py\<close>): creating a
  revision, rendering it in two transactions around the call of the renderer and the object store,
  and revoking it. The names on a certificate are a snapshot; the cleanup of an abandoned object
  after the commit is left out.
\<close>

section \<open>Saving\<close>

text \<open>The transitions that \<open>save\<close> and the trigger of the table allow.\<close>

fun certificate_allowed :: "certificate_status \<Rightarrow> certificate_status \<Rightarrow> bool" where
  "certificate_allowed CertPending st \<longleftrightarrow> st = CertRendering \<or> st = CertRevoked"
| "certificate_allowed CertFailed st \<longleftrightarrow> st = CertRendering \<or> st = CertRevoked"
| "certificate_allowed CertRendering st \<longleftrightarrow> st = CertActive \<or> st = CertFailed \<or> st = CertRevoked"
| "certificate_allowed CertActive st \<longleftrightarrow> st = CertRevoked"
| "certificate_allowed CertRevoked st \<longleftrightarrow> False"

definition issuance :: "certificate \<Rightarrow> nat \<times> nat \<times> nat \<times> nat \<times> string \<times> string \<times> int \<times> int" where
  "issuance c = (ct_response c, ct_registration c, ct_serial c, ct_revision c, ct_recipient c, ct_title c, ct_starts c, ct_ends c)"

definition artifact :: "certificate \<Rightarrow> int option \<times> string \<times> int option" where
  "artifact c = (ct_size c, ct_digest c, ct_rendered c)"

definition artifact_frozen :: "certificate \<Rightarrow> bool" where
  "artifact_frozen c \<longleftrightarrow> ct_status c = CertActive \<or> ct_rendered c \<noteq> None \<or> ct_size c \<noteq> None"

definition save_certificate :: "certificate \<Rightarrow> event_db \<Rightarrow> exn + event_db" where
  "save_certificate c s =
     try_then (of_option DoesNotExist (certificate_row (ct_id c) s)) (\<lambda>original.
       if issuance c \<noteq> issuance original then Inl ValidationError
       else if ct_status c \<noteq> ct_status original \<and> \<not> certificate_allowed (ct_status original) (ct_status c)
       then Inl ValidationError
       else if artifact_frozen original \<and> artifact c \<noteq> artifact original then Inl ValidationError
       else Inr (s\<lparr>certificates := row_put ct_id c (certificates s)\<rparr>))"

definition live_certificate :: "certificate \<Rightarrow> bool" where
  "live_certificate c \<longleftrightarrow> ct_status c \<noteq> CertRevoked"

text \<open>
  The unique constraints: a revision is used once, a registration has one certificate that is not
  revoked, and a serial number, with the object key that is made of it, names one certificate.
\<close>

definition certificate_clash :: "certificate \<Rightarrow> certificate \<Rightarrow> bool" where
  "certificate_clash c d \<longleftrightarrow>
     ct_registration d = ct_registration c \<and> ct_revision d = ct_revision c \<or>
     ct_registration d = ct_registration c \<and> live_certificate c \<and> live_certificate d \<or>
     ct_serial d = ct_serial c"

section \<open>Creating\<close>

definition certificates_of :: "nat \<Rightarrow> event_db \<Rightarrow> certificate list" where
  "certificates_of r s = filter (\<lambda>c. ct_registration c = r) (certificates s)"

definition next_revision :: "nat \<Rightarrow> event_db \<Rightarrow> nat" where
  "next_revision r s = foldr max (map ct_revision (certificates_of r s)) 0 + 1"

definition new_certificate :: "nat \<Rightarrow> nat \<Rightarrow> nat \<Rightarrow> nat \<Rightarrow> registration \<Rightarrow> event \<Rightarrow> certificate" where
  "new_certificate i resp serial revision r ev =
     \<lparr>ct_id = i, ct_response = resp, ct_registration = rg_id r, ct_serial = serial, ct_revision = revision,
      ct_recipient = rg_name r, ct_title = ev_title ev, ct_starts = ev_starts ev, ct_ends = ev_ends ev,
      ct_size = None, ct_digest = [], ct_status = CertPending, ct_rendered = None, ct_revoked = None,
      ct_revoked_by = None, ct_reason = None\<rparr>"

definition create_pending :: "event_env \<Rightarrow> response \<Rightarrow> event_db \<Rightarrow> exn + (certificate \<times> event_db)" where
  "create_pending env resp s =
     (case rp_registration resp of
        None \<Rightarrow> Inl EventInvalidTransition
      | Some i \<Rightarrow>
          try_then (of_option DoesNotExist (registration_row i s)) (\<lambda>r.
          if rg_status r \<noteq> RegAttended then Inl EventInvalidTransition
          else try_then (of_option DoesNotExist (event_row (rg_event r) s)) (\<lambda>ev.
            let c = new_certificate (fresh_key ct_id (certificates s)) (rp_id resp) (fresh_uuid env) (next_revision i s) r ev
            in if list_ex (certificate_clash c) (certificates s) then Inl IntegrityError
               else Inr (c, s\<lparr>certificates := certificates s @ [c]\<rparr>))))"

section \<open>Rendering and revoking\<close>

definition reason_text :: "revocation_reason \<Rightarrow> string" where
  "reason_text r = (case r of AttendanceCorrected \<Rightarrow> ''attendance_corrected''
     | EventWasCancelled \<Rightarrow> ''event_cancelled'' | StaffRevoked \<Rightarrow> ''staff_revoked'')"

definition locked_certificate :: "nat \<Rightarrow> event_db \<Rightarrow> exn + (event \<times> registration \<times> certificate)" where
  "locked_certificate i s =
     try_then (of_option DoesNotExist (certificate_row i s)) (\<lambda>c.
     try_then (of_option DoesNotExist (registration_row (ct_registration c) s)) (\<lambda>r.
     try_then (locked_event (rg_event r) s) (\<lambda>ev. Inr (ev, r, c))))"

definition revoked_meta :: "revocation_reason \<Rightarrow> certificate \<Rightarrow> (string \<times> meta_value) list" where
  "revoked_meta reason c = [(''reason'', MStr (reason_text reason)), (''revision'', MInt (int (ct_revision c)))]"

definition revoke_row :: "event_env \<Rightarrow> nat option \<Rightarrow> revocation_reason \<Rightarrow> certificate \<Rightarrow> certificate" where
  "revoke_row env actor reason c =
     c\<lparr>ct_status := CertRevoked, ct_revoked := Some (event_time env), ct_revoked_by := actor, ct_reason := Some reason\<rparr>"

definition revoke_certificate ::
  "event_env \<Rightarrow> nat \<Rightarrow> nat option \<Rightarrow> revocation_reason \<Rightarrow> event_db \<Rightarrow> exn + event_db" where
  "revoke_certificate env i actor reason s =
     try_then (locked_certificate i s) (\<lambda>(ev, _, c).
       if ct_status c = CertRevoked then Inl EventInvalidTransition
       else try_then (save_certificate (revoke_row env actor reason c) s) (\<lambda>s.
         Inr (event_audit actor ''event.certificate_revoked'' ev (''certificate'', i) (revoked_meta reason c) s)))"

definition require_certifiable_event :: "event \<Rightarrow> exn + unit" where
  "require_certifiable_event ev = require (ev_status ev \<in> {EventPublished, EventCompleted}) EventInvalidTransition"

definition claim_render :: "nat \<Rightarrow> event_db \<Rightarrow> exn + (certificate \<times> event_db)" where
  "claim_render i s =
     try_then (locked_certificate i s) (\<lambda>(ev, r, c).
     try_then (require_certifiable_event ev) (\<lambda>_.
       if rg_status r \<noteq> RegAttended then Inl EventInvalidTransition
       else if ct_status c = CertActive then Inr (c, s)
       else if ct_status c = CertRendering then Inl EventInvalidTransition
       else if ct_status c = CertRevoked then Inl EventInvalidTransition
       else let c = c\<lparr>ct_status := CertRendering\<rparr>
            in try_then (save_certificate c s) (\<lambda>s. Inr (c, s))))"

text \<open>The bytes are charged to the storage quota of the makerspace in the same transaction.\<close>

definition charge_document :: "event_env \<Rightarrow> nat \<Rightarrow> int \<Rightarrow> event_db \<Rightarrow> exn + event_db" where
  "charge_document env ms bytes s =
     try_then (get_makerspace ms (pay_base (ev_pay s))) (\<lambda>m.
     try_then (add_storage (quota_env env) m bytes (pay_base (ev_pay s))) (\<lambda>(_, base).
       Inr (s\<lparr>ev_pay := (ev_pay s)\<lparr>pay_base := base\<rparr>\<rparr>)))"

definition activate_certificate :: "event_env \<Rightarrow> nat \<Rightarrow> int \<Rightarrow> string \<Rightarrow> event_db \<Rightarrow> exn + (certificate \<times> event_db)" where
  "activate_certificate env i bytes digest s =
     try_then (locked_certificate i s) (\<lambda>(ev, r, c).
     try_then (require_certifiable_event ev) (\<lambda>_.
       if rg_status r \<noteq> RegAttended then Inl EventInvalidTransition
       else if ct_status c = CertActive then Inr (c, s)
       else if ct_status c \<noteq> CertRendering then Inl EventInvalidTransition
       else try_then (charge_document env (ev_makerspace ev) bytes s) (\<lambda>s.
         let c = c\<lparr>ct_size := Some bytes, ct_digest := digest, ct_rendered := Some (event_time env), ct_status := CertActive\<rparr>
         in try_then (save_certificate c s) (\<lambda>s.
              Inr (c, event_audit None ''event.certificate_rendered'' ev (''certificate'', i)
                        [(''revision'', MInt (int (ct_revision c))), (''size_bytes'', MInt bytes)] s)))))"

definition fail_render :: "nat \<Rightarrow> event_db \<Rightarrow> exn + event_db" where
  "fail_render i s =
     try_then (locked_certificate i s) (\<lambda>(ev, _, c).
       if ct_status c \<noteq> CertRendering then Inr s
       else try_then (save_certificate (c\<lparr>ct_status := CertFailed\<rparr>) s) (\<lambda>s.
         Inr (event_audit None ''event.certificate_render_failed'' ev (''certificate'', i)
                [(''revision'', MInt (int (ct_revision c)))] s)))"

text \<open>
  The whole rendering by one worker that nobody disturbs. The transactions commit one by one, so the
  state comes with the exception, too: a failure is recorded, and any exception but the two of the
  service is reported as an unavailable store.
\<close>

definition after_failure :: "nat \<Rightarrow> exn \<Rightarrow> event_db \<Rightarrow> (exn + certificate) \<times> event_db" where
  "after_failure i e s =
     (Inl (if e \<in> {EventInvalidTransition, CertificateStorageUnavailable} then e else CertificateStorageUnavailable),
      case fail_render i s of Inl _ \<Rightarrow> s | Inr t \<Rightarrow> t)"

definition render_certificate :: "event_env \<Rightarrow> nat \<Rightarrow> event_db \<Rightarrow> (exn + certificate) \<times> event_db" where
  "render_certificate env i s =
     (case claim_render i s of
        Inl e \<Rightarrow> (Inl e, s)
      | Inr (c, s) \<Rightarrow>
          if ct_status c = CertActive then (Inr c, s)
          else (case stored_pdf env c of
                  Inl e \<Rightarrow> after_failure i e s
                | Inr (bytes, digest) \<Rightarrow>
                    (case activate_certificate env i bytes digest s of
                       Inl e \<Rightarrow> after_failure i e s
                     | Inr (c, s) \<Rightarrow> (Inr c, s))))"

definition download_certificate :: "event_env \<Rightarrow> certificate \<Rightarrow> event_db \<Rightarrow> (exn + certificate) \<times> event_db" where
  "download_certificate env c s =
     (if ct_status c = CertRevoked then (Inl EventInvalidTransition, s)
      else (case (if ct_status c \<in> {CertPending, CertFailed} then render_certificate env (ct_id c) s else (Inr c, s)) of
              (Inl e, s) \<Rightarrow> (Inl e, s)
            | (Inr c, s) \<Rightarrow>
                if ct_status c \<noteq> CertActive then (Inl EventInvalidTransition, s) else (Inr c, s)))"

text \<open>A new revision after a revocation, from the latest feedback of the registration.\<close>

definition latest_response :: "nat \<Rightarrow> event_db \<Rightarrow> response option" where
  "latest_response r s =
     (case rev (sort_key (\<lambda>p. (rp_created p, rp_id p)) (filter (\<lambda>p. rp_registration p = Some r) (responses s))) of
        [] \<Rightarrow> None | p # _ \<Rightarrow> Some p)"

definition reissue_certificate :: "event_env \<Rightarrow> nat \<Rightarrow> nat option \<Rightarrow> event_db \<Rightarrow> exn + event_db" where
  "reissue_certificate env i actor s =
     try_then (of_option DoesNotExist (registration_row i s)) (\<lambda>r.
     try_then (locked_event (rg_event r) s) (\<lambda>ev.
     try_then (require_certifiable_event ev) (\<lambda>_.
     try_then (events_module_locked env (ev_makerspace ev) s) (\<lambda>_.
       if rg_status r \<noteq> RegAttended then Inl EventInvalidTransition
       else if list_ex live_certificate (certificates_of i s) then Inl EventInvalidTransition
       else try_then (of_option EventInvalidTransition (latest_response i s)) (\<lambda>resp.
            try_then (create_pending env resp s) (\<lambda>(c, s).
              Inr (event_audit actor ''event.certificate_reissued'' ev (''certificate'', ct_id c)
                     [(''revision'', MInt (int (ct_revision c)))] s)))))))"

end
