(* ===== verification/Event_Services.thy ===== *)
theory Event_Services
  imports Event_Certificates
begin

text \<open>
  Events and registrations (\<open>events/services.py\<close>, \<open>services_lifecycle.py\<close>, \<open>services_registration.py\<close>,
  \<open>services_registration_state.py\<close>, \<open>services_checkin.py\<close>, \<open>services_station.py\<close>,
  \<open>services_checkin_sync.py\<close>). Every service is one transaction, but the synchronisation of a batch of
  check-ins, where each of them is. The names of the changed fields that an update logs are left out.
\<close>

section \<open>Promotion from the waiting list\<close>

text \<open>The waiters by the time they joined, and among those of one instant by their key.\<close>

definition waiters :: "nat \<Rightarrow> event_db \<Rightarrow> registration list" where
  "waiters e s = sort_key (\<lambda>r. (rg_created r, rg_id r))
     (filter (\<lambda>r. rg_event r = e \<and> rg_status r = RegWaitlisted) (registrations s))"

definition promote_one :: "event_env \<Rightarrow> event \<Rightarrow> nat option \<Rightarrow> string \<Rightarrow> registration \<Rightarrow> event_db \<Rightarrow> exn + event_db" where
  "promote_one env ev actor mode r s =
     try_then (move_registration env r RegRegistered s) (\<lambda>s.
       let s = create_for_registered_registration env ev r actor s;
           s = event_audit actor ''event.registration_promoted'' ev (''registration'', rg_id r)
                 [(''registration_id'', MInt (int (rg_id r))), (''promotion_mode'', MStr mode)] s
       in Inr (event_notify ''registration_promoted'' (rg_id r) s))"

definition selected :: "int option \<Rightarrow> registration list \<Rightarrow> registration list" where
  "selected places rs = (case places of None \<Rightarrow> rs | Some n \<Rightarrow> take (nat n) rs)"

definition promote_automatically ::
  "event_env \<Rightarrow> event \<Rightarrow> nat option \<Rightarrow> int option \<Rightarrow> event_db \<Rightarrow> exn + (registration list \<times> event_db)" where
  "promote_automatically env ev actor places s =
     (if ev_approval ev then Inr ([], s)
      else let rs = selected places (waiters (ev_id ev) s)
           in try_then (for_each (promote_one env ev actor ''automatic_fifo'') rs s) (\<lambda>s. Inr (rs, s)))"

definition may_promote :: "event \<Rightarrow> int \<Rightarrow> bool" where
  "may_promote ev time \<longleftrightarrow> ev_status ev = EventPublished \<and> time \<le> ev_ends ev"

section \<open>Events\<close>

definition new_event :: "nat \<Rightarrow> nat \<Rightarrow> nat option \<Rightarrow> int \<Rightarrow> event" where
  "new_event i ms actor time =
     \<lparr>ev_id = i, ev_makerspace = ms, ev_title = [], ev_description = [], ev_starts = 0, ev_ends = 0,
      ev_location = [], ev_location_kind = ''other'', ev_form = JNull, ev_capacity = 0, ev_amount = 0,
      ev_approval = False, ev_cutoff_at = None, ev_cutoff_lead = None, ev_public = False, ev_zone = [],
      ev_status = EventDraft, ev_sequence = 0, ev_touched = time, ev_created_by = actor\<rparr>"

text \<open>The fields of an event; \<open>SetUnknown\<close> is a keyword that is not one of them.\<close>

datatype event_change =
    SetTitle string | SetEventDescription string | SetStarts int | SetEnds int | SetEventLocation string
  | SetLocationKind string | SetEventForm json | SetEventCapacity int | SetEventPublic bool | SetEventAmount int
  | SetApproval bool | SetCutoffAt "int option" | SetCutoffLead "int option" | SetZone string | SetUnknown

fun canonical_event_change :: "event_change \<Rightarrow> exn + event_change" where
  "canonical_event_change (SetEventForm v) = try_then (canonical_form v) (\<lambda>f. Inr (SetEventForm f))"
| "canonical_event_change c = Inr c"

fun apply_event_change :: "event_change \<Rightarrow> event \<Rightarrow> event" where
  "apply_event_change (SetTitle x) ev = ev\<lparr>ev_title := x\<rparr>"
| "apply_event_change (SetEventDescription x) ev = ev\<lparr>ev_description := x\<rparr>"
| "apply_event_change (SetStarts x) ev = ev\<lparr>ev_starts := x\<rparr>"
| "apply_event_change (SetEnds x) ev = ev\<lparr>ev_ends := x\<rparr>"
| "apply_event_change (SetEventLocation x) ev = ev\<lparr>ev_location := x\<rparr>"
| "apply_event_change (SetLocationKind x) ev = ev\<lparr>ev_location_kind := x\<rparr>"
| "apply_event_change (SetEventForm x) ev = ev\<lparr>ev_form := x\<rparr>"
| "apply_event_change (SetEventCapacity x) ev = ev\<lparr>ev_capacity := x\<rparr>"
| "apply_event_change (SetEventPublic x) ev = ev\<lparr>ev_public := x\<rparr>"
| "apply_event_change (SetEventAmount x) ev = ev\<lparr>ev_amount := x\<rparr>"
| "apply_event_change (SetApproval x) ev = ev\<lparr>ev_approval := x\<rparr>"
| "apply_event_change (SetCutoffAt x) ev = ev\<lparr>ev_cutoff_at := x\<rparr>"
| "apply_event_change (SetCutoffLead x) ev = ev\<lparr>ev_cutoff_lead := x\<rparr>"
| "apply_event_change (SetZone x) ev = ev\<lparr>ev_zone := x\<rparr>"
| "apply_event_change SetUnknown ev = ev"

text \<open>The fields a calendar shows.\<close>

fun calendar_field :: "event_change \<Rightarrow> bool" where
  "calendar_field (SetTitle x) = True"
| "calendar_field (SetEventDescription x) = True"
| "calendar_field (SetStarts x) = True"
| "calendar_field (SetEnds x) = True"
| "calendar_field (SetEventLocation x) = True"
| "calendar_field (SetZone x) = True"
| "calendar_field (SetEventPublic x) = True"
| "calendar_field _ = False"

text \<open>\<open>Event.save\<close> strips the title of the row it stores.\<close>

definition saved_event :: "event \<Rightarrow> event" where
  "saved_event ev = ev\<lparr>ev_title := strip (ev_title ev)\<rparr>"

lemma saved_event_fields [simp]:
  "ev_id (saved_event ev) = ev_id ev" "ev_status (saved_event ev) = ev_status ev"
  "ev_capacity (saved_event ev) = ev_capacity ev"
  by (simp_all add: saved_event_def)

definition create_event_draft :: "event_env \<Rightarrow> nat \<Rightarrow> nat option \<Rightarrow> string \<Rightarrow> string \<Rightarrow> int \<Rightarrow> int \<Rightarrow> string \<Rightarrow> string \<Rightarrow>
  json \<Rightarrow> int \<Rightarrow> int \<Rightarrow> bool \<Rightarrow> int option \<Rightarrow> int option \<Rightarrow> bool \<Rightarrow> string option \<Rightarrow> event_db \<Rightarrow> exn + (event \<times> event_db)" where
  "create_event_draft env ms actor title description starts ends location kind form capacity amount approval cutoff_at
     cutoff_lead public zone s =
     try_then (events_module_locked env ms s) (\<lambda>_.
     try_then (canonical_form form) (\<lambda>form.
       let ev = (new_event (fresh_key ev_id (events s)) ms actor (event_time env))
                  \<lparr>ev_title := title, ev_description := description, ev_starts := starts, ev_ends := ends,
                   ev_location := location, ev_location_kind := kind, ev_form := form, ev_capacity := capacity,
                   ev_amount := amount, ev_approval := approval, ev_cutoff_at := cutoff_at,
                   ev_cutoff_lead := cutoff_lead, ev_public := public,
                   ev_zone := (case zone of None \<Rightarrow> default_zone env | Some z \<Rightarrow> if z = [] then default_zone env else z)\<rparr>
       in try_then (validate_event env ev) (\<lambda>_.
          let ev = saved_event ev
          in Inr (ev, event_audit actor ''event.created'' ev (''event'', ev_id ev) [] (s\<lparr>events := events s @ [ev]\<rparr>)))))"

text \<open>What an update saves, only the changed columns, and what it logs.\<close>

definition is_title :: "event_change \<Rightarrow> bool" where
  "is_title c = (case c of SetTitle _ \<Rightarrow> True | _ \<Rightarrow> False)"

definition save_event_changes :: "event_env \<Rightarrow> event_change list \<Rightarrow> event \<Rightarrow> event_db \<Rightarrow> event_db" where
  "save_event_changes env changes ev s =
     (if changes = [] then s
      else let s = put_event (if list_ex is_title changes then saved_event ev else ev) s
           in if list_ex calendar_field changes then calendar_event_changed env (ev_id ev) s else s)"

definition updated_meta :: "bool \<Rightarrow> int \<Rightarrow> int \<Rightarrow> registration list \<Rightarrow> (string \<times> meta_value) list" where
  "updated_meta changed old new chosen =
     (if changed then [(''old_capacity'', MInt old), (''new_capacity'', MInt new)] else []) @
     (if changed \<or> chosen \<noteq> [] then [(''promoted_registration_ids'', MIds (map rg_id chosen))] else [])"

text \<open>Waiters are promoted when the event may promote and has no limit or a place left.\<close>

definition promote_after_update :: "event_env \<Rightarrow> event \<Rightarrow> nat option \<Rightarrow> event_db \<Rightarrow> exn + (registration list \<times> event_db)" where
  "promote_after_update env ev actor s =
     (let occupied = confirmed_occupancy (ev_id ev) s
      in if may_promote ev (event_time env) \<and> (ev_capacity ev = 0 \<or> occupied < ev_capacity ev) \<and> \<not> ev_approval ev
         then promote_automatically env ev actor (if ev_capacity ev = 0 then None else Some (ev_capacity ev - occupied)) s
         else Inr ([], s))"

definition is_capacity :: "event_change \<Rightarrow> bool" where
  "is_capacity c = (case c of SetEventCapacity _ \<Rightarrow> True | _ \<Rightarrow> False)"

definition update_event :: "event_env \<Rightarrow> nat \<Rightarrow> nat option \<Rightarrow> event_change list \<Rightarrow> event_db \<Rightarrow> exn + event_db" where
  "update_event env i actor changes s =
     try_then (locked_event i s) (\<lambda>old.
       if ev_status old \<notin> {EventDraft, EventPublished} then Inl EventInvalidTransition
       else if SetUnknown \<in> set changes then Inl ValidationError
       else try_then (collect canonical_event_change changes) (\<lambda>changes.
       if SetApproval (\<not> ev_approval old) \<in> set changes \<and> ev_status old \<noteq> EventDraft then Inl EventInvalidTransition
       else let ev = fold apply_event_change changes old; occupied = confirmed_occupancy i s
            in try_then (validate_event env ev) (\<lambda>_.
               if 0 < ev_capacity ev \<and> ev_capacity ev < occupied then Inl CapacityConflict
               else try_then (if ev_status ev = EventPublished \<and> ev_ends old < event_time env \<and> event_time env \<le> ev_ends ev
                              then check_event_quota env (ev_makerspace ev) s else Inr ()) (\<lambda>_.
                 try_then (promote_after_update env ev actor s) (\<lambda>(chosen, s).
                   let changed = list_ex is_capacity changes \<and> ev_capacity ev \<noteq> ev_capacity old
                   in Inr (event_audit actor ''event.updated'' ev (''event'', i)
                        (updated_meta changed (ev_capacity old) (ev_capacity ev) chosen)
                        (save_event_changes env changes ev s)))))))"

section \<open>The life of an event\<close>

text \<open>The new status is saved, with it the sequence of the calendar; then it is logged and notified.\<close>

definition move_event :: "event_env \<Rightarrow> nat option \<Rightarrow> string \<Rightarrow> string \<Rightarrow> bool \<Rightarrow> event \<Rightarrow> event_status \<Rightarrow> event_db \<Rightarrow> event_db" where
  "move_event env actor action name notified ev st s =
     (let s = calendar_event_changed env (ev_id ev) (put_event (ev\<lparr>ev_status := st\<rparr>) s);
          s = event_audit actor action ev (''event'', ev_id ev)
                [(''old_status'', MStr (event_text (ev_status ev))), (''new_status'', MStr (event_text st))] s
      in if notified then event_notify name (ev_id ev) s else s)"

definition publish_event :: "event_env \<Rightarrow> nat \<Rightarrow> nat option \<Rightarrow> event_db \<Rightarrow> exn + event_db" where
  "publish_event env i actor s =
     try_then (locked_event i s) (\<lambda>ev.
       if ev_status ev \<noteq> EventDraft then Inl EventInvalidTransition
       else try_then (validate_event env ev) (\<lambda>_.
         if ev_ends ev < event_time env then Inl EventInvalidTransition
         else try_then (events_module_locked env (ev_makerspace ev) s) (\<lambda>_.
              try_then (check_event_quota env (ev_makerspace ev) s) (\<lambda>_.
                Inr (move_event env actor ''event.published'' ''published'' True ev EventPublished s)))))"

definition close_survey_of :: "event_env \<Rightarrow> event \<Rightarrow> nat option \<Rightarrow> event_db \<Rightarrow> event_db" where
  "close_survey_of env ev actor s =
     (case survey_row (ev_id ev) s of
        None \<Rightarrow> s
      | Some v \<Rightarrow>
          if \<not> sv_open v then s
          else event_audit actor ''event.feedback_survey_closed'' ev (''survey'', sv_id v)
                 [(''reason'', MStr ''event_cancelled'')]
                 (s\<lparr>surveys := row_put sv_event (v\<lparr>sv_open := False, sv_closed := Some (event_time env)\<rparr>) (surveys s)\<rparr>))"

text \<open>The certificates of an event that are not revoked, by registration and key.\<close>

definition event_certificates :: "nat \<Rightarrow> event_db \<Rightarrow> certificate list" where
  "event_certificates e s = sort_key (\<lambda>c. (ct_registration c, ct_id c))
     (filter (\<lambda>c. live_certificate c \<and>
        (case registration_row (ct_registration c) s of None \<Rightarrow> False | Some r \<Rightarrow> rg_event r = e)) (certificates s))"

definition cancel_event :: "event_env \<Rightarrow> nat \<Rightarrow> nat option \<Rightarrow> bool \<Rightarrow> event_db \<Rightarrow> exn + event_db" where
  "cancel_event env i actor notified s =
     try_then (locked_event i s) (\<lambda>ev.
       if ev_status ev \<noteq> EventPublished then Inl EventInvalidTransition
       else try_then (for_each (\<lambda>c. revoke_certificate env (ct_id c) actor EventWasCancelled) (event_certificates i s)
                        (close_survey_of env ev actor s)) (\<lambda>s.
              Inr (move_event env actor ''event.cancelled'' ''cancelled'' notified ev EventCancelled s)))"

definition complete_event :: "event_env \<Rightarrow> nat \<Rightarrow> nat option \<Rightarrow> event_db \<Rightarrow> exn + event_db" where
  "complete_event env i actor s =
     try_then (locked_event i s) (\<lambda>ev.
       if ev_status ev \<noteq> EventPublished then Inl EventInvalidTransition
       else Inr (move_event env actor ''event.completed'' ''completed'' True ev EventCompleted s))"

section \<open>Registering\<close>

text \<open>The account comes first, the contact given is the fallback for an address and a number.\<close>

definition nonempty :: "string \<Rightarrow> string option \<Rightarrow> string" where
  "nonempty x y = (if x \<noteq> [] then x else case y of None \<Rightarrow> [] | Some z \<Rightarrow> z)"

definition registrant ::
  "member_user option \<Rightarrow> string option \<Rightarrow> string option \<Rightarrow> string option \<Rightarrow> string \<times> string \<times> string" where
  "registrant member name email phone =
     (let (n, e, p) = (case member of
          Some m \<Rightarrow> (nonempty (mu_display_name m) (Some (nonempty (mu_full_name m) (Some (mu_username m)))),
                     nonempty (mu_email m) email, nonempty (mu_phone m) phone)
        | None \<Rightarrow> (nonempty [] name, nonempty [] email, nonempty [] phone))
      in (strip n, lowercase (strip e), strip p))"

text \<open>The first row of the member in this event, else the row with the address.\<close>

definition existing_registration :: "nat \<Rightarrow> nat option \<Rightarrow> string \<Rightarrow> event_db \<Rightarrow> registration option" where
  "existing_registration e member email s =
     (case sort_key (\<lambda>r. (rg_created r, rg_id r))
             (filter (\<lambda>r. rg_event r = e \<and> member \<noteq> None \<and> rg_member r = member) (registrations s)) of
        r # _ \<Rightarrow> Some r
      | [] \<Rightarrow> find (\<lambda>r. rg_event r = e \<and> rg_email r = email) (registrations s))"

definition record_registration ::
  "event_env \<Rightarrow> event \<Rightarrow> nat option \<Rightarrow> registration \<Rightarrow> registration_status \<Rightarrow> event_db \<Rightarrow> event_db" where
  "record_registration env ev actor r st s =
     (let s = event_audit actor ''event.registration_created'' ev (''registration'', rg_id r)
                [(''registration_id'', MInt (int (rg_id r))), (''status'', MStr (registration_text st))] s;
          s = (if st = RegPending
               then event_audit actor ''event.registration_approval_requested'' ev (''registration'', rg_id r)
                      [(''registration_id'', MInt (int (rg_id r)))] s else s);
          s = event_notify (if st = RegPending then ''registration_pending_approval''
                else if st = RegWaitlisted then ''registration_waitlisted'' else ''registration_created'') (rg_id r) s
      in if st = RegRegistered then create_for_registered_registration env ev r actor s else s)"

definition new_registration :: "event_env \<Rightarrow> nat \<Rightarrow> event \<Rightarrow> nat option \<Rightarrow> nat \<Rightarrow> string \<times> string \<times> string \<Rightarrow>
  answer list option \<Rightarrow> registration_status \<Rightarrow> registration" where
  "new_registration env i ev member via contact answers st =
     (case contact of (name, email, phone) \<Rightarrow>
        \<lparr>rg_id = i, rg_event = ev_id ev, rg_token = fresh_uuid env, rg_name = name, rg_email = email, rg_phone = phone,
         rg_member = member, rg_via = Some via, rg_pay_via = Some via, rg_answers = answers, rg_status = st,
         rg_sequence = 0, rg_touched = event_time env, rg_created = event_time env\<rparr>)"

definition renewed_registration :: "event_env \<Rightarrow> registration \<Rightarrow> nat option \<Rightarrow> nat \<Rightarrow> string \<times> string \<times> string \<Rightarrow>
  answer list option \<Rightarrow> registration_status \<Rightarrow> registration" where
  "renewed_registration env r member via contact answers st =
     (case contact of (name, email, phone) \<Rightarrow>
        r\<lparr>rg_member := (case member of None \<Rightarrow> rg_member r | Some m \<Rightarrow> Some m), rg_via := Some via, rg_pay_via := Some via,
          rg_name := name, rg_email := email, rg_phone := phone, rg_answers := answers, rg_status := st,
          rg_created := event_time env\<rparr>)"

definition renew_registration :: "event_env \<Rightarrow> event \<Rightarrow> nat option \<Rightarrow> registration \<Rightarrow> event_db \<Rightarrow> exn + event_db" where
  "renew_registration env ev actor r s =
     try_then (validate_registration r) (\<lambda>_.
     try_then (save_registration r s) (\<lambda>s.
       Inr (record_registration env ev actor r (rg_status r) (calendar_registration_changed env (rg_id r) s))))"

definition add_registration :: "event_env \<Rightarrow> event \<Rightarrow> nat option \<Rightarrow> registration \<Rightarrow> event_db \<Rightarrow> exn + event_db" where
  "add_registration env ev actor r s =
     try_then (validate_registration r) (\<lambda>_.
     try_then (insert_registration r s) (\<lambda>s. Inr (record_registration env ev actor r (rg_status r) s)))"

definition registration_closed :: "event \<Rightarrow> int \<Rightarrow> exn" where
  "registration_closed ev time =
     (if ev_status ev = EventPublished \<and> time < ev_ends ev \<and>
         (case effective_registration_cutoff ev of None \<Rightarrow> False | Some c \<Rightarrow> c \<le> time)
      then RegistrationClosed else EventInvalidTransition)"

definition register :: "event_env \<Rightarrow> nat \<Rightarrow> nat \<Rightarrow> member_user option \<Rightarrow> string option \<Rightarrow> string option \<Rightarrow> string option \<Rightarrow>
  json \<Rightarrow> nat option \<Rightarrow> bool \<Rightarrow> nat option \<Rightarrow> bool \<Rightarrow> event_db \<Rightarrow> exn + event_db" where
  "register env i ms member name email phone answers actor staff via collaborative s =
     (if event_fenced env ms then Inl PiiWriteFenced
      else try_then (locked_event i s) (\<lambda>ev.
      try_then (events_module_locked env (ev_makerspace ev) s) (\<lambda>_.
        if \<not> ev_public ev \<and> \<not> staff \<and> \<not> collaborative then Inl EventInvalidTransition
        else if \<not> registration_is_open ev (event_time env) then Inl (registration_closed ev (event_time env))
        else try_then (form_checked (validate_answers (ev_form ev) answers)) (\<lambda>checked.
          let contact = registrant member name email phone; st = fresh_registration_status ev s;
              m = map_option mu_id member; route = (case via of None \<Rightarrow> ev_makerspace ev | Some v \<Rightarrow> v)
          in case existing_registration i m (fst (snd contact)) s of
               None \<Rightarrow> add_registration env ev actor
                         (new_registration env (fresh_key rg_id (registrations s)) ev m route contact checked st) s
             | Some r \<Rightarrow>
                 (if rg_status r = RegCancelled
                  then renew_registration env ev actor (renewed_registration env r m route contact checked st) s
                  else if rg_status r = RegRejected then Inl RegistrationRejected
                  else Inl (DuplicateRegistration (registration_text (rg_status r))))))))"

end
