(* ===== verification/Event_Attendance.thy ===== *)
theory Event_Attendance
  imports Event_Services
begin

text \<open>
  What happens to a registration (\<open>events/services_registration_state.py\<close>): the decisions on it, its
  cancellation, and attendance: checking in (\<open>services_checkin.py\<close>), the check-in stations
  (\<open>services_station.py\<close>) and the synchronisation of check-ins recorded offline
  (\<open>services_checkin_sync.py\<close>, \<open>checkin_policy.py\<close>), where each operation is a transaction of its own.
\<close>

section \<open>Decisions\<close>

definition locked_registration :: "registration \<Rightarrow> event_db \<Rightarrow> exn + (event \<times> registration)" where
  "locked_registration seen s =
     try_then (locked_event (rg_event seen) s) (\<lambda>ev.
     try_then (of_option DoesNotExist (registration_row (rg_id seen) s)) (\<lambda>r.
       if rg_event r \<noteq> ev_id ev then Inl EventInvalidTransition else Inr (ev, r)))"

definition decision_is_open :: "event_env \<Rightarrow> event \<Rightarrow> bool" where
  "decision_is_open env ev \<longleftrightarrow> ev_status ev = EventPublished \<and> event_time env < ev_ends ev"

definition registration_id_meta :: "registration \<Rightarrow> (string \<times> meta_value) list" where
  "registration_id_meta r = [(''registration_id'', MInt (int (rg_id r)))]"

definition approve_registration :: "event_env \<Rightarrow> registration \<Rightarrow> nat option \<Rightarrow> event_db \<Rightarrow> exn + event_db" where
  "approve_registration env seen actor s =
     try_then (locked_registration seen s) (\<lambda>(ev, r).
       if \<not> ev_approval ev \<or> rg_status r \<noteq> RegPending \<or> \<not> decision_is_open env ev then Inl EventInvalidTransition
       else let st = (if spot_free ev s then RegRegistered else RegWaitlisted)
            in try_then (move_registration env r st s) (\<lambda>s.
                 let s = (if st = RegRegistered then create_for_registered_registration env ev r actor s else s);
                     s = event_audit actor ''event.registration_approved'' ev (''registration'', rg_id r)
                           (registration_id_meta r @
                            [(''old_status'', MStr (registration_text RegPending)),
                             (''new_status'', MStr (registration_text st)),
                             (''capacity_result'', MStr (if st = RegRegistered then ''confirmed'' else ''waitlisted_full''))]) s
                 in Inr (event_notify ''registration_approved'' (rg_id r) s)))"

definition reject_registration :: "event_env \<Rightarrow> registration \<Rightarrow> nat option \<Rightarrow> event_db \<Rightarrow> exn + event_db" where
  "reject_registration env seen actor s =
     try_then (locked_registration seen s) (\<lambda>(ev, r).
       if rg_status r \<notin> {RegPending, RegWaitlisted} then Inl EventInvalidTransition
       else try_then (move_registration env r RegRejected s) (\<lambda>s.
         Inr (event_notify ''registration_rejected'' (rg_id r)
                (event_audit actor ''event.registration_rejected'' ev (''registration'', rg_id r)
                   (registration_id_meta r @
                    [(''old_status'', MStr (registration_text (rg_status r))),
                     (''new_status'', MStr (registration_text RegRejected))]) s))))"

definition promote_registration :: "event_env \<Rightarrow> registration \<Rightarrow> nat option \<Rightarrow> event_db \<Rightarrow> exn + event_db" where
  "promote_registration env seen actor s =
     try_then (locked_registration seen s) (\<lambda>(ev, r).
       if \<not> ev_approval ev \<or> rg_status r \<noteq> RegWaitlisted \<or> \<not> decision_is_open env ev then Inl EventInvalidTransition
       else if \<not> spot_free ev s then Inl CapacityConflict
       else promote_one env ev actor ''manual'' r s)"

text \<open>A place that a cancellation frees goes to the first waiter, unless places are given by approval.\<close>

definition cancel_registration :: "event_env \<Rightarrow> registration \<Rightarrow> nat option \<Rightarrow> event_db \<Rightarrow> exn + event_db" where
  "cancel_registration env seen actor s =
     try_then (locked_registration seen s) (\<lambda>(ev, r).
       if rg_status r \<notin> {RegPending, RegRegistered, RegWaitlisted} then Inl EventInvalidTransition
       else try_then (move_registration env r RegCancelled s) (\<lambda>s.
         let s = event_audit actor ''event.registration_cancelled'' ev (''registration'', rg_id r)
                   (registration_id_meta r @ [(''old_status'', MStr (registration_text (rg_status r)))]) s;
             s = event_notify ''registration_cancelled'' (rg_id r) s;
             s = cancel_for_registration env ev r actor s
         in if rg_status r = RegRegistered \<and> \<not> ev_approval ev \<and> 0 < ev_capacity ev \<and> may_promote ev (event_time env)
            then try_then (promote_automatically env ev actor (Some 1) s) (\<lambda>(_, s). Inr s)
            else Inr s))"

text \<open>An attendance taken back revokes the certificate that is active.\<close>

definition revoke_active :: "event_env \<Rightarrow> event \<Rightarrow> nat option \<Rightarrow> certificate \<Rightarrow> event_db \<Rightarrow> exn + event_db" where
  "revoke_active env ev actor c s =
     try_then (save_certificate (revoke_row env actor AttendanceCorrected c) s) (\<lambda>s.
       Inr (event_audit actor ''event.certificate_revoked'' ev (''certificate'', ct_id c) (revoked_meta AttendanceCorrected c) s))"

definition active_certificates :: "nat \<Rightarrow> event_db \<Rightarrow> certificate list" where
  "active_certificates i s = filter (\<lambda>c. ct_status c = CertActive) (certificates_of i s)"

definition correct_attendance :: "event_env \<Rightarrow> registration \<Rightarrow> nat option \<Rightarrow> event_db \<Rightarrow> exn + event_db" where
  "correct_attendance env seen actor s =
     try_then (locked_registration seen s) (\<lambda>(ev, r).
       if rg_status r \<noteq> RegAttended then Inl EventInvalidTransition
       else let cs = active_certificates (rg_id r) s
            in try_then (save_reg_status r RegRegistered s) (\<lambda>s.
               try_then (for_each (revoke_active env ev actor) cs s) (\<lambda>s.
                 Inr (event_audit actor ''event.registration_attendance_corrected'' ev (''registration'', rg_id r)
                        (registration_id_meta r @ [(''revoked_certificates'', MInt (int (length cs)))]) s))))"

section \<open>Checking in\<close>

definition source_text :: "check_in_source \<Rightarrow> string" where
  "source_text src = (case src of SourceOnline \<Rightarrow> ''online'' | SourceQr \<Rightarrow> ''qr'' | SourceOffline \<Rightarrow> ''offline_sync''
     | SourceStation \<Rightarrow> ''venue_station'' | SourceLegacy \<Rightarrow> ''legacy'')"

text \<open>The check constraint of the table, which \<open>full_clean\<close> validates.\<close>

definition source_consistent :: "check_in \<Rightarrow> bool" where
  "source_consistent c \<longleftrightarrow>
     ci_source c \<in> {SourceOnline, SourceQr, SourceOffline} \<and> ci_actor c \<noteq> None \<and> ci_station_version c = None \<or>
     ci_source c = SourceStation \<and> ci_actor c = None \<and> ci_station_version c \<noteq> None \<or>
     ci_source c = SourceLegacy \<and> ci_station_version c = None"

definition station_accepts :: "nat \<Rightarrow> nat option \<Rightarrow> event_db \<Rightarrow> bool" where
  "station_accepts e version s \<longleftrightarrow>
     (case station_row e s of None \<Rightarrow> False | Some st \<Rightarrow> sn_enabled st \<and> Some (sn_version st) = version)"

definition operation_known :: "nat \<Rightarrow> nat \<Rightarrow> event_db \<Rightarrow> bool" where
  "operation_known ms oid s \<longleftrightarrow> list_ex (\<lambda>c. ci_makerspace c = ms \<and> ci_operation c = oid) (check_ins s)"

text \<open>Check-ins are never changed; an operation is recorded once in the whole installation.\<close>

definition record_check_in :: "check_in \<Rightarrow> event_db \<Rightarrow> exn + event_db" where
  "record_check_in c s =
     (if \<not> source_consistent c then Inl ValidationError
      else if list_ex (\<lambda>d. ci_operation d = ci_operation c) (check_ins s) then Inl IntegrityError
      else Inr (s\<lparr>check_ins := check_ins s @ [c]\<rparr>))"

definition check_in_meta :: "registration \<Rightarrow> check_in \<Rightarrow> (string \<times> meta_value) list" where
  "check_in_meta r c = registration_id_meta r @
     [(''check_in_event_id'', MInt (int (ci_id c))), (''source'', MStr (source_text (ci_source c))),
      (''operation_id'', MInt (int (ci_operation c))), (''reported_occurred_at'', MInt (ci_attended c)),
      (''recorded_at'', MInt (ci_recorded c)),
      (''session_id'', case ci_session c of None \<Rightarrow> MNone | Some x \<Rightarrow> MInt (int x)),
      (''station_version'', case ci_station_version c of None \<Rightarrow> MNone | Some x \<Rightarrow> MInt (int x))]"

definition mark_attended :: "event_env \<Rightarrow> registration \<Rightarrow> nat option \<Rightarrow> check_in_source \<Rightarrow> nat option \<Rightarrow> int option \<Rightarrow>
  nat option \<Rightarrow> nat option \<Rightarrow> event_db \<Rightarrow> exn + (check_in \<times> event_db)" where
  "mark_attended env seen actor src operation attended session version s =
     try_then (locked_event (rg_event seen) s) (\<lambda>ev.
     try_then (if src \<in> {SourceOffline, SourceStation} then checkin_feature_locked env (ev_makerspace ev) s else Inr ()) (\<lambda>_.
       if src = SourceStation \<and> \<not> station_accepts (ev_id ev) version s then Inl PermissionDenied
       else let oid = (case operation of None \<Rightarrow> fresh_uuid env | Some x \<Rightarrow> x)
            in if operation_known (ev_makerspace ev) oid s then Inl DuplicateCheckInOperation
               else try_then (locked_registration seen s) (\<lambda>(_, r).
                 if rg_status r \<noteq> RegRegistered \<or> ev_status ev \<notin> {EventPublished, EventCompleted} then Inl EventInvalidTransition
                 else let c = \<lparr>ci_id = fresh_key ci_id (check_ins s), ci_makerspace = ev_makerspace ev, ci_event = ev_id ev,
                                ci_registration = rg_id r, ci_operation = oid, ci_source = src,
                                ci_attended = (case attended of None \<Rightarrow> event_time env | Some t \<Rightarrow> t),
                                ci_recorded = event_time env, ci_actor = actor, ci_session = session,
                                ci_station_version = version\<rparr>
                      in try_then (record_check_in c s) (\<lambda>s.
                         try_then (save_reg_status r RegAttended s) (\<lambda>s.
                           Inr (c, event_notify ''registration_attended'' (rg_id r)
                                  (event_audit actor ''event.registration_attended'' ev (''registration'', rg_id r)
                                     (check_in_meta r c) s)))))))"

section \<open>Stations\<close>

text \<open>A new PIN, whose digest and ciphertext are left out, makes the sessions of the old one invalid.\<close>

definition put_station :: "station \<Rightarrow> event_db \<Rightarrow> event_db" where
  "put_station st s =
     (if station_row (sn_event st) s = None then s\<lparr>stations := stations s @ [st]\<rparr>
      else s\<lparr>stations := row_put sn_event st (stations s)\<rparr>)"

definition station_meta :: "station \<Rightarrow> (string \<times> meta_value) list" where
  "station_meta st = [(''event_id'', MInt (int (sn_event st))), (''station_version'', MInt (int (sn_version st)))]"

definition rotate_station :: "event_env \<Rightarrow> nat \<Rightarrow> nat option \<Rightarrow> event_db \<Rightarrow> exn + event_db" where
  "rotate_station env i actor s =
     try_then (locked_event i s) (\<lambda>ev.
     try_then (checkin_feature_locked env (ev_makerspace ev) s) (\<lambda>_.
     try_then (require (secrets_up env) StationSecretUnavailable) (\<lambda>_.
       let version = (case station_row i s of None \<Rightarrow> 1 | Some st \<Rightarrow> sn_version st + 1);
           st = \<lparr>sn_event = i, sn_version = version, sn_enabled = True, sn_rotated = event_time env, sn_disabled = None\<rparr>
       in Inr (event_audit actor ''event.station_pin_rotated'' ev (''event'', i) (station_meta st) (put_station st s)))))"

definition disable_station :: "event_env \<Rightarrow> nat \<Rightarrow> nat option \<Rightarrow> event_db \<Rightarrow> exn + event_db" where
  "disable_station env i actor s =
     try_then (locked_event i s) (\<lambda>ev.
     try_then (checkin_feature_locked env (ev_makerspace ev) s) (\<lambda>_.
       case station_row i s of
         None \<Rightarrow> Inr s
       | Some st \<Rightarrow>
           let st = st\<lparr>sn_enabled := False, sn_disabled := Some (event_time env)\<rparr>
           in Inr (event_audit actor ''event.station_disabled'' ev (''event'', i) (station_meta st) (put_station st s))))"

section \<open>Offline check-ins\<close>

text \<open>The times of a lease; whether it is genuine is established before.\<close>

record lease =
  le_id :: nat
  le_opens :: int
  le_closes :: int
  le_expires :: int
  le_deadline :: int

record offline_item =
  of_operation :: nat
  of_occurred :: int
  of_token :: "nat option"

datatype sync_outcome =
  SyncApplied nat | SyncDuplicate | SyncEventUnavailable | SyncOutsideWindow | SyncInvalidToken
  | SyncAlreadyAttended | SyncRegistrationChanged

definition reported_time_is_valid :: "event_env \<Rightarrow> int \<Rightarrow> lease \<Rightarrow> bool" where
  "reported_time_is_valid env t l \<longleftrightarrow> le_opens l \<le> t \<and> t \<le> le_closes l \<and> t \<le> le_expires l \<and>
     t \<le> event_time env + clock_skew env"

definition token_registration :: "nat \<Rightarrow> nat option \<Rightarrow> event_db \<Rightarrow> registration option" where
  "token_registration e token s = find (\<lambda>r. rg_event r = e \<and> Some (rg_token r) = token) (registrations s)"

text \<open>A refusal of the check-in becomes an outcome; any other exception ends the batch.\<close>

definition refused_outcome :: "nat \<Rightarrow> registration \<Rightarrow> event_db \<Rightarrow> sync_outcome" where
  "refused_outcome e r s =
     (case event_row e s of
        None \<Rightarrow> SyncEventUnavailable
      | Some ev \<Rightarrow>
          if ev_status ev \<notin> {EventPublished, EventCompleted} then SyncEventUnavailable
          else (case registration_row (rg_id r) s of
                  None \<Rightarrow> SyncRegistrationChanged
                | Some q \<Rightarrow> if rg_status q = RegAttended then SyncAlreadyAttended else SyncRegistrationChanged))"

definition process_offline :: "event_env \<Rightarrow> event \<Rightarrow> lease \<Rightarrow> nat option \<Rightarrow> check_in_source \<Rightarrow> nat option \<Rightarrow> nat option \<Rightarrow>
  offline_item \<Rightarrow> event_db \<Rightarrow> exn + (sync_outcome \<times> event_db)" where
  "process_offline env ev l actor src session version x s =
     (if operation_known (ev_makerspace ev) (of_operation x) s then Inr (SyncDuplicate, s)
      else if ev_status ev \<notin> {EventPublished, EventCompleted} then Inr (SyncEventUnavailable, s)
      else if \<not> reported_time_is_valid env (of_occurred x) l then Inr (SyncOutsideWindow, s)
      else case token_registration (ev_id ev) (of_token x) s of
        None \<Rightarrow> Inr (SyncInvalidToken, s)
      | Some r \<Rightarrow>
          if rg_status r = RegAttended then Inr (SyncAlreadyAttended, s)
          else if rg_status r \<noteq> RegRegistered then Inr (SyncRegistrationChanged, s)
          else (case mark_attended env r actor src (Some (of_operation x)) (Some (of_occurred x)) session version s of
                  Inr (c, t) \<Rightarrow> Inr (SyncApplied (rg_id r), t)
                | Inl e \<Rightarrow>
                    if e = DuplicateCheckInOperation \<or> e = IntegrityError then Inr (SyncDuplicate, s)
                    else if e = EventInvalidTransition then Inr (refused_outcome (ev_id ev) r s, s)
                    else Inl e))"

fun process_all :: "(offline_item \<Rightarrow> event_db \<Rightarrow> exn + (sync_outcome \<times> event_db)) \<Rightarrow> offline_item list \<Rightarrow> event_db \<Rightarrow>
  (exn + sync_outcome list) \<times> event_db" where
  "process_all f [] s = (Inr [], s)"
| "process_all f (x # xs) s =
     (case f x s of
        Inl e \<Rightarrow> (Inl e, s)
      | Inr (out, t) \<Rightarrow> (case process_all f xs t of (Inl e, u) \<Rightarrow> (Inl e, u) | (Inr outs, u) \<Rightarrow> (Inr (out # outs), u)))"

text \<open>
  The event is the one the view has loaded. What was applied before an exception stays. The outcomes
  are counted in the log; the counts are left out.
\<close>

definition synchronize :: "event_env \<Rightarrow> event \<Rightarrow> offline_item list \<Rightarrow> lease \<Rightarrow> nat option \<Rightarrow> check_in_source \<Rightarrow>
  nat option \<Rightarrow> nat option \<Rightarrow> event_db \<Rightarrow> (exn + sync_outcome list) \<times> event_db" where
  "synchronize env ev xs l actor src session version s =
     (case process_all (process_offline env ev l actor src session version) xs s of
        (Inl e, t) \<Rightarrow> (Inl e, t)
      | (Inr outs, t) \<Rightarrow>
          (Inr outs, event_audit actor ''event.checkin_sync_processed'' ev (''event'', ev_id ev)
             [(''lease_id'', MInt (int (le_id l))),
              (''station_version'', case version of None \<Rightarrow> MNone | Some v \<Rightarrow> MInt (int v)),
              (''operation_count'', MInt (int (length xs)))] t))"

end
