(* ===== verification/Event_Feedback.thy ===== *)
theory Event_Feedback
  imports Event_Attendance "HOL-Library.List_Lexorder" "HOL-Library.Char_ord"
begin

text \<open>
  Feedback surveys (\<open>events/services_feedback.py\<close>, \<open>feedback_validation.py\<close>, \<open>models_feedback.py\<close>): their
  configuration and opening, anonymous answers, and answers that ask for a certificate. Responses are
  never changed; the snapshot of the answers, a canonical JSON text, is kept as the list of answers.
\<close>

section \<open>Saving a survey\<close>

definition validate_feedback_schema :: "json \<Rightarrow> exn + question list" where
  "validate_feedback_schema v =
     (case validate_form_schema v of
        Inl _ \<Rightarrow> Inl ValidationError
      | Inr canonical \<Rightarrow>
          (let qs = (case canonical of None \<Rightarrow> [] | Some qs \<Rightarrow> qs)
           in if list_ex (\<lambda>q. k_type q = Date) qs then Inl ValidationError else Inr qs))"

definition survey_responses :: "nat \<Rightarrow> event_db \<Rightarrow> response list" where
  "survey_responses i s = filter (\<lambda>p. rp_survey p = i) (responses s)"

text \<open>The field checks of \<open>full_clean\<close>; a JSON field that is not \<open>blank\<close> refuses the empty list.\<close>

definition survey_fields_ok :: "survey \<Rightarrow> bool" where
  "survey_fields_ok v \<longleftrightarrow> sv_title v \<noteq> [] \<and> length (sv_title v) \<le> 200 \<and> length (sv_thanks v) \<le> 2000 \<and>
     sv_questions v \<noteq> [] \<and> set (sv_answered v) \<subseteq> k_id ` set (sv_questions v)"

text \<open>Once there is a response the mode is frozen, and so is every question that was answered.\<close>

definition question_of :: "string \<Rightarrow> survey \<Rightarrow> question option" where
  "question_of i v = find (\<lambda>q. k_id q = i) (sv_questions v)"

definition survey_frozen :: "survey \<Rightarrow> survey \<Rightarrow> bool" where
  "survey_frozen original v \<longleftrightarrow> sv_certificates v = sv_certificates original \<and>
     list_all (\<lambda>i. question_of i v \<noteq> None \<and> question_of i v = question_of i original) (sv_answered original)"

definition save_survey :: "survey \<Rightarrow> event_db \<Rightarrow> exn + event_db" where
  "save_survey v s =
     (let v = v\<lparr>sv_title := strip (sv_title v), sv_thanks := strip (sv_thanks v)\<rparr>
      in if \<not> survey_fields_ok v then Inl ValidationError
         else case survey_row (sv_event v) s of
           None \<Rightarrow> Inr (s\<lparr>surveys := surveys s @ [v]\<rparr>)
         | Some original \<Rightarrow>
             if survey_responses (sv_id v) s \<noteq> [] \<and> \<not> survey_frozen original v then Inl ValidationError
             else Inr (s\<lparr>surveys := row_put sv_event v (surveys s)\<rparr>))"

section \<open>Configuring, opening and closing\<close>

definition locked_feedback_event :: "event_env \<Rightarrow> nat \<Rightarrow> event_db \<Rightarrow> exn + event" where
  "locked_feedback_event env i s =
     try_then (locked_event i s) (\<lambda>ev. try_then (events_module_locked env (ev_makerspace ev) s) (\<lambda>_. Inr ev))"

definition locked_survey :: "nat \<Rightarrow> event_db \<Rightarrow> exn + survey" where
  "locked_survey e s = of_option EventInvalidTransition (survey_row e s)"

definition survey_or_new :: "nat \<Rightarrow> event_db \<Rightarrow> survey" where
  "survey_or_new e s =
     (case survey_row e s of
        Some v \<Rightarrow> v
      | None \<Rightarrow> \<lparr>sv_id = fresh_key sv_id (surveys s), sv_event = e, sv_title = [], sv_thanks = [], sv_questions = [],
                 sv_open = False, sv_certificates = False, sv_answered = [], sv_opened = None, sv_closed = None\<rparr>)"

definition configure_survey :: "event_env \<Rightarrow> nat \<Rightarrow> nat option \<Rightarrow> string \<Rightarrow> string \<Rightarrow> json \<Rightarrow> bool \<Rightarrow> event_db \<Rightarrow> exn + event_db" where
  "configure_survey env i actor title thanks questions with_certificate s =
     try_then (locked_feedback_event env i s) (\<lambda>ev.
     try_then (validate_feedback_schema questions) (\<lambda>qs.
       let v = (survey_or_new i s)\<lparr>sv_title := title, sv_thanks := thanks, sv_questions := qs, sv_certificates := with_certificate\<rparr>;
           created = (survey_row i s = None)
       in try_then (save_survey v s) (\<lambda>s.
            Inr (event_audit actor ''event.feedback_survey_configured'' ev (''survey'', sv_id v)
                   [(''created'', MBool created), (''question_count'', MInt (int (length qs)))] s))))"

definition open_survey :: "event_env \<Rightarrow> nat \<Rightarrow> nat option \<Rightarrow> event_db \<Rightarrow> exn + event_db" where
  "open_survey env i actor s =
     try_then (locked_feedback_event env i s) (\<lambda>ev.
     try_then (locked_survey i s) (\<lambda>v.
       if sv_open v then Inl EventInvalidTransition
       else if event_time env < ev_ends ev then Inl EventInvalidTransition
       else if ev_status ev \<notin> {EventPublished, EventCompleted} then Inl EventInvalidTransition
       else if sv_questions v = [] then Inl EventInvalidTransition
       else try_then (save_survey (v\<lparr>sv_open := True, sv_opened := Some (event_time env), sv_closed := None\<rparr>) s) (\<lambda>s.
         Inr (event_audit actor ''event.feedback_survey_opened'' ev (''survey'', sv_id v) [] s))))"

definition close_survey :: "event_env \<Rightarrow> nat \<Rightarrow> nat option \<Rightarrow> event_db \<Rightarrow> exn + event_db" where
  "close_survey env i actor s =
     try_then (locked_feedback_event env i s) (\<lambda>ev.
     try_then (locked_survey i s) (\<lambda>v.
       if \<not> sv_open v then Inl EventInvalidTransition
       else try_then (save_survey (v\<lparr>sv_open := False, sv_closed := Some (event_time env)\<rparr>) s) (\<lambda>s.
         Inr (event_audit actor ''event.feedback_survey_closed'' ev (''survey'', sv_id v) [] s))))"

section \<open>Answering\<close>

definition submission_ready :: "event_env \<Rightarrow> event \<Rightarrow> survey \<Rightarrow> bool" where
  "submission_ready env ev v \<longleftrightarrow> sv_open v \<and> ev_ends ev \<le> event_time env \<and> ev_status ev \<in> {EventPublished, EventCompleted}"

definition feedback_snapshot :: "survey \<Rightarrow> json \<Rightarrow> exn + answer list" where
  "feedback_snapshot v answers =
     try_then (form_checked (validate_answers (JList (map stored_question (sv_questions v))) answers)) (\<lambda>a.
       Inr (case a of None \<Rightarrow> [] | Some xs \<Rightarrow> xs))"

definition insert_response :: "response \<Rightarrow> event_db \<Rightarrow> exn + event_db" where
  "insert_response p s =
     (if rp_registration p \<noteq> None \<and>
         list_ex (\<lambda>q. rp_survey q = rp_survey p \<and> rp_registration q = rp_registration p) (responses s)
      then Inl IntegrityError else Inr (s\<lparr>responses := responses s @ [p]\<rparr>))"

definition merge_answered_ids :: "nat \<Rightarrow> answer list \<Rightarrow> event_db \<Rightarrow> exn + event_db" where
  "merge_answered_ids e answers s =
     try_then (locked_survey e s) (\<lambda>v.
       let merged = sort (remdups (sv_answered v @ map n_id answers))
       in if merged = sv_answered v then Inr s else save_survey (v\<lparr>sv_answered := merged\<rparr>) s)"

definition new_response :: "event_env \<Rightarrow> survey \<Rightarrow> nat option \<Rightarrow> answer list \<Rightarrow> event_db \<Rightarrow> response" where
  "new_response env v registration answers s =
     \<lparr>rp_id = fresh_key rp_id (responses s), rp_survey = sv_id v, rp_registration = registration, rp_answers = answers,
      rp_certificate = (registration \<noteq> None), rp_created = event_time env\<rparr>"

definition submit_anonymous_feedback :: "event_env \<Rightarrow> nat \<Rightarrow> json \<Rightarrow> event_db \<Rightarrow> exn + (response \<times> event_db)" where
  "submit_anonymous_feedback env i answers s =
     try_then (locked_feedback_event env i s) (\<lambda>ev.
     try_then (locked_survey i s) (\<lambda>v.
       if sv_certificates v \<or> \<not> submission_ready env ev v then Inl FeedbackIneligible
       else try_then (feedback_snapshot v answers) (\<lambda>snapshot.
         let p = new_response env v None snapshot s
         in try_then (insert_response p s) (\<lambda>s.
            try_then (merge_answered_ids i snapshot s) (\<lambda>s.
              Inr (p, event_audit None ''event.feedback_submitted'' ev (''survey'', sv_id v) [(''mode'', MStr ''anonymous'')] s))))))"

text \<open>\<open>hmac.compare_digest\<close> takes texts of ASCII characters only.\<close>

definition compare_digest :: "string \<Rightarrow> string \<Rightarrow> exn + bool" where
  "compare_digest x y =
     (if list_all (\<lambda>c. code_of c < 128) x \<and> list_all (\<lambda>c. code_of c < 128) y then Inr (x = y) else Inl TypeError)"

definition attended_registration :: "nat \<Rightarrow> nat \<Rightarrow> nat option \<Rightarrow> event_db \<Rightarrow> registration option" where
  "attended_registration e member wanted s =
     (case sort_key (\<lambda>r. (rg_created r, rg_id r))
             (filter (\<lambda>r. rg_event r = e \<and> rg_member r = Some member \<and> rg_status r = RegAttended \<and>
                (wanted = None \<or> wanted = Some (rg_id r))) (registrations s)) of
        [] \<Rightarrow> None | r # _ \<Rightarrow> Some r)"

definition store_identified ::
  "event_env \<Rightarrow> event \<Rightarrow> survey \<Rightarrow> registration \<Rightarrow> nat \<Rightarrow> answer list \<Rightarrow> event_db \<Rightarrow> exn + (response \<times> event_db)" where
  "store_identified env ev v r actor snapshot s =
     (let p = new_response env v (Some (rg_id r)) snapshot s
      in try_then (insert_response p s) (\<lambda>s.
         try_then (create_pending env p s) (\<lambda>(c, s).
         try_then (merge_answered_ids (ev_id ev) snapshot s) (\<lambda>s.
           let s = event_audit (Some actor) ''event.feedback_submitted'' ev (''response'', rp_id p) [(''mode'', MStr ''certificate'')] s
           in Inr (p, event_audit (Some actor) ''event.certificate_requested'' ev (''certificate'', ct_id c)
                        [(''revision'', MInt (int (ct_revision c)))] s)))))"

definition submit_identified_feedback ::
  "event_env \<Rightarrow> nat \<Rightarrow> nat \<Rightarrow> string option \<Rightarrow> json \<Rightarrow> nat option \<Rightarrow> event_db \<Rightarrow> exn + (response \<times> event_db)" where
  "submit_identified_feedback env i actor email answers wanted s =
     try_then (locked_feedback_event env i s) (\<lambda>ev.
     try_then (locked_survey i s) (\<lambda>v.
       if \<not> sv_certificates v \<or> \<not> submission_ready env ev v then Inl FeedbackIneligible
       else try_then (of_option FeedbackIneligible (attended_registration i actor wanted s)) (\<lambda>r.
         case absent_member env actor (case rg_via r of None \<Rightarrow> ev_makerspace ev | Some ms \<Rightarrow> ms) of
           Some e \<Rightarrow> Inl e
         | None \<Rightarrow>
             try_then (compare_digest (lowercase (strip (nonempty [] email))) (rg_email r)) (\<lambda>same.
               if \<not> same then Inl FeedbackIneligible
               else try_then (feedback_snapshot v answers) (\<lambda>snapshot.
                 case find (\<lambda>p. rp_survey p = sv_id v \<and> rp_registration p = Some (rg_id r)) (responses s) of
                   Some p \<Rightarrow> if rp_answers p \<noteq> snapshot then Inl FeedbackConflict else Inr (p, s)
                 | None \<Rightarrow> store_identified env ev v r actor snapshot s)))))"

end
