(* ===== verification/Events.thy ===== *)
theory Events
  imports Event_Feedback Payment_Safety
begin

text \<open>
  The events services as one machine, and what it keeps: the roster of the registrations fits the
  capacity of the events, no place stays idle while somebody waits, and an active certificate
  belongs to an attendance.
\<close>

section \<open>The machine\<close>

datatype event_op =
    CreateEvent nat "nat option" string string int int string string json int int bool "int option" "int option" bool "string option"
  | UpdateEvent nat "nat option" "event_change list"
  | PublishEvent nat "nat option"
  | CancelEvent nat "nat option" bool
  | CompleteEvent nat "nat option"
  | Register nat nat "member_user option" "string option" "string option" "string option" json "nat option" bool "nat option" bool
  | ApproveRegistration registration "nat option"
  | RejectRegistration registration "nat option"
  | PromoteRegistration registration "nat option"
  | CancelRegistration registration "nat option"
  | CorrectAttendance registration "nat option"
  | CheckIn registration "nat option" check_in_source "nat option" "int option" "nat option" "nat option"
  | Synchronize event "offline_item list" lease "nat option" check_in_source "nat option" "nat option"
  | RotateStation nat "nat option"
  | DisableStation nat "nat option"
  | ConfigureSurvey nat "nat option" string string json bool
  | OpenSurvey nat "nat option"
  | CloseSurvey nat "nat option"
  | AnonymousFeedback nat json
  | IdentifiedFeedback nat nat "string option" json "nat option"
  | ReissueCertificate nat "nat option"
  | RevokeCertificate nat "nat option"
  | ClaimRender nat
  | ActivateCertificate nat int string
  | FailRender nat
  | DownloadCertificate certificate

fun event_step :: "event_env \<times> event_op \<Rightarrow> event_db \<Rightarrow> exn + event_db" where
  "event_step (env, CreateEvent ms actor title d a b loc kind form cap amount approval cutoff lead public zone) s =
     try_then (create_event_draft env ms actor title d a b loc kind form cap amount approval cutoff lead public zone s) (\<lambda>(_, t). Inr t)"
| "event_step (env, UpdateEvent i actor changes) s = update_event env i actor changes s"
| "event_step (env, PublishEvent i actor) s = publish_event env i actor s"
| "event_step (env, CancelEvent i actor n) s = cancel_event env i actor n s"
| "event_step (env, CompleteEvent i actor) s = complete_event env i actor s"
| "event_step (env, Register i ms member name email phone answers actor staff via collaborative) s =
     register env i ms member name email phone answers actor staff via collaborative s"
| "event_step (env, ApproveRegistration r actor) s = approve_registration env r actor s"
| "event_step (env, RejectRegistration r actor) s = reject_registration env r actor s"
| "event_step (env, PromoteRegistration r actor) s = promote_registration env r actor s"
| "event_step (env, CancelRegistration r actor) s = cancel_registration env r actor s"
| "event_step (env, CorrectAttendance r actor) s = correct_attendance env r actor s"
| "event_step (env, CheckIn r actor src oid t session version) s =
     try_then (mark_attended env r actor src oid t session version s) (\<lambda>(_, t). Inr t)"
| "event_step (env, Synchronize ev xs l actor src session version) s =
     Inr (snd (synchronize env ev xs l actor src session version s))"
| "event_step (env, RotateStation i actor) s = rotate_station env i actor s"
| "event_step (env, DisableStation i actor) s = disable_station env i actor s"
| "event_step (env, ConfigureSurvey i actor title thanks qs c) s = configure_survey env i actor title thanks qs c s"
| "event_step (env, OpenSurvey i actor) s = open_survey env i actor s"
| "event_step (env, CloseSurvey i actor) s = close_survey env i actor s"
| "event_step (env, AnonymousFeedback i answers) s =
     try_then (submit_anonymous_feedback env i answers s) (\<lambda>(_, t). Inr t)"
| "event_step (env, IdentifiedFeedback i actor email answers wanted) s =
     try_then (submit_identified_feedback env i actor email answers wanted s) (\<lambda>(_, t). Inr t)"
| "event_step (env, ReissueCertificate i actor) s = reissue_certificate env i actor s"
| "event_step (env, RevokeCertificate i actor) s = revoke_certificate env i actor StaffRevoked s"
| "event_step (env, ClaimRender i) s = try_then (claim_render i s) (\<lambda>(_, t). Inr t)"
| "event_step (env, ActivateCertificate i bytes digest) s =
     try_then (activate_certificate env i bytes digest s) (\<lambda>(_, t). Inr t)"
| "event_step (env, FailRender i) s = fail_render i s"
| "event_step (env, DownloadCertificate c) s = Inr (snd (download_certificate env c s))"

text \<open>
  The machine with its clock: the time of the latest operation. An operation whose clock is behind it
  is none of a run.
\<close>

definition clocked_step :: "event_env \<times> event_op \<Rightarrow> int \<times> event_db \<Rightarrow> exn + int \<times> event_db" where
  "clocked_step c s =
     (if event_time (fst c) < fst s then Inl ValueError
      else try_then (event_step c (snd s)) (\<lambda>t. Inr (event_time (fst c), t)))"

section \<open>The roster\<close>

definition occupancy :: "nat \<Rightarrow> registration list \<Rightarrow> int" where
  "occupancy e rgs = int (length (filter (\<lambda>r. rg_event r = e \<and> confirmed (rg_status r)) rgs))"

definition nobody_waits :: "nat \<Rightarrow> registration list \<Rightarrow> bool" where
  "nobody_waits e rgs \<longleftrightarrow> (\<forall>r \<in> set rgs. rg_event r = e \<longrightarrow> rg_status r \<noteq> RegWaitlisted)"

definition one_row_each :: "registration list \<Rightarrow> bool" where
  "one_row_each rgs \<longleftrightarrow> (\<forall>r \<in> set rgs. \<forall>q \<in> set rgs. rg_event q = rg_event r \<and> rg_id q \<noteq> rg_id r \<longrightarrow>
     rg_email q \<noteq> rg_email r \<and> (rg_member r = None \<or> rg_member q \<noteq> rg_member r))"

definition fits :: "event \<Rightarrow> registration list \<Rightarrow> bool" where
  "fits ev rgs \<longleftrightarrow> 0 \<le> ev_capacity ev \<and> (0 < ev_capacity ev \<longrightarrow> occupancy (ev_id ev) rgs \<le> ev_capacity ev)"

definition roster_ok :: "event list \<Rightarrow> registration list \<Rightarrow> bool" where
  "roster_ok evs rgs \<longleftrightarrow> unique_keys ev_id evs \<and> unique_keys rg_id rgs \<and> one_row_each rgs \<and>
     (\<forall>r \<in> set rgs. \<exists>ev. row_get ev_id (rg_event r) evs = Some ev \<and> ev_status ev \<noteq> EventDraft) \<and>
     (\<forall>ev \<in> set evs. fits ev rgs)"

text \<open>The places of a running event that go to whoever waits: all taken, or nobody waits.\<close>

definition well_seated :: "int \<Rightarrow> event \<Rightarrow> registration list \<Rightarrow> bool" where
  "well_seated time ev rgs \<longleftrightarrow>
     (ev_status ev = EventPublished \<and> \<not> ev_approval ev \<and> time \<le> ev_ends ev \<longrightarrow>
        nobody_waits (ev_id ev) rgs \<or> 0 < ev_capacity ev \<and> occupancy (ev_id ev) rgs = ev_capacity ev)"

definition all_seated :: "int \<Rightarrow> event_db \<Rightarrow> bool" where
  "all_seated time s \<longleftrightarrow> (\<forall>ev \<in> set (events s). well_seated time ev (registrations s))"

lemma confirmed_occupancy_eq: "confirmed_occupancy e s = occupancy e (registrations s)"
  by (simp add: confirmed_occupancy_def occupancy_def)

section \<open>The status graphs\<close>

inductive registration_move :: "registration_status \<Rightarrow> registration_status \<Rightarrow> bool" where
  stays: "registration_move st st"
| decided: "st \<in> {RegRegistered, RegWaitlisted, RegRejected, RegCancelled} \<Longrightarrow> registration_move RegPending st"
| seated: "st \<in> {RegAttended, RegCancelled} \<Longrightarrow> registration_move RegRegistered st"
| waited: "st \<in> {RegRegistered, RegRejected, RegCancelled} \<Longrightarrow> registration_move RegWaitlisted st"
| corrected: "registration_move RegAttended RegRegistered"
| renewed: "st \<in> {RegPending, RegRegistered, RegWaitlisted} \<Longrightarrow> registration_move RegCancelled st"

code_pred registration_move .

inductive_simps registration_move_rejected: "registration_move RegRejected st"

inductive event_move :: "event_status \<Rightarrow> event_status \<Rightarrow> bool" where
  stands: "event_move st st"
| announced: "event_move EventDraft EventPublished"
| finished: "st \<in> {EventCancelled, EventCompleted} \<Longrightarrow> event_move EventPublished st"

code_pred event_move .

inductive_simps event_move_simps: "event_move EventCancelled st" "event_move EventCompleted st"

text \<open>One operation: every row moves along one edge at most, and keeps what it is about.\<close>

definition registration_follows :: "registration \<Rightarrow> registration \<Rightarrow> bool" where
  "registration_follows r q \<longleftrightarrow> rg_event q = rg_event r \<and> rg_token q = rg_token r \<and> rg_sequence r \<le> rg_sequence q \<and>
     registration_move (rg_status r) (rg_status q)"

definition event_follows :: "event \<Rightarrow> event \<Rightarrow> bool" where
  "event_follows ev fv \<longleftrightarrow> ev_makerspace fv = ev_makerspace ev \<and> ev_sequence ev \<le> ev_sequence fv \<and>
     (ev_status ev \<noteq> EventDraft \<longrightarrow> ev_approval fv = ev_approval ev) \<and> event_move (ev_status ev) (ev_status fv)"

definition follows_once :: "event_db \<Rightarrow> event_db \<Rightarrow> bool" where
  "follows_once s t \<longleftrightarrow>
     (\<forall>i r. registration_row i s = Some r \<longrightarrow> (\<exists>q. registration_row i t = Some q \<and> registration_follows r q)) \<and>
     (\<forall>i ev. event_row i s = Some ev \<longrightarrow> (\<exists>fv. event_row i t = Some fv \<and> event_follows ev fv))"

section \<open>Certificates\<close>

definition certificate_sound :: "event list \<Rightarrow> registration list \<Rightarrow> certificate \<Rightarrow> bool" where
  "certificate_sound evs rgs c \<longleftrightarrow>
     (\<exists>r. row_get rg_id (ct_registration c) rgs = Some r \<and>
        (ct_status c = CertActive \<longrightarrow> rg_status r = RegAttended \<and>
           (\<exists>ev. row_get ev_id (rg_event r) evs = Some ev \<and> ev_status ev \<in> {EventPublished, EventCompleted})))"

definition certificates_ok :: "event_db \<Rightarrow> bool" where
  "certificates_ok s \<longleftrightarrow> unique_keys ct_id (certificates s) \<and>
     (\<forall>c \<in> set (certificates s). certificate_sound (events s) (registrations s) c) \<and>
     (\<forall>c \<in> set (certificates s). \<forall>d \<in> set (certificates s). ct_id d \<noteq> ct_id c \<longrightarrow> \<not> certificate_clash c d)"

text \<open>Attendance is evidenced: an operation is recorded once, and who attended was checked in.\<close>

definition attendance_ok :: "event_db \<Rightarrow> bool" where
  "attendance_ok s \<longleftrightarrow> distinct (map ci_operation (check_ins s)) \<and>
     (\<forall>r \<in> set (registrations s). rg_status r = RegAttended \<longrightarrow>
        (\<exists>c \<in> set (check_ins s). ci_registration c = rg_id r \<and> ci_event c = rg_event r))"

definition events_ok :: "event_db \<Rightarrow> bool" where
  "events_ok s \<longleftrightarrow> roster_ok (events s) (registrations s) \<and> certificates_ok s \<and> attendance_ok s \<and> pay_ok (ev_pay s)"

end
