(* ===== verification/Event_Roster.thy ===== *)
theory Event_Roster
  imports Events
begin

text \<open>
  The roster of an event under the changes the services make to it: a row is rewritten, a row is
  added, waiters are promoted, the event is rewritten.
\<close>

section \<open>Occupancy\<close>

definition seated_in :: "nat \<Rightarrow> registration \<Rightarrow> int" where
  "seated_in e r = (if rg_event r = e \<and> confirmed (rg_status r) then 1 else 0)"

lemma occupancy_sum: "occupancy e rgs = sum_list (map (seated_in e) rgs)"
  by (induction rgs) (auto simp: occupancy_def seated_in_def)

lemma occupancy_snoc: "occupancy e (rgs @ [r]) = occupancy e rgs + seated_in e r"
  by (simp add: occupancy_sum)

lemma occupancy_put:
  "unique_keys rg_id rgs \<Longrightarrow> row_get rg_id (rg_id r) rgs = Some old \<Longrightarrow>
    occupancy e (row_put rg_id r rgs) = occupancy e rgs - seated_in e old + seated_in e r"
  unfolding occupancy_sum by (rule sum_list_row_put)

lemma occupancy_nonneg: "0 \<le> occupancy e rgs"
  by (simp add: occupancy_def)

text \<open>Waiters that are promoted.\<close>

definition raised :: "int \<Rightarrow> registration \<Rightarrow> registration" where
  "raised time r = r\<lparr>rg_status := RegRegistered, rg_sequence := rg_sequence r + 1, rg_touched := time\<rparr>"

lemma raised_simps [simp]:
  "rg_id (raised time r) = rg_id r" "rg_event (raised time r) = rg_event r" "rg_email (raised time r) = rg_email r"
  "rg_member (raised time r) = rg_member r" "rg_status (raised time r) = RegRegistered" "rg_token (raised time r) = rg_token r"
  "rg_sequence (raised time r) = rg_sequence r + 1" "rg_created (raised time r) = rg_created r"
  by (simp_all add: raised_def)

definition promoted_rows :: "int \<Rightarrow> registration list \<Rightarrow> registration list \<Rightarrow> registration list" where
  "promoted_rows time rs rgs = map (\<lambda>r. if r \<in> set rs then raised time r else r) rgs"

definition waiting_rows :: "nat \<Rightarrow> registration list \<Rightarrow> registration list" where
  "waiting_rows e rgs = sort_key (\<lambda>r. (rg_created r, rg_id r)) (filter (\<lambda>r. rg_event r = e \<and> rg_status r = RegWaitlisted) rgs)"

lemma waiters_eq: "waiters e s = waiting_rows e (registrations s)"
  by (simp add: waiters_def waiting_rows_def)

lemma set_waiting_rows [simp]:
  "set (waiting_rows e rgs) = {r \<in> set rgs. rg_event r = e \<and> rg_status r = RegWaitlisted}"
  by (simp add: waiting_rows_def)

lemma distinct_waiting_rows: "unique_keys rg_id rgs \<Longrightarrow> distinct (waiting_rows e rgs)"
  by (auto simp: waiting_rows_def unique_keys_def distinct_map intro: distinct_filter)

lemma nobody_waits_iff: "nobody_waits e rgs \<longleftrightarrow> waiting_rows e rgs = []"
proof -
  have "waiting_rows e rgs = [] \<longleftrightarrow> set (waiting_rows e rgs) = {}" by (simp only: set_empty)
  then show ?thesis by (auto simp: nobody_waits_def)
qed

lemma map_key_promoted [simp]: "map rg_id (promoted_rows time rs rgs) = map rg_id rgs"
  by (auto simp: promoted_rows_def)

lemma unique_keys_promoted [simp]: "unique_keys rg_id (promoted_rows time rs rgs) = unique_keys rg_id rgs"
  by (simp add: unique_keys_def)

lemma row_get_promoted:
  "row_get rg_id i (promoted_rows time rs rgs) =
     map_option (\<lambda>r. if r \<in> set rs then raised time r else r) (row_get rg_id i rgs)"
  by (induction rgs) (auto simp: promoted_rows_def row_get_Cons)

lemma promoted_Nil [simp]: "promoted_rows time [] rgs = rgs"
  by (simp add: promoted_rows_def)

lemma occupancy_promoted:
  assumes "unique_keys rg_id rgs" and "distinct rs" and "set rs \<subseteq> set (waiting_rows e rgs)"
  shows "occupancy e' (promoted_rows time rs rgs) = occupancy e' rgs + (if e' = e then int (length rs) else 0)"
proof -
  have rgs: "distinct rgs" using assms(1) by (auto simp: unique_keys_def distinct_map)
  have "seated_in e' (if r \<in> set rs then raised time r else r) =
      seated_in e' r + (if e' = e then of_bool (r \<in> set rs) else 0)" for r
    using assms(3) by (auto simp: seated_in_def confirmed_def)
  then have "occupancy e' (promoted_rows time rs rgs) =
      occupancy e' rgs + (if e' = e then sum_list (map (\<lambda>r. of_bool (r \<in> set rs)) rgs) else 0)"
    by (simp add: occupancy_sum promoted_rows_def comp_def sum_list_addf)
  moreover have "sum_list (map (\<lambda>r. of_bool (r \<in> set rs)) rgs) = int (length rs)"
  proof -
    have "sum_list (map (\<lambda>r. of_bool (r \<in> set rs)) rgs) = int (length (filter (\<lambda>r. r \<in> set rs) rgs))"
      by (induction rgs) auto
    moreover have "length (filter (\<lambda>r. r \<in> set rs) rgs) = card (set rs)"
    proof -
      have "set (filter (\<lambda>r. r \<in> set rs) rgs) = set rs" using assms(3) by auto
      then show ?thesis using distinct_card [of "filter (\<lambda>r. r \<in> set rs) rgs"] rgs by simp
    qed
    ultimately show ?thesis using assms(2) by (simp add: distinct_card)
  qed
  ultimately show ?thesis by simp
qed

text \<open>Who waits after a promotion: who waited and was not promoted.\<close>

lemma nobody_waits_promoted:
  assumes "set rs \<subseteq> set (waiting_rows e rgs)"
  shows "nobody_waits e' (promoted_rows time rs rgs) \<longleftrightarrow> (\<forall>r \<in> set (waiting_rows e' rgs). r \<in> set rs)"
  using assms by (auto simp: nobody_waits_def promoted_rows_def)

section \<open>The roster\<close>

lemma roster_event:
  "roster_ok evs rgs \<Longrightarrow> row_get ev_id i evs = Some ev \<Longrightarrow> fits ev rgs \<and> ev_id ev = i"
  using row_get_SomeD [of ev_id i evs ev] by (simp add: roster_ok_def)

lemma roster_put:
  assumes ok: "roster_ok evs rgs" and old: "row_get rg_id (rg_id r) rgs = Some old" and "rg_event r = rg_event old"
    and one: "\<And>q. q \<in> set rgs \<Longrightarrow> rg_event q = rg_event r \<Longrightarrow> rg_id q \<noteq> rg_id r \<Longrightarrow>
      rg_email q \<noteq> rg_email r \<and> (rg_member r = None \<or> rg_member q \<noteq> rg_member r)"
    and seat: "\<And>ev. row_get ev_id (rg_event r) evs = Some ev \<Longrightarrow> 0 < ev_capacity ev \<Longrightarrow> confirmed (rg_status r) \<Longrightarrow>
      \<not> confirmed (rg_status old) \<Longrightarrow> occupancy (ev_id ev) rgs < ev_capacity ev"
  shows "roster_ok evs (row_put rg_id r rgs)"
proof -
  have keys: "unique_keys rg_id rgs" "unique_keys ev_id evs" using ok by (simp_all add: roster_ok_def)
  have mem: "old \<in> set rgs" "rg_id old = rg_id r" using row_get_SomeD [OF old] by auto
  have "fits ev (row_put rg_id r rgs)" if ev: "ev \<in> set evs" for ev
  proof (cases "ev_id ev = rg_event r")
    case True
    then have "row_get ev_id (rg_event r) evs = Some ev" using row_get_unique [OF keys(2) ev] by simp
    moreover have "fits ev rgs" using ok ev by (simp add: roster_ok_def)
    ultimately show ?thesis
      using seat [of ev] occupancy_put [OF keys(1) old, of "ev_id ev"] assms(3) by (auto simp: fits_def seated_in_def)
  next
    case False
    moreover have "fits ev rgs" using ok ev by (simp add: roster_ok_def)
    ultimately show ?thesis
      using occupancy_put [OF keys(1) old, of "ev_id ev"] assms(3) by (auto simp: fits_def seated_in_def)
  qed
  moreover have "\<exists>ev. row_get ev_id (rg_event q) evs = Some ev \<and> ev_status ev \<noteq> EventDraft"
    if "q \<in> set (row_put rg_id r rgs)" for q
  proof -
    have "q = r \<or> q \<in> set rgs" using that by (auto dest: set_row_putD)
    then have "\<exists>p \<in> set rgs. rg_event q = rg_event p" using mem(1) assms(3) by auto
    then show ?thesis using ok by (auto simp: roster_ok_def)
  qed
  moreover have "one_row_each (row_put rg_id r rgs)"
    unfolding one_row_each_def
  proof (intro ballI impI)
    fix p q
    assume "p \<in> set (row_put rg_id r rgs)" "q \<in> set (row_put rg_id r rgs)" and same: "rg_event q = rg_event p \<and> rg_id q \<noteq> rg_id p"
    then have "p = r \<or> p \<in> set rgs \<and> rg_id p \<noteq> rg_id r" "q = r \<or> q \<in> set rgs \<and> rg_id q \<noteq> rg_id r"
      by (auto dest: set_row_putD)
    then consider "p = r" "q \<in> set rgs" "rg_id q \<noteq> rg_id r" | "q = r" "p \<in> set rgs" "rg_id p \<noteq> rg_id r"
      | "p \<in> set rgs" "q \<in> set rgs" using same by auto
    then show "rg_email q \<noteq> rg_email p \<and> (rg_member p = None \<or> rg_member q \<noteq> rg_member p)"
    proof cases
      case 1
      then show ?thesis using one [of q] same by auto
    next
      case 2
      then show ?thesis using one [of p] same by auto
    next
      case 3
      then show ?thesis using ok same by (simp add: roster_ok_def one_row_each_def)
    qed
  qed
  ultimately show ?thesis using keys by (simp add: roster_ok_def)
qed

text \<open>A row whose status changes keeps its address and its member.\<close>

lemma one_rowD:
  "roster_ok evs rgs \<Longrightarrow> p \<in> set rgs \<Longrightarrow> q \<in> set rgs \<Longrightarrow> rg_event q = rg_event p \<Longrightarrow> rg_id q \<noteq> rg_id p \<Longrightarrow>
    rg_email q \<noteq> rg_email p \<and> (rg_member p = None \<or> rg_member q \<noteq> rg_member p)"
  by (simp add: roster_ok_def one_row_each_def)

lemma roster_status:
  assumes ok: "roster_ok evs rgs" and old: "row_get rg_id (rg_id r) rgs = Some old"
    and same: "rg_event r = rg_event old" "rg_email r = rg_email old" "rg_member r = rg_member old"
    and seat: "\<And>ev. row_get ev_id (rg_event r) evs = Some ev \<Longrightarrow> 0 < ev_capacity ev \<Longrightarrow> confirmed (rg_status r) \<Longrightarrow>
      \<not> confirmed (rg_status old) \<Longrightarrow> occupancy (ev_id ev) rgs < ev_capacity ev"
  shows "roster_ok evs (row_put rg_id r rgs)"
proof (rule roster_put [OF ok old same(1) _ seat])
  fix q
  assume "q \<in> set rgs" "rg_event q = rg_event r" "rg_id q \<noteq> rg_id r"
  then show "rg_email q \<noteq> rg_email r \<and> (rg_member r = None \<or> rg_member q \<noteq> rg_member r)"
    using one_rowD [OF ok, of old q] row_get_SomeD [OF old] same by auto
qed

lemma roster_add:
  assumes ok: "roster_ok evs rgs" and fresh: "rg_id r = fresh_key rg_id rgs"
    and ev: "row_get ev_id (rg_event r) evs = Some ev" "ev_status ev \<noteq> EventDraft"
    and one: "\<And>q. q \<in> set rgs \<Longrightarrow> rg_event q = rg_event r \<Longrightarrow>
      rg_email q \<noteq> rg_email r \<and> (rg_member r = None \<or> rg_member q \<noteq> rg_member r)"
    and seat: "0 < ev_capacity ev \<Longrightarrow> confirmed (rg_status r) \<Longrightarrow> occupancy (ev_id ev) rgs < ev_capacity ev"
  shows "roster_ok evs (rgs @ [r])"
proof -
  have keys: "unique_keys ev_id evs" "unique_keys rg_id (rgs @ [r])"
    using ok unique_keys_fresh [OF fresh] by (simp_all add: roster_ok_def)
  have "fits fv (rgs @ [r])" if fv: "fv \<in> set evs" for fv
  proof (cases "ev_id fv = rg_event r")
    case True
    then have "fv = ev" using row_get_unique [OF keys(1) fv] ev(1) by simp
    then show ?thesis using seat ok fv by (auto simp: roster_ok_def fits_def occupancy_snoc seated_in_def)
  next
    case False
    then show ?thesis using ok fv by (auto simp: roster_ok_def fits_def occupancy_snoc seated_in_def)
  qed
  moreover have "one_row_each (rgs @ [r])"
    unfolding one_row_each_def
  proof (intro ballI impI)
    fix p q
    assume "p \<in> set (rgs @ [r])" "q \<in> set (rgs @ [r])" and same: "rg_event q = rg_event p \<and> rg_id q \<noteq> rg_id p"
    then consider "p \<in> set rgs" "q \<in> set rgs" | "p \<in> set rgs" "q = r" | "p = r" "q \<in> set rgs" by auto
    then show "rg_email q \<noteq> rg_email p \<and> (rg_member p = None \<or> rg_member q \<noteq> rg_member p)"
    proof cases
      case 1
      then show ?thesis using one_rowD [OF ok] same by blast
    next
      case 2
      then show ?thesis using one [of p] same by auto
    next
      case 3
      then show ?thesis using one [of q] same by auto
    qed
  qed
  ultimately show ?thesis using keys ok ev by (auto simp: roster_ok_def)
qed

text \<open>An event is rewritten while waiters of it are promoted.\<close>

lemma roster_event_put:
  assumes ok: "roster_ok evs rgs" and old: "row_get ev_id (ev_id ev) evs = Some old" and "ev_status ev = EventDraft \<Longrightarrow> ev_status old = EventDraft"
    and rs: "distinct rs" "set rs \<subseteq> set (waiting_rows (ev_id ev) rgs)"
    and fit: "0 \<le> ev_capacity ev" "0 < ev_capacity ev \<Longrightarrow> occupancy (ev_id ev) rgs + int (length rs) \<le> ev_capacity ev"
  shows "roster_ok (row_put ev_id ev evs) (promoted_rows time rs rgs)"
proof -
  have keys: "unique_keys rg_id rgs" "unique_keys ev_id evs" using ok by (simp_all add: roster_ok_def)
  have row: "row_get ev_id i (row_put ev_id ev evs) = (if i = ev_id ev then Some ev else row_get ev_id i evs)" for i
    using old by (simp add: row_get_row_put)
  have rows: "\<exists>p \<in> set rgs. rg_event q = rg_event p \<and> rg_id q = rg_id p \<and> rg_email q = rg_email p \<and> rg_member q = rg_member p"
    if "q \<in> set (promoted_rows time rs rgs)" for q
    using that by (auto simp: promoted_rows_def)
  have "fits fv (promoted_rows time rs rgs)" if "fv \<in> set (row_put ev_id ev evs)" for fv
  proof -
    from that consider "fv = ev" | "fv \<in> set evs" "ev_id fv \<noteq> ev_id ev" by (auto dest: set_row_putD)
    then show ?thesis
    proof cases
      case 1
      then show ?thesis using fit occupancy_promoted [OF keys(1) rs, of "ev_id ev" time] by (simp add: fits_def)
    next
      case 2
      then have "fits fv rgs" using ok by (simp add: roster_ok_def)
      then show ?thesis using 2 occupancy_promoted [OF keys(1) rs, of "ev_id fv" time] by (simp add: fits_def)
    qed
  qed
  moreover have "one_row_each (promoted_rows time rs rgs)"
    unfolding one_row_each_def
  proof (intro ballI impI)
    fix p q
    assume "p \<in> set (promoted_rows time rs rgs)" "q \<in> set (promoted_rows time rs rgs)" "rg_event q = rg_event p \<and> rg_id q \<noteq> rg_id p"
    moreover from this(1,2) obtain p' q' where "p' \<in> set rgs" "q' \<in> set rgs"
      "rg_event p = rg_event p'" "rg_id p = rg_id p'" "rg_email p = rg_email p'" "rg_member p = rg_member p'"
      "rg_event q = rg_event q'" "rg_id q = rg_id q'" "rg_email q = rg_email q'" "rg_member q = rg_member q'"
      using rows by meson
    ultimately show "rg_email q \<noteq> rg_email p \<and> (rg_member p = None \<or> rg_member q \<noteq> rg_member p)"
      using one_rowD [OF ok, of p' q'] by simp
  qed
  moreover have "\<exists>fv. row_get ev_id (rg_event q) (row_put ev_id ev evs) = Some fv \<and> ev_status fv \<noteq> EventDraft"
    if q: "q \<in> set (promoted_rows time rs rgs)" for q
  proof -
    from rows [OF q] ok obtain fv where "row_get ev_id (rg_event q) evs = Some fv" "ev_status fv \<noteq> EventDraft"
      by (auto simp: roster_ok_def)
    then show ?thesis using old assms(3) by (auto simp: row)
  qed
  ultimately show ?thesis using keys by (simp add: roster_ok_def)
qed

section \<open>Seats\<close>

lemma set_row_put_row:
  "row_get key (key r) rows = Some old \<Longrightarrow> set (row_put key r rows) = insert r {x \<in> set rows. key x \<noteq> key r}"
  using row_get_SomeD [of key "key r" rows old] by (auto simp: row_put_def)

lemma unique_rowD: "unique_keys key rows \<Longrightarrow> row_get key i rows = Some r \<Longrightarrow> q \<in> set rows \<Longrightarrow> key q = i \<Longrightarrow> q = r"
  using row_get_unique [of key rows q] by simp

lemma well_seated_later: "well_seated t ev rgs \<Longrightarrow> t \<le> u \<Longrightarrow> well_seated u ev rgs"
  by (auto simp: well_seated_def)

lemma all_seated_later: "all_seated t s \<Longrightarrow> t \<le> u \<Longrightarrow> all_seated u s"
  using well_seated_later by (auto simp: all_seated_def)

lemma well_seated_other:
  assumes "unique_keys rg_id rgs" and "row_get rg_id (rg_id r) rgs = Some old" and "rg_event r = rg_event old"
    and "ev_id ev \<noteq> rg_event r"
  shows "well_seated t ev (row_put rg_id r rgs) = well_seated t ev rgs"
proof -
  have "occupancy (ev_id ev) (row_put rg_id r rgs) = occupancy (ev_id ev) rgs"
    using occupancy_put [OF assms(1,2), of "ev_id ev"] assms(3,4) by (simp add: seated_in_def)
  moreover have "nobody_waits (ev_id ev) (row_put rg_id r rgs) = nobody_waits (ev_id ev) rgs"
    using assms(3,4) unique_rowD [OF assms(1,2)] by (auto simp: nobody_waits_def set_row_put_row [OF assms(2)])
  ultimately show ?thesis by (simp add: well_seated_def)
qed

lemma well_seated_put:
  assumes keys: "unique_keys rg_id rgs" and old: "row_get rg_id (rg_id r) rgs = Some old" and "rg_event r = rg_event old"
    and "well_seated t ev rgs" and full: "fits ev (row_put rg_id r rgs)"
    and leaves: "confirmed (rg_status old) \<Longrightarrow> confirmed (rg_status r) \<or> nobody_waits (ev_id ev) rgs"
    and joins: "rg_status r = RegWaitlisted \<Longrightarrow> rg_event r = ev_id ev \<Longrightarrow> rg_status old = RegWaitlisted \<or>
      0 < ev_capacity ev \<and> occupancy (ev_id ev) rgs = ev_capacity ev \<and> \<not> confirmed (rg_status old)"
  shows "well_seated t ev (row_put rg_id r rgs)"
proof (cases "rg_event r = ev_id ev \<and> ev_status ev = EventPublished \<and> \<not> ev_approval ev \<and> t \<le> ev_ends ev")
  case True
  have occ: "occupancy (ev_id ev) (row_put rg_id r rgs) =
      occupancy (ev_id ev) rgs - of_bool (confirmed (rg_status old)) + of_bool (confirmed (rg_status r))"
    using occupancy_put [OF keys old, of "ev_id ev"] True assms(3) by (simp add: seated_in_def)
  have mem: "old \<in> set rgs" using row_get_SomeD [OF old] by simp
  have waits: "nobody_waits (ev_id ev) (row_put rg_id r rgs)"
    if "nobody_waits (ev_id ev) rgs" "rg_status r \<noteq> RegWaitlisted"
    using that by (auto simp: nobody_waits_def dest!: set_row_putD)
  show ?thesis
  proof (cases "nobody_waits (ev_id ev) rgs")
    case nobody: True
    then have "rg_status old \<noteq> RegWaitlisted" using mem True assms(3) by (auto simp: nobody_waits_def)
    then show ?thesis using waits [OF nobody] joins True occ by (auto simp: well_seated_def confirmed_def)
  next
    case False
    with True assms(4) have "0 < ev_capacity ev" "occupancy (ev_id ev) rgs = ev_capacity ev"
      by (auto simp: well_seated_def)
    then show ?thesis using occ leaves False full by (auto simp: well_seated_def fits_def split: if_splits)
  qed
next
  case False
  show ?thesis
  proof (cases "rg_event r = ev_id ev")
    case True
    with False show ?thesis by (auto simp: well_seated_def)
  next
    case other: False
    then have "ev_id ev \<noteq> rg_event r" by simp
    from well_seated_other [OF keys old assms(3) this] assms(4) show ?thesis by simp
  qed
qed

text \<open>Promoting the first waiters, as many as there are places for.\<close>

lemma well_seated_promoted:
  assumes "unique_keys rg_id rgs" and "rs = take n (waiting_rows (ev_id ev) rgs)"
    and "0 < ev_capacity ev \<Longrightarrow> int n = ev_capacity ev - occupancy (ev_id ev) rgs"
    and "ev_capacity ev \<le> 0 \<Longrightarrow> length (waiting_rows (ev_id ev) rgs) \<le> n"
  shows "well_seated t ev (promoted_rows time rs rgs)"
proof -
  have sub: "set rs \<subseteq> set (waiting_rows (ev_id ev) rgs)" using assms(2) set_take_subset by metis
  have dist: "distinct rs" using assms(2) distinct_waiting_rows [OF assms(1)] by simp
  note occ = occupancy_promoted [OF assms(1) dist sub, of "ev_id ev" time]
  show ?thesis
  proof (cases "length (waiting_rows (ev_id ev) rgs) \<le> n")
    case True
    then have "rs = waiting_rows (ev_id ev) rgs" using assms(2) by simp
    then show ?thesis using nobody_waits_promoted [OF sub] by (auto simp: well_seated_def)
  next
    case False
    then have "length rs = n" "\<not> ev_capacity ev \<le> 0" using assms(2,4) by auto
    then show ?thesis using occ assms(3) by (simp add: well_seated_def)
  qed
qed

lemma well_seated_promoted_other:
  assumes "unique_keys rg_id rgs" and "distinct rs" and "set rs \<subseteq> set (waiting_rows e rgs)" and "ev_id ev \<noteq> e"
  shows "well_seated t ev (promoted_rows time rs rgs) = well_seated t ev rgs"
proof -
  have "nobody_waits (ev_id ev) (promoted_rows time rs rgs) = nobody_waits (ev_id ev) rgs"
    using assms(3,4) nobody_waits_promoted [OF assms(3)] by (auto simp: nobody_waits_def)
  then show ?thesis using occupancy_promoted [OF assms(1-3), of "ev_id ev" time] assms(4) by (simp add: well_seated_def)
qed

end
