(* ===== verification/Event_Moves.thy ===== *)
theory Event_Moves
  imports Event_Roster
begin

text \<open>
  What the services on events and registrations do to the roster: it stays well-formed, every row
  moves along one edge of its graph at most, and no place of a running event stays idle while
  somebody waits.
\<close>

section \<open>Frames\<close>

text \<open>The tables beside the registrations and the payments.\<close>

definition rest :: "event_db \<Rightarrow> event list \<times> check_in list \<times> station list \<times> survey list \<times> response list \<times> certificate list" where
  "rest s = (events s, check_ins s, stations s, surveys s, responses s, certificates s)"

lemma restD: "rest t = rest s \<Longrightarrow> events t = events s \<and> check_ins t = check_ins s \<and> stations t = stations s \<and>
    surveys t = surveys s \<and> responses t = responses s \<and> certificates t = certificates s"
  by (simp add: rest_def)

lemma logs_same [simp]:
  "rest (event_audit actor act ev tgt m s) = rest s" "registrations (event_audit actor act ev tgt m s) = registrations s"
  "rest (event_notify n i s) = rest s" "registrations (event_notify n i s) = registrations s"
  "events (event_audit actor act ev tgt m s) = events s" "events (event_notify n i s) = events s"
  "payments (ev_pay (event_audit actor act ev tgt m s)) = payments (ev_pay s)"
  "processed (ev_pay (event_audit actor act ev tgt m s)) = processed (ev_pay s)"
  "payments (ev_pay (event_notify n i s)) = payments (ev_pay s)"
  "processed (ev_pay (event_notify n i s)) = processed (ev_pay s)"
  by (simp_all add: event_audit_def event_notify_def rest_def)

lemma logs_other [simp]:
  "check_ins (event_audit actor act ev tgt m s) = check_ins s" "stations (event_audit actor act ev tgt m s) = stations s"
  "surveys (event_audit actor act ev tgt m s) = surveys s" "responses (event_audit actor act ev tgt m s) = responses s"
  "certificates (event_audit actor act ev tgt m s) = certificates s"
  "check_ins (event_notify n i s) = check_ins s" "stations (event_notify n i s) = stations s"
  "surveys (event_notify n i s) = surveys s" "responses (event_notify n i s) = responses s"
  "certificates (event_notify n i s) = certificates s"
  by (simp_all add: event_audit_def event_notify_def)

lemma charge_same_rows [simp]:
  "rest (create_for_registered_registration env ev r actor s) = rest s"
  "registrations (create_for_registered_registration env ev r actor s) = registrations s"
  "rest (cancel_for_registration env ev r actor s) = rest s"
  "registrations (cancel_for_registration env ev r actor s) = registrations s"
  by (simp_all add: create_for_registered_registration_def cancel_for_registration_def rest_def split: option.splits sum.splits)

lemma charge_event_keeps:
  "pay_ok (ev_pay s) \<Longrightarrow> keeps_payments (ev_pay s) (ev_pay (create_for_registered_registration env ev r actor s))"
  "pay_ok (ev_pay s) \<Longrightarrow> keeps_payments (ev_pay s) (ev_pay (cancel_for_registration env ev r actor s))"
  by (auto simp: create_for_registered_registration_def cancel_for_registration_def
      dest: yields_Inr [OF create_payment_keeps] yields_Inr [OF cancel_pending_keeps] split: option.splits sum.splits)

lemma put_rows [simp]:
  "rest (put_registration r s) = rest s" "ev_pay (put_registration r s) = ev_pay s"
  "registrations (put_registration r s) = row_put rg_id r (registrations s)"
  "events (put_event ev s) = row_put ev_id ev (events s)" "registrations (put_event ev s) = registrations s"
  "ev_pay (put_event ev s) = ev_pay s"
  by (simp_all add: put_registration_def put_event_def rest_def)

lemma event_row_SomeD: "event_row i s = Some ev \<Longrightarrow> ev \<in> set (events s) \<and> ev_id ev = i"
  unfolding event_row_def by (rule row_get_SomeD)

lemma registration_row_SomeD: "registration_row i s = Some r \<Longrightarrow> r \<in> set (registrations s) \<and> rg_id r = i"
  unfolding registration_row_def by (rule row_get_SomeD)

lemma row_put_twice: "key a = key b \<Longrightarrow> row_put key a (row_put key b rows) = row_put key a rows"
  by (simp add: row_put_def)

text \<open>A status is saved, and with it the sequence of the calendar.\<close>

definition touched :: "int \<Rightarrow> registration_status \<Rightarrow> registration \<Rightarrow> registration" where
  "touched time st r = r\<lparr>rg_status := st, rg_sequence := rg_sequence r + 1, rg_touched := time\<rparr>"

lemma touched_simps [simp]:
  "rg_id (touched time st r) = rg_id r" "rg_event (touched time st r) = rg_event r" "rg_email (touched time st r) = rg_email r"
  "rg_member (touched time st r) = rg_member r" "rg_status (touched time st r) = st" "rg_token (touched time st r) = rg_token r"
  "rg_sequence (touched time st r) = rg_sequence r + 1"
  by (simp_all add: touched_def)

lemma touched_registered: "touched time RegRegistered r = raised time r"
  by (simp add: touched_def raised_def)

lemma save_registration_Inr:
  "save_registration r s = Inr t \<longleftrightarrow> registration_row (rg_id r) s \<noteq> None \<and>
     \<not> list_ex (registration_clash r) (registrations s) \<and> t = put_registration r s"
  by (auto simp: save_registration_def)

lemma save_reg_status_Inr:
  assumes "save_reg_status r st s = Inr t"
  obtains row where "registration_row (rg_id r) s = Some row" "t = put_registration (row\<lparr>rg_status := st\<rparr>) s"
  using assms by (auto simp: save_reg_status_def save_registration_Inr ok_iff)

lemma calendar_changed_row:
  "registration_row i s = Some r \<Longrightarrow> calendar_registration_changed env i s =
     put_registration (r\<lparr>rg_sequence := rg_sequence r + 1, rg_touched := event_time env\<rparr>) s"
  by (simp add: calendar_registration_changed_def)

lemma put_then_calendar:
  assumes "registration_row (rg_id r) s = Some old"
  shows "calendar_registration_changed env (rg_id r) (put_registration r s) =
    put_registration (r\<lparr>rg_sequence := rg_sequence r + 1, rg_touched := event_time env\<rparr>) s"
proof -
  have "registration_row (rg_id r) (put_registration r s) = Some r"
    using assms by (simp add: registration_row_def row_get_row_put)
  then show ?thesis
    by (simp add: calendar_changed_row put_registration_def row_put_twice)
qed

lemma move_registration_Inr:
  assumes "move_registration env r st s = Inr t"
  obtains row where "registration_row (rg_id r) s = Some row" "t = put_registration (touched (event_time env) st row) s"
proof -
  from assms obtain u where u: "save_reg_status r st s = Inr u" "t = calendar_registration_changed env (rg_id r) u"
    by (auto simp: move_registration_def ok_iff)
  from save_reg_status_Inr [OF u(1)] obtain row where
    row: "registration_row (rg_id r) s = Some row" "u = put_registration (row\<lparr>rg_status := st\<rparr>) s" by blast
  have "rg_id row = rg_id r" using registration_row_SomeD [OF row(1)] by simp
  then have "t = put_registration (touched (event_time env) st row) s"
    using put_then_calendar [of "row\<lparr>rg_status := st\<rparr>" s row env] u(2) row by (simp add: touched_def)
  with row(1) show ?thesis by (rule that)
qed

lemma move_registration_pay: "move_registration env r st s = Inr t \<Longrightarrow> ev_pay t = ev_pay s \<and> rest t = rest s"
  by (erule move_registration_Inr) simp

section \<open>Promotion\<close>

lemma promote_one_Inr:
  assumes "promote_one env ev actor mode r s = Inr t"
  obtains row where "registration_row (rg_id r) s = Some row"
    "registrations t = row_put rg_id (raised (event_time env) row) (registrations s)" "rest t = rest s"
    "pay_ok (ev_pay s) \<Longrightarrow> keeps_payments (ev_pay s) (ev_pay t)"
proof -
  from assms obtain u where u: "move_registration env r RegRegistered s = Inr u"
    and t: "t = event_notify ''registration_promoted'' (rg_id r) (event_audit actor ''event.registration_promoted'' ev
        (''registration'', rg_id r) [(''registration_id'', MInt (int (rg_id r))), (''promotion_mode'', MStr mode)]
        (create_for_registered_registration env ev r actor u))"
    by (auto simp: promote_one_def ok_iff Let_def)
  from move_registration_Inr [OF u] obtain row where
    row: "registration_row (rg_id r) s = Some row" "u = put_registration (touched (event_time env) RegRegistered row) s" by blast
  show ?thesis
  proof (rule that [OF row(1)])
    show "registrations t = row_put rg_id (raised (event_time env) row) (registrations s)" "rest t = rest s"
      using row(2) t by (simp_all add: touched_registered)
    assume "pay_ok (ev_pay s)"
    then have "keeps_payments (ev_pay s) (ev_pay (create_for_registered_registration env ev r actor u))"
      using charge_event_keeps(1) [of u env ev r actor] row(2) by simp
    then show "keeps_payments (ev_pay s) (ev_pay t)"
      by (subst keeps_payments_cong [of "ev_pay t"]) (simp_all add: t)
  qed
qed

lemma promote_rows:
  assumes "for_each (promote_one env ev actor mode) rs s = Inr t" and "unique_keys rg_id (registrations s)"
    and "distinct rs" and "set rs \<subseteq> set (registrations s)"
  shows "registrations t = promoted_rows (event_time env) rs (registrations s) \<and> rest t = rest s \<and>
    (pay_ok (ev_pay s) \<longrightarrow> keeps_payments (ev_pay s) (ev_pay t))"
proof -
  have "registrations t = map (\<lambda>r. if r \<in> set rs then raised (event_time env) r else r) (registrations s)"
  proof (rule for_each_rows [where tab = registrations, OF assms(1,3,2,4)])
    fix x u v
    assume "x \<in> set (registrations u)" "unique_keys rg_id (registrations u)" "promote_one env ev actor mode x u = Inr v"
    moreover from this(3) obtain row where "registration_row (rg_id x) u = Some row"
      "registrations v = row_put rg_id (raised (event_time env) row) (registrations u)"
      by (rule promote_one_Inr) blast
    moreover have "registration_row (rg_id x) u = Some x"
      using calculation(1,2) by (simp add: registration_row_def row_get_unique)
    ultimately show "registrations v = row_put rg_id (raised (event_time env) x) (registrations u) \<or>
        raised (event_time env) x = x \<and> registrations v = registrations u"
      by simp
  qed simp
  moreover have "rest t = rest s \<and> (pay_ok (ev_pay s) \<longrightarrow> keeps_payments (ev_pay s) (ev_pay t))"
  proof (rule for_each_inv [OF assms(1)])
    fix x u v
    assume u: "rest u = rest s \<and> (pay_ok (ev_pay s) \<longrightarrow> keeps_payments (ev_pay s) (ev_pay u))"
      and "promote_one env ev actor mode x u = Inr v"
    from this(2) have v: "rest v = rest u" "pay_ok (ev_pay u) \<Longrightarrow> keeps_payments (ev_pay u) (ev_pay v)"
      by (blast elim: promote_one_Inr)+
    have "keeps_payments (ev_pay s) (ev_pay v)" if "pay_ok (ev_pay s)"
    proof -
      have "keeps_payments (ev_pay s) (ev_pay u)" "pay_ok (ev_pay u)" using u that by (auto simp: keeps_payments_def)
      with v(2) show ?thesis using keeps_payments_trans by blast
    qed
    then show "rest v = rest s \<and> (pay_ok (ev_pay s) \<longrightarrow> keeps_payments (ev_pay s) (ev_pay v))" using u v(1) by simp
  qed simp
  ultimately show ?thesis by (simp add: promoted_rows_def)
qed

lemma selected_take: "\<exists>n. selected places rs = take n rs"
  by (cases places) (auto simp: selected_def intro: exI [of _ "length rs"])

lemma promote_automatically_Inr:
  assumes "promote_automatically env ev actor places s = Inr (rs, t)" and "unique_keys rg_id (registrations s)"
  shows "rs = (if ev_approval ev then [] else selected places (waiting_rows (ev_id ev) (registrations s))) \<and>
    registrations t = promoted_rows (event_time env) rs (registrations s) \<and> rest t = rest s \<and>
    (pay_ok (ev_pay s) \<longrightarrow> keeps_payments (ev_pay s) (ev_pay t)) \<and>
    distinct rs \<and> set rs \<subseteq> set (waiting_rows (ev_id ev) (registrations s))"
proof (cases "ev_approval ev")
  case True
  then show ?thesis using assms(1) by (auto simp: promote_automatically_def)
next
  case False
  let ?rs = "selected places (waiting_rows (ev_id ev) (registrations s))"
  from False assms(1) have rs: "rs = ?rs" "for_each (promote_one env ev actor ''automatic_fifo'') ?rs s = Inr t"
    by (auto simp: promote_automatically_def waiters_eq ok_iff Let_def)
  obtain n where n: "?rs = take n (waiting_rows (ev_id ev) (registrations s))"
    using selected_take by blast
  then have d: "distinct ?rs" "set ?rs \<subseteq> set (waiting_rows (ev_id ev) (registrations s))"
    using distinct_waiting_rows [OF assms(2)] by (simp, metis set_take_subset)
  moreover have "set ?rs \<subseteq> set (registrations s)" using d(2) by auto
  ultimately show ?thesis using promote_rows [OF rs(2) assms(2)] rs(1) False by simp
qed

section \<open>Steps of the roster\<close>

definition roster_step :: "event_env \<Rightarrow> event_db \<Rightarrow> event_db \<Rightarrow> bool" where
  "roster_step env s t \<longleftrightarrow> roster_ok (events t) (registrations t) \<and> follows_once s t \<and>
     (\<forall>time \<le> event_time env. all_seated time s \<longrightarrow> all_seated (event_time env) t)"

lemma registration_follows_refl [simp]: "registration_follows r r"
  by (simp add: registration_follows_def stays)

lemma event_follows_refl [simp]: "event_follows ev ev"
  by (simp add: event_follows_def stands)

lemma roster_step_same:
  "roster_ok (events s) (registrations s) \<Longrightarrow> events t = events s \<Longrightarrow> registrations t = registrations s \<Longrightarrow> roster_step env s t"
  using all_seated_later [of _ s "event_time env"]
  by (auto simp: roster_step_def follows_once_def registration_row_def event_row_def all_seated_def)

lemma roster_step_cong:
  assumes "roster_step env s u" and "events t = events u" and "registrations t = registrations u"
  shows "roster_step env s t"
  using assms by (simp add: roster_step_def follows_once_def registration_row_def event_row_def all_seated_def)

lemma spot_free_iff:
  "fits ev rgs \<Longrightarrow> rgs = registrations s \<Longrightarrow> spot_free ev s \<longleftrightarrow> ev_capacity ev = 0 \<or> occupancy (ev_id ev) rgs < ev_capacity ev"
  by (auto simp: spot_free_def spots_left_def fits_def confirmed_occupancy_eq)

text \<open>The seat conditions of an operation that rewrites one row.\<close>

definition seats_kept :: "event_env \<Rightarrow> event \<Rightarrow> registration_status \<Rightarrow> registration_status \<Rightarrow> event_db \<Rightarrow> bool" where
  "seats_kept env ev old new s \<longleftrightarrow>
     (confirmed new \<and> \<not> confirmed old \<longrightarrow> spot_free ev s) \<and>
     (confirmed old \<and> \<not> confirmed new \<longrightarrow> ev_approval ev \<or> ev_capacity ev = 0 \<or> \<not> may_promote ev (event_time env)) \<and>
     (new = RegWaitlisted \<and> old \<noteq> RegWaitlisted \<longrightarrow> ev_approval ev \<or> \<not> spot_free ev s \<and> \<not> confirmed old)"

lemma put_roster_step:
  assumes ok: "roster_ok (events s) (registrations s)" and r: "registration_row (rg_id q) s = Some r"
    and t: "registrations t = row_put rg_id q (registrations s)" "events t = events s"
    and follows: "registration_follows r q" and ev: "event_row (rg_event r) s = Some ev"
    and one: "\<And>p. p \<in> set (registrations s) \<Longrightarrow> rg_event p = rg_event q \<Longrightarrow> rg_id p \<noteq> rg_id q \<Longrightarrow>
      rg_email p \<noteq> rg_email q \<and> (rg_member q = None \<or> rg_member p \<noteq> rg_member q)"
    and seats: "seats_kept env ev (rg_status r) (rg_status q) s"
  shows "roster_step env s t"
proof -
  let ?rgs = "registrations s"
  have keys: "unique_keys rg_id ?rgs" "unique_keys ev_id (events s)" using ok by (simp_all add: roster_ok_def)
  have old: "row_get rg_id (rg_id q) ?rgs = Some r" using r by (simp add: registration_row_def)
  have event: "rg_event q = rg_event r" using follows by (simp add: registration_follows_def)
  have fit: "fits ev ?rgs" and evid: "ev_id ev = rg_event r"
    using roster_event [OF ok] ev by (auto simp: event_row_def)
  note free = spot_free_iff [OF fit refl]
  have ok': "roster_ok (events t) (registrations t)"
    unfolding t
  proof (rule roster_put [OF ok old event one])
    fix fv
    assume "row_get ev_id (rg_event q) (events s) = Some fv" "0 < ev_capacity fv" "confirmed (rg_status q)" "\<not> confirmed (rg_status r)"
    then show "occupancy (ev_id fv) ?rgs < ev_capacity fv"
      using seats free ev event by (auto simp: seats_kept_def event_row_def)
  qed
  have "all_seated (event_time env) t" if seated: "all_seated time s" and "time \<le> event_time env" for time
    unfolding all_seated_def t
  proof
    fix fv
    assume fv: "fv \<in> set (events s)"
    then have w: "well_seated (event_time env) fv ?rgs"
      using all_seated_later [OF that] by (simp add: all_seated_def)
    show "well_seated (event_time env) fv (row_put rg_id q ?rgs)"
    proof (cases "ev_id fv = rg_event r")
      case False
      then show ?thesis using well_seated_other [OF keys(1) old event, of fv "event_time env"] w event by simp
    next
      case True
      then have "fv = ev" using unique_rowD [OF keys(2) _ fv, of "rg_event r" ev] ev by (simp add: event_row_def)
      have fit': "fits ev (row_put rg_id q ?rgs)"
        using ok' fv \<open>fv = ev\<close> by (simp add: t roster_ok_def)
      show ?thesis
      proof (cases "ev_approval ev \<or> ev_status ev \<noteq> EventPublished \<or> ev_ends ev < event_time env")
        case True
        then show ?thesis using \<open>fv = ev\<close> by (auto simp: well_seated_def)
      next
        case running: False
        then have may: "may_promote ev (event_time env)" "\<not> ev_approval ev" by (auto simp: may_promote_def)
        have leaves: "confirmed (rg_status q) \<or> nobody_waits (ev_id ev) ?rgs" if "confirmed (rg_status r)"
          using that seats may w \<open>fv = ev\<close> running by (auto simp: seats_kept_def well_seated_def)
        have joins: "rg_status r = RegWaitlisted \<or> 0 < ev_capacity ev \<and> occupancy (ev_id ev) ?rgs = ev_capacity ev \<and>
            \<not> confirmed (rg_status r)" if "rg_status q = RegWaitlisted"
          using that seats may free fit by (auto simp: seats_kept_def fits_def)
        show ?thesis
          using well_seated_put [OF keys(1) old event _ fit' leaves joins, of "event_time env"] w \<open>fv = ev\<close> by blast
      qed
    qed
  qed
  moreover have "follows_once s t"
    using follows r by (auto simp: follows_once_def registration_row_def event_row_def t row_get_row_put)
  ultimately show ?thesis using ok' by (auto simp: roster_step_def)
qed

lemma status_roster_step:
  assumes ok: "roster_ok (events s) (registrations s)" and r: "registration_row (rg_id q) s = Some r"
    and t: "registrations t = row_put rg_id q (registrations s)" "events t = events s"
    and same: "rg_event q = rg_event r" "rg_email q = rg_email r" "rg_member q = rg_member r" "rg_token q = rg_token r"
      "rg_sequence r \<le> rg_sequence q"
    and move: "registration_move (rg_status r) (rg_status q)" and ev: "event_row (rg_event r) s = Some ev"
    and seats: "seats_kept env ev (rg_status r) (rg_status q) s"
  shows "roster_step env s t"
proof (rule put_roster_step [OF ok r t _ ev _ seats])
  show "registration_follows r q" using same move by (simp add: registration_follows_def)
  fix p
  assume "p \<in> set (registrations s)" "rg_event p = rg_event q" "rg_id p \<noteq> rg_id q"
  then show "rg_email p \<noteq> rg_email q \<and> (rg_member q = None \<or> rg_member p \<noteq> rg_member q)"
    using one_rowD [OF ok, of r p] registration_row_SomeD [OF r] same by auto
qed

end
