(* ===== verification/Event_Safety.thy ===== *)
theory Event_Safety
  imports Event_Moves
begin

text \<open>
  What every events service keeps: the invariant of the roster, of the certificates and of the
  attendance, the payments, and the seats. One lemma per operation, then the machine.
\<close>

section \<open>What an operation keeps\<close>

definition event_keeps :: "event_env \<Rightarrow> event_db \<Rightarrow> event_db \<Rightarrow> bool" where
  "event_keeps env s t \<longleftrightarrow> roster_step env s t \<and> certificates_ok t \<and> attendance_ok t \<and> keeps_payments (ev_pay s) (ev_pay t)"

lemma event_keeps_ok: "events_ok s \<Longrightarrow> event_keeps env s t \<Longrightarrow> events_ok t"
  by (simp add: events_ok_def event_keeps_def roster_step_def keeps_payments_def)

text \<open>Registrations stay where they are and attended, events stay certifiable.\<close>

definition keeps_attended :: "event_db \<Rightarrow> event_db \<Rightarrow> bool" where
  "keeps_attended s t \<longleftrightarrow>
     (\<forall>i r. registration_row i s = Some r \<longrightarrow> (\<exists>q. registration_row i t = Some q \<and> rg_event q = rg_event r \<and>
        (rg_status r = RegAttended \<longrightarrow> rg_status q = RegAttended))) \<and>
     (\<forall>i ev. event_row i s = Some ev \<longrightarrow> (\<exists>fv. event_row i t = Some fv \<and>
        (ev_status ev \<in> {EventPublished, EventCompleted} \<longrightarrow> ev_status fv \<in> {EventPublished, EventCompleted})))"

lemma certificate_sound_mono:
  assumes "keeps_attended s t" and "certificate_sound (events s) (registrations s) c"
  shows "certificate_sound (events t) (registrations t) c"
proof -
  from assms(2) obtain r where r: "registration_row (ct_registration c) s = Some r"
    "ct_status c = CertActive \<Longrightarrow> rg_status r = RegAttended \<and>
       (\<exists>ev. event_row (rg_event r) s = Some ev \<and> ev_status ev \<in> {EventPublished, EventCompleted})"
    unfolding certificate_sound_def registration_row_def event_row_def by blast
  from assms(1) r(1) obtain q where q: "registration_row (ct_registration c) t = Some q" "rg_event q = rg_event r"
    "rg_status r = RegAttended \<Longrightarrow> rg_status q = RegAttended"
    unfolding keeps_attended_def by blast
  have "\<exists>fv. event_row (rg_event q) t = Some fv \<and> ev_status fv \<in> {EventPublished, EventCompleted}" if "ct_status c = CertActive"
  proof -
    from r(2) [OF that] obtain ev where ev: "event_row (rg_event r) s = Some ev" "ev_status ev \<in> {EventPublished, EventCompleted}"
      by blast
    then show ?thesis using assms(1) unfolding q(2) keeps_attended_def by blast
  qed
  then show ?thesis
    using q r(2) unfolding certificate_sound_def registration_row_def event_row_def by auto
qed

lemma certificates_keep:
  "certificates_ok s \<Longrightarrow> keeps_attended s t \<Longrightarrow> certificates t = certificates s \<Longrightarrow> certificates_ok t"
  using certificate_sound_mono by (simp add: certificates_ok_def)

lemma attendance_keep:
  assumes "attendance_ok s" and "check_ins t = check_ins s"
    and "\<And>q. q \<in> set (registrations t) \<Longrightarrow> rg_status q = RegAttended \<Longrightarrow>
      \<exists>r \<in> set (registrations s). rg_status r = RegAttended \<and> rg_id q = rg_id r \<and> rg_event q = rg_event r"
  shows "attendance_ok t"
  unfolding attendance_ok_def
proof (intro conjI ballI impI)
  show "distinct (map ci_operation (check_ins t))" using assms(1,2) by (simp add: attendance_ok_def)
  fix q
  assume "q \<in> set (registrations t)" "rg_status q = RegAttended"
  from assms(3) [OF this] obtain r where "r \<in> set (registrations s)" "rg_status r = RegAttended" "rg_id q = rg_id r" "rg_event q = rg_event r"
    by blast
  with assms(1,2) show "\<exists>c \<in> set (check_ins t). ci_registration c = rg_id q \<and> ci_event c = rg_event q"
    by (simp add: attendance_ok_def)
qed

text \<open>Operations that leave registrations, events, certificates and check-ins alone.\<close>

lemma same_rows_keep:
  assumes "events_ok s" and "registrations t = registrations s" and "events t = events s"
    and "certificates t = certificates s" and "check_ins t = check_ins s" and "keeps_payments (ev_pay s) (ev_pay t)"
  shows "event_keeps env s t"
proof -
  have "roster_step env s t" using assms(1-3) by (intro roster_step_same) (simp_all add: events_ok_def)
  moreover have "certificates_ok t" "attendance_ok t"
    using assms by (simp_all add: events_ok_def certificates_ok_def attendance_ok_def)
  ultimately show ?thesis using assms(6) by (simp add: event_keeps_def)
qed

text \<open>Logs and charges after an operation.\<close>

lemma keeps_then:
  assumes "event_keeps env s u" and "registrations t = registrations u" and "rest t = rest u" and "keeps_payments (ev_pay u) (ev_pay t)"
  shows "event_keeps env s t"
proof -
  note r = restD [OF assms(3)]
  have "roster_step env s t" using assms(1,2) r by (auto simp: event_keeps_def intro: roster_step_cong)
  moreover have "keeps_payments (ev_pay s) (ev_pay t)"
    using assms(1,4) keeps_payments_trans by (auto simp: event_keeps_def)
  ultimately show ?thesis
    using assms(1,2) r by (simp add: event_keeps_def certificates_ok_def attendance_ok_def)
qed

lemma logged_keeps_event: "event_keeps env s u \<Longrightarrow> event_keeps env s (event_audit actor act ev tgt m u)"
  by (erule keeps_then) (simp_all add: keeps_same_tables)

lemma notified_keeps_event: "event_keeps env s u \<Longrightarrow> event_keeps env s (event_notify n i u)"
  by (erule keeps_then) (simp_all add: keeps_same_tables)

lemma charged_keeps_event:
  "events_ok s \<Longrightarrow> event_keeps env s u \<Longrightarrow> event_keeps env s (create_for_registered_registration env ev r actor u)"
  "events_ok s \<Longrightarrow> event_keeps env s u \<Longrightarrow> event_keeps env s (cancel_for_registration env ev r actor u)"
  using event_keeps_ok [of s env u]
  by (auto elim!: keeps_then simp: events_ok_def intro: charge_event_keeps)

lemmas log_keeps = logged_keeps_event notified_keeps_event charged_keeps_event

section \<open>A row moves\<close>

text \<open>A row changes its status, from something else than attended, and to something else.\<close>

lemma keeps_attended_put:
  assumes "registration_row (rg_id q) s = Some r" and "registrations t = row_put rg_id q (registrations s)"
    and "events t = events s" and "rg_event q = rg_event r" and "rg_status r = RegAttended \<Longrightarrow> rg_status q = RegAttended"
  shows "keeps_attended s t"
  using assms by (auto simp: keeps_attended_def registration_row_def event_row_def row_get_row_put)

lemma attended_rows_put:
  assumes "registration_row (rg_id q) s = Some r" and "registrations t = row_put rg_id q (registrations s)" and "rg_status q \<noteq> RegAttended"
    and "p \<in> set (registrations t)" and "rg_status p = RegAttended"
  shows "\<exists>r \<in> set (registrations s). rg_status r = RegAttended \<and> rg_id p = rg_id r \<and> rg_event p = rg_event r"
proof -
  have "p \<noteq> q" using assms(3,5) by blast
  moreover have "p = q \<or> p \<in> set (registrations s)" using assms(2,4) by (auto dest: set_row_putD)
  ultimately show ?thesis using assms(5) by blast
qed

lemma moved_row_keeps:
  assumes ok: "events_ok s" and r: "registration_row (rg_id seen) s = Some r"
    and t: "move_registration env seen st s = Inr t" and ev: "event_row (rg_event r) s = Some ev"
    and move: "registration_move (rg_status r) st" and seats: "seats_kept env ev (rg_status r) st s"
    and "rg_status r \<noteq> RegAttended" and "st \<noteq> RegAttended"
  shows "event_keeps env s t"
proof -
  from move_registration_Inr [OF t] r have t: "t = put_registration (touched (event_time env) st r) s" by auto
  let ?q = "touched (event_time env) st r"
  have row: "registration_row (rg_id ?q) s = Some r" using r registration_row_SomeD [OF r] by simp
  have rst: "registrations t = row_put rg_id ?q (registrations s)" "rest t = rest s" using t by simp_all
  have "roster_step env s t"
    using ok move ev seats restD [OF rst(2)] by (intro status_roster_step [OF _ row rst(1)]) (simp_all add: events_ok_def)
  moreover have "certificates_ok t"
  proof (rule certificates_keep)
    show "certificates_ok s" using ok by (simp add: events_ok_def)
    show "keeps_attended s t" using assms(7) restD [OF rst(2)] by (intro keeps_attended_put [OF row rst(1)]) simp_all
    show "certificates t = certificates s" using restD [OF rst(2)] by simp
  qed
  moreover have "attendance_ok t"
  proof (rule attendance_keep)
    show "attendance_ok s" using ok by (simp add: events_ok_def)
    show "check_ins t = check_ins s" using restD [OF rst(2)] by simp
  qed (rule attended_rows_put [OF row rst(1)], simp_all add: assms(8))
  ultimately show ?thesis using t by (simp add: event_keeps_def)
qed

lemma locked_registration_Inr:
  assumes "locked_registration seen s = Inr (ev, r)"
  shows "event_row (rg_event r) s = Some ev \<and> registration_row (rg_id seen) s = Some r \<and> rg_id r = rg_id seen \<and>
    rg_event r = rg_event seen \<and> ev_id ev = rg_event r"
proof -
  from assms have *: "event_row (rg_event seen) s = Some ev" "registration_row (rg_id seen) s = Some r" "rg_event r = ev_id ev"
    by (auto simp: locked_registration_def locked_event_def ok_iff split: if_splits)
  with event_row_SomeD [OF *(1)] registration_row_SomeD [OF *(2)] show ?thesis by simp
qed

lemma approve_registration_keeps:
  assumes ok: "events_ok s" and "approve_registration env seen actor s = Inr t"
  shows "event_keeps env s t"
proof -
  from assms(2) obtain ev r u st where l: "locked_registration seen s = Inr (ev, r)"
    and g: "ev_approval ev" "rg_status r = RegPending" and st: "st = (if spot_free ev s then RegRegistered else RegWaitlisted)"
    and u: "move_registration env r st s = Inr u"
    and t: "t = event_notify ''registration_approved'' (rg_id r) (event_audit actor ''event.registration_approved'' ev (''registration'', rg_id r)
        (registration_id_meta r @ [(''old_status'', MStr (registration_text RegPending)), (''new_status'', MStr (registration_text st)),
          (''capacity_result'', MStr (if st = RegRegistered then ''confirmed'' else ''waitlisted_full''))])
        (if st = RegRegistered then create_for_registered_registration env ev r actor u else u))"
    by (auto simp: approve_registration_def ok_iff Let_def)
  note l = locked_registration_Inr [OF l]
  have "event_keeps env s u"
    using l g st by (intro moved_row_keeps [OF ok _ u]) (auto simp: seats_kept_def confirmed_def intro: decided)
  then have "event_keeps env s (if st = RegRegistered then create_for_registered_registration env ev r actor u else u)"
    using charged_keeps_event(1) [OF ok] by simp
  then show ?thesis unfolding t by (intro log_keeps(1,2))
qed

lemma reject_keeps:
  assumes ok: "events_ok s" and "reject_registration env seen actor s = Inr t"
  shows "event_keeps env s t"
proof -
  from assms(2) obtain ev r u where l: "locked_registration seen s = Inr (ev, r)"
    and g: "rg_status r \<in> {RegPending, RegWaitlisted}" and u: "move_registration env r RegRejected s = Inr u"
    and t: "t = event_notify ''registration_rejected'' (rg_id r) (event_audit actor ''event.registration_rejected'' ev (''registration'', rg_id r)
        (registration_id_meta r @ [(''old_status'', MStr (registration_text (rg_status r))), (''new_status'', MStr (registration_text RegRejected))]) u)"
    by (auto simp: reject_registration_def ok_iff)
  note l = locked_registration_Inr [OF l]
  have "event_keeps env s u"
    using l g by (intro moved_row_keeps [OF ok _ u]) (auto simp: seats_kept_def confirmed_def intro: decided waited)
  then show ?thesis unfolding t by (intro log_keeps(1,2))
qed

lemma promote_registration_keeps:
  assumes ok: "events_ok s" and "promote_registration env seen actor s = Inr t"
  shows "event_keeps env s t"
proof -
  from assms(2) obtain ev r u where l: "locked_registration seen s = Inr (ev, r)"
    and g: "ev_approval ev" "rg_status r = RegWaitlisted" "spot_free ev s" and u: "move_registration env r RegRegistered s = Inr u"
    and t: "t = event_notify ''registration_promoted'' (rg_id r) (event_audit actor ''event.registration_promoted'' ev (''registration'', rg_id r)
        [(''registration_id'', MInt (int (rg_id r))), (''promotion_mode'', MStr ''manual'')] (create_for_registered_registration env ev r actor u))"
    by (auto simp: promote_registration_def promote_one_def ok_iff Let_def)
  note l = locked_registration_Inr [OF l]
  have "event_keeps env s u"
    using l g by (intro moved_row_keeps [OF ok _ u]) (auto simp: seats_kept_def confirmed_def intro: waited)
  then show ?thesis unfolding t using ok by (intro log_keeps)
qed

end
