(* ===== verification/Event_Places.thy ===== *)
theory Event_Places
  imports Event_Safety
begin

text \<open>
  A place that a cancellation frees goes to the first waiter: the operation keeps the invariant and
  leaves no place idle.
\<close>

section \<open>Cancelling a registration\<close>

text \<open>The relation of two moves of which the second leaves alone what the first has moved.\<close>

lemma follows_once_then:
  assumes "follows_once s u" and "events t = events u" and keys_rows: "registrations t = promoted_rows time rs (registrations u)"
    and "\<And>r. r \<in> set rs \<Longrightarrow> rg_status r = RegWaitlisted \<and> registration_row (rg_id r) s = Some r"
    and "\<And>i q. registration_row i u = Some q \<Longrightarrow> q \<in> set rs \<Longrightarrow> rg_id q = i"
  shows "follows_once s t"
proof -
  have "\<exists>q. registration_row i t = Some q \<and> registration_follows r q" if r: "registration_row i s = Some r" for i r
  proof -
    from assms(1) r obtain q where q: "registration_row i u = Some q" "registration_follows r q"
      unfolding follows_once_def by blast
    have t: "registration_row i t = Some (if q \<in> set rs then raised time q else q)"
      using q(1) keys_rows by (simp add: registration_row_def row_get_promoted)
    show ?thesis
    proof (cases "q \<in> set rs")
      case True
      then have "q = r" using assms(4) [OF True] assms(5) [OF q(1) True] r by simp
      then have "registration_follows r (raised time q)"
        using assms(4) [OF True] by (auto simp: registration_follows_def intro: waited)
      with t True show ?thesis by simp
    qed (use t q(2) in simp)
  qed
  moreover have "\<exists>fv. event_row i t = Some fv \<and> event_follows ev fv" if "event_row i s = Some ev" for i ev
    using assms(1,2) that unfolding follows_once_def event_row_def by simp
  ultimately show ?thesis by (simp add: follows_once_def)
qed

lemma raised_attended:
  assumes "p \<in> set (promoted_rows time rs rgs)" and "rg_status p = RegAttended"
  shows "p \<in> set rgs"
  using assms by (auto simp: promoted_rows_def split: if_splits)

text \<open>A promotion that ends an operation: waiters of an event get the places that are free.\<close>

lemma promoted_keeps_attended:
  assumes "registrations t = promoted_rows time rs (registrations s)" and "events t = events s"
    and "\<And>r. r \<in> set rs \<Longrightarrow> rg_status r = RegWaitlisted"
  shows "keeps_attended s t"
proof -
  have "registration_row i t = map_option (\<lambda>r. if r \<in> set rs then raised time r else r) (registration_row i s)" for i
    using assms(1) by (simp add: registration_row_def row_get_promoted)
  moreover have "\<not> (r \<in> set rs \<and> rg_status r = RegAttended)" for r using assms(3) by fastforce
  ultimately show ?thesis using assms(2) by (auto simp: keeps_attended_def event_row_def)
qed

lemma cancel_then_promote:
  assumes ok: "events_ok s" and r: "registration_row (rg_id r) s = Some r" and st: "rg_status r = RegRegistered"
    and ev: "event_row (rg_event r) s = Some ev" and g: "\<not> ev_approval ev" "0 < ev_capacity ev" "may_promote ev (event_time env)"
    and u: "move_registration env r RegCancelled s = Inr u" and v: "registrations v = registrations u" "rest v = rest u"
      "keeps_payments (ev_pay u) (ev_pay v)"
    and t: "promote_automatically env ev actor (Some 1) v = Inr (rs, t)"
  shows "event_keeps env s t"
proof -
  let ?rgs = "registrations s" and ?c = "touched (event_time env) RegCancelled r"
  from move_registration_Inr [OF u] r have u': "u = put_registration ?c s" by auto
  have rok: "roster_ok (events s) ?rgs" using ok by (simp add: events_ok_def)
  then have keys: "unique_keys rg_id ?rgs" "unique_keys ev_id (events s)" by (simp_all add: roster_ok_def)
  have old: "row_get rg_id (rg_id ?c) ?rgs = Some r" using r by (simp add: registration_row_def)
  have evid: "ev_id ev = rg_event r" and fit: "fits ev ?rgs" and evmem: "ev \<in> set (events s)"
    using roster_event [OF rok] event_row_SomeD [OF ev] ev by (auto simp: event_row_def)
  have vr: "registrations v = row_put rg_id ?c ?rgs" using v u' by simp
  have keysv: "unique_keys rg_id (registrations v)" using keys vr by simp
  have ev_v: "events v = events s" "certificates v = certificates s" "check_ins v = check_ins s"
    using restD [OF v(2)] u' restD [of u s] by simp_all
  note p = promote_automatically_Inr [OF t keysv]
  have rs: "rs = take 1 (waiting_rows (ev_id ev) (registrations v))" using p g(1) by (simp add: selected_def)
  have d: "distinct rs" "set rs \<subseteq> set (waiting_rows (ev_id ev) (registrations v))" using p by blast+
  have wait: "rg_status q = RegWaitlisted \<and> registration_row (rg_id q) s = Some q \<and> rg_id q \<noteq> rg_id r" if "q \<in> set rs" for q
  proof -
    have "q \<in> set (registrations v)" "rg_status q = RegWaitlisted" using p that by auto
    then have "q \<in> set ?rgs" "rg_id q \<noteq> rg_id r" using vr by (auto dest: set_row_putD)
    then show ?thesis using \<open>rg_status q = RegWaitlisted\<close> row_get_unique [OF keys(1)] by (simp add: registration_row_def)
  qed
  have occ: "occupancy (ev_id ev) (registrations v) = occupancy (ev_id ev) ?rgs - 1"
    using occupancy_put [OF keys(1) old, of "ev_id ev"] st evid vr by (simp add: seated_in_def confirmed_def)
  have rokv: "roster_ok (events s) (registrations v)"
    unfolding vr by (rule roster_status [OF rok old]) (simp_all add: confirmed_def)
  have "row_put ev_id ev (events s) = events s"
    using row_put_map [OF keys(2) evmem, of ev] by (simp add: map_idI)
  moreover have "roster_ok (row_put ev_id ev (events s)) (promoted_rows (event_time env) rs (registrations v))"
  proof (rule roster_event_put [OF rokv])
    show "row_get ev_id (ev_id ev) (events s) = Some ev" using ev evid by (simp add: event_row_def)
    show "distinct rs" "set rs \<subseteq> set (waiting_rows (ev_id ev) (registrations v))" by (fact d)+
    show "occupancy (ev_id ev) (registrations v) + int (length rs) \<le> ev_capacity ev"
      using occ fit g(2) rs by (simp add: fits_def)
  qed (use g(2) in simp_all)
  ultimately have "roster_ok (events t) (registrations t)" using p ev_v restD [of t v] by simp
  moreover have "follows_once s t"
  proof (rule follows_once_then)
    have "registration_follows r ?c" using st by (simp add: registration_follows_def seated)
    then show "follows_once s v"
      using r ev_v by (auto simp: follows_once_def registration_row_def event_row_def vr row_get_row_put)
    show "events t = events v" "registrations t = promoted_rows (event_time env) rs (registrations v)"
      using p restD [of t v] by simp_all
  qed (use wait registration_row_SomeD in auto)
  moreover have "all_seated (event_time env) t" if seated: "all_seated time s" "time \<le> event_time env" for time
    unfolding all_seated_def
  proof
    fix fv
    assume "fv \<in> set (events t)"
    then have fv: "fv \<in> set (events s)" using p ev_v restD [of t v] by simp
    then have w: "well_seated (event_time env) fv ?rgs"
      using all_seated_later [OF seated] by (simp add: all_seated_def)
    have rgs: "registrations t = promoted_rows (event_time env) rs (registrations v)" using p by simp
    show "well_seated (event_time env) fv (registrations t)"
    proof (cases "ev_id fv = ev_id ev")
      case False
      then have "well_seated (event_time env) fv (registrations v)"
        using w well_seated_other [OF keys(1) old, of fv] vr evid by simp
      then show ?thesis using well_seated_promoted_other [OF keysv d False] by (simp add: rgs)
    next
      case True
      then have "fv = ev" using unique_rowD [OF keys(2) _ fv, of "rg_event r" ev] ev evid by (simp add: event_row_def)
      have run: "ev_status ev = EventPublished" "event_time env \<le> ev_ends ev" using g(3) by (simp_all add: may_promote_def)
      show ?thesis
      proof (cases "nobody_waits (ev_id ev) ?rgs")
        case True
        then have "nobody_waits (ev_id ev) (registrations v)"
          using vr by (auto simp: nobody_waits_def dest!: set_row_putD)
        then have "rs = []" using rs by (simp add: nobody_waits_iff)
        then show ?thesis using \<open>nobody_waits (ev_id ev) (registrations v)\<close> rgs \<open>fv = ev\<close> by (simp add: well_seated_def)
      next
        case False
        then have full: "occupancy (ev_id ev) ?rgs = ev_capacity ev" using w \<open>fv = ev\<close> run g by (simp add: well_seated_def)
        have "well_seated (event_time env) ev (promoted_rows (event_time env) rs (registrations v))"
          using g(2) occ full by (intro well_seated_promoted [OF keysv rs]) simp_all
        then show ?thesis using rgs \<open>fv = ev\<close> by simp
      qed
    qed
  qed
  ultimately have "roster_step env s t" by (auto simp: roster_step_def)
  moreover have "certificates_ok t"
  proof (rule certificates_keep)
    show "certificates_ok v"
    proof (rule certificates_keep)
      show "certificates_ok s" using ok by (simp add: events_ok_def)
      show "keeps_attended s v" using r st vr ev_v by (intro keeps_attended_put [of ?c s r]) simp_all
    qed (rule ev_v)
    show "keeps_attended v t" using p restD [of t v] wait by (intro promoted_keeps_attended [of t _ rs v]) simp_all
    show "certificates t = certificates v" using p restD [of t v] by simp
  qed
  moreover have "attendance_ok t"
  proof (rule attendance_keep)
    show "attendance_ok s" using ok by (simp add: events_ok_def)
    show "check_ins t = check_ins s" using p restD [of t v] ev_v by simp
    fix q
    assume q: "q \<in> set (registrations t)" "rg_status q = RegAttended"
    then have "q \<in> set (registrations v)" using p raised_attended by auto
    moreover have "q \<noteq> ?c" using q(2) by auto
    ultimately show "\<exists>r \<in> set ?rgs. rg_status r = RegAttended \<and> rg_id q = rg_id r \<and> rg_event q = rg_event r"
      using q(2) vr by (auto dest: set_row_putD)
  qed
  moreover have "keeps_payments (ev_pay s) (ev_pay t)"
  proof -
    have "keeps_payments (ev_pay s) (ev_pay v)" using v(3) u' by simp
    moreover from this ok have "pay_ok (ev_pay v)" by (simp add: events_ok_def keeps_payments_def)
    ultimately show ?thesis using p keeps_payments_trans by blast
  qed
  ultimately show ?thesis by (simp add: event_keeps_def)
qed

lemma cancel_registration_keeps:
  assumes ok: "events_ok s" and "cancel_registration env seen actor s = Inr t"
  shows "event_keeps env s t"
proof -
  from assms(2) obtain ev r where l: "locked_registration seen s = Inr (ev, r)"
    by (auto simp: cancel_registration_def try_then_Inr)
  from assms(2) have "rg_status r \<in> {RegPending, RegRegistered, RegWaitlisted} \<and> (\<exists>u. move_registration env r RegCancelled s = Inr u \<and>
      (let s = event_audit actor ''event.registration_cancelled'' ev (''registration'', rg_id r)
                   (registration_id_meta r @ [(''old_status'', MStr (registration_text (rg_status r)))]) u;
             s = event_notify ''registration_cancelled'' (rg_id r) s;
             s = cancel_for_registration env ev r actor s
         in if rg_status r = RegRegistered \<and> \<not> ev_approval ev \<and> 0 < ev_capacity ev \<and> may_promote ev (event_time env)
            then try_then (promote_automatically env ev actor (Some 1) s) (\<lambda>(_, s). Inr s)
            else Inr s) = Inr t)"
    by (simp only: cancel_registration_def l try_then_simps prod.case if_Inl_Inr try_then_Inr not_not)
  then obtain u where g: "rg_status r \<in> {RegPending, RegRegistered, RegWaitlisted}" and u: "move_registration env r RegCancelled s = Inr u"
    and t: "(let s = event_audit actor ''event.registration_cancelled'' ev (''registration'', rg_id r)
                   (registration_id_meta r @ [(''old_status'', MStr (registration_text (rg_status r)))]) u;
             s = event_notify ''registration_cancelled'' (rg_id r) s;
             s = cancel_for_registration env ev r actor s
         in if rg_status r = RegRegistered \<and> \<not> ev_approval ev \<and> 0 < ev_capacity ev \<and> may_promote ev (event_time env)
            then try_then (promote_automatically env ev actor (Some 1) s) (\<lambda>(_, s). Inr s)
            else Inr s) = Inr t"
    by blast
  define v where "v = cancel_for_registration env ev r actor (event_notify ''registration_cancelled'' (rg_id r)
      (event_audit actor ''event.registration_cancelled'' ev (''registration'', rg_id r)
        (registration_id_meta r @ [(''old_status'', MStr (registration_text (rg_status r)))]) u))"
  note l = locked_registration_Inr [OF l]
  show ?thesis
  proof (cases "rg_status r = RegRegistered \<and> \<not> ev_approval ev \<and> 0 < ev_capacity ev \<and> may_promote ev (event_time env)")
    case True
    then obtain rs where "promote_automatically env ev actor (Some 1) v = Inr (rs, t)"
      using t by (auto simp: v_def Let_def ok_iff)
    moreover have "pay_ok (ev_pay u)" using ok move_registration_pay [OF u] by (simp add: events_ok_def)
    then have "keeps_payments (ev_pay u) (ev_pay v)"
    proof -
      let ?w = "event_notify ''registration_cancelled'' (rg_id r)
          (event_audit actor ''event.registration_cancelled'' ev (''registration'', rg_id r)
            (registration_id_meta r @ [(''old_status'', MStr (registration_text (rg_status r)))]) u)"
      have "keeps_payments (ev_pay u) (ev_pay ?w)" by (simp add: keeps_same_tables)
      moreover from this \<open>pay_ok (ev_pay u)\<close> have "keeps_payments (ev_pay ?w) (ev_pay v)"
        unfolding v_def by (intro charge_event_keeps(2)) (simp add: keeps_payments_def)
      ultimately show ?thesis by (rule keeps_payments_trans)
    qed
    moreover have "registrations v = registrations u" "rest v = rest u" by (simp_all add: v_def)
    moreover have "registration_row (rg_id r) s = Some r" using l by simp
    ultimately show ?thesis using cancel_then_promote [OF ok _ _ _ _ _ _ u] l True by blast
  next
    case False
    then have "t = v" using t by (simp add: v_def Let_def split: if_splits)
    have fit: "0 \<le> ev_capacity ev"
      using roster_event [of "events s" "registrations s"] l ok by (auto simp: events_ok_def event_row_def fits_def)
    have "event_keeps env s u"
      using l g False fit
      by (intro moved_row_keeps [OF ok _ u]) (auto simp: seats_kept_def confirmed_def intro: decided seated waited)
    then show ?thesis unfolding \<open>t = v\<close> v_def using ok by (intro log_keeps)
  qed
qed

end
