(* ===== verification/Event_Presence.thy ===== *)
theory Event_Presence
  imports Event_Safety
begin

text \<open>
  Attendance: checking in, the synchronisation of a batch, and taking an attendance back, which
  revokes the certificates that rest on it.
\<close>

section \<open>Revoking\<close>

definition revoked_rows :: "event_env \<Rightarrow> nat option \<Rightarrow> revocation_reason \<Rightarrow> certificate list \<Rightarrow> certificate list \<Rightarrow> certificate list" where
  "revoked_rows env actor reason cs rows = map (\<lambda>c. if c \<in> set cs then revoke_row env actor reason c else c) rows"

lemma revoke_row_simps [simp]:
  "ct_id (revoke_row env actor reason c) = ct_id c" "ct_registration (revoke_row env actor reason c) = ct_registration c"
  "ct_status (revoke_row env actor reason c) = CertRevoked" "ct_revision (revoke_row env actor reason c) = ct_revision c"
  "ct_serial (revoke_row env actor reason c) = ct_serial c"
  by (simp_all add: revoke_row_def)

lemma clash_revoked:
  assumes "\<not> certificate_clash c d" and "c' = c \<or> c' = revoke_row env actor reason c" and "d' = d \<or> d' = revoke_row env actor reason d"
  shows "\<not> certificate_clash c' d'"
  using assms by (auto simp: certificate_clash_def live_certificate_def)

text \<open>Some certificates are revoked, and those that stay rest on what is still there.\<close>

lemma certificates_revoked:
  assumes ok: "certificates_ok s" and t: "certificates t = revoked_rows env actor reason cs (certificates s)"
    and sound: "\<And>c. c \<in> set (certificates s) \<Longrightarrow> c \<notin> set cs \<Longrightarrow> certificate_sound (events t) (registrations t) c"
    and rows: "\<And>c. c \<in> set (certificates s) \<Longrightarrow> c \<in> set cs \<Longrightarrow> registration_row (ct_registration c) t \<noteq> None"
  shows "certificates_ok t"
  unfolding certificates_ok_def
proof (intro conjI ballI impI)
  have "map ct_id (certificates t) = map ct_id (certificates s)" by (auto simp: t revoked_rows_def)
  then show "unique_keys ct_id (certificates t)" using ok by (simp add: certificates_ok_def unique_keys_def)
next
  fix c
  assume "c \<in> set (certificates t)"
  then obtain d where d: "d \<in> set (certificates s)" "c = (if d \<in> set cs then revoke_row env actor reason d else d)"
    by (auto simp: t revoked_rows_def)
  show "certificate_sound (events t) (registrations t) c"
  proof (cases "d \<in> set cs")
    case True
    then show ?thesis using rows [OF d(1) True] d(2) by (auto simp: certificate_sound_def registration_row_def)
  next
    case False
    then show ?thesis using sound [OF d(1) False] d(2) by simp
  qed
next
  fix c d
  assume "c \<in> set (certificates t)" "d \<in> set (certificates t)" "ct_id d \<noteq> ct_id c"
  moreover from this(1,2) obtain c' d' where "c' \<in> set (certificates s)" "c = (if c' \<in> set cs then revoke_row env actor reason c' else c')"
    "d' \<in> set (certificates s)" "d = (if d' \<in> set cs then revoke_row env actor reason d' else d')"
    by (auto simp: t revoked_rows_def)
  moreover from calculation have "ct_id d' \<noteq> ct_id c'" by (auto split: if_splits)
  ultimately show "\<not> certificate_clash c d"
    using ok clash_revoked [of c' d' c env actor reason d] by (simp add: certificates_ok_def)
qed

text \<open>The tables beside the certificates.\<close>

definition beside :: "event_db \<Rightarrow> event list \<times> registration list \<times> check_in list \<times> station list \<times> survey list \<times> response list" where
  "beside s = (events s, registrations s, check_ins s, stations s, surveys s, responses s)"

lemma save_certificate_Inr:
  "save_certificate c s = Inr t \<Longrightarrow> certificates t = row_put ct_id c (certificates s) \<and> beside t = beside s \<and> ev_pay t = ev_pay s"
  by (auto simp: save_certificate_def beside_def ok_iff)

lemma logs_beside [simp]:
  "beside (event_audit actor act ev tgt m s) = beside s" "beside (event_notify n i s) = beside s"
  by (simp_all add: beside_def)

definition same_pay :: "event_db \<Rightarrow> event_db \<Rightarrow> bool" where
  "same_pay s t \<longleftrightarrow> payments (ev_pay t) = payments (ev_pay s) \<and> processed (ev_pay t) = processed (ev_pay s)"

lemma same_pay_keeps: "same_pay s t \<Longrightarrow> keeps_payments (ev_pay s) (ev_pay t)"
  by (simp add: same_pay_def keeps_same_tables)

lemma revoke_loop:
  assumes "for_each f cs s = Inr t" and "distinct cs" and "unique_keys ct_id (certificates s)" and "set cs \<subseteq> set (certificates s)"
    and step: "\<And>x u v. certificate_row (ct_id x) u = Some x \<Longrightarrow> f x u = Inr v \<Longrightarrow>
      certificates v = row_put ct_id (revoke_row env actor reason x) (certificates u)"
    and frame: "\<And>x u v. f x u = Inr v \<Longrightarrow> beside v = beside u \<and> same_pay u v"
  shows "certificates t = revoked_rows env actor reason cs (certificates s) \<and> beside t = beside s \<and> same_pay s t"
proof -
  have "certificates t = map (\<lambda>c. if c \<in> set cs then revoke_row env actor reason c else c) (certificates s)"
  proof (rule for_each_rows [where tab = certificates, OF assms(1-4)])
    fix x u v
    assume "x \<in> set (certificates u)" "unique_keys ct_id (certificates u)" and f: "f x u = Inr v"
    then have "certificate_row (ct_id x) u = Some x" by (simp add: certificate_row_def row_get_unique)
    from step [OF this f] show "certificates v = row_put ct_id (revoke_row env actor reason x) (certificates u) \<or>
        revoke_row env actor reason x = x \<and> certificates v = certificates u" by simp
  qed simp
  moreover have "beside t = beside s \<and> same_pay s t"
    using assms(1) by (rule for_each_inv) (use frame in \<open>auto simp: same_pay_def\<close>)
  ultimately show ?thesis by (simp add: revoked_rows_def)
qed

section \<open>Correcting an attendance\<close>

lemma revoke_active_step:
  assumes "revoke_active env ev actor c u = Inr v"
  shows "certificates v = row_put ct_id (revoke_row env actor AttendanceCorrected c) (certificates u) \<and> beside v = beside u \<and> same_pay u v"
  using assms by (auto simp: revoke_active_def ok_iff same_pay_def dest!: save_certificate_Inr)

lemma correct_keeps:
  assumes ok: "events_ok s" and "correct_attendance env seen actor s = Inr t"
  shows "event_keeps env s t"
proof -
  from assms(2) obtain ev r u v where l: "locked_registration seen s = Inr (ev, r)" and st: "rg_status r = RegAttended"
    and u: "save_reg_status r RegRegistered s = Inr u"
    and v: "for_each (revoke_active env ev actor) (active_certificates (rg_id r) s) u = Inr v"
    and t: "t = event_audit actor ''event.registration_attendance_corrected'' ev (''registration'', rg_id r)
       (registration_id_meta r @ [(''revoked_certificates'', MInt (int (length (active_certificates (rg_id r) s))))]) v"
    by (auto simp: correct_attendance_def ok_iff Let_def)
  note l = locked_registration_Inr [OF l]
  let ?q = "r\<lparr>rg_status := RegRegistered\<rparr>" and ?cs = "active_certificates (rg_id r) s"
  have row: "registration_row (rg_id ?q) s = Some r" using l by simp
  have u': "u = put_registration ?q s" using u row by (auto elim: save_reg_status_Inr)
  have cok: "certificates_ok s" and aok: "attendance_ok s" using ok by (simp_all add: events_ok_def)
  have loop: "certificates v = revoked_rows env actor AttendanceCorrected ?cs (certificates u) \<and> beside v = beside u \<and> same_pay u v"
    using cok by (intro revoke_loop [OF v])
      (auto simp: u' put_registration_def active_certificates_def certificates_of_def certificates_ok_def unique_keys_def distinct_map
        dest: revoke_active_step)
  then have v': "registrations v = row_put rg_id ?q (registrations s)" "events v = events s" "check_ins v = check_ins s"
      "certificates v = revoked_rows env actor AttendanceCorrected ?cs (certificates s)"
    using u' by (simp_all add: beside_def put_registration_def)
  have "roster_step env s v"
    using ok st l by (intro status_roster_step [OF _ row v'(1,2), where ev = ev])
      (auto simp: events_ok_def seats_kept_def confirmed_def intro: corrected)
  moreover have "certificates_ok v"
  proof (rule certificates_revoked [OF cok v'(4)])
    fix c
    assume c: "c \<in> set (certificates s)"
    from cok c obtain p where p: "row_get rg_id (ct_registration c) (registrations s) = Some p"
      "ct_status c = CertActive \<Longrightarrow> rg_status p = RegAttended \<and>
        (\<exists>ev. row_get ev_id (rg_event p) (events s) = Some ev \<and> ev_status ev \<in> {EventPublished, EventCompleted})"
      unfolding certificates_ok_def certificate_sound_def by blast
    have get: "row_get rg_id (ct_registration c) (registrations v) = Some (if ct_registration c = rg_id r then ?q else p)"
      using p(1) row by (auto simp: v'(1) row_get_row_put registration_row_def)
    then show "registration_row (ct_registration c) v \<noteq> None" by (simp add: registration_row_def)
    assume "c \<notin> set ?cs"
    then have "\<not> (ct_registration c = rg_id r \<and> ct_status c = CertActive)"
      using c by (simp add: active_certificates_def certificates_of_def)
    then show "certificate_sound (events v) (registrations v) c"
      using get p(2) v'(2) by (auto simp: certificate_sound_def)
  qed
  moreover have "attendance_ok v"
    by (rule attendance_keep [OF aok v'(3)], rule attended_rows_put [OF row v'(1)]) simp_all
  moreover have "keeps_payments (ev_pay s) (ev_pay v)" using loop u' same_pay_keeps [of u v] by simp
  ultimately have "event_keeps env s v" by (simp add: event_keeps_def)
  then show ?thesis unfolding t by (rule logged_keeps_event)
qed

section \<open>Checking in\<close>

text \<open>What a check-in, and a batch of them, do: some who were registered have attended.\<close>

definition attends :: "event_env \<Rightarrow> event_db \<Rightarrow> event_db \<Rightarrow> bool" where
  "attends env s t \<longleftrightarrow> events_ok t \<and> events t = events s \<and> keeps_payments (ev_pay s) (ev_pay t) \<and>
     (\<forall>time \<le> event_time env. all_seated time s \<longrightarrow> all_seated (event_time env) t) \<and>
     (\<forall>i r. registration_row i s = Some r \<longrightarrow> (\<exists>q. registration_row i t = Some q \<and>
        (q = r \<or> rg_status r = RegRegistered \<and> q = r\<lparr>rg_status := RegAttended\<rparr>)))"

lemma attends_trans: "attends env s t \<Longrightarrow> attends env t u \<Longrightarrow> attends env s u"
proof -
  assume s: "attends env s t" and t: "attends env t u"
  have "\<exists>q. registration_row i u = Some q \<and> (q = r \<or> rg_status r = RegRegistered \<and> q = r\<lparr>rg_status := RegAttended\<rparr>)"
    if r: "registration_row i s = Some r" for i r
  proof -
    from s r obtain p where p: "registration_row i t = Some p" "p = r \<or> rg_status r = RegRegistered \<and> p = r\<lparr>rg_status := RegAttended\<rparr>"
      unfolding attends_def by blast
    from t p(1) obtain q where "registration_row i u = Some q" "q = p \<or> rg_status p = RegRegistered \<and> q = p\<lparr>rg_status := RegAttended\<rparr>"
      unfolding attends_def by blast
    with p(2) show ?thesis by auto
  qed
  moreover have "keeps_payments (ev_pay s) (ev_pay u)" using s t keeps_payments_trans unfolding attends_def by blast
  moreover have "all_seated (event_time env) u" if "time \<le> event_time env" "all_seated time s" for time
    using s t that unfolding attends_def by blast
  ultimately show "attends env s u" using s t by (auto simp: attends_def)
qed

lemma attends_refl: "events_ok s \<Longrightarrow> attends env s s"
  using all_seated_later [of _ s "event_time env"] by (auto simp: attends_def)

lemma attends_keeps: "attends env s t \<Longrightarrow> event_keeps env s t"
proof -
  assume a: "attends env s t"
  have "follows_once s t"
    unfolding follows_once_def
  proof (intro conjI allI impI)
    fix i r
    assume "registration_row i s = Some r"
    with a obtain q where "registration_row i t = Some q" "q = r \<or> rg_status r = RegRegistered \<and> q = r\<lparr>rg_status := RegAttended\<rparr>"
      unfolding attends_def by blast
    then show "\<exists>q. registration_row i t = Some q \<and> registration_follows r q"
      by (auto simp: registration_follows_def intro: stays seated)
  qed (use a in \<open>simp add: attends_def event_row_def\<close>)
  with a show ?thesis by (auto simp: event_keeps_def attends_def events_ok_def roster_step_def)
qed

lemma record_check_in_Inr:
  "record_check_in c s = Inr t \<Longrightarrow> t = s\<lparr>check_ins := check_ins s @ [c]\<rparr> \<and> ci_operation c \<notin> ci_operation ` set (check_ins s)"
  by (auto simp: record_check_in_def list_ex_iff ok_iff)

lemma mark_attended_Inr:
  assumes "mark_attended env seen actor src operation att session version s = Inr (c, t)"
  obtains ev r where "registration_row (rg_id r) s = Some r" "event_row (rg_event r) s = Some ev" "rg_id r = rg_id seen"
    "rg_status r = RegRegistered" "ev_status ev \<in> {EventPublished, EventCompleted}"
    "ci_registration c = rg_id r" "ci_event c = rg_event r" "ci_makerspace c = ev_makerspace ev"
    "ci_operation c = (case operation of None \<Rightarrow> fresh_uuid env | Some x \<Rightarrow> x)"
    "ci_operation c \<notin> ci_operation ` set (check_ins s)" "check_ins t = check_ins s @ [c]"
    "registrations t = row_put rg_id (r\<lparr>rg_status := RegAttended\<rparr>) (registrations s)" "events t = events s"
    "certificates t = certificates s" "surveys t = surveys s" "responses t = responses s" "same_pay s t"
proof -
  from assms obtain ev ev' r where ev: "locked_event (rg_event seen) s = Inr ev" and l: "locked_registration seen s = Inr (ev', r)"
    by (auto simp: mark_attended_def ok_iff Let_def)
  let ?c = "\<lparr>ci_id = fresh_key ci_id (check_ins s), ci_makerspace = ev_makerspace ev, ci_event = ev_id ev,
        ci_registration = rg_id r, ci_operation = (case operation of None \<Rightarrow> fresh_uuid env | Some x \<Rightarrow> x), ci_source = src,
        ci_attended = (case att of None \<Rightarrow> event_time env | Some t \<Rightarrow> t), ci_recorded = event_time env, ci_actor = actor,
        ci_session = session, ci_station_version = version\<rparr>"
  from assms ev l have "rg_status r = RegRegistered \<and> ev_status ev \<in> {EventPublished, EventCompleted} \<and>
      (\<exists>u. record_check_in ?c s = Inr u \<and> (\<exists>v. save_reg_status r RegAttended u = Inr v \<and> c = ?c \<and>
        t = event_notify ''registration_attended'' (rg_id r)
         (event_audit actor ''event.registration_attended'' ev (''registration'', rg_id r) (check_in_meta r ?c) v)))"
    by (simp add: mark_attended_def ok_iff Let_def) blast
  then obtain u v where g: "rg_status r = RegRegistered" "ev_status ev \<in> {EventPublished, EventCompleted}" and c: "c = ?c"
    and u: "record_check_in c s = Inr u" and v: "save_reg_status r RegAttended u = Inr v"
    and t: "t = event_notify ''registration_attended'' (rg_id r)
       (event_audit actor ''event.registration_attended'' ev (''registration'', rg_id r) (check_in_meta r c) v)"
    by blast
  note l = locked_registration_Inr [OF l]
  have "ev' = ev" using ev l by (auto simp: locked_event_def ok_iff)
  then have ids: "rg_id r = rg_id seen" and eid: "ev_id ev = rg_event r" and evr: "event_row (rg_event r) s = Some ev" using l by blast+
  have row: "registration_row (rg_id r) s = Some r" unfolding ids using l by blast
  note u = record_check_in_Inr [OF u]
  have "registration_row (rg_id r) u = Some r" using row u by (simp add: registration_row_def)
  then have v': "v = put_registration (r\<lparr>rg_status := RegAttended\<rparr>) u"
    using v by (auto elim!: save_reg_status_Inr)
  have c': "ci_registration c = rg_id r" "ci_event c = ev_id ev" "ci_makerspace c = ev_makerspace ev"
    "ci_operation c = (case operation of None \<Rightarrow> fresh_uuid env | Some x \<Rightarrow> x)"
    unfolding c by (simp_all only: check_in.simps)
  show ?thesis
  proof (rule that [OF row evr ids g c'(1) _ c'(3,4)])
    show "ci_event c = rg_event r" using c'(2) eid by simp
    show "ci_operation c \<notin> ci_operation ` set (check_ins s)" using u by blast
  qed (use u in \<open>simp_all add: t v' put_registration_def same_pay_def\<close>)
qed

lemma mark_attends:
  assumes ok: "events_ok s" and "mark_attended env seen actor src operation att session version s = Inr (c, t)"
  shows "attends env s t"
proof -
  from mark_attended_Inr [OF assms(2)] obtain ev r where
    row: "registration_row (rg_id r) s = Some r" and ev: "event_row (rg_event r) s = Some ev" and st: "rg_status r = RegRegistered"
    and c: "ci_registration c = rg_id r" "ci_event c = rg_event r" "ci_operation c \<notin> ci_operation ` set (check_ins s)"
    and t: "check_ins t = check_ins s @ [c]" "registrations t = row_put rg_id (r\<lparr>rg_status := RegAttended\<rparr>) (registrations s)"
      "events t = events s" "certificates t = certificates s" "same_pay s t"
    by metis
  let ?q = "r\<lparr>rg_status := RegAttended\<rparr>"
  have row': "registration_row (rg_id ?q) s = Some r" using row by simp
  have step: "roster_step env s t"
    using ok st ev by (intro status_roster_step [OF _ row' t(2,3)]) (auto simp: events_ok_def seats_kept_def confirmed_def intro: seated)
  have "certificates_ok t"
    by (rule certificates_keep [OF _ keeps_attended_put [OF row' t(2,3)] t(4)]) (use ok in \<open>simp_all add: events_ok_def\<close>)
  moreover have "attendance_ok t"
    unfolding attendance_ok_def
  proof (intro conjI ballI impI)
    show "distinct (map ci_operation (check_ins t))" using ok c(3) t(1) by (simp add: events_ok_def attendance_ok_def)
    fix q
    assume q: "q \<in> set (registrations t)" "rg_status q = RegAttended"
    then consider "q = ?q" | "q \<in> set (registrations s)" using t(2) by (auto dest: set_row_putD)
    then show "\<exists>d \<in> set (check_ins t). ci_registration d = rg_id q \<and> ci_event d = rg_event q"
    proof cases
      case 1
      then show ?thesis using c t(1) by auto
    next
      case 2
      then show ?thesis using ok q(2) t(1) by (auto simp: events_ok_def attendance_ok_def)
    qed
  qed
  moreover have keep: "keeps_payments (ev_pay s) (ev_pay t)" using t(5) by (rule same_pay_keeps)
  ultimately have "events_ok t" using ok step by (simp add: events_ok_def roster_step_def keeps_payments_def)
  moreover have "registration_row i t = (if i = rg_id r then Some ?q else registration_row i s)" for i
    using t(2) row by (simp add: registration_row_def row_get_row_put)
  ultimately show ?thesis using step t(3) keep row st by (auto simp: attends_def roster_step_def)
qed

lemma process_attends:
  assumes "events_ok s" and "process_offline env ev l actor src session version x s = Inr (out, t)"
  shows "attends env s t"
proof (cases "t = s")
  case True
  then show ?thesis using attends_refl [OF assms(1)] by simp
next
  case False
  with assms(2) obtain r c where "mark_attended env r actor src (Some (of_operation x)) (Some (of_occurred x)) session version s = Inr (c, t)"
    by (auto simp: process_offline_def split: if_splits option.splits sum.splits)
  with assms(1) show ?thesis by (rule mark_attends)
qed

lemma process_all_attends:
  assumes "events_ok s" and "\<And>x u out v. events_ok u \<Longrightarrow> f x u = Inr (out, v) \<Longrightarrow> attends env u v"
  shows "attends env s (snd (process_all f xs s))"
  using assms(1)
proof (induction xs arbitrary: s)
  case Nil
  then show ?case by (simp add: attends_refl)
next
  case (Cons x xs)
  show ?case
  proof (cases "f x s")
    case (Inl e)
    then show ?thesis using Cons.prems by (simp add: attends_refl)
  next
    case (Inr p)
    then obtain out t where p: "f x s = Inr (out, t)" by (cases p) auto
    have "attends env s t" using assms(2) [OF Cons.prems p] .
    moreover from this have "attends env t (snd (process_all f xs t))" by (intro Cons.IH) (simp add: attends_def)
    ultimately show ?thesis using attends_trans p by (auto split: prod.splits sum.splits)
  qed
qed

lemma synchronize_keeps:
  assumes "events_ok s"
  shows "event_keeps env s (snd (synchronize env ev xs l actor src session version s))"
proof -
  let ?p = "process_all (process_offline env ev l actor src session version) xs s"
  have "attends env s (snd ?p)" using assms process_attends by (intro process_all_attends) auto
  then have "event_keeps env s (snd ?p)" by (rule attends_keeps)
  then show ?thesis
    by (cases ?p; cases "fst ?p") (auto simp: synchronize_def intro: logged_keeps_event split: prod.splits sum.splits)
qed

end
