(* ===== verification/Event_Entry.thy ===== *)
theory Event_Entry
  imports Event_Safety
begin

text \<open>Registering: a new row, or a cancelled one that is taken up again.\<close>

lemma existing_member_first:
  assumes "existing_registration e member email s = res"
  shows "case res of
      Some r \<Rightarrow> r \<in> set (registrations s) \<and> rg_event r = e \<and>
        (member \<noteq> None \<and> rg_member r = member \<or>
         rg_email r = email \<and> (\<forall>q \<in> set (registrations s). rg_event q = e \<longrightarrow> member = None \<or> rg_member q \<noteq> member))
    | None \<Rightarrow> (\<forall>q \<in> set (registrations s). rg_event q = e \<longrightarrow> rg_email q \<noteq> email \<and> (member = None \<or> rg_member q \<noteq> member))"
proof -
  let ?own = "filter (\<lambda>r. rg_event r = e \<and> member \<noteq> None \<and> rg_member r = member) (registrations s)"
  let ?key = "\<lambda>r. (rg_created r, rg_id r)"
  show ?thesis
  proof (cases "sort_key ?key ?own")
    case Nil
    have "set (sort_key ?key ?own) = set ?own" by (rule set_sort)
    with Nil have "set ?own = {}" by (simp only: list.set)
    then have own: "q \<in> set (registrations s) \<Longrightarrow> rg_event q = e \<Longrightarrow> member = None \<or> rg_member q \<noteq> member" for q by auto
    from Nil assms have "find (\<lambda>r. rg_event r = e \<and> rg_email r = email) (registrations s) = res"
      by (simp add: existing_registration_def)
    then show ?thesis using own by (auto simp: find_Some_iff find_None_iff split: option.splits)
  next
    case (Cons r rs)
    have "r \<in> set (sort_key ?key ?own)" unfolding Cons by simp
    then have "r \<in> set ?own" by (simp only: set_sort)
    with Cons assms show ?thesis by (auto simp: existing_registration_def)
  qed
qed

lemma registration_clash_not:
  "\<not> list_ex (registration_clash r) (registrations s) \<Longrightarrow> q \<in> set (registrations s) \<Longrightarrow> rg_id q \<noteq> rg_id r \<Longrightarrow>
    rg_event q = rg_event r \<Longrightarrow> rg_email q \<noteq> rg_email r"
  by (auto simp: list_ex_iff registration_clash_def)

lemma record_registration_keeps:
  assumes "events_ok s" and "event_keeps env s u"
  shows "event_keeps env s (record_registration env ev actor r st u)"
  unfolding record_registration_def Let_def
  using assms by (auto intro!: log_keeps)

lemma fresh_status_seats:
  "\<not> confirmed (rg_status r) \<Longrightarrow> rg_status r \<noteq> RegWaitlisted \<Longrightarrow> seats_kept env ev (rg_status r) (fresh_registration_status ev s) s"
  by (auto simp: seats_kept_def fresh_registration_status_def confirmed_def)

lemma fresh_status_cases: "fresh_registration_status ev s \<in> {RegPending, RegRegistered, RegWaitlisted}"
  by (simp add: fresh_registration_status_def)

lemma renew_keeps:
  assumes ok: "events_ok s" and r: "registration_row (rg_id q) s = Some r" and "rg_status r = RegCancelled"
    and ev: "event_row (rg_event r) s = Some ev" and st: "rg_status q = fresh_registration_status ev s"
    and same: "rg_event q = rg_event r" "rg_token q = rg_token r" "rg_sequence q = rg_sequence r"
    and member: "\<And>p. p \<in> set (registrations s) \<Longrightarrow> rg_event p = rg_event q \<Longrightarrow> rg_id p \<noteq> rg_id q \<Longrightarrow>
      rg_member q = None \<or> rg_member p \<noteq> rg_member q"
    and t: "renew_registration env ev actor q s = Inr t"
  shows "event_keeps env s t"
proof -
  from t obtain u where u: "save_registration q s = Inr u"
    and t: "t = record_registration env ev actor q (rg_status q) (calendar_registration_changed env (rg_id q) u)"
    by (auto simp: renew_registration_def ok_iff)
  let ?q = "q\<lparr>rg_sequence := rg_sequence q + 1, rg_touched := event_time env\<rparr>"
  let ?u = "put_registration ?q s"
  have clash: "\<not> list_ex (registration_clash q) (registrations s)" and u': "u = put_registration q s"
    using u by (simp_all add: save_registration_Inr)
  have cal: "calendar_registration_changed env (rg_id q) u = ?u" using put_then_calendar [OF r, of env] u' by simp
  have row: "registration_row (rg_id ?q) s = Some r" using r by simp
  have rows: "registrations ?u = row_put rg_id ?q (registrations s)" "events ?u = events s" "check_ins ?u = check_ins s"
      "certificates ?u = certificates s" "ev_pay ?u = ev_pay s"
    by (simp_all add: put_registration_def)
  have "roster_step env s ?u"
  proof (rule put_roster_step [OF _ row rows(1,2) _ ev])
    show "roster_ok (events s) (registrations s)" using ok by (simp add: events_ok_def)
    show "registration_follows r ?q"
      using same assms(3) st fresh_status_cases [of ev s] by (auto simp: registration_follows_def intro: renewed)
    show "seats_kept env ev (rg_status r) (rg_status ?q) s"
      using fresh_status_seats [of r env ev s] assms(3) st by (simp add: confirmed_def)
    fix p
    assume "p \<in> set (registrations s)" "rg_event p = rg_event ?q" "rg_id p \<noteq> rg_id ?q"
    then show "rg_email p \<noteq> rg_email ?q \<and> (rg_member ?q = None \<or> rg_member p \<noteq> rg_member ?q)"
      using registration_clash_not [OF clash] member by auto
  qed
  moreover have "certificates_ok ?u"
  proof (rule certificates_keep)
    show "keeps_attended s ?u" using assms(3) same by (intro keeps_attended_put [OF row rows(1,2)]) simp_all
  qed (use ok rows in \<open>simp_all add: events_ok_def\<close>)
  moreover have "rg_status ?q \<noteq> RegAttended" using st fresh_status_cases [of ev s] by auto
  then have "attendance_ok ?u"
    using ok by (intro attendance_keep [OF _ rows(3)], simp add: events_ok_def) (rule attended_rows_put [OF row rows(1)])
  ultimately have "event_keeps env s ?u" using rows by (simp add: event_keeps_def)
  then show ?thesis unfolding t cal by (rule record_registration_keeps [OF ok])
qed

lemma row_get_snoc:
  "key r = fresh_key key rows \<Longrightarrow> row_get key i (rows @ [r]) = (if i = key r then Some r else row_get key i rows)"
  by (auto simp: row_get_append row_get_Cons split: option.splits)

lemma add_keeps:
  assumes ok: "events_ok s" and fresh: "rg_id q = fresh_key rg_id (registrations s)" and ev: "event_row (rg_event q) s = Some ev"
    and pub: "ev_status ev = EventPublished" and st: "rg_status q = fresh_registration_status ev s"
    and one: "\<And>p. p \<in> set (registrations s) \<Longrightarrow> rg_event p = rg_event q \<Longrightarrow>
      rg_email p \<noteq> rg_email q \<and> (rg_member q = None \<or> rg_member p \<noteq> rg_member q)"
    and t: "add_registration env ev actor q s = Inr t"
  shows "event_keeps env s t"
proof -
  let ?rgs = "registrations s" and ?u = "s\<lparr>registrations := registrations s @ [q]\<rparr>"
  from t have t: "t = record_registration env ev actor q (rg_status q) ?u"
    by (auto simp: add_registration_def insert_registration_def ok_iff)
  have rok: "roster_ok (events s) ?rgs" using ok by (simp add: events_ok_def)
  have keys: "unique_keys ev_id (events s)" using rok by (simp add: roster_ok_def)
  have evid: "ev_id ev = rg_event q" and fit: "fits ev ?rgs"
    using roster_event [OF rok] ev by (auto simp: event_row_def)
  note free = spot_free_iff [OF fit refl]
  have "roster_ok (events s) (?rgs @ [q])"
    using st free fit pub ev one
    by (intro roster_add [OF rok fresh, of ev]) (auto simp: event_row_def fresh_registration_status_def confirmed_def split: if_splits)
  moreover have get: "registration_row i ?u = (if i = rg_id q then Some q else registration_row i s)" for i
    using row_get_snoc [of rg_id q ?rgs i] fresh by (simp add: registration_row_def)
  have new: "registration_row (rg_id q) s = None" by (simp add: registration_row_def fresh)
  have "follows_once s ?u"
    using get new by (auto simp: follows_once_def event_row_def)
  moreover have "all_seated (event_time env) ?u" if seated: "all_seated time s" "time \<le> event_time env" for time
    unfolding all_seated_def
  proof
    fix fv
    assume "fv \<in> set (events ?u)"
    then have fv: "fv \<in> set (events s)" by simp
    then have w: "well_seated (event_time env) fv ?rgs" using all_seated_later [OF seated] by (simp add: all_seated_def)
    have occ: "occupancy (ev_id fv) (?rgs @ [q]) = occupancy (ev_id fv) ?rgs + seated_in (ev_id fv) q" by (rule occupancy_snoc)
    show "well_seated (event_time env) fv (registrations ?u)"
    proof (cases "ev_id fv = rg_event q")
      case False
      then have "nobody_waits (ev_id fv) (?rgs @ [q]) = nobody_waits (ev_id fv) ?rgs" by (simp add: nobody_waits_def)
      moreover have "seated_in (ev_id fv) q = 0" using False by (simp add: seated_in_def)
      ultimately show ?thesis using w occ by (simp add: well_seated_def)
    next
      case True
      then have "fv = ev" using unique_rowD [OF keys _ fv, of "rg_event q" ev] ev by (simp add: event_row_def)
      show ?thesis
      proof (cases "rg_status q = RegWaitlisted")
        case True
        then have "\<not> spot_free ev s" using st by (simp add: fresh_registration_status_def split: if_splits)
        then have "0 < ev_capacity ev" "occupancy (ev_id ev) ?rgs = ev_capacity ev"
          using free fit by (auto simp: fits_def)
        then show ?thesis using occ True \<open>fv = ev\<close> by (simp add: well_seated_def seated_in_def confirmed_def)
      next
        case False
        then have "nobody_waits (ev_id ev) (?rgs @ [q]) = nobody_waits (ev_id ev) ?rgs" by (auto simp: nobody_waits_def)
        moreover have "0 < ev_capacity ev \<Longrightarrow> occupancy (ev_id ev) (?rgs @ [q]) \<le> ev_capacity ev"
          using \<open>roster_ok (events s) (?rgs @ [q])\<close> fv \<open>fv = ev\<close> by (simp add: roster_ok_def fits_def)
        moreover have "occupancy (ev_id ev) ?rgs \<le> occupancy (ev_id ev) (?rgs @ [q])"
          using occ \<open>fv = ev\<close> by (simp add: seated_in_def)
        ultimately show ?thesis using w \<open>fv = ev\<close> by (auto simp: well_seated_def)
      qed
    qed
  qed
  ultimately have "roster_step env s ?u" by (auto simp: roster_step_def)
  moreover have "certificates_ok ?u"
  proof (rule certificates_keep)
    show "keeps_attended s ?u" using get new by (auto simp: keeps_attended_def event_row_def)
  qed (use ok in \<open>simp_all add: events_ok_def\<close>)
  moreover have "rg_status q \<noteq> RegAttended" using st fresh_status_cases [of ev s] by auto
  then have "attendance_ok ?u"
    using ok by (auto simp: events_ok_def attendance_ok_def)
  ultimately have "event_keeps env s ?u" by (simp add: event_keeps_def)
  then show ?thesis unfolding t by (rule record_registration_keeps [OF ok])
qed

text \<open>The row a registration writes.\<close>

lemma registered_row:
  "rg_id (new_registration env i ev m via contact a st) = i" "rg_event (new_registration env i ev m via contact a st) = ev_id ev"
  "rg_status (new_registration env i ev m via contact a st) = st" "rg_member (new_registration env i ev m via contact a st) = m"
  "rg_email (new_registration env i ev m via contact a st) = fst (snd contact)"
  "rg_id (renewed_registration env r m via contact a st) = rg_id r" "rg_event (renewed_registration env r m via contact a st) = rg_event r"
  "rg_status (renewed_registration env r m via contact a st) = st" "rg_token (renewed_registration env r m via contact a st) = rg_token r"
  "rg_sequence (renewed_registration env r m via contact a st) = rg_sequence r"
  "rg_email (renewed_registration env r m via contact a st) = fst (snd contact)"
  "rg_member (renewed_registration env r m via contact a st) = (case m of None \<Rightarrow> rg_member r | Some x \<Rightarrow> Some x)"
  by (simp_all add: new_registration_def renewed_registration_def case_prod_unfold)

lemma register_Inr:
  assumes "register env i ms member name email phone answers actor staff via collab s = Inr t"
  obtains ev checked where "event_row i s = Some ev" "registration_is_open ev (event_time env)"
    "case existing_registration i (map_option mu_id member) (fst (snd (registrant member name email phone))) s of
       None \<Rightarrow> add_registration env ev actor (new_registration env (fresh_key rg_id (registrations s)) ev (map_option mu_id member)
           (case via of None \<Rightarrow> ev_makerspace ev | Some v \<Rightarrow> v) (registrant member name email phone) checked (fresh_registration_status ev s)) s = Inr t
     | Some r \<Rightarrow> rg_status r = RegCancelled \<and> renew_registration env ev actor (renewed_registration env r (map_option mu_id member)
           (case via of None \<Rightarrow> ev_makerspace ev | Some v \<Rightarrow> v) (registrant member name email phone) checked (fresh_registration_status ev s)) s = Inr t"
proof -
  let ?c = "registrant member name email phone" and ?m = "map_option mu_id member" and ?v = "\<lambda>ev. case via of None \<Rightarrow> ev_makerspace ev | Some v \<Rightarrow> v"
  from assms obtain ev checked where ev: "locked_event i s = Inr ev" "registration_is_open ev (event_time env)"
    and t: "(case existing_registration i ?m (fst (snd ?c)) s of
       None \<Rightarrow> add_registration env ev actor (new_registration env (fresh_key rg_id (registrations s)) ev ?m (?v ev) ?c checked
           (fresh_registration_status ev s)) s
     | Some r \<Rightarrow> (if rg_status r = RegCancelled
         then renew_registration env ev actor (renewed_registration env r ?m (?v ev) ?c checked (fresh_registration_status ev s)) s
         else if rg_status r = RegRejected then Inl RegistrationRejected
         else Inl (DuplicateRegistration (registration_text (rg_status r))))) = Inr t"
    by (simp only: register_def try_then_Inr if_Inl_Inr Let_def not_not) blast
  show ?thesis
  proof (rule that [OF _ ev(2)])
    show "event_row i s = Some ev" using ev(1) by (simp add: locked_event_def ok_iff)
    show "case existing_registration i ?m (fst (snd ?c)) s of
       None \<Rightarrow> add_registration env ev actor (new_registration env (fresh_key rg_id (registrations s)) ev ?m (?v ev) ?c checked
           (fresh_registration_status ev s)) s = Inr t
     | Some r \<Rightarrow> rg_status r = RegCancelled \<and> renew_registration env ev actor (renewed_registration env r ?m (?v ev) ?c checked
           (fresh_registration_status ev s)) s = Inr t"
      using t by (cases "existing_registration i ?m (fst (snd ?c)) s") (simp_all split: if_splits)
  qed
qed

lemma register_keeps:
  assumes ok: "events_ok s" and "register env i ms member name email phone answers actor staff via collab s = Inr t"
  shows "event_keeps env s t"
proof -
  let ?m = "map_option mu_id member" and ?c = "registrant member name email phone"
  from register_Inr [OF assms(2)] obtain ev checked where ev: "event_row i s = Some ev" and open_ev: "registration_is_open ev (event_time env)"
    and t: "case existing_registration i ?m (fst (snd ?c)) s of
       None \<Rightarrow> add_registration env ev actor (new_registration env (fresh_key rg_id (registrations s)) ev ?m
           (case via of None \<Rightarrow> ev_makerspace ev | Some v \<Rightarrow> v) ?c checked (fresh_registration_status ev s)) s = Inr t
     | Some r \<Rightarrow> rg_status r = RegCancelled \<and> renew_registration env ev actor (renewed_registration env r ?m
           (case via of None \<Rightarrow> ev_makerspace ev | Some v \<Rightarrow> v) ?c checked (fresh_registration_status ev s)) s = Inr t"
    by blast
  have evid: "ev_id ev = i" using event_row_SomeD [OF ev] by simp
  have rok: "roster_ok (events s) (registrations s)" using ok by (simp add: events_ok_def)
  show ?thesis
  proof (cases "existing_registration i ?m (fst (snd ?c)) s")
    case None
    note none = existing_member_first [OF None, simplified]
    from t None have "add_registration env ev actor (new_registration env (fresh_key rg_id (registrations s)) ev ?m
           (case via of None \<Rightarrow> ev_makerspace ev | Some v \<Rightarrow> v) ?c checked (fresh_registration_status ev s)) s = Inr t"
      by simp
    then show ?thesis
      using ev evid open_ev none
      by (intro add_keeps [OF ok _ _ _ _ _ \<open>add_registration _ _ _ _ _ = _\<close>]) (auto simp: registered_row registration_is_open_def)
  next
    case (Some r)
    note some = existing_member_first [OF Some, simplified]
    from t Some have st: "rg_status r = RegCancelled" and t: "renew_registration env ev actor (renewed_registration env r ?m
           (case via of None \<Rightarrow> ev_makerspace ev | Some v \<Rightarrow> v) ?c checked (fresh_registration_status ev s)) s = Inr t"
      by simp_all
    have row: "registration_row (rg_id r) s = Some r"
      using some rok by (simp add: registration_row_def row_get_unique roster_ok_def)
    show ?thesis
    proof (rule renew_keeps [OF ok _ st _ _ _ _ _ _ t])
      fix p
      assume "p \<in> set (registrations s)" "rg_event p = rg_event (renewed_registration env r ?m
           (case via of None \<Rightarrow> ev_makerspace ev | Some v \<Rightarrow> v) ?c checked (fresh_registration_status ev s))"
        "rg_id p \<noteq> rg_id (renewed_registration env r ?m
           (case via of None \<Rightarrow> ev_makerspace ev | Some v \<Rightarrow> v) ?c checked (fresh_registration_status ev s))"
      then have "p \<in> set (registrations s)" "rg_event p = rg_event r" "rg_id p \<noteq> rg_id r" by (simp_all add: registered_row)
      with some one_rowD [OF rok, of r p] show "rg_member (renewed_registration env r ?m
           (case via of None \<Rightarrow> ev_makerspace ev | Some v \<Rightarrow> v) ?c checked (fresh_registration_status ev s)) = None \<or>
          rg_member p \<noteq> rg_member (renewed_registration env r ?m
           (case via of None \<Rightarrow> ev_makerspace ev | Some v \<Rightarrow> v) ?c checked (fresh_registration_status ev s))"
        by (auto simp: registered_row split: option.splits)
    qed (use row ev some in \<open>simp_all add: registered_row\<close>)
  qed
qed

end
