(* ===== verification/Event_Lifecycle.thy ===== *)
theory Event_Lifecycle
  imports Event_Places Event_Presence Event_Entry
begin

text \<open>
  The life of an event: drafting it, changing it while waiters take the places that become free,
  publishing, completing and cancelling it.
\<close>

section \<open>An event is rewritten\<close>

text \<open>One event gets a new row, and some of its waiters a place.\<close>

lemma event_put_roster_step:
  assumes ok: "roster_ok (events s) (registrations s)" and old: "event_row (ev_id fv) s = Some old"
    and evs: "events t = row_put ev_id fv (events s)" and regs: "registrations t = promoted_rows (event_time env) rs (registrations s)"
    and follows: "event_follows old fv" and rs: "distinct rs" "set rs \<subseteq> set (waiting_rows (ev_id fv) (registrations s))"
    and fit: "0 \<le> ev_capacity fv" "0 < ev_capacity fv \<Longrightarrow> occupancy (ev_id fv) (registrations s) + int (length rs) \<le> ev_capacity fv"
    and seats: "well_seated (event_time env) fv (registrations t)"
  shows "roster_step env s t"
proof -
  have keys: "unique_keys rg_id (registrations s)" using ok by (simp add: roster_ok_def)
  have old': "row_get ev_id (ev_id fv) (events s) = Some old" using old by (simp add: event_row_def)
  have draft: "ev_status fv = EventDraft \<Longrightarrow> ev_status old = EventDraft"
    using follows by (auto simp: event_follows_def elim: event_move.cases)
  have "roster_ok (events t) (registrations t)"
    unfolding evs regs using roster_event_put [OF ok old' draft rs fit] .
  moreover have "follows_once s t"
    unfolding follows_once_def
  proof (intro conjI allI impI)
    fix i r
    assume r: "registration_row i s = Some r"
    have "r \<in> set rs \<Longrightarrow> rg_status r = RegWaitlisted" using rs(2) by auto
    then have "registration_follows r (if r \<in> set rs then raised (event_time env) r else r)"
      by (auto simp: registration_follows_def intro: waited stays)
    with r show "\<exists>q. registration_row i t = Some q \<and> registration_follows r q"
      by (simp add: registration_row_def regs row_get_promoted)
  next
    fix i ev
    assume "event_row i s = Some ev"
    then show "\<exists>gv. event_row i t = Some gv \<and> event_follows ev gv"
      using old' follows by (cases "i = ev_id fv") (simp_all add: event_row_def evs row_get_row_put)
  qed
  moreover have "all_seated (event_time env) t" if seated: "all_seated time s" and "time \<le> event_time env" for time
    unfolding all_seated_def
  proof
    fix gv
    assume "gv \<in> set (events t)"
    then consider "gv = fv" | "gv \<in> set (events s)" "ev_id gv \<noteq> ev_id fv"
      unfolding evs by (auto dest: set_row_putD)
    then show "well_seated (event_time env) gv (registrations t)"
    proof cases
      case 1
      with seats show ?thesis by simp
    next
      case 2
      then show ?thesis
        using all_seated_later [OF that] well_seated_promoted_other [OF keys rs 2(2)] by (simp add: regs all_seated_def)
    qed
  qed
  ultimately show ?thesis by (simp add: roster_step_def)
qed

text \<open>The same, and what has been attended stays.\<close>

lemma event_put_keeps_attended:
  assumes old: "event_row (ev_id fv) s = Some old" and evs: "events t = row_put ev_id fv (events s)"
    and regs: "registrations t = promoted_rows time rs (registrations s)"
    and rs: "set rs \<subseteq> set (waiting_rows (ev_id fv) (registrations s))"
    and st: "ev_status old \<in> {EventPublished, EventCompleted} \<Longrightarrow> ev_status fv \<in> {EventPublished, EventCompleted}"
  shows "keeps_attended s t"
proof -
  have "registration_row i t = map_option (\<lambda>r. if r \<in> set rs then raised time r else r) (registration_row i s)" for i
    by (simp add: regs registration_row_def row_get_promoted)
  moreover have "\<not> (r \<in> set rs \<and> rg_status r = RegAttended)" for r using rs by auto
  moreover have "event_row i t = (if i = ev_id fv then Some fv else event_row i s)" for i
    using old by (simp add: event_row_def evs row_get_row_put)
  ultimately show ?thesis using old st by (auto simp: keeps_attended_def)
qed

lemma event_put_keeps:
  assumes ok: "events_ok s" and step: "roster_step env s t" and attended: "keeps_attended s t"
    and regs: "registrations t = promoted_rows time rs (registrations s)"
    and same: "certificates t = certificates s" "check_ins t = check_ins s" "keeps_payments (ev_pay s) (ev_pay t)"
  shows "event_keeps env s t"
proof -
  have "certificates_ok t" using ok by (intro certificates_keep [OF _ attended same(1)]) (simp add: events_ok_def)
  moreover have "attendance_ok t"
    using ok by (intro attendance_keep [OF _ same(2)]) (auto simp: events_ok_def regs dest: raised_attended)
  ultimately show ?thesis using step same(3) by (simp add: event_keeps_def)
qed

section \<open>Publishing and completing\<close>

lemma calendar_event_row:
  "event_row i s = Some ev \<Longrightarrow> calendar_event_changed env i s =
     put_event (ev\<lparr>ev_sequence := ev_sequence ev + 1, ev_touched := event_time env\<rparr>) s"
  by (simp add: calendar_event_changed_def)

definition moved_event :: "event_env \<Rightarrow> event_status \<Rightarrow> event \<Rightarrow> event" where
  "moved_event env st ev = ev\<lparr>ev_status := st, ev_sequence := ev_sequence ev + 1, ev_touched := event_time env\<rparr>"

lemma moved_event_simps [simp]:
  "ev_id (moved_event env st ev) = ev_id ev" "ev_status (moved_event env st ev) = st" "ev_capacity (moved_event env st ev) = ev_capacity ev"
  "ev_approval (moved_event env st ev) = ev_approval ev" "ev_makerspace (moved_event env st ev) = ev_makerspace ev"
  "ev_sequence (moved_event env st ev) = ev_sequence ev + 1"
  by (simp_all add: moved_event_def)

lemma put_then_calendar_event:
  assumes "event_row (ev_id ev) s = Some old"
  shows "calendar_event_changed env (ev_id ev) (put_event ev s) =
    put_event (ev\<lparr>ev_sequence := ev_sequence ev + 1, ev_touched := event_time env\<rparr>) s"
proof -
  have "event_row (ev_id ev) (put_event ev s) = Some ev" using assms by (simp add: event_row_def row_get_row_put)
  then show ?thesis by (simp add: calendar_event_row put_event_def row_put_twice)
qed

lemma put_event_rest [simp]:
  "certificates (put_event ev s) = certificates s" "check_ins (put_event ev s) = check_ins s" "surveys (put_event ev s) = surveys s"
  by (simp_all add: put_event_def)

lemma move_event_rows:
  assumes "event_row (ev_id ev) s = Some ev" and t: "t = move_event env actor action name notified ev st s"
  shows "events t = row_put ev_id (moved_event env st ev) (events s) \<and> registrations t = registrations s \<and>
    certificates t = certificates s \<and> check_ins t = check_ins s \<and> same_pay s t"
proof -
  have "calendar_event_changed env (ev_id ev) (put_event (ev\<lparr>ev_status := st\<rparr>) s) = put_event (moved_event env st ev) s"
    using put_then_calendar_event [of "ev\<lparr>ev_status := st\<rparr>" s ev env] assms by (simp add: moved_event_def)
  then show ?thesis unfolding t by (simp add: move_event_def Let_def same_pay_def)
qed

lemma moved_event_roster_step:
  assumes ok: "roster_ok (events s) (registrations s)" and ev: "event_row (ev_id ev) s = Some ev"
    and rows: "events t = row_put ev_id (moved_event env st ev) (events s)" "registrations t = registrations s"
    and move: "event_move (ev_status ev) st" and st: "st = EventPublished \<Longrightarrow> nobody_waits (ev_id ev) (registrations s)"
  shows "roster_step env s t"
proof (rule event_put_roster_step [OF ok _ rows(1), where old = ev and rs = "[]"])
  have "fits ev (registrations s)" using ok event_row_SomeD [OF ev] by (simp add: roster_ok_def)
  then show "0 \<le> ev_capacity (moved_event env st ev)"
    "0 < ev_capacity (moved_event env st ev) \<Longrightarrow>
      occupancy (ev_id (moved_event env st ev)) (registrations s) + int (length ([] :: registration list)) \<le> ev_capacity (moved_event env st ev)"
    by (simp_all add: fits_def)
  show "event_follows ev (moved_event env st ev)" using move by (simp add: event_follows_def)
  show "well_seated (event_time env) (moved_event env st ev) (registrations t)"
    using st rows(2) by (auto simp: well_seated_def)
qed (simp_all add: ev rows(2))

lemma move_event_keeps:
  assumes ok: "events_ok s" and ev: "event_row (ev_id ev) s = Some ev" and t: "t = move_event env actor action name notified ev st s"
    and move: "event_move (ev_status ev) st" and st: "st \<noteq> EventCancelled" "st = EventPublished \<Longrightarrow> nobody_waits (ev_id ev) (registrations s)"
  shows "event_keeps env s t"
proof -
  from move_event_rows [OF ev t] have rows: "events t = row_put ev_id (moved_event env st ev) (events s)"
    "registrations t = registrations s" "certificates t = certificates s" "check_ins t = check_ins s" "same_pay s t"
    by blast+
  have rok: "roster_ok (events s) (registrations s)" using ok by (simp add: events_ok_def)
  show ?thesis
  proof (rule event_put_keeps [OF ok _ _ _ rows(3,4) same_pay_keeps [OF rows(5)], where time = 0 and rs = "[]"])
    show "roster_step env s t" by (rule moved_event_roster_step [OF rok ev rows(1,2) move st(2)])
    show "keeps_attended s t"
    proof (rule event_put_keeps_attended [OF _ rows(1), where old = ev and time = 0 and rs = "[]"])
      show "ev_status (moved_event env st ev) \<in> {EventPublished, EventCompleted}" if "ev_status ev \<in> {EventPublished, EventCompleted}"
        using that move st(1) by (auto elim: event_move.cases)
    qed (simp_all add: ev rows(2))
  qed (simp add: rows(2))
qed

lemma draft_empty:
  assumes "roster_ok (events s) (registrations s)" and "event_row i s = Some ev" and "ev_status ev = EventDraft"
  shows "nobody_waits (ev_id ev) (registrations s)"
  using assms event_row_SomeD [OF assms(2)] by (auto simp: nobody_waits_def roster_ok_def event_row_def)

lemma publish_keeps:
  assumes ok: "events_ok s" and "publish_event env i actor s = Inr t"
  shows "event_keeps env s t"
proof -
  from assms(2) obtain ev where ev: "event_row i s = Some ev" and st: "ev_status ev = EventDraft"
    and t: "t = move_event env actor ''event.published'' ''published'' True ev EventPublished s"
    by (auto simp: publish_event_def locked_event_def ok_iff)
  have id: "ev_id ev = i" using event_row_SomeD [OF ev] by simp
  show ?thesis
    using ok ev st draft_empty [OF _ ev st]
    by (intro move_event_keeps [OF ok _ t]) (simp_all add: id events_ok_def announced)
qed

lemma complete_event_keeps:
  assumes ok: "events_ok s" and "complete_event env i actor s = Inr t"
  shows "event_keeps env s t"
proof -
  from assms(2) obtain ev where ev: "event_row i s = Some ev" and st: "ev_status ev = EventPublished"
    and t: "t = move_event env actor ''event.completed'' ''completed'' True ev EventCompleted s"
    by (auto simp: complete_event_def locked_event_def ok_iff)
  have id: "ev_id ev = i" using event_row_SomeD [OF ev] by simp
  show ?thesis
    using ev st by (intro move_event_keeps [OF ok _ t]) (auto simp: id intro: finished)
qed

section \<open>Cancelling\<close>

lemma revoke_certificate_step:
  assumes "revoke_certificate env i actor reason u = Inr v"
  shows "\<exists>c. certificate_row i u = Some c \<and> ct_status c \<noteq> CertRevoked \<and> ct_id c = i \<and>
    certificates v = row_put ct_id (revoke_row env actor reason c) (certificates u) \<and> beside v = beside u \<and> same_pay u v"
proof -
  from assms obtain ev r c w where c: "certificate_row i u = Some c" "ct_status c \<noteq> CertRevoked"
    and w: "save_certificate (revoke_row env actor reason c) u = Inr w"
    and v: "v = event_audit actor ''event.certificate_revoked'' ev (''certificate'', i) (revoked_meta reason c) w"
    by (auto simp: revoke_certificate_def locked_certificate_def ok_iff)
  have "ct_id c = i" using c(1) by (auto simp: certificate_row_def dest: row_get_SomeD)
  with c save_certificate_Inr [OF w] show ?thesis by (auto simp: v same_pay_def)
qed

lemma close_survey_rows:
  "certificates (close_survey_of env ev actor s) = certificates s \<and> events (close_survey_of env ev actor s) = events s \<and>
   registrations (close_survey_of env ev actor s) = registrations s \<and> check_ins (close_survey_of env ev actor s) = check_ins s \<and>
   same_pay s (close_survey_of env ev actor s)"
  by (simp add: close_survey_of_def same_pay_def split: option.splits)

lemma event_certificates_rows:
  assumes "unique_keys ct_id (certificates s)"
  shows "distinct (event_certificates i s) \<and> set (event_certificates i s) = {c \<in> set (certificates s). live_certificate c \<and>
     (case registration_row (ct_registration c) s of None \<Rightarrow> False | Some r \<Rightarrow> rg_event r = i)}"
  using assms by (auto simp: event_certificates_def unique_keys_def distinct_map)

lemma cancel_event_keeps:
  assumes ok: "events_ok s" and "cancel_event env i actor notified s = Inr t"
  shows "event_keeps env s t"
proof -
  from assms(2) obtain ev v where ev: "event_row i s = Some ev" and st: "ev_status ev = EventPublished"
    and v: "for_each (\<lambda>c. revoke_certificate env (ct_id c) actor EventWasCancelled) (event_certificates i s) (close_survey_of env ev actor s) = Inr v"
    and t: "t = move_event env actor ''event.cancelled'' ''cancelled'' notified ev EventCancelled v"
    by (auto simp: cancel_event_def locked_event_def ok_iff)
  let ?w = "close_survey_of env ev actor s" and ?cs = "event_certificates i s"
  note w = close_survey_rows [of env ev actor s]
  have cok: "certificates_ok s" and rok: "roster_ok (events s) (registrations s)" and aok: "attendance_ok s"
    using ok by (simp_all add: events_ok_def)
  have keys: "unique_keys ct_id (certificates s)" using cok by (simp add: certificates_ok_def)
  note cs = event_certificates_rows [OF keys, of i]
  have "certificates v = revoked_rows env actor EventWasCancelled ?cs (certificates ?w) \<and> beside v = beside ?w \<and> same_pay ?w v"
    using cs w keys by (intro revoke_loop [OF v]) (auto dest: revoke_certificate_step)
  then have rows: "certificates v = revoked_rows env actor EventWasCancelled ?cs (certificates s)" "events v = events s"
    "registrations v = registrations s" "check_ins v = check_ins s" "same_pay s v"
    using w by (simp_all add: beside_def same_pay_def)
  have id: "ev_id ev = i" using event_row_SomeD [OF ev] by simp
  have ev': "event_row (ev_id ev) v = Some ev" using ev id rows(2) by (simp add: event_row_def)
  from move_event_rows [OF ev' t] rows have rows': "events t = row_put ev_id (moved_event env EventCancelled ev) (events s)"
    "registrations t = registrations s" "certificates t = revoked_rows env actor EventWasCancelled ?cs (certificates s)"
    "check_ins t = check_ins s" "same_pay s t"
    by (simp_all add: same_pay_def)
  have evs: "event_row (ev_id ev) s = Some ev" using ev id by simp
  have "roster_step env s t"
    by (rule moved_event_roster_step [OF rok evs rows'(1,2)]) (simp_all add: st finished)
  moreover have "certificates_ok t"
  proof (rule certificates_revoked [OF cok rows'(3)])
    fix c
    assume c: "c \<in> set (certificates s)"
    with cok have sound: "certificate_sound (events s) (registrations s) c" by (simp add: certificates_ok_def)
    then obtain r where r: "row_get rg_id (ct_registration c) (registrations s) = Some r"
      "ct_status c = CertActive \<Longrightarrow> rg_status r = RegAttended \<and>
        (\<exists>ev. row_get ev_id (rg_event r) (events s) = Some ev \<and> ev_status ev \<in> {EventPublished, EventCompleted})"
      unfolding certificate_sound_def by blast
    then show "registration_row (ct_registration c) t \<noteq> None" by (simp add: registration_row_def rows'(2))
    assume "c \<notin> set ?cs"
    then have "ct_status c = CertActive \<Longrightarrow> rg_event r \<noteq> i"
      using c r(1) cs by (simp add: live_certificate_def registration_row_def)
    then show "certificate_sound (events t) (registrations t) c"
      using r ev id by (auto simp: certificate_sound_def rows' row_get_row_put event_row_def)
  qed
  moreover have "attendance_ok t" by (rule attendance_keep [OF aok rows'(4)]) (auto simp: rows'(2))
  ultimately show ?thesis using same_pay_keeps [OF rows'(5)] by (simp add: event_keeps_def)
qed

section \<open>Drafting\<close>

lemma occupancy_none: "(\<And>r. r \<in> set rgs \<Longrightarrow> rg_event r \<noteq> e) \<Longrightarrow> occupancy e rgs = 0"
  by (simp add: occupancy_def filter_empty_conv)

lemma create_event_keeps:
  assumes ok: "events_ok s"
    and "create_event_draft env ms actor title d a b loc kind form cap amount approval cutoff lead public zone s = Inr (ev, t)"
  shows "event_keeps env s t"
proof -
  from assms(2) have fresh: "ev_id ev = fresh_key ev_id (events s)" and draft: "ev_status ev = EventDraft" and room: "0 \<le> ev_capacity ev"
    and t: "t = event_audit actor ''event.created'' ev (''event'', ev_id ev) [] (s\<lparr>events := events s @ [ev]\<rparr>)"
    by (auto simp: create_event_draft_def validate_event_def event_clean_def positive_int_def new_event_def ok_iff Let_def)
  let ?u = "s\<lparr>events := events s @ [ev]\<rparr>"
  have rok: "roster_ok (events s) (registrations s)" using ok by (simp add: events_ok_def)
  have row: "row_get ev_id i (events s @ [ev]) = (if i = ev_id ev then Some ev else row_get ev_id i (events s))" for i
    by (rule row_get_snoc [OF fresh])
  have none: "row_get ev_id (ev_id ev) (events s) = None" by (simp add: fresh)
  have other: "rg_event r \<noteq> ev_id ev" if "r \<in> set (registrations s)" for r
    using rok that none by (auto simp: roster_ok_def)
  have "roster_ok (events s @ [ev]) (registrations s)"
    using rok unique_keys_fresh [OF fresh] other room occupancy_none [of "registrations s" "ev_id ev"]
    by (auto simp: roster_ok_def row fits_def)
  moreover have "event_row i ?u = Some fv" if "event_row i s = Some fv" for i fv
    using that none by (auto simp: event_row_def row)
  then have evs: "follows_once s ?u" "keeps_attended s ?u"
    by (auto simp: follows_once_def keeps_attended_def registration_row_def)
  moreover have "all_seated (event_time env) ?u" if "all_seated time s" "time \<le> event_time env" for time
    using all_seated_later [OF that] draft by (simp add: all_seated_def well_seated_def)
  ultimately have "roster_step env s ?u" by (simp add: roster_step_def)
  then have "event_keeps env s ?u"
    by (rule event_put_keeps [OF ok _ evs(2), where time = 0 and rs = "[]"]) simp_all
  then show ?thesis unfolding t by (rule logged_keeps_event)
qed

end
