(* ===== verification/Event_Changes.thy ===== *)
theory Event_Changes
  imports Event_Lifecycle
begin

text \<open>
  Changing an event: the places a higher capacity or a later end opens go to the waiters, and a
  capacity below the occupancy is refused.
\<close>

section \<open>The changed row\<close>

lemma apply_change_keeps [simp]:
  "ev_id (apply_event_change c ev) = ev_id ev" "ev_makerspace (apply_event_change c ev) = ev_makerspace ev"
  "ev_status (apply_event_change c ev) = ev_status ev" "ev_sequence (apply_event_change c ev) = ev_sequence ev"
  by (cases c; simp)+

lemma apply_changes_keep [simp]:
  "ev_id (fold apply_event_change cs ev) = ev_id ev" "ev_makerspace (fold apply_event_change cs ev) = ev_makerspace ev"
  "ev_status (fold apply_event_change cs ev) = ev_status ev" "ev_sequence (fold apply_event_change cs ev) = ev_sequence ev"
  by (induction cs arbitrary: ev) simp_all

lemma apply_change_approval:
  "c \<noteq> SetApproval (\<not> ev_approval ev) \<Longrightarrow> ev_approval (apply_event_change c ev) = ev_approval ev"
  by (cases c) auto

lemma apply_changes_approval:
  "SetApproval (\<not> ev_approval ev) \<notin> set cs \<Longrightarrow> ev_approval (fold apply_event_change cs ev) = ev_approval ev"
  by (induction cs arbitrary: ev) (auto simp: apply_change_approval)

lemma row_put_same: "unique_keys key rows \<Longrightarrow> row_get key (key r) rows = Some r \<Longrightarrow> row_put key r rows = rows"
  by (auto simp: row_put_def intro!: map_idI dest: unique_rowD)

text \<open>What is saved is the changed row, with the next sequence of the calendar or without it.\<close>

lemma save_event_changes_rows:
  assumes keys: "unique_keys ev_id (events s)" and old: "event_row (ev_id old) s = Some old" and ev: "ev = fold apply_event_change changes old"
  obtains fv where "events (save_event_changes env changes ev s) = row_put ev_id fv (events s)"
    "\<exists>title. fv = ev\<lparr>ev_title := title\<rparr> \<or>
      fv = ev\<lparr>ev_title := title, ev_sequence := ev_sequence ev + 1, ev_touched := event_time env\<rparr>"
    "registrations (save_event_changes env changes ev s) = registrations s"
    "certificates (save_event_changes env changes ev s) = certificates s"
    "check_ins (save_event_changes env changes ev s) = check_ins s" "ev_pay (save_event_changes env changes ev s) = ev_pay s"
proof (cases "changes = []")
  case True
  then have "events s = row_put ev_id ev (events s)"
    using row_put_same [OF keys, of old] old ev by (simp add: event_row_def)
  moreover have "\<exists>title. ev = ev\<lparr>ev_title := title\<rparr>" by (rule exI [of _ "ev_title ev"]) simp
  ultimately show ?thesis using True by (intro that [of ev]) (simp_all add: save_event_changes_def ex_disj_distrib)
next
  case False
  have "(if list_ex is_title changes then saved_event ev else ev) =
      ev\<lparr>ev_title := if list_ex is_title changes then strip (ev_title ev) else ev_title ev\<rparr>"
    by (simp add: saved_event_def)
  then obtain title where w: "(if list_ex is_title changes then saved_event ev else ev) = ev\<lparr>ev_title := title\<rparr>" by blast
  let ?w = "ev\<lparr>ev_title := title\<rparr>"
  have "event_row (ev_id ?w) s = Some old" using old ev by simp
  from put_then_calendar_event [OF this, of env]
  have put: "calendar_event_changed env (ev_id ev) (put_event ?w s) =
      put_event (?w\<lparr>ev_sequence := ev_sequence ev + 1, ev_touched := event_time env\<rparr>) s" by simp
  show ?thesis
    by (rule that [of "if list_ex calendar_field changes
          then ?w\<lparr>ev_sequence := ev_sequence ev + 1, ev_touched := event_time env\<rparr> else ?w"])
      (use False in \<open>auto simp: save_event_changes_def Let_def put w\<close>)
qed

section \<open>The waiters that are promoted\<close>

lemma promote_after_update_Inr:
  assumes "promote_after_update env ev actor s = Inr (rs, t)" and keys: "unique_keys rg_id (registrations s)"
    and fit: "0 \<le> ev_capacity ev" "0 < ev_capacity ev \<Longrightarrow> occupancy (ev_id ev) (registrations s) \<le> ev_capacity ev"
  shows "registrations t = promoted_rows (event_time env) rs (registrations s) \<and> rest t = rest s \<and>
    (pay_ok (ev_pay s) \<longrightarrow> keeps_payments (ev_pay s) (ev_pay t)) \<and>
    distinct rs \<and> set rs \<subseteq> set (waiting_rows (ev_id ev) (registrations s)) \<and>
    (0 < ev_capacity ev \<longrightarrow> occupancy (ev_id ev) (registrations s) + int (length rs) \<le> ev_capacity ev) \<and>
    well_seated (event_time env) ev (registrations t)"
proof -
  let ?occ = "occupancy (ev_id ev) (registrations s)" and ?ws = "waiting_rows (ev_id ev) (registrations s)"
  let ?places = "if ev_capacity ev = 0 then None else Some (ev_capacity ev - ?occ)"
  show ?thesis
  proof (cases "may_promote ev (event_time env) \<and> (ev_capacity ev = 0 \<or> ?occ < ev_capacity ev) \<and> \<not> ev_approval ev")
    case True
    then have "promote_automatically env ev actor ?places s = Inr (rs, t)"
      using assms(1) by (simp add: promote_after_update_def confirmed_occupancy_eq Let_def split: if_splits)
    note p = this
    have approval: "ev_approval ev = False" using True by simp
    note p = promote_automatically_Inr [OF p keys, unfolded approval if_False]
    have rs: "rs = selected ?places ?ws"
      and t: "registrations t = promoted_rows (event_time env) rs (registrations s)" "rest t = rest s"
        "pay_ok (ev_pay s) \<longrightarrow> keeps_payments (ev_pay s) (ev_pay t)" "distinct rs" "set rs \<subseteq> set ?ws"
      using p by blast+
    let ?n = "if ev_capacity ev = 0 then length ?ws else nat (ev_capacity ev - ?occ)"
    have take: "rs = take ?n ?ws" using rs by (simp add: selected_def)
    have "well_seated (event_time env) ev (promoted_rows (event_time env) rs (registrations s))"
      by (rule well_seated_promoted [OF keys take]) (use fit in auto)
    moreover have "0 < ev_capacity ev \<longrightarrow> ?occ + int (length rs) \<le> ev_capacity ev" using take fit by auto
    ultimately show ?thesis using t by simp
  next
    case False
    then have "rs = []" "t = s" using assms(1) by (auto simp: promote_after_update_def confirmed_occupancy_eq Let_def)
    moreover have "well_seated (event_time env) ev (registrations s)"
      using False fit by (auto simp: well_seated_def may_promote_def)
    ultimately show ?thesis using fit by (simp add: keeps_payments_refl)
  qed
qed

section \<open>The whole change\<close>

lemma update_event_Inr:
  assumes "update_event env i actor changes s = Inr t"
  obtains old changes' ev rs u where "event_row i s = Some old" "ev = fold apply_event_change changes' old" "event_clean env ev"
    "ev_status old = EventDraft \<or> SetApproval (\<not> ev_approval old) \<notin> set changes'"
    "0 < ev_capacity ev \<Longrightarrow> confirmed_occupancy i s \<le> ev_capacity ev" "promote_after_update env ev actor s = Inr (rs, u)"
    "t = event_audit actor ''event.updated'' ev (''event'', i)
       (updated_meta (list_ex is_capacity changes' \<and> ev_capacity ev \<noteq> ev_capacity old) (ev_capacity old) (ev_capacity ev) rs)
       (save_event_changes env changes' ev u)"
proof -
  from assms obtain old cs where old: "locked_event i s = Inr old"
    and g: "\<not> (SetApproval (\<not> ev_approval old) \<in> set cs \<and> ev_status old \<noteq> EventDraft)"
    and v: "validate_event env (fold apply_event_change cs old) = Inr ()"
    and c: "\<not> (0 < ev_capacity (fold apply_event_change cs old) \<and> ev_capacity (fold apply_event_change cs old) < confirmed_occupancy i s)"
    and p: "try_then (promote_after_update env (fold apply_event_change cs old) actor s) (\<lambda>(chosen, s).
        Inr (event_audit actor ''event.updated'' (fold apply_event_change cs old) (''event'', i)
          (updated_meta (list_ex is_capacity cs \<and> ev_capacity (fold apply_event_change cs old) \<noteq> ev_capacity old) (ev_capacity old)
            (ev_capacity (fold apply_event_change cs old)) chosen)
          (save_event_changes env cs (fold apply_event_change cs old) s))) = Inr t"
    by (simp only: update_event_def try_then_Inr if_Inl_Inr Let_def not_not) fastforce
  from p obtain rs u where u: "promote_after_update env (fold apply_event_change cs old) actor s = Inr (rs, u)"
    and t: "t = event_audit actor ''event.updated'' (fold apply_event_change cs old) (''event'', i)
          (updated_meta (list_ex is_capacity cs \<and> ev_capacity (fold apply_event_change cs old) \<noteq> ev_capacity old) (ev_capacity old)
            (ev_capacity (fold apply_event_change cs old)) rs)
          (save_event_changes env cs (fold apply_event_change cs old) u)"
    by (auto simp: try_then_Inr)
  show ?thesis
  proof (rule that [OF _ refl _ _ _ u t])
    show "event_row i s = Some old" using old by (simp add: locked_event_def ok_iff)
    show "event_clean env (fold apply_event_change cs old)" using v by (simp add: validate_event_def ok_iff)
  qed (use g c in auto)
qed

lemma update_keeps:
  assumes ok: "events_ok s" and "update_event env i actor changes s = Inr t"
  shows "event_keeps env s t"
  using assms(2)
proof (rule update_event_Inr)
  fix old cs ev rs u
  assume old: "event_row i s = Some old" and ev: "ev = fold apply_event_change cs old" and clean: "event_clean env ev"
    and approval: "ev_status old = EventDraft \<or> SetApproval (\<not> ev_approval old) \<notin> set cs"
    and room: "0 < ev_capacity ev \<Longrightarrow> confirmed_occupancy i s \<le> ev_capacity ev"
    and u: "promote_after_update env ev actor s = Inr (rs, u)"
    and t: "t = event_audit actor ''event.updated'' ev (''event'', i)
       (updated_meta (list_ex is_capacity cs \<and> ev_capacity ev \<noteq> ev_capacity old) (ev_capacity old) (ev_capacity ev) rs)
       (save_event_changes env cs ev u)"
  have rok: "roster_ok (events s) (registrations s)" and pok: "pay_ok (ev_pay s)" using ok by (simp_all add: events_ok_def)
  have keys: "unique_keys rg_id (registrations s)" "unique_keys ev_id (events s)" using rok by (simp_all add: roster_ok_def)
  have id: "ev_id old = i" "ev_id ev = i" using event_row_SomeD [OF old] ev by simp_all
  have cap: "0 \<le> ev_capacity ev" using clean by (simp add: event_clean_def positive_int_def)
  have room': "0 < ev_capacity ev \<Longrightarrow> occupancy (ev_id ev) (registrations s) \<le> ev_capacity ev"
    using room id by (simp add: confirmed_occupancy_eq)
  note p = promote_after_update_Inr [OF u keys(1) cap room', unfolded id]
  have us: "registrations u = promoted_rows (event_time env) rs (registrations s)" "rest u = rest s" "keeps_payments (ev_pay s) (ev_pay u)"
    and rs: "distinct rs" "set rs \<subseteq> set (waiting_rows i (registrations s))"
    and full: "0 < ev_capacity ev \<longrightarrow> occupancy i (registrations s) + int (length rs) \<le> ev_capacity ev"
    and seated: "well_seated (event_time env) ev (registrations u)"
    using p pok by blast+
  note r = restD [OF us(2)]
  have old': "event_row (ev_id old) u = Some old" and keys': "unique_keys ev_id (events u)"
    using old id keys r by (simp_all add: event_row_def)
  from save_event_changes_rows [OF keys' old' ev, of env] obtain fv where
    ts: "events (save_event_changes env cs ev u) = row_put ev_id fv (events s)"
      "registrations (save_event_changes env cs ev u) = registrations u" "certificates (save_event_changes env cs ev u) = certificates s"
      "check_ins (save_event_changes env cs ev u) = check_ins s" "ev_pay (save_event_changes env cs ev u) = ev_pay u"
    and fv: "\<exists>title. fv = ev\<lparr>ev_title := title\<rparr> \<or>
      fv = ev\<lparr>ev_title := title, ev_sequence := ev_sequence ev + 1, ev_touched := event_time env\<rparr>"
    using r by metis
  let ?t = "save_event_changes env cs ev u"
  have same: "ev_id fv = i" "ev_capacity fv = ev_capacity ev" "ev_approval fv = ev_approval ev" "ev_status fv = ev_status old"
    "ev_makerspace fv = ev_makerspace old" "ev_sequence old \<le> ev_sequence fv" "ev_ends fv = ev_ends ev"
    using fv id by (auto simp: ev)
  have regs: "registrations ?t = promoted_rows (event_time env) rs (registrations s)" using ts(2) us(1) by simp
  have "roster_step env s ?t"
  proof (rule event_put_roster_step [OF rok _ ts(1) regs])
    show "event_row (ev_id fv) s = Some old" using old same by simp
    show "event_follows old fv"
      using same approval apply_changes_approval [of old cs] ev by (auto simp: event_follows_def intro: stands)
    show "well_seated (event_time env) fv (registrations ?t)"
      using seated ts(2) same by (simp add: well_seated_def id ev)
  qed (use rs full cap same in simp_all)
  moreover have "keeps_attended s ?t"
    by (rule event_put_keeps_attended [OF _ ts(1) regs, where old = old]) (use old same rs in simp_all)
  ultimately have "event_keeps env s ?t"
    using us(3) ts by (intro event_put_keeps [OF ok _ _ regs]) simp_all
  then show ?thesis unfolding t by (rule logged_keeps_event)
qed

end
