(* ===== verification/Event_Machine.thy ===== *)
theory Event_Machine
  imports Event_Changes
begin

text \<open>
  The operations that leave the roster alone (certificates, stations, surveys, feedback), and the
  machine of all of them.
\<close>

section \<open>Operations beside the roster\<close>

definition quiet :: "event_db \<Rightarrow> event_db \<Rightarrow> bool" where
  "quiet s t \<longleftrightarrow> registrations t = registrations s \<and> events t = events s \<and> check_ins t = check_ins s \<and>
     (certificates_ok s \<longrightarrow> certificates_ok t) \<and> same_pay s t"

lemma quiet_refl [simp]: "quiet s s"
  by (simp add: quiet_def same_pay_def)

lemma quiet_trans [trans]: "quiet s t \<Longrightarrow> quiet t u \<Longrightarrow> quiet s u"
  by (simp add: quiet_def same_pay_def)

lemma quiet_keeps: "events_ok s \<Longrightarrow> quiet s t \<Longrightarrow> event_keeps env s t"
  by (auto simp: quiet_def events_ok_def event_keeps_def attendance_ok_def intro: roster_step_same same_pay_keeps)

lemma quiet_logs [simp]:
  "quiet s (event_audit actor act ev tgt m t) = quiet s t" "quiet s (event_notify n i t) = quiet s t"
  by (simp_all add: quiet_def same_pay_def certificates_ok_def)

lemma quiet_tables:
  "registrations t = registrations s \<Longrightarrow> events t = events s \<Longrightarrow> check_ins t = check_ins s \<Longrightarrow> certificates t = certificates s \<Longrightarrow>
   same_pay s t \<Longrightarrow> quiet s t"
  by (simp add: quiet_def certificates_ok_def)

section \<open>Certificates\<close>

lemma clash_sym: "certificate_clash c d = certificate_clash d c"
  by (auto simp: certificate_clash_def)

lemma locked_certificate_Inr:
  assumes "locked_certificate i s = Inr (ev, r, c)"
  shows "certificate_row i s = Some c \<and> ct_id c = i \<and> registration_row (ct_registration c) s = Some r \<and> event_row (rg_event r) s = Some ev"
  using assms by (auto simp: locked_certificate_def locked_event_def certificate_row_def ok_iff dest: row_get_SomeD)

text \<open>A saved row keeps what was issued, and leaves the end of its life to nobody.\<close>

lemma save_certificate_quiet:
  assumes c: "save_certificate c s = Inr t" and sound: "certificates_ok s \<Longrightarrow> certificate_sound (events s) (registrations s) c"
  shows "quiet s t"
proof -
  from c obtain d where d: "certificate_row (ct_id c) s = Some d" "issuance c = issuance d"
    "ct_status c \<noteq> ct_status d \<Longrightarrow> certificate_allowed (ct_status d) (ct_status c)"
    by (auto simp: save_certificate_def ok_iff)
  from save_certificate_Inr [OF c] have t: "certificates t = row_put ct_id c (certificates s)" "beside t = beside s" "ev_pay t = ev_pay s"
    by blast+
  have live: "live_certificate c \<Longrightarrow> live_certificate d" using d(3) by (cases "ct_status d") (auto simp: live_certificate_def)
  have "ct_id d = ct_id c" "d \<in> set (certificates s)" using d(1) row_get_SomeD [of ct_id] unfolding certificate_row_def by blast+
  have clash: "\<not> certificate_clash c e" if "certificates_ok s" "e \<in> set (certificates s)" "ct_id e \<noteq> ct_id c" for e
  proof -
    have "\<not> certificate_clash d e" using that \<open>ct_id d = ct_id c\<close> \<open>d \<in> _\<close> by (auto simp: certificates_ok_def)
    then show ?thesis using live d(2) by (auto simp: certificate_clash_def issuance_def)
  qed
  have "certificates_ok t" if ok: "certificates_ok s"
    unfolding certificates_ok_def
  proof (intro conjI ballI impI)
    show "unique_keys ct_id (certificates t)" using ok by (simp add: t certificates_ok_def)
    fix e
    assume e: "e \<in> set (certificates t)"
    then have e': "e = c \<or> e \<in> set (certificates s) \<and> ct_id e \<noteq> ct_id c" unfolding t by (auto dest: set_row_putD)
    then show "certificate_sound (events t) (registrations t) e"
      using sound [OF ok] ok t(2) by (auto simp: certificates_ok_def beside_def)
    fix f
    assume "f \<in> set (certificates t)" "ct_id f \<noteq> ct_id e"
    moreover from this(1) have "f = c \<or> f \<in> set (certificates s) \<and> ct_id f \<noteq> ct_id c" unfolding t by (auto dest: set_row_putD)
    ultimately show "\<not> certificate_clash e f"
      using e' clash [OF ok] clash_sym [of e f] ok by (auto simp: certificates_ok_def)
  qed
  with t show ?thesis by (simp add: quiet_def beside_def same_pay_def)
qed

lemma inactive_sound:
  assumes "certificate_row (ct_id c) s = Some d" and "ct_registration c = ct_registration d" and "ct_status c \<noteq> CertActive" and "certificates_ok s"
  shows "certificate_sound (events s) (registrations s) c"
proof -
  have "d \<in> set (certificates s)" using assms(1) row_get_SomeD [of ct_id] unfolding certificate_row_def by blast
  then have "certificate_sound (events s) (registrations s) d" using assms(4) by (simp add: certificates_ok_def)
  with assms(2,3) show ?thesis by (auto simp: certificate_sound_def)
qed

lemma revoke_quiet:
  assumes "revoke_certificate env i actor reason s = Inr t"
  shows "quiet s t"
proof -
  from assms obtain ev r c u where l: "locked_certificate i s = Inr (ev, r, c)"
    and u: "save_certificate (revoke_row env actor reason c) s = Inr u"
    and t: "t = event_audit actor ''event.certificate_revoked'' ev (''certificate'', i) (revoked_meta reason c) u"
    by (auto simp: revoke_certificate_def ok_iff)
  note l = locked_certificate_Inr [OF l]
  have "quiet s u" using l by (intro save_certificate_quiet [OF u] inactive_sound [where d = c]) simp_all
  then show ?thesis by (simp add: t)
qed

lemma claim_quiet:
  assumes "claim_render i s = Inr (c, t)"
  shows "quiet s t \<and> ct_id c = i"
proof -
  from assms obtain ev r d where l: "locked_certificate i s = Inr (ev, r, d)"
    and t: "c = d \<and> t = s \<or> c = d\<lparr>ct_status := CertRendering\<rparr> \<and> save_certificate c s = Inr t"
    by (auto simp: claim_render_def ok_iff Let_def split: if_splits)
  note l = locked_certificate_Inr [OF l]
  from t show ?thesis
  proof
    assume c: "c = d\<lparr>ct_status := CertRendering\<rparr> \<and> save_certificate c s = Inr t"
    then have u: "save_certificate (d\<lparr>ct_status := CertRendering\<rparr>) s = Inr t" by blast
    have "quiet s t" using l by (intro save_certificate_quiet [OF u] inactive_sound [where d = d]) simp_all
    then show ?thesis using l c by simp
  qed (use l in simp)
qed

lemma fail_quiet:
  assumes "fail_render i s = Inr t"
  shows "quiet s t"
proof -
  from assms obtain ev r c where l: "locked_certificate i s = Inr (ev, r, c)" by (auto simp: fail_render_def try_then_Inr)
  note l' = locked_certificate_Inr [OF l]
  show ?thesis
  proof (cases "ct_status c = CertRendering")
    case True
    with assms l obtain u where u: "save_certificate (c\<lparr>ct_status := CertFailed\<rparr>) s = Inr u"
      and t: "t = event_audit None ''event.certificate_render_failed'' ev (''certificate'', i) [(''revision'', MInt (int (ct_revision c)))] u"
      by (auto simp: fail_render_def ok_iff)
    have "quiet s u" using l' by (intro save_certificate_quiet [OF u] inactive_sound [where d = c]) simp_all
    then show ?thesis by (simp add: t)
  qed (use assms l in \<open>simp add: fail_render_def\<close>)
qed

lemma charge_document_Inr:
  "charge_document env ms bytes s = Inr t \<Longrightarrow> \<exists>base. t = s\<lparr>ev_pay := (ev_pay s)\<lparr>pay_base := base\<rparr>\<rparr>"
  by (auto simp: charge_document_def ok_iff)

lemma activate_quiet:
  assumes "activate_certificate env i bytes digest s = Inr (c, t)"
  shows "quiet s t"
proof -
  from assms obtain ev r d where l: "locked_certificate i s = Inr (ev, r, d)" by (auto simp: activate_certificate_def try_then_Inr)
  with assms have g: "ev_status ev \<in> {EventPublished, EventCompleted}" "rg_status r = RegAttended"
    by (simp_all add: activate_certificate_def require_certifiable_event_def ok_iff)
  note l' = locked_certificate_Inr [OF l]
  let ?c = "d\<lparr>ct_size := Some bytes, ct_digest := digest, ct_rendered := Some (event_time env), ct_status := CertActive\<rparr>"
  show ?thesis
  proof (cases "ct_status d = CertActive")
    case True
    with assms l show ?thesis by (auto simp: activate_certificate_def ok_iff)
  next
    case False
    with assms l have "\<exists>v u. charge_document env (ev_makerspace ev) bytes s = Inr v \<and> save_certificate ?c v = Inr u \<and>
        t = event_audit None ''event.certificate_rendered'' ev (''certificate'', i)
              [(''revision'', MInt (int (ct_revision d))), (''size_bytes'', MInt bytes)] u"
      by (auto simp: activate_certificate_def ok_iff Let_def)
    then obtain v u where v: "charge_document env (ev_makerspace ev) bytes s = Inr v" and u: "save_certificate ?c v = Inr u"
      and t: "t = event_audit None ''event.certificate_rendered'' ev (''certificate'', i)
              [(''revision'', MInt (int (ct_revision d))), (''size_bytes'', MInt bytes)] u"
      by blast
    from charge_document_Inr [OF v] obtain base where v: "v = s\<lparr>ev_pay := (ev_pay s)\<lparr>pay_base := base\<rparr>\<rparr>" by blast
    have "quiet s v" by (rule quiet_tables) (simp_all add: v same_pay_def)
    also have "quiet v u"
      using l' g by (intro save_certificate_quiet [OF u]) (simp add: v certificate_sound_def registration_row_def event_row_def)
    finally show ?thesis by (simp add: t)
  qed
qed

lemma create_pending_quiet:
  assumes "create_pending env resp s = Inr (c, t)"
  shows "quiet s t"
proof -
  from assms obtain r i ev where r: "registration_row i s = Some r" and
    c: "c = new_certificate (fresh_key ct_id (certificates s)) (rp_id resp) (fresh_uuid env) (next_revision i s) r ev"
    and clash: "\<not> list_ex (certificate_clash c) (certificates s)" and t: "t = s\<lparr>certificates := certificates s @ [c]\<rparr>"
    by (auto simp: create_pending_def ok_iff Let_def split: option.splits)
  have fresh: "ct_id c = fresh_key ct_id (certificates s)" and st: "ct_status c = CertPending" and reg: "ct_registration c = i"
    using registration_row_SomeD [OF r] by (simp_all add: c new_certificate_def)
  have "certificates_ok t" if ok: "certificates_ok s"
    unfolding certificates_ok_def
  proof (intro conjI ballI impI)
    show "unique_keys ct_id (certificates t)" using ok unique_keys_fresh [OF fresh] by (simp add: t certificates_ok_def)
    fix d
    assume d: "d \<in> set (certificates t)"
    then show "certificate_sound (events t) (registrations t) d"
      using ok r by (auto simp: t certificates_ok_def certificate_sound_def st reg registration_row_def)
    fix e
    assume "e \<in> set (certificates t)" "ct_id e \<noteq> ct_id d"
    then show "\<not> certificate_clash d e"
      using d ok clash clash_sym [of d e] by (auto simp: t certificates_ok_def list_ex_iff)
  qed
  then show ?thesis by (simp add: quiet_def t same_pay_def)
qed

lemma reissue_quiet:
  assumes "reissue_certificate env i actor s = Inr t"
  shows "quiet s t"
  using assms create_pending_quiet by (auto simp: reissue_certificate_def ok_iff)

lemma render_quiet: "quiet s (snd (render_certificate env i s))"
proof (cases "claim_render i s")
  case (Inr p)
  obtain c t where p: "p = (c, t)" by (cases p)
  with Inr have claim: "quiet s t" using claim_quiet by blast
  have failed: "quiet t (snd (after_failure i e t))" for e
    by (cases "fail_render i t") (simp_all add: after_failure_def fail_quiet)
  have "quiet t (snd (render_certificate env i s))"
    using Inr p failed activate_quiet
    by (fastforce simp: render_certificate_def split: sum.splits prod.splits)
  with claim show ?thesis by (rule quiet_trans)
qed (simp add: render_certificate_def)

lemma download_quiet: "quiet s (snd (download_certificate env c s))"
  using render_quiet [of s env "ct_id c"]
  by (auto simp: download_certificate_def split: sum.splits prod.splits)

section \<open>Stations, surveys and feedback\<close>

lemma put_station_quiet [simp]: "quiet s (put_station st s)"
  by (rule quiet_tables) (simp_all add: put_station_def same_pay_def split: option.splits)

lemma station_quiet:
  "rotate_station env i actor s = Inr t \<Longrightarrow> quiet s t" "disable_station env i actor s = Inr t \<Longrightarrow> quiet s t"
  by (auto simp: rotate_station_def disable_station_def ok_iff Let_def split: option.splits)

lemma save_survey_quiet: "save_survey v s = Inr t \<Longrightarrow> quiet s t"
  by (auto simp: save_survey_def ok_iff Let_def same_pay_def intro: quiet_tables split: option.splits if_splits)

lemma survey_quiet:
  "configure_survey env i actor title thanks qs w s = Inr t \<Longrightarrow> quiet s t"
  "open_survey env i actor s = Inr t \<Longrightarrow> quiet s t"
  "close_survey env i actor s = Inr t \<Longrightarrow> quiet s t"
  by (auto simp: configure_survey_def open_survey_def close_survey_def ok_iff Let_def dest: save_survey_quiet)

lemma insert_response_quiet: "insert_response p s = Inr t \<Longrightarrow> quiet s t"
  by (auto simp: insert_response_def ok_iff same_pay_def intro: quiet_tables)

lemma merge_quiet: "merge_answered_ids e answers s = Inr t \<Longrightarrow> quiet s t"
  by (auto simp: merge_answered_ids_def ok_iff Let_def dest: save_survey_quiet split: if_splits)

lemma anonymous_quiet: "submit_anonymous_feedback env i answers s = Inr (p, t) \<Longrightarrow> quiet s t"
  by (auto simp: submit_anonymous_feedback_def ok_iff Let_def dest!: insert_response_quiet merge_quiet intro: quiet_trans)

lemma store_quiet: "store_identified env ev v r actor snapshot s = Inr (p, t) \<Longrightarrow> quiet s t"
  by (auto simp: store_identified_def ok_iff Let_def dest!: insert_response_quiet merge_quiet create_pending_quiet intro: quiet_trans)

lemma identified_quiet: "submit_identified_feedback env i actor email answers wanted s = Inr (p, t) \<Longrightarrow> quiet s t"
  by (auto simp: submit_identified_feedback_def ok_iff intro: store_quiet split: option.splits if_splits)

section \<open>The machine\<close>

lemma event_step_keeps:
  assumes ok: "events_ok s" and step: "event_step (env, op) s = Inr t"
  shows "event_keeps env s t"
proof (cases op)
  case (CheckIn r actor src oid at session version)
  with step show ?thesis using attends_keeps mark_attends [OF ok] by (auto simp: ok_iff)
next
  case (Synchronize ev xs l actor src session version)
  with step show ?thesis using synchronize_keeps [OF ok] by auto
next
  case (DownloadCertificate c)
  with step show ?thesis using quiet_keeps [OF ok download_quiet] by auto
next
  case (ClaimRender i)
  with step show ?thesis using quiet_keeps [OF ok] claim_quiet by (auto simp: ok_iff)
next
  case (Register i ms member name email phone answers actor staff via collaborative)
  with step show ?thesis using register_keeps [OF ok] by simp
next
  case (CreateEvent ms actor title d a b loc kind form cap amount approval cutoff lead public zone)
  with step show ?thesis using create_event_keeps [OF ok] by (auto simp: ok_iff)
next
  case (ActivateCertificate i bytes digest)
  with step show ?thesis using quiet_keeps [OF ok activate_quiet] by (auto simp: ok_iff)
next
  case (AnonymousFeedback i answers)
  with step show ?thesis using quiet_keeps [OF ok anonymous_quiet] by (auto simp: ok_iff)
next
  case (IdentifiedFeedback i actor email answers wanted)
  with step show ?thesis using quiet_keeps [OF ok identified_quiet] by (auto simp: ok_iff)
qed (use step ok in \<open>(simp,
  blast intro: update_keeps publish_keeps cancel_event_keeps complete_event_keeps approve_registration_keeps reject_keeps promote_registration_keeps
    cancel_registration_keeps correct_keeps quiet_keeps station_quiet survey_quiet reissue_quiet revoke_quiet fail_quiet)+\<close>)

text \<open>What a run keeps of the past.\<close>

definition history_kept :: "event_db \<Rightarrow> event_db \<Rightarrow> bool" where
  "history_kept s t \<longleftrightarrow>
     (\<forall>i r. registration_row i s = Some r \<longrightarrow> (\<exists>q. registration_row i t = Some q \<and> rg_event q = rg_event r \<and>
        rg_token q = rg_token r \<and> rg_sequence r \<le> rg_sequence q \<and> registration_move\<^sup>*\<^sup>* (rg_status r) (rg_status q))) \<and>
     (\<forall>i ev. event_row i s = Some ev \<longrightarrow> (\<exists>fv. event_row i t = Some fv \<and> ev_makerspace fv = ev_makerspace ev \<and>
        ev_sequence ev \<le> ev_sequence fv \<and> event_move\<^sup>*\<^sup>* (ev_status ev) (ev_status fv)))"

lemma history_refl: "history_kept s s"
  by (simp add: history_kept_def)

lemma history_trans:
  assumes "history_kept s t" and "history_kept t u"
  shows "history_kept s u"
  unfolding history_kept_def
proof (intro conjI allI impI)
  fix i r
  assume "registration_row i s = Some r"
  with assms(1) obtain p where p: "registration_row i t = Some p" "rg_event p = rg_event r" "rg_token p = rg_token r"
    "rg_sequence r \<le> rg_sequence p" "registration_move\<^sup>*\<^sup>* (rg_status r) (rg_status p)"
    unfolding history_kept_def by blast
  from assms(2) p(1) obtain q where "registration_row i u = Some q" "rg_event q = rg_event p" "rg_token q = rg_token p"
    "rg_sequence p \<le> rg_sequence q" "registration_move\<^sup>*\<^sup>* (rg_status p) (rg_status q)"
    unfolding history_kept_def by blast
  with p show "\<exists>q. registration_row i u = Some q \<and> rg_event q = rg_event r \<and> rg_token q = rg_token r \<and>
      rg_sequence r \<le> rg_sequence q \<and> registration_move\<^sup>*\<^sup>* (rg_status r) (rg_status q)"
    by (auto intro: rtranclp_trans)
next
  fix i ev
  assume "event_row i s = Some ev"
  with assms(1) obtain gv where g: "event_row i t = Some gv" "ev_makerspace gv = ev_makerspace ev"
    "ev_sequence ev \<le> ev_sequence gv" "event_move\<^sup>*\<^sup>* (ev_status ev) (ev_status gv)"
    unfolding history_kept_def by blast
  from assms(2) g(1) obtain fv where "event_row i u = Some fv" "ev_makerspace fv = ev_makerspace gv"
    "ev_sequence gv \<le> ev_sequence fv" "event_move\<^sup>*\<^sup>* (ev_status gv) (ev_status fv)"
    unfolding history_kept_def by blast
  with g show "\<exists>fv. event_row i u = Some fv \<and> ev_makerspace fv = ev_makerspace ev \<and>
      ev_sequence ev \<le> ev_sequence fv \<and> event_move\<^sup>*\<^sup>* (ev_status ev) (ev_status fv)"
    by (auto intro: rtranclp_trans)
qed

lemma follows_history: "follows_once s t \<Longrightarrow> history_kept s t"
  unfolding follows_once_def history_kept_def registration_follows_def event_follows_def by (meson r_into_rtranclp)

text \<open>The rejected registrations, the cancelled and the completed events stay what they are.\<close>

lemma rejected_stays: "registration_move\<^sup>*\<^sup>* st st' \<Longrightarrow> st = RegRejected \<Longrightarrow> st' = RegRejected"
  by (induction rule: rtranclp_induct) (auto simp: registration_move_rejected)

lemma finished_stays: "event_move\<^sup>*\<^sup>* st st' \<Longrightarrow> st \<in> {EventCancelled, EventCompleted} \<Longrightarrow> st' = st"
  by (induction rule: rtranclp_induct) (auto simp: event_move_simps)

text \<open>The invariant of the machine with its clock.\<close>

definition clocked_ok :: "int \<times> event_db \<Rightarrow> bool" where
  "clocked_ok s \<longleftrightarrow> events_ok (snd s) \<and> all_seated (fst s) (snd s)"

definition clocked_history :: "int \<times> event_db \<Rightarrow> int \<times> event_db \<Rightarrow> bool" where
  "clocked_history s t \<longleftrightarrow> fst s \<le> fst t \<and> history_kept (snd s) (snd t) \<and> keeps_payments (ev_pay (snd s)) (ev_pay (snd t))"

lemma clocked_step_Inr:
  assumes "clocked_step c s = Inr t" and "events_ok (snd s)"
  shows "fst s \<le> fst t \<and> fst t = event_time (fst c) \<and> event_keeps (fst c) (snd s) (snd t)"
  using assms event_step_keeps [OF assms(2), of "fst c" "snd c"] by (auto simp: clocked_step_def ok_iff)

lemma clocked_step_keeps:
  assumes ok: "clocked_ok s" and step: "clocked_step c s = Inr t"
  shows "clocked_ok t \<and> clocked_history s t"
proof -
  have s: "events_ok (snd s)" "all_seated (fst s) (snd s)" using ok by (simp_all add: clocked_ok_def)
  from clocked_step_Inr [OF step s(1)] have t: "fst s \<le> fst t" "fst t = event_time (fst c)" "event_keeps (fst c) (snd s) (snd t)"
    by blast+
  then have "roster_step (fst c) (snd s) (snd t)" "keeps_payments (ev_pay (snd s)) (ev_pay (snd t))"
    by (simp_all add: event_keeps_def)
  moreover have "all_seated (fst t) (snd t)"
    using calculation(1) s(2) t(1,2) unfolding roster_step_def by simp
  ultimately show ?thesis
    using event_keeps_ok [OF s(1) t(3)] t(1)
    by (simp add: clocked_ok_def clocked_history_def roster_step_def follows_history)
qed

interpretation clocked: tracked_machine clocked_step clocked_ok clocked_history
  by unfold_locales
    (auto dest: clocked_step_keeps simp: clocked_history_def intro: history_refl history_trans keeps_payments_trans)

end
