(* ===== verification/Event_Properties.thy ===== *)
theory Event_Properties
  imports Event_Machine Booking_Properties
begin

text \<open>
  The properties of the events services, with a sample: a workshop for one, which is taken and has
  two who wait, and a talk that is over, with an attendance and its certificate.
\<close>

section \<open>Samples\<close>

definition workshop :: event where
  "workshop = (new_event 1 1 None 0)
     \<lparr>ev_title := ''Workshop'', ev_starts := 500, ev_ends := 1000, ev_capacity := 1, ev_amount := 12550, ev_public := True,
      ev_zone := ''UTC'', ev_status := EventPublished\<rparr>"

definition talk :: event where
  "talk = (new_event 2 1 None 0)
     \<lparr>ev_title := ''Talk'', ev_starts := 10, ev_ends := 20, ev_zone := ''UTC'', ev_status := EventCompleted\<rparr>"

definition guest :: "nat \<Rightarrow> nat \<Rightarrow> string \<Rightarrow> registration_status \<Rightarrow> registration" where
  "guest i e email st =
     \<lparr>rg_id = i, rg_event = e, rg_token = 100 + i, rg_name = ''Guest'', rg_email = email, rg_phone = ''123'', rg_member = None,
      rg_via = Some 1, rg_pay_via = Some 1, rg_answers = None, rg_status = st, rg_sequence = 0, rg_touched = 0, rg_created = int i\<rparr>"

definition seated_guest :: registration where "seated_guest = guest 1 1 ''a@x'' RegRegistered"
definition first_guest :: registration where "first_guest = guest 2 1 ''b@x'' RegWaitlisted"
definition second_guest :: registration where "second_guest = guest 3 1 ''c@x'' RegWaitlisted"
definition talk_guest :: registration where "talk_guest = guest 4 2 ''a@x'' RegAttended"

definition talk_entry :: check_in where
  "talk_entry = \<lparr>ci_id = 1, ci_makerspace = 1, ci_event = 2, ci_registration = 4, ci_operation = 77, ci_source = SourceQr,
     ci_attended = 12, ci_recorded = 12, ci_actor = Some 9, ci_session = None, ci_station_version = None\<rparr>"

definition talk_certificate :: certificate where
  "talk_certificate = (new_certificate 1 1 55 1 talk_guest talk)
     \<lparr>ct_size := Some 9, ct_digest := ''d'', ct_status := CertActive, ct_rendered := Some 30\<rparr>"

definition sample_events :: event_db where
  "sample_events = \<lparr>ev_pay = sample_pay, events = [workshop, talk],
     registrations = [seated_guest, first_guest, second_guest, talk_guest], check_ins = [talk_entry], stations = [],
     surveys = [], responses = [], certificates = [talk_certificate]\<rparr>"

definition quiet_env :: event_env where
  "quiet_env = \<lparr>ev_env = Payment_Properties.sample_env, quota_env = Evidence.sample_env, event_fenced = (\<lambda>_. False), events_module = (\<lambda>_. True),
     offline_checkin = (\<lambda>_. True), event_limit = (\<lambda>_. Some 5), zone_known = (\<lambda>_. True), default_zone = ''UTC'',
     fresh_uuid = 900, secrets_up = True, absent_member = (\<lambda>_ _. None), clock_skew = 5, stored_pdf = (\<lambda>_. Inr (9, ''d''))\<rparr>"

lemmas sample_event_rows = workshop_def talk_def new_event_def guest_def seated_guest_def first_guest_def second_guest_def
  talk_guest_def talk_entry_def talk_certificate_def new_certificate_def sample_events_def

lemma sample_roster_ok: "roster_ok (events sample_events) (registrations sample_events)"
  by (auto simp: roster_ok_def sample_event_rows unique_keys_def one_row_each_def fits_def occupancy_def confirmed_def row_get_Cons)

lemma sample_certificates_ok: "certificates_ok sample_events"
  by (simp add: certificates_ok_def sample_event_rows unique_keys_def certificate_sound_def row_get_Cons)

lemma sample_attendance_ok: "attendance_ok sample_events"
  by (simp add: attendance_ok_def sample_event_rows)

lemma sample_pay_table_ok: "pay_ok sample_pay"
  by (simp add: pay_ok_def sample_pay_def unique_keys_def)

lemma sample_seated: "all_seated 50 sample_events"
  by (simp add: all_seated_def well_seated_def sample_event_rows occupancy_def confirmed_def nobody_waits_def)

lemma sample_clocked_ok: "clocked_ok (50, sample_events)"
  using sample_roster_ok sample_certificates_ok sample_attendance_ok sample_pay_table_ok sample_seated
  by (simp add: clocked_ok_def events_ok_def) (simp add: sample_events_def)

section \<open>Seats\<close>

text \<open>
  C7. No run of the events services books more people into an event than it has places for, and nobody
  has two registrations for one event, whichever operations come in which order.
\<close>

theorem events_never_overbooked:
  assumes "clocked_ok s" and t: "t = fold (attempt clocked_step) ops s"
  shows "(\<forall>ev \<in> set (events (snd t)). 0 < ev_capacity ev \<longrightarrow> confirmed_occupancy (ev_id ev) (snd t) \<le> ev_capacity ev) \<and>
    (\<forall>r \<in> set (registrations (snd t)). \<forall>q \<in> set (registrations (snd t)). rg_event q = rg_event r \<and> rg_id q \<noteq> rg_id r \<longrightarrow>
       rg_email q \<noteq> rg_email r \<and> (rg_member r = None \<or> rg_member q \<noteq> rg_member r))"
proof -
  have "roster_ok (events (snd t)) (registrations (snd t))"
    using clocked.run_inv [OF assms(1), of ops] by (simp add: t clocked_ok_def events_ok_def)
  then show ?thesis by (simp add: roster_ok_def fits_def one_row_each_def confirmed_occupancy_eq)
qed

theorem events_never_overbooked_witness:
  "let t = fold (attempt clocked_step) [(quiet_env, ApproveRegistration first_guest None), (quiet_env, CancelRegistration seated_guest None)]
     (50, sample_events) in \<forall>ev \<in> set (events (snd t)). 0 < ev_capacity ev \<longrightarrow> confirmed_occupancy (ev_id ev) (snd t) \<le> ev_capacity ev"
  unfolding Let_def by (rule conjunct1 [OF events_never_overbooked [OF sample_clocked_ok refl]])

text \<open>
  C8. While a published event without approvals runs, no place of it stays idle as long as somebody
  waits: after every operation all places are taken or the waiting list is empty. The clock of a run
  never goes back.
\<close>

theorem no_place_idle_while_waiting:
  assumes "clocked_ok s" and t: "t = fold (attempt clocked_step) ops s"
    and "ev \<in> set (events (snd t))" and "ev_status ev = EventPublished" and "\<not> ev_approval ev" and "fst t \<le> ev_ends ev"
  shows "waiters (ev_id ev) (snd t) = [] \<or> 0 < ev_capacity ev \<and> confirmed_occupancy (ev_id ev) (snd t) = ev_capacity ev"
proof -
  have "all_seated (fst t) (snd t)"
    using clocked.run_inv [OF assms(1), of ops] by (simp add: t clocked_ok_def)
  with assms(3-6) show ?thesis
    by (simp add: all_seated_def well_seated_def nobody_waits_iff waiters_eq confirmed_occupancy_eq)
qed

theorem no_place_idle_while_waiting_witness:
  "waiters 1 sample_events = [] \<or> (0 :: int) < 1 \<and> confirmed_occupancy 1 sample_events = 1"
proof -
  have "workshop \<in> set (events (snd (50 :: int, sample_events)))" by (simp add: sample_events_def)
  from no_place_idle_while_waiting [OF sample_clocked_ok, of "(50, sample_events)" "[]", OF _ this] show ?thesis
    by (simp add: workshop_def new_event_def)
qed

text \<open>
  C9. A seat that is given back while the event runs goes to the one who has waited longest, in the
  same transaction; everybody else keeps registration and place in the queue.
\<close>

lemma waiters_of_rows:
  assumes "registrations t = map f (registrations s)"
    and "\<And>p. p \<in> set (registrations s) \<Longrightarrow> rg_event (f p) = e \<and> rg_status (f p) = RegWaitlisted \<longleftrightarrow>
      rg_event p = e \<and> rg_status p = RegWaitlisted \<and> p \<noteq> w"
    and "\<And>p. p \<in> set (registrations s) \<Longrightarrow> rg_status (f p) = RegWaitlisted \<Longrightarrow> f p = p"
  shows "waiters e t = filter (\<lambda>p. p \<noteq> w) (waiters e s)"
proof -
  have "filter (\<lambda>r. rg_event r = e \<and> rg_status r = RegWaitlisted) (map f rs) =
      filter (\<lambda>p. p \<noteq> w) (filter (\<lambda>r. rg_event r = e \<and> rg_status r = RegWaitlisted) rs)" if "set rs \<subseteq> set (registrations s)" for rs
    using that by (induction rs) (use assms(2,3) in auto)
  then show ?thesis by (simp add: waiters_def assms(1) filter_sort)
qed

lemma cancel_registration_rows:
  assumes ok: "roster_ok (events s) (registrations s)" and r: "registration_row (rg_id seen) s = Some r" "rg_status r = RegRegistered"
    and ev: "event_row (rg_event r) s = Some ev" "\<not> ev_approval ev" "0 < ev_capacity ev" "may_promote ev (event_time env)"
    and run: "cancel_registration env seen actor s = Inr t"
  shows "\<exists>v :: event_db. registrations v = row_put rg_id (touched (event_time env) RegCancelled r) (registrations s) \<and>
    registrations t = promoted_rows (event_time env) (take 1 (waiting_rows (ev_id ev) (registrations v))) (registrations v)"
proof -
  from run obtain ev' r' where l: "locked_registration seen s = Inr (ev', r')"
    by (auto simp: cancel_registration_def try_then_Inr)
  have "r' = r" "ev' = ev" using locked_registration_Inr [OF l] r(1) ev(1) by auto
  note l = l [unfolded this]
  have lr: "rg_id r = rg_id seen" using registration_row_SomeD [OF r(1)] by simp
  from run obtain u where u: "move_registration env r RegCancelled s = Inr u"
    and t: "(let s = event_audit actor ''event.registration_cancelled'' ev (''registration'', rg_id r)
                 (registration_id_meta r @ [(''old_status'', MStr (registration_text (rg_status r)))]) u;
               s = event_notify ''registration_cancelled'' (rg_id r) s;
               s = cancel_for_registration env ev r actor s
           in if rg_status r = RegRegistered \<and> \<not> ev_approval ev \<and> 0 < ev_capacity ev \<and> may_promote ev (event_time env)
              then try_then (promote_automatically env ev actor (Some 1) s) (\<lambda>(_, s). Inr s)
              else Inr s) = Inr t"
    by (simp only: cancel_registration_def l try_then_simps prod.case if_Inl_Inr try_then_Inr not_not) blast
  let ?v = "cancel_for_registration env ev r actor (event_notify ''registration_cancelled'' (rg_id r)
      (event_audit actor ''event.registration_cancelled'' ev (''registration'', rg_id r)
        (registration_id_meta r @ [(''old_status'', MStr (registration_text (rg_status r)))]) u))"
  from t r(2) ev(2-4) obtain rs where p: "promote_automatically env ev actor (Some 1) ?v = Inr (rs, t)"
    by (auto simp: Let_def try_then_Inr)
  from move_registration_Inr [OF u] lr r(1) have u': "u = put_registration (touched (event_time env) RegCancelled r) s" by auto
  have v: "registrations ?v = row_put rg_id (touched (event_time env) RegCancelled r) (registrations s)" by (simp add: u')
  moreover have "unique_keys rg_id (registrations ?v)" using ok by (simp add: u' roster_ok_def)
  from promote_automatically_Inr [OF p this] ev(2)
  have "registrations t = promoted_rows (event_time env) (take 1 (waiting_rows (ev_id ev) (registrations ?v))) (registrations ?v)"
    by (simp add: selected_def)
  ultimately show ?thesis by (intro exI [of _ ?v] conjI)
qed

theorem freed_seat_to_first_waiter:
  assumes ok: "clocked_ok (time, s)" and r: "registration_row (rg_id seen) s = Some r" "rg_status r = RegRegistered"
    and ev: "event_row (rg_event r) s = Some ev" "\<not> ev_approval ev" "0 < ev_capacity ev" "may_promote ev (event_time env)"
    and first: "waiters (ev_id ev) s = w # ws" and run: "cancel_registration env seen actor s = Inr t"
  shows "registrations t = map (\<lambda>p.
      if p = r then p\<lparr>rg_status := RegCancelled, rg_sequence := rg_sequence p + 1, rg_touched := event_time env\<rparr>
      else if p = w then p\<lparr>rg_status := RegRegistered, rg_sequence := rg_sequence p + 1, rg_touched := event_time env\<rparr>
      else p) (registrations s) \<and> waiters (ev_id ev) t = ws"
proof -
  let ?c = "touched (event_time env) RegCancelled r" and ?w = "raised (event_time env) w"
  let ?f = "\<lambda>p. if p = r then ?c else if p = w then ?w else p"
  have rok: "roster_ok (events s) (registrations s)" using ok by (simp add: clocked_ok_def events_ok_def)
  then have keys: "unique_keys rg_id (registrations s)" by (simp add: roster_ok_def)
  from cancel_registration_rows [OF rok r ev run] obtain v :: event_db where v: "registrations v = row_put rg_id ?c (registrations s)"
    and t: "registrations t = promoted_rows (event_time env) (take 1 (waiting_rows (ev_id ev) (registrations v))) (registrations v)"
    by blast
  have w: "w \<in> set (registrations s)" "rg_status w = RegWaitlisted" "w \<noteq> r"
  proof -
    have "w \<in> set (waiting_rows (ev_id ev) (registrations s))" using first by (simp only: waiters_eq list.set_intros)
    then show "w \<in> set (registrations s)" "rg_status w = RegWaitlisted" "w \<noteq> r" using r(2) by auto
  qed
  have c: "registrations v = map (\<lambda>p. if p = r then ?c else p) (registrations s)"
    unfolding v row_put_def
  proof (rule map_cong [OF refl])
    fix p
    assume p: "p \<in> set (registrations s)"
    have "row_get rg_id (rg_id r) (registrations s) = Some r"
      using registration_row_SomeD [OF r(1)] r(1) by (simp add: registration_row_def)
    then have "rg_id p = rg_id r \<longleftrightarrow> p = r" using unique_rowD [OF keys _ p] by blast
    then show "(if rg_id p = rg_id ?c then ?c else p) = (if p = r then ?c else p)" by simp
  qed
  have "waiters (ev_id ev) v = filter (\<lambda>p. p \<noteq> r) (waiters (ev_id ev) s)"
    by (rule waiters_of_rows [OF c]) (use r(2) in \<open>auto split: if_splits\<close>)
  also have "\<dots> = waiters (ev_id ev) s"
    using r(2) by (intro filter_True) (auto simp: waiters_eq)
  finally have "waiting_rows (ev_id ev) (registrations v) = w # ws" using first by (simp add: waiters_eq)
  moreover have "?c \<noteq> w" using w(2) by auto
  ultimately have rows: "registrations t = map ?f (registrations s)"
    using w(3) by (auto simp: t c promoted_rows_def)
  have "waiters (ev_id ev) t = filter (\<lambda>p. p \<noteq> w) (waiters (ev_id ev) s)"
    by (rule waiters_of_rows [OF rows]) (use r(2) w in \<open>auto split: if_splits\<close>)
  also have "\<dots> = ws" using first distinct_waiting_rows [OF keys, of "ev_id ev"] by (auto simp: waiters_eq filter_id_conv)
  finally show ?thesis using rows by (simp add: touched_def raised_def cong: if_cong)
qed

lemma sample_cancel_runs: "\<exists>t. cancel_registration quiet_env seated_guest None sample_events = Inr t"
proof -
  have "case cancel_registration quiet_env seated_guest None sample_events of Inl _ \<Rightarrow> False | Inr _ \<Rightarrow> True" by code_simp
  then show ?thesis by (auto split: sum.splits)
qed

theorem freed_seat_to_first_waiter_witness:
  "\<exists>t. cancel_registration quiet_env seated_guest None sample_events = Inr t \<and>
     map (\<lambda>r. (rg_id r, rg_status r)) (registrations t) = [(1, RegCancelled), (2, RegRegistered), (3, RegWaitlisted), (4, RegAttended)] \<and>
     waiters 1 t = [second_guest]"
proof -
  from sample_cancel_runs obtain t where run: "cancel_registration quiet_env seated_guest None sample_events = Inr t" by blast
  have rows: "registration_row (rg_id seated_guest) sample_events = Some seated_guest" "rg_status seated_guest = RegRegistered"
    "event_row (rg_event seated_guest) sample_events = Some workshop" "\<not> ev_approval workshop" "0 < ev_capacity workshop"
    "may_promote workshop (event_time quiet_env)" "waiters (ev_id workshop) sample_events = [first_guest, second_guest]"
    by (simp_all add: sample_event_rows registration_row_def event_row_def row_get_Cons may_promote_def quiet_env_def event_time_def
        Payment_Properties.sample_env_def waiters_def)
  from freed_seat_to_first_waiter [OF sample_clocked_ok rows run] run show ?thesis
    by (simp add: sample_event_rows)
qed

section \<open>The life of the rows\<close>

text \<open>
  C11. Every operation moves a registration along one edge of its status graph at most, and an event
  along one of its own; none disappears or changes its event or its check-in token, and the sequence
  that calendars go by never falls. A rejected registration stays rejected, a cancelled or completed
  event stays that, over every run.
\<close>

theorem events_follow_graphs:
  assumes "clocked_ok s" and t: "t = fold (attempt clocked_step) ops s"
  shows "(\<forall>c u. clocked_step c t = Inr u \<longrightarrow> follows_once (snd t) (snd u)) \<and>
    (\<forall>i r. registration_row i (snd s) = Some r \<longrightarrow> (\<exists>q. registration_row i (snd t) = Some q \<and> rg_event q = rg_event r \<and>
       rg_token q = rg_token r \<and> rg_sequence r \<le> rg_sequence q \<and> (rg_status r = RegRejected \<longrightarrow> rg_status q = RegRejected))) \<and>
    (\<forall>i ev. event_row i (snd s) = Some ev \<longrightarrow> (\<exists>fv. event_row i (snd t) = Some fv \<and> ev_makerspace fv = ev_makerspace ev \<and>
       ev_sequence ev \<le> ev_sequence fv \<and> (ev_status ev \<in> {EventCancelled, EventCompleted} \<longrightarrow> ev_status fv = ev_status ev)))"
proof (intro conjI allI impI)
  have ok: "events_ok (snd t)" using clocked.run_inv [OF assms(1), of ops] by (simp add: t clocked_ok_def)
  show "follows_once (snd t) (snd u)" if "clocked_step c t = Inr u" for c u
    using clocked_step_Inr [OF that ok] by (simp add: event_keeps_def roster_step_def)
  have kept: "history_kept (snd s) (snd t)" using clocked.run_rel [OF assms(1), of ops] by (simp add: t clocked_history_def)
  show "\<exists>q. registration_row i (snd t) = Some q \<and> rg_event q = rg_event r \<and> rg_token q = rg_token r \<and>
      rg_sequence r \<le> rg_sequence q \<and> (rg_status r = RegRejected \<longrightarrow> rg_status q = RegRejected)"
    if "registration_row i (snd s) = Some r" for i r
    using kept that rejected_stays unfolding history_kept_def by blast
  show "\<exists>fv. event_row i (snd t) = Some fv \<and> ev_makerspace fv = ev_makerspace ev \<and> ev_sequence ev \<le> ev_sequence fv \<and>
      (ev_status ev \<in> {EventCancelled, EventCompleted} \<longrightarrow> ev_status fv = ev_status ev)"
    if "event_row i (snd s) = Some ev" for i ev
    using kept that finished_stays unfolding history_kept_def by blast
qed

theorem events_follow_graphs_witness:
  "\<exists>t. clocked_step (quiet_env, CancelRegistration seated_guest None) (50, sample_events) = Inr t \<and> follows_once sample_events (snd t)"
proof -
  from sample_cancel_runs obtain u where "cancel_registration quiet_env seated_guest None sample_events = Inr u" by blast
  then have step: "clocked_step (quiet_env, CancelRegistration seated_guest None) (50, sample_events) = Inr (100, u)"
    by (simp add: clocked_step_def quiet_env_def event_time_def Payment_Properties.sample_env_def)
  from events_follow_graphs [OF sample_clocked_ok, of "(50, sample_events)" "[]"] step show ?thesis by fastforce
qed

text \<open>
  C10. An active certificate belongs to a registration that is attended, of an event that is published
  or completed, with a recorded check-in; a registration has one certificate at most that is not
  revoked, and no check-in operation is recorded twice. Correcting an attendance, cancelling the
  event, offline batches and reissues in any order keep it so.
\<close>

theorem active_certificate_rests_on_attendance:
  assumes "clocked_ok s" and t: "t = fold (attempt clocked_step) ops s"
  shows "(\<forall>c \<in> set (certificates (snd t)). ct_status c = CertActive \<longrightarrow>
      (\<exists>r ev. registration_row (ct_registration c) (snd t) = Some r \<and> rg_status r = RegAttended \<and>
         event_row (rg_event r) (snd t) = Some ev \<and> ev_status ev \<in> {EventPublished, EventCompleted} \<and>
         (\<exists>e \<in> set (check_ins (snd t)). ci_registration e = ct_registration c))) \<and>
    (\<forall>c \<in> set (certificates (snd t)). \<forall>d \<in> set (certificates (snd t)).
       live_certificate c \<and> live_certificate d \<and> ct_registration d = ct_registration c \<longrightarrow> ct_id d = ct_id c) \<and>
    distinct (map ci_operation (check_ins (snd t)))"
proof (intro conjI ballI impI)
  have ok: "certificates_ok (snd t)" "attendance_ok (snd t)"
    using clocked.run_inv [OF assms(1), of ops] by (simp_all add: t clocked_ok_def events_ok_def)
  show "distinct (map ci_operation (check_ins (snd t)))" using ok by (simp add: attendance_ok_def)
  fix c
  assume c: "c \<in> set (certificates (snd t))"
  show "\<exists>r ev. registration_row (ct_registration c) (snd t) = Some r \<and> rg_status r = RegAttended \<and>
      event_row (rg_event r) (snd t) = Some ev \<and> ev_status ev \<in> {EventPublished, EventCompleted} \<and>
      (\<exists>e \<in> set (check_ins (snd t)). ci_registration e = ct_registration c)" if "ct_status c = CertActive"
  proof -
    from ok(1) c that obtain r ev where r: "registration_row (ct_registration c) (snd t) = Some r" "rg_status r = RegAttended"
      "event_row (rg_event r) (snd t) = Some ev" "ev_status ev \<in> {EventPublished, EventCompleted}"
      unfolding certificates_ok_def certificate_sound_def registration_row_def event_row_def by metis
    have "r \<in> set (registrations (snd t))" "rg_id r = ct_registration c" using registration_row_SomeD [OF r(1)] by simp_all
    with ok(2) r(2) have "\<exists>e \<in> set (check_ins (snd t)). ci_registration e = ct_registration c"
      unfolding attendance_ok_def by metis
    with r show ?thesis by blast
  qed
  fix d
  assume "d \<in> set (certificates (snd t))" "live_certificate c \<and> live_certificate d \<and> ct_registration d = ct_registration c"
  with ok(1) c show "ct_id d = ct_id c" unfolding certificates_ok_def certificate_clash_def by blast
qed

theorem active_certificate_rests_on_attendance_witness:
  "let t = fold (attempt clocked_step) [(quiet_env, CorrectAttendance talk_guest None)] (50, sample_events)
   in \<forall>c \<in> set (certificates (snd t)). ct_status c = CertActive \<longrightarrow>
      (\<exists>r ev. registration_row (ct_registration c) (snd t) = Some r \<and> rg_status r = RegAttended \<and>
         event_row (rg_event r) (snd t) = Some ev \<and> ev_status ev \<in> {EventPublished, EventCompleted} \<and>
         (\<exists>e \<in> set (check_ins (snd t)). ci_registration e = ct_registration c))"
  unfolding Let_def by (rule conjunct1 [OF active_certificate_rests_on_attendance [OF sample_clocked_ok refl]])

section \<open>Charges\<close>

text \<open>
  C27. Whoever cancels a registration, and with it its charge, and registers again gets the seat and no
  charge: the row is taken up again, the cancelled payment of it is found, and none is made.
\<close>

lemma record_registration_uncharged:
  assumes "payment_for (ev_makerspace ev) SubjectEvent (rg_id r) (ev_pay s) \<noteq> None"
  shows "payments (ev_pay (record_registration env ev actor r st s)) = payments (ev_pay s)"
  using assms
  by (simp add: record_registration_def create_for_registered_registration_def payment_for_def Let_def split: option.splits)

theorem renewed_seat_uncharged:
  assumes ok: "clocked_ok (time, s)"
    and old: "existing_registration i (map_option mu_id member) (fst (snd (registrant member name email phone))) s = Some r"
    and ev: "event_row i s = Some ev" and paid: "payment_for (ev_makerspace ev) SubjectEvent (rg_id r) (ev_pay s) = Some p"
    and run: "register env i ms member name email phone answers actor staff via collab s = Inr t"
  shows "rg_status r = RegCancelled \<and> payments (ev_pay t) = payments (ev_pay s) \<and>
    (\<exists>q. registration_row (rg_id r) t = Some q \<and> rg_status q = fresh_registration_status ev s)"
proof -
  from register_Inr [OF run] old ev obtain checked where st: "rg_status r = RegCancelled"
    and t: "renew_registration env ev actor (renewed_registration env r (map_option mu_id member)
           (case via of None \<Rightarrow> ev_makerspace ev | Some v \<Rightarrow> v) (registrant member name email phone) checked (fresh_registration_status ev s)) s = Inr t"
    by auto
  let ?q = "renewed_registration env r (map_option mu_id member) (case via of None \<Rightarrow> ev_makerspace ev | Some v \<Rightarrow> v)
    (registrant member name email phone) checked (fresh_registration_status ev s)"
  from t obtain u where u: "save_registration ?q s = Inr u"
    and t: "t = record_registration env ev actor ?q (rg_status ?q) (calendar_registration_changed env (rg_id ?q) u)"
    by (auto simp: renew_registration_def ok_iff)
  from u have row: "registration_row (rg_id ?q) s \<noteq> None" and u: "u = put_registration ?q s" by (simp_all add: save_registration_Inr)
  from row obtain o' where "registration_row (rg_id ?q) s = Some o'" by blast
  note v = put_then_calendar [OF this, of env]
  have "payments (ev_pay t) = payments (ev_pay s)"
    unfolding t u v using paid by (subst record_registration_uncharged) (simp_all add: registered_row)
  moreover have "registrations t = row_put rg_id (?q\<lparr>rg_sequence := rg_sequence ?q + 1, rg_touched := event_time env\<rparr>) (registrations s)"
    unfolding t u v by (simp add: record_registration_def Let_def)
  then have "registration_row (rg_id r) t = Some (?q\<lparr>rg_sequence := rg_sequence ?q + 1, rg_touched := event_time env\<rparr>)"
    using row by (auto simp: registration_row_def row_get_row_put registered_row)
  ultimately show ?thesis using st by (simp add: registered_row)
qed

definition cancelled_charge :: payment where
  "cancelled_charge = (new_payment 1 1 SubjectEvent 1 (Some 7) None ''Workshop'' 12550 ''inr'' 7)\<lparr>y_status := Canceled\<rparr>"

definition cancelled_guest :: registration where
  "cancelled_guest = (guest 1 1 ''asha@example.org'' RegCancelled)\<lparr>rg_member := Some 7\<rparr>"

definition vacated_events :: event_db where
  "vacated_events = sample_events\<lparr>ev_pay := sample_pay\<lparr>payments := [cancelled_charge]\<rparr>, registrations := [cancelled_guest, talk_guest]\<rparr>"

lemmas vacated_rows = sample_event_rows cancelled_guest_def vacated_events_def

lemma vacated_pay_ok: "pay_ok (ev_pay vacated_events)"
  by (simp add: vacated_events_def cancelled_charge_def pay_ok_def sample_pay_defs payment_sound_def payment_unique_def fee_sound_def
      one_rail_def max_cents_def currency_shape_def is_lower_def code_of_def unique_keys_def)

lemma vacated_roster_ok: "roster_ok (events vacated_events) (registrations vacated_events)"
  by (auto simp: roster_ok_def vacated_rows unique_keys_def one_row_each_def fits_def occupancy_def confirmed_def row_get_Cons)

lemma vacated_rest_ok: "certificates_ok vacated_events" "attendance_ok vacated_events" "all_seated 50 vacated_events"
  by (simp_all add: certificates_ok_def vacated_rows unique_keys_def certificate_sound_def row_get_Cons attendance_ok_def
      all_seated_def well_seated_def occupancy_def confirmed_def nobody_waits_def)

lemma vacated_ok: "clocked_ok (50, vacated_events)"
  using vacated_pay_ok vacated_roster_ok vacated_rest_ok by (simp add: clocked_ok_def events_ok_def)

lemma vacated_register_runs:
  "\<exists>t. register quiet_env 1 1 (Some sample_member) None None None JNull None False None False vacated_events = Inr t"
proof -
  have "case register quiet_env 1 1 (Some sample_member) None None None JNull None False None False vacated_events of
      Inl _ \<Rightarrow> False | Inr _ \<Rightarrow> True" by code_simp
  then show ?thesis by (auto split: sum.splits)
qed

theorem renewed_seat_uncharged_witness:
  "\<exists>t. register quiet_env 1 1 (Some sample_member) None None None JNull None False None False vacated_events = Inr t \<and>
     payments (ev_pay t) = [cancelled_charge] \<and> (\<exists>q. registration_row 1 t = Some q \<and> rg_status q = RegRegistered)"
proof -
  from vacated_register_runs obtain t where
    run: "register quiet_env 1 1 (Some sample_member) None None None JNull None False None False vacated_events = Inr t" by blast
  have old: "existing_registration 1 (map_option mu_id (Some sample_member))
      (fst (snd (registrant (Some sample_member) None None None))) vacated_events = Some cancelled_guest"
    by (simp add: existing_registration_def sample_member_def vacated_rows)
  have ev: "event_row 1 vacated_events = Some workshop" by (simp add: event_row_def vacated_rows row_get_Cons)
  have paid: "payment_for (ev_makerspace workshop) SubjectEvent (rg_id cancelled_guest) (ev_pay vacated_events) = Some cancelled_charge"
    by (simp add: payment_for_def vacated_rows cancelled_charge_def new_payment_def subject_of_def)
  have "fresh_registration_status workshop vacated_events = RegRegistered" by code_simp
  with renewed_seat_uncharged [OF vacated_ok old ev paid run] run show ?thesis
    by (simp add: vacated_events_def cancelled_guest_def guest_def)
qed

end
