(* ===== verification/Spec2Isabelle.thy ===== *)
theory Spec2Isabelle
  imports Desk_Properties Forms_Properties Forms_Numbers Booking_Properties Transfer_Properties Event_Properties
begin

text \<open>
  The core of a platform that runs makerspaces: a backend in Python with Django, under
  \<open>src/backend/apps\<close>. Members ask for hardware, staff accept the request, hand the units out with a
  photo as evidence and take them back; tools go out by scanning a code or over the counter; stock is
  counted and moved; rooms and benches are booked; people register for events and attend them; charges are
  raised and settled. This library models the services that do so and proves what their users rely on.

  \<^bold>\<open>How a service is modelled.\<close> A table is a list of records with a primary key (\<open>Prelude\<close>: \<open>row_get\<close>,
  \<open>row_put\<close>, \<open>fresh_key\<close>, the locale \<open>row_store\<close>); the database of a component is a record of
  tables. A service takes its arguments and the database and returns a sum: \<open>Inl e\<close> for the exception
  it raises, \<open>Inr\<close> for its result with the new database. \<open>transaction.atomic()\<close> is \<open>atomic\<close>: an
  exception leaves the database as it was, which the sum says by returning no database. \<open>try_then\<close>
  is a statement that may raise followed by the rest of the body, \<open>for_each\<close> and \<open>collect\<close> the loops,
  \<open>yields\<close> the rule for reasoning about all of them. Requests of the users run one after the other:
  the rows that two of them may touch at a time are locked by the code (\<open>select_for_update\<close>), so an
  interleaving is an order of transactions, and a machine is a list of operations run by \<open>run\<close>. The locales
  \<open>guarded_machine\<close> (an invariant that every accepted operation keeps) and \<open>tracked_machine\<close> (a
  relation between the states before and after) carry the induction over runs once; each component
  interprets them on its own operations. Money is kept in hundredths, times in seconds, texts as
  character lists with code points up to 255 (\<open>Text_Ops\<close>).

  \<^bold>\<open>Stock.\<close> \<open>Lending_Db\<close> has the rows: products and unit assets (\<open>inventory/models.py\<close>), boxes and codes
  (\<open>boxes/models.py\<close>), requests, items, returns and loans (\<open>hardware_requests/*models.py\<close>), evidence and the
  audit log. \<open>Availability\<close> and \<open>Availability_Requests\<close> are the package \<open>inventory/availability*.py\<close>, the only
  code that moves units between the available, reserved, issued, damaged and lost buckets of a
  product. \<open>Stock_Safety\<close> shows that the guards of these operations keep the \<open>CHECK\<close> constraints of the
  table from failing and the stock well-formed, \<open>Stock_Effects\<close> what they do to the units.

  \<^bold>\<open>Lending.\<close> \<open>Evidence\<close> promotes a staged photo to its object and charges its bytes to the storage quota
  once (\<open>evidence/*.py\<close>, \<open>makerspaces/limits_*.py\<close>). \<open>Request_Workflow\<close>, \<open>Handover\<close> and \<open>Returns\<close> are the life
  of a reviewed request (\<open>hardware_requests/request_workflow.py\<close>, \<open>cancellation_workflow.py\<close>,
  \<open>handover_workflow.py\<close>, \<open>return_workflow.py\<close> and their helpers). \<open>Ledger\<close> states the invariant that ties
  the quantities of items to the buckets of products, \<open>Ledger_Steps\<close> what each operation does to it, and
  \<open>Lending\<close> runs the operations as a machine; \<open>Lending_Properties\<close> has what holds of that machine alone.
  \<open>Tool_Loans\<close>, \<open>Direct_Loans\<close> and \<open>Loan_Services\<close> are the loans without a review: self-checkout, handouts by
  staff, their returns, and the triage of problem reports (\<open>self_checkout_*.py\<close>, \<open>direct_loan_*.py\<close>,
  \<open>problem_report_workflow.py\<close>). \<open>Loan_Ledger\<close> and \<open>Loan_Returns\<close> show that they keep the request ledger,
  \<open>Custody\<close> and \<open>Reviewed_Custody\<close> who has which container. \<open>Desk\<close> is the machine of both kinds of lending
  over the shared tables, and \<open>Desk_Properties\<close> its guarantees: the ledger stays balanced, requests
  follow the status graph, an accepted request can be issued and what is out can be returned, a
  container is out once, and the search for nested boxes ends.

  \<^bold>\<open>Stock control.\<close> \<open>Stocktakes\<close> and \<open>Transfers\<close> (\<open>operations/services_*.py\<close>) work on the tables of the
  lending core with their own beside. \<open>Stocktake_Safety\<close> and \<open>Stocktake_Properties\<close> show the four-eyes rule,
  the freezing of lines and that the ledger accounts for every unit; \<open>Transfer_Properties\<close> that units are
  conserved and what is reserved or out stays where it is.

  \<^bold>\<open>Forms.\<close> \<open>Forms_Schema\<close> is \<open>forms_schema/validation.py\<close>: the schema of a custom form and its answers, from
  JSON to JSON. \<open>Forms_Properties\<close> shows that canonical schemas and stored answers are fixed points and
  that answers fit their questions; \<open>Forms_Numbers\<close> that a number given as text is stored as the
  nearest double.

  \<^bold>\<open>Payments.\<close> \<open>Payment_Amounts\<close> has the currencies and the conversion to minor units, \<open>Payment_Records\<close>
  the rows with the guards of their \<open>save\<close>, \<open>Payments\<close> and \<open>Payment_Webhooks\<close> the services: raising a charge, hosted
  checkout, settlement, the events of both vendors, money that comes late. \<open>Payment_Safety\<close> shows that
  each keeps the table well-formed and moves payments forward; \<open>Payment_Properties\<close> lists the results.
  What a vendor answers is a parameter, a function of the request.

  \<^bold>\<open>Bookings.\<close> \<open>Bookings\<close> is the package \<open>bookings\<close>: spaces, their rules and opening hours, and the life of a
  booking with its charge, on a database that contains the one of the payments. \<open>Booking_Safety\<close> relates it
  to the calendar of confirmed slots, an abstract state that never holds two slots that clash, and
  \<open>Booking_Properties\<close> states the refinement and its consequences.

  \<^bold>\<open>Events.\<close> The package \<open>events\<close>: \<open>Event_Rows\<close> has its tables with the guards of their \<open>save\<close>, the capacity
  of an event and the boundary to the payments (\<open>models_*.py\<close>, \<open>capacity.py\<close>, \<open>service_payments.py\<close>);
  \<open>Event_Certificates\<close> the attendance certificates, \<open>Event_Services\<close> the life of an event and registering
  (\<open>services.py\<close>, \<open>services_lifecycle.py\<close>, \<open>services_registration.py\<close>), \<open>Event_Attendance\<close> the decisions on
  a registration, checking in, stations and offline batches (\<open>services_registration_state.py\<close>,
  \<open>services_checkin*.py\<close>, \<open>services_station.py\<close>), \<open>Event_Feedback\<close> the surveys (\<open>services_feedback.py\<close>). \<open>Events\<close>
  is the machine of all of them with its clock, the invariant and the status graphs. \<open>Event_Roster\<close> counts
  seats when a row changes and when waiters are promoted; \<open>Event_Moves\<close> and \<open>Event_Safety\<close> give what one
  moved row keeps, for the three decisions; \<open>Event_Places\<close> cancelling, \<open>Event_Presence\<close> attendance and its correction, \<open>Event_Entry\<close>
  registering, \<open>Event_Lifecycle\<close> and \<open>Event_Changes\<close> the event itself, \<open>Event_Machine\<close> the rest and every
  run. \<open>Event_Properties\<close> states the guarantees: no event is overbooked, no place is idle while somebody
  waits, a freed seat goes to the first waiter, a certificate rests on an attendance. An event is one
  outside of a series, with fields of its own; the PIN sessions of a station are left out.

  \<^bold>\<open>Bounds and loops.\<close> No definition runs on fuel. The loop over nested boxes (\<open>subtree_walk\<close>) and the
  loops over texts and digits have termination proofs; all others are recursions over lists. Integers
  are Python's, unbounded; the widths that matter are those of columns and of vendor amounts, and are
  written out as guards. Doubles are pairs of a mantissa and an exponent, rounded as Python does.

  \<^bold>\<open>Not modelled.\<close> Views, serializers beyond the bodies that guard a service, permissions and logins; mail,
  chat and push messages after a transaction; rendering of documents, labels and calendars; object
  storage beyond the table of its objects; the HTTP clients of vendors; the encryption of personal
  data, which is off by default; the signing of the audit trail, of which only the appended rows are
  kept; backup, migration and export of tenants, of which only the write fence is kept, as a flag. Whether a
  member is present, the module switches, the clock and the limits of a plan are values of the
  environment a service gets.
\<close>

end
